(* ===== verification/Prelude.thy ===== *)
theory Prelude
  imports Complex_Main
begin

text \<open>
  What the component theories share: the types that stand for Python's numbers, text, dates and
  errors, the text operations of the standard library that the sources call (\<open>strip\<close>,
  \<open>upper\<close>, \<open>lower\<close>, \<open>split\<close>, \<open>int\<close>, \<open>:04d\<close> formatting), the proleptic
  Gregorian calendar of \<open>datetime\<close>, and the generic lemmas on lists, sums and maps.

  Conventions.
  \<^item> \<open>Decimal\<close> and \<open>float\<close> amounts are exact rationals (\<open>decimal\<close>). The sources build
    every \<open>Decimal\<close> they compare from text or from other decimals; rounding to 28 digits and
    binary floating point error are outside the model.
  \<^item> \<open>str\<close> is \<open>string\<close>; case folding and white space are those of ASCII text.
  \<^item> A \<open>datetime\<close> is the number of microseconds since 0001-01-01T00:00 on the wall clock of
    its own zone, a \<open>timedelta\<close> a number of microseconds.
  \<^item> A raised exception is \<open>Inl\<close> of \<open>py_error\<close>, a returned value \<open>Inr\<close>.
\<close>

section \<open>Numbers, text, errors\<close>

type_synonym decimal = rat
type_synonym datetime = int
type_synonym timedelta = int

datatype py_error =
    ValueError string
  | IndexError
  | AttributeError
  | KeyError
  | TypeError
  | ZeroDivisionError
  | RuntimeError string
  | AssertionError

type_synonym 'a result = "py_error + 'a"

definition res_bind :: "'a result \<Rightarrow> ('a \<Rightarrow> 'b result) \<Rightarrow> 'b result" where
  "res_bind m f = (case m of Inl e \<Rightarrow> Inl e | Inr x \<Rightarrow> f x)"

definition is_ok :: "'a result \<Rightarrow> bool" where
  "is_ok r = (case r of Inl _ \<Rightarrow> False | Inr _ \<Rightarrow> True)"

text \<open>\<open>dict.get(k, d)\<close>.\<close>

definition get_or :: "('k \<rightharpoonup> 'v) \<Rightarrow> 'k \<Rightarrow> 'v \<Rightarrow> 'v" where
  "get_or m k d = (case m k of None \<Rightarrow> d | Some v \<Rightarrow> v)"

section \<open>Text\<close>

definition char_code :: "char \<Rightarrow> nat" where
  "char_code c = of_char c"

definition py_isspace :: "char \<Rightarrow> bool" where
  "py_isspace c = (let n = char_code c in (9 \<le> n \<and> n \<le> 13) \<or> (28 \<le> n \<and> n \<le> 32))"

definition py_isdigit :: "char \<Rightarrow> bool" where
  "py_isdigit c = (let n = char_code c in 48 \<le> n \<and> n \<le> 57)"

definition char_upper :: "char \<Rightarrow> char" where
  "char_upper c = (let n = char_code c in if 97 \<le> n \<and> n \<le> 122 then char_of (n - 32) else c)"

definition char_lower :: "char \<Rightarrow> char" where
  "char_lower c = (let n = char_code c in if 65 \<le> n \<and> n \<le> 90 then char_of (n + 32) else c)"

definition py_upper :: "string \<Rightarrow> string" where
  "py_upper s = map char_upper s"

definition py_lower :: "string \<Rightarrow> string" where
  "py_lower s = map char_lower s"

definition py_lstrip :: "string \<Rightarrow> string" where
  "py_lstrip s = dropWhile py_isspace s"

definition py_rstrip :: "string \<Rightarrow> string" where
  "py_rstrip s = rev (dropWhile py_isspace (rev s))"

definition py_strip :: "string \<Rightarrow> string" where
  "py_strip s = py_rstrip (py_lstrip s)"

text \<open>\<open>str.split(sep)\<close> for a separator of one character: never the empty list.\<close>

fun py_split :: "char \<Rightarrow> string \<Rightarrow> string list" where
  "py_split d [] = [[]]"
| "py_split d (c # cs) =
     (if c = d then [] # py_split d cs
      else (case py_split d cs of [] \<Rightarrow> [[c]] | w # ws \<Rightarrow> (c # w) # ws))"

text \<open>\<open>str.startswith\<close>, and \<open>str.split(sep)[0]\<close> for a separator of several characters:
  the text before its first occurrence, or the whole text.\<close>

fun py_startswith :: "string \<Rightarrow> string \<Rightarrow> bool" where
  "py_startswith s [] = True"
| "py_startswith [] (p # ps) = False"
| "py_startswith (c # cs) (p # ps) = (c = p \<and> py_startswith cs ps)"

fun py_before :: "string \<Rightarrow> string \<Rightarrow> string" where
  "py_before sep [] = []"
| "py_before sep (c # cs) = (if py_startswith (c # cs) sep then [] else c # py_before sep cs)"

text \<open>\<open>sep.join(parts)\<close>.\<close>

fun py_join :: "string \<Rightarrow> string list \<Rightarrow> string" where
  "py_join sep [] = []"
| "py_join sep [s] = s"
| "py_join sep (s # ss) = s @ sep @ py_join sep ss"

text \<open>\<open>sub in text\<close>.\<close>

fun py_contains :: "string \<Rightarrow> string \<Rightarrow> bool" where
  "py_contains [] sub = (sub = [])"
| "py_contains (c # cs) sub = (py_startswith (c # cs) sub \<or> py_contains cs sub)"

text \<open>\<open>int(text)\<close>: surrounding white space, a sign, digits with single underscores between
  them, at most 4300 digits.\<close>

fun digits_value :: "nat \<Rightarrow> string \<Rightarrow> nat" where
  "digits_value acc [] = acc"
| "digits_value acc (c # cs) = digits_value (10 * acc + (char_code c - 48)) cs"

fun digits_ok :: "string \<Rightarrow> bool" where
  "digits_ok [] = False"
| "digits_ok [c] = py_isdigit c"
| "digits_ok (c # d # cs) =
     (py_isdigit c \<and> (if d = CHR ''_'' then digits_ok cs else digits_ok (d # cs)))"

definition py_int :: "string \<Rightarrow> int result" where
  "py_int s =
     (let t = py_strip s;
          (neg, ds) = (case t of
              [] \<Rightarrow> (False, [])
            | c # cs \<Rightarrow> if c = CHR ''-'' then (True, cs)
                        else if c = CHR ''+'' then (False, cs) else (False, c # cs));
          digs = filter (\<lambda>c. c \<noteq> CHR ''_'') ds
      in if digits_ok ds \<and> length digs \<le> 4300
         then Inr (if neg then - int (digits_value 0 digs) else int (digits_value 0 digs))
         else Inl (ValueError ''invalid literal for int()''))"

text \<open>Decimal digits of a natural number, and \<open>f"{n:0wd}"\<close>: the sign counts for the width.\<close>

fun nat_digits :: "nat \<Rightarrow> string" where
  "nat_digits n = (if n < 10 then [char_of (48 + n)]
                   else nat_digits (n div 10) @ [char_of (48 + n mod 10)])"

declare nat_digits.simps [simp del]

definition int_text :: "int \<Rightarrow> string" where
  "int_text n = (if n < 0 then CHR ''-'' # nat_digits (nat (- n)) else nat_digits (nat n))"

definition zero_pad :: "nat \<Rightarrow> string \<Rightarrow> string" where
  "zero_pad w s = replicate (w - length s) (CHR ''0'') @ s"

definition format_0d :: "nat \<Rightarrow> int \<Rightarrow> string" where
  "format_0d w n = (if n < 0 then CHR ''-'' # zero_pad (w - 1) (nat_digits (nat (- n)))
                    else zero_pad w (nat_digits (nat n)))"

section \<open>The calendar of \<open>datetime\<close>\<close>

definition is_leap :: "int \<Rightarrow> bool" where
  "is_leap y = (y mod 4 = 0 \<and> (y mod 100 \<noteq> 0 \<or> y mod 400 = 0))"

definition days_before_year :: "int \<Rightarrow> int" where
  "days_before_year y = (let p = y - 1 in p * 365 + p div 4 - p div 100 + p div 400)"

definition days_in_month :: "int \<Rightarrow> int \<Rightarrow> int" where
  "days_in_month y m =
     (if m = 2 then (if is_leap y then 29 else 28)
      else if m \<in> {4, 6, 9, 11} then 30 else 31)"

fun days_before_month_nat :: "int \<Rightarrow> nat \<Rightarrow> int" where
  "days_before_month_nat y 0 = 0"
| "days_before_month_nat y (Suc 0) = 0"
| "days_before_month_nat y (Suc (Suc m)) =
     days_before_month_nat y (Suc m) + days_in_month y (int (Suc m))"

definition ymd_ordinal :: "int \<Rightarrow> int \<Rightarrow> int \<Rightarrow> int" where
  "ymd_ordinal y m d = days_before_year y + days_before_month_nat y (nat m) + d"

abbreviation usec_per_day :: int where
  "usec_per_day \<equiv> 86400000000"

abbreviation seconds :: "int \<Rightarrow> timedelta" where
  "seconds n \<equiv> n * 1000000"

text \<open>\<open>datetime(y, m, d)\<close>: \<open>ValueError\<close> outside the supported range.\<close>

definition datetime_ymd :: "int \<Rightarrow> int \<Rightarrow> int \<Rightarrow> datetime result" where
  "datetime_ymd y m d =
     (if 1 \<le> y \<and> y \<le> 9999 \<and> 1 \<le> m \<and> m \<le> 12 \<and> 1 \<le> d \<and> d \<le> days_in_month y m
      then Inr ((ymd_ordinal y m d - 1) * usec_per_day)
      else Inl (ValueError ''date out of range''))"

text \<open>\<open>timedelta.days\<close>: the floor of the difference in days.\<close>

definition td_days :: "timedelta \<Rightarrow> int" where
  "td_days t = t div usec_per_day"

section \<open>Lemma collections and generic facts\<close>

named_theorems res_simps \<open>equations of the result combinators\<close>
named_theorems text_simps \<open>normal forms of text operations\<close>

lemma res_bind_simps [simp, res_simps]:
  "res_bind (Inl e) f = Inl e"
  "res_bind (Inr x) f = f x"
  by (simp_all add: res_bind_def)

lemma res_bind_Inr_iff [res_simps]:
  "res_bind m f = Inr y \<longleftrightarrow> (\<exists>x. m = Inr x \<and> f x = Inr y)"
  by (cases m) auto

lemma is_ok_simps [simp, res_simps]:
  "\<not> is_ok (Inl e)"
  "is_ok (Inr x)"
  by (simp_all add: is_ok_def)

lemma get_or_None [simp]: "m k = None \<Longrightarrow> get_or m k d = d"
  and get_or_Some [simp]: "m k = Some v \<Longrightarrow> get_or m k d = v"
  by (simp_all add: get_or_def)

lemma get_or_update [simp]:
  "get_or (m(k \<mapsto> v)) k' d = (if k' = k then v else get_or m k' d)"
  by (simp add: get_or_def)

lemma dropWhile_idem: "dropWhile P (dropWhile P xs) = dropWhile P xs"
  by (induction xs) auto

lemma char_code_upper:
  "char_code (char_upper c) = (let n = char_code c in if 97 \<le> n \<and> n \<le> 122 then n - 32 else n)"
  by (auto simp: char_code_def char_upper_def Let_def intro!: mod_less)

lemma char_code_lower:
  "char_code (char_lower c) = (let n = char_code c in if 65 \<le> n \<and> n \<le> 90 then n + 32 else n)"
  by (auto simp: char_code_def char_lower_def Let_def intro!: mod_less)

lemma char_upper_idem [simp]: "char_upper (char_upper c) = char_upper c"
  by (auto simp: char_upper_def [of "char_upper c"] char_code_upper Let_def)

lemma char_lower_idem [simp]: "char_lower (char_lower c) = char_lower c"
  by (auto simp: char_lower_def [of "char_lower c"] char_code_lower Let_def)

lemma py_upper_idem [simp, text_simps]: "py_upper (py_upper s) = py_upper s"
  by (simp add: py_upper_def)

lemma py_lower_idem [simp, text_simps]: "py_lower (py_lower s) = py_lower s"
  by (simp add: py_lower_def)

lemma isspace_upper [simp]: "py_isspace (char_upper c) = py_isspace c"
  by (auto simp: py_isspace_def char_code_upper Let_def)

lemma isspace_lower [simp]: "py_isspace (char_lower c) = py_isspace c"
  by (auto simp: py_isspace_def char_code_lower Let_def)

lemma char_lower_upper [simp]: "char_lower (char_upper c) = char_lower c"
proof -
  have "of_char (char_lower (char_upper c)) = (of_char (char_lower c) :: nat)"
    using char_code_lower [of "char_upper c"] char_code_lower [of c] char_code_upper [of c]
    by (auto simp: Let_def char_code_def split: if_splits)
  then show ?thesis by (simp only: of_char_eq_iff)
qed

lemma char_upper_lower [simp]: "char_upper (char_lower c) = char_upper c"
proof -
  have "of_char (char_upper (char_lower c)) = (of_char (char_upper c) :: nat)"
    using char_code_upper [of "char_lower c"] char_code_lower [of c] char_code_upper [of c]
    by (auto simp: Let_def char_code_def split: if_splits)
  then show ?thesis by (simp only: of_char_eq_iff)
qed

lemma py_upper_lower [simp, text_simps]: "py_upper (py_lower s) = py_upper s"
  by (simp add: py_lower_def py_upper_def)

lemma py_lower_upper [simp, text_simps]: "py_lower (py_upper s) = py_lower s"
  by (simp add: py_lower_def py_upper_def)

lemma lstrip_map: "(\<And>c. py_isspace (f c) = py_isspace c) \<Longrightarrow>
    py_lstrip (map f s) = map f (py_lstrip s)"
  by (simp add: py_lstrip_def dropWhile_map comp_def)

lemma rstrip_map: "(\<And>c. py_isspace (f c) = py_isspace c) \<Longrightarrow>
    py_rstrip (map f s) = map f (py_rstrip s)"
  by (simp add: py_rstrip_def rev_map dropWhile_map comp_def)

lemma py_strip_upper [text_simps]: "py_strip (py_upper s) = py_upper (py_strip s)"
  by (simp add: py_strip_def py_upper_def lstrip_map rstrip_map)

lemma py_strip_lower [text_simps]: "py_strip (py_lower s) = py_lower (py_strip s)"
  by (simp add: py_strip_def py_lower_def lstrip_map rstrip_map)

lemma py_rstrip_idem: "py_rstrip (py_rstrip s) = py_rstrip s"
  by (simp add: py_rstrip_def dropWhile_idem)

lemma py_rstrip_Cons:
  "\<not> py_isspace c \<Longrightarrow> py_rstrip (c # cs) = c # py_rstrip cs"
  by (auto simp: py_rstrip_def dropWhile_append dropWhile_eq_Nil_conv)

lemma py_lstrip_strip: "py_lstrip (py_strip s) = py_strip s"
proof (cases "py_lstrip s")
  case Nil
  then have "py_strip s = []" by (simp add: py_strip_def py_rstrip_def)
  then show ?thesis by (simp add: py_lstrip_def)
next
  case (Cons c cs)
  then have "\<not> py_isspace c"
    by (metis py_lstrip_def dropWhile_eq_Cons_conv)
  then show ?thesis
    by (simp add: py_strip_def Cons py_rstrip_Cons) (simp add: py_lstrip_def)
qed

lemma py_strip_idem [simp, text_simps]: "py_strip (py_strip s) = py_strip s"
proof -
  have "py_strip (py_strip s) = py_rstrip (py_strip s)"
    by (subst (1) py_strip_def) (simp add: py_lstrip_strip)
  then show ?thesis by (simp add: py_strip_def py_rstrip_idem)
qed

lemma py_lower_eq_Nil [simp]: "py_lower s = [] \<longleftrightarrow> s = []"
  and py_upper_eq_Nil [simp]: "py_upper s = [] \<longleftrightarrow> s = []"
  by (simp_all add: py_lower_def py_upper_def)

section \<open>Decimal text: \<open>int\<close> inverts formatting\<close>

lemma char_code_digit: "d < 10 \<Longrightarrow> char_code (char_of (48 + d)) = 48 + d"
  by (simp add: char_code_def)

lemma digits_value_append:
  "digits_value acc (xs @ ys) = digits_value (digits_value acc xs) ys"
  by (induction acc xs rule: digits_value.induct) simp_all

lemma digits_value_nat_digits: "digits_value 0 (nat_digits n) = n"
proof (induction n rule: nat_digits.induct)
  case (1 n)
  then show ?case
    by (subst nat_digits.simps) (auto simp: digits_value_append char_code_digit)
qed

lemma digits_value_zeros: "digits_value 0 (replicate k (CHR ''0'') @ s) = digits_value 0 s"
  by (induction k) (simp_all add: char_code_def)

lemma nat_digits_digit: "c \<in> set (nat_digits n) \<Longrightarrow> py_isdigit c"
proof (induction n rule: nat_digits.induct)
  case (1 n)
  have small: "py_isdigit (char_of (48 + d))" if "d < 10" for d :: nat
    using that by (simp add: py_isdigit_def char_code_digit Let_def)
  from "1.prems" show ?case
    by (subst (asm) nat_digits.simps) (auto split: if_splits intro: small "1.IH")
qed

lemma nat_digits_nonempty [simp]: "nat_digits n \<noteq> []"
  by (subst nat_digits.simps) simp

lemma length_nat_digits: "n < 10 ^ Suc k \<Longrightarrow> length (nat_digits n) \<le> Suc k"
proof (induction k arbitrary: n)
  case 0
  then show ?case by (subst nat_digits.simps) simp
next
  case (Suc k)
  then have "n div 10 < 10 ^ Suc k" by (simp add: less_mult_imp_div_less)
  from Suc.IH [OF this] show ?case by (subst nat_digits.simps) simp
qed

lemma digits_okI: "s \<noteq> [] \<Longrightarrow> (\<forall>c \<in> set s. py_isdigit c) \<Longrightarrow> digits_ok s"
  by (induction s rule: digits_ok.induct) (auto simp: py_isdigit_def char_code_def)

lemma digit_facts:
  assumes "py_isdigit c"
  shows "\<not> py_isspace c" "c \<noteq> CHR ''-''" "c \<noteq> CHR ''+''" "c \<noteq> CHR ''_''"
  using assms by (auto simp: py_isdigit_def py_isspace_def char_code_def Let_def)

lemma py_strip_digits: "\<forall>c \<in> set s. py_isdigit c \<Longrightarrow> py_strip s = s"
proof -
  assume d: "\<forall>c \<in> set s. py_isdigit c"
  have keep: "dropWhile py_isspace t = t" if "\<forall>c \<in> set t. py_isdigit c" for t
    using that by (cases t) (auto simp: digit_facts)
  show ?thesis using d by (simp add: py_strip_def py_lstrip_def py_rstrip_def keep)
qed

lemma py_int_digits:
  assumes "s \<noteq> []" "\<forall>c \<in> set s. py_isdigit c" "length s \<le> 4300"
  shows "py_int s = Inr (int (digits_value 0 s))"
proof -
  have "filter (\<lambda>c. c \<noteq> CHR ''_'') s = s"
    using assms(2) by (auto intro!: filter_True simp: digit_facts)
  with assms show ?thesis
    by (cases s) (auto simp: py_int_def py_strip_digits digits_okI digit_facts Let_def)
qed

definition digit_text :: "string \<Rightarrow> bool" where
  "digit_text s \<longleftrightarrow> s \<noteq> [] \<and> (\<forall>c \<in> set s. py_isdigit c) \<and> length s \<le> 4300"

lemma zero_pad_digits:
  assumes "n < 10 ^ Suc k" "w \<le> 4300" "k < 4300"
  shows "digit_text (zero_pad w (nat_digits n))"
    and "digits_value 0 (zero_pad w (nat_digits n)) = n"
  using length_nat_digits [OF assms(1)] assms nat_digits_digit [of _ n]
  by (auto simp: digit_text_def zero_pad_def digits_value_zeros digits_value_nat_digits
      py_isdigit_def char_code_def Let_def)

lemma format_0d_digits:
  assumes "0 \<le> n" "n < 10 ^ Suc k" "w \<le> 4300" "k < 4300"
  shows "digit_text (format_0d w n)" and "py_int (format_0d w n) = Inr n"
proof -
  have b: "nat n < 10 ^ Suc k" using assms(1,2) by (simp add: nat_less_iff)
  show "digit_text (format_0d w n)"
    using zero_pad_digits(1) [OF b assms(3,4)] assms(1) by (simp add: format_0d_def)
  then show "py_int (format_0d w n) = Inr n"
    using zero_pad_digits(2) [OF b assms(3,4)] assms(1)
    by (simp add: py_int_digits digit_text_def) (simp add: format_0d_def)
qed

lemma py_split_no_sep: "d \<notin> set s \<Longrightarrow> py_split d s = [s]"
  by (induction s) auto

lemma py_split_sep: "d \<notin> set s \<Longrightarrow> py_split d (s @ d # t) = s # py_split d t"
  by (induction s) auto

end
