(* ===== verification/Identifiers.thy ===== *)
theory Identifiers
  imports Prelude
begin

text \<open>
  Canonical identifiers (\<open>src/backend/app/core/identifiers.py\<close>). A value is \<open>None\<close> or its
  text \<open>str(value)\<close>. Every persisted key and every join column goes through these functions;
  the lemmas show that they are idempotent and that the strategy key forgets the casing of the
  alert.
\<close>

definition DEFAULT_STRATEGY_ID :: string where
  "DEFAULT_STRATEGY_ID = ''default_strategy''"

definition normalize_strategy_id :: "string option \<Rightarrow> string" where
  "normalize_strategy_id value =
     (let text = (case value of Some v \<Rightarrow> py_lower (py_strip v) | None \<Rightarrow> [])
      in if text \<noteq> [] then text else DEFAULT_STRATEGY_ID)"

definition normalize_trade_id :: "string option \<Rightarrow> string" where
  "normalize_trade_id value = (case value of Some v \<Rightarrow> py_strip v | None \<Rightarrow> [])"

definition normalize_symbol :: "string option \<Rightarrow> string" where
  "normalize_symbol value = (case value of Some v \<Rightarrow> py_upper (py_strip v) | None \<Rightarrow> [])"

definition normalize_account :: "string option \<Rightarrow> string" where
  "normalize_account value = (case value of Some v \<Rightarrow> py_upper (py_strip v) | None \<Rightarrow> [])"

definition normalize_signal_id :: "string option \<Rightarrow> string" where
  "normalize_signal_id value = (case value of Some v \<Rightarrow> py_strip v | None \<Rightarrow> [])"

lemmas normalize_defs =
  normalize_strategy_id_def normalize_trade_id_def normalize_symbol_def
  normalize_account_def normalize_signal_id_def

lemma default_strategy_canonical: "py_lower (py_strip DEFAULT_STRATEGY_ID) = DEFAULT_STRATEGY_ID"
  by code_simp

lemma normalize_symbol_idem [simp]:
  "normalize_symbol (Some (normalize_symbol v)) = normalize_symbol v"
  by (cases v) (simp_all add: normalize_symbol_def text_simps, code_simp)

lemma normalize_strategy_id_idem [simp]:
  "normalize_strategy_id (Some (normalize_strategy_id v)) = normalize_strategy_id v"
  using default_strategy_canonical
  by (cases v) (auto simp: normalize_strategy_id_def Let_def text_simps)

lemma normalize_signal_id_idem [simp]:
  "normalize_signal_id (Some (normalize_signal_id v)) = normalize_signal_id v"
  by (cases v) (simp_all add: normalize_signal_id_def, code_simp)

text \<open>
  C38. The strategy key is canonical: it is never empty, normalising it again changes nothing, and
  two spellings of one identifier that differ in letter case or in surrounding white space give
  the same key, so the duplicate key and the joins do not depend on the alert's capitalisation.
\<close>

theorem normalize_strategy_id_canonical:
  "normalize_strategy_id v \<noteq> []
   \<and> normalize_strategy_id (Some (normalize_strategy_id v)) = normalize_strategy_id v
   \<and> normalize_strategy_id (Some (py_upper s)) = normalize_strategy_id (Some s)
   \<and> normalize_strategy_id (Some (py_strip s)) = normalize_strategy_id (Some s)"
proof -
  have "normalize_strategy_id v \<noteq> []"
    by (simp add: normalize_strategy_id_def Let_def DEFAULT_STRATEGY_ID_def)
  moreover have "normalize_strategy_id (Some (py_upper s)) = normalize_strategy_id (Some s)"
    by (simp add: normalize_strategy_id_def text_simps)
  moreover have "normalize_strategy_id (Some (py_strip s)) = normalize_strategy_id (Some s)"
    by (simp add: normalize_strategy_id_def)
  ultimately show ?thesis by simp
qed

end
