(* ===== verification/Rms_Models.thy ===== *)
theory Rms_Models
  imports Identifiers
begin

text \<open>
  The data of the risk management system (\<open>src/backend/app/rms/models.py\<close>), the account margin
  snapshot it reads (\<open>services/account_margin.py\<close>), the resolved instrument a leg may carry
  (\<open>instruments/models.py\<close>), and the market-value arithmetic of check 101
  (\<open>rms/market_value.py\<close>).

  A dataclass is a record whose fields carry a prefix for their class (\<open>leg_\<close>, \<open>oi_\<close>,
  \<open>ctx_\<close>, \<dots>), an \<open>Enum\<close> a datatype, a dictionary a map, the set of processed signals a
  set. A key that the code builds as a tuple with or without the account is a datatype with one
  constructor per shape. \<open>reason\<close> texts are values of \<open>rms_reason\<close>: one constructor per
  message of the code, with the values the message interpolates.
\<close>

section \<open>Enumerations\<close>

datatype order_action = OPEN | CLOSE

datatype execution_intent_mode = MODE_OPEN | NORMAL_CLOSE | EMERGENCY_FLATTEN

datatype order_side = BUY | SELL

datatype rms_outcome = PASS | REJECT | ADJUST | HALT

definition side_value :: "order_side \<Rightarrow> string" where
  "side_value s = (case s of BUY \<Rightarrow> ''BUY'' | SELL \<Rightarrow> ''SELL'')"

section \<open>Legs and intents\<close>

record resolved_instrument =
  ri_symbol :: string
  ri_requested_instrument_type :: string
  ri_sec_type :: string
  ri_exchange :: string
  ri_currency :: string
  ri_con_id :: "int option"
  ri_market_data_con_id :: "int option"
  ri_multiplier :: decimal
  ri_primary_exchange :: "string option"
  ri_size_increment :: "decimal option"

text \<open>The values of the \<open>metadata\<close> dictionary of a leg.\<close>

datatype meta_value = MetaText string | MetaDecimal decimal

record order_leg =
  leg_symbol :: string
  leg_side :: order_side
  leg_quantity :: decimal
  leg_price :: decimal
  leg_contract_month :: "string option"
  leg_con_id :: "int option"
  leg_notional :: "decimal option"
  leg_instrument_type :: "string option"
  leg_weight :: "decimal option"
  leg_leg_index :: "int option"
  leg_metadata :: "(string \<times> meta_value) list option"
  leg_exchange :: "string option"
  leg_currency :: "string option"
  leg_resolved :: "resolved_instrument option"

definition effective_notional :: "order_leg \<Rightarrow> decimal" where
  "effective_notional leg =
     (case leg_notional leg of Some n \<Rightarrow> n | None \<Rightarrow> leg_quantity leg * leg_price leg)"

record order_intent =
  oi_signal_id :: string
  oi_strategy_id :: string
  oi_action :: order_action
  oi_legs :: "order_leg list"
  oi_account_id :: "int option"
  oi_ibkr_account :: "string option"
  oi_market :: "string option"
  oi_timestamp :: datetime
  oi_intent_mode :: execution_intent_mode

section \<open>Account-scoped keys\<close>

datatype duplicate_key = DupAccount int string string | DupGlobal string string

datatype scoped_key = Scoped int string | Unscoped string

definition duplicate_lookup_key :: "order_intent \<Rightarrow> duplicate_key" where
  "duplicate_lookup_key intent =
     (let strategy_id = normalize_strategy_id (Some (oi_strategy_id intent));
          signal_id = normalize_signal_id (Some (oi_signal_id intent))
      in case oi_account_id intent of
           Some a \<Rightarrow> DupAccount a strategy_id signal_id
         | None \<Rightarrow> DupGlobal strategy_id signal_id)"

definition open_position_key :: "order_intent \<Rightarrow> scoped_key" where
  "open_position_key intent =
     (let strategy_id = normalize_strategy_id (Some (oi_strategy_id intent))
      in case oi_account_id intent of Some a \<Rightarrow> Scoped a strategy_id | None \<Rightarrow> Unscoped strategy_id)"

definition exposure_key :: "order_intent \<Rightarrow> string \<Rightarrow> scoped_key" where
  "exposure_key intent symbol =
     (let symbol_key = normalize_symbol (Some symbol)
      in case oi_account_id intent of Some a \<Rightarrow> Scoped a symbol_key | None \<Rightarrow> Unscoped symbol_key)"

definition model_value_key :: "order_intent \<Rightarrow> (int \<times> string) option" where
  "model_value_key intent =
     (case oi_account_id intent of
        None \<Rightarrow> None
      | Some a \<Rightarrow> Some (a, normalize_strategy_id (Some (oi_strategy_id intent))))"

section \<open>Policy, configuration and snapshot\<close>

record margin_policy =
  mp_check_enabled :: bool
  mp_gate_basis :: string
  mp_min_free_buffer :: decimal
  mp_min_free_pct_of_netliq :: decimal
  mp_comfort_ratio :: decimal
  mp_confirm_borderline :: bool
  mp_enforce_look_ahead :: bool
  mp_reject_on_stale_snapshot :: bool
  mp_default_rate :: decimal
  mp_rate_safety_multiplier :: decimal

definition default_margin_policy :: margin_policy where
  "default_margin_policy = \<lparr>
     mp_check_enabled = False, mp_gate_basis = ''available_funds'', mp_min_free_buffer = 0,
     mp_min_free_pct_of_netliq = 5 / 100, mp_comfort_ratio = 80 / 100,
     mp_confirm_borderline = True, mp_enforce_look_ahead = True,
     mp_reject_on_stale_snapshot = True, mp_default_rate = 30 / 100,
     mp_rate_safety_multiplier = 110 / 100 \<rparr>"

text \<open>\<open>max_open_positions\<close> is optional because check 7 tests it against \<open>None\<close>.\<close>

record strategy_config =
  cfg_strategy_id :: string
  cfg_max_open_positions :: "int option"
  cfg_money_limit_per_symbol :: "decimal option"

record account_margin_snapshot =
  ms_ibkr_account :: string
  ms_currency :: "string option"
  ms_as_of :: "datetime option"
  ms_net_liquidation :: "decimal option"
  ms_available_funds :: "decimal option"
  ms_excess_liquidity :: "decimal option"
  ms_full_init_margin_req :: "decimal option"
  ms_full_maint_margin_req :: "decimal option"
  ms_buying_power :: "decimal option"
  ms_gross_position_value :: "decimal option"
  ms_total_cash_value :: "decimal option"
  ms_cushion :: "decimal option"
  ms_look_ahead_init_margin_req :: "decimal option"
  ms_look_ahead_maint_margin_req :: "decimal option"
  ms_look_ahead_available_funds :: "decimal option"
  ms_look_ahead_excess_liquidity :: "decimal option"
  ms_look_ahead_next_change :: "datetime option"
  ms_max_age_sec :: int

definition is_stale :: "datetime \<Rightarrow> account_margin_snapshot \<Rightarrow> bool" where
  "is_stale now s =
     (case ms_as_of s of None \<Rightarrow> True | Some t \<Rightarrow> now - t > seconds (ms_max_age_sec s))"

definition free_margin :: "account_margin_snapshot \<Rightarrow> string \<Rightarrow> decimal option" where
  "free_margin s basis =
     (if basis = ''excess_liquidity'' then ms_excess_liquidity s else ms_available_funds s)"

definition look_ahead_free_margin :: "account_margin_snapshot \<Rightarrow> string \<Rightarrow> decimal option" where
  "look_ahead_free_margin s basis =
     (if basis = ''excess_liquidity'' then ms_look_ahead_excess_liquidity s
      else ms_look_ahead_available_funds s)"

type_synonym rate_key = "string \<times> string \<times> string"

record rms_context =
  ctx_processed_signals :: "duplicate_key set"
  ctx_strategy_configs :: "string \<rightharpoonup> strategy_config"
  ctx_open_positions :: "scoped_key \<rightharpoonup> int"
  ctx_symbol_exposures :: "scoped_key \<rightharpoonup> decimal"
  ctx_per_symbol_limits :: "int \<times> string \<rightharpoonup> decimal"
  ctx_default_symbol_limits :: "int \<rightharpoonup> decimal"
  ctx_account_open_limits :: "int \<times> string \<rightharpoonup> int"
  ctx_model_value_limit :: "int \<times> string \<rightharpoonup> decimal"
  ctx_model_value_used :: "int \<times> string \<rightharpoonup> decimal"
  ctx_market_value_check_enabled :: bool
  ctx_margin_snapshots :: "string \<rightharpoonup> account_margin_snapshot"
  ctx_margin_commitments :: "string \<rightharpoonup> (datetime \<times> decimal) list"
  ctx_margin_rates :: "rate_key \<rightharpoonup> decimal"
  ctx_margin_rate_sources :: "rate_key \<rightharpoonup> string"
  ctx_margin_policy :: margin_policy
  ctx_current_time :: datetime
  ctx_rollover_window_days :: int
  ctx_target_rollover_month :: "string option"
  ctx_rollover_checker :: "(string option \<Rightarrow> datetime \<Rightarrow> int \<Rightarrow> bool) option"

definition empty_rms_context :: "datetime \<Rightarrow> rms_context" where
  "empty_rms_context now = \<lparr>
     ctx_processed_signals = {}, ctx_strategy_configs = Map.empty,
     ctx_open_positions = Map.empty, ctx_symbol_exposures = Map.empty,
     ctx_per_symbol_limits = Map.empty, ctx_default_symbol_limits = Map.empty,
     ctx_account_open_limits = Map.empty, ctx_model_value_limit = Map.empty,
     ctx_model_value_used = Map.empty, ctx_market_value_check_enabled = False,
     ctx_margin_snapshots = Map.empty, ctx_margin_commitments = Map.empty,
     ctx_margin_rates = Map.empty, ctx_margin_rate_sources = Map.empty,
     ctx_margin_policy = default_margin_policy, ctx_current_time = now,
     ctx_rollover_window_days = 7, ctx_target_rollover_month = None,
     ctx_rollover_checker = None \<rparr>"

section \<open>Results\<close>

datatype margin_band = COMFORTABLE | BORDERLINE | INSUFFICIENT

datatype rms_reason =
    MARGIN_CHECK_DISABLED
  | MARGIN_NO_IBKR_ACCOUNT
  | MARGIN_NO_SNAPSHOT string
  | MARGIN_SNAPSHOT_STALE string int
  | MARGIN_ZERO_REQUIRED
  | MARGIN_BASIS_MISSING string string
  | MARGIN_INSUFFICIENT string decimal decimal string "(string \<times> string) list"
  | MARGIN_BAND margin_band decimal decimal "(string \<times> string) list"
  | DUPLICATE_SIGNAL string string
  | MISSING_STRATEGY_ID
  | UNKNOWN_STRATEGY string
  | CONTRACT_MONTH_ROLLOVER "string option" "string option"
  | MISSING_STRATEGY_CONFIG string
  | INVALID_MAX_POSITIONS_LIMIT string "int option"
  | OPEN_POSITION_LIMIT_REACHED string int int
  | NO_SYMBOL_LIMIT_CONFIGURED "int option" string
  | MONEY_LIMIT_EXCEEDED string decimal decimal decimal decimal
  | MARKET_VALUE_CHECK_DISABLED
  | NO_ACCOUNT_SCOPE
  | MODEL_VALUE_LIMIT_UNKNOWN int string
  | MODEL_VALUE_EXCEEDED int string decimal decimal decimal decimal
  | KILL_SWITCH_EMERGENCY_CLOSE
  | CLOSE_SELECTED_PAIR

record check_result =
  cr_check_number :: int
  cr_check_name :: string
  cr_outcome :: rms_outcome
  cr_reason :: "rms_reason option"
  cr_adjusted_intent :: "order_intent option"

record rms_result =
  rr_outcome :: rms_outcome
  rr_intent :: order_intent
  rr_original_intent :: order_intent
  rr_check_number :: "int option"
  rr_reason :: "rms_reason option"
  rr_check_results :: "check_result list"
  rr_timestamp :: datetime

section \<open>Market value (check 101)\<close>

definition leg_market_value :: "order_leg \<Rightarrow> decimal" where
  "leg_market_value leg = \<bar>effective_notional leg\<bar>"

definition intent_market_value :: "order_intent \<Rightarrow> decimal" where
  "intent_market_value intent = sum_list (map leg_market_value (oi_legs intent))"

record position_row =
  pos_leg_a_signed_qty :: decimal
  pos_leg_a_entry_mark :: decimal
  pos_leg_b_symbol :: "string option"
  pos_leg_b_signed_qty :: "decimal option"
  pos_leg_b_entry_mark :: "decimal option"

definition position_row_market_value :: "position_row \<Rightarrow> decimal" where
  "position_row_market_value row =
     (let total = \<bar>pos_leg_a_signed_qty row\<bar> * \<bar>pos_leg_a_entry_mark row\<bar>
      in case (pos_leg_b_symbol row, pos_leg_b_signed_qty row, pos_leg_b_entry_mark row) of
           (Some b, Some q, Some m) \<Rightarrow> if b \<noteq> [] then total + \<bar>q\<bar> * \<bar>m\<bar> else total
         | _ \<Rightarrow> total)"

lemma leg_market_value_nonneg [simp]: "0 \<le> leg_market_value leg"
  by (simp add: leg_market_value_def)

lemma intent_market_value_nonneg [simp]: "0 \<le> intent_market_value intent"
  unfolding intent_market_value_def by (rule sum_list_nonneg) auto

lemma position_row_market_value_nonneg [simp]: "0 \<le> position_row_market_value row"
  by (auto simp: position_row_market_value_def Let_def split: option.splits)

text \<open>Fields no check looks at beyond the contract month: what an adjusted intent keeps.\<close>

definition same_but_month :: "order_intent \<Rightarrow> order_intent \<Rightarrow> bool" where
  "same_but_month i j \<longleftrightarrow>
     oi_signal_id j = oi_signal_id i \<and> oi_strategy_id j = oi_strategy_id i
   \<and> oi_action j = oi_action i \<and> oi_account_id j = oi_account_id i
   \<and> oi_ibkr_account j = oi_ibkr_account i \<and> oi_market j = oi_market i
   \<and> oi_timestamp j = oi_timestamp i
   \<and> map (\<lambda>l. l\<lparr>leg_contract_month := None\<rparr>) (oi_legs j)
     = map (\<lambda>l. l\<lparr>leg_contract_month := None\<rparr>) (oi_legs i)"

lemma same_but_month_refl [simp, intro]: "same_but_month i i"
  by (simp add: same_but_month_def)

lemma same_but_month_trans:
  "same_but_month i j \<Longrightarrow> same_but_month j k \<Longrightarrow> same_but_month i k"
  by (simp add: same_but_month_def)

lemma effective_notional_month [simp]:
  "effective_notional (l\<lparr>leg_contract_month := m\<rparr>) = effective_notional l"
  by (simp add: effective_notional_def split: option.split)

lemma map_via_month:
  assumes "same_but_month i j"
    and f: "\<And>l. f (l\<lparr>leg_contract_month := None\<rparr>) = f l"
  shows "map f (oi_legs j) = map f (oi_legs i)"
proof -
  have "map f (oi_legs j) = map f (map (\<lambda>l. l\<lparr>leg_contract_month := None\<rparr>) (oi_legs j))"
    by (simp add: f)
  also have "\<dots> = map f (map (\<lambda>l. l\<lparr>leg_contract_month := None\<rparr>) (oi_legs i))"
    using assms(1) by (simp add: same_but_month_def)
  finally show ?thesis by (simp add: f)
qed

lemma same_but_month_fields:
  assumes "same_but_month i j"
  shows "oi_signal_id j = oi_signal_id i" "oi_strategy_id j = oi_strategy_id i"
    "oi_action j = oi_action i" "oi_account_id j = oi_account_id i"
    "oi_ibkr_account j = oi_ibkr_account i"
  using assms by (simp_all add: same_but_month_def)

lemma same_but_month_keys:
  assumes "same_but_month i j"
  shows "open_position_key j = open_position_key i" "exposure_key j s = exposure_key i s"
    "model_value_key j = model_value_key i" "duplicate_lookup_key j = duplicate_lookup_key i"
  using same_but_month_fields [OF assms]
  by (simp_all add: open_position_key_def exposure_key_def model_value_key_def
      duplicate_lookup_key_def Let_def split: option.split)

lemma same_but_month_market_value:
  "same_but_month i j \<Longrightarrow> intent_market_value j = intent_market_value i"
  unfolding intent_market_value_def
  by (drule map_via_month [where f = leg_market_value]) (simp_all add: leg_market_value_def)

end
