(* ===== verification/Rms_Checks.thy ===== *)
theory Rms_Checks
  imports Margin_Estimate
begin

text \<open>
  The seven checks of the risk management system (\<open>src/backend/app/rms/checks/*.py\<close>), each a
  function from the clock, the intent and the context to a \<open>CheckResult\<close> or a raised exception.
  The clock is read by check 1 only (\<open>AccountMarginSnapshot.is_stale\<close>).

  The interface the engine relies on is the locale \<open>rms_check\<close>; every check is an
  interpretation of it.
\<close>

type_synonym rms_check_fun = "datetime \<Rightarrow> order_intent \<Rightarrow> rms_context \<Rightarrow> check_result result"

definition mk_result ::
  "int \<Rightarrow> string \<Rightarrow> rms_outcome \<Rightarrow> rms_reason option \<Rightarrow> order_intent option \<Rightarrow> check_result" where
  "mk_result n name out r adj = \<lparr> cr_check_number = n, cr_check_name = name, cr_outcome = out,
     cr_reason = r, cr_adjusted_intent = adj \<rparr>"

lemma mk_result_simps [simp]:
  "cr_check_number (mk_result n name out r adj) = n"
  "cr_check_name (mk_result n name out r adj) = name"
  "cr_outcome (mk_result n name out r adj) = out"
  "cr_reason (mk_result n name out r adj) = r"
  "cr_adjusted_intent (mk_result n name out r adj) = adj"
  by (simp_all add: mk_result_def)

section \<open>Check 1: margin\<close>

definition margin_check :: rms_check_fun where
  "margin_check now intent ctx =
     (let policy = ctx_margin_policy ctx;
          res = mk_result 1 ''MARGIN'';
          account = py_upper (py_strip (case oi_ibkr_account intent of None \<Rightarrow> [] | Some a \<Rightarrow> a))
      in if \<not> mp_check_enabled policy then Inr (res PASS (Some MARGIN_CHECK_DISABLED) None)
         else if oi_action intent = CLOSE \<or> oi_intent_mode intent = EMERGENCY_FLATTEN
         then Inr (res PASS None None)
         else if account = [] then Inr (res REJECT (Some MARGIN_NO_IBKR_ACCOUNT) None)
         else (case ctx_margin_snapshots ctx account of
           None \<Rightarrow> Inr (res REJECT (Some (MARGIN_NO_SNAPSHOT account)) None)
         | Some snapshot \<Rightarrow>
             if is_stale now snapshot \<and> mp_reject_on_stale_snapshot policy
             then Inr (res REJECT (Some (MARGIN_SNAPSHOT_STALE account (ms_max_age_sec snapshot))) None)
             else (let (required, sources) =
                         estimate_required_margin intent (ctx_margin_rates ctx)
                           (ctx_margin_rate_sources ctx) policy
                   in if required \<le> 0 then Inr (res PASS (Some MARGIN_ZERO_REQUIRED) None)
                      else (case effective_free_margin snapshot
                                   (get_or (ctx_margin_commitments ctx) account []) policy of
                        None \<Rightarrow> Inr (res REJECT
                                  (Some (MARGIN_BASIS_MISSING (mp_gate_basis policy) account)) None)
                      | Some effective \<Rightarrow>
                          (let band = classify_headroom required effective policy
                           in if band = INSUFFICIENT
                              then Inr (res REJECT (Some (MARGIN_INSUFFICIENT account required
                                          effective (mp_gate_basis policy) sources)) None)
                              else Inr (res PASS (Some (MARGIN_BAND band required effective
                                          sources)) None))))))"

section \<open>Check 2: duplicate\<close>

definition duplicate_check :: rms_check_fun where
  "duplicate_check now intent ctx =
     (let res = mk_result 2 ''DUPLICATE''
      in if oi_action intent = CLOSE then Inr (res PASS None None)
         else if duplicate_lookup_key intent \<in> ctx_processed_signals ctx
         then Inr (res REJECT
                (Some (DUPLICATE_SIGNAL (oi_signal_id intent) (oi_strategy_id intent))) None)
         else Inr (res PASS None None))"

section \<open>Check 3: strategy\<close>

definition strategy_check :: rms_check_fun where
  "strategy_check now intent ctx =
     (let res = mk_result 3 ''STRATEGY''
      in if oi_action intent = CLOSE \<or> oi_intent_mode intent = EMERGENCY_FLATTEN
         then Inr (res PASS None None)
         else if oi_strategy_id intent = [] \<or> py_strip (oi_strategy_id intent) = []
         then Inr (res REJECT (Some MISSING_STRATEGY_ID) None)
         else if ctx_strategy_configs ctx (oi_strategy_id intent) = None
         then Inr (res REJECT (Some (UNKNOWN_STRATEGY (oi_strategy_id intent))) None)
         else Inr (res PASS None None))"

section \<open>Check 4: contract month\<close>

definition EXPIRY_SEC_TYPES :: "string list" where
  "EXPIRY_SEC_TYPES = [''FUT'', ''FOP'', ''OPT'']"

definition EXPLICIT_SEC_TYPE :: "string \<rightharpoonup> string" where
  "EXPLICIT_SEC_TYPE = [''STK'' \<mapsto> ''STK'', ''ETF'' \<mapsto> ''STK'', ''CFD'' \<mapsto> ''CFD'']"

definition ibkr_sec_type_or_none :: "string option \<Rightarrow> string option" where
  "ibkr_sec_type_or_none requested =
     (let raw = py_upper (py_strip (case requested of None \<Rightarrow> [] | Some r \<Rightarrow> r))
      in if raw = [] then None else Some (get_or EXPLICIT_SEC_TYPE raw raw))"

definition is_expiry_instrument :: "string option \<Rightarrow> bool" where
  "is_expiry_instrument instrument_type =
     (let raw = py_upper (py_strip (case instrument_type of None \<Rightarrow> [] | Some r \<Rightarrow> r))
      in raw \<in> set EXPIRY_SEC_TYPES
         \<or> (case ibkr_sec_type_or_none (Some raw) of
              None \<Rightarrow> False | Some t \<Rightarrow> t \<in> set EXPIRY_SEC_TYPES))"

text \<open>\<open>parts[0], parts[1]\<close> after \<open>split("-")\<close>, each through \<open>int\<close>, in that order.\<close>

definition year_month :: "string \<Rightarrow> (int \<times> int) result" where
  "year_month month_text =
     (case py_split (CHR ''-'') month_text of
        y # rest \<Rightarrow>
          res_bind (py_int y) (\<lambda>year.
            case rest of
              [] \<Rightarrow> Inl IndexError
            | m # _ \<Rightarrow> res_bind (py_int m) (\<lambda>month. Inr (year, month)))
      | [] \<Rightarrow> Inl IndexError)"

definition get_next_contract_month :: "string \<Rightarrow> string" where
  "get_next_contract_month current =
     (case year_month current of
        Inl e \<Rightarrow> current
      | Inr (year, month) \<Rightarrow>
          if month = 12 then format_0d 4 (year + 1) @ ''-01''
          else format_0d 4 year @ ''-'' @ format_0d 2 (month + 1))"

text \<open>\<open>ValueError\<close>, \<open>TypeError\<close> and \<open>OverflowError\<close> are caught; \<open>IndexError\<close> (no dash)
  and \<open>AttributeError\<close> (a leg without a contract month) are not.\<close>

definition is_default_rollover_active ::
  "string option \<Rightarrow> datetime \<Rightarrow> int \<Rightarrow> bool result" where
  "is_default_rollover_active contract_month current_time window_days =
     (case contract_month of
        None \<Rightarrow> Inl AttributeError
      | Some cm \<Rightarrow>
          (case res_bind (year_month cm) (\<lambda>(year, month).
                  if month = 12 then datetime_ymd (year + 1) 1 1
                  else datetime_ymd year (month + 1) 1) of
             Inl (ValueError msg) \<Rightarrow> Inr False
           | Inl TypeError \<Rightarrow> Inr False
           | Inl e \<Rightarrow> Inl e
           | Inr next_month_start \<Rightarrow>
               (let days_remaining = td_days (next_month_start - current_time)
                in Inr (0 \<le> days_remaining \<and> days_remaining \<le> window_days))))"

text \<open>The rollover decision for an OPEN intent.\<close>

definition contract_month_rollover ::
  "order_intent \<Rightarrow> rms_context \<Rightarrow> string option \<Rightarrow> bool result" where
  "contract_month_rollover intent ctx first_month =
     (if oi_action intent = OPEN then
        (case ctx_rollover_checker ctx of
           Some chk \<Rightarrow> Inr (chk first_month (ctx_current_time ctx) (ctx_rollover_window_days ctx))
         | None \<Rightarrow>
             if ctx_target_rollover_month ctx \<noteq> None then Inr True
             else is_default_rollover_active first_month (ctx_current_time ctx)
                    (ctx_rollover_window_days ctx))
      else Inr False)"

text \<open>\<open>get_next_contract_month(None)\<close>: \<open>None.split\<close> is an \<open>AttributeError\<close> that its handler
  does not name.\<close>

definition contract_month_target ::
  "rms_context \<Rightarrow> bool \<Rightarrow> string option \<Rightarrow> string option result" where
  "contract_month_target ctx should_rollover first_month =
     (case ctx_target_rollover_month ctx of
        Some t \<Rightarrow> Inr (Some t)
      | None \<Rightarrow>
          if should_rollover
          then (case first_month of
                  None \<Rightarrow> Inl AttributeError
                | Some m \<Rightarrow> Inr (Some (get_next_contract_month m)))
          else Inr first_month)"

text \<open>The adjusted intent is built field by field; \<open>intent_mode\<close> is not passed on, so it takes
  the constructor's default \<open>OPEN\<close>.\<close>

definition contract_month_adjust :: "order_intent \<Rightarrow> string option \<Rightarrow> order_intent" where
  "contract_month_adjust intent target_month =
     \<lparr> oi_signal_id = oi_signal_id intent, oi_strategy_id = oi_strategy_id intent,
       oi_action = oi_action intent,
       oi_legs = map (\<lambda>leg. leg\<lparr>leg_contract_month := target_month\<rparr>) (oi_legs intent),
       oi_account_id = oi_account_id intent, oi_ibkr_account = oi_ibkr_account intent,
       oi_market = oi_market intent, oi_timestamp = oi_timestamp intent,
       oi_intent_mode = MODE_OPEN \<rparr>"

definition contract_month_check :: rms_check_fun where
  "contract_month_check now intent ctx =
     (let res = mk_result 4 ''CONTRACT_MONTH'';
          expiry_legs = filter (\<lambda>leg. is_expiry_instrument (leg_instrument_type leg)) (oi_legs intent)
      in case expiry_legs of
           [] \<Rightarrow> Inr (res PASS None None)
         | first # _ \<Rightarrow>
             (let first_month = leg_contract_month first;
                  mismatched_legs = (\<exists>leg \<in> set expiry_legs. leg_contract_month leg \<noteq> first_month)
              in res_bind (contract_month_rollover intent ctx first_month) (\<lambda>should_rollover.
                   if \<not> should_rollover \<and> \<not> mismatched_legs then Inr (res PASS None None)
                   else res_bind (contract_month_target ctx should_rollover first_month)
                     (\<lambda>target_month.
                        Inr (res ADJUST (Some (CONTRACT_MONTH_ROLLOVER first_month target_month))
                               (Some (contract_month_adjust intent target_month)))))))"

section \<open>Check 7: open-position limit\<close>

definition max_positions_for :: "order_intent \<Rightarrow> rms_context \<Rightarrow> strategy_config \<Rightarrow> int option" where
  "max_positions_for intent ctx cfg =
     (case oi_account_id intent of
        None \<Rightarrow> cfg_max_open_positions cfg
      | Some a \<Rightarrow>
          (case ctx_account_open_limits ctx (a, oi_strategy_id intent) of
             None \<Rightarrow> cfg_max_open_positions cfg
           | Some l \<Rightarrow> Some l))"

definition open_position_limit_check :: rms_check_fun where
  "open_position_limit_check now intent ctx =
     (let res = mk_result 7 ''OPEN_POSITION_LIMIT'';
          sid = oi_strategy_id intent
      in if oi_action intent = CLOSE then Inr (res PASS None None)
         else (case ctx_strategy_configs ctx sid of
           None \<Rightarrow> Inr (res REJECT (Some (MISSING_STRATEGY_CONFIG sid)) None)
         | Some cfg \<Rightarrow>
             (let current_positions = get_or (ctx_open_positions ctx) (open_position_key intent) 0;
                  max_positions = max_positions_for intent ctx cfg
              in case max_positions of
                   None \<Rightarrow> Inr (res REJECT (Some (INVALID_MAX_POSITIONS_LIMIT sid None)) None)
                 | Some m \<Rightarrow>
                     if m \<le> 0
                     then Inr (res REJECT (Some (INVALID_MAX_POSITIONS_LIMIT sid (Some m))) None)
                     else if current_positions \<ge> m
                     then Inr (res REJECT
                            (Some (OPEN_POSITION_LIMIT_REACHED sid current_positions m)) None)
                     else Inr (res PASS None None))))"

section \<open>Check 8: money per stock\<close>

text \<open>The dictionary of order notionals per symbol, in the order symbols are first seen.\<close>

fun add_notional :: "string \<Rightarrow> decimal \<Rightarrow> (string \<times> decimal) list \<Rightarrow> (string \<times> decimal) list" where
  "add_notional k v [] = [(k, v)]"
| "add_notional k v ((k', v') # d) =
     (if k' = k then (k', v' + v) # d else (k', v') # add_notional k v d)"

fun symbol_order_notionals ::
  "order_leg list \<Rightarrow> (string \<times> decimal) list \<Rightarrow> (string \<times> decimal) list" where
  "symbol_order_notionals [] d = d"
| "symbol_order_notionals (leg # legs) d =
     symbol_order_notionals legs
       (add_notional (normalize_symbol (Some (leg_symbol leg))) (effective_notional leg) d)"

definition limit_per_symbol ::
  "order_intent \<Rightarrow> rms_context \<Rightarrow> string \<Rightarrow> decimal option" where
  "limit_per_symbol intent ctx symbol =
     (let strategy_limit =
            (case ctx_strategy_configs ctx (oi_strategy_id intent) of
               None \<Rightarrow> None | Some cfg \<Rightarrow> cfg_money_limit_per_symbol cfg);
          account_limit =
            (case oi_account_id intent of
               None \<Rightarrow> None
             | Some a \<Rightarrow>
                 (case ctx_per_symbol_limits ctx (a, symbol) of
                    Some l \<Rightarrow> Some l
                  | None \<Rightarrow> ctx_default_symbol_limits ctx a))
      in case account_limit of Some l \<Rightarrow> Some l | None \<Rightarrow> strategy_limit)"

fun money_loop ::
  "order_intent \<Rightarrow> rms_context \<Rightarrow> (string \<times> decimal) list \<Rightarrow> check_result" where
  "money_loop intent ctx [] = mk_result 8 ''MONEY_PER_STOCK'' PASS None None"
| "money_loop intent ctx ((symbol, order_notional) # rest) =
     (case limit_per_symbol intent ctx symbol of
        None \<Rightarrow> mk_result 8 ''MONEY_PER_STOCK'' REJECT
                  (Some (NO_SYMBOL_LIMIT_CONFIGURED (oi_account_id intent) symbol)) None
      | Some limit \<Rightarrow>
          if limit \<le> 0
          then mk_result 8 ''MONEY_PER_STOCK'' REJECT
                 (Some (NO_SYMBOL_LIMIT_CONFIGURED (oi_account_id intent) symbol)) None
          else (let existing_exposure =
                      get_or (ctx_symbol_exposures ctx) (exposure_key intent symbol) 0;
                    total_exposure = existing_exposure + order_notional
                in if total_exposure > limit
                   then mk_result 8 ''MONEY_PER_STOCK'' REJECT
                          (Some (MONEY_LIMIT_EXCEEDED symbol total_exposure existing_exposure
                                   order_notional limit)) None
                   else money_loop intent ctx rest))"

definition money_per_stock_check :: rms_check_fun where
  "money_per_stock_check now intent ctx =
     (if oi_action intent = CLOSE \<or> oi_intent_mode intent = EMERGENCY_FLATTEN
      then Inr (mk_result 8 ''MONEY_PER_STOCK'' PASS None None)
      else Inr (money_loop intent ctx (symbol_order_notionals (oi_legs intent) [])))"

section \<open>Check 101: model market value\<close>

definition model_market_value_check :: rms_check_fun where
  "model_market_value_check now intent ctx =
     (let res = mk_result 101 ''MODEL_MARKET_VALUE''
      in if \<not> ctx_market_value_check_enabled ctx
         then Inr (res PASS (Some MARKET_VALUE_CHECK_DISABLED) None)
         else if oi_action intent = CLOSE \<or> oi_intent_mode intent = EMERGENCY_FLATTEN
         then Inr (res PASS None None)
         else (case model_value_key intent of
           None \<Rightarrow> Inr (res PASS (Some NO_ACCOUNT_SCOPE) None)
         | Some (a, sid) \<Rightarrow>
             (case ctx_model_value_limit ctx (a, sid) of
                None \<Rightarrow> Inr (res REJECT (Some (MODEL_VALUE_LIMIT_UNKNOWN a sid)) None)
              | Some limit \<Rightarrow>
                  if limit \<le> 0
                  then Inr (res REJECT (Some (MODEL_VALUE_LIMIT_UNKNOWN a sid)) None)
                  else (let required = intent_market_value intent
                        in if required \<le> 0 then Inr (res PASS None None)
                           else (let used = get_or (ctx_model_value_used ctx) (a, sid) 0;
                                     projected = used + required
                                 in if projected > limit
                                    then Inr (res REJECT (Some (MODEL_VALUE_EXCEEDED a sid
                                                projected used required limit)) None)
                                    else Inr (res PASS None None))))))"

end
