(* ===== verification/Rms_Contracts.thy ===== *)
theory Rms_Contracts
  imports Rms_Checks
begin

text \<open>
  The contract between the RMS engine and its checks, as locales, and the proof that each of the
  seven checks meets it. \<open>rms_check\<close> is what every check promises (its tag, what an adjustment
  keeps, that a CLOSE is never refused); \<open>rms_open_check\<close> adds the declarative condition that
  decides an OPEN. The predicates \<open>*_ok\<close> are that declarative reading of the checks.
\<close>

section \<open>What an adjustment may change\<close>

definition carries :: "order_intent \<Rightarrow> order_intent \<Rightarrow> bool" where
  "carries i j \<longleftrightarrow> same_but_month i j
     \<and> (oi_intent_mode j = oi_intent_mode i \<or> oi_intent_mode j = MODE_OPEN)"

lemma carries_refl [simp, intro]: "carries i i"
  by (simp add: carries_def)

lemma carries_trans: "carries i j \<Longrightarrow> carries j k \<Longrightarrow> carries i k"
  unfolding carries_def using same_but_month_trans by metis

lemma carries_same: "carries i j \<Longrightarrow> same_but_month i j"
  by (simp add: carries_def)

lemma carries_action: "carries i j \<Longrightarrow> oi_action j = oi_action i"
  by (simp add: carries_def same_but_month_def)

lemma carries_not_emergency:
  "carries i j \<Longrightarrow> oi_intent_mode i \<noteq> EMERGENCY_FLATTEN \<Longrightarrow> oi_intent_mode j \<noteq> EMERGENCY_FLATTEN"
  by (auto simp: carries_def)

section \<open>The interfaces\<close>

locale rms_check =
  fixes number :: int
    and name :: string
    and check :: rms_check_fun
  assumes tagged: "check now i c = Inr r \<Longrightarrow> cr_check_number r = number \<and> cr_check_name r = name"
    and adjust_iff: "check now i c = Inr r \<Longrightarrow>
      (cr_outcome r = ADJUST) = (cr_adjusted_intent r \<noteq> None)"
    and adjust_carries: "check now i c = Inr r \<Longrightarrow> cr_adjusted_intent r = Some j \<Longrightarrow> carries i j"
    and never_halts: "check now i c = Inr r \<Longrightarrow> cr_outcome r \<noteq> HALT"
    and close_passes: "oi_action i = CLOSE \<Longrightarrow>
      \<exists>r. check now i c = Inr r \<and> cr_outcome r \<noteq> REJECT"
begin

lemma stops_iff: "check now i c = Inr r \<Longrightarrow> cr_outcome r \<in> {REJECT, HALT} \<longleftrightarrow> cr_outcome r = REJECT"
  using never_halts by auto

end

locale rms_open_check = rms_check +
  fixes ok :: "datetime \<Rightarrow> order_intent \<Rightarrow> rms_context \<Rightarrow> bool"
  assumes decides: "oi_action i = OPEN \<Longrightarrow> oi_intent_mode i \<noteq> EMERGENCY_FLATTEN \<Longrightarrow>
      check now i c = Inr r \<Longrightarrow> (cr_outcome r = REJECT) = (\<not> ok now i c)"
    and ok_stable: "carries i j \<Longrightarrow> ok now j c = ok now i c"
begin

lemma decides_carried:
  assumes "carries i j" "oi_action i = OPEN" "oi_intent_mode i \<noteq> EMERGENCY_FLATTEN"
    and "check now j c = Inr r"
  shows "(cr_outcome r = REJECT) = (\<not> ok now i c)"
  using decides [of j now c r] ok_stable [OF assms(1)] assms carries_action carries_not_emergency
  by metis

end

section \<open>The declarative conditions\<close>

definition account_of :: "order_intent \<Rightarrow> string" where
  "account_of i = py_upper (py_strip (case oi_ibkr_account i of None \<Rightarrow> [] | Some a \<Rightarrow> a))"

definition required_margin :: "order_intent \<Rightarrow> rms_context \<Rightarrow> decimal" where
  "required_margin i c = sum_list (map (\<lambda>l. fst (leg_required_margin l (ctx_margin_rates c)
     (ctx_margin_rate_sources c) (ctx_margin_policy c))) (oi_legs i))"

definition margin_ok :: "datetime \<Rightarrow> order_intent \<Rightarrow> rms_context \<Rightarrow> bool" where
  "margin_ok now i c \<longleftrightarrow>
     (mp_check_enabled (ctx_margin_policy c) \<longrightarrow>
       account_of i \<noteq> [] \<and>
       (\<exists>s. ctx_margin_snapshots c (account_of i) = Some s
          \<and> \<not> (is_stale now s \<and> mp_reject_on_stale_snapshot (ctx_margin_policy c))
          \<and> (0 < required_margin i c \<longrightarrow>
               (\<exists>free. effective_free_margin s
                   (get_or (ctx_margin_commitments c) (account_of i) []) (ctx_margin_policy c) = Some free
                 \<and> required_margin i c < free - mp_min_free_buffer (ctx_margin_policy c)))))"

definition duplicate_ok :: "datetime \<Rightarrow> order_intent \<Rightarrow> rms_context \<Rightarrow> bool" where
  "duplicate_ok now i c \<longleftrightarrow> duplicate_lookup_key i \<notin> ctx_processed_signals c"

definition strategy_ok :: "datetime \<Rightarrow> order_intent \<Rightarrow> rms_context \<Rightarrow> bool" where
  "strategy_ok now i c \<longleftrightarrow>
     py_strip (oi_strategy_id i) \<noteq> [] \<and> ctx_strategy_configs c (oi_strategy_id i) \<noteq> None"

definition positions_ok :: "datetime \<Rightarrow> order_intent \<Rightarrow> rms_context \<Rightarrow> bool" where
  "positions_ok now i c \<longleftrightarrow>
     (\<exists>cfg m. ctx_strategy_configs c (oi_strategy_id i) = Some cfg
        \<and> max_positions_for i c cfg = Some m \<and> 0 < m
        \<and> get_or (ctx_open_positions c) (open_position_key i) 0 < m)"

definition symbol_notional :: "order_leg list \<Rightarrow> string \<Rightarrow> decimal" where
  "symbol_notional legs s =
     sum_list (map effective_notional (filter (\<lambda>l. normalize_symbol (Some (leg_symbol l)) = s) legs))"

definition money_ok :: "datetime \<Rightarrow> order_intent \<Rightarrow> rms_context \<Rightarrow> bool" where
  "money_ok now i c \<longleftrightarrow>
     (\<forall>l \<in> set (oi_legs i). let s = normalize_symbol (Some (leg_symbol l)) in
        \<exists>limit. limit_per_symbol i c s = Some limit \<and> 0 < limit
          \<and> get_or (ctx_symbol_exposures c) (exposure_key i s) 0 + symbol_notional (oi_legs i) s
             \<le> limit)"

definition market_value_ok :: "datetime \<Rightarrow> order_intent \<Rightarrow> rms_context \<Rightarrow> bool" where
  "market_value_ok now i c \<longleftrightarrow>
     (ctx_market_value_check_enabled c \<longrightarrow>
       (\<forall>key. model_value_key i = Some key \<longrightarrow>
          (\<exists>limit. ctx_model_value_limit c key = Some limit \<and> 0 < limit
             \<and> (0 < intent_market_value i \<longrightarrow>
                  get_or (ctx_model_value_used c) key 0 + intent_market_value i \<le> limit))))"

section \<open>The dictionary of notionals\<close>

lemma map_of_add_notional:
  "map_of (add_notional k v d) s
   = (if s = k then Some ((case map_of d k of None \<Rightarrow> 0 | Some w \<Rightarrow> w) + v) else map_of d s)"
  by (induction d) auto

lemma keys_add_notional: "set (map fst (add_notional k v d)) = insert k (set (map fst d))"
  by (induction k v d rule: add_notional.induct) auto

lemma distinct_add_notional:
  "distinct (map fst d) \<Longrightarrow> distinct (map fst (add_notional k v d))"
proof (induction d)
  case (Cons x d)
  then show ?case using keys_add_notional [of k v d] by (cases x) auto
qed simp

lemma distinct_notionals:
  "distinct (map fst d) \<Longrightarrow> distinct (map fst (symbol_order_notionals legs d))"
  by (induction legs d rule: symbol_order_notionals.induct) (simp_all add: distinct_add_notional)

lemma map_of_notionals:
  "map_of (symbol_order_notionals legs d) s
   = (if s \<in> (\<lambda>l. normalize_symbol (Some (leg_symbol l))) ` set legs \<or> map_of d s \<noteq> None
      then Some ((case map_of d s of None \<Rightarrow> 0 | Some w \<Rightarrow> w) + symbol_notional legs s)
      else None)"
proof (induction legs arbitrary: d)
  case Nil
  then show ?case by (auto simp: symbol_notional_def split: option.splits)
next
  case (Cons l legs)
  then show ?case
    by (auto simp: map_of_add_notional symbol_notional_def split: option.splits)
qed

lemma notionals_entries:
  "(s, n) \<in> set (symbol_order_notionals legs [])
   \<longleftrightarrow> s \<in> (\<lambda>l. normalize_symbol (Some (leg_symbol l))) ` set legs \<and> n = symbol_notional legs s"
proof -
  have "distinct (map fst (symbol_order_notionals legs []))" by (simp add: distinct_notionals)
  then have "(s, n) \<in> set (symbol_order_notionals legs [])
      \<longleftrightarrow> map_of (symbol_order_notionals legs []) s = Some n"
    by (simp add: map_of_eq_Some_iff)
  then show ?thesis by (auto simp: map_of_notionals)
qed

lemma money_loop_reject:
  "(cr_outcome (money_loop i c d) = REJECT)
   = (\<not> (\<forall>(s, n) \<in> set d. \<exists>limit. limit_per_symbol i c s = Some limit \<and> 0 < limit
          \<and> get_or (ctx_symbol_exposures c) (exposure_key i s) 0 + n \<le> limit))"
  by (induction i c d rule: money_loop.induct) (auto simp: Let_def not_less split: option.splits)

lemma money_loop_shape:
  "cr_check_number (money_loop i c d) = 8 \<and> cr_check_name (money_loop i c d) = ''MONEY_PER_STOCK''
   \<and> cr_outcome (money_loop i c d) \<in> {PASS, REJECT} \<and> cr_adjusted_intent (money_loop i c d) = None"
  by (induction i c d rule: money_loop.induct) (auto simp: Let_def split: option.splits)

lemma money_check_shape:
  "money_per_stock_check now i c = Inr r \<Longrightarrow>
     cr_check_number r = 8 \<and> cr_check_name r = ''MONEY_PER_STOCK''
   \<and> cr_outcome r \<in> {PASS, REJECT} \<and> cr_adjusted_intent r = None"
  using money_loop_shape [of i c "symbol_order_notionals (oi_legs i) []"]
  by (auto simp: money_per_stock_check_def split: if_splits)

lemma money_ok_entries:
  "money_ok now i c
   = (\<forall>(s, n) \<in> set (symbol_order_notionals (oi_legs i) []).
        \<exists>limit. limit_per_symbol i c s = Some limit \<and> 0 < limit
          \<and> get_or (ctx_symbol_exposures c) (exposure_key i s) 0 + n \<le> limit)"
  by (fastforce simp: money_ok_def notionals_entries Let_def)

section \<open>Stability of the conditions under an adjustment\<close>

lemma account_of_carries: "carries i j \<Longrightarrow> account_of j = account_of i"
  by (simp add: carries_def same_but_month_def account_of_def)

lemma required_margin_carries: "carries i j \<Longrightarrow> required_margin j c = required_margin i c"
  unfolding required_margin_def
  by (subst map_via_month [OF carries_same]) simp_all

lemma margin_ok_stable: "carries i j \<Longrightarrow> margin_ok now j c = margin_ok now i c"
  by (simp add: margin_ok_def account_of_carries required_margin_carries)

lemma limit_per_symbol_carries: "carries i j \<Longrightarrow> limit_per_symbol j c s = limit_per_symbol i c s"
  by (simp add: limit_per_symbol_def carries_def same_but_month_def)

lemma notionals_carries:
  assumes "carries i j"
  shows "symbol_order_notionals (oi_legs j) d = symbol_order_notionals (oi_legs i) d"
proof -
  have loop: "symbol_order_notionals legs d
      = foldl (\<lambda>d (s, n). add_notional s n d) d
          (map (\<lambda>l. (normalize_symbol (Some (leg_symbol l)), effective_notional l)) legs)" for legs d
    by (induction legs d rule: symbol_order_notionals.induct) simp_all
  have eq: "map (\<lambda>l. (normalize_symbol (Some (leg_symbol l)), effective_notional l)) (oi_legs j)
      = map (\<lambda>l. (normalize_symbol (Some (leg_symbol l)), effective_notional l)) (oi_legs i)"
    by (rule map_via_month [OF carries_same [OF assms]]) simp
  show ?thesis unfolding loop eq ..
qed

lemma money_ok_stable: "carries i j \<Longrightarrow> money_ok now j c = money_ok now i c"
  unfolding money_ok_entries
  by (simp add: notionals_carries limit_per_symbol_carries
      same_but_month_keys [OF carries_same])

lemma positions_ok_stable: "carries i j \<Longrightarrow> positions_ok now j c = positions_ok now i c"
  by (simp add: positions_ok_def max_positions_for_def same_but_month_keys [OF carries_same]
      same_but_month_fields [OF carries_same] cong: option.case_cong)

lemma market_value_ok_stable: "carries i j \<Longrightarrow> market_value_ok now j c = market_value_ok now i c"
  by (simp add: market_value_ok_def same_but_month_keys [OF carries_same]
      same_but_month_market_value [OF carries_same])

section \<open>Each check meets the contract\<close>

lemma contract_month_adjust_carries: "carries i (contract_month_adjust i t)"
  by (simp add: carries_def same_but_month_def contract_month_adjust_def comp_def)

lemma contract_month_cases:
  assumes "contract_month_check now i c = Inr r"
  shows "r = mk_result 4 ''CONTRACT_MONTH'' PASS None None
    \<or> (\<exists>reason t. r = mk_result 4 ''CONTRACT_MONTH'' ADJUST (Some reason)
          (Some (contract_month_adjust i t)))"
  using assms
  by (auto simp: contract_month_check_def Let_def res_bind_Inr_iff split: list.splits if_splits)

lemma contract_month_close:
  "oi_action i = CLOSE \<Longrightarrow> \<exists>r. contract_month_check now i c = Inr r"
  by (auto simp: contract_month_check_def contract_month_rollover_def contract_month_target_def
      Let_def split: list.splits option.splits)

interpretation margin_contract: rms_open_check 1 "''MARGIN''" margin_check margin_ok
proof unfold_locales
  fix now i c r
  assume "oi_action i = OPEN" "oi_intent_mode i \<noteq> EMERGENCY_FLATTEN" "margin_check now i c = Inr r"
  then show "(cr_outcome r = REJECT) = (\<not> margin_ok now i c)"
    by (auto simp: margin_check_def margin_ok_def account_of_def [symmetric] required_margin_def
        estimate_required_margin_sum [symmetric] classify_headroom_def Let_def not_le
        split: option.splits prod.splits if_splits)
qed (auto simp: margin_check_def Let_def margin_ok_stable split: option.splits prod.splits if_splits)

interpretation duplicate_contract: rms_open_check 2 "''DUPLICATE''" duplicate_check duplicate_ok
  by unfold_locales
    (auto simp: duplicate_check_def duplicate_ok_def Let_def same_but_month_keys [OF carries_same]
      split: if_splits)

interpretation strategy_contract: rms_open_check 3 "''STRATEGY''" strategy_check strategy_ok
  by unfold_locales
    (auto simp: strategy_check_def strategy_ok_def Let_def same_but_month_fields [OF carries_same]
        py_strip_def py_lstrip_def py_rstrip_def split: if_splits)

interpretation contract_month_contract: rms_open_check 4 "''CONTRACT_MONTH''" contract_month_check
  "\<lambda>now i c. True"
proof unfold_locales
  fix now and i :: order_intent and c
  assume "oi_action i = CLOSE"
  then obtain r where "contract_month_check now i c = Inr r"
    using contract_month_close by blast
  then show "\<exists>r. contract_month_check now i c = Inr r \<and> cr_outcome r \<noteq> REJECT"
    using contract_month_cases by fastforce
qed (auto dest!: contract_month_cases intro: contract_month_adjust_carries)

interpretation positions_contract: rms_open_check 7 "''OPEN_POSITION_LIMIT''"
  open_position_limit_check positions_ok
proof unfold_locales
  fix now i c r
  assume "oi_action i = OPEN" "oi_intent_mode i \<noteq> EMERGENCY_FLATTEN"
    "open_position_limit_check now i c = Inr r"
  then show "(cr_outcome r = REJECT) = (\<not> positions_ok now i c)"
    by (auto simp: open_position_limit_check_def positions_ok_def Let_def
        split: option.splits if_splits)
qed (auto simp: open_position_limit_check_def Let_def positions_ok_stable
      split: option.splits if_splits)

interpretation money_contract: rms_open_check 8 "''MONEY_PER_STOCK''" money_per_stock_check money_ok
proof unfold_locales
  fix now i c r
  assume "oi_action i = OPEN" "oi_intent_mode i \<noteq> EMERGENCY_FLATTEN"
    "money_per_stock_check now i c = Inr r"
  then show "(cr_outcome r = REJECT) = (\<not> money_ok now i c)"
    unfolding money_ok_entries money_loop_reject [symmetric]
    by (simp add: money_per_stock_check_def)
qed (auto simp: money_ok_stable dest!: money_check_shape, simp add: money_per_stock_check_def)

interpretation market_value_contract: rms_open_check 101 "''MODEL_MARKET_VALUE''"
  model_market_value_check market_value_ok
proof unfold_locales
  fix now i c r
  assume "oi_action i = OPEN" "oi_intent_mode i \<noteq> EMERGENCY_FLATTEN"
    "model_market_value_check now i c = Inr r"
  then show "(cr_outcome r = REJECT) = (\<not> market_value_ok now i c)"
    by (auto simp: model_market_value_check_def market_value_ok_def Let_def not_less
        split: option.splits if_splits)
qed (auto simp: model_market_value_check_def Let_def market_value_ok_stable
      split: option.splits if_splits)

end
