(* ===== verification/Rms_Engine.thy ===== *)
theory Rms_Engine
  imports Rms_Contracts
begin

text \<open>
  The RMS engine (\<open>src/backend/app/rms/engine.py\<close>): the checks run in a fixed order, a REJECT or
  HALT stops the evaluation, an ADJUST replaces the intent the later checks see, and every result
  is recorded. An exception raised by a check leaves \<open>evaluate\<close>.

  The engine is a client of the checks' contract: the locales \<open>rms_pipeline\<close> and
  \<open>rms_open_pipeline\<close> prove its behaviour for any list of checks that meet it, and are
  interpreted on the default list.
\<close>

fun evaluate_loop ::
  "rms_check_fun list \<Rightarrow> datetime \<Rightarrow> datetime \<Rightarrow> rms_context \<Rightarrow> order_intent \<Rightarrow> order_intent
    \<Rightarrow> check_result list \<Rightarrow> rms_result result" where
  "evaluate_loop [] now done_at ctx original current check_results =
     Inr \<lparr> rr_outcome = PASS, rr_intent = current, rr_original_intent = original,
           rr_check_number = None, rr_reason = None, rr_check_results = check_results,
           rr_timestamp = done_at \<rparr>"
| "evaluate_loop (check # rest) now done_at ctx original current check_results =
     res_bind (check now current ctx) (\<lambda>result.
       let results' = check_results @ [result] in
       if cr_outcome result = REJECT \<or> cr_outcome result = HALT
       then Inr \<lparr> rr_outcome = cr_outcome result, rr_intent = current,
                  rr_original_intent = original,
                  rr_check_number = Some (cr_check_number result), rr_reason = cr_reason result,
                  rr_check_results = results', rr_timestamp = done_at \<rparr>
       else evaluate_loop rest now done_at ctx original
              (case cr_adjusted_intent result of
                 Some j \<Rightarrow> if cr_outcome result = ADJUST then j else current
               | None \<Rightarrow> current)
              results')"

definition evaluate ::
  "rms_check_fun list \<Rightarrow> datetime \<Rightarrow> datetime \<Rightarrow> order_intent \<Rightarrow> rms_context \<Rightarrow> rms_result result" where
  "evaluate checks now done_at order_intent ctx =
     evaluate_loop checks now done_at ctx order_intent order_intent []"

definition get_default_checks :: "rms_check_fun list" where
  "get_default_checks =
     [margin_check, duplicate_check, strategy_check, contract_month_check,
      open_position_limit_check, money_per_stock_check, model_market_value_check]"

section \<open>Pipelines of checks that meet the contract\<close>

locale rms_pipeline =
  fixes checks :: "rms_check_fun list"
  assumes contract: "chk \<in> set checks \<Longrightarrow> \<exists>n nm. rms_check n nm chk"
begin

lemma sub_contract: "set cs \<subseteq> set checks \<Longrightarrow> chk \<in> set cs \<Longrightarrow> \<exists>n nm. rms_check n nm chk"
  using contract by blast

text \<open>One step of the loop: the intent that the next check sees.\<close>

lemma carried_on:
  assumes "chk \<in> set checks" "chk now cur ctx = Inr r"
  shows "carries cur (case cr_adjusted_intent r of
      Some j \<Rightarrow> if cr_outcome r = ADJUST then j else cur | None \<Rightarrow> cur)"
proof -
  from contract [OF assms(1)] obtain n nm where "rms_check n nm chk" by blast
  from rms_check.adjust_carries [OF this assms(2)] show ?thesis
    by (auto split: option.splits)
qed

lemma loop_carries:
  assumes "set cs \<subseteq> set checks"
    and "evaluate_loop cs now done_at ctx orig cur acc = Inr r"
  shows "carries cur (rr_intent r)"
  using assms
proof (induction cs arbitrary: cur acc)
  case Nil
  then show ?case by auto
next
  case (Cons chk cs)
  from Cons.prems(2) obtain x where x: "chk now cur ctx = Inr x"
    by (auto simp: res_bind_Inr_iff)
  show ?case
  proof (cases "cr_outcome x = REJECT \<or> cr_outcome x = HALT")
    case True
    with Cons.prems(2) x show ?thesis by (auto simp: Let_def)
  next
    case False
    with Cons.prems x have "carries (case cr_adjusted_intent x of
        Some j \<Rightarrow> if cr_outcome x = ADJUST then j else cur | None \<Rightarrow> cur) (rr_intent r)"
      by (intro Cons.IH [where acc = "acc @ [x]"]) (auto simp: Let_def)
    with carried_on [of chk, OF _ x] Cons.prems(1) show ?thesis
      by (meson carries_trans list.set_intros(1) subset_iff)
  qed
qed

lemma loop_close_passes:
  assumes "set cs \<subseteq> set checks" "oi_action cur = CLOSE"
  shows "\<exists>r. evaluate_loop cs now done_at ctx orig cur acc = Inr r \<and> rr_outcome r = PASS
    \<and> length (rr_check_results r) = length acc + length cs"
  using assms
proof (induction cs arbitrary: cur acc)
  case Nil
  then show ?case by simp
next
  case (Cons chk cs)
  from Cons.prems(1) obtain n nm where chk: "rms_check n nm chk"
    using contract [of chk] by auto
  obtain x where x: "chk now cur ctx = Inr x" "cr_outcome x \<noteq> REJECT"
    using rms_check.close_passes [OF chk Cons.prems(2)] by blast
  then have halt: "cr_outcome x \<noteq> HALT" using rms_check.never_halts [OF chk] by blast
  let ?next = "case cr_adjusted_intent x of
      Some j \<Rightarrow> if cr_outcome x = ADJUST then j else cur | None \<Rightarrow> cur"
  have "oi_action ?next = CLOSE"
    using carries_action [OF carried_on [of chk, OF _ x(1)]] Cons.prems by simp
  with Cons.IH [of ?next "acc @ [x]"] Cons.prems(1) x halt show ?case
    by (simp add: Let_def)
qed

lemma loop_outcome:
  assumes "set cs \<subseteq> set checks"
    and "evaluate_loop cs now done_at ctx orig cur acc = Inr r"
  shows "rr_outcome r \<in> {PASS, REJECT}
    \<and> (\<exists>rs. rr_check_results r = acc @ rs \<and> length rs \<le> length cs
        \<and> (rr_outcome r = PASS \<longrightarrow> length rs = length cs \<and> rr_check_number r = None
             \<and> (\<forall>x \<in> set rs. cr_outcome x \<in> {PASS, ADJUST}))
        \<and> (rr_outcome r = REJECT \<longrightarrow> (\<exists>ys y. rs = ys @ [y] \<and> cr_outcome y = REJECT
             \<and> rr_check_number r = Some (cr_check_number y) \<and> rr_reason r = cr_reason y
             \<and> (\<forall>x \<in> set ys. cr_outcome x \<in> {PASS, ADJUST}))))
    \<and> rr_original_intent r = orig"
  using assms
proof (induction cs arbitrary: cur acc)
  case Nil
  then show ?case by auto
next
  case (Cons chk cs)
  from Cons.prems(2) obtain x where x: "chk now cur ctx = Inr x"
    by (auto simp: res_bind_Inr_iff)
  from Cons.prems(1) obtain n nm where chk: "rms_check n nm chk"
    using contract [of chk] by auto
  have halt: "cr_outcome x \<noteq> HALT" using rms_check.never_halts [OF chk x] .
  show ?case
  proof (cases "cr_outcome x = REJECT")
    case True
    with Cons.prems(2) x show ?thesis by (auto simp: Let_def)
  next
    case False
    then have out: "cr_outcome x = PASS \<or> cr_outcome x = ADJUST"
      using halt by (cases "cr_outcome x") auto
    from False halt Cons.prems x
    have *: "evaluate_loop cs now done_at ctx orig (case cr_adjusted_intent x of
        Some j \<Rightarrow> if cr_outcome x = ADJUST then j else cur | None \<Rightarrow> cur) (acc @ [x]) = Inr r"
      and sub: "set cs \<subseteq> set checks"
      by (auto simp: Let_def)
    obtain rs where rs: "rr_check_results r = (acc @ [x]) @ rs" "length rs \<le> length cs"
      "rr_outcome r = PASS \<longrightarrow> length rs = length cs \<and> rr_check_number r = None
             \<and> (\<forall>x \<in> set rs. cr_outcome x \<in> {PASS, ADJUST})"
      "rr_outcome r = REJECT \<longrightarrow> (\<exists>ys y. rs = ys @ [y] \<and> cr_outcome y = REJECT
             \<and> rr_check_number r = Some (cr_check_number y) \<and> rr_reason r = cr_reason y
             \<and> (\<forall>x \<in> set ys. cr_outcome x \<in> {PASS, ADJUST}))"
      using Cons.IH [OF sub *] by blast
    have "rr_check_results r = acc @ (x # rs)" using rs(1) by simp
    moreover have "rr_outcome r = REJECT \<Longrightarrow> \<exists>ys y. x # rs = ys @ [y] \<and> cr_outcome y = REJECT
             \<and> rr_check_number r = Some (cr_check_number y) \<and> rr_reason r = cr_reason y
             \<and> (\<forall>x \<in> set ys. cr_outcome x \<in> {PASS, ADJUST})"
    proof -
      assume "rr_outcome r = REJECT"
      with rs(4) obtain ys y where y: "rs = ys @ [y]" "cr_outcome y = REJECT"
        "rr_check_number r = Some (cr_check_number y)" "rr_reason r = cr_reason y"
        "\<forall>x \<in> set ys. cr_outcome x \<in> {PASS, ADJUST}" by blast
      then show ?thesis using out by (intro exI [of _ "x # ys"] exI [of _ y]) auto
    qed
    ultimately show ?thesis using Cons.IH [OF sub *] rs(2,3) out
      by (intro conjI exI [of _ "x # rs"]) auto
  qed
qed

lemma evaluate_carries:
  "evaluate checks now done_at i ctx = Inr r \<Longrightarrow> carries i (rr_intent r)"
  unfolding evaluate_def by (rule loop_carries) auto

lemma evaluate_close:
  "oi_action i = CLOSE \<Longrightarrow>
     \<exists>r. evaluate checks now done_at i ctx = Inr r \<and> rr_outcome r = PASS
       \<and> length (rr_check_results r) = length checks"
  unfolding evaluate_def using loop_close_passes [of checks i now done_at ctx i "[]"] by simp

lemmas evaluate_outcome =
  loop_outcome [of checks _ _ _ _ _ "[]", folded evaluate_def, OF subset_refl, simplified]

end

locale rms_open_pipeline =
  fixes entries :: "(rms_check_fun \<times> (datetime \<Rightarrow> order_intent \<Rightarrow> rms_context \<Rightarrow> bool)) list"
  assumes entry: "(chk, ok) \<in> set entries \<Longrightarrow> \<exists>n nm. rms_open_check n nm chk ok"

sublocale rms_open_pipeline \<subseteq> rms_pipeline "map fst entries"
proof
  fix chk
  assume "chk \<in> set (map fst entries)"
  then obtain ok where "(chk, ok) \<in> set entries" by auto
  with entry show "\<exists>n nm. rms_check n nm chk"
    by (meson rms_open_check.axioms(1))
qed

context rms_open_pipeline
begin

lemma loop_decides:
  assumes "set es \<subseteq> set entries" "carries orig cur"
    and "oi_action orig = OPEN" "oi_intent_mode orig \<noteq> EMERGENCY_FLATTEN"
    and "evaluate_loop (map fst es) now done_at ctx o' cur acc = Inr r"
  shows "(rr_outcome r = PASS) = (\<forall>(chk, ok) \<in> set es. ok now orig ctx)"
  using assms(1,2,5)
proof (induction es arbitrary: cur acc)
  case Nil
  then show ?case by auto
next
  case (Cons e es)
  obtain chk ok where e: "e = (chk, ok)" by force
  with Cons.prems(1) obtain n nm where oc: "rms_open_check n nm chk ok"
    using entry [of chk ok] by auto
  note chk = rms_open_check.axioms(1) [OF oc]
  from Cons.prems(3) e obtain x where x: "chk now cur ctx = Inr x"
    by (auto simp: res_bind_Inr_iff)
  have dec: "(cr_outcome x = REJECT) = (\<not> ok now orig ctx)"
    by (rule rms_open_check.decides_carried [OF oc Cons.prems(2) assms(3,4) x])
  have halt: "cr_outcome x \<noteq> HALT" using rms_check.never_halts [OF chk x] .
  show ?case
  proof (cases "cr_outcome x = REJECT")
    case True
    with Cons.prems(3) x e dec show ?thesis by (auto simp: Let_def)
  next
    case False
    let ?next = "case cr_adjusted_intent x of
        Some j \<Rightarrow> if cr_outcome x = ADJUST then j else cur | None \<Rightarrow> cur"
    have "chk \<in> set (map fst entries)" using Cons.prems(1) e by force
    then have "carries orig ?next"
      using carried_on [of chk, OF _ x] Cons.prems(2) carries_trans by blast
    moreover have "evaluate_loop (map fst es) now done_at ctx o' ?next (acc @ [x]) = Inr r"
      using Cons.prems(3) x e False halt by (simp add: Let_def)
    ultimately show ?thesis
      using Cons.IH [of ?next "acc @ [x]"] Cons.prems(1) dec False e by simp
  qed
qed

lemma evaluate_decides:
  assumes "oi_action i = OPEN" "oi_intent_mode i \<noteq> EMERGENCY_FLATTEN"
    and "evaluate (map fst entries) now done_at i ctx = Inr r"
  shows "(rr_outcome r = PASS) = (\<forall>(chk, ok) \<in> set entries. ok now i ctx)"
  using loop_decides [OF subset_refl carries_refl assms(1,2)] assms(3)
  unfolding evaluate_def by blast

end

definition default_entries ::
  "(rms_check_fun \<times> (datetime \<Rightarrow> order_intent \<Rightarrow> rms_context \<Rightarrow> bool)) list" where
  "default_entries =
     [(margin_check, margin_ok), (duplicate_check, duplicate_ok), (strategy_check, strategy_ok),
      (contract_month_check, \<lambda>now i c. True), (open_position_limit_check, positions_ok),
      (money_per_stock_check, money_ok), (model_market_value_check, market_value_ok)]"

lemma default_checks_entries: "map fst default_entries = get_default_checks"
  by (simp add: default_entries_def get_default_checks_def)

interpretation default_rms: rms_open_pipeline default_entries
proof
  fix chk ok
  assume "(chk, ok) \<in> set default_entries"
  then show "\<exists>n nm. rms_open_check n nm chk ok"
    unfolding default_entries_def
    using margin_contract.rms_open_check_axioms duplicate_contract.rms_open_check_axioms
      strategy_contract.rms_open_check_axioms contract_month_contract.rms_open_check_axioms
      positions_contract.rms_open_check_axioms money_contract.rms_open_check_axioms
      market_value_contract.rms_open_check_axioms
    by auto
qed

end
