(* ===== verification/Rms_Properties.thy ===== *)
theory Rms_Properties
  imports Rms_Engine
begin

text \<open>
  The properties of the risk management system: what an accepted OPEN satisfies, that a CLOSE is
  never refused, what the audit trail says, that the margin arithmetic errs on the safe side, and
  the behaviour of the contract-month check on well-formed and on malformed months.
\<close>

section \<open>A concrete intent and context\<close>

definition sample_leg :: "string \<Rightarrow> order_side \<Rightarrow> decimal \<Rightarrow> string option \<Rightarrow> string option \<Rightarrow> order_leg" where
  "sample_leg symbol side qty month itype = \<lparr>
     leg_symbol = symbol, leg_side = side, leg_quantity = qty, leg_price = 10,
     leg_contract_month = month, leg_con_id = None, leg_notional = None,
     leg_instrument_type = itype, leg_weight = None, leg_leg_index = None, leg_metadata = None,
     leg_exchange = None, leg_currency = None, leg_resolved = None \<rparr>"

definition sample_intent ::
  "order_action \<Rightarrow> execution_intent_mode \<Rightarrow> order_leg list \<Rightarrow> order_intent" where
  "sample_intent act mode legs = \<lparr>
     oi_signal_id = ''T1'', oi_strategy_id = ''model_blue'', oi_action = act, oi_legs = legs,
     oi_account_id = Some 1, oi_ibkr_account = Some ''DU1'', oi_market = None, oi_timestamp = 0,
     oi_intent_mode = mode \<rparr>"

definition sample_snapshot :: account_margin_snapshot where
  "sample_snapshot = \<lparr>
     ms_ibkr_account = ''DU1'', ms_currency = None, ms_as_of = Some 0, ms_net_liquidation = None,
     ms_available_funds = Some 1000, ms_excess_liquidity = None, ms_full_init_margin_req = None,
     ms_full_maint_margin_req = None, ms_buying_power = None, ms_gross_position_value = None,
     ms_total_cash_value = None, ms_cushion = None, ms_look_ahead_init_margin_req = None,
     ms_look_ahead_maint_margin_req = None, ms_look_ahead_available_funds = None,
     ms_look_ahead_excess_liquidity = None, ms_look_ahead_next_change = None,
     ms_max_age_sec = 300 \<rparr>"

definition sample_context :: rms_context where
  "sample_context = (empty_rms_context 0)\<lparr>
     ctx_strategy_configs := [''model_blue'' \<mapsto> \<lparr> cfg_strategy_id = ''model_blue'',
        cfg_max_open_positions = Some 2, cfg_money_limit_per_symbol = Some 500 \<rparr>],
     ctx_margin_policy := default_margin_policy\<lparr>mp_check_enabled := True\<rparr>,
     ctx_margin_snapshots := [''DU1'' \<mapsto> sample_snapshot],
     ctx_margin_commitments := [''DU1'' \<mapsto> [(0, 100)]],
     ctx_market_value_check_enabled := True,
     ctx_model_value_limit := [(1, ''model_blue'') \<mapsto> 900] \<rparr>"

abbreviation sample_open :: order_intent where
  "sample_open \<equiv> sample_intent OPEN MODE_OPEN
     [sample_leg ''AAA'' BUY 20 None (Some ''STK''), sample_leg ''BBB'' SELL 20 None (Some ''STK'')]"

abbreviation sample_flatten :: order_intent where
  "sample_flatten \<equiv> sample_intent CLOSE EMERGENCY_FLATTEN
     [sample_leg ''ESA'' SELL 1 (Some ''2026-09'') (Some ''FUT''),
      sample_leg ''ESB'' BUY 1 (Some ''2026-12'') (Some ''FUT'')]"

section \<open>Admission of an OPEN\<close>

text \<open>
  C17. The pipeline of seven checks implements the declarative admission rule. For an OPEN intent
  that is not an emergency flatten, whenever the engine returns a result, it is PASS exactly when
  the margin gate, the duplicate rule, the strategy rule, the open-position limit, the money
  budget of every symbol and the market-value ceiling of the model all hold of the intent as it
  came in; and the intent handed on differs from it at most in contract months and in its mode.
\<close>

theorem rms_open_admission:
  assumes "oi_action i = OPEN" and "oi_intent_mode i \<noteq> EMERGENCY_FLATTEN"
    and "evaluate get_default_checks now done_at i ctx = Inr r"
  shows "(rr_outcome r = PASS \<longleftrightarrow>
            margin_ok now i ctx \<and> duplicate_ok now i ctx \<and> strategy_ok now i ctx
          \<and> positions_ok now i ctx \<and> money_ok now i ctx \<and> market_value_ok now i ctx)
       \<and> carries i (rr_intent r)"
proof -
  note ev = assms(3) [folded default_checks_entries]
  have "(rr_outcome r = PASS) = (\<forall>(chk, ok) \<in> set default_entries. ok now i ctx)"
    by (rule default_rms.evaluate_decides [OF assms(1,2) ev])
  moreover have "carries i (rr_intent r)"
    by (rule default_rms.evaluate_carries [OF ev])
  ultimately show ?thesis by (simp add: default_entries_def)
qed

theorem rms_open_admission_witness:
  "\<exists>r. evaluate get_default_checks 0 0 sample_open sample_context = Inr r \<and> rr_outcome r = PASS
     \<and> margin_ok 0 sample_open sample_context \<and> money_ok 0 sample_open sample_context"
proof -
  have "(case evaluate get_default_checks 0 0 sample_open sample_context of
      Inl e \<Rightarrow> False | Inr r \<Rightarrow> rr_outcome r = PASS)"
    by code_simp
  then obtain r where r: "evaluate get_default_checks 0 0 sample_open sample_context = Inr r"
    "rr_outcome r = PASS" by (auto split: sum.splits)
  from rms_open_admission [OF _ _ r(1)] r show ?thesis
    by (auto simp: sample_intent_def)
qed

text \<open>
  C18. A CLOSE is never blocked: for every CLOSE intent and every context the default engine returns
  normally, all seven checks run, the outcome is PASS, and the intent keeps everything but its
  contract months and its mode. Closing a position cannot be refused by a limit, a missing
  configuration, a stale snapshot or a malformed contract month.
\<close>

theorem rms_close_never_blocked:
  assumes "oi_action i = CLOSE"
  shows "\<exists>r. evaluate get_default_checks now done_at i ctx = Inr r \<and> rr_outcome r = PASS
     \<and> length (rr_check_results r) = 7 \<and> carries i (rr_intent r)"
proof -
  from default_rms.evaluate_close [OF assms, of now done_at ctx]
  obtain r where r: "evaluate get_default_checks now done_at i ctx = Inr r"
    "rr_outcome r = PASS" "length (rr_check_results r) = 7"
    unfolding default_checks_entries by (auto simp: get_default_checks_def)
  moreover have "carries i (rr_intent r)"
    using default_rms.evaluate_carries r(1) unfolding default_checks_entries by blast
  ultimately show ?thesis by blast
qed

theorem rms_close_never_blocked_witness:
  "\<exists>r. evaluate get_default_checks 0 0 sample_flatten (empty_rms_context 0) = Inr r
     \<and> rr_outcome r = PASS \<and> length (rr_check_results r) = 7"
proof -
  have "oi_action sample_flatten = CLOSE" by (simp add: sample_intent_def)
  from rms_close_never_blocked [OF this, of 0 0 "empty_rms_context 0"] show ?thesis by blast
qed

text \<open>
  The audit trail. Whenever the engine returns, its outcome is PASS or REJECT. On PASS all
  seven checks have a recorded result and none of them is a refusal. On REJECT the trail ends with
  the refusing check, which gives the result its number and its reason, and every result before it
  is a PASS or an ADJUST: evaluation stops at the first refusal.
\<close>

theorem rms_audit_trail:
  assumes "evaluate get_default_checks now done_at i ctx = Inr r"
  shows "(rr_outcome r = PASS \<and> length (rr_check_results r) = 7 \<and> rr_check_number r = None
            \<and> (\<forall>x \<in> set (rr_check_results r). cr_outcome x \<in> {PASS, ADJUST}))
       \<or> (rr_outcome r = REJECT \<and> (\<exists>ys y. rr_check_results r = ys @ [y] \<and> length ys < 7
            \<and> cr_outcome y = REJECT \<and> rr_check_number r = Some (cr_check_number y)
            \<and> rr_reason r = cr_reason y \<and> (\<forall>x \<in> set ys. cr_outcome x \<in> {PASS, ADJUST})))"
proof -
  have seven: "length get_default_checks = 7" by (simp add: get_default_checks_def)
  have "set get_default_checks \<subseteq> set (map fst default_entries)"
    unfolding default_checks_entries by simp
  from default_rms.loop_outcome [OF this assms [unfolded evaluate_def]]
  obtain rs where "rr_outcome r \<in> {PASS, REJECT}" "rr_check_results r = rs" "length rs \<le> 7"
    "rr_outcome r = PASS \<longrightarrow> length rs = 7 \<and> rr_check_number r = None
       \<and> (\<forall>x \<in> set rs. cr_outcome x \<in> {PASS, ADJUST})"
    "rr_outcome r = REJECT \<longrightarrow> (\<exists>ys y. rs = ys @ [y] \<and> cr_outcome y = REJECT
       \<and> rr_check_number r = Some (cr_check_number y) \<and> rr_reason r = cr_reason y
       \<and> (\<forall>x \<in> set ys. cr_outcome x \<in> {PASS, ADJUST}))"
    unfolding seven by auto
  then show ?thesis by (cases "rr_outcome r") force+
qed

theorem rms_audit_trail_witness:
  "\<exists>r. evaluate get_default_checks 0 0 sample_open (empty_rms_context 0) = Inr r
     \<and> rr_outcome r = REJECT \<and> rr_check_number r = Some 3
     \<and> (\<exists>ys y. rr_check_results r = ys @ [y] \<and> length ys < 7 \<and> cr_outcome y = REJECT)"
proof -
  have "(case evaluate get_default_checks 0 0 sample_open (empty_rms_context 0) of
      Inl e \<Rightarrow> False | Inr r \<Rightarrow> rr_outcome r = REJECT \<and> rr_check_number r = Some 3)"
    by code_simp
  then obtain r where r: "evaluate get_default_checks 0 0 sample_open (empty_rms_context 0) = Inr r"
    "rr_outcome r = REJECT" "rr_check_number r = Some 3" by (auto split: sum.splits)
  from rms_audit_trail [OF r(1)] r show ?thesis by auto
qed

section \<open>Margin arithmetic\<close>

text \<open>
  The margin gate is conservative. With non-negative commitments and rates: the required margin
  is never negative; every commitment recorded at or after the snapshot's time less five seconds
  lowers the effective free margin by its amount and no commitment raises it; adding a commitment
  never turns a refusal into an acceptance; and a required margin that is classified as acceptable
  stays strictly below the free margin less the operator's buffer.
\<close>

theorem margin_gate_conservative:
  assumes "rates_ok policy" and "\<forall>x \<in> set cs. 0 \<le> snd x" and "0 \<le> amount"
    and "effective_free_margin s cs policy = Some free"
  shows "0 \<le> fst (estimate_required_margin i rates sources policy)
    \<and> (\<exists>free'. effective_free_margin s ((t, amount) # cs) policy = Some free' \<and> free' \<le> free
         \<and> (\<forall>as_of. ms_as_of s = Some as_of \<and> as_of - COMMITMENT_GRACE \<le> t \<longrightarrow> free' = free - amount)
         \<and> (\<forall>req. classify_headroom req free policy = INSUFFICIENT
               \<longrightarrow> classify_headroom req free' policy = INSUFFICIENT))
    \<and> (\<forall>req. classify_headroom req free policy \<noteq> INSUFFICIENT
          \<longleftrightarrow> req < free - mp_min_free_buffer policy)"
proof -
  have req: "0 \<le> fst (estimate_required_margin i rates sources policy)"
    unfolding estimate_required_margin_sum
    by (rule sum_list_nonneg) (auto intro: leg_required_margin_nonneg [OF assms(1)])
  obtain f where f: "free_margin s (mp_gate_basis policy) = Some f"
    "free = f - pending_commitments cs (ms_as_of s) COMMITMENT_GRACE"
    using assms(4) by (auto simp: effective_free_margin_def split: option.splits)
  let ?p = "pending_commitments ((t, amount) # cs) (ms_as_of s) COMMITMENT_GRACE"
  have new: "effective_free_margin s ((t, amount) # cs) policy = Some (f - ?p)"
    using f by (simp add: effective_free_margin_def)
  have le: "f - ?p \<le> free"
    using f(2) assms(3) pending_nonneg [OF assms(2)]
    by (auto simp: pending_commitments_def Let_def split: option.splits if_splits)
  have eq: "f - ?p = free - amount" if "ms_as_of s = Some as_of" "as_of - COMMITMENT_GRACE \<le> t" for as_of
    using f(2) that by (auto simp: pending_commitments_def Let_def)
  have mono: "classify_headroom r (f - ?p) policy = INSUFFICIENT"
    if "classify_headroom r free policy = INSUFFICIENT" for r
    using that le by (auto simp: classify_headroom_def Let_def split: if_splits)
  have "(classify_headroom r free policy \<noteq> INSUFFICIENT) = (r < free - mp_min_free_buffer policy)" for r
    by (auto simp: classify_headroom_def Let_def)
  with req new le eq mono show ?thesis by blast
qed

theorem margin_gate_conservative_witness:
  "\<exists>free'. effective_free_margin sample_snapshot [(0, 100)] default_margin_policy = Some free'
     \<and> free' = 1000 - 100"
proof -
  have s: "effective_free_margin sample_snapshot [] default_margin_policy = Some 1000"
    by code_simp
  have "0 \<le> mp_default_rate default_margin_policy
      \<and> 0 \<le> mp_rate_safety_multiplier default_margin_policy"
    by (simp add: default_margin_policy_def)
  from margin_gate_conservative [OF this _ _ s, of 100 sample_open Map.empty Map.empty 0]
  show ?thesis by (auto simp: sample_snapshot_def COMMITMENT_GRACE_def)
qed

section \<open>Contract months\<close>

definition month_text :: "int \<Rightarrow> int \<Rightarrow> string" where
  "month_text y m = format_0d 4 y @ ''-'' @ format_0d 2 m"

lemma digit_no_dash: "digit_text s \<Longrightarrow> CHR ''-'' \<notin> set s"
  using digit_facts(2) by (auto simp: digit_text_def)

lemma year_month_text:
  assumes "0 \<le> y" "y \<le> 9999" "0 \<le> m" "m \<le> 99"
  shows "year_month (month_text y m) = Inr (y, m)"
proof -
  have y: "digit_text (format_0d 4 y)" "py_int (format_0d 4 y) = Inr y"
    using format_0d_digits [of y 3 4] assms by simp_all
  have m: "digit_text (format_0d 2 m)" "py_int (format_0d 2 m) = Inr m"
    using format_0d_digits [of m 1 2] assms by simp_all
  have "py_split (CHR ''-'') (month_text y m) = [format_0d 4 y, format_0d 2 m]"
    using digit_no_dash [OF y(1)] digit_no_dash [OF m(1)]
    by (simp add: month_text_def py_split_sep py_split_no_sep)
  then show ?thesis using y m by (simp add: year_month_def)
qed

text \<open>
  Months round-trip and roll forward by one. For every year 0 to 9998 and month 1 to 12, the
  text \<open>YYYY-MM\<close> parses back to its year and month, and the next contract month is the text of
  the following calendar month, across a year end too.
\<close>

theorem next_contract_month_successor:
  assumes "0 \<le> y" "y \<le> 9998" "1 \<le> m" "m \<le> 12"
  shows "year_month (month_text y m) = Inr (y, m)
    \<and> (\<exists>y' m'. get_next_contract_month (month_text y m) = month_text y' m'
         \<and> 12 * y' + m' = 12 * y + m + 1 \<and> 1 \<le> m' \<and> m' \<le> 12)"
proof -
  have ym: "year_month (month_text y m) = Inr (y, m)"
    using year_month_text assms by simp
  have one: "format_0d 2 1 = ''01''" by code_simp
  show ?thesis
  proof (cases "m = 12")
    case True
    then have "get_next_contract_month (month_text y m) = month_text (y + 1) 1"
      using ym by (simp add: get_next_contract_month_def) (simp add: month_text_def one)
    with ym True show ?thesis by (intro conjI exI [of _ "y + 1"] exI [of _ 1]) simp_all
  next
    case False
    then have "get_next_contract_month (month_text y m) = month_text y (m + 1)"
      using ym by (simp add: get_next_contract_month_def) (simp add: month_text_def)
    with ym False assms show ?thesis by (intro conjI exI [of _ y] exI [of _ "m + 1"]) simp_all
  qed
qed

theorem next_contract_month_successor_witness:
  "month_text 2026 12 = ''2026-12'' \<and> year_month (month_text 2026 12) = Inr (2026, 12)"
proof -
  have "month_text 2026 12 = ''2026-12''" by code_simp
  with next_contract_month_successor [of 2026 12] show ?thesis by simp
qed

lemma td_days_window:
  "(0 \<le> td_days d \<and> td_days d \<le> w) \<longleftrightarrow> (0 \<le> d \<and> d < (w + 1) * usec_per_day)"
proof -
  have "d = usec_per_day * (d div usec_per_day) + d mod usec_per_day"
    and "0 \<le> d mod usec_per_day" and "d mod usec_per_day < usec_per_day"
    by simp_all
  then show ?thesis unfolding td_days_def by (auto; linarith)
qed

text \<open>
  The rollover window. For a well-formed month of the years 1 to 9998 the default rollover test
  returns normally, and it is true exactly when the reference time lies before or at the first
  instant of the following month and less than \<open>window_days + 1\<close> days before it.
\<close>

theorem default_rollover_window:
  assumes "1 \<le> y" "y \<le> 9998" "1 \<le> m" "m \<le> 12"
  shows "is_default_rollover_active (Some (month_text y m)) t w
    = Inr (let e = (ymd_ordinal (if m = 12 then y + 1 else y) (if m = 12 then 1 else m + 1) 1 - 1)
                     * usec_per_day
           in t \<le> e \<and> e - t < (w + 1) * usec_per_day)"
proof -
  have ym: "year_month (month_text y m) = Inr (y, m)"
    using year_month_text assms by simp
  have dt: "(if m = 12 then datetime_ymd (y + 1) 1 1 else datetime_ymd y (m + 1) 1)
      = Inr ((ymd_ordinal (if m = 12 then y + 1 else y) (if m = 12 then 1 else m + 1) 1 - 1)
               * usec_per_day)"
    using assms by (auto simp: datetime_ymd_def days_in_month_def)
  show ?thesis
    using td_days_window
    by (simp add: is_default_rollover_active_def ym dt Let_def)
qed

theorem default_rollover_window_witness:
  "\<exists>e. is_default_rollover_active (Some (month_text 2026 9)) e 7 = Inr True"
proof -
  let ?e = "(ymd_ordinal 2026 10 1 - 1) * usec_per_day"
  have "is_default_rollover_active (Some (month_text 2026 9)) ?e 7 = Inr True"
    using default_rollover_window [of 2026 9 ?e 7] by (simp add: Let_def)
  then show ?thesis by blast
qed

text \<open>
  An unhandled error path. The rollover test catches \<open>ValueError\<close>, \<open>TypeError\<close> and
  \<open>OverflowError\<close> but not \<open>IndexError\<close>: when an OPEN intent's first expiring leg carries a
  month of digits without a dash (the broker's own \<open>YYYYMM\<close> form), and neither a rollover
  checker nor a target month is configured, check 4 raises \<open>IndexError\<close> out of the engine
  instead of returning a result.
\<close>

theorem rollover_month_without_dash_raises:
  assumes "digit_text cm" and "oi_action i = OPEN"
    and "filter (\<lambda>leg. is_expiry_instrument (leg_instrument_type leg)) (oi_legs i) = l # ls"
    and "leg_contract_month l = Some cm"
    and "ctx_rollover_checker ctx = None" and "ctx_target_rollover_month ctx = None"
  shows "contract_month_check now i ctx = Inl IndexError"
proof -
  have "year_month cm = Inl IndexError"
    using assms(1) digit_no_dash [OF assms(1)]
    by (simp add: year_month_def py_split_no_sep py_int_digits digit_text_def)
  then have "is_default_rollover_active (Some cm) t w = Inl IndexError" for t w
    by (simp add: is_default_rollover_active_def)
  then show ?thesis
    using assms by (simp add: contract_month_check_def contract_month_rollover_def Let_def)
qed

theorem rollover_month_without_dash_raises_witness:
  "contract_month_check 0
     (sample_intent OPEN MODE_OPEN [sample_leg ''ES'' BUY 1 (Some ''202609'') (Some ''FUT'')])
     (empty_rms_context 0) = Inl IndexError"
proof -
  have d: "digit_text ''202609''" unfolding digit_text_def by code_simp
  have fut: "is_expiry_instrument (Some ''FUT'')" by code_simp
  show ?thesis
    by (rule rollover_month_without_dash_raises [OF d, where ls = "[]"
          and l = "sample_leg ''ES'' BUY 1 (Some ''202609'') (Some ''FUT'')"])
      (simp_all add: sample_intent_def sample_leg_def empty_rms_context_def fut)
qed

text \<open>
  An adjustment forgets the execution mode. Whatever the mode of the intent it receives, the
  intent that check 4 hands on has mode OPEN: an emergency flatten whose expiring legs carry
  different months leaves the engine with outcome PASS and without its flatten mode, which the
  broker adapter uses to choose the pacing priority.
\<close>

theorem contract_month_adjust_drops_mode:
  assumes "contract_month_check now i ctx = Inr r" and "cr_outcome r = ADJUST"
  shows "\<exists>j. cr_adjusted_intent r = Some j \<and> oi_intent_mode j = MODE_OPEN
    \<and> (\<exists>t. \<forall>leg \<in> set (oi_legs j). leg_contract_month leg = t)"
  using contract_month_cases [OF assms(1)] assms(2)
  by (auto simp: contract_month_adjust_def)

theorem contract_month_adjust_drops_mode_witness:
  "oi_intent_mode sample_flatten = EMERGENCY_FLATTEN
   \<and> (\<exists>r j. contract_month_check 0 sample_flatten (empty_rms_context 0) = Inr r
        \<and> cr_adjusted_intent r = Some j \<and> oi_intent_mode j = MODE_OPEN)"
proof -
  have "(case contract_month_check 0 sample_flatten (empty_rms_context 0) of
      Inl e \<Rightarrow> False | Inr r \<Rightarrow> cr_outcome r = ADJUST)"
    by code_simp
  then obtain r where r: "contract_month_check 0 sample_flatten (empty_rms_context 0) = Inr r"
    "cr_outcome r = ADJUST" by (auto split: sum.splits)
  from contract_month_adjust_drops_mode [OF r] r(1) show ?thesis
    by (auto simp: sample_intent_def)
qed

end
