(* ===== verification/Rate_Limiter.thy ===== *)
theory Rate_Limiter
  imports Prelude
begin

text \<open>
  The gateway rate limiter (\<open>src/backend/app/broker/ibkr/gateway_rate_limiter.py\<close>): two token
  buckets refilled by elapsed time, five priorities, a cooldown after broker error 100, and a heap
  of waiters.

  Every call of \<open>time.monotonic\<close> is an argument of the operation that makes it; the body of
  each \<open>with self._lock\<close> block is one atomic function. The heap is kept as a list sorted by
  \<open>(priority, sequence number)\<close>: the code reads only its first element, and \<open>heapq\<close> keeps the
  least element there. The flag of an entry is its \<open>threading.Event\<close>. Log lines are left out.
\<close>

section \<open>State\<close>

abbreviation PRIORITY_EMERGENCY_FLATTEN :: int where "PRIORITY_EMERGENCY_FLATTEN \<equiv> 0"
abbreviation PRIORITY_ORDER_EXECUTION :: int where "PRIORITY_ORDER_EXECUTION \<equiv> 1"
abbreviation PRIORITY_CONTRACT_DETAILS :: int where "PRIORITY_CONTRACT_DETAILS \<equiv> 2"

record rl_metrics =
  total_acquired :: nat
  delayed_count :: nat
  timeout_count :: nat
  try_acquire_denied :: nat
  error100_cooldowns :: nat
  requests_by_priority :: "int \<rightharpoonup> nat"
  requests_by_type :: "string \<rightharpoonup> nat"

type_synonym waiter = "int \<times> nat \<times> bool"

record limiter =
  max_msg_per_sec :: decimal
  normal_msg_per_sec :: decimal
  emergency_reserve_per_sec :: decimal
  max_wait_sec :: decimal
  error100_cooldown_sec :: decimal
  gateway_id :: string
  global_burst_cap :: decimal
  normal_burst_cap :: decimal
  global_tokens :: decimal
  normal_tokens :: decimal
  last_refill :: decimal
  cooldown_until :: decimal
  wait_seq :: nat
  wait_heap :: "waiter list"
  metrics :: rl_metrics

record acquire_result =
  ar_delayed :: bool
  ar_priority :: int
  ar_request_type :: string
  ar_waited_sec :: decimal

definition init_limiter ::
  "decimal \<Rightarrow> decimal \<Rightarrow> decimal \<Rightarrow> decimal \<Rightarrow> decimal \<Rightarrow> string \<Rightarrow> decimal option \<Rightarrow> decimal
    \<Rightarrow> limiter result" where
  "init_limiter max_rate normal_rate reserve max_wait cooldown gid max_burst now =
     (if max_rate \<le> 0 then Inl (ValueError ''max_msg_per_sec must be positive'')
      else if normal_rate \<le> 0 then Inl (ValueError ''normal_msg_per_sec must be positive'')
      else if normal_rate > max_rate
        then Inl (ValueError ''normal_msg_per_sec must be <= max_msg_per_sec'')
      else if reserve < 0 then Inl (ValueError ''emergency_reserve_per_sec must be >= 0'')
      else if max_wait \<le> 0 then Inl (ValueError ''max_wait_sec must be positive'')
      else if cooldown < 0 then Inl (ValueError ''error100_cooldown_sec must be >= 0'')
      else (let burst_cap = max 1 (case max_burst of Some b \<Rightarrow> b | None \<Rightarrow> max_rate) in
        Inr \<lparr> max_msg_per_sec = max_rate,
              normal_msg_per_sec =
                (if reserve < max_rate then min normal_rate (max_rate - reserve) else normal_rate),
              emergency_reserve_per_sec = reserve, max_wait_sec = max_wait,
              error100_cooldown_sec = cooldown, gateway_id = gid,
              global_burst_cap = burst_cap, normal_burst_cap = min burst_cap normal_rate,
              global_tokens = burst_cap, normal_tokens = min burst_cap normal_rate,
              last_refill = now, cooldown_until = 0, wait_seq = 0, wait_heap = [],
              metrics = \<lparr> total_acquired = 0, delayed_count = 0, timeout_count = 0,
                 try_acquire_denied = 0, error100_cooldowns = 0,
                 requests_by_priority = [0 \<mapsto> 0, 1 \<mapsto> 0, 2 \<mapsto> 0, 3 \<mapsto> 0, 4 \<mapsto> 0],
                 requests_by_type = Map.empty \<rparr> \<rparr>))"

section \<open>Operations under the lock\<close>

definition in_cooldown :: "limiter \<Rightarrow> decimal \<Rightarrow> bool" where
  "in_cooldown l now = (now < cooldown_until l)"

definition could_grant :: "limiter \<Rightarrow> int \<Rightarrow> decimal \<Rightarrow> bool" where
  "could_grant l priority now =
     (if in_cooldown l now then False
      else if global_tokens l < 1 then False
      else if priority = PRIORITY_EMERGENCY_FLATTEN then True
      else if priority = PRIORITY_ORDER_EXECUTION
        then (let remaining_after = global_tokens l - 1
              in \<not> (remaining_after < emergency_reserve_per_sec l \<and> normal_tokens l < 1))
      else normal_tokens l \<ge> 1)"

definition notify_highest_waiter :: "limiter \<Rightarrow> decimal \<Rightarrow> limiter" where
  "notify_highest_waiter l now =
     (case wait_heap l of
        [] \<Rightarrow> l
      | (pri, sq, evt) # rest \<Rightarrow>
          if could_grant l pri now then l\<lparr>wait_heap := (pri, sq, True) # rest\<rparr> else l)"

definition refill :: "limiter \<Rightarrow> decimal \<Rightarrow> decimal \<Rightarrow> limiter" where
  "refill l now now2 =
     (let elapsed = max 0 (now - last_refill l)
      in if elapsed \<le> 0 then l
         else notify_highest_waiter
                (l\<lparr> last_refill := now,
                    global_tokens := min (global_burst_cap l)
                      (global_tokens l + elapsed * max_msg_per_sec l),
                    normal_tokens := min (normal_burst_cap l)
                      (normal_tokens l + elapsed * normal_msg_per_sec l) \<rparr>) now2)"

definition try_consume :: "limiter \<Rightarrow> int \<Rightarrow> decimal \<Rightarrow> decimal \<Rightarrow> bool \<times> limiter" where
  "try_consume l0 priority now now2 =
     (if in_cooldown l0 now then (False, l0)
      else let l = refill l0 now now2 in
        if global_tokens l < 1 then (False, l)
        else if priority = PRIORITY_EMERGENCY_FLATTEN
          then (True, l\<lparr>global_tokens := global_tokens l - 1\<rparr>)
        else if priority = PRIORITY_ORDER_EXECUTION then
          (let remaining_after = global_tokens l - 1 in
           if remaining_after < emergency_reserve_per_sec l \<and> normal_tokens l < 1 then (False, l)
           else (True, l\<lparr> global_tokens := global_tokens l - 1,
                          normal_tokens := (if normal_tokens l \<ge> 1 then normal_tokens l - 1
                                            else normal_tokens l) \<rparr>))
        else if normal_tokens l < 1 then (False, l)
        else (True, l\<lparr> global_tokens := global_tokens l - 1,
                       normal_tokens := normal_tokens l - 1 \<rparr>))"

definition seconds_until_available ::
  "limiter \<Rightarrow> int \<Rightarrow> decimal \<Rightarrow> decimal \<Rightarrow> decimal \<times> limiter" where
  "seconds_until_available l0 priority now now2 =
     (if in_cooldown l0 now then (max (1 / 1000) (cooldown_until l0 - now), l0)
      else let l = refill l0 now now2 in
        if global_tokens l \<ge> 1 then
          (if priority = PRIORITY_EMERGENCY_FLATTEN then (0, l)
           else if normal_tokens l \<ge> 1 then (0, l)
           else (max (1 / 1000) ((1 - normal_tokens l) / normal_msg_per_sec l), l))
        else (max (1 / 1000) ((1 - global_tokens l) / max_msg_per_sec l), l))"

definition record_acquire :: "limiter \<Rightarrow> int \<Rightarrow> string \<Rightarrow> bool \<Rightarrow> limiter" where
  "record_acquire l priority request_type delayed =
     (let m = metrics l; clamped = max 0 (min 4 priority)
      in l\<lparr>metrics := m\<lparr>
           total_acquired := total_acquired m + 1,
           delayed_count := (if delayed then delayed_count m + 1 else delayed_count m),
           requests_by_priority := (requests_by_priority m)
             (clamped \<mapsto> get_or (requests_by_priority m) clamped 0 + 1),
           requests_by_type := (requests_by_type m)
             (request_type \<mapsto> get_or (requests_by_type m) request_type 0 + 1) \<rparr>\<rparr>)"

definition is_highest_waiter :: "limiter \<Rightarrow> int \<times> nat \<Rightarrow> bool" where
  "is_highest_waiter l key =
     (case wait_heap l of [] \<Rightarrow> False | (pri, sq, evt) # _ \<Rightarrow> (pri, sq) = key)"

definition remove_waiter :: "limiter \<Rightarrow> int \<times> nat \<Rightarrow> limiter" where
  "remove_waiter l key =
     l\<lparr>wait_heap := filter (\<lambda>(pri, sq, evt). \<not> (pri = fst key \<and> sq = snd key)) (wait_heap l)\<rparr>"

fun heap_insert :: "waiter \<Rightarrow> waiter list \<Rightarrow> waiter list" where
  "heap_insert (p, s, e) [] = [(p, s, e)]"
| "heap_insert (p, s, e) ((p', s', e') # h) =
     (if p < p' \<or> (p = p' \<and> s \<le> s') then (p, s, e) # (p', s', e') # h
      else (p', s', e') # heap_insert (p, s, e) h)"

definition push_waiter :: "limiter \<Rightarrow> int \<Rightarrow> (int \<times> nat) \<times> limiter" where
  "push_waiter l priority =
     (let sq = wait_seq l + 1
      in ((priority, sq),
          l\<lparr>wait_seq := sq, wait_heap := heap_insert (priority, sq, False) (wait_heap l)\<rparr>))"

definition clear_event :: "limiter \<Rightarrow> int \<times> nat \<Rightarrow> limiter" where
  "clear_event l key =
     l\<lparr>wait_heap := map (\<lambda>(p, s, e). if (p, s) = key then (p, s, False) else (p, s, e)) (wait_heap l)\<rparr>"

section \<open>The public operations\<close>

definition notify_error_100 :: "limiter \<Rightarrow> decimal \<Rightarrow> limiter" where
  "notify_error_100 l now =
     l\<lparr> global_tokens := 0, normal_tokens := 0,
        cooldown_until := now + error100_cooldown_sec l, last_refill := now,
        metrics := (metrics l)\<lparr>error100_cooldowns := error100_cooldowns (metrics l) + 1\<rparr> \<rparr>"

definition try_acquire ::
  "limiter \<Rightarrow> int \<Rightarrow> string \<Rightarrow> decimal \<Rightarrow> decimal \<Rightarrow> acquire_result option \<times> limiter" where
  "try_acquire l priority request_type now now2 =
     (let (ok, l1) = try_consume l priority now now2
      in if \<not> ok
         then (None, l1\<lparr>metrics := (metrics l1)\<lparr>try_acquire_denied := try_acquire_denied (metrics l1) + 1\<rparr>\<rparr>)
         else (Some \<lparr> ar_delayed = False, ar_priority = priority,
                      ar_request_type = request_type, ar_waited_sec = 0 \<rparr>,
               record_acquire l1 priority request_type False))"

text \<open>Local variables of a waiting call, the clock readings of one round of its loop, and the
  outcome of a round. \<open>acquire\<close> and \<open>blocking_acquire\<close> have the same loop.\<close>

record waiting_call =
  wc_deadline :: decimal
  wc_total_waited :: decimal
  wc_delayed :: bool
  wc_my_key :: "(int \<times> nat) option"

record round_clock =
  ck_consume :: decimal
  ck_grant :: decimal
  ck_wait :: decimal
  ck_grant2 :: decimal
  ck_remaining :: decimal

datatype round_outcome = Granted acquire_result | TimedOut | Again waiting_call

definition wait_or_consume ::
  "limiter \<Rightarrow> waiting_call \<Rightarrow> int \<Rightarrow> string \<Rightarrow> round_clock
    \<Rightarrow> (acquire_result + decimal) \<times> limiter" where
  "wait_or_consume l wc priority request_type ck =
     (let wait = (\<lambda>l. let (w, l') = seconds_until_available l priority (ck_wait ck) (ck_grant2 ck)
                      in (Inr w, l'))
      in if (case wc_my_key wc of Some k \<Rightarrow> \<not> is_highest_waiter l k | None \<Rightarrow> False)
         then wait l
         else (let (ok, l1) = try_consume l priority (ck_consume ck) (ck_grant ck)
               in if ok
                  then (let l2 = record_acquire l1 priority request_type (wc_delayed wc);
                            l3 = (case wc_my_key wc of Some k \<Rightarrow> remove_waiter l2 k | None \<Rightarrow> l2)
                        in (Inl \<lparr> ar_delayed = wc_delayed wc, ar_priority = priority,
                                  ar_request_type = request_type,
                                  ar_waited_sec = wc_total_waited wc \<rparr>, l3))
                  else wait l1))"

definition acquire_round ::
  "limiter \<Rightarrow> waiting_call \<Rightarrow> int \<Rightarrow> string \<Rightarrow> round_clock \<Rightarrow> round_outcome \<times> limiter" where
  "acquire_round l wc priority request_type ck =
     (case wait_or_consume l wc priority request_type ck of
        (Inl res, l1) \<Rightarrow> (Granted res, l1)
      | (Inr wait_sec, l1) \<Rightarrow>
          (let (key, l2) = (case wc_my_key wc of Some k \<Rightarrow> (k, l1) | None \<Rightarrow> push_waiter l1 priority);
               remaining = wc_deadline wc - ck_remaining ck
           in if remaining \<le> 0
              then (let l3 = remove_waiter l2 key
                    in (TimedOut,
                        l3\<lparr>metrics := (metrics l3)\<lparr>timeout_count := timeout_count (metrics l3) + 1\<rparr>\<rparr>))
              else (let sleep_for = min wait_sec (min remaining (1 / 4)) in
                    if sleep_for > 0
                    then (Again (wc\<lparr> wc_my_key := Some key, wc_delayed := True,
                                     wc_total_waited := wc_total_waited wc + sleep_for \<rparr>),
                          clear_event l2 key)
                    else (Again (wc\<lparr>wc_my_key := Some key\<rparr>), l2))))"

text \<open>The whole loop, over the rounds it makes: before each round the other threads may have run,
  which is the function paired with the round's clock. \<open>None\<close>: still waiting at the end of the
  list.\<close>

datatype call_outcome = Acquired acquire_result | PacingTimeout

fun acquire_loop ::
  "limiter \<Rightarrow> waiting_call \<Rightarrow> int \<Rightarrow> string \<Rightarrow> ((limiter \<Rightarrow> limiter) \<times> round_clock) list
    \<Rightarrow> call_outcome option \<times> limiter" where
  "acquire_loop l wc priority request_type [] = (None, l)"
| "acquire_loop l wc priority request_type ((env, ck) # cks) =
     (case acquire_round (env l) wc priority request_type ck of
        (Granted res, l1) \<Rightarrow> (Some (Acquired res), l1)
      | (TimedOut, l1) \<Rightarrow> (Some PacingTimeout, l1)
      | (Again wc1, l1) \<Rightarrow> acquire_loop l1 wc1 priority request_type cks)"

definition start_call :: "decimal \<Rightarrow> waiting_call" where
  "start_call deadline = \<lparr> wc_deadline = deadline, wc_total_waited = 0, wc_delayed = False,
     wc_my_key = None \<rparr>"

text \<open>\<open>acquire\<close> raises \<open>GatewayPacingTimeout\<close> where \<open>blocking_acquire\<close> returns \<open>None\<close>.\<close>

definition acquire ::
  "limiter \<Rightarrow> int \<Rightarrow> string \<Rightarrow> decimal \<Rightarrow> ((limiter \<Rightarrow> limiter) \<times> round_clock) list
    \<Rightarrow> call_outcome option \<times> limiter" where
  "acquire l priority request_type started rounds =
     acquire_loop l (start_call (started + max_wait_sec l)) priority request_type rounds"

definition blocking_acquire ::
  "limiter \<Rightarrow> int \<Rightarrow> string \<Rightarrow> decimal option \<Rightarrow> decimal \<Rightarrow> ((limiter \<Rightarrow> limiter) \<times> round_clock) list
    \<Rightarrow> acquire_result option option \<times> limiter" where
  "blocking_acquire l priority request_type timeout started rounds =
     (let max_wait = (case timeout of Some t \<Rightarrow> t | None \<Rightarrow> max_wait_sec l);
          (out, l') = acquire_loop l (start_call (started + max_wait)) priority request_type rounds
      in (map_option (\<lambda>oc. case oc of Acquired r \<Rightarrow> Some r | PacingTimeout \<Rightarrow> None) out, l'))"

section \<open>The limiter as a state machine\<close>

text \<open>Whatever threads do, they change the limiter by one of these atomic steps. The time stamp of
  a step is the clock reading it uses.\<close>

inductive rl_step :: "decimal \<Rightarrow> limiter \<Rightarrow> limiter \<Rightarrow> bool" where
  step_try: "rl_step now l (snd (try_acquire l priority request_type now now2))"
| step_round: "ck_consume ck \<le> now \<Longrightarrow> ck_wait ck \<le> now \<Longrightarrow>
     rl_step now l (snd (acquire_round l wc priority request_type ck))"
| step_error_100: "last_refill l \<le> now \<Longrightarrow> rl_step now l (notify_error_100 l now)"

text \<open>Runs from a start state in which every time stamp is at most \<open>T\<close>; and runs without an
  emergency request and without broker error 100.\<close>

inductive rl_reach :: "decimal \<Rightarrow> limiter \<Rightarrow> limiter \<Rightarrow> bool" for T :: decimal and start :: limiter where
  reach_start: "rl_reach T start start"
| reach_step: "rl_reach T start l \<Longrightarrow> rl_step now l l' \<Longrightarrow> now \<le> T \<Longrightarrow> rl_reach T start l'"

inductive rl_calm :: "limiter \<Rightarrow> limiter \<Rightarrow> bool" for start :: limiter where
  calm_start: "rl_calm start start"
| calm_try: "rl_calm start l \<Longrightarrow> priority \<noteq> PRIORITY_EMERGENCY_FLATTEN \<Longrightarrow>
     rl_calm start (snd (try_acquire l priority request_type now now2))"
| calm_round: "rl_calm start l \<Longrightarrow> priority \<noteq> PRIORITY_EMERGENCY_FLATTEN \<Longrightarrow>
     rl_calm start (snd (acquire_round l wc priority request_type ck))"

section \<open>Frame lemmas\<close>

text \<open>The configuration never changes; waiters and metrics do not touch the buckets.\<close>

definition config :: "limiter \<Rightarrow> decimal \<times> decimal \<times> decimal \<times> decimal \<times> decimal" where
  "config l = (max_msg_per_sec l, normal_msg_per_sec l, emergency_reserve_per_sec l,
     global_burst_cap l, normal_burst_cap l)"

definition buckets :: "limiter \<Rightarrow> decimal \<times> decimal \<times> decimal \<times> decimal" where
  "buckets l = (global_tokens l, normal_tokens l, last_refill l, cooldown_until l)"

named_theorems rl_frame \<open>what an operation of the limiter leaves alone\<close>

lemma notify_frame [rl_frame, simp]:
  "config (notify_highest_waiter l now) = config l"
  "buckets (notify_highest_waiter l now) = buckets l"
  "metrics (notify_highest_waiter l now) = metrics l"
  "max_wait_sec (notify_highest_waiter l now) = max_wait_sec l"
  by (auto simp: notify_highest_waiter_def config_def buckets_def split: list.splits)

lemma record_frame [rl_frame, simp]:
  "config (record_acquire l p t d) = config l"
  "buckets (record_acquire l p t d) = buckets l"
  "total_acquired (metrics (record_acquire l p t d)) = total_acquired (metrics l) + 1"
  "wait_heap (record_acquire l p t d) = wait_heap l"
  by (simp_all add: record_acquire_def config_def buckets_def Let_def)

lemma waiter_frame [rl_frame, simp]:
  "config (remove_waiter l k) = config l" "buckets (remove_waiter l k) = buckets l"
  "metrics (remove_waiter l k) = metrics l"
  "config (clear_event l k) = config l" "buckets (clear_event l k) = buckets l"
  "metrics (clear_event l k) = metrics l"
  "config (snd (push_waiter l p)) = config l" "buckets (snd (push_waiter l p)) = buckets l"
  "metrics (snd (push_waiter l p)) = metrics l"
  by (simp_all add: remove_waiter_def clear_event_def push_waiter_def config_def buckets_def Let_def)

lemma metrics_frame [rl_frame, simp]:
  "config (l\<lparr>metrics := m\<rparr>) = config l" "buckets (l\<lparr>metrics := m\<rparr>) = buckets l"
  by (simp_all add: config_def buckets_def)

lemma tokens_frame [rl_frame, simp]:
  "config (l\<lparr>global_tokens := g\<rparr>) = config l"
  "config (l\<lparr>global_tokens := g, normal_tokens := n\<rparr>) = config l"
  by (simp_all add: config_def)

lemma refill_frame [rl_frame, simp]:
  "config (refill l now now2) = config l" "metrics (refill l now now2) = metrics l"
  "cooldown_until (refill l now now2) = cooldown_until l"
proof -
  show "config (refill l now now2) = config l" "metrics (refill l now now2) = metrics l"
    by (simp_all add: refill_def Let_def config_def notify_highest_waiter_def split: list.splits)
  show "cooldown_until (refill l now now2) = cooldown_until l"
    by (simp add: refill_def Let_def notify_highest_waiter_def split: list.splits)
qed

lemma refill_buckets:
  "buckets (refill l now now2) =
     (let e = max 0 (now - last_refill l) in
      if e \<le> 0 then buckets l
      else (min (global_burst_cap l) (global_tokens l + e * max_msg_per_sec l),
            min (normal_burst_cap l) (normal_tokens l + e * normal_msg_per_sec l),
            now, cooldown_until l))"
  unfolding refill_def Let_def
  by (simp del: metrics_frame) (simp add: buckets_def)

lemma try_consume_frame [rl_frame]:
  "config (snd (try_consume l p now now2)) = config l"
  "metrics (snd (try_consume l p now now2)) = metrics l"
  "cooldown_until (snd (try_consume l p now now2)) = cooldown_until l"
  using refill_frame [of l now now2]
  by (auto simp: try_consume_def Let_def config_def)

lemma seconds_until_frame [rl_frame]:
  "snd (seconds_until_available l p now now2) = (if in_cooldown l now then l else refill l now now2)"
  by (simp add: seconds_until_available_def Let_def)

end
