(* ===== verification/Rate_Limiter_Properties.thy ===== *)
theory Rate_Limiter_Properties
  imports Rate_Limiter
begin

text \<open>
  Properties of the gateway rate limiter: the rate bound that keeps the connection under the
  broker's message limit, the emergency reserve, the end of every waiting call, and the order in
  which waiters are served. The rate bound is proved once for any token bucket (locale
  \<open>token_bucket\<close>) and interpreted on the limiter's step relation.
\<close>

section \<open>Token buckets\<close>

locale token_bucket =
  fixes tokens :: "'s \<Rightarrow> decimal"
    and clock :: "'s \<Rightarrow> decimal"
    and granted :: "'s \<Rightarrow> nat"
    and rate :: "'s \<Rightarrow> decimal"
    and step :: "decimal \<Rightarrow> 's \<Rightarrow> 's \<Rightarrow> bool"
    and inv :: "'s \<Rightarrow> bool"
  assumes step_inv: "inv s \<Longrightarrow> step now s s' \<Longrightarrow> inv s'"
    and nonneg: "inv s \<Longrightarrow> 0 \<le> tokens s"
    and rate_const: "inv s \<Longrightarrow> step now s s' \<Longrightarrow> rate s' = rate s"
    and clock_le: "inv s \<Longrightarrow> step now s s' \<Longrightarrow> clock s' \<le> max now (clock s)"
    and accounting: "inv s \<Longrightarrow> step now s s' \<Longrightarrow>
      tokens s' + of_nat (granted s') \<le> tokens s + of_nat (granted s) + rate s * (clock s' - clock s)"
begin

definition follows :: "decimal \<Rightarrow> 's \<Rightarrow> 's \<Rightarrow> bool" where
  "follows T s s' \<longleftrightarrow> inv s' \<and> rate s' = rate s \<and> clock s' \<le> max T (clock s)
     \<and> tokens s' + of_nat (granted s') \<le> tokens s + of_nat (granted s) + rate s * (clock s' - clock s)"

lemma follows_refl: "inv s \<Longrightarrow> follows T s s"
  by (simp add: follows_def)

lemma follows_step:
  assumes "follows T s s'" "step now s' s''" "now \<le> T"
  shows "follows T s s''"
proof -
  have i: "inv s'" and r: "rate s' = rate s" and c: "clock s' \<le> max T (clock s)"
    and a: "tokens s' + of_nat (granted s') \<le> tokens s + of_nat (granted s) + rate s * (clock s' - clock s)"
    using assms(1) by (auto simp: follows_def)
  have "tokens s'' + of_nat (granted s'')
      \<le> tokens s' + of_nat (granted s') + rate s * (clock s'' - clock s')"
    using accounting [OF i assms(2)] r by simp
  with a have "tokens s'' + of_nat (granted s'')
      \<le> tokens s + of_nat (granted s) + rate s * (clock s'' - clock s)"
    by (simp add: algebra_simps)
  then show ?thesis
    using step_inv [OF i assms(2)] rate_const [OF i assms(2)] clock_le [OF i assms(2)] r c assms(3)
    by (auto simp: follows_def)
qed

lemma rate_bound:
  assumes "follows T s s'" "granted s = 0" "clock s \<le> T" "0 \<le> rate s"
  shows "of_nat (granted s') \<le> tokens s + rate s * (T - clock s)"
proof -
  have "0 \<le> tokens s'" using assms(1) nonneg by (simp add: follows_def)
  moreover have "rate s * (clock s' - clock s) \<le> rate s * (T - clock s)"
    using assms by (intro mult_left_mono) (auto simp: follows_def)
  ultimately show ?thesis using assms(1,2) by (simp add: follows_def)
qed

end

section \<open>The limiter is a token bucket\<close>

definition config_ok :: "limiter \<Rightarrow> bool" where
  "config_ok l \<longleftrightarrow> 0 < max_msg_per_sec l \<and> 0 < normal_msg_per_sec l
     \<and> normal_msg_per_sec l \<le> max_msg_per_sec l \<and> 0 \<le> emergency_reserve_per_sec l
     \<and> 1 \<le> global_burst_cap l \<and> 0 < normal_burst_cap l"

definition bucket_ok :: "limiter \<Rightarrow> bool" where
  "bucket_ok l \<longleftrightarrow> config_ok l \<and> 0 \<le> global_tokens l \<and> global_tokens l \<le> global_burst_cap l
     \<and> 0 \<le> normal_tokens l \<and> normal_tokens l \<le> normal_burst_cap l"

lemma config_eqD:
  assumes "config l' = config l"
  shows "max_msg_per_sec l' = max_msg_per_sec l" "normal_msg_per_sec l' = normal_msg_per_sec l"
    "emergency_reserve_per_sec l' = emergency_reserve_per_sec l"
    "global_burst_cap l' = global_burst_cap l" "normal_burst_cap l' = normal_burst_cap l"
    "config_ok l' = config_ok l"
  using assms by (auto simp: config_def config_ok_def)

lemma buckets_eqD:
  assumes "buckets l' = buckets l"
  shows "global_tokens l' = global_tokens l" "normal_tokens l' = normal_tokens l"
    "last_refill l' = last_refill l" "cooldown_until l' = cooldown_until l"
  using assms by (auto simp: buckets_def)

lemma bucket_ok_cong:
  assumes "config l' = config l" "buckets l' = buckets l"
  shows "bucket_ok l' = bucket_ok l"
  unfolding bucket_ok_def config_eqD [OF assms(1)] buckets_eqD [OF assms(2)] ..

text \<open>What an atomic change of the buckets that grants \<open>k\<close> tokens may do.\<close>

definition spends :: "nat \<Rightarrow> decimal \<Rightarrow> limiter \<Rightarrow> limiter \<Rightarrow> bool" where
  "spends k now l l' \<longleftrightarrow> config l' = config l \<and> bucket_ok l' \<and> last_refill l \<le> last_refill l'
     \<and> last_refill l' \<le> max now (last_refill l) \<and> cooldown_until l' = cooldown_until l
     \<and> global_tokens l' + of_nat k \<le> global_tokens l + max_msg_per_sec l * (last_refill l' - last_refill l)"

lemma spends_frame:
  assumes "spends k now l l'" "config l'' = config l'" "buckets l'' = buckets l'"
  shows "spends k now l l''"
  using assms(1) unfolding spends_def assms(2) bucket_ok_cong [OF assms(2,3)] buckets_eqD [OF assms(3)] .

lemma spends_trans:
  assumes "spends k now l l'" "spends m now l' l''"
  shows "spends (k + m) now l l''"
proof -
  have c: "max_msg_per_sec l' = max_msg_per_sec l"
    using assms(1) by (auto simp: spends_def dest: config_eqD)
  have "global_tokens l' + of_nat k
      \<le> global_tokens l + max_msg_per_sec l * (last_refill l' - last_refill l)"
    and "global_tokens l'' + of_nat m
      \<le> global_tokens l' + max_msg_per_sec l * (last_refill l'' - last_refill l')"
    using assms c by (auto simp: spends_def)
  then have "global_tokens l'' + of_nat (k + m)
      \<le> global_tokens l + max_msg_per_sec l * (last_refill l'' - last_refill l)"
    by (simp add: algebra_simps)
  with assms show ?thesis by (auto simp: spends_def)
qed

lemma spends_refl: "bucket_ok l \<Longrightarrow> spends 0 now l l"
  by (simp add: spends_def)

lemma refill_spends:
  assumes "bucket_ok l" "t \<le> now"
  shows "spends 0 now l (refill l t t2)"
proof (cases "t \<le> last_refill l")
  case True
  then show ?thesis using assms by (simp add: refill_def Let_def spends_refl)
next
  case False
  let ?r = "refill l t t2" and ?e = "t - last_refill l"
  have b: "global_tokens ?r = min (global_burst_cap l) (global_tokens l + ?e * max_msg_per_sec l)"
    "normal_tokens ?r = min (normal_burst_cap l) (normal_tokens l + ?e * normal_msg_per_sec l)"
    "last_refill ?r = t"
    using refill_buckets [of l t t2] False by (auto simp: buckets_def Let_def)
  have pos: "0 \<le> ?e * max_msg_per_sec l" "0 \<le> ?e * normal_msg_per_sec l"
    using False assms(1) by (auto simp: bucket_ok_def config_ok_def)
  have "bucket_ok ?r"
    using assms(1) pos config_eqD [of ?r l] by (simp add: bucket_ok_def config_ok_def b)
  moreover have "max_msg_per_sec l * (last_refill ?r - last_refill l) = ?e * max_msg_per_sec l"
    by (simp add: b)
  ultimately show ?thesis
    using assms(2) False by (simp add: spends_def b mult.commute [of "max_msg_per_sec l"])
qed

lemma try_consume_spends:
  assumes "bucket_ok l" "t \<le> now"
  shows "spends (if fst (try_consume l p t t2) then 1 else 0) now l (snd (try_consume l p t t2))"
proof (cases "in_cooldown l t")
  case True
  then show ?thesis using assms by (simp add: try_consume_def spends_refl)
next
  case False
  let ?r = "refill l t t2"
  have r: "spends 0 now l ?r" by (rule refill_spends [OF assms])
  have eat: "spends (Suc 0) now l l'"
    if "config l' = config ?r" "last_refill l' = last_refill ?r" "cooldown_until l' = cooldown_until ?r"
      "global_tokens l' = global_tokens ?r - 1" "1 \<le> global_tokens ?r"
      "0 \<le> normal_tokens l'" "normal_tokens l' \<le> normal_tokens ?r" for l'
    using r that config_eqD [OF that(1)] by (auto simp: spends_def bucket_ok_def)
  have "0 \<le> normal_tokens ?r" using r by (simp add: spends_def bucket_ok_def)
  with False r show ?thesis
    by (auto simp: try_consume_def Let_def intro!: eat)
qed

lemma try_acquire_spends:
  assumes "bucket_ok l"
  shows "\<exists>k. spends k now l (snd (try_acquire l p ty now now2))
    \<and> total_acquired (metrics (snd (try_acquire l p ty now now2))) = total_acquired (metrics l) + k"
proof -
  let ?c = "try_consume l p now now2"
  have "spends (if fst ?c then 1 else 0) now l (snd ?c)"
    by (rule try_consume_spends [OF assms(1)]) simp
  then have "spends (if fst ?c then 1 else 0) now l (snd (try_acquire l p ty now now2))"
    by (rule spends_frame) (simp_all add: try_acquire_def Let_def split_beta)
  moreover have "total_acquired (metrics (snd (try_acquire l p ty now now2)))
      = total_acquired (metrics l) + (if fst ?c then 1 else 0)"
    using try_consume_frame(2) [of l p now now2]
    by (simp add: try_acquire_def Let_def split_beta)
  ultimately show ?thesis by blast
qed

lemma wait_or_consume_spends:
  assumes "bucket_ok l" "ck_consume ck \<le> now" "ck_wait ck \<le> now"
  shows "\<exists>k. spends k now l (snd (wait_or_consume l wc p ty ck))
    \<and> total_acquired (metrics (snd (wait_or_consume l wc p ty ck))) = total_acquired (metrics l) + k"
proof -
  let ?c = "try_consume l p (ck_consume ck) (ck_grant ck)"
  have c: "spends (if fst ?c then 1 else 0) now l (snd ?c)"
    by (rule try_consume_spends [OF assms(1,2)])
  have w: "spends 0 now m (snd (seconds_until_available m p (ck_wait ck) (ck_grant2 ck)))
      \<and> metrics (snd (seconds_until_available m p (ck_wait ck) (ck_grant2 ck))) = metrics m"
    if "bucket_ok m" for m
    using that assms(3) by (simp add: seconds_until_frame spends_refl refill_spends)
  have w1: "spends 0 now l (snd (seconds_until_available l p (ck_wait ck) (ck_grant2 ck)))"
    using w assms(1) by blast
  have w2: "spends 0 now l (snd (seconds_until_available (snd ?c) p (ck_wait ck) (ck_grant2 ck)))"
    if "\<not> fst ?c"
    using c w [of "snd ?c"] that spends_trans [of 0 now l "snd ?c" 0] by (simp add: spends_def)
  have m2: "metrics (snd (seconds_until_available (snd ?c) p (ck_wait ck) (ck_grant2 ck))) = metrics l"
    using try_consume_frame(2) by (simp add: seconds_until_frame)
  let ?waits = "case wc_my_key wc of Some k \<Rightarrow> \<not> is_highest_waiter l k | None \<Rightarrow> False"
  consider (waits) ?waits | (denied) "\<not> ?waits" "\<not> fst ?c" | (granted) "\<not> ?waits" "fst ?c" by blast
  then show ?thesis
  proof cases
    case waits
    then have "snd (wait_or_consume l wc p ty ck)
        = snd (seconds_until_available l p (ck_wait ck) (ck_grant2 ck))"
      by (simp only: wait_or_consume_def Let_def if_True) (simp add: split_beta)
    with w [OF assms(1)] show ?thesis by (metis add_0_right)
  next
    case denied
    then have "snd (wait_or_consume l wc p ty ck)
        = snd (seconds_until_available (snd ?c) p (ck_wait ck) (ck_grant2 ck))"
      by (simp only: wait_or_consume_def Let_def if_False) (simp add: split_beta)
    with w2 [OF denied(2)] m2 show ?thesis by (metis add_0_right)
  next
    case granted
    let ?l = "snd (wait_or_consume l wc p ty ck)"
    from granted have eq: "?l = (let l2 = record_acquire (snd ?c) p ty (wc_delayed wc)
        in case wc_my_key wc of Some k \<Rightarrow> remove_waiter l2 k | None \<Rightarrow> l2)"
      by (simp only: wait_or_consume_def Let_def if_False) (simp add: split_beta)
    have "spends 1 now l ?l"
      by (rule spends_frame [where l' = "snd ?c"])
        (use c granted eq in \<open>auto simp: Let_def split: option.splits\<close>)
    moreover have "total_acquired (metrics ?l) = total_acquired (metrics l) + 1"
      using try_consume_frame(2) [of l p "ck_consume ck" "ck_grant ck"]
      by (simp add: eq Let_def split: option.splits)
    ultimately show ?thesis by blast
  qed
qed

lemma acquire_round_after:
  obtains "config (snd (acquire_round l wc p ty ck)) = config (snd (wait_or_consume l wc p ty ck))"
    "buckets (snd (acquire_round l wc p ty ck)) = buckets (snd (wait_or_consume l wc p ty ck))"
    "total_acquired (metrics (snd (acquire_round l wc p ty ck)))
     = total_acquired (metrics (snd (wait_or_consume l wc p ty ck)))"
proof -
  have push: "snd (case k of Some k \<Rightarrow> (k, m) | None \<Rightarrow> push_waiter m p)
      = (case k of Some k \<Rightarrow> m | None \<Rightarrow> snd (push_waiter m p))" for k m
    by (cases k) auto
  show ?thesis
    by (rule that; cases "wait_or_consume l wc p ty ck"; cases "fst (wait_or_consume l wc p ty ck)")
      (auto simp: acquire_round_def Let_def split_beta push split: option.splits)
qed

lemma acquire_round_spends:
  assumes "bucket_ok l" "ck_consume ck \<le> now" "ck_wait ck \<le> now"
  shows "\<exists>k. spends k now l (snd (acquire_round l wc p ty ck))
    \<and> total_acquired (metrics (snd (acquire_round l wc p ty ck))) = total_acquired (metrics l) + k"
proof -
  obtain k where "spends k now l (snd (wait_or_consume l wc p ty ck))"
    "total_acquired (metrics (snd (wait_or_consume l wc p ty ck))) = total_acquired (metrics l) + k"
    using wait_or_consume_spends [OF assms(1-3)] by blast
  then show ?thesis
    by (metis acquire_round_after spends_frame)
qed

lemma spends_key:
  assumes "spends k now l l'" "total_acquired (metrics l') = total_acquired (metrics l) + k"
  shows "bucket_ok l' \<and> max_msg_per_sec l' = max_msg_per_sec l
      \<and> last_refill l' \<le> max now (last_refill l)
      \<and> global_tokens l' + of_nat (total_acquired (metrics l')) \<le> global_tokens l
          + of_nat (total_acquired (metrics l)) + max_msg_per_sec l * (last_refill l' - last_refill l)"
  using assms config_eqD(1) [of l' l] by (simp add: spends_def)

interpretation gateway: token_bucket global_tokens last_refill
  "\<lambda>l. total_acquired (metrics l)" max_msg_per_sec rl_step bucket_ok
proof -
  have key: "bucket_ok l' \<and> max_msg_per_sec l' = max_msg_per_sec l
      \<and> last_refill l' \<le> max now (last_refill l)
      \<and> global_tokens l' + of_nat (total_acquired (metrics l')) \<le> global_tokens l
          + of_nat (total_acquired (metrics l)) + max_msg_per_sec l * (last_refill l' - last_refill l)"
    if ok: "bucket_ok l" and stp: "rl_step now l l'" for now l l'
    using stp
  proof cases
    case (step_try priority request_type now2)
    then obtain k where k: "spends k now l l'"
      "total_acquired (metrics l') = total_acquired (metrics l) + k"
      using try_acquire_spends [OF ok] by blast
    then show ?thesis by (rule spends_key)
  next
    case (step_round ck wc priority request_type)
    then obtain k where k: "spends k now l l'"
      "total_acquired (metrics l') = total_acquired (metrics l) + k"
      using acquire_round_spends [OF ok] by blast
    then show ?thesis by (rule spends_key)
  next
    case step_error_100
    then have "0 \<le> max_msg_per_sec l * (now - last_refill l)"
      using ok by (simp add: bucket_ok_def config_ok_def)
    with step_error_100 ok show ?thesis
      by (auto simp: notify_error_100_def bucket_ok_def config_ok_def)
  qed
  show "token_bucket global_tokens last_refill (\<lambda>l. total_acquired (metrics l)) max_msg_per_sec
    rl_step bucket_ok"
    by unfold_locales (blast dest: key | simp add: bucket_ok_def)+
qed

lemma init_bucket_ok:
  assumes "init_limiter mr nr rs mw cd gid mb t0 = Inr l"
  shows "bucket_ok l \<and> total_acquired (metrics l) = 0 \<and> last_refill l = t0
    \<and> max_msg_per_sec l = mr \<and> global_tokens l = max 1 (case mb of Some b \<Rightarrow> b | None \<Rightarrow> mr)
    \<and> cooldown_until l = 0 \<and> emergency_reserve_per_sec l = rs \<and> wait_heap l = [] \<and> wait_seq l = 0
    \<and> global_burst_cap l = global_tokens l \<and> normal_burst_cap l = min (global_tokens l) nr
    \<and> normal_tokens l = normal_burst_cap l"
  using assms
  by (auto simp: init_limiter_def bucket_ok_def config_ok_def Let_def split: if_splits option.splits)



section \<open>The emergency reserve\<close>

definition reserve_kept :: "limiter \<Rightarrow> bool" where
  "reserve_kept l \<longleftrightarrow> bucket_ok l \<and> cooldown_until l = 0
     \<and> emergency_reserve_per_sec l \<le> global_burst_cap l - normal_burst_cap l
     \<and> emergency_reserve_per_sec l - 1 \<le> global_tokens l - normal_tokens l"

lemma reserve_kept_frame:
  assumes "reserve_kept l" "config l' = config l" "buckets l' = buckets l"
  shows "reserve_kept l'"
  using assms(1) unfolding reserve_kept_def config_eqD [OF assms(2)] buckets_eqD [OF assms(3)]
    bucket_ok_cong [OF assms(2,3)] .

lemma refill_reserve:
  assumes "reserve_kept l"
  shows "reserve_kept (refill l t t2)"
proof (cases "t \<le> last_refill l")
  case True
  then show ?thesis using assms by (simp add: refill_def Let_def)
next
  case False
  let ?r = "refill l t t2" and ?e = "t - last_refill l"
  have ok: "bucket_ok l" using assms by (simp add: reserve_kept_def)
  have b: "global_tokens ?r = min (global_burst_cap l) (global_tokens l + ?e * max_msg_per_sec l)"
    "normal_tokens ?r = min (normal_burst_cap l) (normal_tokens l + ?e * normal_msg_per_sec l)"
    using refill_buckets [of l t t2] False by (auto simp: buckets_def Let_def)
  have "?e * normal_msg_per_sec l \<le> ?e * max_msg_per_sec l"
    using ok False by (intro mult_left_mono) (auto simp: bucket_ok_def config_ok_def)
  then have "emergency_reserve_per_sec l - 1 \<le> global_tokens ?r - normal_tokens ?r"
    using assms unfolding b reserve_kept_def by (auto simp: min_def)
  moreover have "bucket_ok ?r"
    using refill_spends [OF ok order_refl, of t t2] by (simp add: spends_def)
  ultimately show ?thesis
    using assms config_eqD [of ?r l] by (simp add: reserve_kept_def)
qed

lemma try_consume_reserve:
  assumes "reserve_kept l" "p \<noteq> PRIORITY_EMERGENCY_FLATTEN"
  shows "reserve_kept (snd (try_consume l p t t2))"
proof -
  let ?l = "snd (try_consume l p t t2)" and ?r = "refill l t t2"
  have r: "reserve_kept ?r" by (rule refill_reserve [OF assms(1)])
  have "bucket_ok ?l"
    using try_consume_spends [of l t t p t2] assms(1) by (simp add: reserve_kept_def spends_def)
  moreover have "emergency_reserve_per_sec ?r - 1 \<le> global_tokens ?l - normal_tokens ?l"
    if "\<not> in_cooldown l t"
    using r assms(2) that by (auto simp: try_consume_def Let_def reserve_kept_def)
  moreover have "config ?l = config ?r" "cooldown_until ?l = 0"
    using try_consume_frame [of l p t t2] assms(1) by (simp_all add: reserve_kept_def)
  ultimately show ?thesis
    using r assms(1) config_eqD [of ?l ?r] by (cases "in_cooldown l t")
      (auto simp: reserve_kept_def try_consume_def)
qed

lemma calm_reserve:
  assumes "rl_calm l0 l" "reserve_kept l0"
  shows "reserve_kept l"
  using assms
proof (induction rule: rl_calm.induct)
  case calm_start
  then show ?case .
next
  case (calm_try l priority request_type now now2)
  from try_consume_reserve [OF calm_try.IH [OF calm_try.prems] calm_try.hyps(2), of now now2]
  show ?case by (rule reserve_kept_frame) (simp_all add: try_acquire_def Let_def split_beta)
next
  case (calm_round l priority wc request_type ck)
  have l: "reserve_kept l" by (rule calm_round.IH [OF calm_round.prems])
  let ?c = "try_consume l priority (ck_consume ck) (ck_grant ck)"
  have c: "reserve_kept (snd ?c)" by (rule try_consume_reserve [OF l calm_round.hyps(2)])
  have w: "reserve_kept (snd (seconds_until_available m p t t2))" if "reserve_kept m" for m p t t2
    using that by (simp add: seconds_until_frame refill_reserve)
  have rec: "reserve_kept (record_acquire (snd ?c) priority request_type d)" for d
    by (rule reserve_kept_frame [OF c]) simp_all
  have "reserve_kept (snd (wait_or_consume l wc priority request_type ck))"
    using c l w rec reserve_kept_frame [OF rec, of "remove_waiter (record_acquire (snd ?c) priority
        request_type (wc_delayed wc)) (the (wc_my_key wc))"]
    by (auto simp: wait_or_consume_def Let_def split_beta split: option.splits)
  then show ?case
    by (rule reserve_kept_frame) (rule acquire_round_after, assumption)+
qed

lemma wait_or_consume_config: "config (snd (wait_or_consume l wc p ty ck)) = config l"
  by (auto simp: wait_or_consume_def Let_def split_beta try_consume_frame seconds_until_frame
      split: option.splits)

lemma calm_config: "rl_calm l0 l \<Longrightarrow> config l = config l0"
proof (induction rule: rl_calm.induct)
  case calm_start
  show ?case ..
next
  case (calm_try l priority request_type now now2)
  then show ?case
    using try_consume_frame(1) by (simp add: try_acquire_def Let_def split_beta)
next
  case (calm_round l priority wc request_type ck)
  show ?case
    by (rule acquire_round_after [of l wc priority request_type ck])
      (simp add: wait_or_consume_config calm_round.IH)
qed



fun try_many :: "nat \<Rightarrow> int \<Rightarrow> decimal \<Rightarrow> limiter \<Rightarrow> nat \<times> limiter" where
  "try_many 0 p now l = (0, l)"
| "try_many (Suc n) p now l =
     (case try_acquire l p ''general'' now now of
        (Some _, l1) \<Rightarrow> (let (k, l2) = try_many n p now l1 in (Suc k, l2))
      | (None, l1) \<Rightarrow> try_many n p now l1)"

lemma try_many_burst:
  assumes "now \<le> last_refill l" "\<not> in_cooldown l now" "1 < p"
    and "of_nat n \<le> global_tokens l" "of_nat n \<le> normal_tokens l"
  shows "fst (try_many n p now l) = n \<and> last_refill (snd (try_many n p now l)) = last_refill l
    \<and> cooldown_until (snd (try_many n p now l)) = cooldown_until l
    \<and> global_tokens (snd (try_many n p now l)) = global_tokens l - of_nat n"
  using assms
proof (induction n arbitrary: l)
  case 0
  then show ?case by simp
next
  case (Suc n)
  let ?t = "try_acquire l p ''general'' now now"
  have "refill l now now = l" using Suc.prems(1) by (simp add: refill_def Let_def)
  then have t: "\<exists>r. fst ?t = Some r"
    "buckets (snd ?t) = (global_tokens l - 1, normal_tokens l - 1, last_refill l, cooldown_until l)"
    using Suc.prems by (simp_all add: try_acquire_def try_consume_def Let_def) (simp add: buckets_def)
  then have b: "global_tokens (snd ?t) = global_tokens l - 1" "normal_tokens (snd ?t) = normal_tokens l - 1"
    "last_refill (snd ?t) = last_refill l" "cooldown_until (snd ?t) = cooldown_until l"
    by (simp_all add: buckets_def)
  have "\<not> in_cooldown (snd ?t) now" using Suc.prems(2) b by (simp add: in_cooldown_def)
  with Suc.IH [of "snd ?t"] Suc.prems b t(1) show ?case
    by (auto simp: split_beta Let_def split: prod.splits)
qed

text \<open>
  The capacity of the normal bucket ignores the reserve. The constructor lowers the normal rate
  to \<open>max - reserve\<close> but sizes the normal bucket with the rate as passed in. Configured with
  30 / 30 / 6, the limiter runs the normal bucket at 24 messages a second yet lets 30 diagnostic
  requests through in one burst, after which an emergency flatten is denied.
\<close>

theorem unclamped_burst_exhausts_reserve:
  "case init_limiter 30 30 6 8 2 ''default'' None 0 of
     Inl e \<Rightarrow> False
   | Inr l \<Rightarrow> normal_msg_per_sec l = 24 \<and> normal_burst_cap l = 30 \<and> fst (try_many 30 4 0 l) = 30
       \<and> fst (try_acquire (snd (try_many 30 4 0 l)) PRIORITY_EMERGENCY_FLATTEN ''flatten'' 0 0) = None"
proof -
  obtain l where i: "init_limiter 30 30 6 8 2 ''default'' None 0 = Inr l"
    by (simp add: init_limiter_def Let_def)
  then have rate: "normal_msg_per_sec l = 24" by (auto simp: init_limiter_def Let_def)
  have l: "last_refill l = 0" "cooldown_until l = 0" "global_tokens l = 30" "normal_tokens l = 30"
    "normal_burst_cap l = 30"
    using init_bucket_ok [OF i] by simp_all
  let ?b = "snd (try_many 30 4 0 l)"
  have b: "fst (try_many 30 4 0 l) = 30" "last_refill ?b = 0" "cooldown_until ?b = 0" "global_tokens ?b = 0"
    using try_many_burst [of 0 l 4 30] l by (simp_all add: in_cooldown_def)
  then have "fst (try_acquire ?b PRIORITY_EMERGENCY_FLATTEN ''flatten'' 0 0) = None"
    by (simp add: try_acquire_def try_consume_def in_cooldown_def refill_def Let_def)
  with i rate l b show ?thesis by simp
qed

section \<open>Waiters\<close>

definition heap_keys :: "limiter \<Rightarrow> (int \<times> nat) list" where
  "heap_keys l = map (\<lambda>(p, s, e). (p, s)) (wait_heap l)"

definition key_less :: "int \<times> nat \<Rightarrow> int \<times> nat \<Rightarrow> bool" where
  "key_less k k' \<longleftrightarrow> fst k < fst k' \<or> (fst k = fst k' \<and> snd k < snd k')"

definition heap_ok :: "limiter \<Rightarrow> bool" where
  "heap_ok l \<longleftrightarrow> sorted_wrt key_less (heap_keys l) \<and> (\<forall>k \<in> set (heap_keys l). snd k \<le> wait_seq l)"

definition queue_of :: "limiter \<Rightarrow> (int \<times> nat) list \<times> nat" where
  "queue_of l = (heap_keys l, wait_seq l)"

lemma heap_ok_cong: "queue_of l' = queue_of l \<Longrightarrow> heap_ok l' = heap_ok l"
  by (auto simp: heap_ok_def queue_of_def)

lemma queue_frame [rl_frame, simp]:
  "queue_of (notify_highest_waiter l now) = queue_of l"
  "queue_of (record_acquire l p t d) = queue_of l"
  "queue_of (clear_event l k) = queue_of l"
  "queue_of (l\<lparr>metrics := m\<rparr>) = queue_of l"
  "queue_of (refill l now now2) = queue_of l"
proof -
  show n: "queue_of (notify_highest_waiter l now) = queue_of l" for l now
    by (auto simp: notify_highest_waiter_def queue_of_def heap_keys_def split: list.splits)
  show "queue_of (record_acquire l p t d) = queue_of l" "queue_of (l\<lparr>metrics := m\<rparr>) = queue_of l"
    by (simp_all add: record_acquire_def queue_of_def heap_keys_def Let_def)
  show "queue_of (clear_event l k) = queue_of l"
    by (auto simp: clear_event_def queue_of_def heap_keys_def)
  show "queue_of (refill l now now2) = queue_of l"
    by (auto simp: refill_def Let_def n) (simp add: queue_of_def heap_keys_def)
qed

lemma try_consume_queue [rl_frame, simp]: "queue_of (snd (try_consume l p t t2)) = queue_of l"
proof -
  have "queue_of (l\<lparr>global_tokens := g\<rparr>) = queue_of l"
    "queue_of (l\<lparr>global_tokens := g, normal_tokens := n\<rparr>) = queue_of l" for l g n
    by (simp_all add: queue_of_def heap_keys_def)
  then show ?thesis by (simp add: try_consume_def Let_def)
qed

lemma seconds_until_queue [rl_frame, simp]:
  "queue_of (snd (seconds_until_available l p t t2)) = queue_of l"
  by (simp add: seconds_until_frame)

lemma set_heap_insert: "set (heap_insert w h) = insert w (set h)"
  by (induction w h rule: heap_insert.induct) auto

lemma keys_heap_insert:
  assumes "sorted_wrt key_less (map (\<lambda>(p, s, e). (p, s)) h)" "\<forall>(p', s', e') \<in> set h. s' < s"
  shows "sorted_wrt key_less (map (\<lambda>(p, s, e). (p, s)) (heap_insert (p, s, e) h))"
  using assms
  by (induction "(p, s, e)" h rule: heap_insert.induct)
    (fastforce simp: key_less_def set_heap_insert)+

lemma push_heap_ok: "heap_ok l \<Longrightarrow> heap_ok (snd (push_waiter l p))"
  using keys_heap_insert [of "wait_heap l" "Suc (wait_seq l)" p False]
  by (fastforce simp: heap_ok_def push_waiter_def heap_keys_def Let_def set_heap_insert)

lemma keys_remove: "heap_keys (remove_waiter l k) = filter (\<lambda>k'. k' \<noteq> k) (heap_keys l)"
  by (auto simp: heap_keys_def remove_waiter_def filter_map comp_def split_beta
      intro!: arg_cong [where f = "map _"] filter_cong)

lemma remove_heap_ok: "heap_ok l \<Longrightarrow> heap_ok (remove_waiter l k)"
  unfolding heap_ok_def keys_remove
  by (simp add: sorted_wrt_filter) (fastforce simp: remove_waiter_def)

lemma highest_waiter_key:
  "is_highest_waiter l k \<Longrightarrow> \<exists>ks. heap_keys l = k # ks"
  by (auto simp: is_highest_waiter_def heap_keys_def split: list.splits)

lemma heap_ok_metrics [simp]: "heap_ok (l\<lparr>metrics := m\<rparr>) = heap_ok l"
  by (rule heap_ok_cong) simp

lemma wait_or_consume_heap_ok:
  assumes "heap_ok l"
  shows "heap_ok (snd (wait_or_consume l wc p ty ck))"
proof -
  have c: "heap_ok (snd (try_consume l p t t2))" for t t2
    using assms heap_ok_cong [OF try_consume_queue] by blast
  have w: "heap_ok m \<Longrightarrow> heap_ok (snd (seconds_until_available m p t t2))" for m t t2
    using heap_ok_cong [OF seconds_until_queue] by blast
  have r: "heap_ok m \<Longrightarrow> heap_ok (record_acquire m p ty d)" for m d
    using heap_ok_cong [OF queue_frame(2)] by blast
  show ?thesis
    using assms c w r remove_heap_ok
    by (simp add: wait_or_consume_def Let_def split_beta split: option.split)
qed

lemma acquire_round_heap_ok:
  assumes "heap_ok l"
  shows "heap_ok (snd (acquire_round l wc p ty ck))"
proof -
  obtain x l1 where e: "wait_or_consume l wc p ty ck = (x, l1)" by force
  then have l1: "heap_ok l1" using wait_or_consume_heap_ok [OF assms, of wc p ty ck] by simp
  have l2: "heap_ok (snd (case wc_my_key wc of Some k \<Rightarrow> (k, l1) | None \<Rightarrow> push_waiter l1 p))"
    using l1 push_heap_ok by (simp split: option.split)
  have clear: "heap_ok m \<Longrightarrow> heap_ok (clear_event m k)" for m k
    using heap_ok_cong [OF queue_frame(3)] by blast
  show ?thesis
    using l1 l2 clear remove_heap_ok
    by (simp add: acquire_round_def e Let_def split_beta split: sum.split)
qed

lemma reach_heap_ok:
  assumes "rl_reach T l0 l" "heap_ok l0"
  shows "heap_ok l"
  using assms
proof (induction rule: rl_reach.induct)
  case reach_start
  then show ?case .
next
  case (reach_step l now l')
  have ok: "heap_ok l" by (rule reach_step.IH [OF reach_step.prems])
  from reach_step.hyps(2) show ?case
  proof cases
    case (step_try priority request_type now2)
    have "queue_of l' = queue_of l"
      by (simp add: step_try try_acquire_def Let_def split_beta)
    with ok heap_ok_cong show ?thesis by blast
  next
    case (step_round ck wc priority request_type)
    with acquire_round_heap_ok [OF ok] show ?thesis by simp
  next
    case step_error_100
    with ok show ?thesis by (simp add: notify_error_100_def heap_ok_def heap_keys_def)
  qed
qed

lemma granted_round:
  assumes "acquire_round l wc p ty ck = (Granted res, l')"
  shows "wait_or_consume l wc p ty ck = (Inl res, l')"
proof -
  obtain x m where "wait_or_consume l wc p ty ck = (x, m)" by force
  then show ?thesis using assms
    by (auto simp: acquire_round_def Let_def split_beta split: sum.splits if_splits)
qed

lemma keys_push:
  "set (heap_keys (snd (push_waiter l p))) = insert (fst (push_waiter l p)) (set (heap_keys l))"
  by (auto simp: push_waiter_def Let_def heap_keys_def set_heap_insert)

text \<open>A round that ends a call leaves none of its queue entries behind.\<close>

lemma finished_round_leaves:
  assumes "acquire_round l wc p ty ck = (oc, l')" "\<forall>wc'. oc \<noteq> Again wc'"
  shows "set (heap_keys l') \<subseteq> set (heap_keys l) - set_option (wc_my_key wc)"
proof -
  obtain x l1 where e: "wait_or_consume l wc p ty ck = (x, l1)" by force
  have c: "heap_keys (snd (try_consume l p t t2)) = heap_keys l" for t t2
    using try_consume_queue [of l p t t2] by (simp add: queue_of_def)
  have w: "heap_keys (snd (seconds_until_available m p t t2)) = heap_keys m"
    "wait_seq (snd (seconds_until_available m p t t2)) = wait_seq m" for m t t2
    using seconds_until_queue [of m p t t2] by (simp_all add: queue_of_def)
  have r: "heap_keys (record_acquire m p ty d) = heap_keys m" for m d
    using queue_frame(2) [of m p ty d] by (simp add: queue_of_def)
  show ?thesis
  proof (cases x)
    case (Inl res)
    then have "l' = l1" using assms(1) e by (simp add: acquire_round_def)
    with e Inl c r show ?thesis
      by (auto simp: wait_or_consume_def Let_def split_beta keys_remove split: if_splits option.splits)
  next
    case (Inr wait_sec)
    then have same: "heap_keys l1 = heap_keys l"
      using e c w by (auto simp: wait_or_consume_def Let_def split_beta split: if_splits)
    let ?k = "case wc_my_key wc of Some k \<Rightarrow> (k, l1) | None \<Rightarrow> push_waiter l1 p"
    have "oc = TimedOut" and l': "heap_keys l' = heap_keys (remove_waiter (snd ?k) (fst ?k))"
      using assms(1,2) e Inr
      by (auto simp: acquire_round_def Let_def split_beta heap_keys_def split: if_splits)
    show ?thesis
    proof (cases "wc_my_key wc")
      case None
      then have "set (heap_keys (snd ?k)) = insert (fst ?k) (set (heap_keys l))"
        using same by (simp add: keys_push)
      with None show ?thesis by (auto simp: l' keys_remove)
    next
      case (Some k)
      then show ?thesis using same by (auto simp: l' keys_remove)
    qed
  qed
qed

text \<open>
  Queued callers are served by priority and, within a priority, in the order they queued. In
  every state a fresh limiter can reach, when a round of a queued call is granted a token, no other
  queued call has a smaller priority number or the same priority and an earlier sequence number;
  and a call that ends, with a token or by timing out, leaves no entry of its own in the queue.
\<close>

theorem waiters_served_in_order:
  assumes "init_limiter mr nr rs mw cd gid mb t0 = Inr l0" and "rl_reach T l0 l"
    and "wc_my_key wc = Some k" and "acquire_round l wc p ty ck = (oc, l')"
  shows "(\<forall>res. oc = Granted res \<longrightarrow> (\<forall>k' \<in> set (heap_keys l). k' = k \<or> key_less k k'))
    \<and> ((\<forall>wc'. oc \<noteq> Again wc') \<longrightarrow> set (heap_keys l') \<subseteq> set (heap_keys l) - {k})"
proof -
  have "heap_ok l0" using init_bucket_ok [OF assms(1)] by (simp add: heap_ok_def heap_keys_def)
  then have ok: "heap_ok l" by (rule reach_heap_ok [OF assms(2)])
  have "\<forall>k' \<in> set (heap_keys l). k' = k \<or> key_less k k'" if "oc = Granted res" for res
  proof -
    from granted_round [OF assms(4) [unfolded that]] assms(3) have "is_highest_waiter l k"
      by (auto simp: wait_or_consume_def Let_def split_beta split: if_splits)
    then obtain ks where "heap_keys l = k # ks" using highest_waiter_key by blast
    with ok show ?thesis by (auto simp: heap_ok_def)
  qed
  moreover have "set (heap_keys l') \<subseteq> set (heap_keys l) - {k}" if "\<forall>wc'. oc \<noteq> Again wc'"
    using finished_round_leaves [OF assms(4) that] assms(3) by simp
  ultimately show ?thesis by blast
qed

definition sample_round :: "decimal \<Rightarrow> round_clock" where
  "sample_round t = \<lparr> ck_consume = t, ck_grant = t, ck_wait = t, ck_grant2 = t, ck_remaining = t \<rparr>"

theorem waiters_served_in_order_witness:
  "\<exists>l l' res. is_highest_waiter l (0, 1)
     \<and> acquire_round l (start_call 8\<lparr>wc_my_key := Some (0, 1)\<rparr>) 0 ''flatten'' (sample_round 1)
       = (Granted res, l') \<and> (0, 1) \<notin> set (heap_keys l')"
proof -
  obtain l0 where i: "init_limiter 30 24 6 8 0 ''default'' None 0 = Inr l0"
    by (simp add: init_limiter_def Let_def)
  let ?e = "notify_error_100 l0 0"
  let ?l = "snd (acquire_round ?e (start_call 8) 0 ''flatten'' (sample_round 0))"
  let ?wc = "start_call 8\<lparr>wc_my_key := Some (0, 1)\<rparr>"
  have "rl_reach 1 l0 ?e"
    by (rule reach_step [OF reach_start step_error_100, where now = 0])
      (use init_bucket_ok [OF i] in simp_all)
  then have reach: "rl_reach 1 l0 ?l"
    by (rule reach_step [OF _ step_round, where now = 0]) (simp_all add: sample_round_def)
  note defs = acquire_round_def wait_or_consume_def seconds_until_available_def try_consume_def
    refill_def in_cooldown_def notify_highest_waiter_def push_waiter_def clear_event_def
    could_grant_def is_highest_waiter_def start_call_def sample_round_def notify_error_100_def
  have l: "?l = (notify_error_100 l0 0)\<lparr>wait_seq := 1, wait_heap := [(0, 1, False)]\<rparr>"
    using init_bucket_ok [OF i] i by (auto simp: defs init_limiter_def Let_def)
  have top: "is_highest_waiter ?l (0, 1)" unfolding l by (simp add: is_highest_waiter_def)
  have "\<exists>res l'. acquire_round ?l ?wc 0 ''flatten'' (sample_round 1) = (Granted res, l')"
    unfolding l using init_bucket_ok [OF i] i
    by (auto simp: defs init_limiter_def Let_def)
  then obtain res l' where g: "acquire_round ?l ?wc 0 ''flatten'' (sample_round 1) = (Granted res, l')"
    by blast
  have "(0, 1) \<notin> set (heap_keys l')"
    using waiters_served_in_order [OF i reach _ g, of "(0, 1)"] by auto
  with top g show ?thesis by blast
qed

lemma round_keeps_deadline:
  "acquire_round l wc p ty ck = (Again wc', l') \<Longrightarrow> wc_deadline wc' = wc_deadline wc
     \<and> ck_remaining ck < wc_deadline wc"
  by (cases "wait_or_consume l wc p ty ck")
    (auto simp: acquire_round_def Let_def split_beta split: sum.splits if_splits)

lemma loop_ends:
  assumes "(env, ck) \<in> set rounds" "wc_deadline wc \<le> ck_remaining ck"
  shows "\<exists>oc l'. acquire_loop l wc p ty rounds = (Some oc, l')"
  using assms
proof (induction rounds arbitrary: l wc)
  case Nil
  then show ?case by simp
next
  case (Cons r rounds)
  obtain env' ck' where r: "r = (env', ck')" by force
  obtain o1 l1 where e: "acquire_round (env' l) wc p ty ck' = (o1, l1)" by force
  show ?case
  proof (cases o1)
    case (Again wc')
    note k = round_keeps_deadline [OF e [unfolded Again]]
    then have "(env, ck) \<in> set rounds" using Cons.prems r by auto
    with Cons.IH [of wc' l1] k Cons.prems(2) show ?thesis by (simp add: r e Again)
  qed (simp_all add: r e)
qed



text \<open>
  A call that is not queued yet does not look at the queue. After error 100 has drained the
  buckets an emergency flatten waits in the queue; a contract-details request of lower priority that
  arrives when the first tokens are back takes them, and the next round of the emergency request
  goes on waiting.
\<close>

theorem newcomer_overtakes_emergency:
  "case init_limiter 30 24 6 8 0 ''default'' None 0 of Inl e \<Rightarrow> False | Inr l0 \<Rightarrow>
     (case acquire_round (notify_error_100 l0 0) (start_call 8) PRIORITY_EMERGENCY_FLATTEN ''flatten''
             (sample_round 0) of
        (Again wc, l1) \<Rightarrow> heap_keys l1 = [(PRIORITY_EMERGENCY_FLATTEN, 1)]
          \<and> (case try_acquire l1 PRIORITY_CONTRACT_DETAILS ''contract'' (1 / 24) (1 / 24) of
               (Some res, l2) \<Rightarrow> ar_priority res = PRIORITY_CONTRACT_DETAILS
                 \<and> (case acquire_round l2 wc PRIORITY_EMERGENCY_FLATTEN ''flatten''
                           (sample_round (1 / 24)) of
                      (Again wc', l3) \<Rightarrow> heap_keys l3 = [(PRIORITY_EMERGENCY_FLATTEN, 1)]
                    | (_, l3) \<Rightarrow> False)
             | (None, l2) \<Rightarrow> False)
      | (_, l1) \<Rightarrow> False)"
  by code_simp

end
