(* ===== verification/Watchdog_State.thy ===== *)
theory Watchdog_State
  imports Prelude
begin

text \<open>
  The data of \<open>services/watchdog/models.py\<close> and the pure transition functions of
  \<open>services/watchdog/state_machine.py\<close>: the state of a monitored service, the events the
  operator is told about, \<open>next_state\<close> and \<open>event_for_transition\<close>. Enumeration members
  carry a prefix of their class (\<open>S_\<close>, \<open>H_\<close>, \<open>E_\<close>) because the classes share names.
\<close>

section \<open>Enumerations and records\<close>

datatype service_name = GATEWAY | BACKEND | WEBHOOK | DEMO | POSTGRES | REDIS

primrec service_value :: "service_name \<Rightarrow> string" where
  "service_value GATEWAY = ''gateway''"
| "service_value BACKEND = ''backend''"
| "service_value WEBHOOK = ''webhook''"
| "service_value DEMO = ''demo''"
| "service_value POSTGRES = ''postgres''"
| "service_value REDIS = ''redis''"

datatype service_state =
    S_UNKNOWN | S_STARTING | S_HEALTHY | S_DEGRADED | S_FAILED | S_RECOVERING | S_VERIFYING
  | S_RECOVERED | S_MANUAL_INTERVENTION_REQUIRED | S_TRADING_BLOCKED | S_MARKET_CLOSED

datatype health_status = H_HEALTHY | H_DEGRADED | H_FAILED | H_UNKNOWN

datatype notification_event =
    E_START | E_STOP | E_FAILURE | E_UNHEALTHY | E_RECOVERY_STARTED | E_RECOVERED
  | E_RECOVERY_FAILED | E_MANUAL_INTERVENTION_REQUIRED | E_TRADING_BLOCKED | E_MARKET_CLOSED

text \<open>The fields of \<open>HealthResult\<close> that the daemon reads or overwrites.\<close>

record health_result =
  h_status :: health_status
  h_liveness :: health_status
  h_readiness :: health_status
  h_detail :: string
  h_reason :: "string option"
  h_pid :: "int option"
  h_underlying_error :: "string option"
  h_what_happened :: "string option"
  h_impact :: "string option"
  h_trading_impact :: "string option"

record service_snapshot =
  service :: service_name
  state :: service_state
  last_health :: "health_result option"
  last_transition_at :: datetime
  consecutive_failures :: int
  consecutive_successes :: int
  recovery_attempts :: "datetime list"
  last_recovery_at :: "datetime option"
  recovery_failed_count :: int
  failure_reason :: string

definition new_snapshot :: "service_name \<Rightarrow> service_state \<Rightarrow> datetime \<Rightarrow> service_snapshot" where
  "new_snapshot svc st now =
     \<lparr>service = svc, state = st, last_health = None, last_transition_at = now,
      consecutive_failures = 0, consecutive_successes = 0, recovery_attempts = [],
      last_recovery_at = None, recovery_failed_count = 0, failure_reason = []\<rparr>"

section \<open>\<open>next_state\<close>\<close>

definition next_state ::
  "service_snapshot \<Rightarrow> bool \<Rightarrow> bool \<Rightarrow> bool option \<Rightarrow> bool \<Rightarrow> bool \<Rightarrow> service_state" where
  "next_state snapshot health_failed health_degraded verifying_success safety_trading_blocked
              is_market_closed =
     (let cur = state snapshot in
      if is_market_closed \<and> health_failed then S_MARKET_CLOSED
      else if is_market_closed \<and> cur = S_MARKET_CLOSED \<and> \<not> health_failed \<and> \<not> health_degraded
      then S_HEALTHY
      else if safety_trading_blocked \<and>
              cur \<notin> {S_MANUAL_INTERVENTION_REQUIRED, S_TRADING_BLOCKED, S_MARKET_CLOSED}
      then S_TRADING_BLOCKED
      else (case cur of
          S_UNKNOWN \<Rightarrow> if health_failed then S_FAILED
                       else if health_degraded then S_DEGRADED else S_HEALTHY
        | S_STARTING \<Rightarrow> if health_failed then S_FAILED
                        else if health_degraded then S_DEGRADED else S_HEALTHY
        | S_HEALTHY \<Rightarrow> if health_failed then S_FAILED
                       else if health_degraded then S_DEGRADED else S_HEALTHY
        | S_DEGRADED \<Rightarrow> if health_failed then S_FAILED
                        else if \<not> health_failed \<and> \<not> health_degraded then S_HEALTHY
                        else S_DEGRADED
        | S_FAILED \<Rightarrow> if \<not> health_failed \<and> \<not> health_degraded then S_RECOVERED
                      else if \<not> health_failed \<and> health_degraded then S_DEGRADED
                      else S_FAILED
        | S_RECOVERING \<Rightarrow> S_VERIFYING
        | S_VERIFYING \<Rightarrow> if verifying_success = Some True then S_RECOVERED
                         else if verifying_success = Some False then S_FAILED
                         else S_VERIFYING
        | S_RECOVERED \<Rightarrow> if health_failed then S_FAILED
                         else if health_degraded then S_DEGRADED else S_HEALTHY
        | S_MANUAL_INTERVENTION_REQUIRED \<Rightarrow>
            if safety_trading_blocked then cur
            else if \<not> health_failed \<and> \<not> health_degraded then S_HEALTHY else cur
        | S_TRADING_BLOCKED \<Rightarrow>
            if safety_trading_blocked then cur
            else if \<not> health_failed \<and> \<not> health_degraded then S_HEALTHY else cur
        | S_MARKET_CLOSED \<Rightarrow>
            if is_market_closed \<and> health_failed then S_MARKET_CLOSED
            else if \<not> health_failed \<and> \<not> health_degraded then S_HEALTHY
            else if \<not> is_market_closed \<and> health_failed then S_FAILED
            else cur))"

section \<open>\<open>event_for_transition\<close>\<close>

definition transition_mapping ::
  "((service_state \<times> service_state) \<times> notification_event) list" where
  "transition_mapping =
     [((S_UNKNOWN, S_HEALTHY), E_START),
      ((S_STARTING, S_HEALTHY), E_START),
      ((S_UNKNOWN, S_FAILED), E_FAILURE),
      ((S_HEALTHY, S_FAILED), E_FAILURE),
      ((S_DEGRADED, S_FAILED), E_FAILURE),
      ((S_HEALTHY, S_DEGRADED), E_UNHEALTHY),
      ((S_FAILED, S_RECOVERING), E_RECOVERY_STARTED),
      ((S_VERIFYING, S_RECOVERED), E_RECOVERED),
      ((S_VERIFYING, S_FAILED), E_RECOVERY_FAILED),
      ((S_FAILED, S_MANUAL_INTERVENTION_REQUIRED), E_MANUAL_INTERVENTION_REQUIRED),
      ((S_RECOVERING, S_MANUAL_INTERVENTION_REQUIRED), E_MANUAL_INTERVENTION_REQUIRED),
      ((S_VERIFYING, S_MANUAL_INTERVENTION_REQUIRED), E_MANUAL_INTERVENTION_REQUIRED),
      ((S_MANUAL_INTERVENTION_REQUIRED, S_HEALTHY), E_RECOVERED)]"

definition event_for_transition ::
  "service_state \<Rightarrow> service_state \<Rightarrow> notification_event option" where
  "event_for_transition prev nxt =
     (if prev = nxt then None
      else if nxt = S_TRADING_BLOCKED then Some E_TRADING_BLOCKED
      else if nxt = S_MARKET_CLOSED then Some E_MARKET_CLOSED
      else if prev = S_MARKET_CLOSED \<and> nxt = S_HEALTHY then Some E_RECOVERED
      else if prev = S_MARKET_CLOSED \<and> nxt = S_FAILED then Some E_FAILURE
      else if prev = S_TRADING_BLOCKED \<and> nxt = S_HEALTHY then Some E_RECOVERED
      else if prev = S_TRADING_BLOCKED \<and> nxt = S_RECOVERED then Some E_RECOVERED
      else if prev = S_FAILED \<and> nxt = S_RECOVERED then Some E_RECOVERED
      else map_of transition_mapping (prev, nxt))"

definition is_trading_critical :: "string \<Rightarrow> bool" where
  "is_trading_critical service_name \<longleftrightarrow> service_name \<in> {''gateway'', ''backend''}"

section \<open>Facts on single transitions\<close>

named_theorems wd_simps \<open>equations of the watchdog's transition functions\<close>

lemma new_snapshot_simps [simp]:
  "service (new_snapshot svc st now) = svc"
  "state (new_snapshot svc st now) = st"
  "recovery_attempts (new_snapshot svc st now) = []"
  "last_recovery_at (new_snapshot svc st now) = None"
  by (simp_all add: new_snapshot_def)

lemma next_state_market_closed [simp]:
  "next_state snap True dg vs sb True = S_MARKET_CLOSED"
  by (simp add: next_state_def)

text \<open>\<open>RECOVERING\<close> is entered by the daemon only, and so is
  \<open>MANUAL_INTERVENTION_REQUIRED\<close>: the pure machine never moves there.\<close>

lemma next_state_not_recovering [simp]: "next_state snap hf dg vs sb mc \<noteq> S_RECOVERING"
  by (cases "state snap") (auto simp: next_state_def Let_def)

lemma next_state_manual:
  "next_state snap hf dg vs sb mc = S_MANUAL_INTERVENTION_REQUIRED \<Longrightarrow>
   state snap = S_MANUAL_INTERVENTION_REQUIRED"
  by (cases "state snap") (auto simp: next_state_def Let_def split: if_splits)

lemma next_state_verifying:
  "next_state snap hf dg vs sb mc = S_VERIFYING \<Longrightarrow>
   state snap = S_RECOVERING \<or> state snap = S_VERIFYING"
  by (cases "state snap") (auto simp: next_state_def Let_def split: if_splits)

lemma next_state_failed:
  "next_state snap hf dg vs sb mc = S_FAILED \<Longrightarrow>
   hf \<and> \<not> mc \<or> state snap = S_VERIFYING \<and> vs = Some False"
  by (cases "state snap") (auto simp: next_state_def Let_def split: if_splits)

lemma next_state_recovered:
  "next_state snap hf dg vs sb mc = S_RECOVERED \<Longrightarrow>
   state snap = S_FAILED \<and> \<not> hf \<and> \<not> dg \<or> state snap = S_VERIFYING \<and> vs = Some True"
  by (cases "state snap") (auto simp: next_state_def Let_def split: if_splits)

lemma next_state_blocked:
  "next_state snap hf dg vs sb mc = S_TRADING_BLOCKED \<Longrightarrow>
   sb \<or> state snap = S_TRADING_BLOCKED"
  by (cases "state snap") (auto simp: next_state_def Let_def split: if_splits)

text \<open>While the safety gates block, the machine itself reaches no state that counts as good.\<close>

lemma next_state_blocked_stays_blocked:
  "next_state snap hf dg vs True False \<in>
     {S_TRADING_BLOCKED, S_MANUAL_INTERVENTION_REQUIRED, S_HEALTHY, S_FAILED, S_MARKET_CLOSED}
   \<and> (state snap \<noteq> S_MARKET_CLOSED \<longrightarrow>
       next_state snap hf dg vs True False \<in> {S_TRADING_BLOCKED, S_MANUAL_INTERVENTION_REQUIRED})"
  by (cases "state snap") (auto simp: next_state_def Let_def)

end
