(* ===== verification/Notification_Queue.thy ===== *)
theory Notification_Queue
  imports Watchdog_State
begin

text \<open>
  \<open>NotificationDeduplicator\<close> and \<open>NotificationQueue\<close> of
  \<open>services/watchdog/notifier.py\<close>: the cooldown per service and event, and the bounded queue
  of three priority buckets with its eviction rules. \<open>time.monotonic()\<close> is an argument (seconds
  as a rational); the worker's removal of the next message is \<open>worker_pop\<close>; sending it is the
  Telegram client's business.
\<close>

section \<open>Priorities\<close>

definition CRITICAL_EVENTS :: "notification_event set" where
  "CRITICAL_EVENTS =
     {E_FAILURE, E_RECOVERY_FAILED, E_MANUAL_INTERVENTION_REQUIRED, E_TRADING_BLOCKED}"

definition WARNING_EVENTS :: "notification_event set" where
  "WARNING_EVENTS = {E_UNHEALTHY, E_RECOVERY_STARTED}"

definition priority :: "notification_event \<Rightarrow> int" where
  "priority event = (if event \<in> CRITICAL_EVENTS then 2 else if event \<in> WARNING_EVENTS then 1 else 0)"

section \<open>Deduplication\<close>

record deduplicator =
  cooldown :: rat
  last_sent :: "string \<times> notification_event \<rightharpoonup> rat"
  last_event_per_service :: "string \<rightharpoonup> notification_event"

definition new_deduplicator :: "rat \<Rightarrow> deduplicator" where
  "new_deduplicator cooldown_seconds =
     \<lparr>cooldown = cooldown_seconds, last_sent = Map.empty, last_event_per_service = Map.empty\<rparr>"

definition should_send :: "deduplicator \<Rightarrow> rat \<Rightarrow> service_name \<Rightarrow> notification_event \<Rightarrow> bool" where
  "should_send d now svc event =
     (case last_sent d (service_value svc, event) of
        None \<Rightarrow> True
      | Some last_at \<Rightarrow>
          (case last_event_per_service d (service_value svc) of
             Some last_ev \<Rightarrow> if last_ev \<noteq> event then True else now - last_at \<ge> cooldown d
           | None \<Rightarrow> now - last_at \<ge> cooldown d))"

definition mark_sent ::
  "deduplicator \<Rightarrow> rat \<Rightarrow> service_name \<Rightarrow> notification_event \<Rightarrow> deduplicator" where
  "mark_sent d now svc event =
     d\<lparr>last_sent := (last_sent d)((service_value svc, event) \<mapsto> now),
       last_event_per_service := (last_event_per_service d)(service_value svc \<mapsto> event)\<rparr>"

definition clear_dedup :: "deduplicator \<Rightarrow> service_name \<Rightarrow> deduplicator" where
  "clear_dedup d svc =
     d\<lparr>last_event_per_service := (last_event_per_service d)(service_value svc := None)\<rparr>"

section \<open>The bounded queue\<close>

type_synonym message = "service_name \<times> notification_event \<times> string"

record notification_queue =
  critical :: "message list"
  warning :: "message list"
  info :: "message list"
  dedup :: deduplicator
  dropped_count :: nat
  compat_queue :: "message list"

abbreviation BOUNDED_MAXLEN :: nat where
  "BOUNDED_MAXLEN \<equiv> 100"

definition new_queue :: "rat \<Rightarrow> notification_queue" where
  "new_queue cooldown_seconds =
     \<lparr>critical = [], warning = [], info = [], dedup = new_deduplicator cooldown_seconds,
      dropped_count = 0, compat_queue = []\<rparr>"

definition queue_total :: "notification_queue \<Rightarrow> nat" where
  "queue_total q = length (critical q) + length (warning q) + length (info q)"

text \<open>\<open>_bucket(event).append(item)\<close>.\<close>

definition bucket_append :: "message \<Rightarrow> notification_queue \<Rightarrow> notification_queue" where
  "bucket_append item q =
     (case item of (svc, event, text) \<Rightarrow>
        if event \<in> CRITICAL_EVENTS then q\<lparr>critical := critical q @ [item]\<rparr>
        else if event \<in> WARNING_EVENTS then q\<lparr>warning := warning q @ [item]\<rparr>
        else q\<lparr>info := info q @ [item]\<rparr>)"

text \<open>\<open>_sync_compat_queue\<close>: the last hundred entries of the buckets in priority order.\<close>

definition sync_compat_queue :: "notification_queue \<Rightarrow> notification_queue" where
  "sync_compat_queue q =
     (let combined = critical q @ warning q @ info q
      in q\<lparr>compat_queue := drop (length combined - BOUNDED_MAXLEN) combined\<rparr>)"

text \<open>The three statements every successful branch of \<open>enqueue\<close> ends with.\<close>

definition accept :: "rat \<Rightarrow> message \<Rightarrow> notification_queue \<Rightarrow> notification_queue" where
  "accept now item q =
     (case item of (svc, event, text) \<Rightarrow>
        let q1 = bucket_append item q;
            q2 = q1\<lparr>dedup := mark_sent (dedup q1) now svc event\<rparr>
        in sync_compat_queue q2)"

text \<open>\<open>enqueue\<close>: the clock is read by \<open>should_send\<close> and again by \<open>mark_sent\<close>.\<close>

definition enqueue ::
  "rat \<Rightarrow> rat \<Rightarrow> service_name \<Rightarrow> notification_event \<Rightarrow> string \<Rightarrow> bool \<Rightarrow> notification_queue \<Rightarrow>
   bool \<times> notification_queue" where
  "enqueue now now' svc event text force q =
     (if \<not> force \<and> \<not> should_send (dedup q) now svc event then (False, q)
      else if queue_total q < BOUNDED_MAXLEN then (True, accept now' (svc, event, text) q)
      else if priority event = 2 then
        (if info q \<noteq> [] then
           (True, accept now' (svc, event, text)
                    (q\<lparr>info := tl (info q), dropped_count := dropped_count q + 1\<rparr>))
         else if warning q \<noteq> [] then
           (True, accept now' (svc, event, text)
                    (q\<lparr>warning := tl (warning q), dropped_count := dropped_count q + 1\<rparr>))
         else
           (True, accept now' (svc, event, text)
                    (q\<lparr>critical := tl (critical q), dropped_count := dropped_count q + 1\<rparr>)))
      else if priority event = 1 then
        (if info q \<noteq> [] then
           (True, accept now' (svc, event, text)
                    (q\<lparr>info := tl (info q), dropped_count := dropped_count q + 1\<rparr>))
         else (False, q\<lparr>dropped_count := dropped_count q + 1\<rparr>))
      else
        (if info q \<noteq> [] then
           (True, accept now' (svc, event, text)
                    (q\<lparr>info := tl (info q), dropped_count := dropped_count q + 1\<rparr>))
         else (False, q\<lparr>dropped_count := dropped_count q + 1\<rparr>)))"

text \<open>One round of \<open>_worker\<close>: the next message by priority, first in first out.\<close>

definition worker_pop :: "notification_queue \<Rightarrow> message option \<times> notification_queue" where
  "worker_pop q =
     (case critical q of
        item # rest \<Rightarrow> (Some item, sync_compat_queue (q\<lparr>critical := rest\<rparr>))
      | [] \<Rightarrow>
          (case warning q of
             item # rest \<Rightarrow> (Some item, sync_compat_queue (q\<lparr>warning := rest\<rparr>))
           | [] \<Rightarrow>
               (case info q of
                  item # rest \<Rightarrow> (Some item, sync_compat_queue (q\<lparr>info := rest\<rparr>))
                | [] \<Rightarrow> (None, q))))"

text \<open>\<open>notifier.dedup.clear(svc)\<close>, as the daemon calls it on recovery.\<close>

definition clear_service :: "service_name \<Rightarrow> notification_queue \<Rightarrow> notification_queue" where
  "clear_service svc q = q\<lparr>dedup := clear_dedup (dedup q) svc\<rparr>"

end
