(* ===== verification/Notification_Properties.thy ===== *)
theory Notification_Properties
  imports Notification_Queue
begin

text \<open>
  What the notification queue promises, over arbitrary sequences of its operations: the bound, the
  separation of the buckets, the balance of messages offered, queued, delivered and dropped, the
  priority of critical messages, and the effect of clearing the deduplication state on recovery.
\<close>

section \<open>A contract for stores with inflow and outflow\<close>

locale flow_store =
  fixes step :: "'op \<Rightarrow> 'q \<Rightarrow> 'q"
    and ok :: "'q \<Rightarrow> bool"
    and level :: "'q \<Rightarrow> nat"
    and inflow :: "'op \<Rightarrow> 'q \<Rightarrow> nat"
    and outflow :: "'op \<Rightarrow> 'q \<Rightarrow> nat"
  assumes ok_step: "ok q \<Longrightarrow> ok (step x q)"
    and balance: "ok q \<Longrightarrow> level (step x q) + outflow x q = level q + inflow x q"
begin

primrec summed :: "('op \<Rightarrow> 'q \<Rightarrow> nat) \<Rightarrow> 'op list \<Rightarrow> 'q \<Rightarrow> nat" where
  "summed f [] q = 0"
| "summed f (x # xs) q = f x q + summed f xs (step x q)"

lemma ok_run: "ok q \<Longrightarrow> ok (fold step xs q)"
  by (induction xs arbitrary: q) (simp_all add: ok_step)

lemma run_balance:
  "ok q \<Longrightarrow> level (fold step xs q) + summed outflow xs q = level q + summed inflow xs q"
proof (induction xs arbitrary: q)
  case (Cons x xs)
  then have "level (fold step xs (step x q)) + summed outflow xs (step x q) =
             level (step x q) + summed inflow xs (step x q)"
    by (simp add: ok_step)
  with balance [OF Cons.prems, of x] show ?case by simp
qed simp

end

section \<open>Operations as data\<close>

datatype nq_op =
    Op_Enqueue rat rat service_name notification_event string bool
  | Op_Pop
  | Op_Clear service_name

primrec nq_step :: "nq_op \<Rightarrow> notification_queue \<Rightarrow> notification_queue" where
  "nq_step (Op_Enqueue t t' svc ev txt force) q = snd (enqueue t t' svc ev txt force q)"
| "nq_step Op_Pop q = snd (worker_pop q)"
| "nq_step (Op_Clear svc) q = clear_service svc q"

text \<open>Messages an operation offers to the queue (past deduplication), and those it hands out.\<close>

primrec offered :: "nq_op \<Rightarrow> notification_queue \<Rightarrow> nat" where
  "offered (Op_Enqueue t t' svc ev txt force) q =
     (if force \<or> should_send (dedup q) t svc ev then 1 else 0)"
| "offered Op_Pop q = 0"
| "offered (Op_Clear svc) q = 0"

primrec delivered :: "nq_op \<Rightarrow> notification_queue \<Rightarrow> nat" where
  "delivered (Op_Enqueue t t' svc ev txt force) q = 0"
| "delivered Op_Pop q = (if fst (worker_pop q) = None then 0 else 1)"
| "delivered (Op_Clear svc) q = 0"

primrec nq_count ::
  "(nq_op \<Rightarrow> notification_queue \<Rightarrow> nat) \<Rightarrow> nq_op list \<Rightarrow> notification_queue \<Rightarrow> nat" where
  "nq_count f [] q = 0"
| "nq_count f (x # xs) q = f x q + nq_count f xs (nq_step x q)"

text \<open>The representation invariant.\<close>

definition event_of :: "message \<Rightarrow> notification_event" where
  "event_of m = fst (snd m)"

definition bucket_ok :: "int \<Rightarrow> message list \<Rightarrow> bool" where
  "bucket_ok p ms \<longleftrightarrow> (\<forall>m \<in> set ms. priority (event_of m) = p)"

definition nq_inv :: "notification_queue \<Rightarrow> bool" where
  "nq_inv q \<longleftrightarrow>
     queue_total q \<le> BOUNDED_MAXLEN \<and>
     bucket_ok 2 (critical q) \<and>
     bucket_ok 1 (warning q) \<and>
     bucket_ok 0 (info q) \<and>
     compat_queue q = critical q @ warning q @ info q"

lemma bucket_ok_simps [simp]:
  "bucket_ok p []"
  "bucket_ok p (m # ms) \<longleftrightarrow> priority (event_of m) = p \<and> bucket_ok p ms"
  "bucket_ok p (ms @ ms') \<longleftrightarrow> bucket_ok p ms \<and> bucket_ok p ms'"
  by (auto simp: bucket_ok_def)

lemma bucket_ok_tl [simp]: "bucket_ok p ms \<Longrightarrow> bucket_ok p (tl ms)"
  by (cases ms) simp_all

lemma accept_buckets:
  "critical (accept t (svc, ev, txt) q) =
     (if priority ev = 2 then critical q @ [(svc, ev, txt)] else critical q)"
  "warning (accept t (svc, ev, txt) q) =
     (if priority ev = 1 then warning q @ [(svc, ev, txt)] else warning q)"
  "info (accept t (svc, ev, txt) q) =
     (if priority ev = 0 then info q @ [(svc, ev, txt)] else info q)"
  "dropped_count (accept t (svc, ev, txt) q) = dropped_count q"
  "queue_total (accept t (svc, ev, txt) q) = queue_total q + 1"
  "dedup (accept t (svc, ev, txt) q) = mark_sent (dedup q) t svc ev"
  by (auto simp: accept_def bucket_append_def sync_compat_queue_def priority_def Let_def
      queue_total_def)

lemma accept_compat:
  "queue_total q < BOUNDED_MAXLEN \<Longrightarrow>
   compat_queue (accept t m q) =
     critical (accept t m q) @ warning (accept t m q) @ info (accept t m q)"
  by (cases m) (auto simp: accept_def bucket_append_def sync_compat_queue_def Let_def
      queue_total_def)

lemma accept_inv:
  assumes "queue_total q < BOUNDED_MAXLEN"
    and "bucket_ok 2 (critical q)"
    and "bucket_ok 1 (warning q)"
    and "bucket_ok 0 (info q)"
  shows "nq_inv (accept t (svc, ev, txt) q)"
  using assms by (auto simp: nq_inv_def accept_buckets accept_compat event_of_def)

lemma total_drop:
  "critical q \<noteq> [] \<Longrightarrow> queue_total (q\<lparr>critical := tl (critical q)\<rparr>) = queue_total q - 1"
  "warning q \<noteq> [] \<Longrightarrow> queue_total (q\<lparr>warning := tl (warning q)\<rparr>) = queue_total q - 1"
  "info q \<noteq> [] \<Longrightarrow> queue_total (q\<lparr>info := tl (info q)\<rparr>) = queue_total q - 1"
  "queue_total (q\<lparr>dropped_count := n\<rparr>) = queue_total q"
  by (cases "critical q"; cases "warning q"; cases "info q"; simp add: queue_total_def)+

lemma full_critical:
  "\<lbrakk>\<not> queue_total q < BOUNDED_MAXLEN; info q = []; warning q = []\<rbrakk> \<Longrightarrow> critical q \<noteq> []"
  by (auto simp: queue_total_def)

lemmas enqueue_cases = enqueue_def [unfolded Let_def]

lemma enqueue_inv:
  assumes "nq_inv q"
  shows "nq_inv (snd (enqueue t t' svc ev txt force q))"
  using assms full_critical [of q]
  by (auto simp: enqueue_cases nq_inv_def [of q] total_drop intro!: accept_inv)
    (auto simp: nq_inv_def total_drop)

lemma pop_inv: "nq_inv q \<Longrightarrow> nq_inv (snd (worker_pop q))"
  by (auto simp: worker_pop_def nq_inv_def sync_compat_queue_def Let_def queue_total_def
      split: list.splits)

lemma clear_inv: "nq_inv q \<Longrightarrow> nq_inv (clear_service svc q)"
  by (simp add: clear_service_def nq_inv_def queue_total_def)

lemma enqueue_balance:
  assumes "nq_inv q"
  shows "queue_total (snd (enqueue t t' svc ev txt force q)) +
           dropped_count (snd (enqueue t t' svc ev txt force q)) =
         queue_total q + dropped_count q + offered (Op_Enqueue t t' svc ev txt force) q"
proof -
  have pos: "\<not> queue_total q < BOUNDED_MAXLEN \<Longrightarrow> queue_total q - 1 + 1 = queue_total q"
    by simp
  show ?thesis
    using full_critical [of q] pos by (auto simp: enqueue_cases accept_buckets total_drop)
qed

lemma pop_balance:
  "queue_total (snd (worker_pop q)) + dropped_count (snd (worker_pop q)) + delivered Op_Pop q =
   queue_total q + dropped_count q"
  by (auto simp: worker_pop_def sync_compat_queue_def queue_total_def Let_def split: list.splits)

interpretation alerts: flow_store nq_step nq_inv "\<lambda>q. queue_total q + dropped_count q"
  offered delivered
proof
  fix q x
  assume inv: "nq_inv q"
  show "nq_inv (nq_step x q)"
    using inv by (cases x) (simp_all add: enqueue_inv pop_inv clear_inv)
  show "queue_total (nq_step x q) + dropped_count (nq_step x q) + delivered x q =
        queue_total q + dropped_count q + offered x q"
    using enqueue_balance [OF inv] pop_balance [of q]
    by (cases x) (simp_all add: clear_service_def queue_total_def)
qed

lemma nq_count_summed: "nq_count f xs q = alerts.summed f xs q"
  by (induction xs arbitrary: q) simp_all

lemma nq_inv_new [simp]: "nq_inv (new_queue c)"
  by (simp add: nq_inv_def new_queue_def queue_total_def)

section \<open>Properties\<close>

text \<open>Whatever sequence of enqueues, worker rounds and recovery clears starts from a new
  queue, at most 100 messages are queued, each bucket holds messages of its own priority only, the
  compatibility view is the three buckets in priority order, and every message that passed
  deduplication is accounted for: queued, delivered or counted as dropped.\<close>

theorem notification_accounting:
  "let q = fold nq_step ops (new_queue c) in
     queue_total q \<le> BOUNDED_MAXLEN \<and>
     (\<forall>m. m \<in> set (critical q) \<longrightarrow> priority (event_of m) = 2) \<and>
     (\<forall>m. m \<in> set (warning q) \<longrightarrow> priority (event_of m) = 1) \<and>
     (\<forall>m. m \<in> set (info q) \<longrightarrow> priority (event_of m) = 0) \<and>
     compat_queue q = critical q @ warning q @ info q \<and>
     nq_count offered ops (new_queue c) =
       queue_total q + nq_count delivered ops (new_queue c) + dropped_count q"
proof -
  have start: "queue_total (new_queue c) + dropped_count (new_queue c) = 0"
    by (simp add: new_queue_def queue_total_def)
  have "nq_inv (fold nq_step ops (new_queue c))"
    by (rule alerts.ok_run) simp
  moreover have "nq_count offered ops (new_queue c) =
      queue_total (fold nq_step ops (new_queue c)) + dropped_count (fold nq_step ops (new_queue c)) +
      nq_count delivered ops (new_queue c)"
    using alerts.run_balance [of "new_queue c" ops] start
    by (simp only: nq_count_summed nq_inv_new)
  ultimately show ?thesis by (simp only: nq_inv_def bucket_ok_def Let_def) simp
qed

theorem notification_accounting_witness:
  "queue_total (fold nq_step [Op_Enqueue 0 0 GATEWAY E_FAILURE ''down'' False, Op_Pop]
     (new_queue 300)) \<le> 100"
  using notification_accounting
    [of "[Op_Enqueue 0 0 GATEWAY E_FAILURE ''down'' False, Op_Pop]" 300]
  by (simp add: Let_def)

text \<open>Critical alerts are not lost to noise. In every state of the queue, a critical event
  that is forced or passes deduplication is accepted and put last among the critical messages; it
  displaces the oldest information message if there is one, else the oldest warning, and an older
  critical message only when all hundred queued messages are critical. A warning or information
  event never removes a critical message, nor does it remove a warning.\<close>

theorem critical_alerts_kept:
  assumes run: "q = fold nq_step ops (new_queue c)"
    and res: "enqueue t t' svc ev txt force q = (sent, q')"
    and pass: "force \<or> should_send (dedup q) t svc ev"
  shows "(priority ev = 2 \<longrightarrow>
           sent \<and>
           (if queue_total q < 100 then critical q' = critical q @ [(svc, ev, txt)] \<and>
              warning q' = warning q \<and> info q' = info q
            else if info q \<noteq> [] then critical q' = critical q @ [(svc, ev, txt)] \<and>
              warning q' = warning q \<and> info q' = tl (info q)
            else if warning q \<noteq> [] then critical q' = critical q @ [(svc, ev, txt)] \<and>
              warning q' = tl (warning q) \<and> info q' = []
            else length (critical q) = 100 \<and> critical q' = tl (critical q) @ [(svc, ev, txt)])) \<and>
         (priority ev \<noteq> 2 \<longrightarrow>
           critical q' = critical q \<and>
           (warning q' = warning q \<or> warning q' = warning q @ [(svc, ev, txt)]))"
proof -
  have inv: "nq_inv q" using run alerts.ok_run [of "new_queue c" ops] by simp
  then have le: "queue_total q \<le> 100" by (simp add: nq_inv_def)
  have q': "q' = snd (enqueue t t' svc ev txt force q)" "sent = fst (enqueue t t' svc ev txt force q)"
    using res by simp_all
  have full: "\<lbrakk>\<not> queue_total q < 100; info q = []; warning q = []\<rbrakk> \<Longrightarrow> length (critical q) = 100"
    using le by (simp add: queue_total_def)
  show ?thesis
    using pass full unfolding q' by (auto simp: enqueue_cases accept_buckets priority_def)
qed

theorem critical_alerts_kept_witness:
  "last (critical (snd (enqueue 0 0 GATEWAY E_FAILURE ''down'' False (new_queue 300)))) =
     (GATEWAY, E_FAILURE, ''down'')"
  using critical_alerts_kept [of "new_queue 300" "[]" 300 0 0 GATEWAY E_FAILURE "''down''" False
      "fst (enqueue 0 0 GATEWAY E_FAILURE ''down'' False (new_queue 300))"
      "snd (enqueue 0 0 GATEWAY E_FAILURE ''down'' False (new_queue 300))"]
  by (simp add: should_send_def new_queue_def new_deduplicator_def priority_def
      CRITICAL_EVENTS_def queue_total_def)

text \<open>Clearing the deduplication state on recovery has the opposite of its documented effect.
  After a failure alert and a recovery alert of a service were accepted, a second failure alert
  within the cooldown is still accepted when nothing was cleared, because the last event was a
  different one; after \<open>clear\<close>, which forgets the last event but not the time of the failure
  alert, it is suppressed.\<close>

theorem clear_suppresses_next_failure:
  assumes "t1 - t0 < cooldown d"
  shows "should_send (mark_sent (mark_sent d t0 svc E_FAILURE) tr svc E_RECOVERED) t1 svc E_FAILURE
     \<and> \<not> should_send (clear_dedup (mark_sent (mark_sent d t0 svc E_FAILURE) tr svc E_RECOVERED) svc)
             t1 svc E_FAILURE"
  using assms by (simp_all add: should_send_def mark_sent_def clear_dedup_def)

theorem clear_suppresses_next_failure_witness:
  "\<not> should_send
       (clear_dedup
         (mark_sent (mark_sent (new_deduplicator 300) 0 GATEWAY E_FAILURE) 30 GATEWAY E_RECOVERED)
         GATEWAY) 60 GATEWAY E_FAILURE"
  using clear_suppresses_next_failure [of 60 0 "new_deduplicator 300" GATEWAY 30]
  by (simp add: new_deduplicator_def)

end
