(* ===== verification/Recovery_Store.thy ===== *)
theory Recovery_Store
  imports Watchdog_State
begin

text \<open>
  \<open>RecoveryBudgetStore\<close> of \<open>services/watchdog/recovery_store.py\<close>: the recovery attempts
  of each service kept in a JSON file, and the sticky flag that makes a damaged file count as an
  exhausted budget. The file is modelled after decoding: absent, undecodable, or a list of services
  each with entries that either parse as a time stamp or do not. Times are microseconds, so the 60
  seconds of clock tolerance are \<open>seconds 60\<close>.
\<close>

datatype stored_entry = Stamp datetime | Bad_Stamp

datatype store_file =
    No_File
  | Bad_File
  | Stored "(string \<times> stored_entry list) list"

record recovery_store =
  corrupted :: bool
  path_file :: store_file

text \<open>The inner loop of \<open>load\<close>: the stamps kept, and whether an entry was refused because it
  did not parse or lies more than a minute ahead.\<close>

fun load_entries :: "datetime \<Rightarrow> stored_entry list \<Rightarrow> datetime list \<times> bool" where
  "load_entries now [] = ([], False)"
| "load_entries now (Stamp dt # es) =
     (case load_entries now es of (ds, bad) \<Rightarrow>
        if dt > now + seconds 60 then (ds, True) else (dt # ds, bad))"
| "load_entries now (Bad_Stamp # es) = (fst (load_entries now es), True)"

definition load :: "datetime \<Rightarrow> recovery_store \<Rightarrow> (string \<rightharpoonup> datetime list) \<times> recovery_store" where
  "load now st =
     (case path_file st of
        No_File \<Rightarrow> (Map.empty, st)
      | Bad_File \<Rightarrow> (Map.empty, st\<lparr>corrupted := True\<rparr>)
      | Stored kvs \<Rightarrow>
          (map_of (map (\<lambda>(k, es). (k, fst (load_entries now es))) kvs),
           st\<lparr>corrupted := corrupted st \<or> list_ex (\<lambda>(k, es). snd (load_entries now es)) kvs\<rparr>))"

text \<open>\<open>save\<close>, which replaces the file atomically or raises and leaves it as it was.\<close>

definition save :: "bool \<Rightarrow> (string \<times> datetime list) list \<Rightarrow> recovery_store \<Rightarrow> recovery_store" where
  "save succeeds kvs st =
     (if succeeds then st\<lparr>path_file := Stored (map (\<lambda>(k, ds). (k, map Stamp ds)) kvs)\<rparr> else st)"

definition get_attempts ::
  "datetime \<Rightarrow> string \<Rightarrow> recovery_store \<Rightarrow> datetime list \<times> recovery_store" where
  "get_attempts now svc st =
     (case load now st of (m, st') \<Rightarrow> (get_or m svc [], st'))"

definition recent_attempts :: "datetime \<Rightarrow> int \<Rightarrow> datetime list \<Rightarrow> datetime list" where
  "recent_attempts now window_seconds attempts =
     filter (\<lambda>dt. dt > now - seconds window_seconds \<and> dt \<le> now + seconds 60) attempts"

text \<open>\<open>is_exhausted\<close>: the flag is read before the file is loaded, so damage found by this very
  load takes effect on the next call.\<close>

definition is_exhausted ::
  "datetime \<Rightarrow> string \<Rightarrow> int \<Rightarrow> int \<Rightarrow> recovery_store \<Rightarrow> bool \<times> recovery_store" where
  "is_exhausted now svc max_attempts window_seconds st =
     (if corrupted st then (True, st)
      else (case get_attempts now svc st of (attempts, st') \<Rightarrow>
              (int (length (recent_attempts now window_seconds attempts)) \<ge> max_attempts, st')))"

section \<open>Facts\<close>

lemma load_entries_stamps:
  "\<forall>d \<in> set ds. d \<le> now + seconds 60 \<Longrightarrow> load_entries now (map Stamp ds) = (ds, False)"
  by (induction ds) auto

text \<open>What was saved is read back, as long as no stamp lies in the future.\<close>

lemma load_save:
  assumes "\<forall>(k, ds) \<in> set kvs. \<forall>d \<in> set ds. d \<le> now + seconds 60"
  shows "load now (save True kvs st) = (map_of kvs, save True kvs st)"
proof -
  have entries: "load_entries now (map Stamp ds) = (ds, False)" if "(k, ds) \<in> set kvs" for k ds
    using bspec [OF assms that] by (simp add: load_entries_stamps)
  have "map (\<lambda>(k, es). (k, fst (load_entries now es))) (map (\<lambda>(k, ds). (k, map Stamp ds)) kvs) = kvs"
    by (auto simp: comp_def entries intro!: map_idI)
  moreover have "\<not> list_ex (\<lambda>(k, es). snd (load_entries now es)) (map (\<lambda>(k, ds). (k, map Stamp ds)) kvs)"
    by (auto simp: list_ex_iff entries)
  ultimately show ?thesis by (simp add: load_def save_def)
qed

text \<open>Damage is never forgotten.\<close>

lemma load_corrupted: "corrupted st \<Longrightarrow> corrupted (snd (load now st))"
  by (auto simp: load_def split: store_file.splits)

lemma is_exhausted_corrupted: "corrupted st \<Longrightarrow> is_exhausted now svc m w st = (True, st)"
  by (simp add: is_exhausted_def)

end
