(* ===== verification/Watchdog_Daemon.thy ===== *)
theory Watchdog_Daemon
  imports Notification_Queue Recovery_Store
begin

text \<open>
  The polling core of \<open>services/watchdog/daemon.py\<close>: \<open>_is_trading_session\<close>,
  \<open>_is_recovery_budget_exhausted\<close>, the whole of \<open>_check_one\<close> and
  \<open>_check_safety_gates\<close>, on a record of the daemon's state (snapshots, recovery store,
  notification queue, safety flag).

  One poll reads the clock at several places. Each reading is a field of \<open>poll_input\<close>, as is
  the outcome of the health checker, of the three places that persist the recovery budget, and the
  result of \<open>_is_trading_session\<close>'s clock in New York wall time. The message formatter of
  \<open>notifier.py\<close> is the argument \<open>fmt\<close>; log lines are left out.
\<close>

section \<open>State and inputs\<close>

record watchdog_settings =
  recovery_max_attempts :: nat
  recovery_window_seconds :: int
  market_closed_enabled :: bool

record safety_gate_result =
  passed :: bool
  failures :: "string list"
  details :: string
  gates :: "(string \<times> string) list"

record watchdog =
  snapshots :: "service_name \<Rightarrow> service_snapshot"
  store :: recovery_store
  notifier :: notification_queue
  safety_blocked :: bool
  last_safety_gate_result :: "safety_gate_result option"

record poll_input =
  checker :: "string + health_result"
  et_backend :: datetime
  et_market :: datetime
  t_budget :: datetime
  t_store :: datetime
  t_attempt :: datetime
  save_attempt :: bool
  t_recheck :: datetime
  t_recheck2 :: datetime
  t_reattempt :: datetime
  save_reattempt :: bool
  t_verify :: datetime
  t_verify_attempt :: datetime
  save_verify :: bool
  t_vbudget :: datetime
  t_vstore :: datetime
  t_transition :: datetime
  t_recent :: datetime
  mono_check :: rat
  mono_mark :: rat

type_synonym formatter =
  "service_name \<Rightarrow> notification_event \<Rightarrow> service_snapshot \<Rightarrow> int option \<Rightarrow> timedelta option \<Rightarrow> string"

definition MONITORED_SERVICES :: "service_name list" where
  "MONITORED_SERVICES = [GATEWAY, BACKEND, WEBHOOK, DEMO, POSTGRES, REDIS]"

definition MARKET_CLOSED_SERVICES :: "service_name set" where
  "MARKET_CLOSED_SERVICES = {GATEWAY, WEBHOOK}"

section \<open>The trading session\<close>

definition weekday :: "datetime \<Rightarrow> int" where
  "weekday t = (t div usec_per_day) mod 7"

definition time_of_day :: "datetime \<Rightarrow> timedelta" where
  "time_of_day t = t mod usec_per_day"

text \<open>\<open>_is_trading_session\<close> on New York wall time: weekdays from 09:30 to before 16:00.\<close>

definition is_trading_session :: "datetime \<Rightarrow> bool" where
  "is_trading_session now_et =
     (if weekday now_et \<ge> 5 then False
      else seconds (9 * 3600 + 30 * 60) \<le> time_of_day now_et \<and>
           time_of_day now_et < seconds (16 * 3600))"

definition is_market_closed_for :: "service_name \<Rightarrow> datetime \<Rightarrow> bool" where
  "is_market_closed_for svc now_et =
     (if svc \<notin> MARKET_CLOSED_SERVICES then False else \<not> is_trading_session now_et)"

section \<open>The recovery budget\<close>

definition is_recovery_budget_exhausted ::
  "watchdog_settings \<Rightarrow> datetime \<Rightarrow> datetime \<Rightarrow> service_snapshot \<Rightarrow> recovery_store \<Rightarrow>
   bool \<times> recovery_store" where
  "is_recovery_budget_exhausted cfg now now_store snap st =
     (if corrupted st then (True, st)
      else if length (recent_attempts now (recovery_window_seconds cfg) (recovery_attempts snap))
                \<ge> recovery_max_attempts cfg
      then (True, st)
      else is_exhausted now_store (service_value (service snap)) (int (recovery_max_attempts cfg))
             (recovery_window_seconds cfg) st)"

text \<open>The three places that append an attempt and persist all services' attempts.\<close>

definition record_attempt ::
  "datetime \<Rightarrow> bool \<Rightarrow> service_name \<Rightarrow> watchdog \<Rightarrow> watchdog" where
  "record_attempt now saved svc w =
     (let snap = snapshots w svc;
          snap' = snap\<lparr>recovery_attempts := recovery_attempts snap @ [now],
                       last_recovery_at := Some now\<rparr>;
          snaps = (snapshots w)(svc := snap');
          kvs = map (\<lambda>k. (service_value k, recovery_attempts (snaps k))) MONITORED_SERVICES
      in w\<lparr>snapshots := snaps, store := save saved kvs (store w)\<rparr>)"

section \<open>\<open>_check_one\<close>\<close>

subsection \<open>The health result\<close>

definition observed_health :: "string + health_result \<Rightarrow> health_result" where
  "observed_health r =
     (case r of
        Inr hr \<Rightarrow> hr
      | Inl exc \<Rightarrow>
          \<lparr>h_status = H_FAILED, h_liveness = H_UNKNOWN, h_readiness = H_UNKNOWN,
           h_detail = ''checker exception: '' @ exc, h_reason = None, h_pid = None,
           h_underlying_error = None, h_what_happened = None, h_impact = None,
           h_trading_impact = None\<rparr>)"

definition text_or_empty :: "string option \<Rightarrow> string" where
  "text_or_empty t = (case t of None \<Rightarrow> [] | Some s \<Rightarrow> s)"

text \<open>The wording test that recognises a backend degraded by the stopped gateway.\<close>

definition expected_tws_outage :: "health_result \<Rightarrow> bool" where
  "expected_tws_outage hr =
     (let reason_lower = py_lower (text_or_empty (h_reason hr));
          detail_lower = py_lower (h_detail hr);
          underlying_lower = py_lower (text_or_empty (h_underlying_error hr))
      in reason_lower \<in> {''readiness_failed'', ''readiness_degraded'', ''tws_disconnected''} \<or>
         py_contains detail_lower ''tws'' \<or> py_contains underlying_lower ''tws'' \<or>
         py_contains detail_lower ''readiness'' \<or> py_contains underlying_lower ''readiness'')"

definition excuse_backend :: "watchdog_settings \<Rightarrow> service_name \<Rightarrow> datetime \<Rightarrow> health_result \<Rightarrow> health_result" where
  "excuse_backend cfg svc now_et hr =
     (if svc = BACKEND \<and> h_status hr = H_DEGRADED \<and>
         (if market_closed_enabled cfg then \<not> is_trading_session now_et else False) \<and>
         expected_tws_outage hr
      then hr\<lparr>h_status := H_HEALTHY, h_liveness := H_HEALTHY, h_readiness := H_HEALTHY,
              h_reason := Some ''healthy_market_closed'',
              h_what_happened := Some ''Trading Backend is running 24/7; TWS connectivity is unavailable because IB Gateway is intentionally stopped outside the trading session.'',
              h_impact := Some ''Backend remains running; trading execution is paused outside session.'',
              h_trading_impact := Some ''Market closed - no trading expected.'',
              h_underlying_error := None,
              h_detail := ''Healthy (market closed, TWS expected unavailable)''\<rparr>
      else hr)"

subsection \<open>Counters and debounce\<close>

definition count_health :: "health_result \<Rightarrow> service_snapshot \<Rightarrow> service_snapshot" where
  "count_health hr snap =
     (if h_status hr = H_FAILED then
        snap\<lparr>consecutive_failures := consecutive_failures snap + 1, consecutive_successes := 0,
             failure_reason :=
               (if text_or_empty (h_underlying_error hr) \<noteq> [] then text_or_empty (h_underlying_error hr)
                else h_detail hr)\<rparr>
      else if h_status hr = H_DEGRADED then
        snap\<lparr>consecutive_failures := consecutive_failures snap + 1, consecutive_successes := 0\<rparr>
      else
        snap\<lparr>consecutive_successes := consecutive_successes snap + 1,
             consecutive_failures :=
               (if consecutive_successes snap + 1 \<ge> 1 then 0 else consecutive_failures snap)\<rparr>)"

definition market_closed_reason :: string where
  "market_closed_reason =
     ''outside trading window 09:30-16:00 ET (market closed) - service intentionally stopped''"

definition effective_degraded :: "health_result \<Rightarrow> service_snapshot \<Rightarrow> bool" where
  "effective_degraded hr snap =
     (if h_status hr = H_DEGRADED \<and> state snap = S_HEALTHY \<and> consecutive_failures snap < 2
      then False else h_status hr = H_DEGRADED)"

subsection \<open>Choosing the next state\<close>

text \<open>Still failed on the second poll: recover within the budget, else ask for the operator.\<close>

definition promote_failed ::
  "watchdog_settings \<Rightarrow> poll_input \<Rightarrow> service_name \<Rightarrow> service_state \<Rightarrow> watchdog \<Rightarrow>
   service_state \<times> watchdog" where
  "promote_failed cfg inp svc nxt w =
     (if state (snapshots w svc) = S_FAILED \<and> nxt = S_FAILED then
        (case is_recovery_budget_exhausted cfg (t_budget inp) (t_store inp) (snapshots w svc) (store w) of
           (exhausted, st) \<Rightarrow>
             if \<not> exhausted
             then (S_RECOVERING, record_attempt (t_attempt inp) (save_attempt inp) svc (w\<lparr>store := st\<rparr>))
             else (S_MANUAL_INTERVENTION_REQUIRED, w\<lparr>store := st\<rparr>))
      else (nxt, w))"

text \<open>The second recording guard, meant for promotions that did not record an attempt above.\<close>

definition ensure_recorded ::
  "poll_input \<Rightarrow> service_name \<Rightarrow> service_state \<Rightarrow> watchdog \<Rightarrow> watchdog" where
  "ensure_recorded inp svc nxt w =
     (let snap = snapshots w svc in
      if state snap = S_FAILED \<and> nxt = S_RECOVERING \<and>
         (recovery_attempts snap = [] \<or> t_recheck inp - last (recovery_attempts snap) > seconds 1) \<and>
         \<not> (case last_recovery_at snap of
              None \<Rightarrow> False
            | Some t \<Rightarrow> 2 * (t_recheck2 inp - t) < seconds 1)
      then record_attempt (t_reattempt inp) (save_reattempt inp) svc w
      else w)"

text \<open>Entering verification, and its outcome on the following poll.\<close>

definition verify ::
  "watchdog_settings \<Rightarrow> poll_input \<Rightarrow> service_name \<Rightarrow> bool \<Rightarrow> bool \<Rightarrow> service_state \<Rightarrow> watchdog \<Rightarrow>
   service_state \<times> watchdog" where
  "verify cfg inp svc health_failed health_degraded nxt w =
     (let snap = snapshots w svc;
          verifying_success =
            (if \<not> health_failed \<and> \<not> health_degraded \<and> \<not> safety_blocked w then Some True
             else if health_failed then Some False else None)
      in if nxt = S_VERIFYING \<or> state snap = S_RECOVERING then
           (if state snap = S_RECOVERING then
              (S_VERIFYING,
               (if (case last_recovery_at snap of
                      None \<Rightarrow> True
                    | Some t \<Rightarrow> t_verify inp - t > seconds 2)
                then record_attempt (t_verify_attempt inp) (save_verify inp) svc w else w))
            else if state snap = S_VERIFYING then
              (let nxt2 = next_state (new_snapshot svc S_VERIFYING (t_verify inp)) health_failed
                            health_degraded verifying_success (safety_blocked w) False
               in if nxt2 = S_FAILED \<and> verifying_success = Some False then
                    (case is_recovery_budget_exhausted cfg (t_vbudget inp) (t_vstore inp) snap (store w) of
                       (exhausted, st) \<Rightarrow>
                         (if exhausted then S_MANUAL_INTERVENTION_REQUIRED else S_RECOVERING,
                          w\<lparr>store := st\<rparr>))
                  else (nxt2, w))
            else (nxt, w))
         else (nxt, w))"

subsection \<open>Announcing the transition\<close>

definition transition_event :: "service_state \<Rightarrow> service_state \<Rightarrow> notification_event option" where
  "transition_event prev_state nxt =
     (if prev_state = S_FAILED \<and> nxt = S_RECOVERING then Some E_RECOVERY_STARTED
      else if prev_state = S_FAILED \<and> nxt = S_MANUAL_INTERVENTION_REQUIRED
      then Some E_MANUAL_INTERVENTION_REQUIRED
      else if nxt = S_TRADING_BLOCKED then Some E_TRADING_BLOCKED
      else if prev_state = S_TRADING_BLOCKED \<and> nxt \<in> {S_HEALTHY, S_RECOVERED} then Some E_RECOVERED
      else event_for_transition prev_state nxt)"

definition attempt_number ::
  "watchdog_settings \<Rightarrow> datetime \<Rightarrow> service_state \<Rightarrow> service_snapshot \<Rightarrow> int option" where
  "attempt_number cfg now nxt snap =
     (if nxt \<in> {S_RECOVERING, S_VERIFYING, S_MANUAL_INTERVENTION_REQUIRED, S_RECOVERED, S_TRADING_BLOCKED}
      then
        (let recent = length (filter (\<lambda>t. t > now - seconds (recovery_window_seconds cfg))
                                (recovery_attempts snap))
         in Some (int (if nxt = S_RECOVERING \<and> recent = 0 then 1 else recent)))
      else None)"

definition recovery_duration :: "datetime \<Rightarrow> service_state \<Rightarrow> service_snapshot \<Rightarrow> timedelta option" where
  "recovery_duration transition_at nxt snap =
     (if nxt = S_RECOVERED then map_option (\<lambda>t. transition_at - t) (last_recovery_at snap) else None)"

definition announce ::
  "watchdog_settings \<Rightarrow> formatter \<Rightarrow> poll_input \<Rightarrow> service_name \<Rightarrow> service_state \<Rightarrow> watchdog \<Rightarrow> watchdog"
  where
  "announce cfg fmt inp svc nxt w =
     (let prev_state = state (snapshots w svc) in
      if nxt = prev_state then w
      else
        (let snap = (snapshots w svc)\<lparr>state := nxt, last_transition_at := t_transition inp\<rparr>;
             n1 = (case transition_event prev_state nxt of
                     None \<Rightarrow> notifier w
                   | Some event \<Rightarrow>
                       snd (enqueue (mono_check inp) (mono_mark inp) svc event
                              (fmt svc event snap (attempt_number cfg (t_recent inp) nxt snap)
                                 (recovery_duration (t_transition inp) nxt snap))
                              False (notifier w)))
         in if nxt \<in> {S_HEALTHY, S_RECOVERED}
            then w\<lparr>snapshots := (snapshots w)(svc := snap\<lparr>failure_reason := [], recovery_failed_count := 0\<rparr>),
                   notifier := clear_service svc n1\<rparr>
            else w\<lparr>snapshots := (snapshots w)(svc := snap), notifier := n1\<rparr>))"

subsection \<open>The whole poll\<close>

definition poll_health :: "watchdog_settings \<Rightarrow> poll_input \<Rightarrow> service_name \<Rightarrow> health_result" where
  "poll_health cfg inp svc = excuse_backend cfg svc (et_backend inp) (observed_health (checker inp))"

definition poll_market_closed :: "watchdog_settings \<Rightarrow> poll_input \<Rightarrow> service_name \<Rightarrow> bool" where
  "poll_market_closed cfg inp svc =
     (if market_closed_enabled cfg then is_market_closed_for svc (et_market inp) else False)"

text \<open>The snapshot with the new health, counters and failure reason.\<close>

definition observe ::
  "watchdog_settings \<Rightarrow> poll_input \<Rightarrow> service_name \<Rightarrow> watchdog \<Rightarrow> watchdog" where
  "observe cfg inp svc w =
     (let hr = poll_health cfg inp svc;
          snap = count_health hr ((snapshots w svc)\<lparr>last_health := Some hr\<rparr>);
          snap' = (if poll_market_closed cfg inp svc \<and> h_status hr = H_FAILED
                   then snap\<lparr>failure_reason := market_closed_reason\<rparr> else snap)
      in w\<lparr>snapshots := (snapshots w)(svc := snap')\<rparr>)"

definition first_choice ::
  "watchdog_settings \<Rightarrow> poll_input \<Rightarrow> service_name \<Rightarrow> watchdog \<Rightarrow> service_state" where
  "first_choice cfg inp svc w =
     (let hr = poll_health cfg inp svc;
          failed = (h_status hr = H_FAILED);
          closed = poll_market_closed cfg inp svc;
          snap = snapshots w svc;
          nxt = next_state snap failed (effective_degraded hr snap) None False closed
      in if closed \<and> failed \<and> nxt \<in> {S_FAILED, S_RECOVERING, S_VERIFYING}
         then S_MARKET_CLOSED else nxt)"

definition check_one ::
  "watchdog_settings \<Rightarrow> formatter \<Rightarrow> poll_input \<Rightarrow> service_name \<Rightarrow> watchdog \<Rightarrow> watchdog" where
  "check_one cfg fmt inp svc w0 =
     (let hr = poll_health cfg inp svc;
          w1 = observe cfg inp svc w0;
          nxt1 = first_choice cfg inp svc w1
      in case promote_failed cfg inp svc nxt1 w1 of (nxt2, w2) \<Rightarrow>
           (let w3 = ensure_recorded inp svc nxt2 w2
            in case verify cfg inp svc (h_status hr = H_FAILED) (h_status hr = H_DEGRADED) nxt2 w3 of
                 (nxt3, w4) \<Rightarrow> announce cfg fmt inp svc nxt3 w4))"

section \<open>\<open>__init__\<close>\<close>

text \<open>A new daemon: fresh snapshots with the persisted attempts, set from \<open>UNKNOWN\<close> to
  \<open>STARTING\<close> when \<open>_loop\<close> begins.\<close>

definition init_watchdog :: "datetime \<Rightarrow> rat \<Rightarrow> store_file \<Rightarrow> watchdog" where
  "init_watchdog now cooldown_seconds f =
     (case load now \<lparr>corrupted = False, path_file = f\<rparr> of (persisted, st) \<Rightarrow>
        \<lparr>snapshots =
           (\<lambda>svc. (new_snapshot svc S_UNKNOWN now)
                     \<lparr>recovery_attempts := get_or persisted (service_value svc) []\<rparr>),
         store = st, notifier = new_queue cooldown_seconds, safety_blocked = False,
         last_safety_gate_result = None\<rparr>)"

definition begin_loop :: "watchdog \<Rightarrow> watchdog" where
  "begin_loop w =
     w\<lparr>snapshots := (\<lambda>svc. if state (snapshots w svc) = S_UNKNOWN
                           then (snapshots w svc)\<lparr>state := S_STARTING\<rparr> else snapshots w svc)\<rparr>"

section \<open>\<open>_check_safety_gates\<close>\<close>

text \<open>\<open>gate\<close> is the result of \<open>safety.check()\<close>, \<open>None\<close> when it raised.\<close>

definition check_safety_gates ::
  "watchdog_settings \<Rightarrow> (notification_event \<Rightarrow> string \<Rightarrow> string) \<Rightarrow> datetime \<Rightarrow> rat \<Rightarrow> rat \<Rightarrow>
   safety_gate_result option \<Rightarrow> watchdog \<Rightarrow> watchdog" where
  "check_safety_gates cfg fmt now_et t t' gate w =
     (if market_closed_enabled cfg \<and> \<not> is_trading_session now_et then w
      else (case gate of
          None \<Rightarrow> w
        | Some g \<Rightarrow>
            (let w1 = w\<lparr>last_safety_gate_result := Some g\<rparr> in
             if \<not> passed g then
               (if \<not> safety_blocked w1 then
                  (let reason = (if failures g \<noteq> [] then py_join ''; '' (failures g) else details g)
                   in w1\<lparr>safety_blocked := True,
                         notifier := snd (enqueue t t' GATEWAY E_TRADING_BLOCKED
                                            (fmt E_TRADING_BLOCKED reason) True (notifier w1))\<rparr>)
                else w1)
             else if safety_blocked w1 then
               w1\<lparr>safety_blocked := False,
                  notifier := snd (enqueue t t' GATEWAY E_RECOVERED
                                     (fmt E_RECOVERED ''All trading safety gates SAFE.'') True
                                     (notifier w1))\<rparr>
             else w1)))"

end
