(* ===== verification/Watchdog_Properties.thy ===== *)
theory Watchdog_Properties
  imports Watchdog_Daemon
begin

text \<open>
  What the watchdog's polling core does in every state: the transitions a poll can make and which
  of them are announced, expected downtime outside the trading session, the recovery budget over
  any run of polls, gate checks and restarts, and the recovery cycle.
\<close>

section \<open>Frame facts of the stages\<close>

named_theorems wd_frame \<open>what the stages of a poll leave alone\<close>

lemma record_attempt_frame [simp, wd_frame]:
  "state (snapshots (record_attempt now sv svc w) k) = state (snapshots w k)"
  "recovery_attempts (snapshots (record_attempt now sv svc w) k) =
     (if k = svc then recovery_attempts (snapshots w svc) @ [now] else recovery_attempts (snapshots w k))"
  "last_recovery_at (snapshots (record_attempt now sv svc w) k) =
     (if k = svc then Some now else last_recovery_at (snapshots w k))"
  "k \<noteq> svc \<Longrightarrow> snapshots (record_attempt now sv svc w) k = snapshots w k"
  "safety_blocked (record_attempt now sv svc w) = safety_blocked w"
  "notifier (record_attempt now sv svc w) = notifier w"
  by (simp_all add: record_attempt_def Let_def)

lemma count_health_frame [simp, wd_frame]:
  "state (count_health hr s) = state s"
  "service (count_health hr s) = service s"
  "recovery_attempts (count_health hr s) = recovery_attempts s"
  "last_recovery_at (count_health hr s) = last_recovery_at s"
  by (simp_all add: count_health_def)

lemma observe_frame [simp, wd_frame]:
  "state (snapshots (observe cfg inp svc w) k) = state (snapshots w k)"
  "recovery_attempts (snapshots (observe cfg inp svc w) k) = recovery_attempts (snapshots w k)"
  "last_recovery_at (snapshots (observe cfg inp svc w) k) = last_recovery_at (snapshots w k)"
  "k \<noteq> svc \<Longrightarrow> snapshots (observe cfg inp svc w) k = snapshots w k"
  "safety_blocked (observe cfg inp svc w) = safety_blocked w"
  "notifier (observe cfg inp svc w) = notifier w"
  "store (observe cfg inp svc w) = store w"
  by (simp_all add: observe_def Let_def)

lemma announce_frame [simp, wd_frame]:
  "state (snapshots (announce cfg fmt inp svc nxt w) svc) = nxt"
  "recovery_attempts (snapshots (announce cfg fmt inp svc nxt w) k) = recovery_attempts (snapshots w k)"
  "k \<noteq> svc \<Longrightarrow> snapshots (announce cfg fmt inp svc nxt w) k = snapshots w k"
  "safety_blocked (announce cfg fmt inp svc nxt w) = safety_blocked w"
  "store (announce cfg fmt inp svc nxt w) = store w"
  by (auto simp: announce_def Let_def)

lemma promote_frame [wd_frame]:
  assumes "promote_failed cfg inp svc nxt w = (nxt', w')"
  shows "state (snapshots w' k) = state (snapshots w k)"
    "k \<noteq> svc \<Longrightarrow> snapshots w' k = snapshots w k"
    "safety_blocked w' = safety_blocked w" "notifier w' = notifier w"
  using assms by (auto simp: promote_failed_def split: if_splits prod.splits)

lemma ensure_frame [simp, wd_frame]:
  "state (snapshots (ensure_recorded inp svc nxt w) k) = state (snapshots w k)"
  "k \<noteq> svc \<Longrightarrow> snapshots (ensure_recorded inp svc nxt w) k = snapshots w k"
  "safety_blocked (ensure_recorded inp svc nxt w) = safety_blocked w"
  "notifier (ensure_recorded inp svc nxt w) = notifier w"
  by (simp_all add: ensure_recorded_def Let_def)

lemma verify_frame [wd_frame]:
  assumes "verify cfg inp svc hf dg nxt w = (nxt', w')"
  shows "state (snapshots w' k) = state (snapshots w k)"
    "k \<noteq> svc \<Longrightarrow> snapshots w' k = snapshots w k"
    "safety_blocked w' = safety_blocked w" "notifier w' = notifier w"
  using assms by (auto simp: verify_def Let_def split: if_splits prod.splits)

text \<open>The stages a poll goes through, by name.\<close>

lemma check_one_stages:
  obtains w1 nxt1 nxt2 w2 w3 nxt3 w4 where
    "w1 = observe cfg inp svc w" "nxt1 = first_choice cfg inp svc w1"
    "promote_failed cfg inp svc nxt1 w1 = (nxt2, w2)" "w3 = ensure_recorded inp svc nxt2 w2"
    "verify cfg inp svc (h_status (poll_health cfg inp svc) = H_FAILED)
       (h_status (poll_health cfg inp svc) = H_DEGRADED) nxt2 w3 = (nxt3, w4)"
    "check_one cfg fmt inp svc w = announce cfg fmt inp svc nxt3 w4"
proof -
  let ?w1 = "observe cfg inp svc w"
  obtain nxt2 w2 where p: "promote_failed cfg inp svc (first_choice cfg inp svc ?w1) ?w1 = (nxt2, w2)"
    by (cases "promote_failed cfg inp svc (first_choice cfg inp svc ?w1) ?w1")
  obtain nxt3 w4 where v: "verify cfg inp svc (h_status (poll_health cfg inp svc) = H_FAILED)
      (h_status (poll_health cfg inp svc) = H_DEGRADED) nxt2 (ensure_recorded inp svc nxt2 w2) = (nxt3, w4)"
    by (cases "verify cfg inp svc (h_status (poll_health cfg inp svc) = H_FAILED)
      (h_status (poll_health cfg inp svc) = H_DEGRADED) nxt2 (ensure_recorded inp svc nxt2 w2)")
  show thesis
    by (rule that [OF refl refl p refl v]) (simp add: check_one_def Let_def p v)
qed

text \<open>A poll of one service leaves the others alone.\<close>

lemma check_one_other:
  assumes "k \<noteq> svc"
  shows "snapshots (check_one cfg fmt inp svc w) k = snapshots w k"
proof -
  obtain w1 nxt1 nxt2 w2 w3 nxt3 w4 where s:
    "w1 = observe cfg inp svc w" "promote_failed cfg inp svc nxt1 w1 = (nxt2, w2)"
    "w3 = ensure_recorded inp svc nxt2 w2"
    "verify cfg inp svc (h_status (poll_health cfg inp svc) = H_FAILED)
       (h_status (poll_health cfg inp svc) = H_DEGRADED) nxt2 w3 = (nxt3, w4)"
    "check_one cfg fmt inp svc w = announce cfg fmt inp svc nxt3 w4"
    by (rule check_one_stages [of cfg inp svc w fmt])
  show ?thesis
    using assms verify_frame(2) [OF s(4)] promote_frame(2) [OF s(2)] by (simp add: s(1,3,5))
qed

lemma check_one_safety: "safety_blocked (check_one cfg fmt inp svc w) = safety_blocked w"
proof -
  obtain w1 nxt1 nxt2 w2 w3 nxt3 w4 where s:
    "w1 = observe cfg inp svc w" "promote_failed cfg inp svc nxt1 w1 = (nxt2, w2)"
    "w3 = ensure_recorded inp svc nxt2 w2"
    "verify cfg inp svc (h_status (poll_health cfg inp svc) = H_FAILED)
       (h_status (poll_health cfg inp svc) = H_DEGRADED) nxt2 w3 = (nxt3, w4)"
    "check_one cfg fmt inp svc w = announce cfg fmt inp svc nxt3 w4"
    by (rule check_one_stages [of cfg inp svc w fmt])
  show ?thesis
    using verify_frame(3) [OF s(4)] promote_frame(3) [OF s(2)] by (simp add: s(1,3,5))
qed

section \<open>The recovery budget\<close>

definition recent_count :: "watchdog_settings \<Rightarrow> datetime \<Rightarrow> datetime list \<Rightarrow> nat" where
  "recent_count cfg T ds = length (filter (\<lambda>d. d > T - seconds (recovery_window_seconds cfg)) ds)"

definition attempts_ok :: "watchdog_settings \<Rightarrow> datetime \<Rightarrow> nat \<Rightarrow> datetime list \<Rightarrow> bool" where
  "attempts_ok cfg T n ds \<longleftrightarrow> (\<forall>d \<in> set ds. d \<le> T) \<and> recent_count cfg T ds \<le> n"

primrec file_ok :: "watchdog_settings \<Rightarrow> datetime \<Rightarrow> nat \<Rightarrow> store_file \<Rightarrow> bool" where
  "file_ok cfg T n No_File = True"
| "file_ok cfg T n Bad_File = False"
| "file_ok cfg T n (Stored kvs) =
     (\<forall>k es. (k, es) \<in> set kvs \<longrightarrow> (\<exists>ds. es = map Stamp ds \<and> attempts_ok cfg T n ds))"

lemma recent_count_mono: "T \<le> T' \<Longrightarrow> recent_count cfg T' ds \<le> recent_count cfg T ds"
  unfolding recent_count_def by (induction ds) auto

lemma attempts_ok_mono:
  "attempts_ok cfg T n ds \<Longrightarrow> T \<le> T' \<Longrightarrow> n \<le> n' \<Longrightarrow> attempts_ok cfg T' n' ds"
  using recent_count_mono [of T T' cfg ds] by (fastforce simp: attempts_ok_def)

lemma attempts_ok_append:
  "attempts_ok cfg T n ds \<Longrightarrow> T \<le> now \<Longrightarrow> attempts_ok cfg now (Suc n) (ds @ [now])"
  using attempts_ok_mono [of cfg T n ds now n] by (auto simp: attempts_ok_def recent_count_def)

lemma file_ok_mono: "file_ok cfg T n f \<Longrightarrow> T \<le> T' \<Longrightarrow> file_ok cfg T' n f"
  by (cases f) (auto, metis attempts_ok_mono order_refl)

lemma budget_file:
  "path_file (snd (is_recovery_budget_exhausted cfg t t' snap st)) = path_file st"
  by (auto simp: is_recovery_budget_exhausted_def is_exhausted_def get_attempts_def load_def
      split: store_file.splits)

text \<open>A budget that is not exhausted has room for an attempt.\<close>

lemma budget_room:
  assumes "is_recovery_budget_exhausted cfg t t' snap st = (False, st')"
    and "\<forall>d \<in> set (recovery_attempts snap). d \<le> t"
  shows "recent_count cfg t (recovery_attempts snap) < recovery_max_attempts cfg"
proof -
  have "filter (\<lambda>d. d > t - seconds (recovery_window_seconds cfg)) (recovery_attempts snap) =
        recent_attempts t (recovery_window_seconds cfg) (recovery_attempts snap)"
    unfolding recent_attempts_def using assms(2) by (intro filter_cong) auto
  with assms(1) show ?thesis
    by (auto simp: is_recovery_budget_exhausted_def recent_count_def split: if_splits)
qed

text \<open>All services within the budget, \<open>svc\<close> with at most \<open>n\<close> recent attempts.\<close>

definition budget_at ::
  "watchdog_settings \<Rightarrow> datetime \<Rightarrow> service_name \<Rightarrow> nat \<Rightarrow> watchdog \<Rightarrow> bool" where
  "budget_at cfg T svc n w \<longleftrightarrow>
     attempts_ok cfg T n (recovery_attempts (snapshots w svc)) \<and> n \<le> recovery_max_attempts cfg + 2 \<and>
     (\<forall>k. k \<noteq> svc \<longrightarrow>
        attempts_ok cfg T (recovery_max_attempts cfg + 2) (recovery_attempts (snapshots w k)) \<and>
        (state (snapshots w k) = S_RECOVERING \<longrightarrow>
           recent_count cfg T (recovery_attempts (snapshots w k)) \<le> recovery_max_attempts cfg + 1)) \<and>
     file_ok cfg T (recovery_max_attempts cfg + 2) (path_file (store w))"

definition budget_inv :: "watchdog_settings \<Rightarrow> datetime \<Rightarrow> watchdog \<Rightarrow> bool" where
  "budget_inv cfg T w \<longleftrightarrow>
     (\<forall>k. attempts_ok cfg T (recovery_max_attempts cfg + 2) (recovery_attempts (snapshots w k)) \<and>
          (state (snapshots w k) = S_RECOVERING \<longrightarrow>
             recent_count cfg T (recovery_attempts (snapshots w k)) \<le> recovery_max_attempts cfg + 1)) \<and>
     file_ok cfg T (recovery_max_attempts cfg + 2) (path_file (store w))"

lemma budget_at_mono:
  assumes "budget_at cfg T svc n w" "T \<le> T'" "n \<le> n'" "n' \<le> recovery_max_attempts cfg + 2"
  shows "budget_at cfg T' svc n' w"
  using assms attempts_ok_mono [OF _ assms(2)] file_ok_mono [OF _ assms(2)]
    recent_count_mono [OF assms(2), of cfg]
  unfolding budget_at_def by (meson order_refl order_trans)

lemma budget_at_later: "budget_at cfg T svc n w \<Longrightarrow> T \<le> T' \<Longrightarrow> budget_at cfg T' svc n w"
  using budget_at_mono [of cfg T svc n w T' n] by (simp add: budget_at_def [of cfg T svc n w])

lemma budget_invI:
  assumes "budget_at cfg T svc n w"
    and "state (snapshots w svc) = S_RECOVERING \<longrightarrow> n \<le> recovery_max_attempts cfg + 1"
  shows "budget_inv cfg T w"
proof -
  have "attempts_ok cfg T (recovery_max_attempts cfg + 2) (recovery_attempts (snapshots w k)) \<and>
      (state (snapshots w k) = S_RECOVERING \<longrightarrow>
         recent_count cfg T (recovery_attempts (snapshots w k)) \<le> recovery_max_attempts cfg + 1)" for k
  proof (cases "k = svc")
    case True
    with assms show ?thesis unfolding budget_at_def attempts_ok_def by fastforce
  next
    case False
    with assms show ?thesis unfolding budget_at_def by blast
  qed
  with assms(1) show ?thesis unfolding budget_inv_def budget_at_def by blast
qed

lemma budget_at_announce:
  "budget_at cfg T svc n (announce cfg fmt inp svc nxt w) = budget_at cfg T svc n w"
  by (simp add: budget_at_def)

lemma file_ok_save:
  assumes "file_ok cfg T n (path_file st)"
    and "\<And>k ds. (k, ds) \<in> set kvs \<Longrightarrow> attempts_ok cfg T n ds"
  shows "file_ok cfg T n (path_file (save sv kvs st))"
  using assms by (auto simp: save_def)

lemma budget_at_record:
  assumes "budget_at cfg T svc n w" "T \<le> now" "Suc n \<le> recovery_max_attempts cfg + 2"
  shows "budget_at cfg now svc (Suc n) (record_attempt now sv svc w)"
proof -
  let ?w = "record_attempt now sv svc w"
  let ?m = "recovery_max_attempts cfg + 2"
  have now: "budget_at cfg now svc n w"
    using assms by (auto intro: budget_at_mono)
  have own: "attempts_ok cfg now (Suc n) (recovery_attempts (snapshots ?w svc))"
    using attempts_ok_append [of cfg T n] assms(1,2) by (auto simp: budget_at_def)
  then have all: "attempts_ok cfg now ?m (recovery_attempts (snapshots ?w k))" for k
    using now assms(3) by (auto simp: budget_at_def elim: attempts_ok_mono)
  have "path_file (store ?w) =
      path_file (save sv (map (\<lambda>k. (service_value k, recovery_attempts (snapshots ?w k)))
                            MONITORED_SERVICES) (store w))"
    by (simp add: record_attempt_def Let_def)
  then have "file_ok cfg now ?m (path_file (store ?w))"
    using now all by (auto simp: budget_at_def intro!: file_ok_save)
  with own now assms(3) show ?thesis
    unfolding budget_at_def by simp
qed

lemma budget_at_store:
  "budget_at cfg T svc n w \<Longrightarrow> path_file st = path_file (store w) \<Longrightarrow>
   budget_at cfg T svc n (w\<lparr>store := st\<rparr>)"
  by (simp add: budget_at_def)

lemma budget_at_refine:
  "budget_at cfg T svc n w \<Longrightarrow>
   recent_count cfg T (recovery_attempts (snapshots w svc)) \<le> m \<Longrightarrow>
   m \<le> recovery_max_attempts cfg + 2 \<Longrightarrow> budget_at cfg T svc m w"
  by (auto simp: budget_at_def attempts_ok_def)

text \<open>Readings of the clock during a poll, in the order the code takes them.\<close>

definition clock_ok :: "datetime \<Rightarrow> poll_input \<Rightarrow> bool" where
  "clock_ok T inp \<longleftrightarrow>
     T \<le> t_budget inp \<and> t_budget inp \<le> t_store inp \<and> t_store inp \<le> t_attempt inp \<and>
     t_attempt inp \<le> t_recheck inp \<and> t_recheck inp \<le> t_recheck2 inp \<and>
     t_recheck2 inp \<le> t_reattempt inp \<and> t_reattempt inp \<le> t_verify inp \<and>
     t_verify inp \<le> t_verify_attempt inp \<and> t_verify_attempt inp \<le> t_vbudget inp \<and>
     t_vbudget inp \<le> t_vstore inp \<and> t_vstore inp \<le> t_transition inp"

lemma budget_at_observe: "budget_at cfg T svc n (observe cfg inp svc w) = budget_at cfg T svc n w"
  by (simp add: budget_at_def)

lemma budget_promote:
  assumes "promote_failed cfg inp svc nxt w = (nxt', w')" "budget_at cfg T svc n w" "clock_ok T inp"
    and "nxt \<noteq> S_RECOVERING"
  shows "if nxt' = S_RECOVERING
         then budget_at cfg (t_attempt inp) svc (recovery_max_attempts cfg) w' \<and>
              state (snapshots w svc) = S_FAILED
         else budget_at cfg (t_attempt inp) svc n w'"
proof -
  have tb: "budget_at cfg (t_budget inp) svc n w"
    using assms(2,3) by (auto simp: clock_ok_def intro: budget_at_later)
  obtain ex st where ex: "is_recovery_budget_exhausted cfg (t_budget inp) (t_store inp)
      (snapshots w svc) (store w) = (ex, st)"
    by (cases "is_recovery_budget_exhausted cfg (t_budget inp) (t_store inp)
      (snapshots w svc) (store w)")
  then have pf: "path_file st = path_file (store w)"
    using budget_file [of cfg "t_budget inp" "t_store inp" "snapshots w svc" "store w"] by simp
  have le: "t_budget inp \<le> t_attempt inp" using assms(3) by (simp add: clock_ok_def)
  have keep: "budget_at cfg (t_attempt inp) svc n (w\<lparr>store := st\<rparr>)"
      "budget_at cfg (t_attempt inp) svc n w"
    using budget_at_later [OF tb le] budget_at_store [OF _ pf] by auto
  have rec: "budget_at cfg (t_attempt inp) svc (recovery_max_attempts cfg)
      (record_attempt (t_attempt inp) (save_attempt inp) svc (w\<lparr>store := st\<rparr>))" if "\<not> ex"
  proof -
    have room: "recent_count cfg (t_budget inp) (recovery_attempts (snapshots w svc))
        < recovery_max_attempts cfg"
      using budget_room ex that tb by (auto simp: budget_at_def attempts_ok_def)
    then have "budget_at cfg (t_budget inp) svc (recovery_max_attempts cfg - 1) (w\<lparr>store := st\<rparr>)"
      using budget_at_refine [OF budget_at_store [OF tb pf], of "recovery_max_attempts cfg - 1"] by simp
    from budget_at_record [OF this le] room show ?thesis by simp
  qed
  show ?thesis
    using assms(1,4) keep rec by (auto simp: promote_failed_def ex split: if_splits)
qed

lemma budget_ensure:
  assumes "budget_at cfg T svc n w" "T \<le> t_reattempt inp" "Suc n \<le> recovery_max_attempts cfg + 2"
  shows "budget_at cfg (t_reattempt inp) svc (Suc n) (ensure_recorded inp svc nxt w)"
  using budget_at_record [OF assms] budget_at_mono [OF assms(1,2), of "Suc n"] assms(3)
  by (simp add: ensure_recorded_def Let_def)

lemma ensure_other [simp]: "nxt \<noteq> S_RECOVERING \<Longrightarrow> ensure_recorded inp svc nxt w = w"
  by (simp add: ensure_recorded_def Let_def)

lemma budget_verify:
  assumes v: "verify cfg inp svc hf dg nxt w = (nxt', w')"
    and b: "budget_at cfg T svc n w" and T: "T \<le> t_verify inp" "clock_ok T0 inp"
    and rec: "state (snapshots w svc) = S_RECOVERING \<longrightarrow> Suc n \<le> recovery_max_attempts cfg + 2"
  shows "\<exists>n'. budget_at cfg (t_transition inp) svc n' w' \<and>
     (nxt' = S_RECOVERING \<longrightarrow>
        n' \<le> recovery_max_attempts cfg + 1 \<or> nxt = S_RECOVERING \<and> n' = n)"
proof -
  let ?M = "recovery_max_attempts cfg"
  have le: "T \<le> t_verify_attempt inp" "t_verify_attempt inp \<le> t_transition inp"
      "T \<le> t_vbudget inp" "t_vbudget inp \<le> t_transition inp"
    using T by (auto simp: clock_ok_def)
  have n: "n \<le> ?M + 2" using b by (simp add: budget_at_def)
  have plain: "budget_at cfg (t_transition inp) svc n w"
    using budget_at_later [OF b] le by force
  obtain ex st where ex: "is_recovery_budget_exhausted cfg (t_vbudget inp) (t_vstore inp)
      (snapshots w svc) (store w) = (ex, st)"
    by (cases "is_recovery_budget_exhausted cfg (t_vbudget inp) (t_vstore inp)
      (snapshots w svc) (store w)")
  then have pf: "path_file st = path_file (store w)"
    using budget_file [of cfg "t_vbudget inp" "t_vstore inp" "snapshots w svc" "store w"] by simp
  have room: "budget_at cfg (t_transition inp) svc ?M (w\<lparr>store := st\<rparr>)" if "\<not> ex"
  proof -
    have vb: "budget_at cfg (t_vbudget inp) svc n (w\<lparr>store := st\<rparr>)"
      using budget_at_store [OF budget_at_later [OF b le(3)] pf] .
    then have "recent_count cfg (t_vbudget inp) (recovery_attempts (snapshots w svc)) < ?M"
      using budget_room ex that by (auto simp: budget_at_def attempts_ok_def)
    then have "budget_at cfg (t_vbudget inp) svc ?M (w\<lparr>store := st\<rparr>)"
      using budget_at_refine [OF vb, of ?M] by simp
    then show ?thesis by (rule budget_at_later) (use le in auto)
  qed
  have recorded: "budget_at cfg (t_transition inp) svc (Suc n)
      (record_attempt (t_verify_attempt inp) (save_verify inp) svc w)"
    if "state (snapshots w svc) = S_RECOVERING"
    using budget_at_later [OF budget_at_record [OF b le(1)] le(2)] rec that by simp
  have stored: "budget_at cfg (t_transition inp) svc n (w\<lparr>store := st\<rparr>)"
    using budget_at_store [OF plain pf] .
  have final: "?M \<le> ?M + 1" by simp
  show ?thesis
    using v plain room recorded stored
    by (auto simp: verify_def ex Let_def split: if_splits intro: exI [of _ ?M] exI [of _ n]
        exI [of _ "Suc n"])
qed

lemma first_choice_not_recovering [simp]: "first_choice cfg inp svc w \<noteq> S_RECOVERING"
  by (simp add: first_choice_def Let_def)

lemma budget_check_one:
  assumes "budget_inv cfg T w" "clock_ok T inp"
  shows "budget_inv cfg (t_transition inp) (check_one cfg fmt inp svc w)"
proof -
  let ?M = "recovery_max_attempts cfg"
  obtain w1 nxt1 nxt2 w2 w3 nxt3 w4 where s:
    "w1 = observe cfg inp svc w" "nxt1 = first_choice cfg inp svc w1"
    "promote_failed cfg inp svc nxt1 w1 = (nxt2, w2)" "w3 = ensure_recorded inp svc nxt2 w2"
    "verify cfg inp svc (h_status (poll_health cfg inp svc) = H_FAILED)
       (h_status (poll_health cfg inp svc) = H_DEGRADED) nxt2 w3 = (nxt3, w4)"
    "check_one cfg fmt inp svc w = announce cfg fmt inp svc nxt3 w4"
    by (rule check_one_stages [of cfg inp svc w fmt])
  define n where "n = (if state (snapshots w svc) = S_RECOVERING then ?M + 1 else ?M + 2)"
  have "budget_at cfg T svc n w1"
    using assms(1) by (auto simp: s(1) budget_at_observe budget_at_def budget_inv_def n_def
        attempts_ok_def)
  from budget_promote [OF s(3) this assms(2)] have p:
    "if nxt2 = S_RECOVERING then budget_at cfg (t_attempt inp) svc ?M w2 \<and> state (snapshots w svc) = S_FAILED
     else budget_at cfg (t_attempt inp) svc n w2"
    by (simp add: s(1,2) split: if_splits)
  have st: "state (snapshots w3 svc) = state (snapshots w svc)"
    using promote_frame(1) [OF s(3)] by (simp add: s(1,4))
  have ra: "t_attempt inp \<le> t_reattempt inp" "t_reattempt inp \<le> t_verify inp"
    using assms(2) by (auto simp: clock_ok_def)
  have e: "\<exists>m. budget_at cfg (t_reattempt inp) svc m w3 \<and> (nxt2 = S_RECOVERING \<longrightarrow> m = ?M + 1) \<and>
      (state (snapshots w svc) = S_RECOVERING \<longrightarrow> Suc m \<le> ?M + 2)"
  proof (cases "nxt2 = S_RECOVERING")
    case True
    with p budget_ensure [of cfg "t_attempt inp" svc ?M w2 inp nxt2] ra show ?thesis
      by (auto simp: s(4))
  next
    case False
    with p have "budget_at cfg (t_reattempt inp) svc n w2"
      using budget_at_later [OF _ ra(1)] by simp
    with False show ?thesis by (auto simp: s(4) n_def)
  qed
  then obtain m where m: "budget_at cfg (t_reattempt inp) svc m w3" "nxt2 = S_RECOVERING \<longrightarrow> m = ?M + 1"
      "state (snapshots w3 svc) = S_RECOVERING \<longrightarrow> Suc m \<le> ?M + 2"
    using st by auto
  from budget_verify [OF s(5) m(1) ra(2) assms(2) m(3)] m(2) obtain n' where
    "budget_at cfg (t_transition inp) svc n' w4" "nxt3 = S_RECOVERING \<longrightarrow> n' \<le> ?M + 1"
    by auto
  then show ?thesis
    unfolding s(6) by (intro budget_invI [of cfg _ svc n']) (simp_all add: budget_at_announce)
qed

section \<open>Runs of the daemon\<close>

text \<open>Polls of any service with a clock that does not go back, evaluations of the safety gates,
  and restarts that read the persisted attempts again.\<close>

inductive wd_reach ::
  "watchdog_settings \<Rightarrow> formatter \<Rightarrow> (notification_event \<Rightarrow> string \<Rightarrow> string) \<Rightarrow> datetime \<Rightarrow>
   watchdog \<Rightarrow> bool"
  for cfg :: watchdog_settings and fmt :: formatter and gfmt :: "notification_event \<Rightarrow> string \<Rightarrow> string"
  where
  start: "wd_reach cfg fmt gfmt now (begin_loop (init_watchdog now c No_File))"
| poll: "\<lbrakk>wd_reach cfg fmt gfmt T w; clock_ok T inp\<rbrakk> \<Longrightarrow>
     wd_reach cfg fmt gfmt (t_transition inp) (check_one cfg fmt inp svc w)"
| gate_check: "wd_reach cfg fmt gfmt T w \<Longrightarrow>
     wd_reach cfg fmt gfmt T (check_safety_gates cfg gfmt now_et t t' gate w)"
| restart: "\<lbrakk>wd_reach cfg fmt gfmt T w; T \<le> now\<rbrakk> \<Longrightarrow>
     wd_reach cfg fmt gfmt now (begin_loop (init_watchdog now c (path_file (store w))))"

lemma gates_frame:
  "snapshots (check_safety_gates cfg gfmt now_et t t' gate w) = snapshots w"
  "store (check_safety_gates cfg gfmt now_et t t' gate w) = store w"
  by (auto simp: check_safety_gates_def Let_def split: option.splits)

lemma budget_inv_mono: "budget_inv cfg T w \<Longrightarrow> T \<le> T' \<Longrightarrow> budget_inv cfg T' w"
  using recent_count_mono [of T T' cfg]
  by (fastforce simp: budget_inv_def intro: attempts_ok_mono file_ok_mono order_trans)

lemma file_ok_load:
  assumes "file_ok cfg T n f" "T \<le> now"
  shows "attempts_ok cfg now n (get_or (fst (load now \<lparr>corrupted = False, path_file = f\<rparr>)) k [])"
proof -
  have empty: "attempts_ok cfg now n []" by (simp add: attempts_ok_def recent_count_def)
  have kept: "attempts_ok cfg now n (fst (load_entries now es))"
    if "\<forall>k es. (k, es) \<in> set kvs \<longrightarrow> (\<exists>ds. es = map Stamp ds \<and> attempts_ok cfg now n ds)"
      "(k, es) \<in> set kvs" for kvs es k
  proof -
    from that obtain ds where ds: "es = map Stamp ds" "attempts_ok cfg now n ds" by blast
    then have "\<forall>d \<in> set ds. d \<le> now + seconds 60" by (fastforce simp: attempts_ok_def)
    with ds show ?thesis by (simp add: load_entries_stamps)
  qed
  from file_ok_mono [OF assms] show ?thesis
    by (cases f)
      (auto simp: load_def get_or_def empty split: option.splits dest!: map_of_SomeD, erule (1) kept)
qed

lemma init_frame:
  "state (snapshots (begin_loop (init_watchdog now c f)) k) = S_STARTING"
  "recovery_attempts (snapshots (begin_loop (init_watchdog now c f)) k) =
     get_or (fst (load now \<lparr>corrupted = False, path_file = f\<rparr>)) (service_value k) []"
  "path_file (store (begin_loop (init_watchdog now c f))) = f"
  by (auto simp: begin_loop_def init_watchdog_def load_def split: prod.splits store_file.splits)

lemma budget_init:
  "file_ok cfg T (recovery_max_attempts cfg + 2) f \<Longrightarrow> T \<le> now \<Longrightarrow>
   budget_inv cfg now (begin_loop (init_watchdog now c f))"
  by (simp add: budget_inv_def init_frame file_ok_load file_ok_mono del: add_2_eq_Suc')

lemma wd_reach_budget: "wd_reach cfg fmt gfmt T w \<Longrightarrow> budget_inv cfg T w"
proof (induction rule: wd_reach.induct)
  case (start now c)
  then show ?case using budget_init [of cfg now No_File now c] by simp
next
  case (poll T w inp svc)
  then show ?case by (simp add: budget_check_one)
next
  case (gate_check T w now_et t t' gate)
  then show ?case by (simp add: budget_inv_def gates_frame)
next
  case (restart T w now c)
  then show ?case using budget_init [of cfg T "path_file (store w)" now c]
    by (simp add: budget_inv_def [of cfg T w])
qed

text \<open>C35. The recovery budget bounds the recorded recovery attempts over any run: polls of any
  services with any health results, evaluations of the safety gates, failed saves and restarts of
  the watchdog. In every window of the configured length a service has at most two attempts more
  than the configured maximum: one from the second recording guard when saving took over a second,
  one from the recording on entry to verification.\<close>

theorem recovery_budget_bound:
  assumes "wd_reach cfg fmt gfmt T w" "T \<le> now"
  shows "length (filter (\<lambda>d. now - seconds (recovery_window_seconds cfg) < d)
           (recovery_attempts (snapshots w svc))) \<le> recovery_max_attempts cfg + 2"
  using wd_reach_budget [OF assms(1)] recent_count_mono [OF assms(2), of cfg]
  unfolding budget_inv_def attempts_ok_def recent_count_def by (meson order_trans)

definition sample_wd_settings :: watchdog_settings where
  "sample_wd_settings =
     \<lparr>recovery_max_attempts = 5, recovery_window_seconds = 600, market_closed_enabled = True\<rparr>"

definition sample_health :: "health_status \<Rightarrow> health_result" where
  "sample_health s =
     \<lparr>h_status = s, h_liveness = s, h_readiness = s, h_detail = ''tcp refused'', h_reason = None,
      h_pid = None, h_underlying_error = None, h_what_happened = None, h_impact = None,
      h_trading_impact = None\<rparr>"

definition sample_poll :: "health_status \<Rightarrow> datetime \<Rightarrow> poll_input" where
  "sample_poll s t =
     \<lparr>checker = Inr (sample_health s), et_backend = t, et_market = t, t_budget = t, t_store = t,
      t_attempt = t, save_attempt = True, t_recheck = t, t_recheck2 = t, t_reattempt = t,
      save_reattempt = True, t_verify = t, t_verify_attempt = t, save_verify = True, t_vbudget = t,
      t_vstore = t, t_transition = t, t_recent = t, mono_check = 0, mono_mark = 0\<rparr>"

theorem recovery_budget_bound_witness:
  "length (filter (\<lambda>d. 100 - seconds (recovery_window_seconds sample_wd_settings) < d)
     (recovery_attempts (snapshots
        (check_one sample_wd_settings (\<lambda>_ _ _ _ _. []) (sample_poll H_FAILED 50) GATEWAY
           (begin_loop (init_watchdog 0 300 No_File))) GATEWAY)))
   \<le> recovery_max_attempts sample_wd_settings + 2"
proof -
  have ok: "clock_ok 0 (sample_poll H_FAILED 50)" by (simp add: clock_ok_def sample_poll_def)
  have "wd_reach sample_wd_settings (\<lambda>_ _ _ _ _. []) (\<lambda>_ _. []) (t_transition (sample_poll H_FAILED 50))
      (check_one sample_wd_settings (\<lambda>_ _ _ _ _. []) (sample_poll H_FAILED 50) GATEWAY
         (begin_loop (init_watchdog 0 300 No_File)))"
    by (rule wd_reach.poll [OF wd_reach.start ok])
  then show ?thesis
    by (rule recovery_budget_bound) (simp add: sample_poll_def)
qed

section \<open>Single polls\<close>

lemma first_choice_eq:
  "first_choice cfg inp svc w =
     next_state (snapshots w svc) (h_status (poll_health cfg inp svc) = H_FAILED)
       (effective_degraded (poll_health cfg inp svc) (snapshots w svc)) None False
       (poll_market_closed cfg inp svc)"
  by (auto simp: first_choice_def Let_def)

lemma promote_other:
  "state (snapshots w svc) \<noteq> S_FAILED \<or> nxt \<noteq> S_FAILED \<Longrightarrow> promote_failed cfg inp svc nxt w = (nxt, w)"
  by (auto simp: promote_failed_def)

lemma verify_other:
  "nxt \<noteq> S_VERIFYING \<Longrightarrow> state (snapshots w svc) \<noteq> S_RECOVERING \<Longrightarrow>
   verify cfg inp svc hf dg nxt w = (nxt, w)"
  by (simp add: verify_def Let_def)

text \<open>Polls that involve neither the budget nor verification.\<close>

lemma check_one_plain:
  assumes "nxt = first_choice cfg inp svc (observe cfg inp svc w)"
    and "nxt \<noteq> S_VERIFYING" "state (snapshots w svc) \<noteq> S_RECOVERING"
    and "state (snapshots w svc) \<noteq> S_FAILED \<or> nxt \<noteq> S_FAILED"
  shows "check_one cfg fmt inp svc w = announce cfg fmt inp svc nxt (observe cfg inp svc w)"
proof -
  have "nxt \<noteq> S_RECOVERING" using assms(1) by simp
  then show ?thesis
    using assms by (simp add: check_one_def Let_def promote_other verify_other)
qed

lemma check_one_recovering:
  assumes "state (snapshots w svc) = S_RECOVERING"
  shows "state (snapshots (check_one cfg fmt inp svc w) svc) = S_VERIFYING"
    and "recovery_attempts (snapshots (check_one cfg fmt inp svc w) svc) =
          (if (case last_recovery_at (snapshots w svc) of None \<Rightarrow> True
               | Some t \<Rightarrow> t_verify inp - t > seconds 2)
           then recovery_attempts (snapshots w svc) @ [t_verify_attempt inp]
           else recovery_attempts (snapshots w svc))"
proof -
  let ?w = "observe cfg inp svc w"
  have f: "first_choice cfg inp svc ?w \<noteq> S_RECOVERING" by simp
  have c: "check_one cfg fmt inp svc w = announce cfg fmt inp svc S_VERIFYING
      (if (case last_recovery_at (snapshots w svc) of None \<Rightarrow> True
               | Some t \<Rightarrow> t_verify inp - t > seconds 2)
       then record_attempt (t_verify_attempt inp) (save_verify inp) svc ?w else ?w)"
    using f assms by (simp add: check_one_def Let_def promote_other) (simp add: verify_def Let_def)
  show "state (snapshots (check_one cfg fmt inp svc w) svc) = S_VERIFYING"
    and "recovery_attempts (snapshots (check_one cfg fmt inp svc w) svc) =
          (if (case last_recovery_at (snapshots w svc) of None \<Rightarrow> True
               | Some t \<Rightarrow> t_verify inp - t > seconds 2)
           then recovery_attempts (snapshots w svc) @ [t_verify_attempt inp]
           else recovery_attempts (snapshots w svc))"
    unfolding c by simp_all
qed

text \<open>Outside the trading session a stopped gateway or webhook is not treated as a failure: a
  poll that finds it down moves it to \<open>MARKET_CLOSED\<close> from every state and records no recovery
  attempt. The one exception is a service in \<open>RECOVERING\<close>: it goes on to \<open>VERIFYING\<close> and, more
  than two seconds after the last attempt, another attempt is recorded, although the code states
  that there are no recovery attempts during expected downtime.\<close>

theorem market_closed_poll:
  assumes "poll_market_closed cfg inp svc" "h_status (poll_health cfg inp svc) = H_FAILED"
  shows "let snap = snapshots w svc; snap' = snapshots (check_one cfg fmt inp svc w) svc in
     state snap' = (if state snap = S_RECOVERING then S_VERIFYING else S_MARKET_CLOSED) \<and>
     recovery_attempts snap' =
       (if state snap = S_RECOVERING \<and>
           (case last_recovery_at snap of None \<Rightarrow> True | Some t \<Rightarrow> t_verify inp - t > seconds 2)
        then recovery_attempts snap @ [t_verify_attempt inp] else recovery_attempts snap)"
proof (cases "state (snapshots w svc) = S_RECOVERING")
  case True
  then show ?thesis
    using check_one_recovering [OF True, of cfg fmt inp] by (simp add: Let_def)
next
  case False
  have "first_choice cfg inp svc (observe cfg inp svc w) = S_MARKET_CLOSED"
    using assms by (simp add: first_choice_eq)
  then have "check_one cfg fmt inp svc w = announce cfg fmt inp svc S_MARKET_CLOSED (observe cfg inp svc w)"
    using False by (intro check_one_plain) auto
  with False show ?thesis by (simp add: Let_def)
qed

theorem market_closed_poll_witness:
  "state (snapshots (check_one sample_wd_settings (\<lambda>_ _ _ _ _. []) (sample_poll H_FAILED 0) GATEWAY
     (begin_loop (init_watchdog 0 300 No_File))) GATEWAY) = S_MARKET_CLOSED"
  using market_closed_poll [of sample_wd_settings "sample_poll H_FAILED 0" GATEWAY
      "begin_loop (init_watchdog 0 300 No_File)" "\<lambda>_ _ _ _ _. []"]
  by (simp add: Let_def init_frame poll_market_closed_def sample_wd_settings_def
      is_market_closed_for_def MARKET_CLOSED_SERVICES_def is_trading_session_def sample_poll_def
      weekday_def time_of_day_def poll_health_def excuse_backend_def observed_health_def
      sample_health_def)

text \<open>A recovery cycle spends the budget twice. A service that is still down on a poll with
  budget left goes to \<open>RECOVERING\<close> with one attempt recorded; when the next poll comes more than
  two seconds later, as it does at the configured interval of ten seconds, entering \<open>VERIFYING\<close>
  records a second attempt for the same cycle.\<close>

theorem recovery_cycle_counts_twice:
  assumes "state (snapshots w svc) = S_FAILED"
    and "h_status (poll_health cfg inp1 svc) = H_FAILED" "\<not> poll_market_closed cfg inp1 svc"
    and "\<not> fst (is_recovery_budget_exhausted cfg (t_budget inp1) (t_store inp1)
                  (snapshots (observe cfg inp1 svc w) svc) (store w))"
    and "t_recheck inp1 - t_attempt inp1 \<le> seconds 1"
    and "t_verify inp2 - t_attempt inp1 > seconds 2"
  shows "let w1 = check_one cfg fmt inp1 svc w; w2 = check_one cfg fmt inp2 svc w1 in
     state (snapshots w1 svc) = S_RECOVERING \<and> state (snapshots w2 svc) = S_VERIFYING \<and>
     recovery_attempts (snapshots w2 svc) =
       recovery_attempts (snapshots w svc) @ [t_attempt inp1, t_verify_attempt inp2]"
proof -
  let ?o = "observe cfg inp1 svc w"
  obtain st where ex: "is_recovery_budget_exhausted cfg (t_budget inp1) (t_store inp1)
      (snapshots ?o svc) (store w) = (False, st)"
    using assms(4)
    by (cases "is_recovery_budget_exhausted cfg (t_budget inp1) (t_store inp1) (snapshots ?o svc) (store w)")
      simp
  let ?r = "record_attempt (t_attempt inp1) (save_attempt inp1) svc (?o\<lparr>store := st\<rparr>)"
  have "first_choice cfg inp1 svc ?o = S_FAILED"
    using assms(1-3) by (simp add: first_choice_eq next_state_def Let_def)
  moreover have "promote_failed cfg inp1 svc S_FAILED ?o = (S_RECOVERING, ?r)"
    using assms(1) ex by (simp add: promote_failed_def)
  moreover have "ensure_recorded inp1 svc S_RECOVERING ?r = ?r"
    using assms(5) by (simp add: ensure_recorded_def Let_def)
  moreover have "verify cfg inp1 svc hf dg S_RECOVERING ?r = (S_RECOVERING, ?r)" for hf dg
    using assms(1) by (simp add: verify_other)
  ultimately have w1: "check_one cfg fmt inp1 svc w = announce cfg fmt inp1 svc S_RECOVERING ?r"
    by (simp add: check_one_def Let_def)
  have lr: "last_recovery_at (snapshots (announce cfg fmt inp1 svc S_RECOVERING ?r) svc) = Some (t_attempt inp1)"
    using assms(1) by (simp add: announce_def Let_def)
  show ?thesis
    unfolding Let_def w1
    using assms(6) lr
    by (simp add: check_one_recovering [of "announce cfg fmt inp1 svc S_RECOVERING ?r" svc])
qed

definition sample_failed_watchdog :: watchdog where
  "sample_failed_watchdog =
     check_one sample_wd_settings (\<lambda>_ _ _ _ _. []) (sample_poll H_FAILED 0) REDIS
       (begin_loop (init_watchdog 0 300 No_File))"

lemma sample_failed_frame:
  "state (snapshots sample_failed_watchdog REDIS) = S_FAILED"
  "recovery_attempts (snapshots sample_failed_watchdog REDIS) = []"
  "store sample_failed_watchdog = \<lparr>corrupted = False, path_file = No_File\<rparr>"
proof -
  let ?w = "begin_loop (init_watchdog 0 300 No_File)"
  have "first_choice sample_wd_settings (sample_poll H_FAILED 0) REDIS
      (observe sample_wd_settings (sample_poll H_FAILED 0) REDIS ?w) = S_FAILED"
    by (simp add: first_choice_eq next_state_def init_frame poll_health_def excuse_backend_def
        observed_health_def sample_poll_def sample_health_def poll_market_closed_def
        sample_wd_settings_def is_market_closed_for_def MARKET_CLOSED_SERVICES_def Let_def)
  from check_one_plain [OF this [symmetric], of "\<lambda>_ _ _ _ _. []"]
  have c: "sample_failed_watchdog = announce sample_wd_settings (\<lambda>_ _ _ _ _. []) (sample_poll H_FAILED 0)
      REDIS S_FAILED (observe sample_wd_settings (sample_poll H_FAILED 0) REDIS ?w)"
    by (simp add: sample_failed_watchdog_def init_frame)
  show "state (snapshots sample_failed_watchdog REDIS) = S_FAILED"
    and "recovery_attempts (snapshots sample_failed_watchdog REDIS) = []"
    and "store sample_failed_watchdog = \<lparr>corrupted = False, path_file = No_File\<rparr>"
    unfolding c
    by (simp_all add: init_frame) (simp_all add: load_def begin_loop_def init_watchdog_def)
qed

theorem recovery_cycle_counts_twice_witness:
  "recovery_attempts (snapshots
     (check_one sample_wd_settings (\<lambda>_ _ _ _ _. []) (sample_poll H_FAILED (seconds 20)) REDIS
       (check_one sample_wd_settings (\<lambda>_ _ _ _ _. []) (sample_poll H_FAILED (seconds 10)) REDIS
          sample_failed_watchdog)) REDIS) = [seconds 10, seconds 20]"
proof -
  have st: "state (snapshots sample_failed_watchdog REDIS) = S_FAILED"
    and ra: "recovery_attempts (snapshots sample_failed_watchdog REDIS) = []"
    and sto: "store sample_failed_watchdog = \<lparr>corrupted = False, path_file = No_File\<rparr>"
    by (fact sample_failed_frame)+
  have ex: "\<not> fst (is_recovery_budget_exhausted sample_wd_settings t t'
      (snapshots (observe sample_wd_settings inp REDIS sample_failed_watchdog) REDIS)
      (store sample_failed_watchdog))" for t t' inp
    by (simp add: is_recovery_budget_exhausted_def sto ra recent_attempts_def is_exhausted_def
        get_attempts_def load_def sample_wd_settings_def get_or_def)
  show ?thesis
    using recovery_cycle_counts_twice [OF st _ _ ex, of "sample_poll H_FAILED (seconds 10)"
        "sample_poll H_FAILED (seconds 20)" "\<lambda>_ _ _ _ _. []"]
    by (simp add: Let_def ra sample_poll_def poll_health_def excuse_backend_def observed_health_def
        sample_health_def poll_market_closed_def sample_wd_settings_def is_market_closed_for_def
        MARKET_CLOSED_SERVICES_def)
qed

section \<open>All transitions of a poll\<close>

definition poll_transitions :: "(service_state \<times> service_state) list" where
  "poll_transitions =
     [(S_UNKNOWN, S_FAILED), (S_UNKNOWN, S_DEGRADED), (S_UNKNOWN, S_HEALTHY), (S_UNKNOWN, S_MARKET_CLOSED),
      (S_STARTING, S_FAILED), (S_STARTING, S_DEGRADED), (S_STARTING, S_HEALTHY), (S_STARTING, S_MARKET_CLOSED),
      (S_HEALTHY, S_FAILED), (S_HEALTHY, S_DEGRADED), (S_HEALTHY, S_MARKET_CLOSED),
      (S_DEGRADED, S_FAILED), (S_DEGRADED, S_HEALTHY), (S_DEGRADED, S_MARKET_CLOSED),
      (S_FAILED, S_RECOVERED), (S_FAILED, S_DEGRADED), (S_FAILED, S_MARKET_CLOSED),
      (S_FAILED, S_RECOVERING), (S_FAILED, S_MANUAL_INTERVENTION_REQUIRED),
      (S_RECOVERING, S_VERIFYING),
      (S_VERIFYING, S_RECOVERED), (S_VERIFYING, S_TRADING_BLOCKED), (S_VERIFYING, S_RECOVERING),
      (S_VERIFYING, S_MANUAL_INTERVENTION_REQUIRED), (S_VERIFYING, S_MARKET_CLOSED),
      (S_RECOVERED, S_FAILED), (S_RECOVERED, S_DEGRADED), (S_RECOVERED, S_HEALTHY),
      (S_RECOVERED, S_MARKET_CLOSED),
      (S_MANUAL_INTERVENTION_REQUIRED, S_HEALTHY), (S_MANUAL_INTERVENTION_REQUIRED, S_MARKET_CLOSED),
      (S_TRADING_BLOCKED, S_HEALTHY), (S_TRADING_BLOCKED, S_MARKET_CLOSED),
      (S_MARKET_CLOSED, S_HEALTHY), (S_MARKET_CLOSED, S_FAILED)]"

definition silent_transitions :: "(service_state \<times> service_state) list" where
  "silent_transitions =
     [(S_UNKNOWN, S_DEGRADED), (S_STARTING, S_FAILED), (S_STARTING, S_DEGRADED),
      (S_DEGRADED, S_HEALTHY), (S_FAILED, S_DEGRADED), (S_RECOVERING, S_VERIFYING),
      (S_VERIFYING, S_RECOVERING), (S_RECOVERED, S_FAILED), (S_RECOVERED, S_DEGRADED),
      (S_RECOVERED, S_HEALTHY)]"

lemma verify_verifying:
  assumes "state (snapshots w svc) = S_VERIFYING"
    and "verify cfg inp svc hf dg S_VERIFYING w = (nxt', w')"
  shows "nxt' \<in> {S_RECOVERED, S_TRADING_BLOCKED, S_RECOVERING, S_MANUAL_INTERVENTION_REQUIRED, S_VERIFYING}"
  using assms
  by (auto simp: verify_def Let_def next_state_def split: if_splits prod.splits)

lemma next_state_plain:
  "next_state snap hf dg None False mc = state snap \<or>
   (state snap, next_state snap hf dg None False mc) \<in> set poll_transitions \<or>
   state snap = S_RECOVERING"
  by (cases "state snap"; cases hf; cases dg; cases mc)
    (simp_all add: next_state_def poll_transitions_def)

lemma check_one_transition:
  defines "st \<equiv> \<lambda>w svc. state (snapshots w svc)"
  shows "st (check_one cfg fmt inp svc w) svc = st w svc \<or>
     (st w svc, st (check_one cfg fmt inp svc w) svc) \<in> set poll_transitions"
proof -
  obtain w1 nxt1 nxt2 w2 w3 nxt3 w4 where s:
    "w1 = observe cfg inp svc w" "nxt1 = first_choice cfg inp svc w1"
    "promote_failed cfg inp svc nxt1 w1 = (nxt2, w2)" "w3 = ensure_recorded inp svc nxt2 w2"
    "verify cfg inp svc (h_status (poll_health cfg inp svc) = H_FAILED)
       (h_status (poll_health cfg inp svc) = H_DEGRADED) nxt2 w3 = (nxt3, w4)"
    "check_one cfg fmt inp svc w = announce cfg fmt inp svc nxt3 w4"
    by (rule check_one_stages [of cfg inp svc w fmt])
  have st3: "state (snapshots w3 svc) = st w svc"
    using promote_frame(1) [OF s(3)] by (simp add: s(1,4) st_def)
  have final: "st (check_one cfg fmt inp svc w) svc = nxt3" by (simp add: st_def s(6))
  have nv: "nxt1 = S_VERIFYING \<Longrightarrow> st w svc = S_RECOVERING \<or> st w svc = S_VERIFYING"
    using next_state_verifying [of "snapshots w1 svc"] by (simp add: s(1,2) first_choice_eq st_def)
  consider (rec) "st w svc = S_RECOVERING" | (ver) "st w svc = S_VERIFYING" "nxt1 = S_VERIFYING"
    | (fail) "st w svc = S_FAILED" "nxt1 = S_FAILED"
    | (plain) "st w svc \<noteq> S_RECOVERING" "nxt1 \<noteq> S_VERIFYING" "st w svc \<noteq> S_FAILED \<or> nxt1 \<noteq> S_FAILED"
    using nv by blast
  then show ?thesis
  proof cases
    case rec
    then show ?thesis
      using check_one_recovering(1) [of w svc cfg fmt inp] by (simp add: st_def poll_transitions_def)
  next
    case ver
    then have "nxt2 = S_VERIFYING" using s(3) promote_other [of w1 svc] by (simp add: s(1) st_def)
    with verify_verifying [of w3 svc cfg inp] s(5) st3 ver(1) final show ?thesis
      by (auto simp: poll_transitions_def)
  next
    case fail
    then have "nxt2 = S_RECOVERING \<or> nxt2 = S_MANUAL_INTERVENTION_REQUIRED"
      using s(3) by (auto simp: promote_failed_def s(1) st_def split: prod.splits if_splits)
    then have "nxt3 = nxt2"
      using s(5) fail(1) st3 by (auto simp: verify_other)
    with \<open>nxt2 = S_RECOVERING \<or> nxt2 = S_MANUAL_INTERVENTION_REQUIRED\<close> fail(1) final show ?thesis
      by (auto simp: poll_transitions_def)
  next
    case plain
    then have c: "check_one cfg fmt inp svc w = announce cfg fmt inp svc nxt1 w1"
      using check_one_plain [of nxt1 cfg inp svc w fmt] s(1,2) by (simp add: st_def)
    have "state (snapshots w1 svc) = st w svc" by (simp add: s(1) st_def)
    with plain next_state_plain [of "snapshots w1 svc"] show ?thesis
      unfolding c by (simp add: st_def s(2) first_choice_eq)
  qed
qed

lemma silent_event:
  "(a, b) \<in> set poll_transitions \<Longrightarrow>
   (transition_event a b = None \<longleftrightarrow> (a, b) \<in> set silent_transitions) \<and>
   transition_event a b \<noteq> Some E_RECOVERY_FAILED"
  by (cases a; cases b)
    (simp_all add: poll_transitions_def silent_transitions_def transition_event_def
      event_for_transition_def transition_mapping_def)

text \<open>The transitions a poll can make, in any state and with any health result, are the
  thirty-five of \<open>poll_transitions\<close>. Ten of them are announced by no event, among them the failure
  of a service on its first poll after start and the failure of a service just recovered; and no
  poll ever announces \<open>RECOVERY_FAILED\<close>, since a failed verification goes back to
  \<open>RECOVERING\<close> or to manual intervention.\<close>

theorem poll_transitions_complete:
  "let a = state (snapshots w svc); b = state (snapshots (check_one cfg fmt inp svc w) svc) in
     a = b \<or>
     (a, b) \<in> set poll_transitions \<and>
     (transition_event a b = None \<longleftrightarrow> (a, b) \<in> set silent_transitions) \<and>
     transition_event a b \<noteq> Some E_RECOVERY_FAILED"
  using check_one_transition [of cfg fmt inp svc w] silent_event
  unfolding Let_def by metis

text \<open>A trading block is not sticky. When the safety gates are blocked, a healthy poll of a
  service under verification moves it to \<open>TRADING_BLOCKED\<close>; the next healthy poll moves it to
  \<open>HEALTHY\<close> although the gates are still blocked, because the daemon passes
  \<open>safety_trading_blocked=False\<close> to the state machine.\<close>

theorem trading_block_not_sticky:
  assumes "state (snapshots w svc) = S_VERIFYING" "safety_blocked w"
    and "h_status (poll_health cfg inp1 svc) = H_HEALTHY" "h_status (poll_health cfg inp2 svc) = H_HEALTHY"
  shows "let w1 = check_one cfg fmt inp1 svc w; w2 = check_one cfg fmt inp2 svc w1 in
     state (snapshots w1 svc) = S_TRADING_BLOCKED \<and>
     state (snapshots w2 svc) = S_HEALTHY \<and> safety_blocked w2"
proof -
  let ?o = "observe cfg inp1 svc w"
  have "first_choice cfg inp1 svc ?o = S_VERIFYING"
    using assms(1,3) by (simp add: first_choice_eq next_state_def effective_degraded_def Let_def)
  then have w1: "check_one cfg fmt inp1 svc w = announce cfg fmt inp1 svc S_TRADING_BLOCKED ?o"
    using assms(1-3) by (simp add: check_one_def promote_other Let_def)
      (simp add: verify_def next_state_def Let_def)
  define w1 where "w1 = check_one cfg fmt inp1 svc w"
  have b: "state (snapshots w1 svc) = S_TRADING_BLOCKED" by (simp add: w1_def w1)
  then have f: "first_choice cfg inp2 svc (observe cfg inp2 svc w1) = S_HEALTHY"
    using assms(4) by (simp add: first_choice_eq next_state_def effective_degraded_def Let_def)
  have "check_one cfg fmt inp2 svc w1 = announce cfg fmt inp2 svc S_HEALTHY (observe cfg inp2 svc w1)"
    by (rule check_one_plain [OF f [symmetric]]) (simp_all add: b)
  then have "state (snapshots (check_one cfg fmt inp2 svc w1) svc) = S_HEALTHY" by simp
  with b assms(2) show ?thesis
    by (simp add: Let_def w1_def check_one_safety)
qed

definition sample_verifying_watchdog :: watchdog where
  "sample_verifying_watchdog =
     (begin_loop (init_watchdog 0 300 No_File))
       \<lparr>snapshots := (\<lambda>k. new_snapshot k S_VERIFYING 0), safety_blocked := True\<rparr>"

theorem trading_block_not_sticky_witness:
  "state (snapshots
     (check_one sample_wd_settings (\<lambda>_ _ _ _ _. []) (sample_poll H_HEALTHY (seconds 20)) BACKEND
       (check_one sample_wd_settings (\<lambda>_ _ _ _ _. []) (sample_poll H_HEALTHY (seconds 10)) BACKEND
          sample_verifying_watchdog)) BACKEND) = S_HEALTHY"
  using trading_block_not_sticky [of sample_verifying_watchdog BACKEND sample_wd_settings
      "sample_poll H_HEALTHY (seconds 10)" "sample_poll H_HEALTHY (seconds 20)" "\<lambda>_ _ _ _ _. []"]
  by (simp add: Let_def sample_verifying_watchdog_def sample_poll_def poll_health_def
      excuse_backend_def observed_health_def sample_health_def)

end
