(* ===== verification/Safety_Gates.thy ===== *)
theory Safety_Gates
  imports Watchdog_Daemon
begin

text \<open>
  \<open>SafetyGateChecker.check\<close> of \<open>services/watchdog/safety.py\<close>: the five gates, from the
  answers of the backend's HTTP endpoints. An answer is a raised exception (with its text), a status
  other than 200, or the decoded body of a 200; the bodies have the fields the gates read, optional
  where the code uses \<open>get\<close>. Every gate is modelled as the pair of the failures it appends and its
  verdict. An amount carries its printed text and its value, \<open>None\<close> when \<open>float\<close> refuses it.
\<close>

section \<open>Answers\<close>

datatype 'a response = Raised string | Status int | Body 'a

record alert =
  level :: string
  component :: string
  alert_message :: string

record monitor_body =
  overall_status :: string
  alerts :: "alert list"

record account_row =
  row_account :: "string option"
  row_id :: int
  kill_switch_active :: bool

text \<open>\<open>data.get("accounts", ...)\<close>: an object with or without the key; a list has no \<open>get\<close>.\<close>

datatype accounts_body = With_Accounts "account_row list" | Without_Accounts | Bare_List "account_row list"

record amount =
  amount_text :: string
  amount_value :: "rat option"

record margin_row =
  margin_account :: "string option"
  row_is_stale :: bool
  row_effective :: "amount option"
  row_floor :: "amount option"

record gate_answers =
  monitor_answer :: "monitor_body response"
  accounts_answer :: "accounts_body response"
  accounts_answer2 :: "accounts_body response"
  incidents_answer :: "string \<Rightarrow> nat response"
  gateway_port :: int
  margin_answer :: "margin_row list response"

section \<open>The gates\<close>

type_synonym gate_outcome = "string list \<times> string"

definition monitor_gate :: "monitor_body response \<Rightarrow> gate_outcome" where
  "monitor_gate resp =
     (case resp of
        Raised exc \<Rightarrow> ([''system-monitor unreachable: '' @ exc], ''UNKNOWN'')
      | Status code \<Rightarrow> ([''system-monitor HTTP '' @ int_text code], ''UNSAFE'')
      | Body data \<Rightarrow>
          if overall_status data = ''CRITICAL'' then
            (let crit = map (\<lambda>a. ''system-monitor CRITICAL ['' @ component a @ '']: '' @ alert_message a)
                          (filter (\<lambda>a. level a = ''CRITICAL'') (alerts data))
             in (if crit = [] then [''system-monitor reported CRITICAL status''] else crit, ''UNSAFE''))
          else ([], ''SAFE''))"

definition accounts_of :: "accounts_body \<Rightarrow> account_row list result" where
  "accounts_of b =
     (case b of With_Accounts rows \<Rightarrow> Inr rows | Without_Accounts \<Rightarrow> Inr []
      | Bare_List rows \<Rightarrow> Inl AttributeError)"

definition row_name :: "account_row \<Rightarrow> string" where
  "row_name a = (case row_account a of
      Some s \<Rightarrow> if s \<noteq> [] then s else int_text (row_id a)
    | None \<Rightarrow> int_text (row_id a))"

definition kill_switch_gate :: "accounts_body response \<Rightarrow> gate_outcome" where
  "kill_switch_gate resp =
     (case resp of
        Raised exc \<Rightarrow> ([''kill-switch check failed: '' @ exc], ''UNKNOWN'')
      | Status code \<Rightarrow> ([''kill-switch check HTTP '' @ int_text code], ''UNKNOWN'')
      | Body data \<Rightarrow>
          (case accounts_of data of
             Inl e \<Rightarrow> ([''kill-switch check failed: list has no attribute get''], ''UNKNOWN'')
           | Inr accounts \<Rightarrow>
               (let armed = filter kill_switch_active accounts in
                if armed \<noteq> []
                then ([''kill switch ACTIVE for: '' @ py_join '', '' (map row_name armed)], ''UNSAFE'')
                else ([], ''SAFE''))))"

text \<open>The account names of the second accounts request; every failure to get them is swallowed.\<close>

definition basket_accounts :: "accounts_body response \<Rightarrow> string list" where
  "basket_accounts resp =
     (case resp of
        Body data \<Rightarrow>
          (case accounts_of data of
             Inl e \<Rightarrow> []
           | Inr accounts \<Rightarrow> filter (\<lambda>s. s \<noteq> []) (List.map_filter row_account accounts))
      | _ \<Rightarrow> [])"

fun basket_loop :: "(string \<Rightarrow> nat response) \<Rightarrow> string list \<Rightarrow> string list \<times> bool" where
  "basket_loop ask [] = ([], False)"
| "basket_loop ask (acct # rest) =
     (case basket_loop ask rest of (fs, crit) \<Rightarrow>
        (case ask acct of
           Body n \<Rightarrow>
             if n \<noteq> 0
             then ((''BASKET_CRITICAL for '' @ acct @ '': '' @ nat_digits n @ '' incident(s)'') # fs, True)
             else (fs, crit)
         | Status code \<Rightarrow>
             if code \<noteq> 404
             then ((''baskets/critical HTTP '' @ int_text code @ '' for '' @ acct) # fs, crit)
             else (fs, crit)
         | Raised exc \<Rightarrow> ((''baskets check for '' @ acct @ '' failed: '' @ exc) # fs, crit)))"

text \<open>\<open>earlier\<close> are the failures of the gates before: the verdict looks for the word
  \<open>baskets\<close> in all failures so far.\<close>

definition baskets_gate ::
  "string list \<Rightarrow> accounts_body response \<Rightarrow> (string \<Rightarrow> nat response) \<Rightarrow> gate_outcome" where
  "baskets_gate earlier resp ask =
     (let accts = basket_accounts resp in
      if accts = [] then ([''baskets check: cannot determine ibkr_accounts''], ''UNKNOWN'')
      else (case basket_loop ask accts of (fs, found_critical) \<Rightarrow>
              (fs, if found_critical then ''UNSAFE''
                   else if list_ex (\<lambda>f. py_contains f ''baskets'') (earlier @ fs) then ''UNKNOWN''
                   else ''SAFE'')))"

definition mode_gate :: "int \<Rightarrow> gate_outcome" where
  "mode_gate gw_port =
     (if gw_port \<notin> {4002, 7497, 7496, 4001}
      then ([''trading mode UNKNOWN: gateway port '' @ int_text gw_port @ '' not recognized''], ''UNKNOWN'')
      else ([], ''SAFE''))"

text \<open>\<open>float(floor or 0)\<close>: no floor and an empty text count as zero.\<close>

definition floor_value :: "amount option \<Rightarrow> rat option" where
  "floor_value fl =
     (case fl of
        None \<Rightarrow> Some 0
      | Some f \<Rightarrow> if amount_text f = [] then Some 0 else amount_value f)"

definition margin_row_fault :: "margin_row \<Rightarrow> string option" where
  "margin_row_fault row =
     (let acct = (case margin_account row of Some s \<Rightarrow> if s \<noteq> [] then s else ''?'' | None \<Rightarrow> ''?'') in
      if row_is_stale row then Some (acct @ '' STALE'')
      else (case row_effective row of
          None \<Rightarrow> Some (acct @ '' missing effective_free_margin'')
        | Some eff \<Rightarrow>
            (case (amount_value eff,
                   floor_value (row_floor row)) of
               (Some e, Some f) \<Rightarrow>
                 if e \<le> f
                 then Some (acct @ '' effective_free='' @ amount_text eff @ '' floor='' @
                            (case row_floor row of None \<Rightarrow> ''None'' | Some f' \<Rightarrow> amount_text f'))
                 else None
             | _ \<Rightarrow> Some (acct @ '' unparsable margin''))))"

definition margin_gate :: "margin_row list response \<Rightarrow> gate_outcome" where
  "margin_gate resp =
     (case resp of
        Raised exc \<Rightarrow> ([''margin check failed: '' @ exc], ''UNKNOWN'')
      | Status code \<Rightarrow>
          if code = 503 then ([''margin check: gateway down or snapshot unavailable''], ''UNKNOWN'')
          else ([''margin check HTTP '' @ int_text code], ''UNKNOWN'')
      | Body rows \<Rightarrow>
          (let unsafe = List.map_filter margin_row_fault rows in
           if unsafe \<noteq> [] then ([''margin UNSAFE: '' @ py_join ''; '' unsafe], ''UNSAFE'')
           else ([], ''SAFE'')))"

section \<open>\<open>check\<close>\<close>

definition safety_check :: "(string \<times> string \<Rightarrow> string) \<Rightarrow> gate_answers \<Rightarrow> safety_gate_result" where
  "safety_check show_gate ans =
     (let (f1, v1) = monitor_gate (monitor_answer ans);
          (f2, v2) = kill_switch_gate (accounts_answer ans);
          (f3, v3) = baskets_gate (f1 @ f2) (accounts_answer2 ans) (incidents_answer ans);
          (f4, v4) = mode_gate (gateway_port ans);
          (f5, v5) = margin_gate (margin_answer ans);
          gs = [(''system_monitor'', v1), (''kill_switch'', v2), (''baskets'', v3),
                (''trading_mode'', v4), (''margin'', v5)];
          fs = f1 @ f2 @ f3 @ f4 @ f5;
          ok = (filter (\<lambda>(k, v). v \<noteq> ''SAFE'') gs = []);
          fs' = (if \<not> ok \<and> fs = []
                 then [''safety gates not all SAFE: '' @ py_join '', '' (map show_gate gs)] else fs)
      in \<lparr>passed = ok, failures = fs',
          details = (if fs' \<noteq> [] then py_join ''; '' fs' else ''all gates SAFE''), gates = gs\<rparr>)"

section \<open>When a gate is SAFE\<close>

lemma monitor_safe:
  "snd (monitor_gate r) = ''SAFE'' \<longleftrightarrow> (\<exists>b. r = Body b \<and> overall_status b \<noteq> ''CRITICAL'')"
  by (auto simp: monitor_gate_def Let_def split: response.splits)

lemma monitor_safe_failures: "snd (monitor_gate r) = ''SAFE'' \<Longrightarrow> fst (monitor_gate r) = []"
  by (auto simp: monitor_gate_def Let_def split: response.splits)

lemma kill_safe:
  "snd (kill_switch_gate r) = ''SAFE'' \<longleftrightarrow>
   (\<exists>b rows. r = Body b \<and> accounts_of b = Inr rows \<and> (\<forall>a \<in> set rows. \<not> kill_switch_active a))"
  by (auto simp: kill_switch_gate_def Let_def filter_empty_conv split: response.splits sum.splits)

lemma kill_safe_failures: "snd (kill_switch_gate r) = ''SAFE'' \<Longrightarrow> fst (kill_switch_gate r) = []"
  by (auto simp: kill_switch_gate_def Let_def split: response.splits sum.splits)

lemma py_contains_prefix: "py_contains (s @ t) s"
proof -
  have "py_startswith (s @ t) s" by (induction s) simp_all
  then show ?thesis by (cases "s @ t") simp_all
qed

lemma baskets_word: "py_contains (''baskets'' @ t) ''baskets''"
  by (rule py_contains_prefix)

definition basket_clear :: "nat response \<Rightarrow> bool" where
  "basket_clear r \<longleftrightarrow> r = Body 0 \<or> r = Status 404"

lemma basket_loop_clear:
  "\<not> snd (basket_loop ask accts) \<and> \<not> list_ex (\<lambda>f. py_contains f ''baskets'') (fst (basket_loop ask accts))
   \<longleftrightarrow> (\<forall>a \<in> set accts. basket_clear (ask a))"
proof (induction accts)
  case (Cons a accts)
  show ?case
    using Cons.IH baskets_word [of "''/critical HTTP '' @ int_text (case ask a of Status c \<Rightarrow> c | _ \<Rightarrow> 0) @ '' for '' @ a"]
      baskets_word [of "'' check for '' @ a @ '' failed: '' @ (case ask a of Raised e \<Rightarrow> e | _ \<Rightarrow> [])"]
    by (auto simp: basket_clear_def split: prod.splits response.splits)
qed simp

lemma basket_loop_clear_failures:
  "(\<forall>a \<in> set accts. basket_clear (ask a)) \<Longrightarrow> basket_loop ask accts = ([], False)"
  by (induction accts) (auto simp: basket_clear_def)

lemma baskets_safe:
  "snd (baskets_gate [] r ask) = ''SAFE'' \<longleftrightarrow>
   basket_accounts r \<noteq> [] \<and> (\<forall>a \<in> set (basket_accounts r). basket_clear (ask a))"
  using basket_loop_clear [of ask "basket_accounts r"]
  by (auto simp: baskets_gate_def Let_def split: prod.splits)

lemma mode_safe: "snd (mode_gate p) = ''SAFE'' \<longleftrightarrow> p \<in> {4001, 4002, 7496, 7497}"
  by (auto simp: mode_gate_def)

definition margin_row_safe :: "margin_row \<Rightarrow> bool" where
  "margin_row_safe row \<longleftrightarrow>
     \<not> row_is_stale row \<and>
     (\<exists>eff e f. row_effective row = Some eff \<and> amount_value eff = Some e \<and>
        floor_value (row_floor row) = Some f \<and> f < e)"

lemma margin_row_fault_None: "margin_row_fault row = None \<longleftrightarrow> margin_row_safe row"
  by (auto simp: margin_row_fault_def margin_row_safe_def Let_def split: option.splits)

lemma map_filter_Nil: "List.map_filter f xs = [] \<longleftrightarrow> (\<forall>x \<in> set xs. f x = None)"
  by (induction xs) (auto simp: map_filter_simps split: option.splits)

lemma margin_safe:
  "snd (margin_gate r) = ''SAFE'' \<longleftrightarrow> (\<exists>rows. r = Body rows \<and> (\<forall>row \<in> set rows. margin_row_safe row))"
  by (auto simp: margin_gate_def Let_def map_filter_Nil margin_row_fault_None split: response.splits)

section \<open>Properties\<close>

text \<open>The safety check fails closed: it passes exactly when the system monitor answers with a
  status other than \<open>CRITICAL\<close>, the accounts answer shows no armed kill switch, at least one
  account is known and for each of them the incident query answers with no incident or 404, the
  gateway port is a known one, and every margin row is fresh with effective free margin above its
  floor. Any exception or other status of any query, or an answer that is a bare list, makes it
  fail, and a failed check always gives a reason.\<close>

theorem safety_check_fail_closed:
  "let g = safety_check show_gate ans in
     (passed g \<longleftrightarrow>
        (\<exists>b. monitor_answer ans = Body b \<and> overall_status b \<noteq> ''CRITICAL'') \<and>
        (\<exists>b rows. accounts_answer ans = Body b \<and> accounts_of b = Inr rows \<and>
                   (\<forall>a \<in> set rows. \<not> kill_switch_active a)) \<and>
        basket_accounts (accounts_answer2 ans) \<noteq> [] \<and>
        (\<forall>a \<in> set (basket_accounts (accounts_answer2 ans)). basket_clear (incidents_answer ans a)) \<and>
        gateway_port ans \<in> {4001, 4002, 7496, 7497} \<and>
        (\<exists>rows. margin_answer ans = Body rows \<and> (\<forall>row \<in> set rows. margin_row_safe row))) \<and>
     (\<not> passed g \<longrightarrow> failures g \<noteq> [])"
proof -
  obtain f1 v1 f2 v2 where g12: "monitor_gate (monitor_answer ans) = (f1, v1)"
      "kill_switch_gate (accounts_answer ans) = (f2, v2)"
    by (cases "monitor_gate (monitor_answer ans)"; cases "kill_switch_gate (accounts_answer ans)")
  have f: "v1 = ''SAFE'' \<Longrightarrow> f1 = []" "v2 = ''SAFE'' \<Longrightarrow> f2 = []"
    using monitor_safe_failures [of "monitor_answer ans"] kill_safe_failures [of "accounts_answer ans"] g12
    by simp_all
  have "passed (safety_check show_gate ans) \<longleftrightarrow>
      v1 = ''SAFE'' \<and> v2 = ''SAFE'' \<and>
      snd (baskets_gate (f1 @ f2) (accounts_answer2 ans) (incidents_answer ans)) = ''SAFE'' \<and>
      snd (mode_gate (gateway_port ans)) = ''SAFE'' \<and> snd (margin_gate (margin_answer ans)) = ''SAFE''"
    by (simp add: safety_check_def g12 Let_def split_beta)
  also have "\<dots> \<longleftrightarrow> v1 = ''SAFE'' \<and> v2 = ''SAFE'' \<and>
      snd (baskets_gate [] (accounts_answer2 ans) (incidents_answer ans)) = ''SAFE'' \<and>
      snd (mode_gate (gateway_port ans)) = ''SAFE'' \<and> snd (margin_gate (margin_answer ans)) = ''SAFE''"
    using f by auto
  finally have p: "passed (safety_check show_gate ans) \<longleftrightarrow> \<dots>" .
  have v: "v1 = snd (monitor_gate (monitor_answer ans))" "v2 = snd (kill_switch_gate (accounts_answer ans))"
    by (simp_all add: g12)
  have "\<not> passed (safety_check show_gate ans) \<longrightarrow> failures (safety_check show_gate ans) \<noteq> []"
    by (simp add: safety_check_def Let_def split_beta)
  then show ?thesis
    unfolding Let_def p unfolding v monitor_safe kill_safe baskets_safe mode_safe margin_safe by blast
qed

definition sample_answers :: gate_answers where
  "sample_answers =
     \<lparr>monitor_answer = Body \<lparr>overall_status = ''HEALTHY'', alerts = []\<rparr>,
      accounts_answer = Body (With_Accounts [\<lparr>row_account = Some ''DU1'', row_id = 1, kill_switch_active = False\<rparr>]),
      accounts_answer2 = Body (With_Accounts [\<lparr>row_account = Some ''DU1'', row_id = 1, kill_switch_active = False\<rparr>]),
      incidents_answer = (\<lambda>_. Body 0), gateway_port = 4002,
      margin_answer = Body [\<lparr>margin_account = Some ''DU1'', row_is_stale = False,
        row_effective = Some \<lparr>amount_text = ''100'', amount_value = Some 100\<rparr>,
        row_floor = Some \<lparr>amount_text = ''5'', amount_value = Some 5\<rparr>\<rparr>]\<rparr>"

theorem safety_check_fail_closed_witness:
  "passed (safety_check fst sample_answers) \<and>
   \<not> passed (safety_check fst (sample_answers\<lparr>margin_answer := Status 503\<rparr>))"
  using safety_check_fail_closed [of fst sample_answers]
    safety_check_fail_closed [of fst "sample_answers\<lparr>margin_answer := Status 503\<rparr>"]
  by (simp add: Let_def sample_answers_def accounts_of_def basket_accounts_def map_filter_simps
      basket_clear_def margin_row_safe_def floor_value_def)

text \<open>What the check takes for safe although nothing is known: a monitor answer without a
  status, an accounts answer without the accounts key for the kill switch gate, and a margin
  answer with no rows each give the verdict \<open>SAFE\<close>.\<close>

theorem empty_answers_are_safe:
  "snd (monitor_gate (Body \<lparr>overall_status = [], alerts = as\<rparr>)) = ''SAFE'' \<and>
   snd (kill_switch_gate (Body Without_Accounts)) = ''SAFE'' \<and>
   snd (margin_gate (Body [])) = ''SAFE''"
  by (simp add: monitor_gate_def kill_switch_gate_def accounts_of_def margin_gate_def Let_def
      map_filter_simps)

end
