(* ===== verification/Risk_Exit.thy ===== *)
theory Risk_Exit
  imports Prelude
begin

text \<open>
  \<open>services/risk_exit_rules.py\<close>: the thresholds that close a pair or an account. A time stamp is
  its wall time with an optional offset from UTC, since the code compares naive and aware stamps.
\<close>

section \<open>Data\<close>

definition EXIT_UNIT_ABSOLUTE :: string where "EXIT_UNIT_ABSOLUTE = ''ABSOLUTE''"
definition EXIT_UNIT_PERCENT :: string where "EXIT_UNIT_PERCENT = ''PERCENT''"

datatype exit_reason = PAIR_TARGET | PAIR_STOP | PAIR_TIME_LIMIT | ACCOUNT_TARGET | ACCOUNT_STOP

record stamp =
  wall :: datetime
  tz_offset :: "timedelta option"

record pair_exit_params =
  pair_target :: decimal
  pair_stop :: decimal
  time_limit :: int
  target_unit :: string
  stop_unit :: string
  opened_at :: stamp
  entry_gross_notional :: decimal

record account_risk_params =
  daily_target :: "decimal option"
  daily_stop :: "decimal option"
  daily_target_unit :: string
  daily_stop_unit :: string
  total_margin :: decimal

record exit_decision =
  exit_reason :: exit_reason
  threshold :: decimal
  exit_pnl :: decimal

section \<open>Operations\<close>

definition pair_entry_gross_notional ::
  "decimal \<Rightarrow> decimal \<Rightarrow> decimal option \<Rightarrow> decimal option \<Rightarrow> decimal" where
  "pair_entry_gross_notional leg_a_signed_qty leg_a_entry_mark leg_b_signed_qty leg_b_entry_mark =
     (let t = abs (leg_a_signed_qty * leg_a_entry_mark) in
      case (leg_b_signed_qty, leg_b_entry_mark) of
        (Some q, Some m) \<Rightarrow> t + abs (q * m)
      | _ \<Rightarrow> t)"

definition resolve_threshold :: "decimal option \<Rightarrow> string \<Rightarrow> decimal \<Rightarrow> decimal option" where
  "resolve_threshold lvl unit basis =
     (case lvl of
        None \<Rightarrow> None
      | Some v \<Rightarrow>
          (let normalized = py_upper (if unit \<noteq> [] then unit else EXIT_UNIT_ABSOLUTE) in
           if normalized = EXIT_UNIT_ABSOLUTE then Some v
           else if normalized = EXIT_UNIT_PERCENT then (if basis \<le> 0 then None else Some (v * basis))
           else None))"

text \<open>The comparison \<open>now >= opened + timedelta(seconds=limit)\<close> after the zone of one stamp has
  been copied to the other; fixed offsets.\<close>

definition stamp_reached :: "stamp \<Rightarrow> stamp \<Rightarrow> int \<Rightarrow> bool" where
  "stamp_reached opened now limit =
     (let (opened', now') =
            (case (tz_offset opened, tz_offset now) of
               (None, Some z) \<Rightarrow> (opened\<lparr>tz_offset := Some z\<rparr>, now)
             | (Some z, None) \<Rightarrow> (opened, now\<lparr>tz_offset := Some z\<rparr>)
             | _ \<Rightarrow> (opened, now));
          instant = (\<lambda>s. wall s - (case tz_offset s of None \<Rightarrow> 0 | Some z \<Rightarrow> z))
      in instant now' \<ge> instant opened' + seconds limit)"

definition evaluate_pair_exit :: "pair_exit_params \<Rightarrow> decimal \<Rightarrow> stamp \<Rightarrow> exit_decision option" where
  "evaluate_pair_exit params pnl now =
     (let stop_amt =
            resolve_threshold (Some (pair_stop params)) (stop_unit params) (entry_gross_notional params);
          target_amt =
            resolve_threshold (Some (pair_target params)) (target_unit params) (entry_gross_notional params);
          timed =
            (if time_limit params > 0 then
               (if stamp_reached (opened_at params) now (time_limit params)
                then Some \<lparr>exit_reason = PAIR_TIME_LIMIT, threshold = of_int (time_limit params), exit_pnl = pnl\<rparr>
                else None)
             else None);
          try_target =
            (case target_amt of
               Some g \<Rightarrow> if pnl \<ge> g
                         then Some \<lparr>exit_reason = PAIR_TARGET, threshold = g, exit_pnl = pnl\<rparr>
                         else timed
             | None \<Rightarrow> timed)
      in case stop_amt of
           Some s \<Rightarrow> if pnl \<le> s
                     then Some \<lparr>exit_reason = PAIR_STOP, threshold = s, exit_pnl = pnl\<rparr>
                     else try_target
         | None \<Rightarrow> try_target)"

definition evaluate_account_risk :: "account_risk_params \<Rightarrow> decimal \<Rightarrow> exit_decision option" where
  "evaluate_account_risk params session_pnl =
     (let stop_amt = resolve_threshold (daily_stop params) (daily_stop_unit params) (total_margin params);
          target_amt = resolve_threshold (daily_target params) (daily_target_unit params) (total_margin params);
          try_target =
            (case target_amt of
               Some g \<Rightarrow> if session_pnl \<ge> g
                         then Some \<lparr>exit_reason = ACCOUNT_TARGET, threshold = g, exit_pnl = session_pnl\<rparr>
                         else None
             | None \<Rightarrow> None)
      in case stop_amt of
           Some s \<Rightarrow> if session_pnl \<le> s
                     then Some \<lparr>exit_reason = ACCOUNT_STOP, threshold = s, exit_pnl = session_pnl\<rparr>
                     else try_target
         | None \<Rightarrow> try_target)"

section \<open>The contract of a profit and loss guard\<close>

text \<open>A stop level, a target level, and what is decided otherwise: the stop is looked at first.\<close>

locale pnl_guard =
  fixes stop_of target_of :: "'p \<Rightarrow> decimal option"
    and stop_reason target_reason :: exit_reason
    and decide :: "'p \<Rightarrow> 't \<Rightarrow> decimal \<Rightarrow> exit_decision option"
    and otherwise :: "'p \<Rightarrow> 't \<Rightarrow> decimal \<Rightarrow> exit_decision option"
  assumes reasons: "stop_reason \<noteq> target_reason"
    and decide_eq: "decide p t pnl =
      (if (\<exists>s. stop_of p = Some s \<and> pnl \<le> s)
       then Some \<lparr>exit_reason = stop_reason, threshold = the (stop_of p), exit_pnl = pnl\<rparr>
       else if (\<exists>g. target_of p = Some g \<and> g \<le> pnl)
       then Some \<lparr>exit_reason = target_reason, threshold = the (target_of p), exit_pnl = pnl\<rparr>
       else otherwise p t pnl)"
    and otherwise_reason: "otherwise p t pnl = Some d \<Longrightarrow>
      exit_reason d \<noteq> stop_reason \<and> exit_reason d \<noteq> target_reason"
begin

lemma stop_iff:
  "(\<exists>d. decide p t pnl = Some d \<and> exit_reason d = stop_reason) \<longleftrightarrow>
   (\<exists>s. stop_of p = Some s \<and> pnl \<le> s)"
  using reasons otherwise_reason [of p t pnl] by (auto simp: decide_eq)

lemma target_iff:
  "(\<exists>d. decide p t pnl = Some d \<and> exit_reason d = target_reason) \<longleftrightarrow>
   (\<exists>g. target_of p = Some g \<and> g \<le> pnl) \<and> \<not> (\<exists>s. stop_of p = Some s \<and> pnl \<le> s)"
  using reasons otherwise_reason [of p t pnl] by (auto simp: decide_eq)

text \<open>A stop that fires at some loss fires at every larger loss, whatever the time.\<close>

lemma stop_monotone:
  assumes "decide p t pnl = Some d" "exit_reason d = stop_reason" "pnl' \<le> pnl"
  shows "\<exists>d'. decide p t' pnl' = Some d' \<and> exit_reason d' = stop_reason"
proof -
  from assms stop_iff obtain s where "stop_of p = Some s" "pnl \<le> s" by blast
  with assms(3) stop_iff show ?thesis by (meson order_trans)
qed

text \<open>A target that fires at some gain fires at every larger gain.\<close>

lemma target_monotone:
  assumes "decide p t pnl = Some d" "exit_reason d = target_reason" "pnl \<le> pnl'"
  shows "\<exists>d'. decide p t' pnl' = Some d' \<and> exit_reason d' = target_reason"
proof -
  from assms target_iff [of p t pnl] obtain g where "target_of p = Some g" "g \<le> pnl"
      "\<not> (\<exists>s. stop_of p = Some s \<and> pnl \<le> s)" by blast
  with assms(3) target_iff [of p t' pnl'] show ?thesis by (meson order_trans)
qed

end

section \<open>Both evaluators are guards\<close>

definition pair_stop_level :: "pair_exit_params \<Rightarrow> decimal option" where
  "pair_stop_level p = resolve_threshold (Some (pair_stop p)) (stop_unit p) (entry_gross_notional p)"

definition pair_target_level :: "pair_exit_params \<Rightarrow> decimal option" where
  "pair_target_level p = resolve_threshold (Some (pair_target p)) (target_unit p) (entry_gross_notional p)"

definition pair_timer :: "pair_exit_params \<Rightarrow> stamp \<Rightarrow> decimal \<Rightarrow> exit_decision option" where
  "pair_timer p now pnl =
     (if time_limit p > 0 \<and> stamp_reached (opened_at p) now (time_limit p)
      then Some \<lparr>exit_reason = PAIR_TIME_LIMIT, threshold = of_int (time_limit p), exit_pnl = pnl\<rparr>
      else None)"

definition account_stop_level :: "account_risk_params \<Rightarrow> decimal option" where
  "account_stop_level p = resolve_threshold (daily_stop p) (daily_stop_unit p) (total_margin p)"

definition account_target_level :: "account_risk_params \<Rightarrow> decimal option" where
  "account_target_level p = resolve_threshold (daily_target p) (daily_target_unit p) (total_margin p)"

interpretation pair_guard: pnl_guard pair_stop_level pair_target_level PAIR_STOP PAIR_TARGET
  "\<lambda>p now pnl. evaluate_pair_exit p pnl now" pair_timer
  by unfold_locales
    (auto simp: evaluate_pair_exit_def pair_stop_level_def pair_target_level_def pair_timer_def Let_def
      split: option.splits if_splits)

interpretation account_guard: pnl_guard account_stop_level account_target_level ACCOUNT_STOP ACCOUNT_TARGET
  "\<lambda>p (t :: unit) pnl. evaluate_account_risk p pnl" "\<lambda>p t pnl. None"
  by unfold_locales
    (auto simp: evaluate_account_risk_def account_stop_level_def account_target_level_def Let_def
      split: option.splits if_splits)

lemma percent_units [simp]:
  "resolve_threshold (Some v) ''PERCENT'' b = (if b \<le> 0 then None else Some (v * b))"
  "resolve_threshold (Some v) ''ABSOLUTE'' b = Some v"
  "resolve_threshold None u b = None"
  by (simp_all add: resolve_threshold_def EXIT_UNIT_ABSOLUTE_def EXIT_UNIT_PERCENT_def
      py_upper_def char_upper_def char_code_def Let_def)

section \<open>Properties\<close>

text \<open>A pair is closed exactly when one of its limits is reached, with the stop first: the
  decision is a stop when the profit is at or below the resolved stop level, else a target when it
  is at or above the resolved target level, else a time limit when the timer is enabled and has run
  out, else nothing; and a stop once reached is reached at every larger loss and every time.\<close>

theorem pair_exit_decision:
  "evaluate_pair_exit p pnl now =
     (if \<exists>s. pair_stop_level p = Some s \<and> pnl \<le> s
      then Some \<lparr>exit_reason = PAIR_STOP, threshold = the (pair_stop_level p), exit_pnl = pnl\<rparr>
      else if \<exists>g. pair_target_level p = Some g \<and> g \<le> pnl
      then Some \<lparr>exit_reason = PAIR_TARGET, threshold = the (pair_target_level p), exit_pnl = pnl\<rparr>
      else if time_limit p > 0 \<and> stamp_reached (opened_at p) now (time_limit p)
      then Some \<lparr>exit_reason = PAIR_TIME_LIMIT, threshold = of_int (time_limit p), exit_pnl = pnl\<rparr>
      else None) \<and>
   (\<forall>d pnl' now'. evaluate_pair_exit p pnl now = Some d \<longrightarrow> exit_reason d = PAIR_STOP \<longrightarrow> pnl' \<le> pnl \<longrightarrow>
      (\<exists>d'. evaluate_pair_exit p pnl' now' = Some d' \<and> exit_reason d' = PAIR_STOP))"
  using pair_guard.decide_eq [of p pnl now] pair_guard.stop_monotone [of p pnl now]
  by (auto simp: pair_timer_def)

definition sample_pair :: pair_exit_params where
  "sample_pair =
     \<lparr>pair_target = 1 / 50, pair_stop = - 1 / 100, time_limit = 3600, target_unit = ''percent'',
      stop_unit = ''percent'', opened_at = \<lparr>wall = 0, tz_offset = None\<rparr>, entry_gross_notional = 10000\<rparr>"

theorem pair_exit_decision_witness:
  "(\<exists>d. evaluate_pair_exit sample_pair (- 150) \<lparr>wall = 0, tz_offset = Some 0\<rparr> = Some d \<and>
        exit_reason d = PAIR_STOP \<and> threshold d = - 100) \<and>
   (\<exists>d'. evaluate_pair_exit sample_pair (- 200) \<lparr>wall = 5, tz_offset = None\<rparr> = Some d' \<and>
        exit_reason d' = PAIR_STOP)"
proof -
  have lvl: "pair_stop_level sample_pair = Some (- 100)"
    by code_simp
  then have first: "\<exists>d. evaluate_pair_exit sample_pair (- 150) \<lparr>wall = 0, tz_offset = Some 0\<rparr> = Some d \<and>
        exit_reason d = PAIR_STOP \<and> threshold d = - 100"
    using conjunct1 [OF pair_exit_decision [of sample_pair "- 150" "\<lparr>wall = 0, tz_offset = Some 0\<rparr>"]]
    by simp
  then show ?thesis
    using conjunct2 [OF pair_exit_decision [of sample_pair "- 150" "\<lparr>wall = 0, tz_offset = Some 0\<rparr>"]]
    by fastforce
qed

text \<open>A percentage of nothing disables the profit and loss limits: for a pair whose stop and
  target are percentages and whose gross notional at entry is zero, and for an account whose total
  margin is not positive, no loss of any size fires the stop; only the pair's timer can close it.\<close>

theorem percent_of_zero_never_stops:
  assumes "stop_unit p = ''PERCENT''" "target_unit p = ''PERCENT''"
    and "entry_gross_notional p = pair_entry_gross_notional qa ma qb mb"
    and "qa * ma = 0" "qb = None \<or> mb = None \<or> the qb * the mb = 0"
    and "daily_stop_unit a = ''PERCENT''" "daily_target_unit a = ''PERCENT''" "total_margin a \<le> 0"
  shows "(\<forall>d. evaluate_pair_exit p pnl now = Some d \<longrightarrow> exit_reason d = PAIR_TIME_LIMIT) \<and>
         evaluate_account_risk a pnl = None"
proof -
  have "entry_gross_notional p = 0"
    using assms(3-5) by (auto simp: pair_entry_gross_notional_def Let_def split: option.splits)
  moreover have "daily_stop a = None \<or> (\<exists>v. daily_stop a = Some v)" "daily_target a = None \<or> (\<exists>v. daily_target a = Some v)"
    by auto
  ultimately show ?thesis
    using assms(1,2,6-8) pair_guard.decide_eq [of p pnl now]
    by (auto simp: pair_stop_level_def pair_target_level_def pair_timer_def evaluate_account_risk_def
        split: if_splits)
qed

theorem percent_of_zero_never_stops_witness:
  "evaluate_pair_exit (sample_pair\<lparr>stop_unit := ''PERCENT'', target_unit := ''PERCENT'',
       time_limit := 0, entry_gross_notional := 0\<rparr>) (- 1000000) \<lparr>wall = 0, tz_offset = None\<rparr> = None"
proof -
  let ?p = "sample_pair\<lparr>stop_unit := ''PERCENT'', target_unit := ''PERCENT'',
       time_limit := 0, entry_gross_notional := 0\<rparr>"
  let ?a = "\<lparr>daily_target = None, daily_stop = Some (-1), daily_target_unit = ''PERCENT'',
      daily_stop_unit = ''PERCENT'', total_margin = 0\<rparr> :: account_risk_params"
  have t: "\<And>d. evaluate_pair_exit ?p (- 1000000) \<lparr>wall = 0, tz_offset = None\<rparr> = Some d \<Longrightarrow>
      exit_reason d = PAIR_TIME_LIMIT"
    using percent_of_zero_never_stops [of ?p 0 0 None None ?a "- 1000000" "\<lparr>wall = 0, tz_offset = None\<rparr>"]
    by (simp add: pair_entry_gross_notional_def Let_def)
  show ?thesis
    using t by (simp add: pair_guard.decide_eq pair_stop_level_def pair_target_level_def pair_timer_def)
qed

end
