(* ===== verification/Flatten.thy ===== *)
theory Flatten
  imports Rms_Models
begin

text \<open>
  The in-process exclusion of \<open>services/flatten_inflight.py\<close> that the kill switch, the pair close
  and the broker flatten share, and the checks and the outcome of
  \<open>services/broker_flatten_service.py\<close>. The registry's asyncio lock makes each operation one
  step; the flattening tasks that use it are the processes of the step relation \<open>flatten_step\<close>.
\<close>

section \<open>Keys and the registry\<close>

datatype flatten_key = Ledger_Key int string | Broker_Key string int

definition ledger_key :: "int \<Rightarrow> string \<Rightarrow> flatten_key" where
  "ledger_key account_id trade_id = Ledger_Key account_id trade_id"

definition broker_key :: "string \<Rightarrow> int \<Rightarrow> flatten_key" where
  "broker_key ibkr_account con_id = Broker_Key (py_upper (py_strip ibkr_account)) con_id"

text \<open>\<open>list(dict.fromkeys(keys))\<close>: first occurrences, in order.\<close>

fun dict_fromkeys :: "'a list \<Rightarrow> 'a list" where
  "dict_fromkeys [] = []"
| "dict_fromkeys (x # xs) = x # filter (\<lambda>y. y \<noteq> x) (dict_fromkeys xs)"

definition flatten_try_acquire :: "'k \<Rightarrow> 'k set \<Rightarrow> bool \<times> 'k set" where
  "flatten_try_acquire key held = (if key \<in> held then (False, held) else (True, insert key held))"

definition try_acquire_many :: "'k list \<Rightarrow> 'k set \<Rightarrow> bool \<times> 'k set" where
  "try_acquire_many keys held =
     (let unique = dict_fromkeys keys in
      if unique = [] then (True, held)
      else if list_ex (\<lambda>k. k \<in> held) unique then (False, held)
      else (True, fold insert unique held))"

definition flatten_release :: "'k \<Rightarrow> 'k set \<Rightarrow> 'k set" where
  "flatten_release key held = held - {key}"

definition release_many :: "'k list \<Rightarrow> 'k set \<Rightarrow> 'k set" where
  "release_many keys held = fold (\<lambda>k h. h - {k}) (dict_fromkeys keys) held"

lemma set_dict_fromkeys [simp]: "set (dict_fromkeys xs) = set xs"
  by (induction xs) auto

lemma dict_fromkeys_Nil [simp]: "dict_fromkeys xs = [] \<longleftrightarrow> xs = []"
  by (cases xs) auto

lemma fold_insert_set: "fold insert xs s = set xs \<union> s"
  by (induction xs arbitrary: s) auto

lemma fold_remove_set: "fold (\<lambda>k h. h - {k}) xs s = s - set xs"
  by (induction xs arbitrary: s) auto

section \<open>The contract of an exclusion registry\<close>

locale exclusion =
  fixes acquire :: "'k list \<Rightarrow> 's \<Rightarrow> bool \<times> 's"
    and release :: "'k list \<Rightarrow> 's \<Rightarrow> 's"
    and holds :: "'s \<Rightarrow> 'k set"
  assumes acquire_ok: "acquire ks s = (True, s') \<Longrightarrow> set ks \<inter> holds s = {} \<and> holds s' = holds s \<union> set ks"
    and acquire_no: "acquire ks s = (False, s') \<Longrightarrow> set ks \<inter> holds s \<noteq> {} \<and> s' = s"
    and release_eq: "holds (release ks s) = holds s - set ks"
begin

text \<open>\<open>owns p\<close> are the keys process \<open>p\<close> acquired and has not released.\<close>

definition consistent :: "'s \<Rightarrow> ('p \<Rightarrow> 'k set) \<Rightarrow> bool" where
  "consistent s owns \<longleftrightarrow> holds s = (\<Union>p. owns p) \<and> (\<forall>p q. p \<noteq> q \<longrightarrow> owns p \<inter> owns q = {})"

lemma consistent_acquire:
  assumes "consistent s owns" "acquire ks s = (True, s')" "owns p = {}"
  shows "consistent s' (owns(p := set ks))"
  using acquire_ok [OF assms(2)] assms(1,3) unfolding consistent_def
  by (auto split: if_splits)

lemma consistent_release:
  assumes "consistent s owns" "owns p = set ks"
  shows "consistent (release ks s) (owns(p := {}))"
proof -
  have "(\<Union>q. (owns(p := {})) q) = (\<Union>q. owns q) - owns p"
    using assms(1) unfolding consistent_def by (fastforce split: if_splits)
  with assms release_eq [of ks s] show ?thesis
    unfolding consistent_def by simp
qed

end

interpretation flatten_registry: exclusion try_acquire_many release_many "\<lambda>held. held"
  by unfold_locales
    (auto simp: try_acquire_many_def release_many_def Let_def list_ex_iff fold_insert_set fold_remove_set
      split: if_splits)

text \<open>The single-key operations are the operations on a list of one key.\<close>

lemma single_key:
  "flatten_try_acquire k held = try_acquire_many [k] held"
  "flatten_release k held = release_many [k] held"
  by (auto simp: flatten_try_acquire_def try_acquire_many_def flatten_release_def release_many_def)

section \<open>Concurrent flattens\<close>

text \<open>A flattening task takes its keys or is refused, works, and releases the same keys in
  \<open>finally\<close>; a task that crashes the process empties the registry with everything else.\<close>

record flatten_world =
  held :: "flatten_key set"
  working :: "nat \<Rightarrow> flatten_key list option"

inductive flatten_step :: "flatten_world \<Rightarrow> flatten_world \<Rightarrow> bool" where
  enter: "\<lbrakk>working w p = None; try_acquire_many ks (held w) = (True, h)\<rbrakk> \<Longrightarrow>
     flatten_step w (w\<lparr>held := h, working := (working w)(p \<mapsto> ks)\<rparr>)"
| refused: "\<lbrakk>working w p = None; try_acquire_many ks (held w) = (False, h)\<rbrakk> \<Longrightarrow>
     flatten_step w (w\<lparr>held := h\<rparr>)"
| leave: "working w p = Some ks \<Longrightarrow>
     flatten_step w (w\<lparr>held := release_many ks (held w), working := (working w)(p := None)\<rparr>)"
| crash: "flatten_step w \<lparr>held = {}, working = (\<lambda>_. None)\<rparr>"

inductive flatten_reach :: "flatten_world \<Rightarrow> bool" where
  start: "flatten_reach \<lparr>held = {}, working = (\<lambda>_. None)\<rparr>"
| step: "flatten_reach w \<Longrightarrow> flatten_step w w' \<Longrightarrow> flatten_reach w'"

definition owned :: "flatten_world \<Rightarrow> nat \<Rightarrow> flatten_key set" where
  "owned w p = (case working w p of None \<Rightarrow> {} | Some ks \<Rightarrow> set ks)"

lemma flatten_reach_consistent:
  "flatten_reach w \<Longrightarrow> flatten_registry.consistent (held w) (owned w)"
proof (induction rule: flatten_reach.induct)
  case start
  then show ?case by (simp add: flatten_registry.consistent_def owned_def)
next
  case (step w w')
  from step.hyps(2) show ?case
  proof (cases rule: flatten_step.cases)
    case (enter p ks h)
    then have free: "owned w p = {}" by (simp add: owned_def)
    have new: "held w' = h" "owned w' = (owned w)(p := set ks)"
      by (auto simp: enter(1) owned_def fun_eq_iff)
    show ?thesis
      unfolding new by (rule flatten_registry.consistent_acquire [OF step.IH enter(3) free])
  next
    case (refused p ks h)
    then have new: "held w' = held w" "owned w' = owned w"
      using flatten_registry.acquire_no [OF refused(3)] by (auto simp: owned_def fun_eq_iff)
    show ?thesis unfolding new by (rule step.IH)
  next
    case (leave p ks)
    then have own: "owned w p = set ks" by (simp add: owned_def)
    have new: "held w' = release_many ks (held w)" "owned w' = (owned w)(p := {})"
      by (auto simp: leave(1) owned_def fun_eq_iff)
    show ?thesis
      unfolding new by (rule flatten_registry.consistent_release [OF step.IH own])
  next
    case crash
    then show ?thesis by (simp add: flatten_registry.consistent_def owned_def)
  qed
qed

text \<open>C34. In every interleaving of flattening tasks, including refused ones and crashes, two tasks
  at work never share a key, and the registry holds exactly the keys of the tasks at work: a key is
  neither lost while its task works nor left behind after it. Acquiring several keys takes all of
  them or none, and two spellings of one account and contract are the same key.\<close>

theorem flatten_exclusion:
  assumes "flatten_reach w"
  shows "(\<forall>p q ks ks'. working w p = Some ks \<longrightarrow> working w q = Some ks' \<longrightarrow> p \<noteq> q \<longrightarrow>
            set ks \<inter> set ks' = {}) \<and>
         (\<forall>k. k \<in> held w \<longleftrightarrow> (\<exists>p ks. working w p = Some ks \<and> k \<in> set ks)) \<and>
         (\<forall>ks got h. try_acquire_many ks (held w) = (got, h) \<longrightarrow>
            h = (if got then held w \<union> set ks else held w)) \<and>
         broker_key (py_lower acct) con = broker_key acct con \<and>
         broker_key (py_strip acct) con = broker_key acct con"
proof -
  have c: "held w = (\<Union>p. owned w p)" "\<And>p q. p \<noteq> q \<Longrightarrow> owned w p \<inter> owned w q = {}"
    using flatten_reach_consistent [OF assms] by (auto simp: flatten_registry.consistent_def)
  have "\<forall>p q ks ks'. working w p = Some ks \<longrightarrow> working w q = Some ks' \<longrightarrow> p \<noteq> q \<longrightarrow> set ks \<inter> set ks' = {}"
    using c(2) by (metis option.simps(5) owned_def)
  moreover have "\<forall>k. k \<in> held w \<longleftrightarrow> (\<exists>p ks. working w p = Some ks \<and> k \<in> set ks)"
    unfolding c(1) by (auto simp: owned_def split: option.splits)
  moreover have "\<forall>ks got h. try_acquire_many ks (held w) = (got, h) \<longrightarrow>
            h = (if got then held w \<union> set ks else held w)"
    using flatten_registry.acquire_ok flatten_registry.acquire_no by (metis (full_types))
  moreover have "broker_key (py_lower acct) con = broker_key acct con"
      "broker_key (py_strip acct) con = broker_key acct con"
    by (simp_all add: broker_key_def text_simps)
  ultimately show ?thesis by blast
qed

theorem flatten_exclusion_witness:
  "let k = broker_key ''DU1'' 7; w = \<lparr>held = {k}, working = [0 \<mapsto> [k]]\<rparr> in
     k \<in> held w \<longleftrightarrow> (\<exists>p ks. working w p = Some ks \<and> k \<in> set ks)"
proof -
  let ?k = "broker_key ''DU1'' 7"
  let ?w0 = "\<lparr>held = {}, working = (\<lambda>_. None)\<rparr> :: flatten_world"
  have "flatten_step ?w0 (?w0\<lparr>held := {?k}, working := (working ?w0)(0 \<mapsto> [?k])\<rparr>)"
    by (rule flatten_step.enter) (simp_all add: try_acquire_many_def)
  then have "flatten_reach \<lparr>held = {?k}, working = [0 \<mapsto> [?k]]\<rparr>"
    using flatten_reach.step [OF flatten_reach.start] by simp
  from flatten_exclusion [OF this] show ?thesis by (simp add: Let_def)
qed

section \<open>Flattening one broker line\<close>

text \<open>The persisted snapshot line, and the open ledger rows the checks look at. The ledger net of
  the symbol, computed by the reconciler, is an argument.\<close>

record snapshot_line =
  line_symbol :: string
  line_sec_type :: string
  line_signed_qty :: rat
  line_account_id :: "int option"

record ledger_row =
  ledger_account :: int
  ledger_trade :: string
  ledger_symbol_a :: "string option"
  ledger_symbol_b :: "string option"

record manual_row =
  manual_trade :: string
  manual_symbol :: string

datatype http_error = HTTPException int string

definition QTY_EPSILON :: rat where "QTY_EPSILON = 1 / 1000000"

definition norm :: "string \<Rightarrow> string" where
  "norm s = py_upper (py_strip s)"

definition norm_opt :: "string option \<Rightarrow> string" where
  "norm_opt s = norm (case s of None \<Rightarrow> [] | Some t \<Rightarrow> t)"

text \<open>The keys of a line: the contract at the broker, and every open position of the account that
  has the symbol in one of its legs.\<close>

definition flatten_keys ::
  "string \<Rightarrow> int \<Rightarrow> int option \<Rightarrow> string \<Rightarrow> ledger_row list \<Rightarrow> manual_row list \<Rightarrow> flatten_key list" where
  "flatten_keys ibkr_account con_id account_id norm_symbol open_rows manual_rows =
     broker_key ibkr_account con_id #
     (case account_id of
        None \<Rightarrow> []
      | Some aid \<Rightarrow>
          map (\<lambda>pos. ledger_key aid (ledger_trade pos))
            (filter (\<lambda>pos. ledger_account pos = aid \<and>
                norm_symbol \<in> {norm_opt (ledger_symbol_a pos), norm_opt (ledger_symbol_b pos)}) open_rows) @
          map (\<lambda>m. ledger_key aid (manual_trade m))
            (filter (\<lambda>m. norm (manual_symbol m) = norm_symbol) manual_rows))"

text \<open>\<open>_do_flatten_line\<close> up to the acquisition of the keys: a refusal, or the side, the quantity
  and the keys of the order. \<open>lookup_account\<close> is the query for the account's id.\<close>

definition flatten_plan ::
  "snapshot_line option \<Rightarrow> int option \<Rightarrow> rat option \<Rightarrow> ledger_row list \<Rightarrow> manual_row list \<Rightarrow>
   string \<Rightarrow> string \<Rightarrow> string \<Rightarrow> int \<Rightarrow> rat \<Rightarrow> http_error + (order_side \<times> rat \<times> flatten_key list)" where
  "flatten_plan snapshot lookup_account ledger_net open_rows manual_rows
                ibkr_account symbol sec_type con_id quantity =
     (case snapshot of
        None \<Rightarrow> Inl (HTTPException 404 ''Broker snapshot line not found'')
      | Some line \<Rightarrow>
          (let norm_symbol = norm symbol;
               signed_qty = line_signed_qty line;
               max_qty = abs signed_qty;
               account_id = (case line_account_id line of Some a \<Rightarrow> Some a | None \<Rightarrow> lookup_account);
               min_qty = (case account_id of
                            None \<Rightarrow> 0
                          | Some _ \<Rightarrow> (case ledger_net of None \<Rightarrow> 0 | Some n \<Rightarrow> abs n))
           in if norm (line_symbol line) \<noteq> norm_symbol then Inl (HTTPException 400 ''Symbol mismatch'')
              else if norm (line_sec_type line) \<noteq> norm sec_type then Inl (HTTPException 400 ''Sec type mismatch'')
              else if abs signed_qty \<le> QTY_EPSILON
              then Inl (HTTPException 400 ''Broker snapshot quantity is zero; nothing to flatten.'')
              else if quantity > max_qty + QTY_EPSILON
              then Inl (HTTPException 400 ''Requested quantity exceeds broker snapshot quantity'')
              else if min_qty > max_qty + QTY_EPSILON
              then Inl (HTTPException 400 ''Ledger quantity exceeds broker snapshot quantity; cannot square off this line.'')
              else if min_qty > QTY_EPSILON \<and> quantity < min_qty - QTY_EPSILON
              then Inl (HTTPException 400 ''Requested quantity is below ledger net quantity'')
              else Inr (if signed_qty > 0 then SELL else BUY, quantity,
                        flatten_keys ibkr_account con_id account_id norm_symbol open_rows manual_rows)))"

text \<open>\<open>_do_flatten_line\<close> with its keys: 409 while another task holds one of them.\<close>

definition do_flatten_line ::
  "http_error + (order_side \<times> rat \<times> flatten_key list) \<Rightarrow> flatten_key set \<Rightarrow>
   (http_error + (order_side \<times> rat \<times> flatten_key list)) \<times> flatten_key set" where
  "do_flatten_line plan held_keys =
     (case plan of
        Inl e \<Rightarrow> (Inl e, held_keys)
      | Inr (side, qty, ks) \<Rightarrow>
          (case try_acquire_many ks held_keys of
             (got, h) \<Rightarrow>
               if got then (Inr (side, qty, ks), h)
               else (Inl (HTTPException 409 ''Flatten already in progress''), h)))"

definition side_sign :: "order_side \<Rightarrow> rat" where
  "side_sign s = (if s = BUY then 1 else - 1)"

text \<open>A flatten order never turns a position over. When a request for a positive quantity is
  accepted, the order is on the side opposite to the broker's position, its quantity exceeds the
  position by at most the tolerance of one millionth, so the position after a complete fill has the
  old sign or is within the tolerance of zero; it covers the net quantity the ledger knows; and the
  keys of the contract and of every open ledger position in the symbol are held while it runs.\<close>

theorem flatten_never_overshoots:
  assumes "do_flatten_line
             (flatten_plan (Some line) acct_lookup ledger_net open_rows manual_rows
                ibkr_account symbol sec_type con_id quantity) held_keys = (Inr (side, qty, ks), held')"
    and "0 < quantity"
  shows "qty = quantity \<and> side_sign side * line_signed_qty line < 0 \<and>
         (let after = line_signed_qty line + side_sign side * qty in
            abs after < abs (line_signed_qty line) \<and> (after * line_signed_qty line \<ge> 0 \<or> abs after \<le> QTY_EPSILON)) \<and>
         (line_account_id line \<noteq> None \<longrightarrow> ledger_net = Some n \<longrightarrow> abs n - QTY_EPSILON \<le> qty) \<and>
         broker_key ibkr_account con_id \<in> held' \<and> set ks \<inter> held_keys = {} \<and> held' = held_keys \<union> set ks"
proof -
  let ?q = "line_signed_qty line"
  obtain plan where plan: "flatten_plan (Some line) acct_lookup ledger_net open_rows manual_rows
                ibkr_account symbol sec_type con_id quantity = Inr plan" "plan = (side, qty, ks)"
      "try_acquire_many ks held_keys = (True, held')"
    using assms(1) by (auto simp: do_flatten_line_def split: sum.splits prod.splits if_splits)
  have q: "qty = quantity" "side = (if ?q > 0 then SELL else BUY)" "abs ?q > QTY_EPSILON"
      "quantity \<le> abs ?q + QTY_EPSILON" "broker_key ibkr_account con_id \<in> set ks"
    using plan(1,2) by (auto simp: flatten_plan_def Let_def flatten_keys_def split: if_splits)
  have m: "line_account_id line \<noteq> None \<Longrightarrow> ledger_net = Some n \<Longrightarrow> abs n - QTY_EPSILON \<le> quantity"
    using plan(1,2) assms(2) by (auto simp: flatten_plan_def Let_def split: if_splits option.splits)
  have e: "0 < QTY_EPSILON" by (simp add: QTY_EPSILON_def)
  have pos: "?q > 0 \<and> side_sign side = -1 \<or> ?q < 0 \<and> side_sign side = 1"
    using q(2,3) e by (auto simp: side_sign_def split: if_splits)
  have after: "abs (?q + side_sign side * qty) < abs ?q \<and>
      ((?q + side_sign side * qty) * ?q \<ge> 0 \<or> abs (?q + side_sign side * qty) \<le> QTY_EPSILON)"
  proof (cases "?q > 0")
    case True
    then have "side_sign side = -1" using pos by auto
    with True q assms(2) show ?thesis
      by (cases "?q - quantity \<ge> 0") (auto simp: zero_le_mult_iff)
  next
    case False
    then have "side_sign side = 1" "?q < 0" using pos by auto
    with q assms(2) show ?thesis
      by (cases "?q + quantity \<le> 0") (auto simp: zero_le_mult_iff)
  qed
  show ?thesis
    using q m pos after flatten_registry.acquire_ok [OF plan(3)] by (auto simp: Let_def mult_less_0_iff)
qed

theorem flatten_never_overshoots_witness:
  "let line = \<lparr>line_symbol = ''AAPL'', line_sec_type = ''STK'', line_signed_qty = 10, line_account_id = Some 1\<rparr> in
   side_sign SELL * line_signed_qty line < 0 \<and>
   do_flatten_line (flatten_plan (Some line) None (Some 4) [] [] ''DU1'' '' aapl'' ''stk'' 7 5) {} =
     (Inr (SELL, 5, [broker_key ''DU1'' 7]), {broker_key ''DU1'' 7})"
proof -
  let ?line = "\<lparr>line_symbol = ''AAPL'', line_sec_type = ''STK'', line_signed_qty = 10, line_account_id = Some 1\<rparr>"
  have n: "norm '' aapl'' = ''AAPL''" "norm ''stk'' = ''STK''" "norm ''AAPL'' = ''AAPL''" "norm ''STK'' = ''STK''"
    by code_simp+
  have run: "do_flatten_line (flatten_plan (Some ?line) None (Some 4) [] [] ''DU1'' '' aapl'' ''stk'' 7 5) {} =
     (Inr (SELL, 5, [broker_key ''DU1'' 7]), {broker_key ''DU1'' 7})"
    by (simp add: do_flatten_line_def flatten_plan_def n QTY_EPSILON_def flatten_keys_def
        try_acquire_many_def Let_def)
  from flatten_never_overshoots [OF this, of 4] run show ?thesis by (simp add: Let_def)
qed

end
