(* ===== verification/Instance_Credit.thy ===== *)
theory Instance_Credit
  imports Prelude "HOL-Library.Multiset"
begin

text \<open>
  \<open>services/instance_credit/calculation.py\<close>: the monthly cost shown by the system monitor, from
  the ledger of completed days plus an estimate for the current day. Dates are compared as Python
  compares them, by year, month and day. Ledger records carry a \<open>date\<close> and a \<open>Decimal\<close> (the
  persisted types); the branches that convert text are not taken for them.
\<close>

section \<open>Dates\<close>

datatype date = Date (year_of: int) (month_of: int) (day_of: int)

instantiation date :: linorder
begin

definition less_date :: "date \<Rightarrow> date \<Rightarrow> bool" where
  "less_date a b \<longleftrightarrow>
     year_of a < year_of b \<or>
     year_of a = year_of b \<and>
       (month_of a < month_of b \<or> month_of a = month_of b \<and> day_of a < day_of b)"

definition less_eq_date :: "date \<Rightarrow> date \<Rightarrow> bool" where
  "less_eq_date a b \<longleftrightarrow> a < b \<or> a = (b :: date)"

instance
proof
  fix x y z :: date
  show "(x < y) = (x \<le> y \<and> \<not> y \<le> x)" "x \<le> x" "x \<le> y \<Longrightarrow> y \<le> z \<Longrightarrow> x \<le> z"
    "x \<le> y \<Longrightarrow> y \<le> x \<Longrightarrow> x = y" "x \<le> y \<or> y \<le> x"
    by (auto simp: less_date_def less_eq_date_def intro: date.expand)
qed

end

text \<open>\<open>(a - b).days\<close>.\<close>

definition days_between :: "date \<Rightarrow> date \<Rightarrow> int" where
  "days_between a b = ymd_ordinal (year_of a) (month_of a) (day_of a) -
                      ymd_ordinal (year_of b) (month_of b) (day_of b)"

section \<open>Operations\<close>

definition get_month_bounds :: "date \<Rightarrow> date \<times> date" where
  "get_month_bounds today = (Date (year_of today) (month_of today) 1, today)"

record ledger_record =
  usage_date :: date
  total_cost_usd :: "decimal option"
  ledger_status :: string

record credit_usage =
  month_start :: date
  month_end :: date
  actual_total :: decimal
  actual_through :: "date option"
  current_estimate :: "decimal option"
  estimate_date :: "date option"
  estimate_source_date :: "date option"
  displayed_monthly_total :: "decimal option"
  usage_is_stale :: bool
  fetched_at :: "datetime option"

text \<open>The loop over the records: running total and the latest day counted.\<close>

fun actual_loop ::
  "date \<Rightarrow> date \<Rightarrow> ledger_record list \<Rightarrow> decimal \<Rightarrow> date option \<Rightarrow> decimal \<times> date option" where
  "actual_loop start today [] tot through = (tot, through)"
| "actual_loop start today (r # rs) tot through =
     (let d = usage_date r in
      if d \<ge> start \<and> d < today then
        (case total_cost_usd r of
           None \<Rightarrow> actual_loop start today rs tot through
         | Some amt \<Rightarrow>
             actual_loop start today rs (tot + amt)
               (case through of None \<Rightarrow> Some d | Some t \<Rightarrow> if d > t then Some d else Some t))
      else actual_loop start today rs tot through)"

definition compute_credit_usage ::
  "date \<Rightarrow> ledger_record list \<Rightarrow> decimal option \<Rightarrow> date option \<Rightarrow> int \<Rightarrow> datetime option \<Rightarrow> credit_usage" where
  "compute_credit_usage today actual_records latest_actual_total latest_actual_date stale_days fetched =
     (let (start, _) = get_month_bounds today;
          (tot, through) = actual_loop start today actual_records 0 None;
          estimate = latest_actual_total
      in \<lparr>month_start = start, month_end = today, actual_total = tot, actual_through = through,
          current_estimate = estimate,
          estimate_date = (if estimate \<noteq> None then Some today else None),
          estimate_source_date = latest_actual_date,
          displayed_monthly_total =
            (case estimate of
               Some e \<Rightarrow> Some (tot + e)
             | None \<Rightarrow> if actual_records \<noteq> [] then Some tot else None),
          usage_is_stale =
            (case latest_actual_date of
               Some d \<Rightarrow> days_between today d > stale_days
             | None \<Rightarrow> actual_records = []),
          fetched_at = fetched\<rparr>)"

text \<open>\<open>f"${amount:.2f}"\<close>: \<open>Decimal\<close> formatting rounds half to even and keeps the sign.\<close>

definition round_half_even :: "rat \<Rightarrow> int" where
  "round_half_even x =
     (let f = \<lfloor>x\<rfloor>; r = x - of_int f in
      if r < 1 / 2 then f else if r > 1 / 2 then f + 1 else if even f then f else f + 1)"

definition format_usd :: "decimal option \<Rightarrow> string option" where
  "format_usd amount =
     map_option (\<lambda>a.
       let cents = nat (round_half_even (abs a * 100))
       in ''$'' @ (if a < 0 then ''-'' else []) @ nat_digits (cents div 100) @ ''.'' @
          zero_pad 2 (nat_digits (cents mod 100))) amount"

record daily_cost =
  cost_amount :: "decimal option"
  cost_status :: string
  cost_date :: date
  cost_source_date :: "date option"

definition daily_display ::
  "date \<Rightarrow> ledger_record option \<Rightarrow> decimal option \<Rightarrow> date option \<Rightarrow> daily_cost" where
  "daily_display today latest_record latest_actual_total latest_actual_date =
     (let estimate =
            \<lparr>cost_amount = latest_actual_total,
             cost_status = (if latest_actual_total \<noteq> None then ''ESTIMATE'' else ''UNAVAILABLE''),
             cost_date = today, cost_source_date = latest_actual_date\<rparr>
      in if latest_record = None \<and> latest_actual_total = None
         then \<lparr>cost_amount = None, cost_status = ''UNAVAILABLE'', cost_date = today, cost_source_date = None\<rparr>
         else (case latest_record of
             Some r \<Rightarrow>
               if usage_date r = today \<and> ledger_status r = ''ACTUAL''
               then \<lparr>cost_amount = total_cost_usd r, cost_status = ''ACTUAL'', cost_date = today,
                     cost_source_date = Some today\<rparr>
               else estimate
           | None \<Rightarrow> estimate))"

section \<open>What the loop computes\<close>

text \<open>The records of the completed days of the month that carry a cost.\<close>

definition counted :: "date \<Rightarrow> date \<Rightarrow> ledger_record \<Rightarrow> bool" where
  "counted start today r \<longleftrightarrow> start \<le> usage_date r \<and> usage_date r < today \<and> total_cost_usd r \<noteq> None"

definition month_cost :: "date \<Rightarrow> ledger_record multiset \<Rightarrow> decimal" where
  "month_cost today rs =
     (\<Sum>r \<in># filter_mset (counted (fst (get_month_bounds today)) today) rs. the (total_cost_usd r))"

lemma actual_loop_total:
  "fst (actual_loop s t rs tot through) =
     tot + (\<Sum>r \<in># filter_mset (counted s t) (mset rs). the (total_cost_usd r))"
  by (induction rs arbitrary: tot through)
    (auto simp: counted_def Let_def split: option.splits)

definition later :: "date \<Rightarrow> date option \<Rightarrow> date option" where
  "later d through = (case through of None \<Rightarrow> Some d | Some t \<Rightarrow> Some (max t d))"

lemma fold_later: "fold later ds (Some t) = Some (Max (insert t (set ds)))"
proof (induction ds arbitrary: t)
  case (Cons d ds)
  have "Max (insert (max t d) (set ds)) = Max (insert t (insert d (set ds)))"
    by (cases "set ds = {}") (simp_all add: max.assoc)
  with Cons show ?case by (simp add: later_def)
qed (simp add: later_def)

lemma actual_loop_later:
  "snd (actual_loop s t rs tot through) = fold later (map usage_date (filter (counted s t) rs)) through"
  by (induction rs arbitrary: tot through)
    (auto simp: counted_def later_def max_def Let_def split: option.splits)

lemma actual_loop_through:
  "snd (actual_loop s t rs tot None) =
     (let ds = map usage_date (filter (counted s t) rs)
      in if ds = [] then None else Some (Max (set ds)))"
  by (cases "map usage_date (filter (counted s t) rs)")
    (simp_all add: actual_loop_later Let_def fold_later, simp add: later_def fold_later)

section \<open>Properties\<close>

text \<open>The monthly figure never counts a day twice: it is the cost of the ledger records of the
  completed days of the month, whatever their order, plus the estimate, which stands for the
  current day only. A record of the current day, of a later day or of another month changes
  nothing, and the day through which actual costs are known is the latest day counted.\<close>

theorem monthly_total_counts_days_once:
  "let u = compute_credit_usage today rs est est_date stale now in
     actual_total u = month_cost today (mset rs) \<and>
     (\<forall>e. est = Some e \<longrightarrow> displayed_monthly_total u = Some (month_cost today (mset rs) + e)) \<and>
     (\<forall>r. \<not> counted (month_start u) today r \<longrightarrow>
        actual_total (compute_credit_usage today (r # rs) est est_date stale now) = actual_total u) \<and>
     actual_through u =
       (if \<forall>r \<in> set rs. \<not> counted (month_start u) today r then None
        else Some (Max {usage_date r | r. r \<in> set rs \<and> counted (month_start u) today r}))"
proof -
  let ?s = "Date (year_of today) (month_of today) 1"
  have img: "set (map usage_date (filter (counted ?s today) rs)) =
      {usage_date r | r. r \<in> set rs \<and> counted ?s today r}"
    by auto
  have "actual_total (compute_credit_usage today rs' est est_date stale now) = month_cost today (mset rs')" for rs'
    using actual_loop_total [of ?s today rs' 0 None]
    by (simp add: compute_credit_usage_def get_month_bounds_def month_cost_def split_beta)
  moreover have "\<forall>e. est = Some e \<longrightarrow>
      displayed_monthly_total (compute_credit_usage today rs est est_date stale now) =
        Some (month_cost today (mset rs) + e)"
    using actual_loop_total [of ?s today rs 0 None]
    by (simp add: compute_credit_usage_def get_month_bounds_def month_cost_def split_beta)
  moreover have ms: "month_start (compute_credit_usage today rs est est_date stale now) = ?s"
    by (simp add: compute_credit_usage_def get_month_bounds_def split_beta)
  moreover have "actual_through (compute_credit_usage today rs est est_date stale now) =
       (if \<forall>r \<in> set rs. \<not> counted ?s today r then None
        else Some (Max {usage_date r | r. r \<in> set rs \<and> counted ?s today r}))"
    using actual_loop_through [of ?s today rs 0] unfolding img [symmetric]
    by (simp add: compute_credit_usage_def get_month_bounds_def split_beta Let_def filter_empty_conv)
  ultimately show ?thesis
    unfolding Let_def by (simp add: month_cost_def get_month_bounds_def)
qed

theorem monthly_total_counts_days_once_witness:
  "displayed_monthly_total (compute_credit_usage (Date 2026 9 15)
     [\<lparr>usage_date = Date 2026 9 14, total_cost_usd = Some 5, ledger_status = ''ACTUAL''\<rparr>,
      \<lparr>usage_date = Date 2026 9 15, total_cost_usd = Some 7, ledger_status = ''ACTUAL''\<rparr>,
      \<lparr>usage_date = Date 2026 8 31, total_cost_usd = Some 9, ledger_status = ''ACTUAL''\<rparr>]
     (Some 6) None 3 None) = Some 11"
  using monthly_total_counts_days_once [of "Date 2026 9 15"
      "[\<lparr>usage_date = Date 2026 9 14, total_cost_usd = Some 5, ledger_status = ''ACTUAL''\<rparr>,
      \<lparr>usage_date = Date 2026 9 15, total_cost_usd = Some 7, ledger_status = ''ACTUAL''\<rparr>,
      \<lparr>usage_date = Date 2026 8 31, total_cost_usd = Some 9, ledger_status = ''ACTUAL''\<rparr>]"
      "Some 6" None 3 None]
  by (simp add: Let_def month_cost_def counted_def get_month_bounds_def less_date_def less_eq_date_def)

end
