(* ===== verification/Oms_Models.thy ===== *)
theory Oms_Models
  imports Rms_Models
begin

text \<open>
  The order management data of \<open>oms/models.py\<close>, \<open>oms/basket.py\<close> and
  \<open>oms/retry_policy.py\<close>: orders with their executions and time stamps, results of one account
  and of a fan-out over accounts, baskets, and the retry policy. Quantities are exact rationals,
  dictionaries that are iterated over are association lists in insertion order.
\<close>

section \<open>Orders\<close>

datatype oms_order_status =
    PENDING | SUBMITTED | PARTIALLY_FILLED | FILLED | CANCELLED | REJECTED | ERROR

record execution_timestamps =
  intent_created_at :: "datetime option"
  rms_started_at :: "datetime option"
  rms_completed_at :: "datetime option"
  oms_received_at :: "datetime option"
  ibkr_submit_started_at :: "datetime option"
  ibkr_submit_completed_at :: "datetime option"
  order_status_received_at :: "datetime option"
  execution_received_at :: "datetime option"

definition no_timestamps :: execution_timestamps where
  "no_timestamps =
     \<lparr>intent_created_at = None, rms_started_at = None, rms_completed_at = None,
      oms_received_at = None, ibkr_submit_started_at = None, ibkr_submit_completed_at = None,
      order_status_received_at = None, execution_received_at = None\<rparr>"

text \<open>Milliseconds between two stamps, when both are there.\<close>

definition latency_ms :: "datetime option \<Rightarrow> datetime option \<Rightarrow> rat option" where
  "latency_ms a b = (case (a, b) of (Some s, Some e) \<Rightarrow> Some (of_int (e - s) / 1000) | _ \<Rightarrow> None)"

definition rms_latency_ms :: "execution_timestamps \<Rightarrow> rat option" where
  "rms_latency_ms t = latency_ms (rms_started_at t) (rms_completed_at t)"

definition oms_latency_ms :: "execution_timestamps \<Rightarrow> rat option" where
  "oms_latency_ms t = latency_ms (oms_received_at t) (ibkr_submit_started_at t)"

definition ibkr_submit_latency_ms :: "execution_timestamps \<Rightarrow> rat option" where
  "ibkr_submit_latency_ms t = latency_ms (ibkr_submit_started_at t) (ibkr_submit_completed_at t)"

definition submit_to_fill_ms :: "execution_timestamps \<Rightarrow> rat option" where
  "submit_to_fill_ms t =
     latency_ms (case ibkr_submit_completed_at t of Some c \<Rightarrow> Some c | None \<Rightarrow> ibkr_submit_started_at t)
       (execution_received_at t)"

definition total_intent_to_fill_ms :: "execution_timestamps \<Rightarrow> rat option" where
  "total_intent_to_fill_ms t = latency_ms (intent_created_at t) (execution_received_at t)"

record broker_execution =
  exec_id :: string
  exec_order_id :: string
  exec_symbol :: string
  exec_side :: string
  exec_quantity :: decimal
  exec_price :: decimal
  exec_commission :: "decimal option"

text \<open>Volume weighted price and total commission over the executions of an order.\<close>

fun weighted_loop :: "broker_execution list \<Rightarrow> decimal \<Rightarrow> decimal \<Rightarrow> decimal \<times> decimal" where
  "weighted_loop [] qty notional = (qty, notional)"
| "weighted_loop (x # xs) qty notional =
     (if exec_quantity x \<le> 0 then weighted_loop xs qty notional
      else weighted_loop xs (qty + exec_quantity x) (notional + exec_quantity x * exec_price x))"

definition executions_weighted_average :: "(string \<times> broker_execution) list \<Rightarrow> decimal option" where
  "executions_weighted_average executions =
     (case weighted_loop (map snd executions) 0 0 of
        (qty, notional) \<Rightarrow> if qty \<le> 0 then None else Some (notional / qty))"

definition executions_commission_total :: "(string \<times> broker_execution) list \<Rightarrow> decimal" where
  "executions_commission_total executions =
     fold (\<lambda>x acc. case exec_commission x of None \<Rightarrow> acc | Some c \<Rightarrow> acc + c) (map snd executions) 0"

record oms_order =
  o_id :: string
  o_intent :: order_intent
  o_symbol :: string
  o_side :: "order_side option"
  o_quantity :: decimal
  o_ibkr_order_id :: "int option"
  o_status :: oms_order_status
  o_filled :: decimal
  o_remaining :: decimal
  o_average_fill_price :: "decimal option"
  o_last_fill_price :: "decimal option"
  o_commission :: "decimal option"
  o_limit_price :: "decimal option"
  o_order_type :: string
  o_error_message :: "string option"
  o_parent_signal_id :: "string option"
  o_leg_index :: "nat option"
  o_basket_id :: "int option"
  o_is_compensation :: bool
  o_compensation_of :: "string option"
  o_executions :: "(string \<times> broker_execution) list"
  o_last_exec_id :: "string option"
  o_resolved :: "resolved_instrument option"
  o_timestamps :: execution_timestamps

text \<open>Construction with the defaults of the class; \<open>__post_init__\<close> sets the remaining
  quantity of an order with nothing filled and nothing remaining.\<close>

definition new_order ::
  "string \<Rightarrow> order_intent \<Rightarrow> string \<Rightarrow> order_side option \<Rightarrow> decimal \<Rightarrow> decimal option \<Rightarrow> string \<Rightarrow>
   oms_order_status \<Rightarrow> string option \<Rightarrow> nat option \<Rightarrow> resolved_instrument option \<Rightarrow>
   execution_timestamps \<Rightarrow> oms_order" where
  "new_order oid intent symbol side quantity limit_price order_type status error_message leg_index
             resolved timestamps =
     (let o1 =
        \<lparr>o_id = oid, o_intent = intent, o_symbol = symbol, o_side = side, o_quantity = quantity,
         o_ibkr_order_id = None, o_status = status, o_filled = 0, o_remaining = 0,
         o_average_fill_price = None, o_last_fill_price = None, o_commission = None,
         o_limit_price = limit_price, o_order_type = order_type,
         o_error_message = error_message, o_parent_signal_id = Some (oi_signal_id intent),
         o_leg_index = leg_index, o_basket_id = None, o_is_compensation = False,
         o_compensation_of = None, o_executions = [], o_last_exec_id = None, o_resolved = resolved,
         o_timestamps = timestamps\<rparr>
      in if o_remaining o1 = 0 \<and> o_filled o1 = 0 then o1\<lparr>o_remaining := o_quantity o1\<rparr> else o1)"

section \<open>Results\<close>

record execution_result =
  er_order :: oms_order
  er_success :: bool
  er_error_message :: "string option"
  er_orders :: "oms_order list"

text \<open>\<open>ExecutionResult.__post_init__\<close>.\<close>

definition mk_execution_result ::
  "oms_order \<Rightarrow> bool \<Rightarrow> string option \<Rightarrow> oms_order list \<Rightarrow> execution_result" where
  "mk_execution_result order ok err orders =
     \<lparr>er_order = order, er_success = ok, er_error_message = err,
      er_orders = (if orders = [] then [order] else orders)\<rparr>"

record account_execution_outcome =
  ao_account_id :: "int option"
  ao_ibkr_account :: "string option"
  ao_result :: "execution_result option"
  ao_error :: "string option"

definition outcome_success :: "account_execution_outcome \<Rightarrow> bool" where
  "outcome_success out =
     (case ao_result out of None \<Rightarrow> False | Some r \<Rightarrow> er_success r \<and> ao_error out = None)"

definition fanout_orders :: "account_execution_outcome list \<Rightarrow> oms_order list" where
  "fanout_orders outs =
     concat (map (\<lambda>out. case ao_result out of None \<Rightarrow> [] | Some r \<Rightarrow> er_orders r) outs)"

fun fanout_order :: "account_execution_outcome list \<Rightarrow> oms_order option" where
  "fanout_order [] = None"
| "fanout_order (out # outs) =
     (case ao_result out of
        Some r \<Rightarrow> if er_orders r \<noteq> [] then Some (er_order r) else fanout_order outs
      | None \<Rightarrow> fanout_order outs)"

definition fanout_success :: "account_execution_outcome list \<Rightarrow> bool" where
  "fanout_success outs = list_ex outcome_success outs"

fun fanout_error_message :: "account_execution_outcome list \<Rightarrow> string option" where
  "fanout_error_message [] = None"
| "fanout_error_message (out # outs) =
     (case ao_error out of
        Some (c # cs) \<Rightarrow> Some (c # cs)
      | _ \<Rightarrow>
          (case ao_result out of
             Some r \<Rightarrow>
               (case er_error_message r of
                  Some (c # cs) \<Rightarrow> Some (c # cs)
                | _ \<Rightarrow> fanout_error_message outs)
           | None \<Rightarrow> fanout_error_message outs))"

definition fanout_all_rejected :: "account_execution_outcome list \<Rightarrow> bool" where
  "fanout_all_rejected outs \<longleftrightarrow> outs \<noteq> [] \<and> \<not> fanout_success outs"

definition fanout_from_single :: "execution_result \<Rightarrow> account_execution_outcome list" where
  "fanout_from_single r =
     [\<lparr>ao_account_id = oi_account_id (o_intent (er_order r)),
       ao_ibkr_account = oi_ibkr_account (o_intent (er_order r)),
       ao_result = Some r, ao_error = None\<rparr>]"

section \<open>Baskets\<close>

datatype basket_state =
    B_PENDING | B_EXECUTING | B_OPEN | B_CLOSED | B_UNWINDING | B_COMPENSATED | B_CRITICAL | B_RECOVERED

record basket =
  b_account_id :: "int option"
  b_trade_id :: string
  b_strategy_id :: string
  b_action :: order_action
  b_intended_leg_count :: nat
  b_state :: basket_state
  b_signal_pk :: "int option"
  b_recovery_status :: "string option"

record basket_execution_result =
  bx_basket :: basket
  bx_intent :: order_intent
  bx_orders :: "oms_order list"
  bx_compensation_orders :: "oms_order list"

definition basket_success :: "basket_execution_result \<Rightarrow> bool" where
  "basket_success r \<longleftrightarrow> b_state (bx_basket r) \<in> {B_OPEN, B_CLOSED}"

section \<open>Retry policy\<close>

definition PAPER_IBKR_PORTS :: "int set" where
  "PAPER_IBKR_PORTS = {7497, 4002, 4001}"

definition paper_retry_ports_allowed :: "int \<Rightarrow> bool" where
  "paper_retry_ports_allowed ibkr_port \<longleftrightarrow> ibkr_port \<in> PAPER_IBKR_PORTS"

record execution_retry_policy =
  rp_enabled :: bool
  rp_square_off_after_sec :: rat
  rp_max_retries :: int
  rp_retry_interval_sec :: rat
  rp_retry_window_sec :: rat

definition validate_policy :: "execution_retry_policy \<Rightarrow> unit result" where
  "validate_policy p =
     (if rp_square_off_after_sec p \<le> 0 then Inl (ValueError ''square_off_after_sec must be greater than 0.'')
      else if rp_max_retries p < 0 then Inl (ValueError ''max_retries must be >= 0.'')
      else if rp_retry_interval_sec p \<le> 0 then Inl (ValueError ''retry_interval_sec must be greater than 0.'')
      else if rp_retry_window_sec p \<le> 0 then Inl (ValueError ''retry_window_sec must be greater than 0.'')
      else if rp_retry_window_sec p < rp_retry_interval_sec p
      then Inl (ValueError ''retry_window_sec must be >= retry_interval_sec.'')
      else Inr ())"

definition default_paper_retry_policy :: "execution_retry_policy result" where
  "default_paper_retry_policy =
     (let policy = \<lparr>rp_enabled = True, rp_square_off_after_sec = 30, rp_max_retries = 3,
                    rp_retry_interval_sec = 5, rp_retry_window_sec = 30\<rparr>
      in res_bind (validate_policy policy) (\<lambda>_. Inr policy))"

section \<open>Facts\<close>

lemma new_order_frame [simp]:
  "o_id (new_order i n s sd q lp ot st em li r ts) = i"
  "o_side (new_order i n s sd q lp ot st em li r ts) = sd"
  "o_quantity (new_order i n s sd q lp ot st em li r ts) = q"
  "o_status (new_order i n s sd q lp ot st em li r ts) = st"
  "o_filled (new_order i n s sd q lp ot st em li r ts) = 0"
  "o_remaining (new_order i n s sd q lp ot st em li r ts) = q"
  "o_leg_index (new_order i n s sd q lp ot st em li r ts) = li"
  "o_is_compensation (new_order i n s sd q lp ot st em li r ts) = False"
  "o_symbol (new_order i n s sd q lp ot st em li r ts) = s"
  by (simp_all add: new_order_def Let_def)

text \<open>The weighted average lies between the lowest and the highest execution price.\<close>

lemma weighted_loop_bounds:
  assumes "0 \<le> q" "lo * q \<le> n" "n \<le> hi * q"
    and "\<forall>x \<in> set xs. 0 < exec_quantity x \<longrightarrow> lo \<le> exec_price x \<and> exec_price x \<le> hi"
  shows "case weighted_loop xs q n of (q', n') \<Rightarrow> 0 \<le> q' \<and> lo * q' \<le> n' \<and> n' \<le> hi * q'"
  using assms
proof (induction xs arbitrary: q n)
  case (Cons x xs)
  show ?case
  proof (cases "exec_quantity x \<le> 0")
    case True
    with Cons show ?thesis by simp
  next
    case False
    then have x: "0 < exec_quantity x" "lo \<le> exec_price x" "exec_price x \<le> hi"
      using Cons.prems(4) by auto
    have "lo * exec_quantity x \<le> exec_quantity x * exec_price x"
         "exec_quantity x * exec_price x \<le> hi * exec_quantity x"
      using x by (simp_all add: mult.commute mult_left_mono mult_right_mono)
    then have "lo * (q + exec_quantity x) \<le> n + exec_quantity x * exec_price x"
        "n + exec_quantity x * exec_price x \<le> hi * (q + exec_quantity x)"
      using Cons.prems(2,3) unfolding distrib_left by linarith+
    from Cons.IH [OF _ this] Cons.prems(1,4) x False show ?thesis by simp
  qed
qed simp

lemma weighted_average_bounds:
  assumes "executions_weighted_average xs = Some p"
    and "\<forall>x \<in> snd ` set xs. 0 < exec_quantity x \<longrightarrow> lo \<le> exec_price x \<and> exec_price x \<le> hi"
  shows "lo \<le> p \<and> p \<le> hi"
proof -
  obtain q n where w: "weighted_loop (map snd xs) 0 0 = (q, n)" by fastforce
  with assms(1) have q: "q > 0" "p = n / q"
    by (auto simp: executions_weighted_average_def split: if_splits)
  have "lo * q \<le> n \<and> n \<le> hi * q"
    using weighted_loop_bounds [of 0 lo 0 hi "map snd xs"] w assms(2) by simp
  with q show ?thesis by (simp add: pos_le_divide_eq pos_divide_le_eq)
qed

end
