(* ===== verification/Oms_Service.thy ===== *)
theory Oms_Service
  imports Oms_Models
begin

text \<open>
  \<open>oms/oms_service.py\<close>: from an intent that passed the risk checks to one broker order per leg.
  The broker adapter and the instrument resolver are the fields of \<open>oms_env\<close>: the \<open>n\<close>-th
  interaction with the outside world sees the answer of step \<open>n\<close>, and \<open>settle n\<close> is what the
  broker has made of an order by then (orders are objects that callbacks update in place). Signals
  already submitted are kept as \<open>account:signal\<close> texts, orders by their internal id.
\<close>

section \<open>Environment and state\<close>

record oms_env =
  resolve :: "order_leg \<Rightarrow> string option \<Rightarrow> string + resolved_instrument"
  place :: "nat \<Rightarrow> oms_order \<Rightarrow> string + oms_order"
  settle :: "nat \<Rightarrow> oms_order \<Rightarrow> oms_order"
  cancel_ok :: "nat \<Rightarrow> oms_order \<Rightarrow> bool"
  utc_now :: "nat \<Rightarrow> datetime"

record oms =
  io_step :: nat
  tracked :: "string \<rightharpoonup> oms_order"
  submitted_signals :: "string set"

definition tick :: "('a oms_scheme) \<Rightarrow> ('a oms_scheme)" where
  "tick s = s\<lparr>io_step := io_step s + 1\<rparr>"

section \<open>Identifiers and prices\<close>

definition account_text :: "int option \<Rightarrow> string" where
  "account_text a = (case a of None \<Rightarrow> ''None'' | Some n \<Rightarrow> int_text n)"

definition submission_key :: "order_intent \<Rightarrow> string" where
  "submission_key intent = account_text (oi_account_id intent) @ '':'' @ oi_signal_id intent"

definition leg_order_id ::
  "string \<Rightarrow> nat \<Rightarrow> nat \<Rightarrow> string option \<Rightarrow> int option \<Rightarrow> string" where
  "leg_order_id signal_id index leg_count override_internal_id account_id =
     (let prefix = (case account_id of None \<Rightarrow> [] | Some a \<Rightarrow> int_text a @ ''-'') in
      case override_internal_id of
        Some oid \<Rightarrow> if leg_count = 1 then oid else oid @ ''-L'' @ nat_digits index
      | None \<Rightarrow>
          if leg_count = 1 then ''ORD-'' @ prefix @ signal_id
          else ''ORD-'' @ prefix @ signal_id @ ''-L'' @ nat_digits index)"

definition leg_limit_price :: "order_leg \<Rightarrow> decimal option \<Rightarrow> nat \<Rightarrow> decimal option" where
  "leg_limit_price leg limit_price leg_count =
     (if limit_price \<noteq> None \<and> leg_count = 1 then limit_price else Some (leg_price leg))"

definition order_stamps :: "order_intent \<Rightarrow> rms_result \<Rightarrow> datetime \<Rightarrow> execution_timestamps" where
  "order_stamps intent rms received =
     no_timestamps\<lparr>intent_created_at := Some (oi_timestamp intent),
       rms_started_at := Some (rr_timestamp rms), rms_completed_at := Some (rr_timestamp rms),
       oms_received_at := Some received\<rparr>"

definition track :: "oms_order \<Rightarrow> 'a oms_scheme \<Rightarrow> 'a oms_scheme" where
  "track order s = s\<lparr>tracked := (tracked s)(o_id order \<mapsto> order)\<rparr>"

section \<open>Submitting a leg\<close>

definition submit_leg ::
  "oms_env \<Rightarrow> order_intent \<Rightarrow> rms_result \<Rightarrow> nat \<Rightarrow> datetime \<Rightarrow> string option \<Rightarrow> decimal option \<Rightarrow>
   string \<Rightarrow> 'a oms_scheme \<Rightarrow> oms_order result \<times> 'a oms_scheme" where
  "submit_leg env intent rms index received override_internal_id limit_price order_type s =
     (if index \<ge> length (oi_legs intent) then (Inl IndexError, s)
      else
        (let leg = oi_legs intent ! index;
             leg_count = length (oi_legs intent);
             oid = leg_order_id (oi_signal_id intent) index leg_count override_internal_id (oi_account_id intent);
             price = leg_limit_price leg limit_price leg_count;
             stamps = order_stamps intent rms received;
             market = (case oi_market intent of
                         Some (c # cs) \<Rightarrow> Some (c # cs)
                       | _ \<Rightarrow> leg_exchange leg);
             resolved = (case leg_resolved leg of Some r \<Rightarrow> Inr r | None \<Rightarrow> resolve env leg market)
         in case resolved of
              Inl exc \<Rightarrow>
                (let order = new_order oid intent (leg_symbol leg) (Some (leg_side leg)) (leg_quantity leg)
                               price order_type REJECTED (Some exc) (Some index) None stamps
                 in (Inr order, track order s))
            | Inr r \<Rightarrow>
                (let order = new_order oid intent (leg_symbol leg) (Some (leg_side leg)) (leg_quantity leg)
                               price order_type PENDING None (Some index) (Some r) stamps;
                     s1 = track order s
                 in case place env (io_step s1) order of
                      Inr placed \<Rightarrow> (Inr placed, tick (s1\<lparr>tracked := (tracked s1)(oid \<mapsto> placed)\<rparr>))
                    | Inl exc \<Rightarrow>
                        (let failed = order\<lparr>o_status := ERROR, o_error_message := Some exc\<rparr>
                         in (Inr failed, tick (s1\<lparr>tracked := (tracked s1)(oid \<mapsto> failed)\<rparr>))))))"

definition submit_one_leg ::
  "oms_env \<Rightarrow> order_intent \<Rightarrow> rms_result \<Rightarrow> nat \<Rightarrow> datetime \<Rightarrow> string \<Rightarrow> 'a oms_scheme \<Rightarrow>
   oms_order result \<times> 'a oms_scheme" where
  "submit_one_leg env intent rms index received order_type s =
     (let key = submission_key intent in
      if key \<notin> submitted_signals s \<and> rr_outcome rms \<noteq> PASS
      then (Inl (ValueError ''RMS must PASS before submitting a basket leg.''), s)
      else
        (let s1 = s\<lparr>submitted_signals := insert key (submitted_signals s)\<rparr> in
         if index \<ge> length (oi_legs intent) then (Inl IndexError, s1)
         else submit_leg env intent rms index received None None order_type s1))"

section \<open>Submitting an intent\<close>

definition create_rejected_order ::
  "order_intent \<Rightarrow> string \<Rightarrow> datetime \<Rightarrow> string option \<Rightarrow> oms_order" where
  "create_rejected_order intent reason received override_internal_id =
     (let primary = (case oi_legs intent of [] \<Rightarrow> None | leg # _ \<Rightarrow> Some leg);
          oid = (case override_internal_id of
                   Some (c # cs) \<Rightarrow> c # cs
                 | _ \<Rightarrow> ''ORD-REJ-'' @ oi_signal_id intent)
      in new_order oid intent
           (case primary of Some leg \<Rightarrow> leg_symbol leg | None \<Rightarrow> ''UNKNOWN'')
           (map_option leg_side primary)
           (case primary of Some leg \<Rightarrow> leg_quantity leg | None \<Rightarrow> 0)
           None ''LIMIT'' REJECTED (Some reason) (case primary of Some _ \<Rightarrow> Some 0 | None \<Rightarrow> None) None
           (no_timestamps\<lparr>intent_created_at := Some (oi_timestamp intent), oms_received_at := Some received\<rparr>))"

text \<open>The loop over the legs: an exception of one leg is remembered and the next leg tried.\<close>

fun submit_all ::
  "oms_env \<Rightarrow> order_intent \<Rightarrow> rms_result \<Rightarrow> datetime \<Rightarrow> string option \<Rightarrow> decimal option \<Rightarrow> string \<Rightarrow>
   nat list \<Rightarrow> oms_order list \<Rightarrow> string option \<Rightarrow> 'a oms_scheme \<Rightarrow>
   (oms_order list \<times> string option) \<times> 'a oms_scheme" where
  "submit_all env intent rms received ovr lp otype [] acc err s = ((acc, err), s)"
| "submit_all env intent rms received ovr lp otype (i # is) acc err s =
     (case submit_leg env intent rms i received ovr lp otype s of
        (Inl e, s1) \<Rightarrow>
          submit_all env intent rms received ovr lp otype is acc
            (case err of Some m \<Rightarrow> Some m | None \<Rightarrow> Some ''leg submission failed'') s1
      | (Inr order, s1) \<Rightarrow>
          submit_all env intent rms received ovr lp otype is (acc @ [order])
            (if o_status order \<in> {REJECTED, ERROR}
             then (case err of Some m \<Rightarrow> Some m | None \<Rightarrow> o_error_message order) else err) s1)"

definition submit_intent ::
  "oms_env \<Rightarrow> order_intent \<Rightarrow> rms_result \<Rightarrow> string option \<Rightarrow> decimal option \<Rightarrow> string \<Rightarrow> 'a oms_scheme \<Rightarrow>
   execution_result \<times> 'a oms_scheme" where
  "submit_intent env intent rms override_internal_id limit_price order_type s =
     (let received = utc_now env (io_step s);
          refuse = (\<lambda>reason err st.
            let order = create_rejected_order intent reason received override_internal_id
            in (mk_execution_result order False err [order], track order st));
          key = submission_key intent;
          dup = ''Duplicate intent submission attempt for signal_id: '' @ oi_signal_id intent;
          none = ''OrderIntent '' @ oi_signal_id intent @ '' has no legs.''
      in if rr_outcome rms \<noteq> PASS then
           refuse ''RMS check failed'' (Some ''RMS check failed'') s
         else if key \<in> submitted_signals s then refuse dup (Some dup) s
         else if oi_legs intent = [] then refuse none (Some none) s
         else
           (let s1 = s\<lparr>submitted_signals := insert key (submitted_signals s)\<rparr> in
            case submit_all env intent rms received override_internal_id limit_price order_type
                   [0..<length (oi_legs intent)] [] None s1 of
              ((submitted, first_error), s2) \<Rightarrow>
                (case submitted of
                   [] \<Rightarrow>
                     (let reason = (case first_error of Some m \<Rightarrow> m | None \<Rightarrow> ''No legs submitted'')
                      in refuse reason (Some reason) s2)
                 | order # _ \<Rightarrow>
                     (mk_execution_result order
                        (first_error = None \<and> list_all (\<lambda>x. o_status x \<notin> {REJECTED, ERROR}) submitted)
                        first_error submitted, s2))))"

section \<open>Cancelling\<close>

definition cancel_order :: "oms_env \<Rightarrow> string \<Rightarrow> 'a oms_scheme \<Rightarrow> unit result \<times> 'a oms_scheme" where
  "cancel_order env oid s =
     (case tracked s oid of
        None \<Rightarrow> (Inl (ValueError ''Order not found.''), s)
      | Some order \<Rightarrow>
          if cancel_ok env (io_step s) order then (Inr (), tick s)
          else (Inl (RuntimeError ''cancel failed''), tick s))"

end
