(* ===== verification/Coordinator.thy ===== *)
theory Coordinator
  imports Oms_Service Rms_Engine
begin

text \<open>
  \<open>oms/coordinator.py\<close>: the basket coordinator that submits the legs of one account's intent,
  waits for fills, retries the remainder, and unwinds what was filled when the basket stays
  incomplete.

  Order objects are updated in place by broker callbacks whenever the coroutine awaits. The model
  keeps orders as values and applies \<open>settle n\<close> of the environment to all of them at the await
  points, so that every decision sees fills that arrived in the meantime. Positions in a list stand
  for object identity. Clock readings, the kill switch and the risk context are those of the
  environment at the current step. Rows and events that the code writes to the database are lists
  of the state; failures of the database itself are left out.
\<close>

section \<open>Environment and state\<close>

record coord_env =
  base :: oms_env
  attach :: "order_intent \<Rightarrow> string + order_intent"
  kill_active :: "nat \<Rightarrow> int \<Rightarrow> bool"
  monotonic :: "nat \<Rightarrow> rat"
  rms_ctx :: "nat \<Rightarrow> rms_context"

record coordinator = oms +
  retry_policy :: "execution_retry_policy option"
  fill_timeout :: rat
  paper_retries_allowed :: bool
  rms_wired :: bool
  retry_ids :: "string set"
  critical :: "(int \<times> string) set"
  saved_baskets :: "basket list"
  events :: "string list"
  scheduled :: "(int \<times> string \<times> order_action \<times> string) list"

definition FILL_EPS :: decimal where
  "FILL_EPS = 1 / 100000000"

definition settle_all :: "coord_env \<Rightarrow> oms_order list \<Rightarrow> coordinator \<Rightarrow> oms_order list \<times> coordinator" where
  "settle_all env orders s = (map (settle (base env) (io_step s)) orders, tick s)"

section \<open>Decisions on orders\<close>

definition is_disconnect_parked :: "oms_order \<Rightarrow> bool" where
  "is_disconnect_parked order \<longleftrightarrow>
     o_status order = ERROR \<and>
     py_startswith (case o_error_message order of None \<Rightarrow> [] | Some m \<Rightarrow> m) ''Connection closed''"

definition is_wait_terminal :: "oms_order \<Rightarrow> bool" where
  "is_wait_terminal order \<longleftrightarrow>
     o_status order \<in> {FILLED, CANCELLED, REJECTED} \<or>
     o_status order = ERROR \<and> \<not> is_disconnect_parked order"

definition persist_signal_identity :: "string \<Rightarrow> string \<times> string" where
  "persist_signal_identity signal_id =
     (let persist_id = py_before '':UNWIND:'' (py_before '':RETRY:'' signal_id)
      in (py_before '':CLOSE'' persist_id, persist_id))"

definition filled_qty_for_leg :: "nat \<Rightarrow> oms_order list \<Rightarrow> decimal" where
  "filled_qty_for_leg index orders =
     sum_list (map o_filled (filter (\<lambda>x. o_leg_index x = Some index \<and> \<not> o_is_compensation x) orders))"

definition basket_complete :: "order_intent \<Rightarrow> oms_order list \<Rightarrow> bool" where
  "basket_complete intent orders =
     list_all (\<lambda>i. \<not> filled_qty_for_leg i orders + FILL_EPS < leg_quantity (oi_legs intent ! i))
       [0..<length (oi_legs intent)]"

definition compensation_complete :: "oms_order list \<Rightarrow> oms_order list \<Rightarrow> bool" where
  "compensation_complete orders submitted =
     (if orders = []
      then \<not> list_ex (\<lambda>x. \<not> o_is_compensation x \<and> o_filled x > FILL_EPS) submitted
      else list_all (\<lambda>x. o_status x = FILLED \<and> o_filled x + FILL_EPS \<ge> o_quantity x) orders)"

section \<open>The latch on new positions\<close>

definition is_open_blocked :: "int option \<Rightarrow> string \<Rightarrow> coordinator \<Rightarrow> bool" where
  "is_open_blocked account_id strategy_id s =
     (case account_id of None \<Rightarrow> False | Some a \<Rightarrow> (a, strategy_id) \<in> critical s)"

definition mark_critical :: "int option \<Rightarrow> string \<Rightarrow> coordinator \<Rightarrow> coordinator" where
  "mark_critical account_id strategy_id s =
     (case account_id of None \<Rightarrow> s | Some a \<Rightarrow> s\<lparr>critical := insert (a, strategy_id) (critical s)\<rparr>)"

text \<open>\<open>clear_critical\<close>: the row update and the remaining critical rows come from the database.\<close>

definition clear_critical :: "bool \<Rightarrow> bool \<Rightarrow> int \<Rightarrow> string \<Rightarrow> coordinator \<Rightarrow> bool \<times> coordinator" where
  "clear_critical row_found still_critical account_id strategy_id s =
     (if \<not> row_found then (False, s)
      else
        (True,
         (if \<not> still_critical then s\<lparr>critical := critical s - {(account_id, strategy_id)}\<rparr> else s)
           \<lparr>events := events s @ [''BASKET_CRITICAL_CLEARED'']\<rparr>))"

definition apply_retry_policy ::
  "execution_retry_policy \<Rightarrow> bool \<Rightarrow> coordinator \<Rightarrow> unit result \<times> coordinator" where
  "apply_retry_policy policy paper s =
     (case validate_policy policy of
        Inl e \<Rightarrow> (Inl e, s)
      | Inr _ \<Rightarrow>
          (Inr (), s\<lparr>retry_policy := Some policy, fill_timeout := rp_square_off_after_sec policy,
                     paper_retries_allowed := paper\<rparr>))"

definition hydrate_critical_from_db :: "(int \<times> string) list \<Rightarrow> coordinator \<Rightarrow> coordinator" where
  "hydrate_critical_from_db rows s = s\<lparr>critical := fold insert rows (critical s)\<rparr>"

section \<open>Rows, events and the critical exit\<close>

definition save_basket :: "basket \<Rightarrow> coordinator \<Rightarrow> coordinator" where
  "save_basket b s = (if b_account_id b = None then s else s\<lparr>saved_baskets := saved_baskets s @ [b]\<rparr>)"

definition log_event :: "string \<Rightarrow> coordinator \<Rightarrow> coordinator" where
  "log_event kind s = s\<lparr>events := events s @ [kind]\<rparr>"

definition fail_critical :: "basket \<Rightarrow> order_intent \<Rightarrow> coordinator \<Rightarrow> basket \<times> coordinator" where
  "fail_critical b intent s =
     (let b1 = b\<lparr>b_state := B_CRITICAL, b_recovery_status := Some ''RECOVERING''\<rparr>;
          s1 = mark_critical (oi_account_id intent) (oi_strategy_id intent) s;
          s2 = log_event ''BASKET_CRITICAL'' (save_basket b1 s1)
      in (b1, case oi_account_id intent of
                None \<Rightarrow> s2
              | Some a \<Rightarrow> s2\<lparr>scheduled := scheduled s2 @
                            [(a, oi_signal_id intent, b_action b, oi_strategy_id intent)]\<rparr>))"

section \<open>Cancelling working orders\<close>

fun cancel_loop ::
  "coord_env \<Rightarrow> string list \<Rightarrow> oms_order list \<Rightarrow> coordinator \<Rightarrow> bool \<times> oms_order list \<times> coordinator" where
  "cancel_loop env [] orders s = (True, orders, s)"
| "cancel_loop env (oid # oids) orders s =
     (case cancel_order (base env) oid s of
        (Inl e, s1) \<Rightarrow> (False, orders, s1)
      | (Inr _, s1) \<Rightarrow>
          (case settle_all env orders s1 of (orders', s2) \<Rightarrow> cancel_loop env oids orders' s2))"

text \<open>Cancel every order that is not terminal and wait: whether all of those ended.\<close>

definition cancel_working ::
  "coord_env \<Rightarrow> oms_order list \<Rightarrow> coordinator \<Rightarrow> bool \<times> oms_order list \<times> coordinator" where
  "cancel_working env orders s =
     (let working = map (\<lambda>x. \<not> is_wait_terminal x) orders;
          oids = map o_id (filter (\<lambda>x. \<not> is_wait_terminal x) orders)
      in case cancel_loop env oids orders s of
           (ok, orders1, s1) \<Rightarrow>
             if \<not> ok then (False, orders1, s1)
             else
               (case settle_all env orders1 s1 of
                  (orders2, s2) \<Rightarrow>
                    (list_all2 (\<lambda>was_working x. was_working \<longrightarrow> is_wait_terminal x) working orders2,
                     orders2, s2)))"

section \<open>Retrying the remainder\<close>

definition retries_enabled :: "coordinator \<Rightarrow> bool" where
  "retries_enabled s =
     (case retry_policy s of
        None \<Rightarrow> False
      | Some policy \<Rightarrow>
          rp_enabled policy \<and> rp_max_retries policy > 0 \<and> paper_retries_allowed s \<and> rms_wired s)"

definition retry_intent ::
  "order_intent \<Rightarrow> order_leg \<Rightarrow> decimal \<Rightarrow> nat \<Rightarrow> nat \<Rightarrow> datetime \<Rightarrow> order_intent" where
  "retry_intent original orig_leg remaining index attempt now =
     original\<lparr>oi_signal_id := oi_signal_id original @ '':RETRY:L'' @ nat_digits index @ '':'' @ nat_digits attempt,
       oi_legs := [orig_leg\<lparr>leg_quantity := remaining, leg_notional := Some (remaining * leg_price orig_leg),
                            leg_leg_index := Some (int index)\<rparr>],
       oi_timestamp := now,
       oi_intent_mode :=
         (if oi_intent_mode original = EMERGENCY_FLATTEN \<or> oi_action original = CLOSE
          then EMERGENCY_FLATTEN else oi_intent_mode original)\<rparr>"

definition retry_key :: "order_intent \<Rightarrow> nat \<Rightarrow> nat \<Rightarrow> string" where
  "retry_key intent index attempt =
     account_text (oi_account_id intent) @ '':'' @ oi_signal_id intent @ '':'' @
     nat_digits index @ '':'' @ nat_digits attempt"

text \<open>One round over the legs. The pool is \<open>submitted + created\<close>; \<open>blocked\<close> are the legs the
  risk engine refused before.\<close>

fun retry_legs ::
  "coord_env \<Rightarrow> order_intent \<Rightarrow> string \<Rightarrow> nat \<Rightarrow> nat list \<Rightarrow> oms_order list \<Rightarrow> nat set \<Rightarrow> coordinator \<Rightarrow>
   (oms_order list \<times> nat set) result \<times> coordinator" where
  "retry_legs env intent otype attempt [] pool blocked s = (Inr (pool, blocked), s)"
| "retry_legs env intent otype attempt (index # rest) pool blocked s =
     (let orig_leg = oi_legs intent ! index;
          remaining = leg_quantity orig_leg - filled_qty_for_leg index pool;
          key = retry_key intent index attempt
      in if index \<in> blocked \<or> remaining \<le> FILL_EPS \<or> key \<in> retry_ids s
         then retry_legs env intent otype attempt rest pool blocked s
         else
           (let s1 = s\<lparr>retry_ids := insert key (retry_ids s)\<rparr>;
                now = utc_now (base env) (io_step s1);
                ri = retry_intent intent orig_leg remaining index attempt now
            in case evaluate get_default_checks now now ri (rms_ctx env (io_step s1)) of
                 Inl e \<Rightarrow> (Inl e, s1)
               | Inr rms \<Rightarrow>
                   if rr_outcome rms \<noteq> PASS then
                     (case settle_all env pool (log_event ''AUTO_SQUARE_OFF_RETRY_BLOCKED'' s1) of
                        (pool1, s2) \<Rightarrow>
                          retry_legs env intent otype attempt rest pool1 (insert index blocked) s2)
                   else
                     (case submit_one_leg (base env) ri rms 0 now otype s1 of
                        (Inl e, s2) \<Rightarrow> retry_legs env intent otype attempt rest pool blocked s2
                      | (Inr order, s2) \<Rightarrow>
                          (case settle_all env (pool @ [order\<lparr>o_leg_index := Some index\<rparr>])
                                  (log_event ''AUTO_SQUARE_OFF_RETRY'' s2) of
                             (pool1, s3) \<Rightarrow> retry_legs env intent otype attempt rest pool1 blocked s3))))"

text \<open>The loop over attempts; the first argument counts the attempts that are left.\<close>

fun retry_loop ::
  "nat \<Rightarrow> coord_env \<Rightarrow> execution_retry_policy \<Rightarrow> rat \<Rightarrow> order_intent \<Rightarrow> string \<Rightarrow> nat \<Rightarrow> oms_order list \<Rightarrow>
   nat set \<Rightarrow> coordinator \<Rightarrow> oms_order list result \<times> coordinator" where
  "retry_loop 0 env policy started intent otype attempt pool blocked s = (Inr pool, s)"
| "retry_loop (Suc left) env policy started intent otype attempt pool blocked s =
     (if monotonic env (io_step s) - started \<ge> rp_retry_window_sec policy \<or> basket_complete intent pool
      then (Inr pool, s)
      else
        (case (if attempt > 0 then cancel_working env pool s else (True, pool, s)) of
           (cancelled, pool1, s1) \<Rightarrow>
             if \<not> cancelled then (Inr pool1, s1)
             else
               (case (if attempt > 0 then settle_all env pool1 s1 else (pool1, s1)) of
                  (pool2, s2) \<Rightarrow>
                    if attempt > 0 \<and> monotonic env (io_step s2) - started \<ge> rp_retry_window_sec policy
                    then (Inr pool2, s2)
                    else
                      (case retry_legs env intent otype (attempt + 1) [0..<length (oi_legs intent)]
                              pool2 blocked s2 of
                         (Inl e, s3) \<Rightarrow> (Inl e, s3)
                       | (Inr (pool3, blocked'), s3) \<Rightarrow>
                           (case (if length pool3 > length pool2 then settle_all env pool3 s3
                                  else (pool3, s3)) of
                              (pool4, s4) \<Rightarrow>
                                retry_loop left env policy started intent otype (attempt + 1)
                                  pool4 blocked' s4)))))"

definition open_killed :: "coord_env \<Rightarrow> order_intent \<Rightarrow> coordinator \<Rightarrow> bool" where
  "open_killed env intent s =
     (oi_action intent = OPEN \<and>
      (case oi_account_id intent of None \<Rightarrow> False | Some a \<Rightarrow> kill_active env (io_step s) a))"

text \<open>\<open>_retry_incomplete\<close>, returning \<open>submitted + created\<close>.\<close>

definition retry_incomplete ::
  "coord_env \<Rightarrow> order_intent \<Rightarrow> oms_order list \<Rightarrow> string \<Rightarrow> coordinator \<Rightarrow> oms_order list result \<times> coordinator"
  where
  "retry_incomplete env intent submitted otype s =
     (if open_killed env intent s \<or> \<not> retries_enabled s then (Inr submitted, s)
      else
        (case cancel_working env submitted s of
           (cancelled, submitted1, s1) \<Rightarrow>
             if \<not> cancelled then (Inr submitted1, s1)
             else
               (case retry_policy s1 of
                  None \<Rightarrow> (Inr submitted1, s1)
                | Some policy \<Rightarrow>
                    retry_loop (nat (rp_max_retries policy)) env policy (monotonic env (io_step s1))
                      intent otype 0 submitted1 {} s1)))"

section \<open>Unwinding what was filled\<close>

definition reverse_side :: "order_side \<Rightarrow> order_side" where
  "reverse_side sd = (if sd = BUY then SELL else BUY)"

definition compensation_intent :: "order_intent \<Rightarrow> nat \<Rightarrow> decimal \<Rightarrow> datetime \<Rightarrow> order_intent" where
  "compensation_intent original index cum_filled now =
     (let leg = oi_legs original ! index in
      \<lparr>oi_signal_id = oi_signal_id original @ '':UNWIND:L'' @ nat_digits index,
       oi_strategy_id = oi_strategy_id original, oi_action = CLOSE,
       oi_legs =
         [\<lparr>leg_symbol = leg_symbol leg, leg_side = reverse_side (leg_side leg), leg_quantity = cum_filled,
           leg_price = leg_price leg, leg_contract_month = leg_contract_month leg,
           leg_con_id = leg_con_id leg, leg_notional = None,
           leg_instrument_type = leg_instrument_type leg, leg_weight = None,
           leg_leg_index = Some (int index), leg_metadata = None, leg_exchange = leg_exchange leg,
           leg_currency = leg_currency leg, leg_resolved = leg_resolved leg\<rparr>],
       oi_account_id = oi_account_id original, oi_ibkr_account = oi_ibkr_account original,
       oi_market = oi_market original, oi_timestamp = now, oi_intent_mode = MODE_OPEN\<rparr>)"

definition pass_rms :: "order_intent \<Rightarrow> datetime \<Rightarrow> rms_result" where
  "pass_rms intent now =
     \<lparr>rr_outcome = PASS, rr_intent = intent, rr_original_intent = intent, rr_check_number = None,
      rr_reason = None, rr_check_results = [], rr_timestamp = now\<rparr>"

definition compensation_of :: "nat \<Rightarrow> oms_order list \<Rightarrow> string" where
  "compensation_of index submitted =
     (case filter (\<lambda>x. o_leg_index x = Some index \<and> \<not> o_is_compensation x) submitted of
        x # _ \<Rightarrow> o_id x
      | [] \<Rightarrow> ''cumulative:L'' @ nat_digits index)"

text \<open>The children of one compensation intent; a refused child raises.\<close>

fun comp_children ::
  "coord_env \<Rightarrow> nat \<Rightarrow> string \<Rightarrow> oms_order list \<Rightarrow> oms_order list \<Rightarrow> oms_order list \<Rightarrow> coordinator \<Rightarrow>
   (oms_order list result \<times> oms_order list) \<times> coordinator" where
  "comp_children env index comp_of [] submitted created s = ((Inr created, submitted), s)"
| "comp_children env index comp_of (child # children) submitted created s =
     (let child' = child\<lparr>o_leg_index := Some index, o_is_compensation := True, o_compensation_of := Some comp_of\<rparr>;
          s1 = log_event ''COMPENSATION'' s;
          n = io_step s1;
          created1 = map (settle (base env) n) (created @ [child']);
          submitted1 = map (settle (base env) n) submitted;
          s2 = tick s1
      in if o_status (last created1) \<in> {REJECTED, ERROR}
         then ((Inl (RuntimeError ''Compensation submit failed''), submitted1), s2)
         else comp_children env index comp_of children submitted1 created1 s2)"

fun comp_legs ::
  "coord_env \<Rightarrow> order_intent \<Rightarrow> string \<Rightarrow> nat list \<Rightarrow> oms_order list \<Rightarrow> oms_order list \<Rightarrow> coordinator \<Rightarrow>
   (oms_order list result \<times> oms_order list) \<times> coordinator" where
  "comp_legs env original otype [] submitted created s = ((Inr created, submitted), s)"
| "comp_legs env original otype (index # rest) submitted created s =
     (let cum_filled = filled_qty_for_leg index submitted in
      if cum_filled \<le> FILL_EPS then comp_legs env original otype rest submitted created s
      else
        (let now = utc_now (base env) (io_step s);
             ci = compensation_intent original index cum_filled now
         in case submit_intent (base env) ci (pass_rms ci now) None None otype s of
              (res, s1) \<Rightarrow>
                (case comp_children env index (compensation_of index submitted) (er_orders res)
                        submitted created s1 of
                   ((Inl e, submitted1), s2) \<Rightarrow> ((Inl e, submitted1), s2)
                 | ((Inr created1, submitted1), s2) \<Rightarrow>
                     comp_legs env original otype rest submitted1 created1 s2)))"

definition compensate_filled ::
  "coord_env \<Rightarrow> order_intent \<Rightarrow> oms_order list \<Rightarrow> string \<Rightarrow> coordinator \<Rightarrow>
   (oms_order list result \<times> oms_order list) \<times> coordinator" where
  "compensate_filled env original submitted otype s =
     (if open_killed env original s then ((Inr [], submitted), s)
      else comp_legs env original otype [0..<length (oi_legs original)] submitted [] s)"

section \<open>\<open>execute\<close>\<close>

text \<open>The submission loop: a refused or failed leg stops it.\<close>

fun submit_loop ::
  "coord_env \<Rightarrow> order_intent \<Rightarrow> rms_result \<Rightarrow> datetime \<Rightarrow> string \<Rightarrow> nat list \<Rightarrow> oms_order list \<Rightarrow> coordinator \<Rightarrow>
   oms_order list result \<times> coordinator" where
  "submit_loop env intent rms received otype [] submitted s = (Inr submitted, s)"
| "submit_loop env intent rms received otype (index # rest) submitted s =
     (case submit_one_leg (base env) intent rms index received otype s of
        (Inl e, s1) \<Rightarrow> (Inl e, s1)
      | (Inr order, s1) \<Rightarrow>
          (case settle_all env (submitted @ [order])
                  (log_event (if oi_action intent = CLOSE then ''CLOSE_ORDER_CREATED'' else ''ORDER_CREATED'') s1) of
             (submitted1, s2) \<Rightarrow>
               if o_status (last submitted1) \<in> {REJECTED, ERROR} then (Inr submitted1, s2)
               else submit_loop env intent rms received otype rest submitted1 s2))"

text \<open>Everything after the basket was found incomplete for good.\<close>

definition unwind ::
  "coord_env \<Rightarrow> order_intent \<Rightarrow> string \<Rightarrow> basket \<Rightarrow> oms_order list \<Rightarrow> coordinator \<Rightarrow>
   basket_execution_result \<times> coordinator" where
  "unwind env intent otype b submitted s =
     (let b1 = b\<lparr>b_state := B_UNWINDING\<rparr>;
          s0 = log_event ''BASKET_UNWINDING'' (save_basket b1 s);
          critical_exit = (\<lambda>orders comps st.
            case fail_critical b1 intent st of
              (bc, st') \<Rightarrow> (\<lparr>bx_basket = bc, bx_intent = intent, bx_orders = orders, bx_compensation_orders = comps\<rparr>, st'))
      in case settle_all env submitted s0 of
           (sub0, s1) \<Rightarrow>
             (case cancel_working env sub0 s1 of
                (cancelled, sub1, s2) \<Rightarrow>
                  if \<not> cancelled then critical_exit sub1 [] s2
                  else
                    (case settle_all env sub1 s2 of
                       (sub2, s3) \<Rightarrow>
                         (case compensate_filled env intent sub2 otype s3 of
                            ((Inl e, sub3), s4) \<Rightarrow> critical_exit sub3 [] s4
                          | ((Inr comps, sub3), s4) \<Rightarrow>
                              (let n = io_step s4;
                                   comp1 = map (settle (base env) n) comps;
                                   sub4 = map (settle (base env) n) sub3;
                                   s5 = tick s4
                               in if \<not> compensation_complete comp1 sub4 then critical_exit sub4 comp1 s5
                                  else
                                    (let bc = b1\<lparr>b_state := B_COMPENSATED\<rparr>
                                     in (\<lparr>bx_basket = bc, bx_intent = intent, bx_orders = sub4,
                                          bx_compensation_orders = comp1\<rparr>,
                                         log_event ''BASKET_COMPENSATED'' (save_basket bc s5))))))))"

definition execute ::
  "coord_env \<Rightarrow> order_intent \<Rightarrow> rms_result \<Rightarrow> string \<Rightarrow> int option \<Rightarrow> coordinator \<Rightarrow>
   basket_execution_result result \<times> coordinator" where
  "execute env intent0 rms otype signal_pk s =
     (case attach env intent0 of
        Inl msg \<Rightarrow> (Inl (ValueError msg), s)
      | Inr intent \<Rightarrow>
          (let b = \<lparr>b_account_id = oi_account_id intent, b_trade_id = oi_signal_id intent,
                    b_strategy_id = oi_strategy_id intent, b_action = oi_action intent,
                    b_intended_leg_count = length (oi_legs intent), b_state = B_EXECUTING,
                    b_signal_pk = signal_pk, b_recovery_status = None\<rparr>;
               s0 = log_event ''BASKET_EXECUTING'' (log_event ''BASKET_CREATED'' (save_basket b s));
               received = utc_now (base env) (io_step s0)
           in case submit_loop env intent rms received otype [0..<length (oi_legs intent)] [] s0 of
                (Inl e, s1) \<Rightarrow> (Inl e, s1)
              | (Inr sub0, s1) \<Rightarrow>
                  (case settle_all env sub0 s1 of
                     (sub1, s2) \<Rightarrow>
                       if list_ex is_disconnect_parked sub1
                       then (Inr \<lparr>bx_basket = b, bx_intent = intent, bx_orders = sub1, bx_compensation_orders = []\<rparr>, s2)
                       else
                         (case (if basket_complete intent sub1 then (Inr sub1, s2)
                                else retry_incomplete env intent sub1 otype s2) of
                            (Inl e, s3) \<Rightarrow> (Inl e, s3)
                          | (Inr sub2, s3) \<Rightarrow>
                              (case (if length sub2 > length sub1 then settle_all env sub2 s3 else (sub2, s3)) of
                                 (sub3, s4) \<Rightarrow>
                                   if basket_complete intent sub3 then
                                     (let b1 = b\<lparr>b_state := (if oi_action intent = CLOSE then B_CLOSED else B_OPEN)\<rparr>
                                      in (Inr \<lparr>bx_basket = b1, bx_intent = intent, bx_orders = sub3, bx_compensation_orders = []\<rparr>,
                                          log_event (if oi_action intent = CLOSE then ''BASKET_CLOSED'' else ''BASKET_OPEN'')
                                            (save_basket b1 s4)))
                                   else
                                     (case unwind env intent otype b sub3 s4 of (r, s5) \<Rightarrow> (Inr r, s5)))))))"

end
