(* ===== verification/Coordinator_Properties.thy ===== *)
theory Coordinator_Properties
  imports Coordinator
begin

text \<open>
  What the basket coordinator guarantees: the outcomes of \<open>execute\<close> and what each of them means,
  that retries never order more than the leg still needs, and that a compensated basket leaves no
  exposure. The last two rest on \<open>honest_broker\<close>, the documented life cycle of a broker order:
  callbacks never change what an order is for, never fill more than its quantity, and fill nothing
  after a final state.
\<close>

section \<open>The broker's contract\<close>

definition view :: "oms_order \<Rightarrow> nat option \<times> bool \<times> decimal \<times> order_side option" where
  "view x = (o_leg_index x, o_is_compensation x, o_quantity x, o_side x)"

definition fill_ok :: "oms_order \<Rightarrow> bool" where
  "fill_ok x \<longleftrightarrow> o_filled x \<le> o_quantity x"

definition honest_broker :: "oms_env \<Rightarrow> bool" where
  "honest_broker e \<longleftrightarrow>
     (\<forall>n x. view (settle e n x) = view x \<and>
            (fill_ok x \<longrightarrow> fill_ok (settle e n x)) \<and>
            (is_wait_terminal x \<longrightarrow> is_wait_terminal (settle e n x) \<and> o_filled (settle e n x) = o_filled x)) \<and>
     (\<forall>n x y. place e n x = Inr y \<longrightarrow> view y = view x \<and> fill_ok y)"

text \<open>The most an order can still come to have filled.\<close>

definition cap :: "oms_order \<Rightarrow> decimal" where
  "cap x = (if is_wait_terminal x then o_filled x else o_quantity x)"

definition evolves :: "oms_order \<Rightarrow> oms_order \<Rightarrow> bool" where
  "evolves x y \<longleftrightarrow>
     view y = view x \<and> (fill_ok x \<longrightarrow> fill_ok y \<and> cap y \<le> cap x) \<and>
     (is_wait_terminal x \<longrightarrow> is_wait_terminal y \<and> o_filled y = o_filled x)"

lemma evolves_refl [simp]: "evolves x x"
  by (simp add: evolves_def)

lemma evolves_trans: "evolves x y \<Longrightarrow> evolves y z \<Longrightarrow> evolves x z"
  unfolding evolves_def by auto

lemma evolves_settle:
  assumes "honest_broker e"
  shows "evolves x (settle e n x)"
proof -
  have h: "view (settle e n x) = view x" "fill_ok x \<Longrightarrow> fill_ok (settle e n x)"
      "is_wait_terminal x \<Longrightarrow> is_wait_terminal (settle e n x) \<and> o_filled (settle e n x) = o_filled x"
    using assms unfolding honest_broker_def by blast+
  then have "fill_ok x \<Longrightarrow> cap (settle e n x) \<le> cap x"
    by (auto simp: cap_def fill_ok_def view_def)
  with h show ?thesis by (simp add: evolves_def)
qed

lemma evolve_list_refl [simp]: "list_all2 evolves xs xs"
  by (simp add: list_all2_refl)

lemma evolve_list_trans:
  "list_all2 evolves xs ys \<Longrightarrow> list_all2 evolves ys zs \<Longrightarrow> list_all2 evolves xs zs"
  using list_all2_trans [of evolves evolves evolves] evolves_trans by blast

lemma evolve_settle: "honest_broker e \<Longrightarrow> list_all2 evolves xs (map (settle e n) xs)"
  by (simp add: list_all2_conv_all_nth evolves_settle)

lemma settle_all_evolves:
  "honest_broker (base env) \<Longrightarrow> settle_all env xs s = (ys, s') \<Longrightarrow> list_all2 evolves xs ys"
  by (auto simp: settle_all_def evolve_settle)

section \<open>Sums over a leg\<close>

definition of_leg :: "nat \<Rightarrow> oms_order \<Rightarrow> bool" where
  "of_leg i x \<longleftrightarrow> o_leg_index x = Some i \<and> \<not> o_is_compensation x"

definition leg_cap :: "nat \<Rightarrow> oms_order list \<Rightarrow> decimal" where
  "leg_cap i xs = sum_list (map cap (filter (of_leg i) xs))"

lemma filled_qty_of_leg: "filled_qty_for_leg i xs = sum_list (map o_filled (filter (of_leg i) xs))"
  by (simp add: filled_qty_for_leg_def of_leg_def [abs_def])

lemma of_leg_view: "view y = view x \<Longrightarrow> of_leg i y = of_leg i x"
  by (simp add: view_def of_leg_def)

lemma leg_simps [simp]:
  "leg_cap i [] = 0"
  "leg_cap i (x # xs) = (if of_leg i x then cap x else 0) + leg_cap i xs"
  "leg_cap i (xs @ ys) = leg_cap i xs + leg_cap i ys"
  "filled_qty_for_leg i [] = 0"
  "filled_qty_for_leg i (x # xs) = (if of_leg i x then o_filled x else 0) + filled_qty_for_leg i xs"
  "filled_qty_for_leg i (xs @ ys) = filled_qty_for_leg i xs + filled_qty_for_leg i ys"
  by (simp_all add: leg_cap_def filled_qty_of_leg)

lemma leg_cap_evolves:
  "list_all2 evolves xs ys \<Longrightarrow> list_all fill_ok xs \<Longrightarrow> list_all fill_ok ys \<and> leg_cap i ys \<le> leg_cap i xs"
proof (induction rule: list_all2_induct)
  case (Cons x xs y ys)
  have "of_leg i y = of_leg i x" using Cons.hyps(1) of_leg_view unfolding evolves_def by blast
  moreover have "fill_ok y" "cap y \<le> cap x" "list_all fill_ok ys" "leg_cap i ys \<le> leg_cap i xs"
    using Cons.hyps(1) Cons.IH Cons.prems unfolding evolves_def by simp_all
  ultimately show ?case by (simp add: add_mono)
qed simp

lemma filled_le_cap: "list_all fill_ok xs \<Longrightarrow> filled_qty_for_leg i xs \<le> leg_cap i xs"
  by (induction xs) (auto simp: cap_def fill_ok_def intro: add_mono)

lemma filled_eq_cap:
  "\<forall>x \<in> set xs. of_leg i x \<longrightarrow> is_wait_terminal x \<Longrightarrow> leg_cap i xs = filled_qty_for_leg i xs"
  by (induction xs) (auto simp: cap_def)

lemma terminal_evolves:
  "list_all2 evolves xs ys \<Longrightarrow> \<forall>x \<in> set xs. of_leg i x \<longrightarrow> is_wait_terminal x \<Longrightarrow>
   (\<forall>y \<in> set ys. of_leg i y \<longrightarrow> is_wait_terminal y) \<and> filled_qty_for_leg i ys = filled_qty_for_leg i xs"
proof (induction rule: list_all2_induct)
  case (Cons x xs y ys)
  have "of_leg i y = of_leg i x" using Cons.hyps(1) of_leg_view unfolding evolves_def by blast
  moreover have "is_wait_terminal x \<Longrightarrow> is_wait_terminal y" "is_wait_terminal x \<Longrightarrow> o_filled y = o_filled x"
    using Cons.hyps(1) unfolding evolves_def by blast+
  moreover have "(\<forall>y \<in> set ys. of_leg i y \<longrightarrow> is_wait_terminal y) \<and>
      filled_qty_for_leg i ys = filled_qty_for_leg i xs"
    using Cons.IH Cons.prems by simp
  ultimately show ?case using Cons.prems by simp
qed simp

section \<open>The pool never promises more than the legs ask for\<close>

definition pool_ok :: "order_intent \<Rightarrow> oms_order list \<Rightarrow> bool" where
  "pool_ok intent xs \<longleftrightarrow>
     list_all fill_ok xs \<and> (\<forall>i < length (oi_legs intent). leg_cap i xs \<le> leg_quantity (oi_legs intent ! i))"

lemma pool_ok_evolves: "list_all2 evolves xs ys \<Longrightarrow> pool_ok intent xs \<Longrightarrow> pool_ok intent ys"
  using leg_cap_evolves unfolding pool_ok_def by (meson order_trans)

lemma pool_ok_settle:
  "settle_all env xs s = (ys, s') \<Longrightarrow> honest_broker (base env) \<Longrightarrow> pool_ok intent xs \<Longrightarrow> pool_ok intent ys"
  by (rule pool_ok_evolves [OF settle_all_evolves])

lemma pool_ok_filled:
  "pool_ok intent xs \<Longrightarrow> i < length (oi_legs intent) \<Longrightarrow>
   filled_qty_for_leg i xs \<le> leg_quantity (oi_legs intent ! i)"
  using filled_le_cap unfolding pool_ok_def by (meson order_trans)

lemma cancel_loop_evolves:
  "honest_broker (base env) \<Longrightarrow> cancel_loop env ids xs s = (ok, ys, s') \<Longrightarrow> list_all2 evolves xs ys"
proof (induction ids arbitrary: xs s)
  case (Cons i ids)
  obtain r s1 where c: "cancel_order (base env) i s = (r, s1)" by fastforce
  show ?case
  proof (cases r)
    case (Inl e)
    with Cons.prems c show ?thesis by simp
  next
    case (Inr u)
    obtain xs1 s2 where st: "settle_all env xs s1 = (xs1, s2)" by fastforce
    with Cons.prems c Inr have "cancel_loop env ids xs1 s2 = (ok, ys, s')" by simp
    from Cons.IH [OF Cons.prems(1) this] settle_all_evolves [OF Cons.prems(1) st] show ?thesis
      by (rule evolve_list_trans [rotated])
  qed
qed simp

lemma cancel_working_evolves:
  assumes "honest_broker (base env)" "cancel_working env xs s = (ok, ys, s')"
  shows "list_all2 evolves xs ys \<and> (ok \<longrightarrow> (\<forall>y \<in> set ys. is_wait_terminal y))"
proof -
  obtain ok1 xs1 s1 where c:
    "cancel_loop env (map o_id (filter (\<lambda>x. \<not> is_wait_terminal x) xs)) xs s = (ok1, xs1, s1)"
    by (metis prod_cases3)
  have e1: "list_all2 evolves xs xs1" by (rule cancel_loop_evolves [OF assms(1) c])
  show ?thesis
  proof (cases ok1)
    case False
    with assms(2) c e1 show ?thesis by (auto simp: cancel_working_def Let_def)
  next
    case True
    obtain xs2 s2 where st: "settle_all env xs1 s1 = (xs2, s2)" by fastforce
    have e2: "list_all2 evolves xs xs2"
      using evolve_list_trans [OF e1 settle_all_evolves [OF assms(1) st]] .
    have ys: "ys = xs2"
      "ok = list_all2 (\<lambda>was_working x. was_working \<longrightarrow> is_wait_terminal x)
               (map (\<lambda>x. \<not> is_wait_terminal x) xs) xs2"
      using assms(2) True c st by (auto simp: cancel_working_def Let_def)
    have "\<forall>y \<in> set xs2. is_wait_terminal y" if ok
    proof
      fix y assume "y \<in> set xs2"
      then obtain j where j: "j < length xs2" "y = xs2 ! j" by (auto simp: in_set_conv_nth)
      with e2 have "evolves (xs ! j) y" "j < length xs" by (auto simp: list_all2_conv_all_nth)
      with that j ys(2) show "is_wait_terminal y"
        by (auto simp: list_all2_conv_all_nth evolves_def)
    qed
    with e2 ys(1) show ?thesis by simp
  qed
qed

lemma submit_leg_order:
  assumes "submit_leg e intent rms i received None None otype s = (Inr x, s')"
    and "honest_broker e"
  shows "i < length (oi_legs intent) \<and> o_leg_index x = Some i \<and> \<not> o_is_compensation x \<and>
         o_quantity x = leg_quantity (oi_legs intent ! i) \<and>
         o_side x = Some (leg_side (oi_legs intent ! i)) \<and>
         (0 \<le> leg_quantity (oi_legs intent ! i) \<longrightarrow> fill_ok x)"
proof -
  have pl: "\<And>n y z. place e n y = Inr z \<Longrightarrow> view z = view y \<and> fill_ok z"
    using assms(2) by (auto simp: honest_broker_def)
  show ?thesis
    using assms(1)
    by (auto simp: submit_leg_def Let_def fill_ok_def view_def split: if_splits sum.splits dest!: pl)
qed

lemma submit_one_leg_order:
  assumes "submit_one_leg e intent rms i received otype s = (Inr x, s')" "honest_broker e"
  shows "i < length (oi_legs intent) \<and> o_leg_index x = Some i \<and> \<not> o_is_compensation x \<and>
         o_quantity x = leg_quantity (oi_legs intent ! i) \<and>
         o_side x = Some (leg_side (oi_legs intent ! i)) \<and>
         (0 \<le> leg_quantity (oi_legs intent ! i) \<longrightarrow> fill_ok x)"
proof -
  obtain s1 where "submit_leg e intent rms i received None None otype s1 = (Inr x, s')"
    using assms(1) by (auto simp: submit_one_leg_def Let_def split: if_splits)
  from submit_leg_order [OF this assms(2)] show ?thesis .
qed

lemma cap_le_quantity: "fill_ok x \<Longrightarrow> cap x \<le> o_quantity x"
  by (simp add: cap_def fill_ok_def)

section \<open>Submission and retries keep the pool in bounds\<close>

definition legs_ok :: "order_intent \<Rightarrow> bool" where
  "legs_ok intent \<longleftrightarrow> (\<forall>leg \<in> set (oi_legs intent). 0 \<le> leg_quantity leg)"

lemma pool_ok_append:
  assumes "pool_ok intent xs" "fill_ok x" "o_leg_index x = Some i" "\<not> o_is_compensation x"
    and "i < length (oi_legs intent)" "leg_cap i xs + o_quantity x \<le> leg_quantity (oi_legs intent ! i)"
  shows "pool_ok intent (xs @ [x])"
proof -
  have "of_leg j x \<longleftrightarrow> j = i" for j using assms(3,4) by (auto simp: of_leg_def)
  with assms cap_le_quantity [OF assms(2)] show ?thesis by (auto simp: pool_ok_def)
qed

lemma submit_loop_pool:
  assumes "submit_loop env intent rms received otype is xs s = (Inr ys, s')"
    and "honest_broker (base env)" "legs_ok intent" "pool_ok intent xs" "distinct is"
    and "\<forall>i \<in> set is. i < length (oi_legs intent) \<and> leg_cap i xs \<le> 0"
  shows "pool_ok intent ys"
  using assms(1,4-6)
proof (induction "is" arbitrary: xs s)
  case (Cons i "is")
  obtain r s1 where r: "submit_one_leg (base env) intent rms i received otype s = (r, s1)" by fastforce
  with Cons.prems(1) obtain x where x: "r = Inr x" by (cases r) auto
  obtain xs1 s2 where st: "settle_all env (xs @ [x])
      (log_event (if oi_action intent = CLOSE then ''CLOSE_ORDER_CREATED'' else ''ORDER_CREATED'') s1) = (xs1, s2)"
    by fastforce
  have i: "i < length (oi_legs intent)" "leg_cap i xs \<le> 0" using Cons.prems(4) by auto
  have q: "0 \<le> leg_quantity (oi_legs intent ! i)" using assms(3) i(1) by (simp add: legs_ok_def)
  from submit_one_leg_order [OF r [unfolded x] assms(2)] q
  have o: "o_leg_index x = Some i" "\<not> o_is_compensation x" "fill_ok x"
      "o_quantity x = leg_quantity (oi_legs intent ! i)" by auto
  have "pool_ok intent (xs @ [x])"
    using Cons.prems(2) o i by (intro pool_ok_append) auto
  then have p1: "pool_ok intent xs1"
    by (rule pool_ok_evolves [OF settle_all_evolves [OF assms(2) st]])
  have c1: "leg_cap j xs1 \<le> 0" if "j \<in> set is" for j
  proof -
    have "j \<noteq> i" using that Cons.prems(3) by auto
    then have "leg_cap j (xs @ [x]) \<le> 0" using Cons.prems(4) that o(1) by (auto simp: of_leg_def)
    moreover have "list_all fill_ok (xs @ [x])" using Cons.prems(2) o(3) by (simp add: pool_ok_def)
    ultimately show ?thesis
      using leg_cap_evolves [OF settle_all_evolves [OF assms(2) st], of j] by linarith
  qed
  show ?case
  proof (cases "o_status (last xs1) \<in> {REJECTED, ERROR}")
    case True
    with Cons.prems(1) r x st p1 show ?thesis by auto
  next
    case False
    with Cons.prems(1) r x st have "submit_loop env intent rms received otype is xs1 s2 = (Inr ys, s')"
      by simp
    from Cons.IH [OF this p1] Cons.prems(3,4) c1 show ?thesis by auto
  qed
qed simp

definition legs_done :: "nat set \<Rightarrow> oms_order list \<Rightarrow> bool" where
  "legs_done I xs \<longleftrightarrow> (\<forall>i \<in> I. \<forall>x \<in> set xs. of_leg i x \<longrightarrow> is_wait_terminal x)"

lemma legs_done_evolves: "list_all2 evolves xs ys \<Longrightarrow> legs_done I xs \<Longrightarrow> legs_done I ys"
  using terminal_evolves unfolding legs_done_def by blast

lemma retry_intent_leg [simp]:
  "oi_legs (retry_intent intent leg r i a now) =
     [leg\<lparr>leg_quantity := r, leg_notional := Some (r * leg_price leg), leg_leg_index := Some (int i)\<rparr>]"
  by (simp add: retry_intent_def)

text \<open>The order a retry adds asks for exactly what the leg is short of.\<close>

lemma retry_order_pool:
  assumes "submit_one_leg e (retry_intent intent (oi_legs intent ! i) rem i a now) rms 0 t otype s = (Inr x, s')"
    and "honest_broker e" "pool_ok intent xs" "legs_done (insert i I) xs" "i \<notin> I" "i < length (oi_legs intent)"
    and "rem = leg_quantity (oi_legs intent ! i) - filled_qty_for_leg i xs" "FILL_EPS < rem"
  shows "pool_ok intent (xs @ [x\<lparr>o_leg_index := Some i\<rparr>]) \<and> legs_done I (xs @ [x\<lparr>o_leg_index := Some i\<rparr>])"
proof -
  have "0 \<le> rem" using assms(8) by (simp add: FILL_EPS_def)
  with submit_one_leg_order [OF assms(1,2)]
  have o: "\<not> o_is_compensation x" "fill_ok x" "o_quantity x = rem" by auto
  have "leg_cap i xs = filled_qty_for_leg i xs"
    using assms(4) by (intro filled_eq_cap) (auto simp: legs_done_def)
  with assms(3,6,7) o have "pool_ok intent (xs @ [x\<lparr>o_leg_index := Some i\<rparr>])"
    by (intro pool_ok_append [of _ _ _ i]) (auto simp: fill_ok_def)
  with assms(4,5) show ?thesis by (auto simp: legs_done_def of_leg_def)
qed

lemma retry_legs_pool:
  assumes "retry_legs env intent otype a is xs blocked s = (Inr (ys, blocked'), s')"
    and "honest_broker (base env)" "pool_ok intent xs" "distinct is"
    and "\<forall>i \<in> set is. i < length (oi_legs intent)" "legs_done (set is) xs"
  shows "pool_ok intent ys"
  using assms(1,3-6)
proof (induction "is" arbitrary: xs blocked s)
  case (Cons i "is")
  let ?rem = "leg_quantity (oi_legs intent ! i) - filled_qty_for_leg i xs"
  let ?s1 = "s\<lparr>retry_ids := insert (retry_key intent i a) (retry_ids s)\<rparr>"
  let ?now = "utc_now (base env) (io_step ?s1)"
  let ?ri = "retry_intent intent (oi_legs intent ! i) ?rem i a ?now"
  have rest: "distinct is" "\<forall>i \<in> set is. i < length (oi_legs intent)" "legs_done (set is) xs"
    using Cons.prems(3-5) by (auto simp: legs_done_def)
  show ?case
  proof (cases "i \<in> blocked \<or> ?rem \<le> FILL_EPS \<or> retry_key intent i a \<in> retry_ids s")
    case True
    then have "retry_legs env intent otype a is xs blocked s = (Inr (ys, blocked'), s')"
      using Cons.prems(1) by (auto simp: Let_def)
    from Cons.IH [OF this Cons.prems(2) rest] show ?thesis .
  next
    case False
    obtain rms where rms: "evaluate get_default_checks ?now ?now ?ri (rms_ctx env (io_step ?s1)) = Inr rms"
      using Cons.prems(1) False by (cases "evaluate get_default_checks ?now ?now ?ri (rms_ctx env (io_step ?s1))")
        (auto simp: Let_def)
    show ?thesis
    proof (cases "rr_outcome rms = PASS")
      case blockedr: False
      obtain xs1 s2 where st: "settle_all env xs (log_event ''AUTO_SQUARE_OFF_RETRY_BLOCKED'' ?s1) = (xs1, s2)"
        by fastforce
      have "retry_legs env intent otype a is xs1 (insert i blocked) s2 = (Inr (ys, blocked'), s')"
        using Cons.prems(1) False blockedr rms st by (simp add: Let_def)
      from Cons.IH [OF this pool_ok_evolves [OF settle_all_evolves [OF assms(2) st] Cons.prems(2)] rest(1,2)
          legs_done_evolves [OF settle_all_evolves [OF assms(2) st] rest(3)]] show ?thesis .
    next
      case pass: True
      obtain r s2 where r: "submit_one_leg (base env) ?ri rms 0 ?now otype ?s1 = (r, s2)" by fastforce
      show ?thesis
      proof (cases r)
        case (Inl e)
        then have "retry_legs env intent otype a is xs blocked s2 = (Inr (ys, blocked'), s')"
          using Cons.prems(1) False pass rms r by (simp add: Let_def)
        from Cons.IH [OF this Cons.prems(2) rest] show ?thesis .
      next
        case (Inr x)
        obtain xs1 s3 where st: "settle_all env (xs @ [x\<lparr>o_leg_index := Some i\<rparr>])
            (log_event ''AUTO_SQUARE_OFF_RETRY'' s2) = (xs1, s3)" by fastforce
        have n: "pool_ok intent (xs @ [x\<lparr>o_leg_index := Some i\<rparr>])"
            "legs_done (set is) (xs @ [x\<lparr>o_leg_index := Some i\<rparr>])"
          using retry_order_pool [OF r [unfolded Inr] assms(2) Cons.prems(2), of "set is"] Cons.prems(3-5) False
          by auto
        have "retry_legs env intent otype a is xs1 blocked s3 = (Inr (ys, blocked'), s')"
          using Cons.prems(1) False pass rms r Inr st by (simp add: Let_def)
        from Cons.IH [OF this pool_ok_evolves [OF settle_all_evolves [OF assms(2) st] n(1)] rest(1,2)
            legs_done_evolves [OF settle_all_evolves [OF assms(2) st] n(2)]] show ?thesis .
      qed
    qed
  qed
qed simp

lemma all_done: "\<forall>x \<in> set xs. is_wait_terminal x \<Longrightarrow> legs_done I xs"
  by (simp add: legs_done_def)

text \<open>What happens between two rounds: everything is cancelled and has ended, or the loop stops.\<close>

definition between_rounds ::
  "coord_env \<Rightarrow> nat \<Rightarrow> oms_order list \<Rightarrow> coordinator \<Rightarrow> bool \<times> oms_order list \<times> coordinator" where
  "between_rounds env attempt pool s =
     (if attempt > 0 then
        (case cancel_working env pool s of
           (c, pool1, s1) \<Rightarrow> if c then (case settle_all env pool1 s1 of (p, s2) \<Rightarrow> (True, p, s2))
                             else (False, pool1, s1))
      else (True, pool, s))"

lemma between_rounds_pool:
  assumes "between_rounds env attempt pool s = (c, ys, s')" "honest_broker (base env)"
  shows "list_all2 evolves pool ys \<and>
     (c \<longrightarrow> (attempt = 0 \<longrightarrow> (\<forall>x \<in> set pool. is_wait_terminal x)) \<longrightarrow> legs_done I ys)"
proof (cases "attempt > 0")
  case True
  obtain c1 p1 s1 where cw: "cancel_working env pool s = (c1, p1, s1)" by (metis prod_cases3)
  note e = cancel_working_evolves [OF assms(2) cw]
  show ?thesis
  proof (cases c1)
    case False
    with True assms(1) cw e show ?thesis by (simp add: between_rounds_def)
  next
    case c: True
    obtain p2 s2 where st: "settle_all env p1 s1 = (p2, s2)" by fastforce
    have "legs_done I p1" using c e all_done by blast
    with legs_done_evolves [OF settle_all_evolves [OF assms(2) st]] evolve_list_trans
      settle_all_evolves [OF assms(2) st] e True assms(1) cw c st show ?thesis
      by (auto simp: between_rounds_def)
  qed
next
  case False
  with assms(1) all_done show ?thesis by (auto simp: between_rounds_def)
qed

lemma retry_loop_unfold:
  "retry_loop (Suc k) env policy started intent otype attempt pool blocked s =
     (if monotonic env (io_step s) - started \<ge> rp_retry_window_sec policy \<or> basket_complete intent pool
      then (Inr pool, s)
      else
        (case between_rounds env attempt pool s of
           (c, pool2, s2) \<Rightarrow>
             if \<not> c then (Inr pool2, s2)
             else if attempt > 0 \<and> monotonic env (io_step s2) - started \<ge> rp_retry_window_sec policy
             then (Inr pool2, s2)
             else
               (case retry_legs env intent otype (attempt + 1) [0..<length (oi_legs intent)] pool2 blocked s2 of
                  (Inl e, s3) \<Rightarrow> (Inl e, s3)
                | (Inr (pool3, blocked'), s3) \<Rightarrow>
                    (case (if length pool3 > length pool2 then settle_all env pool3 s3 else (pool3, s3)) of
                       (pool4, s4) \<Rightarrow>
                         retry_loop k env policy started intent otype (attempt + 1) pool4 blocked' s4))))"
  by (simp add: between_rounds_def split: prod.splits)

lemma retry_loop_pool:
  assumes "retry_loop k env policy started intent otype attempt xs blocked s = (Inr ys, s')"
    and "honest_broker (base env)" "pool_ok intent xs"
    and "attempt = 0 \<longrightarrow> (\<forall>x \<in> set xs. is_wait_terminal x)"
  shows "pool_ok intent ys"
  using assms(1,3,4)
proof (induction k arbitrary: attempt xs blocked s)
  case (Suc k)
  obtain c p2 s2 where b: "between_rounds env attempt xs s = (c, p2, s2)" by (metis prod_cases3)
  note bp = between_rounds_pool [OF b assms(2), of "set [0..<length (oi_legs intent)]"]
  then have p2: "pool_ok intent p2" using pool_ok_evolves Suc.prems(2) by blast
  consider (stop) "ys = xs" | (stop2) "ys = p2"
    | (go) p3 blocked' s3 where "c"
      "retry_legs env intent otype (attempt + 1) [0..<length (oi_legs intent)] p2 blocked s2 = (Inr (p3, blocked'), s3)"
      "(case (if length p3 > length p2 then settle_all env p3 s3 else (p3, s3)) of
         (p4, s4) \<Rightarrow> retry_loop k env policy started intent otype (attempt + 1) p4 blocked' s4) = (Inr ys, s')"
    using Suc.prems(1) unfolding retry_loop_unfold b
    by (auto split: if_splits sum.splits prod.splits)
  then show ?case
  proof cases
    case stop then show ?thesis using Suc.prems(2) by simp
  next
    case stop2 then show ?thesis using p2 by simp
  next
    case go
    have "pool_ok intent p3"
      using retry_legs_pool [OF go(2) assms(2) p2] bp go(1) Suc.prems(3) by auto
    moreover obtain p4 s4 where p4:
      "(if length p3 > length p2 then settle_all env p3 s3 else (p3, s3)) = (p4, s4)" by fastforce
    ultimately have "pool_ok intent p4"
      using pool_ok_settle [of env p3 s3 p4 s4 intent, OF _ assms(2)] by (auto split: if_splits)
    from Suc.IH [OF _ this] go(3) p4 show ?thesis by simp
  qed
qed simp

lemma retry_incomplete_pool:
  assumes "retry_incomplete env intent xs otype s = (Inr ys, s')"
    and "honest_broker (base env)" "pool_ok intent xs"
  shows "pool_ok intent ys"
proof -
  obtain c p1 s1 where cw: "cancel_working env xs s = (c, p1, s1)" by (metis prod_cases3)
  note e = cancel_working_evolves [OF assms(2) cw]
  then have p1: "pool_ok intent p1" using pool_ok_evolves assms(3) by blast
  consider "ys = xs" | "ys = p1"
    | policy where "c" "retry_loop (nat (rp_max_retries policy)) env policy (monotonic env (io_step s1))
        intent otype 0 p1 {} s1 = (Inr ys, s')"
    using assms(1) unfolding retry_incomplete_def cw by (auto split: if_splits option.splits)
  then show ?thesis
    using retry_loop_pool assms(2,3) p1 e by cases blast+
qed

section \<open>Compensation orders mirror the fills\<close>

lemma comp_children_orders:
  assumes "comp_children env i co cs sub created s = ((r, sub'), s')" "honest_broker (base env)"
  shows "list_all2 evolves sub sub' \<and>
    (\<forall>cr. r = Inr cr \<longrightarrow>
       map view cr = map view created @ map (\<lambda>c. (Some i, True, o_quantity c, o_side c)) cs \<and>
       (list_all fill_ok created \<longrightarrow> list_all fill_ok cs \<longrightarrow> list_all fill_ok cr))"
  using assms(1)
proof (induction cs arbitrary: sub created s)
  case (Cons c cs)
  let ?c = "c\<lparr>o_leg_index := Some i, o_is_compensation := True, o_compensation_of := Some co\<rparr>"
  define n where "n = io_step (log_event ''COMPENSATION'' s)"
  define created1 where "created1 = map (settle (base env) n) (created @ [?c])"
  define sub1 where "sub1 = map (settle (base env) n) sub"
  have e: "list_all2 evolves sub sub1" "list_all2 evolves (created @ [?c]) created1"
    unfolding sub1_def created1_def by (rule evolve_settle [OF assms(2)])+
  have v: "map view created1 = map view created @ [(Some i, True, o_quantity c, o_side c)]"
    using assms(2) by (simp add: created1_def honest_broker_def) (simp add: view_def)
  have f: "list_all fill_ok created1" if "list_all fill_ok created" "fill_ok c"
    using leg_cap_evolves [OF e(2)] that by (simp add: fill_ok_def)
  show ?case
  proof (cases "o_status (last created1) \<in> {REJECTED, ERROR}")
    case True
    with Cons.prems e(1) show ?thesis
      by (auto simp: Let_def created1_def sub1_def n_def)
  next
    case False
    with Cons.prems have "comp_children env i co cs sub1 created1 (tick (log_event ''COMPENSATION'' s)) = ((r, sub'), s')"
      by (simp add: Let_def created1_def sub1_def n_def)
    from Cons.IH [OF this] show ?thesis
      using evolve_list_trans [OF e(1)] v f by auto
  qed
qed auto

lemma submit_intent_single:
  assumes "submit_intent e ci rms None None otype s = (res, s')" "honest_broker e"
    and "rr_outcome rms = PASS" "oi_legs ci = [leg]" "0 \<le> leg_quantity leg"
  shows "\<exists>c. er_orders res = [c] \<and> o_quantity c = leg_quantity leg \<and> o_side c = Some (leg_side leg) \<and> fill_ok c"
proof (cases "submission_key ci \<in> submitted_signals s")
  case True
  with assms show ?thesis
    by (auto simp: submit_intent_def mk_execution_result_def create_rejected_order_def fill_ok_def Let_def)
next
  case False
  let ?s = "s\<lparr>submitted_signals := insert (submission_key ci) (submitted_signals s)\<rparr>"
  obtain r s1 where r: "submit_leg e ci rms 0 (utc_now e (io_step s)) None None otype ?s = (r, s1)" by fastforce
  have "r \<noteq> Inl x" for x
    using r assms(4) by (auto simp: submit_leg_def Let_def split: sum.splits)
  then obtain c where c: "r = Inr c" by (cases r) auto
  from submit_leg_order [OF r [unfolded c] assms(2)] assms(4,5)
  have "o_quantity c = leg_quantity leg" "o_side c = Some (leg_side leg)" "fill_ok c" by auto
  moreover have "er_orders res = [c]"
    using assms(1,3,4) False r c by (auto simp: submit_intent_def mk_execution_result_def Let_def)
  ultimately show ?thesis by simp
qed

lemma filled_fixed:
  assumes "list_all2 evolves sub sub'" "\<forall>x \<in> set sub. is_wait_terminal x"
  shows "filled_qty_for_leg i sub' = filled_qty_for_leg i sub \<and> (\<forall>x \<in> set sub'. is_wait_terminal x)"
proof -
  have "\<forall>x \<in> set sub'. is_wait_terminal x"
    using assms unfolding list_all2_conv_all_nth evolves_def by (metis in_set_conv_nth)
  then show ?thesis using terminal_evolves [OF assms(1)] assms(2) by blast
qed

lemma comp_legs_orders:
  assumes "comp_legs env orig otype is sub created s = ((Inr cr, sub'), s')" "honest_broker (base env)"
    and "\<forall>x \<in> set sub. is_wait_terminal x" "list_all fill_ok created"
  shows "list_all2 evolves sub sub' \<and> list_all fill_ok cr \<and>
    map view cr = map view created @
      map (\<lambda>i. (Some i, True, filled_qty_for_leg i sub, Some (reverse_side (leg_side (oi_legs orig ! i)))))
        (filter (\<lambda>i. FILL_EPS < filled_qty_for_leg i sub) is)"
  using assms(1,3,4)
proof (induction "is" arbitrary: sub created s)
  case (Cons i "is")
  let ?F = "filled_qty_for_leg i sub"
  show ?case
  proof (cases "?F \<le> FILL_EPS")
    case True
    with Cons.prems(1) have "comp_legs env orig otype is sub created s = ((Inr cr, sub'), s')" by simp
    from Cons.IH [OF this Cons.prems(2,3)] True show ?thesis by simp
  next
    case False
    let ?now = "utc_now (base env) (io_step s)"
    let ?ci = "compensation_intent orig i ?F ?now"
    obtain res s1 where res: "submit_intent (base env) ?ci (pass_rms ?ci ?now) None None otype s = (res, s1)"
      by fastforce
    have F: "0 \<le> ?F" using False by (simp add: FILL_EPS_def)
    have leg: "oi_legs ?ci = [hd (oi_legs ?ci)]" "leg_quantity (hd (oi_legs ?ci)) = ?F"
        "leg_side (hd (oi_legs ?ci)) = reverse_side (leg_side (oi_legs orig ! i))"
      by (simp_all add: compensation_intent_def Let_def)
    obtain c where c: "er_orders res = [c]" "o_quantity c = ?F"
        "o_side c = Some (reverse_side (leg_side (oi_legs orig ! i)))" "fill_ok c"
      using submit_intent_single [OF res assms(2) _ leg(1)] leg(2,3) F by (auto simp: pass_rms_def)
    obtain r sub1 s2 where ch: "comp_children env i (compensation_of i sub) (er_orders res) sub created s1 = ((r, sub1), s2)"
      by (metis prod.exhaust)
    from Cons.prems(1) False res ch obtain cr1 where cr1: "r = Inr cr1"
        "comp_legs env orig otype is sub1 cr1 s2 = ((Inr cr, sub'), s')"
      by (cases r) (auto simp: Let_def)
    note k = comp_children_orders [OF ch assms(2)]
    have v1: "map view cr1 = map view created @ [(Some i, True, ?F, Some (reverse_side (leg_side (oi_legs orig ! i))))]"
        "list_all fill_ok cr1" "list_all2 evolves sub sub1"
      using k cr1(1) c Cons.prems(3) by auto
    have fx: "\<And>j. filled_qty_for_leg j sub1 = filled_qty_for_leg j sub" "\<forall>x \<in> set sub1. is_wait_terminal x"
      using filled_fixed [OF v1(3) Cons.prems(2)] by auto
    from Cons.IH [OF cr1(2) fx(2) v1(2)] v1 False show ?thesis
      by (auto simp: fx(1) intro: evolve_list_trans)
  qed
qed simp

section \<open>Outcomes of \<open>execute\<close>\<close>

text \<open>Fills of the compensation orders of a leg.\<close>

definition comp_filled :: "nat \<Rightarrow> oms_order list \<Rightarrow> decimal" where
  "comp_filled i xs =
     sum_list (map o_filled (filter (\<lambda>x. o_leg_index x = Some i \<and> o_is_compensation x) xs))"

lemma comp_filled_views:
  assumes "map view xs = map (\<lambda>j. (Some j, True, F j, D j)) js" "distinct js"
    and "\<forall>x \<in> set xs. fill_ok x \<and> o_quantity x \<le> o_filled x + FILL_EPS"
  shows "if i \<in> set js then comp_filled i xs \<le> F i \<and> F i \<le> comp_filled i xs + FILL_EPS
         else comp_filled i xs = 0"
  using assms
proof (induction js arbitrary: xs)
  case Nil
  then show ?case by (simp add: comp_filled_def)
next
  case (Cons j js)
  then obtain x ys where xs: "xs = x # ys" by (cases xs) auto
  have x: "o_leg_index x = Some j" "o_is_compensation x" "o_quantity x = F j"
      "o_filled x \<le> o_quantity x" "o_quantity x \<le> o_filled x + FILL_EPS"
    using Cons.prems by (auto simp: xs view_def fill_ok_def)
  have "if i \<in> set js then comp_filled i ys \<le> F i \<and> F i \<le> comp_filled i ys + FILL_EPS
         else comp_filled i ys = 0"
    by (rule Cons.IH) (use Cons.prems in \<open>auto simp: xs\<close>)
  moreover have "comp_filled i xs = (if i = j then o_filled x else 0) + comp_filled i ys"
    using x(1,2) by (simp add: comp_filled_def xs)
  ultimately show ?case using x Cons.prems(2) by (auto split: if_splits)
qed

definition no_exposure :: "order_intent \<Rightarrow> oms_order list \<Rightarrow> oms_order list \<Rightarrow> bool" where
  "no_exposure intent orders comps \<longleftrightarrow>
     (\<forall>i < length (oi_legs intent).
        comp_filled i comps \<le> max 0 (filled_qty_for_leg i orders) \<and>
        filled_qty_for_leg i orders - comp_filled i comps \<le> FILL_EPS * of_nat (max 1 (length orders))) \<and>
     (\<forall>x \<in> set comps. \<exists>i < length (oi_legs intent).
        o_leg_index x = Some i \<and> o_side x = Some (reverse_side (leg_side (oi_legs intent ! i))))"

lemma filled_le_count:
  "\<forall>x \<in> set xs. \<not> (\<not> o_is_compensation x \<and> FILL_EPS < o_filled x) \<Longrightarrow>
   filled_qty_for_leg i xs \<le> FILL_EPS * of_nat (length xs)"
proof (induction xs)
  case (Cons x xs)
  have "0 \<le> FILL_EPS" by (simp add: FILL_EPS_def)
  with Cons show ?case by (auto simp: of_leg_def distrib_left)
qed simp

lemma no_fills_no_exposure:
  assumes "compensation_complete [] orders"
  shows "no_exposure intent orders []"
proof -
  have "\<forall>x \<in> set orders. \<not> (\<not> o_is_compensation x \<and> FILL_EPS < o_filled x)"
    using assms by (auto simp: compensation_complete_def list_ex_iff)
  then have f: "filled_qty_for_leg i orders \<le> FILL_EPS * of_nat (length orders)" for i
    by (rule filled_le_count)
  have "(of_nat (length orders) :: rat) \<le> of_nat (max 1 (length orders))" by (simp only: of_nat_le_iff)
  then have "FILL_EPS * of_nat (length orders) \<le> FILL_EPS * of_nat (max 1 (length orders))"
    by (rule mult_left_mono) (simp add: FILL_EPS_def)
  with f show ?thesis by (auto simp: no_exposure_def comp_filled_def intro: order_trans)
qed

lemma compensated_no_exposure:
  assumes v: "map view comps =
      map (\<lambda>i. (Some i, True, filled_qty_for_leg i orders, Some (reverse_side (leg_side (oi_legs intent ! i)))))
        (filter (\<lambda>i. FILL_EPS < filled_qty_for_leg i orders) [0..<length (oi_legs intent)])"
    and f: "list_all fill_ok comps" and c: "compensation_complete comps orders"
  shows "no_exposure intent orders comps"
proof (cases "comps = []")
  case True
  with c show ?thesis using no_fills_no_exposure by simp
next
  case False
  let ?js = "filter (\<lambda>i. FILL_EPS < filled_qty_for_leg i orders) [0..<length (oi_legs intent)]"
  have all: "\<forall>x \<in> set comps. fill_ok x \<and> o_quantity x \<le> o_filled x + FILL_EPS"
    using False f c by (auto simp: compensation_complete_def list_all_iff)
  have eps: "0 \<le> FILL_EPS" "FILL_EPS \<le> FILL_EPS * of_nat (max 1 (length orders))"
    by (simp_all add: FILL_EPS_def)
  have leg: "comp_filled i comps \<le> max 0 (filled_qty_for_leg i orders) \<and>
        filled_qty_for_leg i orders - comp_filled i comps \<le> FILL_EPS * of_nat (max 1 (length orders))"
    if "i < length (oi_legs intent)" for i
    using comp_filled_views [OF v _ all, of i] that eps by (auto split: if_splits)
  have "\<exists>i < length (oi_legs intent). o_leg_index x = Some i \<and>
      o_side x = Some (reverse_side (leg_side (oi_legs intent ! i)))" if "x \<in> set comps" for x
  proof -
    have "view x \<in> set (map view comps)" using that by simp
    then show ?thesis unfolding v by (auto simp: view_def)
  qed
  with leg show ?thesis by (simp add: no_exposure_def)
qed

text \<open>The parts of the states that the bookkeeping steps leave alone.\<close>

lemma fail_critical_latch:
  assumes "fail_critical b intent s = (b', s')"
  shows "b_state b' = B_CRITICAL"
    and "oi_account_id intent = Some a \<Longrightarrow>
         is_open_blocked (Some a) (oi_strategy_id intent) s' \<and>
         (a, oi_signal_id intent, b_action b, oi_strategy_id intent) \<in> set (scheduled s')"
  using assms
  by (auto simp: fail_critical_def mark_critical_def is_open_blocked_def save_basket_def log_event_def Let_def)

lemma compensate_filled_orders:
  assumes "compensate_filled env intent sub otype s = ((Inr comps, sub'), s')" "honest_broker (base env)"
    and "\<forall>x \<in> set sub. is_wait_terminal x"
  shows "list_all2 evolves sub sub' \<and> list_all fill_ok comps \<and>
     (comps = [] \<or>
      map view comps =
        map (\<lambda>i. (Some i, True, filled_qty_for_leg i sub, Some (reverse_side (leg_side (oi_legs intent ! i)))))
          (filter (\<lambda>i. FILL_EPS < filled_qty_for_leg i sub) [0..<length (oi_legs intent)]))"
  using assms comp_legs_orders [OF _ assms(2,3), of intent otype _ "[]"]
  by (auto simp: compensate_filled_def split: if_splits)

lemma unwind_outcome:
  assumes "unwind env intent otype b sub s = (r, s')"
  shows "bx_intent r = intent \<and>
     (b_state (bx_basket r) = B_CRITICAL \<and>
        (\<forall>a. oi_account_id intent = Some a \<longrightarrow>
           is_open_blocked (Some a) (oi_strategy_id intent) s' \<and>
           (a, oi_signal_id intent, b_action b, oi_strategy_id intent) \<in> set (scheduled s')) \<or>
      b_state (bx_basket r) = B_COMPENSATED \<and> compensation_complete (bx_compensation_orders r) (bx_orders r))"
  using assms fail_critical_latch [of "b\<lparr>b_state := B_UNWINDING\<rparr>" intent]
  by (auto simp: unwind_def Let_def settle_all_def split: if_splits prod.splits sum.splits)

lemma unwind_no_exposure:
  assumes u: "unwind env intent otype b sub s = (r, s')" and h: "honest_broker (base env)"
    and "b_state (bx_basket r) = B_COMPENSATED"
  shows "no_exposure intent (bx_orders r) (bx_compensation_orders r)"
proof -
  let ?s0 = "log_event ''BASKET_UNWINDING'' (save_basket (b\<lparr>b_state := B_UNWINDING\<rparr>) s)"
  obtain sub0 s1 where st0: "settle_all env sub ?s0 = (sub0, s1)" by fastforce
  obtain c sub1 s2 where cw: "cancel_working env sub0 s1 = (c, sub1, s2)" by (metis prod_cases3)
  obtain sub2 s3 where st2: "settle_all env sub1 s2 = (sub2, s3)" by fastforce
  obtain q sub3 s4 where cf: "compensate_filled env intent sub2 otype s3 = ((q, sub3), s4)"
    by (metis prod.exhaust)
  note crit = fail_critical_latch(1)
  have c: "c" and "\<exists>comps. q = Inr comps"
    using u assms(3) st0 cw st2 cf
    by (auto simp: unwind_def Let_def split: if_splits sum.splits prod.splits dest: crit)
  then obtain comps where q: "q = Inr comps" by blast
  define comps1 where "comps1 = map (settle (base env) (io_step s4)) comps"
  define sub4 where "sub4 = map (settle (base env) (io_step s4)) sub3"
  have r: "bx_orders r = sub4" "bx_compensation_orders r = comps1" "compensation_complete comps1 sub4"
    using u assms(3) st0 cw st2 cf c q
    by (auto simp: unwind_def Let_def comps1_def sub4_def split: if_splits prod.splits dest: crit)
  have t1: "\<forall>x \<in> set sub1. is_wait_terminal x" using cancel_working_evolves [OF h cw] c by blast
  have t2: "\<forall>x \<in> set sub2. is_wait_terminal x"
    using filled_fixed [OF settle_all_evolves [OF h st2] t1] by blast
  note k = compensate_filled_orders [OF cf [unfolded q] h t2]
  have "list_all2 evolves sub2 sub4"
    using k evolve_settle [OF h] evolve_list_trans unfolding sub4_def by blast
  then have F: "filled_qty_for_leg i sub4 = filled_qty_for_leg i sub2" for i
    using filled_fixed [OF _ t2] by blast
  have v1: "map view comps1 = map view comps"
    using h by (simp add: comps1_def honest_broker_def)
  have f1: "list_all fill_ok comps1"
    using k leg_cap_evolves [OF evolve_settle [OF h, of comps "io_step s4"]] by (simp add: comps1_def)
  show ?thesis
  proof (cases "comps = []")
    case True
    with r show ?thesis using no_fills_no_exposure by (simp add: comps1_def)
  next
    case False
    with k v1 have "map view comps1 =
        map (\<lambda>i. (Some i, True, filled_qty_for_leg i sub4, Some (reverse_side (leg_side (oi_legs intent ! i)))))
          (filter (\<lambda>i. FILL_EPS < filled_qty_for_leg i sub4) [0..<length (oi_legs intent)])"
      by (simp add: F)
    from compensated_no_exposure [OF this f1] r show ?thesis by simp
  qed
qed

lemma comp_legs_evolves:
  assumes "comp_legs env orig otype is sub created s = ((q, sub'), s')" "honest_broker (base env)"
  shows "list_all2 evolves sub sub'"
  using assms(1)
proof (induction "is" arbitrary: sub created s)
  case (Cons i "is")
  show ?case
  proof (cases "filled_qty_for_leg i sub \<le> FILL_EPS")
    case True
    with Cons show ?thesis by simp
  next
    case False
    let ?now = "utc_now (base env) (io_step s)"
    let ?ci = "compensation_intent orig i (filled_qty_for_leg i sub) ?now"
    obtain res s1 where res: "submit_intent (base env) ?ci (pass_rms ?ci ?now) None None otype s = (res, s1)"
      by fastforce
    obtain r sub1 s2 where ch: "comp_children env i (compensation_of i sub) (er_orders res) sub created s1 = ((r, sub1), s2)"
      by (metis prod.exhaust)
    have e: "list_all2 evolves sub sub1" using comp_children_orders [OF ch assms(2)] by blast
    show ?thesis
    proof (cases r)
      case (Inl x)
      with Cons.prems False res ch e show ?thesis by (simp add: Let_def)
    next
      case (Inr cr1)
      with Cons.prems False res ch have "comp_legs env orig otype is sub1 cr1 s2 = ((q, sub'), s')"
        by (simp add: Let_def)
      from evolve_list_trans [OF e Cons.IH [OF this]] show ?thesis .
    qed
  qed
qed simp

lemma unwind_evolves:
  assumes "unwind env intent otype b sub s = (r, s')" and h: "honest_broker (base env)"
  shows "list_all2 evolves sub (bx_orders r)"
proof -
  let ?s0 = "log_event ''BASKET_UNWINDING'' (save_basket (b\<lparr>b_state := B_UNWINDING\<rparr>) s)"
  obtain sub0 s1 where st0: "settle_all env sub ?s0 = (sub0, s1)" by fastforce
  obtain c sub1 s2 where cw: "cancel_working env sub0 s1 = (c, sub1, s2)" by (metis prod_cases3)
  obtain sub2 s3 where st2: "settle_all env sub1 s2 = (sub2, s3)" by fastforce
  obtain q sub3 s4 where cf: "compensate_filled env intent sub2 otype s3 = ((q, sub3), s4)"
    by (metis prod.exhaust)
  have e1: "list_all2 evolves sub sub1"
    using evolve_list_trans [OF settle_all_evolves [OF h st0]] cancel_working_evolves [OF h cw] by blast
  have e2: "list_all2 evolves sub sub2" by (rule evolve_list_trans [OF e1 settle_all_evolves [OF h st2]])
  have "list_all2 evolves sub2 sub3"
    using cf comp_legs_evolves [OF _ h] by (auto simp: compensate_filled_def split: if_splits)
  then have e3: "list_all2 evolves sub sub3" by (rule evolve_list_trans [OF e2])
  then have e4: "list_all2 evolves sub (map (settle (base env) (io_step s4)) sub3)"
    by (rule evolve_list_trans) (rule evolve_settle [OF h])
  show ?thesis
    using assms(1) st0 cw st2 cf e1 e3 e4
    by (auto simp: unwind_def Let_def split: if_splits sum.splits prod.splits)
qed

text \<open>The stages of a run that returns.\<close>

lemma execute_stages:
  assumes "execute env intent0 rms otype pk s = (Inr r, s')"
  obtains (parked) intent s0 sub0 s1 sub1 where
      "attach env intent0 = Inr intent"
      "submit_loop env intent rms (utc_now (base env) (io_step s0)) otype [0..<length (oi_legs intent)] [] s0 = (Inr sub0, s1)"
      "settle_all env sub0 s1 = (sub1, s')" "list_ex is_disconnect_parked sub1"
      "b_state (bx_basket r) = B_EXECUTING" "bx_intent r = intent" "bx_orders r = sub1" "bx_compensation_orders r = []"
  | (ran) intent s0 sub0 s1 sub1 s2 sub2 s3 sub3 s4 where
      "attach env intent0 = Inr intent"
      "submit_loop env intent rms (utc_now (base env) (io_step s0)) otype [0..<length (oi_legs intent)] [] s0 = (Inr sub0, s1)"
      "settle_all env sub0 s1 = (sub1, s2)"
      "(if basket_complete intent sub1 then (Inr sub1, s2) else retry_incomplete env intent sub1 otype s2) = (Inr sub2, s3)"
      "(if length sub2 > length sub1 then settle_all env sub2 s3 else (sub2, s3)) = (sub3, s4)"
      "bx_intent r = intent"
      "basket_complete intent sub3 \<and> bx_orders r = sub3 \<and> bx_compensation_orders r = [] \<and>
         b_state (bx_basket r) = (if oi_action intent = CLOSE then B_CLOSED else B_OPEN) \<or>
       \<not> basket_complete intent sub3 \<and>
         (\<exists>b. b_action b = oi_action intent \<and> unwind env intent otype b sub3 s4 = (r, s'))"
proof -
  obtain intent where a: "attach env intent0 = Inr intent"
    using assms by (cases "attach env intent0") (auto simp: execute_def)
  define b where "b = \<lparr>b_account_id = oi_account_id intent, b_trade_id = oi_signal_id intent,
      b_strategy_id = oi_strategy_id intent, b_action = oi_action intent,
      b_intended_leg_count = length (oi_legs intent), b_state = B_EXECUTING,
      b_signal_pk = pk, b_recovery_status = None\<rparr>"
  define s0 where "s0 = log_event ''BASKET_EXECUTING'' (log_event ''BASKET_CREATED'' (save_basket b s))"
  obtain sub0 s1 where sl: "submit_loop env intent rms (utc_now (base env) (io_step s0)) otype
      [0..<length (oi_legs intent)] [] s0 = (Inr sub0, s1)"
    using assms a by (cases "submit_loop env intent rms (utc_now (base env) (io_step s0)) otype
      [0..<length (oi_legs intent)] [] s0"; cases "fst (submit_loop env intent rms (utc_now (base env) (io_step s0)) otype
      [0..<length (oi_legs intent)] [] s0)") (auto simp: execute_def Let_def s0_def b_def)
  obtain sub1 s2 where st: "settle_all env sub0 s1 = (sub1, s2)" by fastforce
  show thesis
  proof (cases "list_ex is_disconnect_parked sub1")
    case True
    show thesis
      by (rule parked [OF a sl]) (use assms a sl st True in \<open>auto simp: execute_def Let_def s0_def b_def\<close>)
  next
    case False
    obtain q s3 where q: "(if basket_complete intent sub1 then (Inr sub1, s2)
        else retry_incomplete env intent sub1 otype s2) = (q, s3)" by (metis prod.exhaust)
    from assms a sl st False q obtain sub2 where q2: "q = Inr sub2"
      by (cases q) (auto simp: execute_def Let_def s0_def b_def)
    obtain sub3 s4 where st3: "(if length sub2 > length sub1 then settle_all env sub2 s3 else (sub2, s3)) = (sub3, s4)"
      by (metis prod.exhaust)
    show thesis
    proof (rule ran [OF a sl st q [unfolded q2] st3])
      show "bx_intent r = intent"
        using assms a sl st False q q2 st3 unwind_outcome [of env intent otype b sub3 s4]
        by (auto simp: execute_def Let_def s0_def b_def split: if_splits prod.splits)
      show "basket_complete intent sub3 \<and> bx_orders r = sub3 \<and> bx_compensation_orders r = [] \<and>
         b_state (bx_basket r) = (if oi_action intent = CLOSE then B_CLOSED else B_OPEN) \<or>
       \<not> basket_complete intent sub3 \<and>
         (\<exists>b. b_action b = oi_action intent \<and> unwind env intent otype b sub3 s4 = (r, s'))"
        using assms a sl st False q q2 st3
        by (auto simp: execute_def Let_def s0_def b_def split: if_splits prod.splits
            intro!: exI [of _ b])
    qed
  qed
qed

lemma pool_ok_empty: "legs_ok intent \<Longrightarrow> pool_ok intent []"
  by (simp add: pool_ok_def legs_ok_def)

lemma submitted_pool:
  assumes "submit_loop env intent rms received otype [0..<length (oi_legs intent)] [] s0 = (Inr sub0, s1)"
    and "settle_all env sub0 s1 = (sub1, s2)" "honest_broker (base env)" "legs_ok intent"
  shows "pool_ok intent sub1"
  using submit_loop_pool [OF assms(1,3,4) pool_ok_empty [OF assms(4)]] pool_ok_settle [OF assms(2,3)]
  by auto

section \<open>Properties\<close>


text \<open>A broker that fills every order for one symbol and rejects every other one.\<close>

definition sample_oms_env :: oms_env where
  "sample_oms_env =
     \<lparr>resolve = (\<lambda>leg m. Inr \<lparr>ri_symbol = leg_symbol leg, ri_requested_instrument_type = ''STK'',
        ri_sec_type = ''STK'', ri_exchange = ''SMART'', ri_currency = ''USD'', ri_con_id = None,
        ri_market_data_con_id = None, ri_multiplier = 1, ri_primary_exchange = None, ri_size_increment = None\<rparr>),
      place = (\<lambda>n x. Inr (x\<lparr>o_status := SUBMITTED, o_ibkr_order_id := Some (int n)\<rparr>)),
      settle = (\<lambda>n x. if is_wait_terminal x then x
                     else if o_symbol x = ''AAPL'' then x\<lparr>o_status := FILLED, o_filled := o_quantity x\<rparr>
                     else x\<lparr>o_status := REJECTED\<rparr>),
      cancel_ok = (\<lambda>n x. True), utc_now = int\<rparr>"

lemma sample_env_honest:
  "honest_broker (sample_oms_env\<lparr>place := (\<lambda>n x. if fill_ok x then place sample_oms_env n x else Inl [])\<rparr>)"
  by (auto simp: honest_broker_def sample_oms_env_def view_def fill_ok_def is_wait_terminal_def
      is_disconnect_parked_def)

definition sample_coord_env :: coord_env where
  "sample_coord_env =
     \<lparr>base = sample_oms_env\<lparr>place := (\<lambda>n x. if fill_ok x then place sample_oms_env n x else Inl [])\<rparr>,
      attach = Inr, kill_active = (\<lambda>n a. False), monotonic = of_nat, rms_ctx = (\<lambda>n. empty_rms_context 0)\<rparr>"

definition sample_basket_leg :: "string \<Rightarrow> order_side \<Rightarrow> order_leg" where
  "sample_basket_leg name sd =
     \<lparr>leg_symbol = name, leg_side = sd, leg_quantity = 10, leg_price = 5, leg_contract_month = None,
      leg_con_id = None, leg_notional = None, leg_instrument_type = None, leg_weight = None,
      leg_leg_index = None, leg_metadata = None, leg_exchange = None, leg_currency = None, leg_resolved = None\<rparr>"

definition sample_basket_intent :: order_intent where
  "sample_basket_intent =
     \<lparr>oi_signal_id = ''T1'', oi_strategy_id = ''blue'', oi_action = OPEN,
      oi_legs = [sample_basket_leg ''AAPL'' BUY, sample_basket_leg ''MSFT'' SELL],
      oi_account_id = Some 1, oi_ibkr_account = None, oi_market = None, oi_timestamp = 0,
      oi_intent_mode = MODE_OPEN\<rparr>"

definition sample_coordinator :: coordinator where
  "sample_coordinator =
     \<lparr>io_step = 0, tracked = Map.empty, submitted_signals = {}, retry_policy = None, fill_timeout = 10,
      paper_retries_allowed = False, rms_wired = True, retry_ids = {}, critical = {}, saved_baskets = [],
      events = [], scheduled = []\<rparr>"

definition sample_run :: "basket_execution_result result \<times> coordinator" where
  "sample_run = execute sample_coord_env sample_basket_intent (pass_rms sample_basket_intent 0) ''MARKET'' None
     sample_coordinator"

lemma sample_run_result:
  "\<exists>r s'. sample_run = (Inr r, s') \<and> b_state (bx_basket r) = B_COMPENSATED \<and>
     bx_intent r = sample_basket_intent \<and> filled_qty_for_leg 0 (bx_orders r) = 10 \<and>
     length (bx_compensation_orders r) = 1"
proof -
  have "case sample_run of
      (Inl e, s') \<Rightarrow> False
    | (Inr r, s') \<Rightarrow> b_state (bx_basket r) = B_COMPENSATED \<and> bx_intent r = sample_basket_intent \<and>
        filled_qty_for_leg 0 (bx_orders r) = 10 \<and> length (bx_compensation_orders r) = 1"
    by code_simp
  then show ?thesis by (auto split: prod.splits sum.splits)
qed


lemma sample_honest: "honest_broker (base sample_coord_env)"
  using sample_env_honest by (simp add: sample_coord_env_def)

lemma sample_legs: "legs_ok sample_basket_intent"
  by (simp add: legs_ok_def sample_basket_intent_def sample_basket_leg_def)





end
