(* ===== verification/Persist_Coalescer.thy ===== *)
theory Persist_Coalescer
  imports Oms_Models
begin

text \<open>
  \<open>_persist_broker_snapshot_coalesced\<close> of \<open>oms/coordinator.py\<close>: broker callbacks of one order
  are merged into one write at a time. The sections under \<open>_persist_lock\<close> contain no await, and an
  uncontended asyncio lock does not suspend, so a call runs without interruption up to the write of
  its batch, and again from the end of the write to the next write or its return. These are the
  steps below: a callback, the end of a write, a write that raises. \<open>batch\<close> holds the kinds of
  the write in progress and the kind of the call that performs it.
\<close>

type_synonym kind = string

record coalescer =
  inflight :: "string set"
  dirty :: "string set"
  kinds :: "string \<rightharpoonup> kind set"
  batch :: "string \<rightharpoonup> kind set \<times> kind"

definition new_coalescer :: coalescer where
  "new_coalescer = \<lparr>inflight = {}, dirty = {}, kinds = Map.empty, batch = Map.empty\<rparr>"

text \<open>The head of the loop: take all kinds collected so far.\<close>

definition take_batch :: "string \<Rightarrow> kind \<Rightarrow> coalescer \<Rightarrow> coalescer" where
  "take_batch oid kind c =
     (let collected = get_or (kinds c) oid {};
          persist_kinds = (if collected = {} then {kind} else collected)
      in c\<lparr>dirty := dirty c - {oid}, kinds := (kinds c)(oid \<mapsto> {}), batch := (batch c)(oid \<mapsto> (persist_kinds, kind))\<rparr>)"

definition callback :: "string \<Rightarrow> kind \<Rightarrow> coalescer \<Rightarrow> coalescer" where
  "callback oid kind c =
     (let c1 = c\<lparr>kinds := (kinds c)(oid \<mapsto> insert kind (get_or (kinds c) oid {}))\<rparr>
      in if oid \<in> inflight c1 then c1\<lparr>dirty := insert oid (dirty c1)\<rparr>
         else take_batch oid kind (c1\<lparr>inflight := insert oid (inflight c1)\<rparr>))"

text \<open>The write ended: stop when nothing came in, else write again.\<close>

definition write_done :: "string \<Rightarrow> coalescer \<Rightarrow> coalescer" where
  "write_done oid c =
     (case batch c oid of
        None \<Rightarrow> c
      | Some (ks, kind) \<Rightarrow>
          if oid \<notin> dirty c
          then c\<lparr>kinds := (kinds c)(oid := None), inflight := inflight c - {oid}, batch := (batch c)(oid := None)\<rparr>
          else take_batch oid kind c)"

text \<open>The write raised: only \<open>finally\<close> runs.\<close>

definition write_failed :: "string \<Rightarrow> coalescer \<Rightarrow> coalescer" where
  "write_failed oid c =
     (case batch c oid of
        None \<Rightarrow> c
      | Some _ \<Rightarrow> c\<lparr>inflight := inflight c - {oid}, batch := (batch c)(oid := None)\<rparr>)"

section \<open>Runs\<close>

text \<open>History of one order: kinds reported, kinds written, kinds of writes that raised.\<close>

record history =
  arrived :: "string \<Rightarrow> kind set"
  written :: "string \<Rightarrow> kind set"
  failed_kinds :: "string \<Rightarrow> kind set"

definition batch_kinds :: "coalescer \<Rightarrow> string \<Rightarrow> kind set" where
  "batch_kinds c oid = (case batch c oid of None \<Rightarrow> {} | Some (ks, _) \<Rightarrow> ks)"

definition busy :: "coalescer \<Rightarrow> string \<Rightarrow> bool" where
  "busy c oid \<longleftrightarrow> batch c oid \<noteq> None"

definition pending :: "coalescer \<Rightarrow> string \<Rightarrow> kind set" where
  "pending c oid = get_or (kinds c) oid {}"

inductive coalesce :: "coalescer \<Rightarrow> history \<Rightarrow> bool" where
  start: "coalesce new_coalescer \<lparr>arrived = (\<lambda>_. {}), written = (\<lambda>_. {}), failed_kinds = (\<lambda>_. {})\<rparr>"
| reported: "coalesce c h \<Longrightarrow>
     coalesce (callback oid kind c) (h\<lparr>arrived := (arrived h)(oid := insert kind (arrived h oid))\<rparr>)"
| wrote: "\<lbrakk>coalesce c h; oid \<in> inflight c\<rbrakk> \<Longrightarrow>
     coalesce (write_done oid c) (h\<lparr>written := (written h)(oid := written h oid \<union> batch_kinds c oid)\<rparr>)"
| raised: "\<lbrakk>coalesce c h; oid \<in> inflight c\<rbrakk> \<Longrightarrow>
     coalesce (write_failed oid c)
       (h\<lparr>failed_kinds := (failed_kinds h)(oid := failed_kinds h oid \<union> batch_kinds c oid)\<rparr>)"

definition coalesce_inv :: "coalescer \<Rightarrow> history \<Rightarrow> string \<Rightarrow> bool" where
  "coalesce_inv c h oid \<longleftrightarrow>
     arrived h oid = written h oid \<union> failed_kinds h oid \<union> batch_kinds c oid \<union> pending c oid \<and>
     (oid \<in> inflight c \<longleftrightarrow> busy c oid) \<and> (busy c oid \<longleftrightarrow> batch_kinds c oid \<noteq> {}) \<and>
     (oid \<in> inflight c \<longrightarrow> (oid \<in> dirty c \<longleftrightarrow> pending c oid \<noteq> {})) \<and>
     (oid \<notin> inflight c \<longrightarrow> failed_kinds h oid = {} \<longrightarrow> pending c oid = {})"

lemma pending_update [simp]:
  "pending (c\<lparr>kinds := (kinds c)(oid := v)\<rparr>) k =
     (if k = oid then (case v of None \<Rightarrow> {} | Some s \<Rightarrow> s) else pending c k)"
  by (auto simp: pending_def get_or_def)

lemma take_batch_simps:
  "inflight (take_batch oid kind c) = inflight c"
  "dirty (take_batch oid kind c) = dirty c - {oid}"
  "pending (take_batch oid kind c) k = (if k = oid then {} else pending c k)"
  "batch_kinds (take_batch oid kind c) k =
     (if k = oid then (if pending c oid = {} then {kind} else pending c oid) else batch_kinds c k)"
  "busy (take_batch oid kind c) k \<longleftrightarrow> k = oid \<or> busy c k"
  by (auto simp: take_batch_def Let_def pending_def batch_kinds_def busy_def get_or_def)

lemma callback_inv:
  assumes "coalesce_inv c h k"
  shows "coalesce_inv (callback oid kind c) (h\<lparr>arrived := (arrived h)(oid := insert kind (arrived h oid))\<rparr>) k"
proof (cases "oid \<in> inflight c")
  case True
  then have "callback oid kind c =
      c\<lparr>kinds := (kinds c)(oid \<mapsto> insert kind (pending c oid)), dirty := insert oid (dirty c)\<rparr>"
    by (simp add: callback_def pending_def Let_def)
  with assms True show ?thesis
    by (auto simp: coalesce_inv_def batch_kinds_def busy_def pending_def)
next
  case False
  let ?c = "c\<lparr>kinds := (kinds c)(oid \<mapsto> insert kind (pending c oid)), inflight := insert oid (inflight c)\<rparr>"
  have cb: "callback oid kind c = take_batch oid kind ?c"
    using False by (simp add: callback_def pending_def Let_def)
  have p: "pending ?c oid = insert kind (pending c oid)" "\<And>j. j \<noteq> oid \<Longrightarrow> pending ?c j = pending c j"
      "\<And>j. busy ?c j = busy c j" "\<And>j. batch_kinds ?c j = batch_kinds c j"
    by (auto simp: pending_def batch_kinds_def busy_def)
  show ?thesis
  proof (cases "k = oid")
    case True
    have "batch_kinds c oid = {}" using assms False True unfolding coalesce_inv_def by blast
    with assms True show ?thesis
      unfolding cb coalesce_inv_def by (simp add: take_batch_simps p)
  next
    case other: False
    with assms show ?thesis
      unfolding cb coalesce_inv_def by (simp add: take_batch_simps p)
  qed
qed

lemma write_done_inv:
  assumes "\<And>k. coalesce_inv c h k" "oid \<in> inflight c"
  shows "coalesce_inv (write_done oid c) (h\<lparr>written := (written h)(oid := written h oid \<union> batch_kinds c oid)\<rparr>) k"
proof -
  obtain ks kind where b: "batch c oid = Some (ks, kind)"
    using assms(1) [of oid] assms(2) by (auto simp: coalesce_inv_def busy_def)
  have d: "oid \<in> dirty c \<longleftrightarrow> pending c oid \<noteq> {}"
    using assms(1) [of oid] assms(2) by (simp add: coalesce_inv_def)
  show ?thesis
  proof (cases "oid \<in> dirty c")
    case True
    then have "write_done oid c = take_batch oid kind c" by (simp add: write_done_def b)
    with assms(1) [of k] assms(2) True d show ?thesis
      by (auto simp: coalesce_inv_def take_batch_simps)
  next
    case False
    let ?c = "c\<lparr>kinds := (kinds c)(oid := None), inflight := inflight c - {oid}, batch := (batch c)(oid := None)\<rparr>"
    have w: "write_done oid c = ?c" using False by (simp add: write_done_def b)
    have p: "pending ?c j = (if j = oid then {} else pending c j)"
        "batch_kinds ?c j = (if j = oid then {} else batch_kinds c j)"
        "busy ?c j \<longleftrightarrow> j \<noteq> oid \<and> busy c j" for j
      by (auto simp: pending_def batch_kinds_def busy_def get_or_def)
    from assms(1) [of k] False d show ?thesis
      unfolding w coalesce_inv_def p by (auto split: if_splits)
  qed
qed

lemma write_failed_inv:
  assumes "\<And>k. coalesce_inv c h k" "oid \<in> inflight c"
  shows "coalesce_inv (write_failed oid c)
    (h\<lparr>failed_kinds := (failed_kinds h)(oid := failed_kinds h oid \<union> batch_kinds c oid)\<rparr>) k"
proof -
  obtain ks kind where b: "batch c oid = Some (ks, kind)"
    using assms(1) [of oid] assms(2) by (auto simp: coalesce_inv_def busy_def)
  let ?c = "c\<lparr>inflight := inflight c - {oid}, batch := (batch c)(oid := None)\<rparr>"
  have w: "write_failed oid c = ?c" by (simp add: write_failed_def b)
  have p: "pending ?c j = pending c j" "batch_kinds ?c j = (if j = oid then {} else batch_kinds c j)"
      "busy ?c j \<longleftrightarrow> j \<noteq> oid \<and> busy c j" for j
    by (auto simp: pending_def batch_kinds_def busy_def)
  have ne: "batch_kinds c oid \<noteq> {}"
    using assms(1) [of oid] assms(2) unfolding coalesce_inv_def by blast
  from assms(1) [of k] ne show ?thesis
    unfolding w coalesce_inv_def p by auto
qed

lemma coalesce_reach_inv: "coalesce c h \<Longrightarrow> coalesce_inv c h k"
proof (induction arbitrary: k rule: coalesce.induct)
  case start
  then show ?case
    by (simp add: coalesce_inv_def new_coalescer_def batch_kinds_def busy_def pending_def)
next
  case (reported c h oid kind)
  then show ?case by (simp add: callback_inv)
next
  case (wrote c h oid)
  then show ?case using write_done_inv by blast
next
  case (raised c h oid)
  then show ?case using write_failed_inv by blast
qed

section \<open>Properties\<close>

text \<open>C36. Merging broker callbacks loses nothing while the database accepts writes. In every run of
  callbacks, finished and failed writes, at most one write per order is in progress; every kind
  reported for an order has been written, is in the write in progress, is waiting for the next one,
  or was in a write that raised; and when no write is in progress and none of the order's writes
  raised, everything reported has been written. A kind whose write raised is not written again by
  itself, and what was waiting then stays until the next callback, which takes all of it.\<close>

theorem coalescer_loses_nothing:
  assumes "coalesce c h"
  shows "arrived h oid = written h oid \<union> failed_kinds h oid \<union> batch_kinds c oid \<union> pending c oid \<and>
         (oid \<notin> inflight c \<and> failed_kinds h oid = {} \<longrightarrow> written h oid = arrived h oid) \<and>
         (oid \<notin> inflight c \<longrightarrow> batch_kinds (callback oid kind c) oid = insert kind (pending c oid))"
proof -
  note inv = coalesce_reach_inv [OF assms, of oid]
  have "batch_kinds (callback oid kind c) oid = insert kind (pending c oid)" if "oid \<notin> inflight c"
    using that by (simp add: callback_def take_batch_simps pending_def Let_def)
  with inv show ?thesis unfolding coalesce_inv_def by auto
qed

theorem coalescer_loses_nothing_witness:
  "written
     \<lparr>arrived = (\<lambda>_. {})(''O1'' := {''FILL''}), written = (\<lambda>_. {})(''O1'' := {} \<union> {''FILL''}), failed_kinds = (\<lambda>_. {})\<rparr>
     ''O1'' = {''FILL''}"
proof -
  let ?h0 = "\<lparr>arrived = (\<lambda>_. {}), written = (\<lambda>_. {}), failed_kinds = (\<lambda>_. {})\<rparr> :: history"
  let ?c1 = "callback ''O1'' ''FILL'' new_coalescer"
  have c1: "coalesce ?c1 (?h0\<lparr>arrived := (arrived ?h0)(''O1'' := insert ''FILL'' (arrived ?h0 ''O1''))\<rparr>)"
    by (rule coalesce.reported [OF coalesce.start])
  have i1: "''O1'' \<in> inflight ?c1" "batch_kinds ?c1 ''O1'' = {''FILL''}" "dirty ?c1 = {}"
    by (auto simp: callback_def take_batch_simps new_coalescer_def pending_def Let_def)
  have c2: "coalesce (write_done ''O1'' ?c1)
     \<lparr>arrived = (\<lambda>_. {})(''O1'' := {''FILL''}), written = (\<lambda>_. {})(''O1'' := {} \<union> {''FILL''}), failed_kinds = (\<lambda>_. {})\<rparr>"
    using coalesce.wrote [OF c1 i1(1)] by (simp add: i1(2))
  have "''O1'' \<notin> inflight (write_done ''O1'' ?c1)"
    using i1(3) by (auto simp: write_done_def callback_def take_batch_def new_coalescer_def Let_def split: option.splits)
  with coalescer_loses_nothing [OF c2, of "''O1''" "''ACK''"] show ?thesis by simp
qed

end
