(* ===== verification/Basket_Recovery.thy ===== *)
theory Basket_Recovery
  imports Coordinator "HOL-Library.AList"
begin

text \<open>
  The parts of \<open>oms/coordinator.py\<close> that run outside \<open>execute\<close>: the restart scan over
  incomplete baskets, the completeness test on persisted orders, the idempotency keys of broker
  events, and the identity under which retries and unwinds are persisted. Rows of the database are
  records; dictionaries that are counted or iterated are association lists.
\<close>

section \<open>Completeness from persisted orders\<close>

record db_order =
  d_is_compensation :: bool
  d_fill_qty :: "rat option"
  d_leg :: "string option"
  d_quantity :: "rat option"

definition or_zero :: "rat option \<Rightarrow> rat" where
  "or_zero q = (case q of None \<Rightarrow> 0 | Some v \<Rightarrow> v)"

definition leg_key :: "db_order \<Rightarrow> string" where
  "leg_key x = (case d_leg x of Some (c # cs) \<Rightarrow> c # cs | _ \<Rightarrow> ''L0'')"

definition al_get :: "(string \<times> rat) list \<Rightarrow> string \<Rightarrow> rat" where
  "al_get al k = (case map_of al k of None \<Rightarrow> 0 | Some v \<Rightarrow> v)"

fun leg_totals ::
  "db_order list \<Rightarrow> (string \<times> rat) list \<Rightarrow> (string \<times> rat) list \<Rightarrow> (string \<times> rat) list \<times> (string \<times> rat) list" where
  "leg_totals [] fills targets = (fills, targets)"
| "leg_totals (x # xs) fills targets =
     (if d_is_compensation x then leg_totals xs fills targets
      else
        (let k = leg_key x in
         leg_totals xs (AList.update k (al_get fills k + or_zero (d_fill_qty x)) fills)
           (AList.update k (max (al_get targets k) (or_zero (d_quantity x))) targets)))"

definition basket_complete_from_db_orders :: "nat \<Rightarrow> db_order list \<Rightarrow> bool" where
  "basket_complete_from_db_orders intended_leg_count orders =
     (case leg_totals orders [] [] of
        (fills, targets) \<Rightarrow>
          if length targets < intended_leg_count then False
          else list_all (\<lambda>(k, target). \<not> al_get fills k + FILL_EPS < target) targets)"

section \<open>The restart scan\<close>

record basket_row =
  row_account :: int
  row_trade :: string
  row_strategy :: string
  row_action :: order_action
  row_leg_count :: nat
  row_orders :: "db_order list"

definition has_partial_fill :: "db_order list \<Rightarrow> bool" where
  "has_partial_fill orders =
     list_ex (\<lambda>x. \<not> d_is_compensation x \<and> or_zero (d_fill_qty x) > FILL_EPS) orders"

text \<open>One row of \<open>list_incomplete\<close>: nothing filled, or all filled, leaves it; anything in between is
  critical.\<close>

definition recover_row :: "basket_row \<Rightarrow> coordinator \<Rightarrow> coordinator" where
  "recover_row row s =
     (if \<not> has_partial_fill (row_orders row) then s
      else if basket_complete_from_db_orders (row_leg_count row) (row_orders row) then s
      else
        (let b = \<lparr>b_account_id = Some (row_account row), b_trade_id = row_trade row,
                  b_strategy_id = row_strategy row, b_action = row_action row,
                  b_intended_leg_count = row_leg_count row, b_state = B_CRITICAL, b_signal_pk = None,
                  b_recovery_status = None\<rparr>;
             s1 = mark_critical (Some (row_account row)) (row_strategy row) (save_basket b s);
             s2 = log_event ''BASKET_RECOVER_CRITICAL'' s1
         in s2\<lparr>scheduled := scheduled s2 @ [(row_account row, row_trade row, row_action row, row_strategy row)]\<rparr>))"

definition recover_incomplete_baskets :: "bool \<Rightarrow> basket_row list \<Rightarrow> coordinator \<Rightarrow> coordinator" where
  "recover_incomplete_baskets is_connected rows s = (if \<not> is_connected then s else fold recover_row rows s)"

section \<open>Event keys\<close>

definition event_idempotency_key :: "(decimal \<Rightarrow> string) \<Rightarrow> string \<Rightarrow> oms_order option \<Rightarrow> string option" where
  "event_idempotency_key show_qty kind order =
     (case order of
        None \<Rightarrow> None
      | Some x \<Rightarrow>
          (let exec = (case o_last_exec_id x of Some (c # cs) \<Rightarrow> Some (c # cs) | _ \<Rightarrow> None) in
           if kind = ''BROKER_ACK'' then Some (''broker_ack:'' @ o_id x)
           else if kind = ''FILL'' then Some (''fill:'' @ o_id x)
           else if kind = ''PARTIAL_FILL'' then
             (case exec of
                Some e \<Rightarrow> Some (''partial:'' @ e)
              | None \<Rightarrow> Some (''partial:'' @ o_id x @ '':'' @ show_qty (o_filled x)))
           else if kind = ''COMMISSION'' then map_option (\<lambda>e. ''commission:'' @ e) exec
           else None))"

definition PERSIST_EVENT_KIND_ORDER :: "string list" where
  "PERSIST_EVENT_KIND_ORDER =
     [''BROKER_ACK'', ''PARTIAL_FILL'', ''FILL'', ''REJECTED'', ''CANCELLED'', ''ERROR'']"

definition event_kinds :: "string set \<Rightarrow> string list" where
  "event_kinds kind_set = filter (\<lambda>k. k \<in> kind_set) PERSIST_EVENT_KIND_ORDER"

section \<open>What the totals are\<close>

definition own :: "string \<Rightarrow> db_order \<Rightarrow> bool" where
  "own k x \<longleftrightarrow> \<not> d_is_compensation x \<and> leg_key x = k"

definition leg_fill :: "string \<Rightarrow> db_order list \<Rightarrow> rat" where
  "leg_fill k xs = sum_list (map (or_zero \<circ> d_fill_qty) (filter (own k) xs))"

definition leg_target :: "string \<Rightarrow> db_order list \<Rightarrow> rat" where
  "leg_target k xs = fold max (map (or_zero \<circ> d_quantity) (filter (own k) xs)) 0"

lemma al_get_update [simp]: "al_get (AList.update k v al) j = (if j = k then v else al_get al j)"
  by (simp add: al_get_def update_conv')

lemma leg_totals_eq:
  assumes "leg_totals xs fills targets = (f, t)"
  shows "al_get f k = al_get fills k + leg_fill k xs"
    and "al_get t k = fold max (map (or_zero \<circ> d_quantity) (filter (own k) xs)) (al_get targets k)"
    and "fst ` set t = fst ` set targets \<union> {leg_key x | x. x \<in> set xs \<and> \<not> d_is_compensation x}"
    and "distinct (map fst targets) \<Longrightarrow> distinct (map fst t)"
proof -
  have "al_get f k = al_get fills k + leg_fill k xs \<and>
     al_get t k = fold max (map (or_zero \<circ> d_quantity) (filter (own k) xs)) (al_get targets k) \<and>
     fst ` set t = fst ` set targets \<union> {leg_key x | x. x \<in> set xs \<and> \<not> d_is_compensation x} \<and>
     (distinct (map fst targets) \<longrightarrow> distinct (map fst t))"
    using assms
  proof (induction xs arbitrary: fills targets)
    case (Cons x xs)
    show ?case
    proof (cases "d_is_compensation x")
      case True
      with Cons show ?thesis by (auto simp: own_def leg_fill_def)
    next
      case False
      let ?k = "leg_key x"
      let ?f = "AList.update ?k (al_get fills ?k + or_zero (d_fill_qty x)) fills"
      let ?t = "AList.update ?k (max (al_get targets ?k) (or_zero (d_quantity x))) targets"
      have keys: "fst ` set ?t = insert ?k (fst ` set targets)"
        by (simp add: dom_update)
      from Cons.prems False have "leg_totals xs ?f ?t = (f, t)" by (simp add: Let_def)
      note ih = Cons.IH [OF this]
      have own: "filter (own k) (x # xs) = (if k = ?k then x # filter (own k) xs else filter (own k) xs)"
        using False by (simp add: own_def)
      have "al_get f k = al_get fills k + leg_fill k (x # xs)"
        using ih own by (simp add: leg_fill_def)
      moreover have "al_get t k =
          fold max (map (or_zero \<circ> d_quantity) (filter (own k) (x # xs))) (al_get targets k)"
        using ih own by (simp add: max.commute [of "or_zero (d_quantity x)"] comp_def)
      moreover have "fst ` set t = fst ` set targets \<union> {leg_key y | y. y \<in> set (x # xs) \<and> \<not> d_is_compensation y}"
        using ih keys False by auto
      moreover have "distinct (map fst targets) \<longrightarrow> distinct (map fst t)"
        using ih by (simp add: distinct_update)
      ultimately show ?thesis by blast
    qed
  qed (simp add: leg_fill_def)
  then show "al_get f k = al_get fills k + leg_fill k xs"
    and "al_get t k = fold max (map (or_zero \<circ> d_quantity) (filter (own k) xs)) (al_get targets k)"
    and "fst ` set t = fst ` set targets \<union> {leg_key x | x. x \<in> set xs \<and> \<not> d_is_compensation x}"
    and "distinct (map fst targets) \<Longrightarrow> distinct (map fst t)"
    by simp_all
qed

definition leg_keys :: "db_order list \<Rightarrow> string set" where
  "leg_keys xs = {leg_key x | x. x \<in> set xs \<and> \<not> d_is_compensation x}"

lemma complete_from_db_iff:
  "basket_complete_from_db_orders n xs \<longleftrightarrow>
     n \<le> card (leg_keys xs) \<and> (\<forall>k \<in> leg_keys xs. leg_target k xs \<le> leg_fill k xs + FILL_EPS)"
proof -
  obtain f t where lt: "leg_totals xs [] [] = (f, t)" by fastforce
  note e = leg_totals_eq [OF lt]
  have keys: "fst ` set t = leg_keys xs" using e(3) by (simp add: leg_keys_def)
  have dist: "distinct (map fst t)" using e(4) by simp
  have len: "length t = card (leg_keys xs)"
    using distinct_card [OF dist] keys by simp
  have val: "(k, v) \<in> set t \<Longrightarrow> v = leg_target k xs" for k v
  proof -
    assume "(k, v) \<in> set t"
    then have "map_of t k = Some v" using dist by simp
    then have "al_get t k = v" by (simp add: al_get_def)
    with e(2) [of k] show ?thesis by (simp add: leg_target_def al_get_def)
  qed
  have "list_all (\<lambda>(k, target). \<not> al_get f k + FILL_EPS < target) t \<longleftrightarrow>
      (\<forall>k \<in> leg_keys xs. leg_target k xs \<le> leg_fill k xs + FILL_EPS)"
    unfolding keys [symmetric] using val e(1)
    by (force simp: list_all_iff al_get_def not_less)
  with len show ?thesis by (auto simp: basket_complete_from_db_orders_def lt not_less)
qed

section \<open>Properties\<close>

definition escalates :: "basket_row \<Rightarrow> bool" where
  "escalates row \<longleftrightarrow>
     has_partial_fill (row_orders row) \<and>
     \<not> (row_leg_count row \<le> card (leg_keys (row_orders row)) \<and>
        (\<forall>k \<in> leg_keys (row_orders row).
           leg_target k (row_orders row) \<le> leg_fill k (row_orders row) + FILL_EPS))"

lemma recover_row_frame:
  "critical (recover_row row s) =
     (if escalates row then insert (row_account row, row_strategy row) (critical s) else critical s)"
  "set (scheduled (recover_row row s)) =
     (if escalates row then insert (row_account row, row_trade row, row_action row, row_strategy row) (set (scheduled s))
      else set (scheduled s))"
  by (auto simp: recover_row_def escalates_def complete_from_db_iff mark_critical_def save_basket_def
      log_event_def Let_def)

lemma recover_rows:
  "critical (fold recover_row rows s) =
     critical s \<union> {(row_account row, row_strategy row) | row. row \<in> set rows \<and> escalates row}"
  "set (scheduled (fold recover_row rows s)) =
     set (scheduled s) \<union>
     {(row_account row, row_trade row, row_action row, row_strategy row) | row. row \<in> set rows \<and> escalates row}"
  by (induction rows arbitrary: s) (auto simp: recover_row_frame)

text \<open>After a restart with the broker connected, the accounts and strategies blocked for new
  positions are those blocked before together with exactly those of the incomplete baskets that
  have a fill on some leg while a leg is missing or short of its largest order; for each such basket
  a recovery is scheduled. Baskets without fills, and those the ledger shows complete, block
  nothing; with the broker disconnected nothing changes.\<close>

theorem restart_blocks_partial_baskets:
  "(let s' = recover_incomplete_baskets True rows s in
      (\<forall>a strat. is_open_blocked (Some a) strat s' \<longleftrightarrow>
         is_open_blocked (Some a) strat s \<or>
         (\<exists>row. row \<in> set rows \<and> escalates row \<and> row_account row = a \<and> row_strategy row = strat)) \<and>
      (\<forall>row. row \<in> set rows \<and> escalates row \<longrightarrow>
         (row_account row, row_trade row, row_action row, row_strategy row) \<in> set (scheduled s'))) \<and>
   recover_incomplete_baskets False rows s = s"
  using recover_rows [of rows s]
  by (auto simp: recover_incomplete_baskets_def is_open_blocked_def Let_def)

definition sample_basket_row :: basket_row where
  "sample_basket_row =
     \<lparr>row_account = 1, row_trade = ''T1'', row_strategy = ''blue'', row_action = OPEN, row_leg_count = 2,
      row_orders = [\<lparr>d_is_compensation = False, d_fill_qty = Some 4, d_leg = Some ''L0'', d_quantity = Some 10\<rparr>]\<rparr>"

theorem restart_blocks_partial_baskets_witness:
  "is_open_blocked (Some 1) ''blue''
     (recover_incomplete_baskets True [sample_basket_row]
        \<lparr>io_step = 0, tracked = Map.empty, submitted_signals = {}, retry_policy = None, fill_timeout = 10,
         paper_retries_allowed = False, rms_wired = True, retry_ids = {}, critical = {}, saved_baskets = [],
         events = [], scheduled = []\<rparr>)"
proof -
  have "leg_keys (row_orders sample_basket_row) = {''L0''}"
    by (auto simp: leg_keys_def leg_key_def sample_basket_row_def)
  then have "escalates sample_basket_row"
    by (simp add: escalates_def has_partial_fill_def or_zero_def FILL_EPS_def) (simp add: sample_basket_row_def)
  with restart_blocks_partial_baskets [of "[sample_basket_row]"] show ?thesis
    by (simp add: Let_def) (simp add: sample_basket_row_def)
qed

lemma py_before_skip:
  "c \<notin> set s \<Longrightarrow> py_before (c # sep) (s @ u) = s @ py_before (c # sep) u"
  by (induction s) auto

text \<open>Retries and unwinds are persisted under the identity of the signal they come from: for a
  trade id without a colon, and for its close signal, the retry and unwind signals that the
  coordinator derives map to the same signal and the same trade as the original.\<close>

theorem derived_signals_keep_identity:
  assumes "CHR '':'' \<notin> set t"
  shows "persist_signal_identity (oi_signal_id (retry_intent (i\<lparr>oi_signal_id := t\<rparr>) leg rem k a now)) = (t, t) \<and>
         persist_signal_identity (oi_signal_id (retry_intent (i\<lparr>oi_signal_id := t @ '':CLOSE''\<rparr>) leg rem k a now)) =
           (t, t @ '':CLOSE'') \<and>
         persist_signal_identity (oi_signal_id (compensation_intent (i\<lparr>oi_signal_id := t\<rparr>) k q now)) = (t, t) \<and>
         persist_signal_identity (oi_signal_id (compensation_intent (i\<lparr>oi_signal_id := t @ '':CLOSE''\<rparr>) k q now)) =
           (t, t @ '':CLOSE'')"
proof -
  have d: "CHR '':'' \<notin> set (nat_digits n)" for n
    using nat_digits_digit [of "CHR '':''" n] by (auto simp: py_isdigit_def char_code_def)
  have s: "py_before ('':'' @ sep) (t @ u) = t @ py_before ('':'' @ sep) u" for sep u
    using py_before_skip [OF assms] by simp
  have dg: "py_before ('':'' @ sep) (nat_digits n @ u) = nat_digits n @ py_before ('':'' @ sep) u" for sep u n
    using py_before_skip [OF d] by simp
  note r = s [where sep = "''RETRY:''"] s [where sep = "''UNWIND:''"] s [where sep = "''CLOSE''"]
    s [where sep = "''RETRY:''" and u = "[]"] s [where sep = "''UNWIND:''" and u = "[]"]
    s [where sep = "''CLOSE''" and u = "[]"]
    dg [where sep = "''RETRY:''"] dg [where sep = "''UNWIND:''"]
    dg [where sep = "''RETRY:''" and u = "[]"] dg [where sep = "''UNWIND:''" and u = "[]"]
  show ?thesis
    using r by (simp add: persist_signal_identity_def retry_intent_def compensation_intent_def Let_def)
qed

theorem derived_signals_keep_identity_witness:
  "persist_signal_identity (oi_signal_id (compensation_intent
     (\<lparr>oi_signal_id = ''T1'', oi_strategy_id = [], oi_action = OPEN, oi_legs = [], oi_account_id = None,
       oi_ibkr_account = None, oi_market = None, oi_timestamp = 0, oi_intent_mode = MODE_OPEN\<rparr>
      \<lparr>oi_signal_id := ''T1''\<rparr>) 0 1 0)) = (''T1'', ''T1'')"
  using derived_signals_keep_identity [of "''T1''"
      "\<lparr>oi_signal_id = ''T1'', oi_strategy_id = [], oi_action = OPEN, oi_legs = [], oi_account_id = None,
       oi_ibkr_account = None, oi_market = None, oi_timestamp = 0, oi_intent_mode = MODE_OPEN\<rparr>"]
  by simp

end
