(* ===== verification/Session_Clock.thy ===== *)
theory Session_Clock
  imports Prelude
begin

text \<open>
  The exchange session clock behind the red zone gate (\<open>services/session_clock.py\<close>).

  A day is the number of days since 0001-01-01, so that \<open>weekday()\<close> is its remainder modulo seven
  and midnight on the wall clock is the day times the length of a day. The \<open>exchange_calendars\<close>
  object is an argument, absent when it cannot be built; each of its methods answers or raises. The
  conversion to New York time is an argument too. The holiday file is a list of rows; a row whose
  date is malformed makes the reader stop with what it has and no range.
\<close>

type_synonym day = int

definition weekday :: "day \<Rightarrow> int" where
  "weekday d = d mod 7"

definition combine :: "day \<Rightarrow> int \<Rightarrow> int \<Rightarrow> datetime" where
  "combine d h m = d * usec_per_day + seconds (h * 3600 + m * 60)"

definition date_of :: "datetime \<Rightarrow> day" where
  "date_of t = t div usec_per_day"

section \<open>The holiday file\<close>

datatype csv_date = Blank | Malformed | Iso day

record csv_row =
  cr_date :: csv_date
  cr_holiday_name :: string
  cr_is_early_close :: string
  cr_close_time_et :: string

record csv_entry =
  ce_holiday_name :: string
  ce_is_early_close :: bool
  ce_close_time_et :: string

type_synonym csv_schedule = "(day \<rightharpoonup> csv_entry) \<times> (day \<times> day) option"

definition csv_entry_of :: "csv_row \<Rightarrow> csv_entry" where
  "csv_entry_of row =
     \<lparr>ce_holiday_name = py_strip (cr_holiday_name row),
      ce_is_early_close = (py_lower (py_strip (cr_is_early_close row)) = ''true''),
      ce_close_time_et = py_strip (cr_close_time_et row)\<rparr>"

fun csv_loop :: "csv_row list \<Rightarrow> (day \<rightharpoonup> csv_entry) \<Rightarrow> day list \<Rightarrow> csv_schedule" where
  "csv_loop [] sched dates =
     (sched, if dates = [] then None else Some (Min (set dates), Max (set dates)))"
| "csv_loop (row # rows) sched dates =
     (case cr_date row of
        Blank \<Rightarrow> csv_loop rows sched dates
      | Malformed \<Rightarrow> (sched, None)
      | Iso d \<Rightarrow> csv_loop rows (sched(d \<mapsto> csv_entry_of row)) (dates @ [d]))"

definition load_csv_schedule :: "csv_row list option \<Rightarrow> csv_schedule" where
  "load_csv_schedule rows =
     (case rows of None \<Rightarrow> (Map.empty, None) | Some rs \<Rightarrow> csv_loop rs Map.empty [])"

section \<open>The calendar\<close>

record exchange_calendar =
  cal_is_session :: "day \<Rightarrow> bool result"
  cal_open :: "day \<Rightarrow> datetime result"
  cal_close :: "day \<Rightarrow> datetime result"
  cal_next_open_date :: "day \<Rightarrow> day result"
  cal_previous_close_date :: "day \<Rightarrow> day result"
  cal_regular_holiday :: "day \<Rightarrow> string option result"
  cal_adhoc_holidays :: "day list result"

record session_world =
  cal :: "exchange_calendar option"
  csv :: csv_schedule
  fallback_holidays :: "day set"
  fallback_half :: "day set"
  to_et :: "datetime \<Rightarrow> datetime"

text \<open>The exceptions that the lookups of opening and closing times catch.\<close>

definition caught :: "py_error \<Rightarrow> bool" where
  "caught e = (case e of KeyError \<Rightarrow> True | ValueError _ \<Rightarrow> True | AttributeError \<Rightarrow> True
                       | RuntimeError _ \<Rightarrow> True | _ \<Rightarrow> False)"

definition csv_trading_day :: "csv_schedule \<Rightarrow> day \<Rightarrow> bool" where
  "csv_trading_day c d =
     (case c of (sched, rng) \<Rightarrow>
        (case rng of
           None \<Rightarrow> False
         | Some (min_d, max_d) \<Rightarrow>
             if min_d \<le> d \<and> d \<le> max_d
             then if weekday d \<ge> 5 then False
                  else (case sched d of Some e \<Rightarrow> ce_is_early_close e | None \<Rightarrow> True)
             else False))"

definition is_trading_day :: "session_world \<Rightarrow> day \<Rightarrow> bool" where
  "is_trading_day w d =
     (if d \<in> fallback_holidays w then False
      else (case cal w of
              Some c \<Rightarrow> (case cal_is_session c d of Inr b \<Rightarrow> b | Inl _ \<Rightarrow> csv_trading_day (csv w) d)
            | None \<Rightarrow> csv_trading_day (csv w) d))"

definition calendar_holiday :: "exchange_calendar \<Rightarrow> day \<Rightarrow> string option" where
  "calendar_holiday c d =
     (case cal_is_session c d of
        Inr False \<Rightarrow>
          (case cal_regular_holiday c d of
             Inr (Some nm) \<Rightarrow>
               (let name = py_strip nm in
                Some (if name = ''July 4th'' then ''Independence Day''
                      else if name = ''President''@[CHR 0x27]@''s Day'' then ''Presidents''@[CHR 0x27]@'' Day''
                      else name))
           | _ \<Rightarrow> None)
      | _ \<Rightarrow> None)"

definition get_holiday_reason :: "session_world \<Rightarrow> day \<Rightarrow> string" where
  "get_holiday_reason w d =
     (if weekday d = 5 then ''Saturday''
      else if weekday d = 6 then ''Sunday''
      else
        (case (case cal w of
                 None \<Rightarrow> None
               | Some c \<Rightarrow>
                   (case calendar_holiday c d of
                      Some name \<Rightarrow> Some name
                    | None \<Rightarrow> (case cal_adhoc_holidays c of
                                 Inr ds \<Rightarrow> if d \<in> set ds then Some ''Special Non-Trading Day'' else None
                               | Inl _ \<Rightarrow> None))) of
           Some name \<Rightarrow> name
         | None \<Rightarrow>
             (case fst (csv w) d of
                Some e \<Rightarrow> if \<not> ce_is_early_close e then ce_holiday_name e
                          else if \<not> is_trading_day w d then ''NYSE Holiday'' else []
              | None \<Rightarrow> if \<not> is_trading_day w d then ''NYSE Holiday'' else [])))"

section \<open>Opening and closing times\<close>

text \<open>A time of the calendar, \<open>None\<close> when the day is no session, the default when the lookup raises
  one of the caught exceptions.\<close>

definition calendar_time ::
  "exchange_calendar \<Rightarrow> (exchange_calendar \<Rightarrow> day \<Rightarrow> datetime result) \<Rightarrow> day \<Rightarrow>
   datetime option result \<Rightarrow> datetime option result" where
  "calendar_time c f d dflt =
     (case cal_is_session c d of
        Inl e \<Rightarrow> if caught e then dflt else Inl e
      | Inr False \<Rightarrow> Inr None
      | Inr True \<Rightarrow> (case f c d of
                       Inr t \<Rightarrow> Inr (Some t)
                     | Inl e \<Rightarrow> if caught e then dflt else Inl e))"

definition rth_open_for :: "session_world \<Rightarrow> day \<Rightarrow> datetime option result" where
  "rth_open_for w d =
     (let dflt = Inr (Some (combine d 9 30)) in
      if \<not> is_trading_day w d then Inr None
      else (case cal w of None \<Rightarrow> dflt | Some c \<Rightarrow> calendar_time c cal_open d dflt))"

text \<open>\<open>time(int(parts[0]), int(parts[1]))\<close> combined with the day.\<close>

definition csv_close :: "day \<Rightarrow> string \<Rightarrow> datetime option result" where
  "csv_close d txt =
     (let parts = py_split (CHR '':'') txt in
      res_bind (py_int (parts ! 0)) (\<lambda>h.
        if length parts < 2 then Inl IndexError
        else res_bind (py_int (parts ! 1)) (\<lambda>m.
          if 0 \<le> h \<and> h < 24 \<and> 0 \<le> m \<and> m < 60 then Inr (Some (combine d h m))
          else Inl (ValueError ''time out of range''))))"

definition rth_close_for :: "session_world \<Rightarrow> day \<Rightarrow> datetime option result" where
  "rth_close_for w d =
     (let from_csv =
            (case fst (csv w) d of
               Some e \<Rightarrow> if ce_is_early_close e \<and> ce_close_time_et e \<noteq> []
                         then csv_close d (ce_close_time_et e) else Inr (Some (combine d 16 0))
             | None \<Rightarrow> Inr (Some (combine d 16 0)))
      in if \<not> is_trading_day w d then Inr None
         else if d \<in> fallback_half w then Inr (Some (combine d 13 0))
         else (case cal w of None \<Rightarrow> from_csv | Some c \<Rightarrow> calendar_time c cal_close d from_csv))"

text \<open>The bounded searches for a neighbouring trading day.\<close>

fun search_day :: "session_world \<Rightarrow> int \<Rightarrow> nat \<Rightarrow> day \<Rightarrow> day" where
  "search_day w delta 0 cur = cur"
| "search_day w delta (Suc n) cur =
     (if is_trading_day w cur then cur else search_day w delta n (cur + delta))"

definition neighbour_day ::
  "session_world \<Rightarrow> (exchange_calendar \<Rightarrow> day \<Rightarrow> day result) \<Rightarrow> int \<Rightarrow> day \<Rightarrow> day result" where
  "neighbour_day w f delta d =
     (case cal w of
        None \<Rightarrow> Inr (search_day w delta 15 (d + delta))
      | Some c \<Rightarrow> (case f c d of
                     Inr x \<Rightarrow> Inr x
                   | Inl e \<Rightarrow> if caught e then Inr (search_day w delta 15 (d + delta)) else Inl e))"

definition next_trading_day :: "session_world \<Rightarrow> day \<Rightarrow> day result" where
  "next_trading_day w d = neighbour_day w cal_next_open_date 1 d"

definition prev_trading_day :: "session_world \<Rightarrow> day \<Rightarrow> day result" where
  "prev_trading_day w d = neighbour_day w cal_previous_close_date (-1) d"

section \<open>The clock\<close>

record session_clock =
  buffer_seconds :: int
  post_open_delay_seconds :: int
  gateway_max_wait :: timedelta

text \<open>An aware \<open>datetime\<close> in UTC, or one without a zone.\<close>

datatype stamp = Naive datetime | Aware datetime

definition require_aware :: "stamp \<Rightarrow> datetime result" where
  "require_aware s =
     (case s of Aware t \<Rightarrow> Inr t | Naive _ \<Rightarrow> Inl (ValueError ''SessionClock requires aware datetime''))"

definition in_red_zone_et :: "session_world \<Rightarrow> session_clock \<Rightarrow> datetime \<Rightarrow> bool result" where
  "in_red_zone_et w clk now_et =
     res_bind (rth_open_for w (date_of now_et)) (\<lambda>open_today.
       case open_today of
         None \<Rightarrow> Inr True
       | Some op \<Rightarrow>
           if now_et < op then Inr True
           else if now_et < op + seconds (post_open_delay_seconds clk) then Inr True
           else res_bind (rth_close_for w (date_of now_et)) (\<lambda>close_today.
             case close_today of
               None \<Rightarrow> Inl AssertionError
             | Some cl \<Rightarrow> Inr (now_et \<ge> cl - seconds (buffer_seconds clk))))"

definition in_red_zone :: "session_world \<Rightarrow> session_clock \<Rightarrow> stamp \<Rightarrow> bool result" where
  "in_red_zone w clk now =
     res_bind (require_aware now) (\<lambda>t. in_red_zone_et w clk (to_et w t))"

definition projected_in_red_zone :: "session_world \<Rightarrow> session_clock \<Rightarrow> stamp \<Rightarrow> bool result" where
  "projected_in_red_zone w clk now =
     res_bind (require_aware now) (\<lambda>t. in_red_zone w clk (Aware (t + gateway_max_wait clk)))"

definition resolved_session_close :: "session_world \<Rightarrow> stamp \<Rightarrow> datetime option result" where
  "resolved_session_close w now =
     res_bind (require_aware now) (\<lambda>t.
       let now_et = to_et w t; d = date_of now_et in
       res_bind (rth_close_for w d) (\<lambda>close_today.
         case close_today of
           None \<Rightarrow> res_bind (prev_trading_day w d) (rth_close_for w)
         | Some cl \<Rightarrow>
             res_bind (rth_open_for w d) (\<lambda>open_today.
               case open_today of
                 None \<Rightarrow> Inl AssertionError
               | Some op \<Rightarrow> if now_et < op then res_bind (prev_trading_day w d) (rth_close_for w)
                            else Inr (Some cl))))"

text \<open>The loop over the days after the deferral; the number of days left is the fuel and is exact.\<close>

fun count_sessions ::
  "session_world \<Rightarrow> datetime \<Rightarrow> datetime \<Rightarrow> nat \<Rightarrow> day \<Rightarrow> int \<Rightarrow> int result" where
  "count_sessions w deferred now 0 cur count = Inr count"
| "count_sessions w deferred now (Suc n) cur count =
     res_bind (rth_close_for w cur) (\<lambda>c.
       count_sessions w deferred now n (cur + 1)
         (case c of
            Some cl \<Rightarrow> if deferred < cl \<and> cl \<le> now then count + 1 else count
          | None \<Rightarrow> count))"

definition deferred_session_count :: "session_world \<Rightarrow> stamp \<Rightarrow> stamp \<Rightarrow> int result" where
  "deferred_session_count w deferred_at now =
     res_bind (require_aware deferred_at) (\<lambda>a. res_bind (require_aware now) (\<lambda>b.
       let da = to_et w a; db = to_et w b; cur = date_of da + 1 in
       count_sessions w da db (nat (date_of db - cur + 1)) cur 0))"

section \<open>Facts\<close>

lemma rth_none_iff_not_trading:
  "is_trading_day w d \<Longrightarrow> rth_open_for w d = Inr (Some op) \<Longrightarrow> rth_close_for w d \<noteq> Inr None"
  by (auto simp: rth_open_for_def rth_close_for_def calendar_time_def csv_close_def Let_def res_bind_Inr_iff
      split: option.splits sum.splits bool.splits if_splits)

lemma rth_open_trading: "rth_open_for w d = Inr (Some op) \<Longrightarrow> is_trading_day w d"
  by (auto simp: rth_open_for_def Let_def split: if_splits)

text \<open>A day with an opening time has a closing time unless the lookup raises: the assertion of the
  clock never fails.\<close>

lemma in_red_zone_no_assertion: "in_red_zone w clk now \<noteq> Inl AssertionError \<or>
    (\<exists>d. rth_open_for w d = Inl AssertionError \<or> rth_close_for w d = Inl AssertionError)"
  using rth_none_iff_not_trading [OF rth_open_trading]
  by (auto simp: in_red_zone_def in_red_zone_et_def require_aware_def res_bind_def
      split: sum.splits option.splits stamp.splits if_splits)

text \<open>The sessions counted: days after the deferral whose closing time has passed.\<close>

definition closed_since :: "session_world \<Rightarrow> datetime \<Rightarrow> datetime \<Rightarrow> day \<Rightarrow> bool" where
  "closed_since w deferred now d \<longleftrightarrow>
     (\<exists>cl. rth_close_for w d = Inr (Some cl) \<and> deferred < cl \<and> cl \<le> now)"

lemma count_sessions_card:
  assumes "\<And>d. cur \<le> d \<Longrightarrow> d < cur + int n \<Longrightarrow> is_ok (rth_close_for w d)"
  shows "count_sessions w a b n cur k =
           Inr (k + int (card {d. cur \<le> d \<and> d < cur + int n \<and> closed_since w a b d}))"
  using assms
proof (induction n arbitrary: cur k)
  case (Suc n)
  let ?S = "{d. cur + 1 \<le> d \<and> d < cur + 1 + int n \<and> closed_since w a b d}"
  have fin: "finite ?S" by (rule finite_subset [of _ "{cur + 1 ..< cur + 1 + int n}"]) auto
  have "{d. cur \<le> d \<and> d < cur + int (Suc n) \<and> closed_since w a b d} =
          (if closed_since w a b cur then insert cur ?S else ?S)"
    by (auto simp: order_le_less)
  moreover obtain c where c: "rth_close_for w cur = Inr c"
    using Suc.prems [of cur] by (cases "rth_close_for w cur") auto
  moreover have "closed_since w a b cur \<longleftrightarrow> (case c of None \<Rightarrow> False | Some cl \<Rightarrow> a < cl \<and> cl \<le> b)"
    using c by (auto simp: closed_since_def split: option.splits)
  moreover have "count_sessions w a b n (cur + 1) k' = Inr (k' + int (card ?S))" for k'
    by (rule Suc.IH) (rule Suc.prems, auto)
  ultimately show ?case using fin by (auto split: option.splits)
next
  case (0 cur k)
  have "{d. cur \<le> d \<and> d < cur + int 0 \<and> closed_since w a b d} = {}" by auto
  then show ?case by (simp only: count_sessions.simps card.empty) simp
qed

section \<open>Properties\<close>

text \<open>Trading is allowed exactly inside the session window. A reading of the clock is outside
  the red zone if and only if its day in New York has an opening and a closing time and the time is
  at or after the opening plus the post-open delay and before the closing time less the buffer; a
  reading without a zone raises; and when neither the calendar nor the holiday file is available,
  every time is in the red zone.\<close>

theorem red_zone_window:
  "(in_red_zone w clk (Aware t) = Inr False \<longleftrightarrow>
      (\<exists>op cl. rth_open_for w (date_of (to_et w t)) = Inr (Some op) \<and>
               rth_close_for w (date_of (to_et w t)) = Inr (Some cl) \<and>
               op \<le> to_et w t \<and> op + seconds (post_open_delay_seconds clk) \<le> to_et w t \<and>
               to_et w t < cl - seconds (buffer_seconds clk))) \<and>
   (projected_in_red_zone w clk (Aware t) = in_red_zone w clk (Aware (t + gateway_max_wait clk))) \<and>
   \<not> is_ok (in_red_zone w clk (Naive t)) \<and>
   (cal w = None \<and> snd (csv w) = None \<longrightarrow> in_red_zone w clk (Aware t) = Inr True)"
proof -
  have "in_red_zone w clk (Aware t) = Inr True" if "cal w = None" "snd (csv w) = None"
  proof -
    have "\<not> is_trading_day w d" for d
      using that by (cases "csv w") (simp add: is_trading_day_def csv_trading_day_def)
    then show ?thesis
      by (simp add: in_red_zone_def in_red_zone_et_def require_aware_def rth_open_for_def Let_def)
  qed
  moreover have "in_red_zone_et w clk et = Inr False \<longleftrightarrow>
      (\<exists>op cl. rth_open_for w (date_of et) = Inr (Some op) \<and> rth_close_for w (date_of et) = Inr (Some cl) \<and>
               op \<le> et \<and> op + seconds (post_open_delay_seconds clk) \<le> et \<and>
               et < cl - seconds (buffer_seconds clk))" for et
    by (auto simp: in_red_zone_et_def res_bind_def split: option.splits sum.splits)
  ultimately show ?thesis
    by (simp add: in_red_zone_def projected_in_red_zone_def require_aware_def)
qed

text \<open>Tuesday 8 September 2026 without a calendar: one second before the buffer starts trading is
  allowed. Without the holiday file the same time is in the red zone.\<close>

definition sample_world :: "csv_schedule \<Rightarrow> session_world" where
  "sample_world c =
     \<lparr>cal = None, csv = c, fallback_holidays = {}, fallback_half = {},
      to_et = (\<lambda>t. t - seconds 14400)\<rparr>"

definition sample_schedule :: csv_schedule where
  "sample_schedule =
     load_csv_schedule (Some
       [\<lparr>cr_date = Iso (ymd_ordinal 2026 9 7 - 1), cr_holiday_name = ''Labor Day'',
         cr_is_early_close = ''false'', cr_close_time_et = []\<rparr>,
        \<lparr>cr_date = Iso (ymd_ordinal 2026 11 27 - 1), cr_holiday_name = ''Day after Thanksgiving'',
         cr_is_early_close = '' True '', cr_close_time_et = ''13:00''\<rparr>])"

definition sample_clock :: session_clock where
  "sample_clock = \<lparr>buffer_seconds = 45, post_open_delay_seconds = 120, gateway_max_wait = seconds 8\<rparr>"

definition sample_time :: datetime where
  "sample_time = combine (ymd_ordinal 2026 9 8 - 1) 19 59 + seconds 14"

theorem red_zone_window_witness:
  "in_red_zone (sample_world sample_schedule) sample_clock (Aware sample_time) = Inr False \<and>
   in_red_zone (sample_world (load_csv_schedule None)) sample_clock (Aware sample_time) = Inr True"
proof -
  have "rth_open_for (sample_world sample_schedule) (date_of (to_et (sample_world sample_schedule) sample_time)) =
          Inr (Some (combine (ymd_ordinal 2026 9 8 - 1) 9 30))"
    by code_simp
  moreover have "rth_close_for (sample_world sample_schedule) (date_of (to_et (sample_world sample_schedule) sample_time)) =
          Inr (Some (combine (ymd_ordinal 2026 9 8 - 1) 16 0))"
    by code_simp
  moreover have "combine (ymd_ordinal 2026 9 8 - 1) 9 30 + seconds (post_open_delay_seconds sample_clock) \<le>
          to_et (sample_world sample_schedule) sample_time \<and>
        combine (ymd_ordinal 2026 9 8 - 1) 9 30 \<le> to_et (sample_world sample_schedule) sample_time \<and>
        to_et (sample_world sample_schedule) sample_time <
          combine (ymd_ordinal 2026 9 8 - 1) 16 0 - seconds (buffer_seconds sample_clock)"
    by code_simp
  moreover have "cal (sample_world (load_csv_schedule None)) = None \<and>
      snd (csv (sample_world (load_csv_schedule None))) = None"
    by code_simp
  ultimately show ?thesis
    using red_zone_window [of "sample_world sample_schedule" sample_clock sample_time]
      red_zone_window [of "sample_world (load_csv_schedule None)" sample_clock sample_time]
    by simp
qed

end
