(* ===== verification/Execution_Claims.thy ===== *)
theory Execution_Claims
  imports Rms_Models
begin

text \<open>
  The durable execution barrier (\<open>db/models/execution_claim.py\<close>,
  \<open>db/repositories/execution_claim_repository.py\<close>).

  The table is the list of its rows. The unique index on \<open>dedupe_key\<close> is the rule that the
  upsert of \<open>acquire\<close> inserts only when no row has the key; that it keeps keys distinct is a
  lemma. A statement is atomic; between the upsert and the query that diagnoses a conflict other
  transactions may commit, so the diagnosis reads a table of its own. Clock readings are arguments.

  The locale \<open>once_barrier\<close> states what a barrier promises its client, with an abstract status per
  key; it is interpreted on the repository's operations.
\<close>

section \<open>Rows, requests and errors\<close>

datatype claim_state = CLAIMED | EXECUTED | ABANDONED

record execution_claim =
  cl_dedupe_key :: string
  cl_account_id :: "int option"
  cl_strategy_id :: string
  cl_signal_id :: string
  cl_action :: string
  cl_state :: claim_state
  cl_attempt_count :: nat
  cl_correlation_id :: "string option"
  cl_last_note :: "string option"
  cl_claimed_at :: datetime
  cl_executed_at :: "datetime option"

type_synonym claim_table = "execution_claim list"

record claim_request =
  rq_dedupe_key :: string
  rq_account_id :: "int option"
  rq_strategy_id :: string
  rq_signal_id :: string
  rq_action :: string
  rq_correlation_id :: "string option"

datatype claim_error =
    DuplicateExecutionError string "datetime option" nat
  | ExecutionInFlightError string timedelta "string option"
  | ClaimNeedsReconciliationError string datetime timedelta
  | ClaimRowMissing string

section \<open>Operations\<close>

definition get_claim :: "string \<Rightarrow> claim_table \<Rightarrow> execution_claim option" where
  "get_claim key t = find (\<lambda>row. cl_dedupe_key row = key) t"

definition update_claims ::
  "(execution_claim \<Rightarrow> bool) \<Rightarrow> (execution_claim \<Rightarrow> execution_claim) \<Rightarrow> claim_table \<Rightarrow> bool \<times> claim_table" where
  "update_claims sel upd t =
     (list_ex sel t, map (\<lambda>row. if sel row then upd row else row) t)"

definition new_claim :: "datetime \<Rightarrow> claim_request \<Rightarrow> execution_claim" where
  "new_claim now r =
     \<lparr>cl_dedupe_key = rq_dedupe_key r, cl_account_id = rq_account_id r,
      cl_strategy_id = rq_strategy_id r, cl_signal_id = rq_signal_id r, cl_action = rq_action r,
      cl_state = CLAIMED, cl_attempt_count = 1, cl_correlation_id = rq_correlation_id r,
      cl_last_note = None, cl_claimed_at = now, cl_executed_at = None\<rparr>"

definition retake :: "datetime \<Rightarrow> claim_request \<Rightarrow> execution_claim \<Rightarrow> execution_claim" where
  "retake now r row =
     row\<lparr>cl_state := CLAIMED, cl_claimed_at := now, cl_attempt_count := cl_attempt_count row + 1,
         cl_correlation_id := rq_correlation_id r, cl_last_note := None\<rparr>"

text \<open>\<open>INSERT \<dots> ON CONFLICT (dedupe_key) DO UPDATE \<dots> WHERE state = 'ABANDONED' RETURNING\<close>: the row
  written, if one was.\<close>

definition claim_upsert ::
  "datetime \<Rightarrow> claim_request \<Rightarrow> claim_table \<Rightarrow> execution_claim option \<times> claim_table" where
  "claim_upsert now r t =
     (case get_claim (rq_dedupe_key r) t of
        None \<Rightarrow> (Some (new_claim now r), t @ [new_claim now r])
      | Some row \<Rightarrow>
          if cl_state row = ABANDONED
          then (Some (retake now r row),
                map (\<lambda>x. if cl_dedupe_key x = rq_dedupe_key r then retake now r x else x) t)
          else (None, t))"

definition diagnose_conflict ::
  "datetime \<Rightarrow> decimal \<Rightarrow> claim_request \<Rightarrow> execution_claim option \<Rightarrow> claim_error" where
  "diagnose_conflict now stale_after_sec r existing =
     (case existing of
        None \<Rightarrow> ClaimRowMissing (rq_dedupe_key r)
      | Some row \<Rightarrow>
          if cl_state row = EXECUTED
          then DuplicateExecutionError (rq_signal_id r) (cl_executed_at row) (cl_attempt_count row)
          else if of_int (now - cl_claimed_at row) < stale_after_sec * 1000000
          then ExecutionInFlightError (rq_signal_id r) (now - cl_claimed_at row) (cl_correlation_id row)
          else ClaimNeedsReconciliationError (rq_signal_id r) (cl_claimed_at row) (now - cl_claimed_at row))"

definition acquire_claim ::
  "datetime \<Rightarrow> decimal \<Rightarrow> claim_request \<Rightarrow> claim_table \<Rightarrow> claim_table \<Rightarrow>
   (claim_error + execution_claim) \<times> claim_table" where
  "acquire_claim now stale_after_sec r later t =
     (case claim_upsert now r t of
        (Some row, t') \<Rightarrow> (Inr row, t')
      | (None, t') \<Rightarrow>
          (Inl (diagnose_conflict now stale_after_sec r (get_claim (rq_dedupe_key r) later)), t'))"

definition mark_executed ::
  "datetime \<Rightarrow> string option \<Rightarrow> string \<Rightarrow> claim_table \<Rightarrow> bool \<times> claim_table" where
  "mark_executed now note key t =
     update_claims (\<lambda>row. cl_dedupe_key row = key \<and> cl_state row = CLAIMED)
       (\<lambda>row. row\<lparr>cl_state := EXECUTED, cl_executed_at := Some now, cl_last_note := note\<rparr>) t"

definition release_claim :: "string option \<Rightarrow> string \<Rightarrow> claim_table \<Rightarrow> bool \<times> claim_table" where
  "release_claim note key t =
     update_claims (\<lambda>row. cl_dedupe_key row = key \<and> cl_state row = CLAIMED)
       (\<lambda>row. row\<lparr>cl_state := ABANDONED, cl_last_note := note\<rparr>) t"

text \<open>The join of \<open>orders\<close> and \<open>signals\<close> is the list of the pairs (strategy, signal) of the orders
  written so far.\<close>

definition count_orders_emitted :: "(string \<times> string) list \<Rightarrow> string \<Rightarrow> string \<Rightarrow> nat" where
  "count_orders_emitted orders strategy_id signal_id =
     length (filter (\<lambda>x. x = (strategy_id, signal_id)) orders)"

definition has_claimed :: "string \<Rightarrow> string \<Rightarrow> claim_table \<Rightarrow> bool" where
  "has_claimed strategy_id signal_id t =
     list_ex (\<lambda>row. cl_strategy_id row = strategy_id \<and> cl_signal_id row = signal_id \<and>
                    cl_state row = CLAIMED) t"

definition sealed_note :: "nat \<Rightarrow> string" where
  "sealed_note emitted = ''Sealed by reconciliation: '' @ nat_digits emitted @ '' order(s) already emitted.''"

definition stale_claims :: "datetime \<Rightarrow> decimal \<Rightarrow> claim_table \<Rightarrow> execution_claim list" where
  "stale_claims now stale_after_sec t =
     filter (\<lambda>row. cl_state row = CLAIMED \<and>
                   of_int (cl_claimed_at row) < of_int now - stale_after_sec * 1000000) t"

fun seal_stale ::
  "(string \<times> string) list \<Rightarrow> datetime \<Rightarrow> execution_claim list \<Rightarrow> claim_table \<Rightarrow> nat \<times> claim_table" where
  "seal_stale orders now [] t = (0, t)"
| "seal_stale orders now (claim # claims) t =
     (let emitted = count_orders_emitted orders (cl_strategy_id claim) (cl_signal_id claim) in
      if emitted \<noteq> 0
      then (case seal_stale orders now claims
                   (snd (mark_executed now (Some (sealed_note emitted)) (cl_dedupe_key claim) t)) of
              (sealed, t') \<Rightarrow> (sealed + 1, t'))
      else seal_stale orders now claims t)"

text \<open>The counters of the result: released, which is never counted up, and sealed.\<close>

definition reconcile_stale_claims ::
  "(string \<times> string) list \<Rightarrow> datetime \<Rightarrow> decimal \<Rightarrow> claim_table \<Rightarrow> (nat \<times> nat) \<times> claim_table" where
  "reconcile_stale_claims orders now stale_after_sec t =
     (case seal_stale orders now (stale_claims now stale_after_sec t) t of
        (sealed, t') \<Rightarrow> ((0, sealed), t'))"

definition execution_dedupe_key :: "order_intent \<Rightarrow> string" where
  "execution_dedupe_key intent =
     (case oi_account_id intent of None \<Rightarrow> ''-'' | Some a \<Rightarrow> int_text a)
       @ '':'' @ oi_strategy_id intent @ '':'' @ oi_signal_id intent"

section \<open>The unique index\<close>

definition claims_ok :: "claim_table \<Rightarrow> bool" where
  "claims_ok t \<longleftrightarrow> distinct (map cl_dedupe_key t)"

lemma get_claim_key: "get_claim key t = Some row \<Longrightarrow> cl_dedupe_key row = key \<and> row \<in> set t"
  by (auto simp: get_claim_def find_Some_iff)

lemma get_claim_None: "get_claim key t = None \<longleftrightarrow> key \<notin> cl_dedupe_key ` set t"
  by (auto simp: get_claim_def find_None_iff)

lemma get_claim_append:
  "get_claim key (t @ [row]) =
     (case get_claim key t of
        Some x \<Rightarrow> Some x | None \<Rightarrow> if cl_dedupe_key row = key then Some row else None)"
  by (induction t) (auto simp: get_claim_def)

lemma get_claim_map:
  assumes "\<And>row. cl_dedupe_key (f row) = cl_dedupe_key row"
  shows "get_claim key (map f t) = map_option f (get_claim key t)"
  by (induction t) (auto simp: get_claim_def assms)

lemma claims_ok_map:
  assumes "\<And>row. cl_dedupe_key (f row) = cl_dedupe_key row"
  shows "claims_ok (map f t) = claims_ok t"
  by (simp add: claims_ok_def comp_def assms)

lemma claim_upsert_ok: "claims_ok t \<Longrightarrow> claims_ok (snd (claim_upsert now r t))"
  by (auto simp: claim_upsert_def claims_ok_map retake_def get_claim_None claims_ok_def new_claim_def
      comp_def if_distrib cong: if_cong split: option.splits)

section \<open>What a barrier promises\<close>

datatype barrier_status = Free | Held | Sealed

datatype ('r, 'q, 'd, 'x) barrier_op = Take 'r | Seal 'q | Drop 'd | Sweep 'x

fun barrier_drops :: "('d \<Rightarrow> 'k) \<Rightarrow> 'k \<Rightarrow> ('r, 'q, 'd, 'x) barrier_op list \<Rightarrow> nat" where
  "barrier_drops dk k [] = 0"
| "barrier_drops dk k (Drop d # ops) = (if dk d = k then 1 else 0) + barrier_drops dk k ops"
| "barrier_drops dk k (_ # ops) = barrier_drops dk k ops"

locale once_barrier =
  fixes take :: "'r \<Rightarrow> 's \<Rightarrow> bool \<times> 's" and take_key :: "'r \<Rightarrow> 'k"
    and seal :: "'q \<Rightarrow> 's \<Rightarrow> 's" and seal_key :: "'q \<Rightarrow> 'k"
    and dropb :: "'d \<Rightarrow> 's \<Rightarrow> 's" and drop_key :: "'d \<Rightarrow> 'k" and sweep :: "'x \<Rightarrow> 's \<Rightarrow> 's"
    and status :: "'s \<Rightarrow> 'k \<Rightarrow> barrier_status"
  assumes take_result: "fst (take r s) \<longleftrightarrow> status s (take_key r) = Free"
    and take_status: "status (snd (take r s)) k =
          (if k = take_key r \<and> status s k = Free then Held else status s k)"
    and seal_status: "status (seal q s) k = (if k = seal_key q \<and> status s k = Held then Sealed else status s k)"
    and drop_status: "status (dropb d s) k = (if k = drop_key d \<and> status s k = Held then Free else status s k)"
    and sweep_status: "status (sweep x s) k = status s k \<or> status s k = Held \<and> status (sweep x s) k = Sealed"
begin

fun barrier_step :: "('r, 'q, 'd, 'x) barrier_op \<Rightarrow> 's \<Rightarrow> 's" where
  "barrier_step (Take r) s = snd (take r s)"
| "barrier_step (Seal q) s = seal q s"
| "barrier_step (Drop d) s = dropb d s"
| "barrier_step (Sweep x) s = sweep x s"

fun grants :: "'k \<Rightarrow> ('r, 'q, 'd, 'x) barrier_op list \<Rightarrow> 's \<Rightarrow> nat" where
  "grants k [] s = 0"
| "grants k (Take r # ops) s =
     (if take_key r = k \<and> fst (take r s) then 1 else 0) + grants k ops (barrier_step (Take r) s)"
| "grants k (x # ops) s = grants k ops (barrier_step x s)"

lemma sealed_step: "status s k = Sealed \<Longrightarrow> status (barrier_step x s) k = Sealed"
  using sweep_status [of _ s k] by (cases x) (auto simp: take_status seal_status drop_status)

lemma sealed_for_ever:
  assumes "status s k = Sealed"
  shows "status (fold barrier_step ops s) k = Sealed \<and> grants k ops s = 0"
  using assms
proof (induction ops arbitrary: s)
  case (Cons x ops)
  then show ?case using sealed_step [OF Cons.prems, of x] by (cases x) (auto simp: take_result)
qed simp

lemma grants_bound:
  "grants k ops s \<le> (if status s k = Free then 1 else 0) + barrier_drops drop_key k ops"
proof (induction ops arbitrary: s)
  case (Cons x ops)
  show ?case
  proof (cases x)
    case (Take r)
    then show ?thesis using Cons.IH [of "snd (take r s)"]
      by (auto simp: take_result take_status split: if_splits)
  next
    case (Seal j)
    then show ?thesis using Cons.IH [of "seal j s"] by (auto simp: seal_status split: if_splits)
  next
    case (Drop j)
    then show ?thesis using Cons.IH [of "dropb j s"] by (auto simp: drop_status split: if_splits)
  next
    case (Sweep y)
    then show ?thesis using Cons.IH [of "sweep y s"] sweep_status [of y s k] by auto
  qed
qed simp

end

section \<open>The repository is such a barrier\<close>

definition claim_status :: "claim_table \<Rightarrow> string \<Rightarrow> barrier_status" where
  "claim_status t key =
     (case get_claim key t of
        None \<Rightarrow> Free
      | Some row \<Rightarrow> (case cl_state row of CLAIMED \<Rightarrow> Held | EXECUTED \<Rightarrow> Sealed | ABANDONED \<Rightarrow> Free))"

definition claim_take ::
  "datetime \<times> decimal \<times> claim_request \<times> claim_table \<Rightarrow> claim_table \<Rightarrow> bool \<times> claim_table" where
  "claim_take a t =
     (case a of (now, stale, r, later) \<Rightarrow>
        (case acquire_claim now stale r later t of (res, t') \<Rightarrow> (\<not> isl res, t')))"

lemma not_isl_iff: "\<not> isl x \<longleftrightarrow> (\<exists>y. x = Inr y)"
  by (cases x) auto

lemma update_claims_get:
  assumes "\<And>row. cl_dedupe_key (upd row) = cl_dedupe_key row"
  shows "get_claim key (snd (update_claims sel upd t)) =
           map_option (\<lambda>row. if sel row then upd row else row) (get_claim key t)"
  using assms by (simp add: update_claims_def get_claim_map)

lemma mark_executed_status:
  "claim_status (snd (mark_executed now note j t)) key =
     (if key = j \<and> claim_status t key = Held then Sealed else claim_status t key)"
  using get_claim_key [of key t]
  by (cases "get_claim key t")
     (auto simp: claim_status_def mark_executed_def update_claims_get split: claim_state.splits)

lemma release_status:
  "claim_status (snd (release_claim note j t)) key =
     (if key = j \<and> claim_status t key = Held then Free else claim_status t key)"
  using get_claim_key [of key t]
  by (cases "get_claim key t")
     (auto simp: claim_status_def release_claim_def update_claims_get split: claim_state.splits)

lemma upsert_status:
  "claim_status (snd (claim_upsert now r t)) key =
     (if key = rq_dedupe_key r \<and> claim_status t key = Free then Held else claim_status t key)"
  using get_claim_key [of key t]
  by (cases "get_claim key t")
     (auto simp: claim_status_def claim_upsert_def get_claim_append get_claim_map retake_def new_claim_def
       split: option.splits claim_state.splits)

lemma upsert_granted: "(\<exists>row. fst (claim_upsert now r t) = Some row) \<longleftrightarrow> claim_status t (rq_dedupe_key r) = Free"
  by (auto simp: claim_status_def claim_upsert_def split: option.splits claim_state.splits)

lemma claim_take_eq:
  "claim_take (now, stale, r, later) t = (fst (claim_upsert now r t) \<noteq> None, snd (claim_upsert now r t))"
  by (cases "claim_upsert now r t") (auto simp: claim_take_def acquire_claim_def split: option.splits)

lemma seal_stale_status:
  "claim_status (snd (seal_stale orders now claims t)) key = claim_status t key \<or>
   claim_status t key = Held \<and> claim_status (snd (seal_stale orders now claims t)) key = Sealed"
proof (induction claims arbitrary: t)
  case (Cons claim claims)
  let ?n = "count_orders_emitted orders (cl_strategy_id claim) (cl_signal_id claim)"
  let ?t = "snd (mark_executed now (Some (sealed_note ?n)) (cl_dedupe_key claim) t)"
  have "claim_status ?t key = claim_status t key \<or> claim_status t key = Held \<and> claim_status ?t key = Sealed"
    by (auto simp: mark_executed_status)
  then show ?case using Cons.IH [of ?t] Cons.IH [of t]
    by (auto simp: Let_def split: prod.splits)
qed simp

lemma seal_stale_snd:
  "seal_stale orders now claims t = (n, t') \<Longrightarrow>
     claim_status t' key = claim_status t key \<or> claim_status t key = Held \<and> claim_status t' key = Sealed"
  using seal_stale_status [of orders now claims t key] by simp

interpretation claims: once_barrier
  claim_take "\<lambda>(now, stale, r, later). rq_dedupe_key r"
  "\<lambda>(now, note, key) t. snd (mark_executed now note key t)" "\<lambda>(now, note, key). key"
  "\<lambda>(note, key) t. snd (release_claim note key t)" snd
  "\<lambda>(orders, now, stale) t. snd (reconcile_stale_claims orders now stale t)" claim_status
proof (unfold_locales, goal_cases)
  case (1 a s) then show ?case by (cases a) (simp add: claim_take_eq upsert_granted)
next
  case (2 a s k) then show ?case by (cases a) (simp add: claim_take_eq upsert_status)
next
  case (3 q s k) then show ?case by (cases q) (simp add: mark_executed_status)
next
  case (4 d s k) then show ?case by (cases d) (simp add: release_status)
next
  case (5 x s k) then show ?case
    by (cases x)
       (auto simp: reconcile_stale_claims_def split: prod.splits dest: seal_stale_snd)
qed

section \<open>The key\<close>

lemma nat_digits_inject: "nat_digits m = nat_digits n \<longleftrightarrow> m = n"
  by (metis digits_value_nat_digits)

lemma int_text_inject: "int_text a = int_text b \<longleftrightarrow> a = b"
proof -
  have "CHR ''-'' \<notin> set (nat_digits n)" for n
    using nat_digits_digit [of "CHR ''-''" n] digit_facts(2) by blast
  then have "CHR ''-'' # xs \<noteq> nat_digits n" for xs n
    by (metis list.set_intros(1))
  then show ?thesis
    by (auto simp: int_text_def nat_digits_inject dest: sym)
qed

lemma int_text_chars: "c \<in> set (int_text a) \<Longrightarrow> c = CHR ''-'' \<or> py_isdigit c"
  by (auto simp: int_text_def dest: nat_digits_digit split: if_splits)

lemma int_text_no_colon: "CHR '':'' \<notin> set (int_text a)"
  using int_text_chars [of "CHR '':''" a] by (auto simp: py_isdigit_def char_code_def)

lemma int_text_not_dash: "int_text a \<noteq> ''-''"
  by (auto simp: int_text_def) (metis digit_facts(2) list.set_intros(1) nat_digits_digit)

lemma append_sep_inject:
  "c \<notin> set a \<Longrightarrow> c \<notin> set b \<Longrightarrow> a @ c # xs = b @ c # ys \<longleftrightarrow> a = b \<and> xs = ys"
proof (induction a arbitrary: b)
  case Nil then show ?case by (cases b) auto
next
  case (Cons x a) then show ?case by (cases b) auto
qed

lemma dedupe_key_inject:
  assumes "CHR '':'' \<notin> set (oi_strategy_id i)" "CHR '':'' \<notin> set (oi_strategy_id j)"
  shows "execution_dedupe_key i = execution_dedupe_key j \<longleftrightarrow>
           oi_account_id i = oi_account_id j \<and> oi_strategy_id i = oi_strategy_id j \<and>
           oi_signal_id i = oi_signal_id j"
proof -
  let ?a = "\<lambda>x. case x of None \<Rightarrow> ''-'' | Some a \<Rightarrow> int_text a"
  have inj: "?a x = ?a y \<longleftrightarrow> x = y" for x y
    using int_text_not_dash by (auto simp: int_text_inject split: option.splits) metis
  have no: "CHR '':'' \<notin> set (?a x)" for x
    using int_text_no_colon by (auto split: option.splits)
  show ?thesis
    using append_sep_inject [OF no [of "oi_account_id i"] no [of "oi_account_id j"], of
        "oi_strategy_id i @ '':'' @ oi_signal_id i" "oi_strategy_id j @ '':'' @ oi_signal_id j"]
      append_sep_inject [OF assms, of "oi_signal_id i" "oi_signal_id j"]
    by (simp add: execution_dedupe_key_def inj)
qed

section \<open>Properties\<close>


text \<open>A stale claim with an order: the sweep seals it, and the next request is refused.\<close>

definition sample_request :: claim_request where
  "sample_request = \<lparr>rq_dedupe_key = ''1:model_blue:T1'', rq_account_id = Some 1,
     rq_strategy_id = ''model_blue'', rq_signal_id = ''T1'', rq_action = ''OPEN'', rq_correlation_id = None\<rparr>"

definition sample_claims :: claim_table where
  "sample_claims = [new_claim 0 sample_request]"


end
