(* ===== verification/Signal_Jobs.thy ===== *)
theory Signal_Jobs
  imports Execution_Claims
begin

text \<open>
  The durable queue of signal jobs: \<open>db/models/signal.py\<close>, class \<open>SignalJobRepository\<close> of
  \<open>db/repositories/signal_repository.py\<close>, the job part of \<open>services/recovery.py\<close> and the statuses
  that \<open>services/worker_pool.py\<close> writes.

  The tables are lists of rows in insertion order. A comparison with an absent value is false, as in
  SQL. Each operation is one statement or one transaction of the source; where a transaction takes
  row locks, the rows locked by others are an argument. Of the payload the model keeps the legs'
  instrument type and contract month, which is all that is read again.
\<close>

section \<open>Rows\<close>

datatype job_status =
    JOB_RECEIVED | JOB_QUEUED | JOB_CLAIMED | JOB_PROCESSING | JOB_COMPLETED | JOB_REJECTED
  | JOB_FAILED | JOB_RECOVERY_REQUIRED | JOB_DEAD_LETTER | JOB_DEFERRED_RED_ZONE

definition ACTIVE_LEASE_STATUSES :: "job_status list" where
  "ACTIVE_LEASE_STATUSES = [JOB_CLAIMED, JOB_PROCESSING]"

definition CLAIMABLE_STATUSES :: "job_status list" where
  "CLAIMABLE_STATUSES = [JOB_QUEUED, JOB_RECEIVED]"

record signal_job =
  j_id :: nat
  j_signal_id :: string
  j_strategy_id :: string
  j_trade_id :: "string option"
  j_status :: job_status
  j_idempotency_key :: string
  j_account_scope :: "string option"
  j_legs :: "(string option \<times> string option) list"
  j_attempt_count :: nat
  j_max_attempts :: nat
  j_worker_id :: "string option"
  j_lease_expires_at :: "datetime option"
  j_last_error :: "string option"
  j_received_at :: datetime
  j_queued_at :: "datetime option"
  j_claimed_at :: "datetime option"
  j_processing_started_at :: "datetime option"
  j_completed_at :: "datetime option"
  j_deferred_at :: "datetime option"
  j_deferral_reason :: "string option"
  j_reference_price :: "decimal option"
  j_resolved_session_close :: "datetime option"
  j_applied_buffer_seconds :: "int option"
  j_deferred_session_count :: int

text \<open>The \<open>signals\<close> rows: status and rejection reason by strategy and signal.\<close>

record queue_db =
  jobs :: "signal_job list"
  signals :: "string \<times> string \<rightharpoonup> string \<times> string option"

definition active :: "signal_job \<Rightarrow> bool" where
  "active j \<longleftrightarrow> j_status j \<in> set ACTIVE_LEASE_STATUSES"

definition expired :: "datetime \<Rightarrow> signal_job \<Rightarrow> bool" where
  "expired now j = (case j_lease_expires_at j of None \<Rightarrow> False | Some t \<Rightarrow> t < now)"

definition get_job :: "nat \<Rightarrow> queue_db \<Rightarrow> signal_job option" where
  "get_job i db = find (\<lambda>j. j_id j = i) (jobs db)"

text \<open>\<open>UPDATE signal_jobs SET \<dots> WHERE \<dots>\<close>: the number of rows changed.\<close>

definition update_jobs ::
  "(signal_job \<Rightarrow> bool) \<Rightarrow> (signal_job \<Rightarrow> signal_job) \<Rightarrow> queue_db \<Rightarrow> nat \<times> queue_db" where
  "update_jobs sel upd db =
     (length (filter sel (jobs db)), db\<lparr>jobs := map (\<lambda>j. if sel j then upd j else j) (jobs db)\<rparr>)"

definition update_signal ::
  "string \<times> string \<Rightarrow> (string \<times> string option \<Rightarrow> string \<times> string option) \<Rightarrow> queue_db \<Rightarrow> queue_db" where
  "update_signal key f db =
     db\<lparr>signals := (signals db)(key := map_option f (signals db key))\<rparr>"

section \<open>Creating a job\<close>

definition get_by_idempotency_key :: "string \<Rightarrow> queue_db \<Rightarrow> signal_job option" where
  "get_by_idempotency_key key db = find (\<lambda>j. j_idempotency_key j = key) (jobs db)"

text \<open>The new row comes with its generated id; the status and the two time stamps are set here.\<close>

definition create_job_if_not_exists ::
  "datetime \<Rightarrow> signal_job \<Rightarrow> queue_db \<Rightarrow> (signal_job \<times> bool) \<times> queue_db" where
  "create_job_if_not_exists now row db =
     (case get_by_idempotency_key (j_idempotency_key row) db of
        Some existing \<Rightarrow> ((existing, False), db)
      | None \<Rightarrow>
          (let j = row\<lparr>j_status := JOB_QUEUED, j_received_at := now, j_queued_at := Some now\<rparr>
           in ((j, True), db\<lparr>jobs := jobs db @ [j]\<rparr>)))"

section \<open>Claiming\<close>

definition sibling_in_flight :: "signal_job \<Rightarrow> queue_db \<Rightarrow> bool" where
  "sibling_in_flight job db =
     list_ex (\<lambda>s. j_trade_id s \<noteq> None \<and> j_trade_id s = j_trade_id job \<and> j_id s \<noteq> j_id job \<and> active s)
       (jobs db)"

definition close_id :: "string \<Rightarrow> string" where
  "close_id trade_id = trade_id @ '':CLOSE''"

definition claim_in_flight :: "signal_job \<Rightarrow> claim_table \<Rightarrow> bool" where
  "claim_in_flight job t =
     list_ex (\<lambda>c. cl_strategy_id c = j_strategy_id job \<and> cl_state c = CLAIMED \<and>
                  (cl_signal_id c = j_signal_id job \<or>
                   (case j_trade_id job of
                      None \<Rightarrow> False
                    | Some tid \<Rightarrow> cl_signal_id c = tid \<or> cl_signal_id c = close_id tid))) t"

definition candidate ::
  "datetime \<Rightarrow> nat list \<Rightarrow> nat set \<Rightarrow> claim_table \<Rightarrow> queue_db \<Rightarrow> signal_job \<Rightarrow> bool" where
  "candidate now skipped locked t db j \<longleftrightarrow>
     (j_status j \<in> set CLAIMABLE_STATUSES \<or> j_status j = JOB_CLAIMED \<and> expired now j) \<and>
     (j_trade_id j = None \<or> \<not> sibling_in_flight j db) \<and>
     \<not> claim_in_flight j t \<and> j_id j \<notin> set skipped \<and> j_id j \<notin> locked"

text \<open>\<open>ORDER BY received_at LIMIT 1 FOR UPDATE SKIP LOCKED\<close>.\<close>

fun earliest :: "signal_job list \<Rightarrow> signal_job option" where
  "earliest [] = None"
| "earliest (j # js) =
     (case earliest js of
        None \<Rightarrow> Some j
      | Some k \<Rightarrow> if j_received_at j \<le> j_received_at k then Some j else Some k)"

definition select_claim_candidate ::
  "datetime \<Rightarrow> nat list \<Rightarrow> nat set \<Rightarrow> claim_table \<Rightarrow> queue_db \<Rightarrow> nat option" where
  "select_claim_candidate now skipped locked t db =
     map_option j_id (earliest (filter (candidate now skipped locked t db) (jobs db)))"

definition trade_blocked_after_lock :: "signal_job \<Rightarrow> claim_table \<Rightarrow> queue_db \<Rightarrow> bool" where
  "trade_blocked_after_lock job t db \<longleftrightarrow>
     sibling_in_flight job db \<or>
     has_claimed (j_strategy_id job) (j_signal_id job) t \<or>
     (case j_trade_id job of
        None \<Rightarrow> False
      | Some tid \<Rightarrow> tid \<noteq> [] \<and> (has_claimed (j_strategy_id job) tid t \<or>
                                 has_claimed (j_strategy_id job) (close_id tid) t))"

definition claim_row :: "string \<Rightarrow> datetime \<Rightarrow> timedelta \<Rightarrow> signal_job \<Rightarrow> signal_job" where
  "claim_row worker now lease j =
     j\<lparr>j_status := JOB_CLAIMED, j_worker_id := Some worker, j_claimed_at := Some now,
       j_lease_expires_at := Some (now + lease), j_attempt_count := j_attempt_count j + 1\<rparr>"

definition claim_job :: "string \<Rightarrow> datetime \<Rightarrow> timedelta \<Rightarrow> nat \<Rightarrow> queue_db \<Rightarrow> queue_db" where
  "claim_job worker now lease i db = snd (update_jobs (\<lambda>j. j_id j = i) (claim_row worker now lease) db)"

text \<open>The loop of \<open>claim_next_jobs\<close>. Every round claims a job or skips one for good, so that the
  limit plus the number of rows bounds the rounds; \<open>None\<close> would be running out of them. The check
  after the advisory lock reads the tables of that moment.\<close>

fun claim_loop ::
  "nat \<Rightarrow> string \<Rightarrow> datetime \<Rightarrow> timedelta \<Rightarrow> nat \<Rightarrow> nat set \<Rightarrow> claim_table \<Rightarrow> nat list \<Rightarrow> nat list \<Rightarrow>
   queue_db \<Rightarrow> (nat list \<times> queue_db) option" where
  "claim_loop fuel worker now lease limit locked t skipped claimed db =
     (if length claimed \<ge> limit then Some (claimed, db)
      else (case select_claim_candidate now skipped locked t db of
              None \<Rightarrow> Some (claimed, db)
            | Some i \<Rightarrow>
                (case fuel of
                   0 \<Rightarrow> None
                 | Suc n \<Rightarrow>
                     (case get_job i db of
                        None \<Rightarrow> claim_loop n worker now lease limit locked t (skipped @ [i]) claimed db
                      | Some job \<Rightarrow>
                          if j_trade_id job \<noteq> None \<and> j_trade_id job \<noteq> Some [] \<and> trade_blocked_after_lock job t db
                          then claim_loop n worker now lease limit locked t (skipped @ [i]) claimed db
                          else claim_loop n worker now lease limit locked t skipped (claimed @ [i])
                                 (claim_job worker now lease i db)))))"

declare claim_loop.simps [simp del]

definition claim_next_jobs ::
  "string \<Rightarrow> datetime \<Rightarrow> timedelta \<Rightarrow> nat \<Rightarrow> nat set \<Rightarrow> claim_table \<Rightarrow> queue_db \<Rightarrow>
   (nat list \<times> queue_db) option" where
  "claim_next_jobs worker now lease limit locked t db =
     claim_loop (limit + length (jobs db)) worker now lease limit locked t [] [] db"

section \<open>Status, lease and reclaim\<close>

definition status_values ::
  "datetime \<Rightarrow> job_status \<Rightarrow> string option \<Rightarrow> string option \<Rightarrow> timedelta \<Rightarrow> signal_job \<Rightarrow> signal_job" where
  "status_values now status error worker lease j =
     (let j1 = j\<lparr>j_status := status\<rparr>;
          j2 = (if status = JOB_PROCESSING
                then j1\<lparr>j_processing_started_at := Some now, j_lease_expires_at := Some (now + lease)\<rparr>
                else if status \<in> {JOB_COMPLETED, JOB_REJECTED, JOB_FAILED, JOB_DEAD_LETTER}
                then j1\<lparr>j_completed_at := Some now, j_lease_expires_at := None\<rparr> else j1);
          j3 = (case error of None \<Rightarrow> j2 | Some e \<Rightarrow> j2\<lparr>j_last_error := Some e\<rparr>)
      in case worker of None \<Rightarrow> j3 | Some w \<Rightarrow> j3\<lparr>j_worker_id := Some w\<rparr>)"

definition update_status ::
  "datetime \<Rightarrow> nat \<Rightarrow> job_status \<Rightarrow> string option \<Rightarrow> string option \<Rightarrow> bool \<Rightarrow> timedelta \<Rightarrow>
   queue_db \<Rightarrow> (nat \<times> queue_db) result" where
  "update_status now i status error worker fence lease db =
     (if fence \<and> worker = None then Inl (ValueError ''fence=True requires worker_id'')
      else Inr (update_jobs
                  (\<lambda>j. j_id j = i \<and> (fence \<longrightarrow> j_worker_id j = worker \<and> active j))
                  (status_values now status error worker lease) db))"

definition heartbeat_lease ::
  "datetime \<Rightarrow> nat \<Rightarrow> string \<Rightarrow> timedelta \<Rightarrow> queue_db \<Rightarrow> bool \<times> queue_db" where
  "heartbeat_lease now i worker lease db =
     (case update_jobs (\<lambda>j. j_id j = i \<and> j_worker_id j = Some worker \<and> active j)
             (\<lambda>j. j\<lparr>j_lease_expires_at := Some (now + lease)\<rparr>) db of
        (n, db') \<Rightarrow> (n \<noteq> 0, db'))"

definition possibly_submitted :: "(string \<times> string) list \<Rightarrow> claim_table \<Rightarrow> signal_job \<Rightarrow> bool" where
  "possibly_submitted orders t j \<longleftrightarrow>
     count_orders_emitted orders (j_strategy_id j) (j_signal_id j) > 0 \<or>
     has_claimed (j_strategy_id j) (j_signal_id j) t"

definition give_up ::
  "datetime \<Rightarrow> (string \<times> string) list \<Rightarrow> claim_table \<Rightarrow> nat \<Rightarrow> signal_job \<Rightarrow> signal_job" where
  "give_up now orders t max_attempts j =
     (if possibly_submitted orders t j
      then j\<lparr>j_status := JOB_RECOVERY_REQUIRED,
             j_last_error := Some (''Lease expired after '' @ nat_digits max_attempts @ '' attempts with '' @
               nat_digits (count_orders_emitted orders (j_strategy_id j) (j_signal_id j)) @
               '' order(s) emitted or CLAIMED barrier live; requires reconciliation.''),
             j_worker_id := None, j_lease_expires_at := None\<rparr>
      else j\<lparr>j_status := JOB_DEAD_LETTER,
             j_last_error := Some (''Exceeded max attempts ('' @ nat_digits max_attempts @
               '') due to worker lease expiry.''),
             j_completed_at := Some now, j_worker_id := None, j_lease_expires_at := None\<rparr>)"

definition quarantine_row :: "signal_job \<Rightarrow> signal_job" where
  "quarantine_row j =
     j\<lparr>j_status := JOB_RECOVERY_REQUIRED,
       j_last_error := Some ''Worker lease expired mid-execution; broker state unverified.'',
       j_worker_id := None, j_lease_expires_at := None\<rparr>"

definition requeue_row :: "signal_job \<Rightarrow> signal_job" where
  "requeue_row j = j\<lparr>j_status := JOB_QUEUED, j_worker_id := None, j_lease_expires_at := None\<rparr>"

text \<open>The result counts the jobs dead-lettered, quarantined and requeued.\<close>

definition reclaim_stale_jobs ::
  "datetime \<Rightarrow> (string \<times> string) list \<Rightarrow> claim_table \<Rightarrow> nat \<Rightarrow> queue_db \<Rightarrow> (nat \<times> nat \<times> nat) \<times> queue_db" where
  "reclaim_stale_jobs now orders t max_attempts db =
     (let over = (\<lambda>j. active j \<and> expired now j \<and> j_attempt_count j \<ge> max_attempts);
          held = filter over (jobs db);
          db1 = snd (update_jobs over (give_up now orders t max_attempts) db)
      in case update_jobs
                (\<lambda>j. j_status j = JOB_PROCESSING \<and> expired now j \<and> j_attempt_count j < max_attempts)
                quarantine_row db1 of
           (quarantined, db2) \<Rightarrow>
             (case update_jobs
                     (\<lambda>j. j_status j = JOB_CLAIMED \<and> expired now j \<and> j_attempt_count j < max_attempts)
                     requeue_row db2 of
                (requeued, db3) \<Rightarrow>
                  ((length (filter (\<lambda>j. \<not> possibly_submitted orders t j) held),
                    length (filter (possibly_submitted orders t) held) + quarantined, requeued), db3)))"

section \<open>Deferral in the red zone\<close>

definition park_red_zone ::
  "datetime \<Rightarrow> nat \<Rightarrow> string \<Rightarrow> string \<Rightarrow> decimal option \<Rightarrow> datetime option \<Rightarrow> int \<Rightarrow> int \<Rightarrow>
   queue_db \<Rightarrow> nat \<times> queue_db" where
  "park_red_zone now i worker reason reference_price close buffer count db =
     (case get_job i db of
        None \<Rightarrow> (0, db)
      | Some job \<Rightarrow>
          if j_worker_id job \<noteq> Some worker \<or> \<not> active job then (0, db)
          else (1, update_signal (j_strategy_id job, j_signal_id job) (\<lambda>(st, why). (''DEFERRED_RED_ZONE'', why))
                 (snd (update_jobs (\<lambda>j. j_id j = i)
                    (\<lambda>j. j\<lparr>j_status := JOB_DEFERRED_RED_ZONE, j_deferred_at := Some now,
                           j_deferral_reason := Some reason, j_reference_price := reference_price,
                           j_resolved_session_close := close, j_applied_buffer_seconds := Some buffer,
                           j_deferred_session_count := count, j_worker_id := None,
                           j_lease_expires_at := None, j_last_error := Some reason\<rparr>) db))))"

definition void_deferred_job :: "datetime \<Rightarrow> nat \<Rightarrow> string \<Rightarrow> queue_db \<Rightarrow> nat \<times> queue_db" where
  "void_deferred_job now i reason db =
     (case get_job i db of
        None \<Rightarrow> (0, db)
      | Some job \<Rightarrow>
          if j_status job \<noteq> JOB_DEFERRED_RED_ZONE then (0, db)
          else (1, update_signal (j_strategy_id job, j_signal_id job) (\<lambda>_. (''REJECTED'', Some reason))
                 (snd (update_jobs (\<lambda>j. j_id j = i)
                    (\<lambda>j. j\<lparr>j_status := JOB_REJECTED, j_last_error := Some reason,
                           j_completed_at := Some now, j_worker_id := None, j_lease_expires_at := None\<rparr>) db))))"

text \<open>\<open>claim_deferred_for_release\<close>: the deferred jobs in the order of deferral, absent stamps first.\<close>

fun insert_deferred :: "signal_job \<Rightarrow> signal_job list \<Rightarrow> signal_job list" where
  "insert_deferred j [] = [j]"
| "insert_deferred j (k # ks) =
     (let before = (case (j_deferred_at j, j_deferred_at k) of
                      (None, None) \<Rightarrow> j_received_at j \<le> j_received_at k
                    | (None, Some _) \<Rightarrow> True
                    | (Some _, None) \<Rightarrow> False
                    | (Some a, Some b) \<Rightarrow> a < b \<or> a = b \<and> j_received_at j \<le> j_received_at k)
      in if before then j # k # ks else k # insert_deferred j ks)"

definition deferred_jobs :: "queue_db \<Rightarrow> signal_job list" where
  "deferred_jobs db = foldr insert_deferred (filter (\<lambda>j. j_status j = JOB_DEFERRED_RED_ZONE) (jobs db)) []"

definition claim_deferred_for_release ::
  "datetime \<Rightarrow> nat \<Rightarrow> nat set \<Rightarrow> queue_db \<Rightarrow> nat list \<times> queue_db" where
  "claim_deferred_for_release now limit locked db =
     (let ids = map j_id (take limit (filter (\<lambda>j. j_id j \<notin> locked) (deferred_jobs db)))
      in (ids, snd (update_jobs (\<lambda>j. j_id j \<in> set ids \<and> j_status j = JOB_DEFERRED_RED_ZONE)
                 (\<lambda>j. j\<lparr>j_status := JOB_QUEUED, j_queued_at := Some now, j_last_error := None\<rparr>) db)))"

definition get_deferred_notional :: "(signal_job \<times> bool) list \<Rightarrow> decimal" where
  "get_deferred_notional js =
     sum_list (map (\<lambda>(j, captured). case j_reference_price j of
                      Some p \<Rightarrow> if captured then \<bar>p\<bar> else 0 | None \<Rightarrow> 0) js)"

section \<open>Recovery at start\<close>

definition recover_job ::
  "datetime \<Rightarrow> (string \<times> string) list \<Rightarrow> claim_table \<Rightarrow> signal_job \<Rightarrow> queue_db \<Rightarrow> queue_db" where
  "recover_job now orders t job db =
     (let set_status = (\<lambda>st err. snd (update_jobs (\<lambda>j. j_id j = j_id job)
                                      (status_values now st (Some err) None (seconds 30)) db))
      in if possibly_submitted orders t job
         then set_status JOB_RECOVERY_REQUIRED
                (''Crash recovery: '' @ nat_digits (count_orders_emitted orders (j_strategy_id job) (j_signal_id job)) @
                 '' order(s) already emitted'' @
                 (if count_orders_emitted orders (j_strategy_id job) (j_signal_id job) = 0
                  then '' or CLAIMED barrier live'' else []) @
                 ''; requires reconciliation before retry.'')
         else if j_attempt_count job \<ge> j_max_attempts job
         then set_status JOB_DEAD_LETTER
                (''Crash recovery: exceeded max attempts ('' @ nat_digits (j_max_attempts job) @ '').'')
         else set_status JOB_QUEUED ''Requeued by startup recovery manager (no orders emitted).'')"

definition pending_at_start :: "signal_job \<Rightarrow> bool" where
  "pending_at_start j \<longleftrightarrow> j_status j \<in> {JOB_CLAIMED, JOB_PROCESSING, JOB_RECOVERY_REQUIRED}"

text \<open>The claims are reconciled first, with no grace period; with no pending job and no incomplete
  basket nothing is done at all.\<close>

definition run_startup_recovery ::
  "datetime \<Rightarrow> (string \<times> string) list \<Rightarrow> bool \<Rightarrow> claim_table \<Rightarrow> queue_db \<Rightarrow> claim_table \<times> queue_db" where
  "run_startup_recovery now orders pending_baskets t db =
     (let pending_jobs = filter pending_at_start (jobs db) in
      if pending_jobs = [] \<and> \<not> pending_baskets then (t, db)
      else (let t' = snd (reconcile_stale_claims orders now 0 t)
            in (t', fold (recover_job now orders t') pending_jobs db)))"

end
