(* ===== verification/Signal_Job_Properties.thy ===== *)
theory Signal_Job_Properties
  imports Signal_Jobs
begin

text \<open>
  What the job queue guarantees: claiming ends, the statuses a job can move through, that work which
  may have reached the broker is never queued again, and that under concurrent claims at most one
  job per trade is leased.
\<close>

section \<open>Updates keep the identity of rows\<close>

definition same_job :: "signal_job \<Rightarrow> signal_job \<Rightarrow> bool" where
  "same_job j k \<longleftrightarrow> j_id j = j_id k \<and> j_trade_id j = j_trade_id k \<and>
     j_strategy_id j = j_strategy_id k \<and> j_signal_id j = j_signal_id k"

lemma same_job_refl [simp]: "same_job j j"
  by (simp add: same_job_def)

definition ids_ok :: "queue_db \<Rightarrow> bool" where
  "ids_ok db \<longleftrightarrow> distinct (map j_id (jobs db))"

lemma ids_ok_inj: "ids_ok db \<Longrightarrow> j \<in> set (jobs db) \<Longrightarrow> k \<in> set (jobs db) \<Longrightarrow> j_id j = j_id k \<Longrightarrow> j = k"
  by (auto simp: ids_ok_def distinct_map dest: inj_onD)

lemma get_job_Some: "get_job i db = Some j \<Longrightarrow> j \<in> set (jobs db) \<and> j_id j = i"
  by (auto simp: get_job_def find_Some_iff)

lemma get_job_eq: "ids_ok db \<Longrightarrow> j \<in> set (jobs db) \<Longrightarrow> get_job (j_id j) db = Some j"
proof -
  assume a: "ids_ok db" "j \<in> set (jobs db)"
  then obtain k where "get_job (j_id j) db = Some k"
    by (cases "get_job (j_id j) db") (auto simp: get_job_def find_None_iff)
  then show ?thesis using a get_job_Some ids_ok_inj by metis
qed

text \<open>An operation that revises rows in place and may append new ones.\<close>

definition revises :: "(signal_job \<Rightarrow> signal_job \<Rightarrow> bool) \<Rightarrow> queue_db \<Rightarrow> queue_db \<Rightarrow> bool" where
  "revises R db db' \<longleftrightarrow>
     (\<exists>f new. jobs db' = map f (jobs db) @ new \<and>
        (\<forall>j \<in> set (jobs db). same_job (f j) j \<and> R j (f j)) \<and>
        (\<forall>k \<in> set new. \<not> active k \<and> j_id k \<notin> j_id ` set (jobs db)) \<and> distinct (map j_id new))"

lemma revises_refl: "(\<And>j. R j j) \<Longrightarrow> revises R db db"
  unfolding revises_def by (intro exI [of _ id] exI [of _ "[]"]) simp

lemma revises_update:
  assumes "\<And>j. j \<in> set (jobs db) \<Longrightarrow> sel j \<Longrightarrow> same_job (upd j) j \<and> R j (upd j)" "\<And>j. R j j"
  shows "revises R db (snd (update_jobs sel upd db))"
  unfolding revises_def update_jobs_def
  using assms by (intro exI [of _ "\<lambda>j. if sel j then upd j else j"] exI [of _ "[]"]) auto

lemma revises_update_one:
  assumes "ids_ok db" "get_job i db = Some job" "same_job (upd job) job" "R job (upd job)" "\<And>j. R j j"
  shows "revises R db (snd (update_jobs (\<lambda>j. j_id j = i) upd db))"
proof (rule revises_update)
  fix j assume "j \<in> set (jobs db)" "j_id j = i"
  then have "j = job" using ids_ok_inj [OF assms(1)] get_job_Some [OF assms(2)] by blast
  then show "same_job (upd j) j \<and> R j (upd j)" using assms by simp
qed (rule assms(5))

lemma revises_signal: "revises R db db' \<Longrightarrow> revises R db (update_signal k g db')"
  by (simp add: revises_def update_signal_def)

lemma revises_ids: "revises R db db' \<Longrightarrow> ids_ok db \<Longrightarrow> ids_ok db'"
proof -
  assume "revises R db db'" "ids_ok db"
  then obtain f new where f: "jobs db' = map f (jobs db) @ new" "\<forall>j \<in> set (jobs db). same_job (f j) j"
    "\<forall>k \<in> set new. j_id k \<notin> j_id ` set (jobs db)" "distinct (map j_id new)"
    unfolding revises_def by metis
  have "map j_id (jobs db') = map j_id (jobs db) @ map j_id new"
    using f(1,2) by (simp add: same_job_def)
  moreover have "set (map j_id (jobs db)) \<inter> set (map j_id new) = {}"
  proof -
    have "j_id a \<noteq> j_id b" if "a \<in> set (jobs db)" "b \<in> set new" for a b
      using f(3) that by (metis imageI)
    then show ?thesis by auto
  qed
  ultimately show ?thesis using \<open>ids_ok db\<close> f(4)
    by (simp only: ids_ok_def distinct_append)
qed

lemma revises_get:
  assumes "revises R db db'" "ids_ok db" "get_job i db = Some j"
  obtains j' where "get_job i db' = Some j'" "same_job j' j" "R j j'"
proof -
  obtain f where f: "f j \<in> set (jobs db')" "same_job (f j) j" "R j (f j)"
    using assms(1) get_job_Some [OF assms(3)] by (force simp: revises_def)
  moreover have "get_job i db' = Some (f j)"
    using get_job_eq [OF revises_ids [OF assms(1,2)] f(1)] f(2) get_job_Some [OF assms(3)]
    by (simp add: same_job_def)
  ultimately show thesis using that by blast
qed

lemma revises_back:
  assumes "revises R db db'" "k \<in> set (jobs db')" "active k"
  obtains j where "j \<in> set (jobs db)" "same_job k j" "R j k"
  using assms by (force simp: revises_def)

section \<open>Claiming ends\<close>

lemma earliest_in: "earliest js = Some j \<Longrightarrow> j \<in> set js"
  by (induction js arbitrary: j) (auto split: option.splits if_splits)

lemma select_in:
  "select_claim_candidate now skipped locked t db = Some i \<Longrightarrow>
     \<exists>j \<in> set (jobs db). j_id j = i \<and> candidate now skipped locked t db j"
  by (auto simp: select_claim_candidate_def dest!: earliest_in)

lemma claim_job_ids: "j_id ` set (jobs (claim_job worker now lease i db)) = j_id ` set (jobs db)"
proof -
  have "map j_id (jobs (claim_job worker now lease i db)) = map j_id (jobs db)"
    by (simp add: claim_job_def update_jobs_def claim_row_def)
  then show ?thesis by (metis list.set_map)
qed

lemma claim_loop_ends:
  "fuel \<ge> (limit - length claimed) + card (j_id ` set (jobs db) - set skipped) \<Longrightarrow>
     claim_loop fuel worker now lease limit locked t skipped claimed db \<noteq> None"
proof (induction fuel arbitrary: skipped claimed db)
  case 0
  have "select_claim_candidate now skipped locked t db = None" if "length claimed < limit"
    using 0 that by simp
  then show ?case by (auto simp: claim_loop.simps split: option.splits)
next
  case (Suc n)
  have skip: "card (j_id ` set (jobs db) - set (skipped @ [i])) < card (j_id ` set (jobs db) - set skipped)"
    if "select_claim_candidate now skipped locked t db = Some i" for i
    using select_in [OF that] by (intro psubset_card_mono) (auto simp: candidate_def)
  have skipped: "claim_loop n worker now lease limit locked t (skipped @ [i]) claimed db \<noteq> None"
    if "select_claim_candidate now skipped locked t db = Some i" for i
    using skip [OF that] Suc.prems by (intro Suc.IH) linarith
  have claimed: "claim_loop n worker now lease limit locked t skipped (claimed @ [i])
      (claim_job worker now lease i db) \<noteq> None" if "length claimed < limit" for i
    using that Suc.prems by (intro Suc.IH) (simp add: claim_job_ids)
  show ?case
    by (subst claim_loop.simps)
       (use skipped claimed in \<open>simp split: option.split if_split add: not_le\<close>)
qed

text \<open>\<open>claim_next_jobs\<close> always returns.\<close>

lemma claim_next_jobs_returns: "claim_next_jobs worker now lease limit locked t db \<noteq> None"
proof -
  have "card (j_id ` set (jobs db)) \<le> length (jobs db)"
    by (metis card_length length_map list.set_map)
  then show ?thesis unfolding claim_next_jobs_def by (intro claim_loop_ends) simp
qed

section \<open>The operations of the queue\<close>

definition worker_statuses :: "job_status set" where
  "worker_statuses = {JOB_PROCESSING, JOB_COMPLETED, JOB_REJECTED, JOB_FAILED, JOB_RECOVERY_REQUIRED}"

inductive repo_op :: "(string \<times> string) list \<Rightarrow> claim_table \<Rightarrow> queue_db \<Rightarrow> queue_db \<Rightarrow> bool"
  for orders t where
  create: "j_id row \<notin> j_id ` set (jobs db) \<Longrightarrow>
     repo_op orders t db (snd (create_job_if_not_exists now row db))"
| status: "st \<in> worker_statuses \<Longrightarrow> update_status now i st err (Some w) True lease db = Inr (n, db') \<Longrightarrow>
     repo_op orders t db db'"
| heartbeat: "repo_op orders t db (snd (heartbeat_lease now i w lease db))"
| reclaim: "repo_op orders t db (snd (reclaim_stale_jobs now orders t max_attempts db))"
| park: "repo_op orders t db (snd (park_red_zone now i w reason price close buffer count db))"
| void: "repo_op orders t db (snd (void_deferred_job now i reason db))"
| release: "repo_op orders t db (snd (claim_deferred_for_release now limit locked db))"
| recover: "pending_at_start job \<Longrightarrow> job \<in> set (jobs db) \<Longrightarrow> ids_ok db \<Longrightarrow>
     repo_op orders t db (recover_job now orders t job db)"

text \<open>The status changes an operation other than a claim can make.\<close>

definition job_move :: "(string \<times> string) list \<Rightarrow> claim_table \<Rightarrow> signal_job \<Rightarrow> signal_job \<Rightarrow> bool" where
  "job_move orders t j k \<longleftrightarrow>
     j_status k = j_status j \<or>
     (case j_status j of
        JOB_CLAIMED \<Rightarrow> j_status k \<notin> {JOB_RECEIVED}
      | JOB_PROCESSING \<Rightarrow>
          j_status k \<in> {JOB_COMPLETED, JOB_REJECTED, JOB_FAILED, JOB_RECOVERY_REQUIRED, JOB_DEAD_LETTER,
                          JOB_DEFERRED_RED_ZONE} \<or>
          j_status k = JOB_QUEUED \<and> \<not> possibly_submitted orders t j
      | JOB_RECOVERY_REQUIRED \<Rightarrow>
          j_status k \<in> {JOB_DEAD_LETTER, JOB_QUEUED} \<and> \<not> possibly_submitted orders t j
      | JOB_DEFERRED_RED_ZONE \<Rightarrow> j_status k \<in> {JOB_QUEUED, JOB_REJECTED}
      | _ \<Rightarrow> False)"

lemma job_move_refl: "job_move orders t j j"
  by (simp add: job_move_def)

lemma job_move_active: "job_move orders t j k \<Longrightarrow> active k \<Longrightarrow> active j"
  by (cases "j_status j") (auto simp: job_move_def active_def ACTIVE_LEASE_STATUSES_def)

lemmas job_defs = active_def ACTIVE_LEASE_STATUSES_def same_job_def job_move_def

lemma status_values_fields [simp]:
  "j_status (status_values now st e w l j) = st"
  "same_job (status_values now st e w l j) j"
  by (auto simp: status_values_def same_job_def Let_def split: option.splits)

lemma reclaim_revises: "revises (job_move orders t) db (snd (reclaim_stale_jobs now orders t m db))"
proof -
  define g1 where "g1 = (\<lambda>j. if active j \<and> expired now j \<and> j_attempt_count j \<ge> m
                             then give_up now orders t m j else j)"
  define g2 where "g2 = (\<lambda>j. if j_status j = JOB_PROCESSING \<and> expired now j \<and> j_attempt_count j < m
                             then quarantine_row j else j)"
  define g3 where "g3 = (\<lambda>j. if j_status j = JOB_CLAIMED \<and> expired now j \<and> j_attempt_count j < m
                             then requeue_row j else j)"
  have 1: "g1 j = j \<or> \<not> active (g1 j)" "same_job (g1 j) j" "job_move orders t j (g1 j)" for j
    by (auto simp: g1_def job_defs give_up_def split: job_status.splits)
  have 2: "same_job (g2 j) j" "job_move orders t j (g2 j)" "\<not> active j \<Longrightarrow> g2 j = j"
    "g2 j = j \<or> j_status j = JOB_PROCESSING \<and> \<not> active (g2 j)" for j
    by (auto simp: g2_def job_defs quarantine_row_def)
  have 3: "same_job (g3 j) j" "job_move orders t j (g3 j)" "\<not> active j \<Longrightarrow> g3 j = j" for j
    by (auto simp: g3_def job_defs requeue_row_def)
  have "job_move orders t j (g3 (g2 (g1 j)))" for j
    using 1(1,3) [of j] 2(2-4) [of j] 2(3) [of "g1 j"] 3(2) [of j] 3(3) [of "g2 j"] 3(3) [of "g1 j"] by metis
  moreover have "same_job (g3 (g2 (g1 j))) j" for j
    using 1(2) [of j] 2(1) [of "g1 j"] 3(1) [of "g2 (g1 j)"] unfolding same_job_def by metis
  moreover have "jobs (snd (reclaim_stale_jobs now orders t m db)) = map (\<lambda>j. g3 (g2 (g1 j))) (jobs db)"
    by (simp add: reclaim_stale_jobs_def Let_def update_jobs_def comp_def g1_def g2_def g3_def)
  ultimately show ?thesis
    unfolding revises_def by (intro exI [of _ "\<lambda>j. g3 (g2 (g1 j))"] exI [of _ "[]"]) simp
qed

lemma update_status_revises:
  assumes "st \<in> worker_statuses" "update_status now i st err (Some w) True lease db = Inr (n, db')"
  shows "revises (job_move orders t) db db'"
proof -
  let ?sel = "\<lambda>j. j_id j = i \<and> j_worker_id j = Some w \<and> active j"
  have db': "db' = snd (update_jobs ?sel (status_values now st err (Some w) lease) db)"
    using assms(2) by (auto simp: update_status_def)
  show ?thesis unfolding db'
    by (rule revises_update) (use assms(1) in \<open>auto simp: job_move_refl worker_statuses_def active_def
        ACTIVE_LEASE_STATUSES_def job_move_def split: job_status.splits\<close>)
qed

lemma recover_revises:
  assumes "pending_at_start job" "job \<in> set (jobs db)" "ids_ok db"
  shows "revises (job_move orders t) db (recover_job now orders t job db)"
proof -
  have "get_job (j_id job) db = Some job" by (rule get_job_eq [OF assms(3,2)])
  then show ?thesis
    unfolding recover_job_def Let_def
    using assms(1) by (auto intro!: revises_update_one [OF assms(3)] simp: job_move_refl)
       (auto simp: job_move_def pending_at_start_def)
qed

lemma repo_op_revises:
  assumes "repo_op orders t db db'" "ids_ok db"
  shows "revises (job_move orders t) db db'"
  using assms(1)
proof cases
  case (create row now)
  show ?thesis
  proof (cases "get_by_idempotency_key (j_idempotency_key row) db")
    case None
    then show ?thesis unfolding create revises_def
      using create(2)
      by (intro exI [of _ id] exI [of _ "[row\<lparr>j_status := JOB_QUEUED, j_received_at := now, j_queued_at := Some now\<rparr>]"])
         (simp add: create_job_if_not_exists_def Let_def job_defs)
  qed (simp add: create create_job_if_not_exists_def revises_refl job_move_refl)
next
  case (status st now i err w lease n)
  then show ?thesis by (rule_tac update_status_revises)
next
  case (heartbeat now i w lease)
  have "db' = snd (update_jobs (\<lambda>j. j_id j = i \<and> j_worker_id j = Some w \<and> active j)
             (\<lambda>j. j\<lparr>j_lease_expires_at := Some (now + lease)\<rparr>) db)"
    by (simp add: heartbeat heartbeat_lease_def update_jobs_def)
  then show ?thesis by (auto intro!: revises_update simp: job_defs)
next
  case (park now i w reason price close buffer count)
  have "revises (job_move orders t) db (snd (park_red_zone now i w reason price close buffer count db))"
    using assms(2)
    by (cases "get_job i db")
       (auto simp: park_red_zone_def revises_refl job_move_refl intro!: revises_signal revises_update_one,
        auto simp: job_defs)
  then show ?thesis using park by simp
next
  case (void now i reason)
  have "revises (job_move orders t) db (snd (void_deferred_job now i reason db))"
    using assms(2)
    by (cases "get_job i db")
       (auto simp: void_deferred_job_def revises_refl job_move_refl intro!: revises_signal revises_update_one,
        auto simp: job_defs)
  then show ?thesis using void by simp
next
  case (release now limit locked)
  then show ?thesis
    by (auto simp: claim_deferred_for_release_def Let_def job_move_refl intro!: revises_update)
       (auto simp: job_defs)
qed (simp_all add: reclaim_revises recover_revises)

section \<open>Concurrent claims\<close>

text \<open>
  A claiming transaction selects a candidate and locks its row, takes the advisory lock of the trade
  and checks again what has been committed since, then commits the claim, which ends both locks; it
  can give up at any point. Transactions of several workers interleave with each other and with the
  other operations, which do not write rows that are locked. The advisory lock belongs to one
  transaction at a time.
\<close>

datatype claimer = Idle | Chosen nat | Locked nat

fun row_of :: "claimer \<Rightarrow> nat option" where
  "row_of Idle = None"
| "row_of (Chosen i) = Some i"
| "row_of (Locked i) = Some i"

record queue_world =
  wdb :: queue_db
  wclaims :: claim_table
  worders :: "(string \<times> string) list"
  phase :: "string \<Rightarrow> claimer"

definition row_locks :: "queue_world \<Rightarrow> string \<Rightarrow> nat set" where
  "row_locks w p = {i. \<exists>q. q \<noteq> p \<and> row_of (phase w q) = Some i}"

definition trade_key :: "signal_job \<Rightarrow> string option" where
  "trade_key j = (case j_trade_id j of None \<Rightarrow> None | Some t \<Rightarrow> if t = [] then None else Some t)"

definition trade_of :: "queue_db \<Rightarrow> nat \<Rightarrow> string option" where
  "trade_of db i = (case get_job i db of None \<Rightarrow> None | Some j \<Rightarrow> trade_key j)"

inductive queue_step :: "queue_world \<Rightarrow> queue_world \<Rightarrow> bool" where
  choose: "phase w p = Idle \<Longrightarrow>
     select_claim_candidate now skipped (row_locks w p) (wclaims w) (wdb w) = Some i \<Longrightarrow>
     queue_step w (w\<lparr>phase := (phase w)(p := Chosen i)\<rparr>)"
| lock: "phase w p = Chosen i \<Longrightarrow> get_job i (wdb w) = Some job \<Longrightarrow> trade_key job = Some tid \<Longrightarrow>
     (\<And>q k. q \<noteq> p \<Longrightarrow> phase w q = Locked k \<Longrightarrow> trade_of (wdb w) k \<noteq> Some tid) \<Longrightarrow>
     \<not> trade_blocked_after_lock job (wclaims w) (wdb w) \<Longrightarrow>
     queue_step w (w\<lparr>phase := (phase w)(p := Locked i)\<rparr>)"
| give_up: "queue_step w (w\<lparr>phase := (phase w)(p := Idle)\<rparr>)"
| commit: "phase w p = Locked i \<or> phase w p = Chosen i \<and> trade_of (wdb w) i = None \<Longrightarrow>
     queue_step w (w\<lparr>wdb := claim_job p now lease i (wdb w), phase := (phase w)(p := Idle)\<rparr>)"
| repo: "repo_op (worders w) (wclaims w) (wdb w) db' \<Longrightarrow>
     (\<And>q i. row_of (phase w q) = Some i \<Longrightarrow> get_job i db' = get_job i (wdb w)) \<Longrightarrow>
     queue_step w (w\<lparr>wdb := db'\<rparr>)"
| elsewhere: "queue_step w (w\<lparr>wclaims := t', worders := orders'\<rparr>)"

inductive queue_reach :: "queue_world \<Rightarrow> bool" where
  start: "jobs (wdb w) = [] \<Longrightarrow> phase w = (\<lambda>p. Idle) \<Longrightarrow> queue_reach w"
| step: "queue_reach w \<Longrightarrow> queue_step w w' \<Longrightarrow> queue_reach w'"

inductive_cases queue_stepE: "queue_step w w'"

definition rows_held :: "queue_world \<Rightarrow> bool" where
  "rows_held w \<longleftrightarrow>
     (\<forall>p i. row_of (phase w p) = Some i \<longrightarrow> get_job i (wdb w) \<noteq> None) \<and>
     (\<forall>p q i. row_of (phase w p) = Some i \<longrightarrow> row_of (phase w q) = Some i \<longrightarrow> p = q)"

definition leases_unique :: "queue_db \<Rightarrow> bool" where
  "leases_unique db \<longleftrightarrow>
     (\<forall>j k. j \<in> set (jobs db) \<longrightarrow> k \<in> set (jobs db) \<longrightarrow> active j \<longrightarrow> active k \<longrightarrow>
        trade_key j \<noteq> None \<longrightarrow> trade_key j = trade_key k \<longrightarrow> j_id j = j_id k)"

text \<open>No other job of the trade is leased.\<close>

definition clear_for :: "queue_db \<Rightarrow> nat \<Rightarrow> bool" where
  "clear_for db i \<longleftrightarrow>
     (\<forall>s. s \<in> set (jobs db) \<longrightarrow> active s \<longrightarrow> trade_key s \<noteq> None \<longrightarrow> trade_key s = trade_of db i \<longrightarrow> j_id s = i)"

definition locks_exclusive :: "queue_world \<Rightarrow> bool" where
  "locks_exclusive w \<longleftrightarrow>
     (\<forall>p i. phase w p = Locked i \<longrightarrow> trade_of (wdb w) i \<noteq> None \<and> clear_for (wdb w) i) \<and>
     (\<forall>p q i k. phase w p = Locked i \<longrightarrow> phase w q = Locked k \<longrightarrow> p \<noteq> q \<longrightarrow>
        trade_of (wdb w) i \<noteq> trade_of (wdb w) k)"

definition queue_inv :: "queue_world \<Rightarrow> bool" where
  "queue_inv w \<longleftrightarrow> ids_ok (wdb w) \<and> rows_held w \<and> leases_unique (wdb w) \<and> locks_exclusive w"

lemma leases_uniqueD:
  "leases_unique db \<Longrightarrow> j \<in> set (jobs db) \<Longrightarrow> k \<in> set (jobs db) \<Longrightarrow> active j \<Longrightarrow> active k \<Longrightarrow>
     trade_key j \<noteq> None \<Longrightarrow> trade_key j = trade_key k \<Longrightarrow> j_id j = j_id k"
  unfolding leases_unique_def by blast

lemma clear_forD:
  "clear_for db i \<Longrightarrow> s \<in> set (jobs db) \<Longrightarrow> active s \<Longrightarrow> trade_key s \<noteq> None \<Longrightarrow>
     trade_key s = trade_of db i \<Longrightarrow> j_id s = i"
  unfolding clear_for_def by blast

lemma trade_key_same: "same_job j k \<Longrightarrow> trade_key j = trade_key k"
  by (simp add: trade_key_def same_job_def)

lemma not_blocked_clear:
  assumes "get_job i db = Some job" "\<not> trade_blocked_after_lock job t db"
  shows "clear_for db i"
proof -
  have "j_trade_id s = j_trade_id job \<and> j_trade_id s \<noteq> None"
    if "trade_key s \<noteq> None" "trade_key s = trade_key job" for s
    using that by (auto simp: trade_key_def split: option.splits if_splits)
  moreover have "j_id s = i" if "s \<in> set (jobs db)" "active s" "j_trade_id s \<noteq> None"
      "j_trade_id s = j_trade_id job" for s
    using assms(2) that get_job_Some [OF assms(1)]
    unfolding trade_blocked_after_lock_def sibling_in_flight_def list_ex_iff by blast
  ultimately show ?thesis
    unfolding clear_for_def trade_of_def assms(1) option.case by blast
qed

lemma revises_active:
  assumes "revises (job_move orders t) db db'" "k \<in> set (jobs db')" "active k"
  obtains j where "j \<in> set (jobs db)" "same_job k j" "active j"
proof -
  obtain j where j: "j \<in> set (jobs db)" "same_job k j" "job_move orders t j k"
    using revises_back [OF assms] .
  from that [OF j(1,2) job_move_active [OF j(3) assms(3)]] show thesis .
qed

text \<open>Operations that lease nothing new keep the leases unique and trades clear.\<close>

lemma revises_leases:
  assumes "revises (job_move orders t) db db'" "leases_unique db"
  shows "leases_unique db'"
  unfolding leases_unique_def
proof (intro allI impI)
  fix j k assume a: "j \<in> set (jobs db')" "k \<in> set (jobs db')" "active j" "active k"
    "trade_key j \<noteq> None" "trade_key j = trade_key k"
  obtain j0 where j0: "j0 \<in> set (jobs db)" "same_job j j0" "active j0"
    using revises_active [OF assms(1) a(1,3)] .
  obtain k0 where k0: "k0 \<in> set (jobs db)" "same_job k k0" "active k0"
    using revises_active [OF assms(1) a(2,4)] .
  have "j_id j0 = j_id k0"
    using leases_uniqueD [OF assms(2) j0(1) k0(1) j0(3) k0(3)] a(5,6)
      trade_key_same [OF j0(2)] trade_key_same [OF k0(2)] by simp
  then show "j_id j = j_id k" using j0(2) k0(2) by (simp add: same_job_def)
qed

lemma revises_clear:
  assumes "revises (job_move orders t) db db'" "clear_for db i" "trade_of db' i = trade_of db i"
  shows "clear_for db' i"
  unfolding clear_for_def
proof (intro allI impI)
  fix s assume a: "s \<in> set (jobs db')" "active s" "trade_key s \<noteq> None" "trade_key s = trade_of db' i"
  obtain s0 where s0: "s0 \<in> set (jobs db)" "same_job s s0" "active s0"
    using revises_active [OF assms(1) a(1,2)] .
  then have "j_id s0 = i"
    using clear_forD [OF assms(2) s0(1,3)] assms(3) a(3,4) trade_key_same [OF s0(2)] by simp
  then show "j_id s = i" using s0(2) by (simp add: same_job_def)
qed

lemma repo_inv:
  assumes "queue_inv w" "repo_op (worders w) (wclaims w) (wdb w) db'"
    and keep: "\<And>q i. row_of (phase w q) = Some i \<Longrightarrow> get_job i db' = get_job i (wdb w)"
  shows "queue_inv (w\<lparr>wdb := db'\<rparr>)"
proof -
  have ok: "ids_ok (wdb w)" "leases_unique (wdb w)" "rows_held w" "locks_exclusive w"
    using assms(1) by (auto simp: queue_inv_def)
  note rv = repo_op_revises [OF assms(2) ok(1)]
  have tr: "trade_of db' i = trade_of (wdb w) i" if "row_of (phase w q) = Some i" for q i
    using keep [OF that] by (simp add: trade_of_def)
  have tl: "trade_of db' i = trade_of (wdb w) i" if "phase w q = Locked i" for q i
    by (rule tr [of q]) (simp add: that)
  have "clear_for db' i" if "phase w q = Locked i" for q i
    using revises_clear [OF rv _ tl [OF that]] ok(4) that by (simp add: locks_exclusive_def)
  then have "locks_exclusive (w\<lparr>wdb := db'\<rparr>)"
    using ok(4) tl by (simp add: locks_exclusive_def)
  moreover have "rows_held (w\<lparr>wdb := db'\<rparr>)"
    using ok(3) keep by (simp add: rows_held_def)
  ultimately show ?thesis
    using revises_ids [OF rv ok(1)] revises_leases [OF rv ok(2)] by (simp add: queue_inv_def)
qed

lemma claim_jobs:
  "jobs (claim_job p now lease i db) = map (\<lambda>j. if j_id j = i then claim_row p now lease j else j) (jobs db)"
  by (simp add: claim_job_def update_jobs_def)

lemma claim_row_simps [simp]:
  "j_id (claim_row p now lease j) = j_id j" "trade_key (claim_row p now lease j) = trade_key j"
  by (simp_all add: claim_row_def trade_key_def)

lemma find_map_same: "(\<And>x. P (f x) = P x) \<Longrightarrow> find P (map f xs) = map_option f (find P xs)"
  by (induction xs) auto

lemma claim_get:
  "get_job k (claim_job p now lease i db) =
     map_option (\<lambda>j. if j_id j = i then claim_row p now lease j else j) (get_job k db)"
  unfolding get_job_def claim_jobs by (rule find_map_same) simp

lemma claim_trade_of: "trade_of (claim_job p now lease i db) k = trade_of db k"
  by (auto simp: trade_of_def claim_get split: option.splits)

lemma commit_inv:
  assumes "queue_inv w" "phase w p = Locked i \<or> phase w p = Chosen i \<and> trade_of (wdb w) i = None"
  shows "queue_inv (w\<lparr>wdb := claim_job p now lease i (wdb w), phase := (phase w)(p := Idle)\<rparr>)"
proof -
  let ?db = "wdb w" and ?db' = "claim_job p now lease i (wdb w)"
  have ok: "ids_ok ?db" "leases_unique ?db" "rows_held w" "locks_exclusive w"
    using assms(1) by (auto simp: queue_inv_def)
  have mem: "\<exists>j \<in> set (jobs ?db). k = (if j_id j = i then claim_row p now lease j else j)"
    if "k \<in> set (jobs ?db')" for k
    using that by (auto simp: claim_jobs)
  have clear: "trade_of ?db i = None \<or> clear_for ?db i"
    using assms(2) ok(4) by (auto simp: locks_exclusive_def)
  have ti: "trade_key j = trade_of ?db i" if "j \<in> set (jobs ?db)" "j_id j = i" for j
    using get_job_eq [OF ok(1) that(1)] that(2) by (simp add: trade_of_def)
  have "leases_unique ?db'"
    unfolding leases_unique_def
  proof (intro allI impI)
    fix j k assume a: "j \<in> set (jobs ?db')" "k \<in> set (jobs ?db')" "active j" "active k"
      "trade_key j \<noteq> None" "trade_key j = trade_key k"
    obtain j0 where j0: "j0 \<in> set (jobs ?db)" "j_id j = j_id j0" "trade_key j = trade_key j0"
        "j_id j0 = i \<or> active j0"
      using mem [OF a(1)] a(3) by (auto split: if_splits)
    obtain k0 where k0: "k0 \<in> set (jobs ?db)" "j_id k = j_id k0" "trade_key k = trade_key k0"
        "j_id k0 = i \<or> active k0"
      using mem [OF a(2)] a(4) by (auto split: if_splits)
    have j: "j_id x = i" if "x \<in> set (jobs ?db)" "active x" "y \<in> set (jobs ?db)" "j_id y = i"
      "trade_key x \<noteq> None" "trade_key x = trade_key y" for x y
      using clear ti [OF that(3,4)] that(5,6) clear_forD [OF _ that(1,2), of i] by auto
    have t: "trade_key j0 \<noteq> None" "trade_key k0 \<noteq> None" "trade_key j0 = trade_key k0" "trade_key k0 = trade_key j0"
      using a(5,6) unfolding j0(3) k0(3) by auto
    consider "active j0" "active k0" | "active j0" "j_id k0 = i" | "active k0" "j_id j0 = i"
      | "j_id j0 = i" "j_id k0 = i"
      using j0(4) k0(4) by blast
    then have "j_id j0 = j_id k0"
    proof cases
      case 1 then show ?thesis by (rule leases_uniqueD [OF ok(2) j0(1) k0(1) _ _ t(1,3)])
    next
      case 2 then show ?thesis using j [OF j0(1) 2(1) k0(1) 2(2) t(1,3)] by simp
    next
      case 3 then show ?thesis using j [OF k0(1) 3(1) j0(1) 3(2) t(2,4)] by simp
    qed simp
    then show "j_id j = j_id k" unfolding j0(2) k0(2) .
  qed
  moreover have "clear_for ?db' k" if k: "phase w q = Locked k" "q \<noteq> p" for q k
  proof -
    have c: "trade_of ?db k \<noteq> trade_of ?db i" "clear_for ?db k"
      using k assms(2) ok(4) unfolding locks_exclusive_def by metis+
    show ?thesis
      unfolding clear_for_def claim_trade_of
    proof (intro allI impI)
      fix s assume s: "s \<in> set (jobs ?db')" "active s" "trade_key s \<noteq> None" "trade_key s = trade_of ?db k"
      obtain s0 where s0: "s0 \<in> set (jobs ?db)" "j_id s = j_id s0" "trade_key s = trade_key s0"
          "j_id s0 = i \<or> active s0"
        using mem [OF s(1)] s(2) by (auto split: if_splits)
      have "j_id s0 \<noteq> i" using ti [OF s0(1)] s(4) c(1) unfolding s0(3) by metis
      then have "active s0" using s0(4) by blast
      then have "j_id s0 = k" using clear_forD [OF c(2) s0(1)] s(3,4) unfolding s0(3) by blast
      then show "j_id s = k" unfolding s0(2) .
    qed
  qed
  moreover have "ids_ok ?db'"
    using ok(1) by (simp add: ids_ok_def claim_jobs comp_def if_distrib cong: if_cong)
  ultimately show ?thesis
    using ok(3,4) unfolding queue_inv_def rows_held_def locks_exclusive_def
    by (simp add: claim_trade_of claim_get)
qed

lemma choose_inv:
  assumes "queue_inv w" "select_claim_candidate now skipped (row_locks w p) (wclaims w) (wdb w) = Some i"
  shows "queue_inv (w\<lparr>phase := (phase w)(p := Chosen i)\<rparr>)"
proof -
  obtain j where j: "j \<in> set (jobs (wdb w))" "j_id j = i" "i \<notin> row_locks w p"
    using select_in [OF assms(2)] by (auto simp: candidate_def)
  have "get_job i (wdb w) \<noteq> None"
    using get_job_eq [OF _ j(1)] j(2) assms(1) by (auto simp: queue_inv_def)
  then show ?thesis
    using assms(1) j(3) by (auto simp: queue_inv_def rows_held_def locks_exclusive_def row_locks_def)
qed

lemma queue_reach_inv: "queue_reach w \<Longrightarrow> queue_inv w"
proof (induction rule: queue_reach.induct)
  case (start w)
  then show ?case
    by (simp add: queue_inv_def ids_ok_def rows_held_def leases_unique_def locks_exclusive_def)
next
  case (step w w')
  from step(2) show ?case
  proof (cases rule: queue_step.cases)
    case (lock p i job tid)
    have "trade_of (wdb w) i = Some tid" using lock(3,4) by (simp add: trade_of_def)
    moreover have "trade_of (wdb w) k \<noteq> Some tid" if "q \<noteq> p" "phase w q = Locked k" for q k
      using lock(5) that by blast
    ultimately show ?thesis
      using step.IH not_blocked_clear [OF lock(3) lock(6)] lock(2)
      unfolding lock(1) queue_inv_def rows_held_def locks_exclusive_def
      by (auto simp: lock(3)) metis
  next
    case (give_up p)
    then show ?thesis using step.IH
      by (auto simp: queue_inv_def rows_held_def locks_exclusive_def)
  next
    case (elsewhere t' orders')
    then show ?thesis using step.IH
      by (simp add: queue_inv_def rows_held_def locks_exclusive_def)
  qed (use step.IH choose_inv commit_inv repo_inv in blast)+
qed

section \<open>Properties\<close>

text \<open>C23. Under concurrent claims, with transactions of any number of workers interleaved with each
  other, with the other operations of the queue and with changes of the execution claims, two leased
  jobs of one trade are the same job, so that the open and the close of a trade never run at once,
  and no two claiming transactions hold the same job.\<close>

theorem one_lease_per_trade:
  assumes "queue_reach w"
  shows "(\<forall>j k. j \<in> set (jobs (wdb w)) \<and> k \<in> set (jobs (wdb w)) \<and> active j \<and> active k \<and>
            trade_key j \<noteq> None \<and> trade_key j = trade_key k \<longrightarrow> j = k) \<and>
         (\<forall>p q i. row_of (phase w p) = Some i \<and> row_of (phase w q) = Some i \<longrightarrow> p = q)"
proof -
  have inv: "ids_ok (wdb w)" "leases_unique (wdb w)" "rows_held w"
    using queue_reach_inv [OF assms] by (auto simp: queue_inv_def)
  have "j = k" if "j \<in> set (jobs (wdb w))" "k \<in> set (jobs (wdb w))" "active j" "active k"
    "trade_key j \<noteq> None" "trade_key j = trade_key k" for j k
    by (rule ids_ok_inj [OF inv(1) that(1,2) leases_uniqueD [OF inv(2) that]])
  moreover have "p = q" if "row_of (phase w p) = Some i" "row_of (phase w q) = Some i" for p q i
    using inv(3) that unfolding rows_held_def by blast
  ultimately show ?thesis by blast
qed


section \<open>Sample run\<close>

definition sample_job :: "nat \<Rightarrow> string \<Rightarrow> signal_job" where
  "sample_job i sid =
     \<lparr>j_id = i, j_signal_id = sid, j_strategy_id = ''model_blue'', j_trade_id = Some ''T1'',
      j_status = JOB_RECEIVED, j_idempotency_key = sid, j_account_scope = Some ''1'', j_legs = [],
      j_attempt_count = 0, j_max_attempts = 3, j_worker_id = None, j_lease_expires_at = None,
      j_last_error = None, j_received_at = 0, j_queued_at = None, j_claimed_at = None,
      j_processing_started_at = None, j_completed_at = None, j_deferred_at = None,
      j_deferral_reason = None, j_reference_price = None, j_resolved_session_close = None,
      j_applied_buffer_seconds = None, j_deferred_session_count = 0\<rparr>"

definition sample_empty :: queue_world where
  "sample_empty = \<lparr>wdb = \<lparr>jobs = [], signals = Map.empty\<rparr>, wclaims = [], worders = [], phase = (\<lambda>p. Idle)\<rparr>"

definition sample_queued :: queue_world where
  "sample_queued = sample_empty\<lparr>wdb :=
     snd (create_job_if_not_exists 2 (sample_job 2 ''T1:CLOSE'')
            (snd (create_job_if_not_exists 1 (sample_job 1 ''T1'') (wdb sample_empty))))\<rparr>"

definition sample_claimed :: queue_world where
  "sample_claimed = sample_queued\<lparr>wdb := claim_job ''worker-1'' 5 (seconds 30) 1 (wdb sample_queued)\<rparr>"

lemma sample_queued_reach: "queue_reach sample_queued"
proof -
  let ?w1 = "sample_empty\<lparr>wdb := snd (create_job_if_not_exists 1 (sample_job 1 ''T1'') (wdb sample_empty))\<rparr>"
  have "queue_reach sample_empty" by (rule queue_reach.start) (simp_all add: sample_empty_def)
  moreover have "queue_step sample_empty ?w1"
    by (intro queue_step.repo repo_op.create) (simp_all add: sample_empty_def)
  ultimately have "queue_reach ?w1" by (rule queue_reach.step)
  moreover have "queue_step ?w1 (?w1\<lparr>wdb := snd (create_job_if_not_exists 2 (sample_job 2 ''T1:CLOSE'') (wdb ?w1))\<rparr>)"
    by (intro queue_step.repo repo_op.create)
       (simp_all add: sample_empty_def create_job_if_not_exists_def get_by_idempotency_key_def sample_job_def Let_def)
  ultimately show ?thesis using queue_reach.step by (fastforce simp: sample_queued_def)
qed

lemma sample_claimed_reach: "queue_reach sample_claimed"
proof -
  let ?c = "sample_queued\<lparr>phase := (phase sample_queued)(''worker-1'' := Chosen 1)\<rparr>"
  let ?l = "?c\<lparr>phase := (phase ?c)(''worker-1'' := Locked 1)\<rparr>"
  have "row_locks sample_queued ''worker-1'' = {}"
    by (simp add: row_locks_def sample_queued_def sample_empty_def)
  moreover have "select_claim_candidate 5 [] {} (wclaims sample_queued) (wdb sample_queued) = Some 1"
    by code_simp
  ultimately have "queue_step sample_queued ?c"
    by (intro queue_step.choose [where now = 5 and skipped = "[]"]) (simp_all add: sample_queued_def sample_empty_def)
  then have c: "queue_reach ?c" by (rule queue_reach.step [OF sample_queued_reach])
  have "get_job 1 (wdb sample_queued) = Some ((sample_job 1 ''T1'')
          \<lparr>j_status := JOB_QUEUED, j_received_at := 1, j_queued_at := Some 1\<rparr>)"
    by code_simp
  moreover have "\<not> trade_blocked_after_lock ((sample_job 1 ''T1'')
          \<lparr>j_status := JOB_QUEUED, j_received_at := 1, j_queued_at := Some 1\<rparr>) (wclaims sample_queued) (wdb sample_queued)"
    by code_simp
  ultimately have "queue_step ?c ?l"
    by (intro queue_step.lock [where tid = "''T1''"])
       (auto simp: trade_key_def sample_job_def sample_queued_def sample_empty_def)
  then have "queue_reach ?l" by (rule queue_reach.step [OF c])
  moreover have "queue_step ?l sample_claimed"
    using queue_step.commit [of ?l "''worker-1''" 1 5 "seconds 30"]
    by (simp add: sample_claimed_def sample_queued_def sample_empty_def fun_upd_idem)
  ultimately show ?thesis by (rule queue_reach.step)
qed

theorem one_lease_per_trade_witness:
  "queue_reach sample_claimed \<and> list_ex active (jobs (wdb sample_claimed)) \<and>
   map trade_key (jobs (wdb sample_claimed)) = [Some ''T1'', Some ''T1''] \<and>
   \<not> list_all active (jobs (wdb sample_claimed))"
proof -
  have k: "list_ex active (jobs (wdb sample_claimed))"
    "map trade_key (jobs (wdb sample_claimed)) = [Some ''T1'', Some ''T1'']"
    "map j_id (jobs (wdb sample_claimed)) = [1, 2]" by code_simp+
  then obtain j k where jk: "jobs (wdb sample_claimed) = [j, k]" "j_id j = 1" "j_id k = 2"
    "trade_key j = Some ''T1''" "trade_key k = Some ''T1''" by (auto simp: map_eq_Cons_conv)
  have "j = k" if "active j" "active k"
    using conjunct1 [OF one_lease_per_trade [OF sample_claimed_reach], rule_format, of j k] jk that by simp
  with jk(2,3) have "\<not> (active j \<and> active k)" by auto
  with k jk(1) sample_claimed_reach show ?thesis by simp
qed

text \<open>A job in processing whose lease ran out, with an order written: the sweep quarantines it.\<close>

definition sample_expired :: queue_db where
  "sample_expired =
     \<lparr>jobs = [(sample_job 1 ''T1'')\<lparr>j_status := JOB_PROCESSING, j_worker_id := Some ''worker-1'',
                j_lease_expires_at := Some 10, j_attempt_count := 1\<rparr>], signals = Map.empty\<rparr>"


end
