(* ===== verification/Red_Zone_Release.thy ===== *)
theory Red_Zone_Release
  imports Session_Clock Signal_Job_Properties Rms_Checks
begin

text \<open>
  The release of deferred jobs when the red zone is over (\<open>services/red_zone_release.py\<close>). A cycle
  is one transaction over the queue: the session clock, the job repository and the kill switch are
  its collaborators. An exception rolls it back and is logged by the loop around it.
\<close>

record release_settings =
  max_deferred_sessions :: int
  max_auto_release_count :: nat
  max_auto_release_notional :: "decimal option"

record release_env =
  rz_settings :: release_settings
  rz_world :: session_world
  rz_clock :: session_clock
  rz_now :: datetime
  rz_now_month :: int
  rz_client :: "bool result option"
  rz_kill :: "int \<Rightarrow> bool result"

definition gateway_ok :: "release_env \<Rightarrow> bool" where
  "gateway_ok env =
     (case rz_client env of None \<Rightarrow> True | Some (Inr up) \<Rightarrow> up | Some (Inl _) \<Rightarrow> False)"

section \<open>The checks on one job\<close>

definition deferral_age :: "release_env \<Rightarrow> signal_job \<Rightarrow> int result" where
  "deferral_age env job =
     deferred_session_count (rz_world env)
       (Aware (case j_deferred_at job of Some t \<Rightarrow> t | None \<Rightarrow> j_received_at job)) (Aware (rz_now env))"

definition scope_account :: "signal_job \<Rightarrow> int option" where
  "scope_account job =
     (case j_account_scope job of
        None \<Rightarrow> None
      | Some sc \<Rightarrow> (case py_int sc of Inr a \<Rightarrow> Some a | Inl _ \<Rightarrow> None))"

text \<open>A kill switch query that raises is logged and does not stop the release.\<close>

definition killed :: "release_env \<Rightarrow> signal_job \<Rightarrow> bool" where
  "killed env job =
     (case scope_account job of
        None \<Rightarrow> False
      | Some a \<Rightarrow> (case rz_kill env a of Inr b \<Rightarrow> b | Inl _ \<Rightarrow> False))"

definition leg_expired :: "int \<Rightarrow> string option \<times> string option \<Rightarrow> bool" where
  "leg_expired now_month leg =
     (case leg of (itype, cm) \<Rightarrow>
        is_expiry_instrument itype \<and>
        (case cm of
           None \<Rightarrow> True
         | Some c \<Rightarrow> c = [] \<or>
             (case year_month c of Inl _ \<Rightarrow> True | Inr (y, m) \<Rightarrow> now_month > y * 12 + m)))"

definition contract_expired :: "release_env \<Rightarrow> signal_job \<Rightarrow> bool" where
  "contract_expired env job = list_ex (leg_expired (rz_now_month env)) (j_legs job)"

definition release_row :: "datetime \<Rightarrow> int \<Rightarrow> signal_job \<Rightarrow> signal_job" where
  "release_row now cnt j =
     j\<lparr>j_status := JOB_QUEUED, j_queued_at := Some now, j_deferred_session_count := cnt\<rparr>"

definition release_job :: "release_env \<Rightarrow> signal_job \<Rightarrow> queue_db \<Rightarrow> (queue_db \<times> string list) result" where
  "release_job env job db =
     res_bind (deferral_age env job) (\<lambda>cnt.
       let void = (\<lambda>reason. Inr (snd (void_deferred_job (rz_now env) (j_id job) reason db), [''RED_ZONE_VOIDED'']))
       in if cnt > max_deferred_sessions (rz_settings env) then void ''VOID_STALE''
          else if killed env job then void ''VOID_KILLSWITCH''
          else if contract_expired env job then void ''VOID_EXPIRED_CONTRACT''
          else (case update_jobs (\<lambda>j. j_id j = j_id job \<and> j_status j = JOB_DEFERRED_RED_ZONE)
                       (release_row (rz_now env) cnt) db of
                  (n, db') \<Rightarrow>
                    if n = 0 then Inr (db', [])
                    else Inr (update_signal (j_strategy_id job, j_signal_id job) (\<lambda>(st, why). (''NEW'', why)) db',
                              [''RED_ZONE_RELEASED''])))"

fun release_jobs ::
  "release_env \<Rightarrow> signal_job list \<Rightarrow> queue_db \<times> string list \<Rightarrow> (queue_db \<times> string list) result" where
  "release_jobs env [] acc = Inr acc"
| "release_jobs env (job # rest) (db, evs) =
     res_bind (release_job env job db) (\<lambda>(db', evs'). release_jobs env rest (db', evs @ evs'))"

section \<open>The cycle\<close>

definition release_notional :: "signal_job list \<Rightarrow> decimal" where
  "release_notional js =
     sum_list (map (\<lambda>j. case j_reference_price j of Some p \<Rightarrow> \<bar>p\<bar> | None \<Rightarrow> 0) js)"

definition release_transaction :: "release_env \<Rightarrow> queue_db \<Rightarrow> (queue_db \<times> string list) result" where
  "release_transaction env db =
     res_bind (in_red_zone (rz_world env) (rz_clock env) (Aware (rz_now env))) (\<lambda>red.
       let st = rz_settings env; js = deferred_jobs db in
       if red then Inr (db, [])
       else if \<not> gateway_ok env
       then Inr (db, map (\<lambda>_. ''RED_ZONE_MISSED_WINDOW'') (take 3 js))
       else if js = [] then Inr (db, [])
       else if length js > max_auto_release_count st then Inr (db, [''RED_ZONE_BREAKER''])
       else if (case max_auto_release_notional st of None \<Rightarrow> False | Some m \<Rightarrow> release_notional js > m)
       then Inr (db, [''RED_ZONE_BREAKER''])
       else release_jobs env (take (max_auto_release_count st) js) (db, []))"

definition release_cycle :: "release_env \<Rightarrow> queue_db \<Rightarrow> queue_db \<times> string list" where
  "release_cycle env db =
     (case release_transaction env db of Inl _ \<Rightarrow> (db, []) | Inr r \<Rightarrow> r)"

section \<open>Facts\<close>

definition voided :: "release_env \<Rightarrow> signal_job \<Rightarrow> bool" where
  "voided env job \<longleftrightarrow>
     (\<exists>cnt. deferral_age env job = Inr cnt \<and> cnt > max_deferred_sessions (rz_settings env)) \<or>
     killed env job \<or> contract_expired env job"

lemma set_insert_deferred: "set (insert_deferred j js) = insert j (set js)"
  by (induction j js rule: insert_deferred.induct) (auto simp: Let_def split: option.splits)

lemma set_deferred: "set (deferred_jobs db) = {j \<in> set (jobs db). j_status j = JOB_DEFERRED_RED_ZONE}"
proof -
  have "set (foldr insert_deferred js []) = set js" for js
    by (induction js) (auto simp: set_insert_deferred)
  then show ?thesis by (auto simp: deferred_jobs_def)
qed

lemma distinct_insert_deferred:
  "distinct (map j_id (insert_deferred j js)) \<longleftrightarrow> j_id j \<notin> j_id ` set js \<and> distinct (map j_id js)"
  by (induction j js rule: insert_deferred.induct)
     (auto simp: Let_def set_insert_deferred split: option.splits)

lemma distinct_deferred:
  assumes "ids_ok db"
  shows "distinct (map j_id (deferred_jobs db))"
proof -
  have set_fold: "set (foldr insert_deferred js []) = set js" for js
    by (induction js) (auto simp: set_insert_deferred)
  have 1: "distinct (map j_id (foldr insert_deferred js []))" if "distinct (map j_id js)" for js
    using that by (induction js) (auto simp: distinct_insert_deferred set_fold)
  have 2: "distinct (map j_id (filter P js))" if "distinct (map j_id js)" for P js
    using that by (induction js) auto
  show ?thesis using assms unfolding deferred_jobs_def ids_ok_def by (intro 1 2)
qed

lemma get_job_update:
  assumes "\<And>j. j_id (upd j) = j_id j"
  shows "get_job k (snd (update_jobs sel upd db)) =
           map_option (\<lambda>j. if sel j then upd j else j) (get_job k db)"
  unfolding get_job_def update_jobs_def by (simp add: find_map_same assms)

lemma get_job_signal [simp]: "get_job k (update_signal key f db) = get_job k db"
  by (simp add: get_job_def update_signal_def)

text \<open>One deferred job: its row gets its verdict, no other row changes.\<close>

lemma release_job_get:
  assumes "release_job env job db = Inr (db', evs)" "get_job (j_id job) db = Some job"
    "j_status job = JOB_DEFERRED_RED_ZONE"
  shows "\<exists>job'. get_job (j_id job) db' = Some job' \<and>
           j_status job' = (if voided env job then JOB_REJECTED else JOB_QUEUED)"
    and "k \<noteq> j_id job \<Longrightarrow> get_job k db' = get_job k db"
proof -
  obtain cnt where c: "deferral_age env job = Inr cnt"
    using assms(1) by (auto simp: release_job_def res_bind_Inr_iff)
  let ?sel = "\<lambda>j. j_id j = j_id job \<and> j_status j = JOB_DEFERRED_RED_ZONE"
  let ?rel = "snd (update_jobs ?sel (release_row (rz_now env) cnt) db)"
  have rel: "get_job k ?rel = map_option (\<lambda>j. if ?sel j then release_row (rz_now env) cnt j else j) (get_job k db)" for k
    by (rule get_job_update) (simp add: release_row_def)
  have void: "get_job k (snd (void_deferred_job now (j_id job) reason db)) =
      map_option (\<lambda>j. if j_id j = j_id job then j\<lparr>j_status := JOB_REJECTED, j_last_error := Some reason,
         j_completed_at := Some now, j_worker_id := None, j_lease_expires_at := None\<rparr> else j) (get_job k db)"
    for now reason k
    using assms(2,3) by (simp add: void_deferred_job_def get_job_update)
  have cases: "(\<exists>reason. voided env job \<and> db' = snd (void_deferred_job (rz_now env) (j_id job) reason db)) \<or>
      \<not> voided env job \<and> (\<forall>k. get_job k db' = get_job k ?rel)"
    using assms(1) c
    by (auto simp: release_job_def Let_def voided_def split: if_splits prod.splits)
  have other: "get_job k db = Some j \<Longrightarrow> j_id j = k" for k j using get_job_Some by blast
  show "\<exists>job'. get_job (j_id job) db' = Some job' \<and>
           j_status job' = (if voided env job then JOB_REJECTED else JOB_QUEUED)"
    using cases assms(2,3) by (auto simp: void rel release_row_def)
  show "get_job k db' = get_job k db" if "k \<noteq> j_id job"
  proof (cases "get_job k db")
    case (Some a)
    then have "j_id a \<noteq> j_id job" using other that by blast
    then show ?thesis using cases by (auto simp: void rel Some)
  qed (use cases in \<open>auto simp: void rel\<close>)
qed

lemma release_jobs_get:
  assumes "release_jobs env js (db, evs) = Inr (db', evs')" "distinct (map j_id js)"
    "\<And>j. j \<in> set js \<Longrightarrow> get_job (j_id j) db = Some j \<and> j_status j = JOB_DEFERRED_RED_ZONE"
  shows "(\<forall>j \<in> set js. \<exists>j'. get_job (j_id j) db' = Some j' \<and>
            j_status j' = (if voided env j then JOB_REJECTED else JOB_QUEUED)) \<and>
         (\<forall>k. k \<notin> j_id ` set js \<longrightarrow> get_job k db' = get_job k db)"
  using assms
proof (induction js arbitrary: db evs)
  case (Cons job js)
  obtain db1 evs1 where r: "release_job env job db = Inr (db1, evs1)"
      "release_jobs env js (db1, evs @ evs1) = Inr (db', evs')"
    using Cons.prems(1) by (auto simp: res_bind_Inr_iff)
  have job: "get_job (j_id job) db = Some job" "j_status job = JOB_DEFERRED_RED_ZONE"
    using Cons.prems(3) [of job] by auto
  have notin: "j_id job \<notin> j_id ` set js" "distinct (map j_id js)" using Cons.prems(2) by auto
  note one = release_job_get [OF r(1) job]
  have "get_job (j_id j) db1 = Some j \<and> j_status j = JOB_DEFERRED_RED_ZONE" if "j \<in> set js" for j
  proof -
    have "j_id j \<noteq> j_id job" using that notin(1) by (metis imageI)
    then show ?thesis using Cons.prems(3) [of j] one(2) [of "j_id j"] that by simp
  qed
  note IH = Cons.IH [OF r(2) notin(2) this]
  show ?case
  proof (intro conjI ballI allI impI)
    fix j assume "j \<in> set (job # js)"
    then consider "j = job" | "j \<in> set js" by auto
    then show "\<exists>j'. get_job (j_id j) db' = Some j' \<and>
            j_status j' = (if voided env j then JOB_REJECTED else JOB_QUEUED)"
      by cases (use IH one(1) notin(1) in auto)
  next
    fix k assume "k \<notin> j_id ` set (job # js)"
    then show "get_job k db' = get_job k db" using IH one(2) [of k] by simp
  qed
qed simp

section \<open>Properties\<close>

text \<open>What a release cycle does. In the red zone, without a gateway, and whenever more jobs are
  deferred than the limit, the queue does not change: above the limit it never changes again by
  itself, since stale jobs are voided only after that test. Otherwise, when the notional limit holds
  and no clock query raises, every deferred job leaves the deferred state: it is queued unless it is
  stale, its account's kill switch is active or a contract of it has expired, and rejected in those
  cases; no other job is touched.\<close>

theorem red_zone_release:
  assumes "ids_ok db"
  shows "(length (deferred_jobs db) > max_auto_release_count (rz_settings env) \<longrightarrow>
            fst (release_cycle env db) = db) \<and>
         (in_red_zone (rz_world env) (rz_clock env) (Aware (rz_now env)) \<noteq> Inr False \<or> \<not> gateway_ok env \<longrightarrow>
            fst (release_cycle env db) = db) \<and>
         (in_red_zone (rz_world env) (rz_clock env) (Aware (rz_now env)) = Inr False \<and> gateway_ok env \<and>
          length (deferred_jobs db) \<le> max_auto_release_count (rz_settings env) \<and>
          (case max_auto_release_notional (rz_settings env) of
             None \<Rightarrow> True | Some m \<Rightarrow> release_notional (deferred_jobs db) \<le> m) \<and>
          is_ok (release_transaction env db) \<longrightarrow>
            (\<forall>j. j \<in> set (jobs db) \<longrightarrow>
               (if j_status j = JOB_DEFERRED_RED_ZONE
                then \<exists>j'. get_job (j_id j) (fst (release_cycle env db)) = Some j' \<and>
                          j_status j' = (if voided env j then JOB_REJECTED else JOB_QUEUED)
                else get_job (j_id j) (fst (release_cycle env db)) = Some j)))"
proof (intro conjI impI)
  assume "length (deferred_jobs db) > max_auto_release_count (rz_settings env)"
  then show "fst (release_cycle env db) = db"
    by (auto simp: release_cycle_def release_transaction_def res_bind_def Let_def split: sum.splits)
next
  assume "in_red_zone (rz_world env) (rz_clock env) (Aware (rz_now env)) \<noteq> Inr False \<or> \<not> gateway_ok env"
  then show "fst (release_cycle env db) = db"
    by (auto simp: release_cycle_def release_transaction_def res_bind_def Let_def split: sum.splits)
next
  assume a: "in_red_zone (rz_world env) (rz_clock env) (Aware (rz_now env)) = Inr False \<and> gateway_ok env \<and>
    length (deferred_jobs db) \<le> max_auto_release_count (rz_settings env) \<and>
    (case max_auto_release_notional (rz_settings env) of
       None \<Rightarrow> True | Some m \<Rightarrow> release_notional (deferred_jobs db) \<le> m) \<and> is_ok (release_transaction env db)"
  obtain db' evs where t: "release_transaction env db = Inr (db', evs)"
    using a by (cases "release_transaction env db") auto
  have "release_jobs env (deferred_jobs db) (db, []) = Inr (db', evs)"
    using t a by (auto simp: release_transaction_def Let_def split: if_splits option.splits)
  note get = release_jobs_get [OF this distinct_deferred [OF assms]]
  have d: "get_job (j_id j) db = Some j \<and> j_status j = JOB_DEFERRED_RED_ZONE" if "j \<in> set (deferred_jobs db)" for j
    using that get_job_eq [OF assms] by (auto simp: set_deferred)
  have c: "fst (release_cycle env db) = db'" by (simp add: release_cycle_def t)
  have "get_job (j_id j) db' = Some j" if "j \<in> set (jobs db)" "j_status j \<noteq> JOB_DEFERRED_RED_ZONE" for j
  proof -
    have "j_id j \<notin> j_id ` set (deferred_jobs db)"
      using that ids_ok_inj [OF assms that(1)] by (auto simp: set_deferred)
    then show ?thesis using get [OF d] get_job_eq [OF assms that(1)] by simp
  qed
  then show "\<forall>j. j \<in> set (jobs db) \<longrightarrow>
       (if j_status j = JOB_DEFERRED_RED_ZONE
        then \<exists>j'. get_job (j_id j) (fst (release_cycle env db)) = Some j' \<and>
                  j_status j' = (if voided env j then JOB_REJECTED else JOB_QUEUED)
        else get_job (j_id j) (fst (release_cycle env db)) = Some j)"
    using get [OF d] unfolding c by (auto simp: set_deferred)
qed

text \<open>A job deferred on the holiday before, released in the next session; with a limit of
  zero the breaker holds it.\<close>

definition sample_deferred :: signal_job where
  "sample_deferred = (sample_job 1 ''T1'')\<lparr>j_status := JOB_DEFERRED_RED_ZONE,
     j_deferred_at := Some (sample_time - seconds 90000), j_legs := [(Some ''STK'', None)]\<rparr>"

definition sample_release_env :: "nat \<Rightarrow> release_env" where
  "sample_release_env n =
     \<lparr>rz_settings = \<lparr>max_deferred_sessions = 1, max_auto_release_count = n, max_auto_release_notional = None\<rparr>,
      rz_world = sample_world sample_schedule, rz_clock = sample_clock, rz_now = sample_time,
      rz_now_month = 2026 * 12 + 9, rz_client = None, rz_kill = (\<lambda>_. Inr False)\<rparr>"

theorem red_zone_release_witness:
  "(\<exists>j'. get_job 1 (fst (release_cycle (sample_release_env 50) \<lparr>jobs = [sample_deferred], signals = Map.empty\<rparr>)) = Some j' \<and>
         j_status j' = JOB_QUEUED) \<and>
   fst (release_cycle (sample_release_env 0) \<lparr>jobs = [sample_deferred], signals = Map.empty\<rparr>) =
     \<lparr>jobs = [sample_deferred], signals = Map.empty\<rparr>"
proof -
  let ?db = "\<lparr>jobs = [sample_deferred], signals = Map.empty\<rparr>" and ?env = "sample_release_env 50"
  have "ids_ok ?db" by (simp add: ids_ok_def)
  note th = red_zone_release [OF this]
  have "length (deferred_jobs ?db) = 1"
    by (simp add: deferred_jobs_def sample_deferred_def)
  moreover have "in_red_zone (rz_world ?env) (rz_clock ?env) (Aware (rz_now ?env)) = Inr False" by code_simp
  moreover have "is_ok (release_transaction ?env ?db)" by code_simp
  moreover have "gateway_ok ?env" by code_simp
  moreover have "deferral_age ?env sample_deferred = Inr 0" by code_simp
  moreover have "\<not> killed ?env sample_deferred" by code_simp
  moreover have "\<not> contract_expired ?env sample_deferred" by code_simp
  moreover have "j_status sample_deferred = JOB_DEFERRED_RED_ZONE" "j_id sample_deferred = 1"
    by (simp_all add: sample_deferred_def sample_job_def)
  moreover have "rz_settings (sample_release_env n) =
      \<lparr>max_deferred_sessions = 1, max_auto_release_count = n, max_auto_release_notional = None\<rparr>" for n
    by (simp add: sample_release_env_def)
  ultimately show ?thesis
    using th [of ?env] th [of "sample_release_env 0"] by (simp add: voided_def)
qed

end
