(* ===== verification/Model_Blue.thy ===== *)
theory Model_Blue
  imports Rms_Models
begin

text \<open>
  The Model Blue strategy up to the intent: the domain signal (\<open>models/signal.py\<close>,
  \<open>models/model_blue_trade.py\<close>), the account routing (\<open>accounts/context.py\<close>,
  \<open>accounts/router.py\<close>), the sizer (\<open>services/model_blue/sizer.py\<close>) and the construction of open
  and close intents (\<open>services/model_blue/strategy.py\<close>).

  A weight is the decimal number that \<open>str\<close> prints for it, which is what the sizer computes with.
  \<open>ModelBlueValidationError\<close> is a \<open>ValueError\<close>; the model keeps the code at the head of its message.
\<close>

section \<open>Signals and trades\<close>

datatype signal_type = SIG_BUY | SIG_SELL | SIG_HOLD

record signal_leg =
  sl_symbol :: string
  sl_instrument_type :: string
  sl_weight :: "decimal option"
  sl_price :: decimal
  sl_payload_side :: "string option"
  sl_leg_index :: "nat option"

record signal =
  sg_signal_type :: signal_type
  sg_timestamp :: datetime
  sg_reason :: string
  sg_signal_id :: "string option"
  sg_strategy_id :: "string option"
  sg_action :: string
  sg_symbol :: "string option"
  sg_side :: "string option"
  sg_price :: "decimal option"
  sg_quantity :: "int option"
  sg_trade_id :: "string option"
  sg_direction :: "int option"
  sg_market :: "string option"
  sg_legs :: "signal_leg list"
  sg_emergency :: bool

record open_trade_leg =
  ot_symbol :: string
  ot_instrument_type :: string
  ot_side :: order_side
  ot_quantity :: decimal
  ot_price :: decimal

record open_trade =
  tr_trade_id :: string
  tr_strategy_id :: string
  tr_direction :: int
  tr_legs :: "open_trade_leg list"

definition MODEL_BLUE_STRATEGY_ID :: string where
  "MODEL_BLUE_STRATEGY_ID = ''model_blue''"

definition text_or :: "string option \<Rightarrow> string" where
  "text_or v = (case v of None \<Rightarrow> [] | Some s \<Rightarrow> s)"

text \<open>\<open>a or b or ""\<close> for optional texts.\<close>

definition first_text :: "string option \<Rightarrow> string option \<Rightarrow> string" where
  "first_text a b = (if text_or a \<noteq> [] then text_or a else text_or b)"

definition is_model_blue_strategy :: "string option \<Rightarrow> bool" where
  "is_model_blue_strategy strategy_id = (py_lower (py_strip (text_or strategy_id)) = MODEL_BLUE_STRATEGY_ID)"

section \<open>Account routing\<close>

record account_context =
  ac_account_id :: int
  ac_ibkr_account :: string
  ac_strategy_id :: string
  ac_total_margin :: decimal
  ac_alloc_pct :: decimal
  ac_committed_notional :: decimal
  ac_pair_max_allocation_pct :: decimal
  ac_pair_budget :: decimal
  ac_target :: decimal
  ac_stop :: decimal
  ac_time_limit :: int
  ac_max_open_positions :: int

record account_row =
  acc_id :: int
  acc_ibkr_account :: string
  acc_enabled :: bool
  acc_total_margin :: decimal

record strategy_row =
  st_strategy_id :: string
  st_enabled :: bool

record allocation_row =
  al_account_id :: int
  al_strategy_id :: string
  al_enabled :: bool
  al_alloc_pct :: decimal
  al_pair_max_allocation_pct :: decimal
  al_target :: decimal
  al_stop :: decimal
  al_time_limit :: int
  al_max_open_positions :: int
  al_target_unit :: "string option"
  al_stop_unit :: "string option"
  al_exit_automation_enabled :: bool

definition context_from_rows ::
  "account_row \<Rightarrow> allocation_row \<Rightarrow> strategy_row \<Rightarrow> account_context" where
  "context_from_rows account allocation strategy =
     (let committed = acc_total_margin account * al_alloc_pct allocation;
          pair_pct = al_pair_max_allocation_pct allocation
      in \<lparr>ac_account_id = acc_id account, ac_ibkr_account = acc_ibkr_account account,
          ac_strategy_id = st_strategy_id strategy, ac_total_margin = acc_total_margin account,
          ac_alloc_pct = al_alloc_pct allocation, ac_committed_notional = committed,
          ac_pair_max_allocation_pct = pair_pct, ac_pair_budget = committed * pair_pct,
          ac_target = al_target allocation, ac_stop = al_stop allocation,
          ac_time_limit = al_time_limit allocation,
          ac_max_open_positions = al_max_open_positions allocation\<rparr>)"

text \<open>The join of the three tables with its filters, by account id, then the two skips of the loop.\<close>

definition eligible_rows ::
  "account_row list \<Rightarrow> allocation_row list \<Rightarrow> strategy_row list \<Rightarrow> string \<Rightarrow>
   (account_row \<times> allocation_row \<times> strategy_row) list" where
  "eligible_rows accounts allocations strategies wanted =
     [(a, l, s). a \<leftarrow> sort_key acc_id accounts, l \<leftarrow> allocations, s \<leftarrow> strategies,
        al_account_id l = acc_id a, st_strategy_id s = al_strategy_id l, al_strategy_id l = wanted,
        acc_enabled a, st_enabled s, al_enabled l, acc_total_margin a > 0, al_alloc_pct l > 0]"

definition resolve_accounts ::
  "account_row list \<Rightarrow> allocation_row list \<Rightarrow> strategy_row list \<Rightarrow> string \<Rightarrow> account_context list" where
  "resolve_accounts accounts allocations strategies strategy_id =
     (let wanted = py_strip strategy_id in
      if wanted = [] then []
      else filter (\<lambda>c. \<not> ac_committed_notional c \<le> 0 \<and> \<not> ac_pair_budget c \<le> 0)
             (map (\<lambda>(a, l, s). context_from_rows a l s)
               (eligible_rows accounts allocations strategies wanted)))"

text \<open>\<open>StaticStrategyAccountRouter.resolve\<close>.\<close>

definition static_resolve :: "account_context list \<Rightarrow> string \<Rightarrow> account_context list" where
  "static_resolve contexts strategy_id = filter (\<lambda>c. ac_strategy_id c = py_strip strategy_id) contexts"

text \<open>\<open>AllocationRepository\<close> and the providers of committed capital over it.\<close>

definition get_enabled_account :: "account_row list \<Rightarrow> int option \<Rightarrow> account_row option" where
  "get_enabled_account accounts account_id =
     (case account_id of
        None \<Rightarrow> None
      | Some i \<Rightarrow> List.find (\<lambda>a. acc_id a = i \<and> acc_enabled a) accounts)"

definition get_allocation :: "allocation_row list \<Rightarrow> int \<Rightarrow> string \<Rightarrow> allocation_row option" where
  "get_allocation allocations account_id strategy_id =
     List.find (\<lambda>l. al_account_id l = account_id \<and> al_strategy_id l = strategy_id) allocations"

definition get_committed_notional ::
  "account_row list \<Rightarrow> allocation_row list \<Rightarrow> strategy_row list \<Rightarrow> string \<Rightarrow> int option \<Rightarrow> decimal option" where
  "get_committed_notional accounts allocations strategies strategy_id account_id =
     (case get_enabled_account accounts account_id of
        None \<Rightarrow> None
      | Some a \<Rightarrow>
          if acc_total_margin a \<le> 0 then None
          else if List.find (\<lambda>s. st_strategy_id s = strategy_id \<and> st_enabled s) strategies = None then None
          else (case get_allocation allocations (acc_id a) strategy_id of
                  None \<Rightarrow> None
                | Some l \<Rightarrow>
                    if \<not> al_enabled l then None
                    else (let committed = acc_total_margin a * al_alloc_pct l in
                          if committed \<le> 0 then None else Some committed)))"

definition get_committed ::
  "account_row list \<Rightarrow> allocation_row list \<Rightarrow> strategy_row list \<Rightarrow> int option \<Rightarrow> string \<Rightarrow>
   int option \<Rightarrow> decimal option" where
  "get_committed accounts allocations strategies own_account strategy_id account_id =
     (if \<not> is_model_blue_strategy (Some strategy_id) then None
      else get_committed_notional accounts allocations strategies strategy_id
             (case account_id of Some i \<Rightarrow> Some i | None \<Rightarrow> own_account))"

definition settings_committed :: "decimal option \<Rightarrow> string \<Rightarrow> decimal option" where
  "settings_committed committed_notional strategy_id =
     (if \<not> is_model_blue_strategy (Some strategy_id) then None
      else (case committed_notional of None \<Rightarrow> None | Some c \<Rightarrow> if c \<le> 0 then None else Some c))"

section \<open>The sizer\<close>

record sizer =
  sz_min_order_notional :: decimal
  sz_ratio_tolerance :: decimal
  sz_min_deployment :: decimal

definition default_sizer :: sizer where
  "default_sizer = \<lparr>sz_min_order_notional = 100, sz_ratio_tolerance = 5 / 100, sz_min_deployment = 0\<rparr>"

definition WEIGHT_SUM_TOLERANCE :: decimal where
  "WEIGHT_SUM_TOLERANCE = 1 / 1000000"

record sized_leg =
  sd_symbol :: string
  sd_instrument_type :: string
  sd_side :: order_side
  sd_quantity :: decimal
  sd_price :: decimal
  sd_notional :: decimal
  sd_weight :: decimal

text \<open>\<open>quantize\<close> to whole numbers, rounding down, and to four digits, rounding half up.\<close>

definition quantize_down :: "decimal \<Rightarrow> decimal" where
  "quantize_down x = of_int (if 0 \<le> x then \<lfloor>x\<rfloor> else \<lceil>x\<rceil>)"

definition quantize_half_up :: "decimal \<Rightarrow> decimal" where
  "quantize_half_up x =
     (if 0 \<le> x then of_int \<lfloor>x * 10000 + 1 / 2\<rfloor> / 10000 else - of_int \<lfloor>- x * 10000 + 1 / 2\<rfloor> / 10000)"

definition whole_shares :: "string \<Rightarrow> bool" where
  "whole_shares instrument_type \<longleftrightarrow>
     py_upper (if instrument_type = [] then ''STK'' else instrument_type) \<in> {''STK'', ''ETF''}"

definition size_leg ::
  "sizer \<Rightarrow> string \<Rightarrow> string \<Rightarrow> decimal \<Rightarrow> decimal \<Rightarrow> int \<Rightarrow> decimal \<Rightarrow> sized_leg result" where
  "size_leg sz symbol instrument_type weight price direction target_notional =
     (let whole = whole_shares instrument_type;
          quantity = (if whole then quantize_down (target_notional / price)
                      else quantize_half_up (target_notional / price));
          notional = quantity * price;
          signed = weight * of_int direction
      in if price \<le> 0 then Inl (ValueError ''MODEL_BLUE_INVALID_PRICE'')
         else if whole \<and> quantity < 1 then Inl (ValueError ''MODEL_BLUE_MIN_SHARE'')
         else if notional < sz_min_order_notional sz then Inl (ValueError ''MODEL_BLUE_MIN_NOTIONAL'')
         else if signed = 0 then Inl (ValueError ''MODEL_BLUE_INVALID_SIDE'')
         else Inr \<lparr>sd_symbol = symbol, sd_instrument_type = instrument_type,
                   sd_side = (if signed > 0 then BUY else SELL), sd_quantity = quantity, sd_price = price,
                   sd_notional = notional, sd_weight = weight\<rparr>)"

fun size_legs :: "sizer \<Rightarrow> decimal \<Rightarrow> int \<Rightarrow> signal_leg list \<Rightarrow> sized_leg list result" where
  "size_legs sz budget direction [] = Inr []"
| "size_legs sz budget direction (leg # legs) =
     (let w = (case sl_weight leg of None \<Rightarrow> 0 | Some x \<Rightarrow> x) in
      res_bind (size_leg sz (sl_symbol leg) (sl_instrument_type leg) w (sl_price leg) direction (budget * \<bar>w\<bar>))
        (\<lambda>s. res_bind (size_legs sz budget direction legs) (\<lambda>ss. Inr (s # ss))))"

definition weight_sum :: "sized_leg list \<Rightarrow> decimal" where
  "weight_sum sized = sum_list (map (\<lambda>s. \<bar>sd_weight s\<bar>) sized)"

definition share_deviation :: "sized_leg list \<Rightarrow> sized_leg \<Rightarrow> decimal" where
  "share_deviation sized s =
     \<bar>sd_notional s / sum_list (map sd_notional sized) - \<bar>sd_weight s\<bar> / weight_sum sized\<bar>"

definition worst_deviation :: "sized_leg list \<Rightarrow> decimal" where
  "worst_deviation sized =
     fold (\<lambda>s worst. if share_deviation sized s > worst then share_deviation sized s else worst) sized 0"

definition validate_realised_ratio :: "sizer \<Rightarrow> sized_leg list \<Rightarrow> decimal \<Rightarrow> unit result" where
  "validate_realised_ratio sz sized budget =
     (let total_notional = sum_list (map sd_notional sized);
          deployment = total_notional / budget
      in if total_notional \<le> 0 then Inl (ValueError ''MODEL_BLUE_ZERO_NOTIONAL'')
         else if worst_deviation sized > sz_ratio_tolerance sz then Inl (ValueError ''MODEL_BLUE_RATIO_DRIFT'')
         else if sz_min_deployment sz > 0 \<and> deployment < sz_min_deployment sz
         then Inl (ValueError ''MODEL_BLUE_UNDER_DEPLOYED'')
         else Inr ())"

text \<open>The provider of committed capital answers when no pair budget is passed.\<close>

definition size_open ::
  "sizer \<Rightarrow> (string \<Rightarrow> decimal option) \<Rightarrow> signal \<Rightarrow> decimal option \<Rightarrow> sized_leg list result" where
  "size_open sz committed sg pair_budget =
     (let budget = (case pair_budget of
                      Some b \<Rightarrow> Some b | None \<Rightarrow> committed (text_or (sg_strategy_id sg)));
          wsum = sum_list (map (\<lambda>l. case sl_weight l of None \<Rightarrow> 0 | Some x \<Rightarrow> \<bar>x\<bar>) (sg_legs sg))
      in if \<not> is_model_blue_strategy (sg_strategy_id sg) then Inl (ValueError ''MODEL_BLUE_STRATEGY_MISMATCH'')
         else if py_upper (sg_action sg) \<noteq> ''OPEN'' then Inl (ValueError ''MODEL_BLUE_INVALID_ACTION'')
         else if sg_direction sg \<notin> {Some 1, Some (- 1)} then Inl (ValueError ''MODEL_BLUE_INVALID_DIRECTION'')
         else if length (sg_legs sg) \<noteq> 2 then Inl (ValueError ''MODEL_BLUE_INVALID_LEG_COUNT'')
         else (case budget of
                 None \<Rightarrow> Inl (ValueError ''MODEL_BLUE_PAIR_BUDGET_NOT_CONFIGURED'')
               | Some b \<Rightarrow>
                   if b \<le> 0 then Inl (ValueError ''MODEL_BLUE_PAIR_BUDGET_NOT_CONFIGURED'')
                   else if list_ex (\<lambda>l. sl_weight l = None) (sg_legs sg)
                   then Inl (ValueError ''MODEL_BLUE_MISSING_WEIGHT'')
                   else if \<bar>wsum - 1\<bar> > WEIGHT_SUM_TOLERANCE then Inl (ValueError ''MODEL_BLUE_WEIGHT_SUM_INVALID'')
                   else res_bind (size_legs sz b (the (sg_direction sg)) (sg_legs sg)) (\<lambda>sized.
                     res_bind (validate_realised_ratio sz sized b) (\<lambda>_. Inr sized))))"

section \<open>Intents\<close>

definition order_leg_from_sized :: "nat \<Rightarrow> sized_leg \<Rightarrow> order_leg" where
  "order_leg_from_sized index s =
     \<lparr>leg_symbol = sd_symbol s, leg_side = sd_side s, leg_quantity = sd_quantity s, leg_price = sd_price s,
      leg_contract_month = None, leg_con_id = None, leg_notional = Some (sd_notional s),
      leg_instrument_type = Some (sd_instrument_type s), leg_weight = Some (sd_weight s),
      leg_leg_index = Some (int index), leg_metadata = None, leg_exchange = None, leg_currency = None,
      leg_resolved = None\<rparr>"

definition signal_trade_id :: "signal \<Rightarrow> string" where
  "signal_trade_id sg = py_strip (first_text (sg_trade_id sg) (sg_signal_id sg))"

text \<open>\<open>_build_open_intent\<close>. The trade book answers whether a row exists for the trade and account.
  The sizer is the injected one or, when there is none, one built from the settings; without an
  account and without a sizer the committed capital decides.\<close>

definition build_open_intent ::
  "(string \<Rightarrow> int option \<Rightarrow> bool result) \<Rightarrow> sizer option \<Rightarrow> sizer \<Rightarrow> (string \<Rightarrow> decimal option) \<Rightarrow>
   (string \<Rightarrow> decimal option) \<Rightarrow> signal \<Rightarrow> account_context option \<Rightarrow> order_intent result" where
  "build_open_intent row_exists own_sizer settings_sizer own_committed committed sg account =
     (let trade_id = signal_trade_id sg; account_id = map_option ac_account_id account in
      if trade_id = [] then Inl (ValueError ''MODEL_BLUE_MISSING_TRADE_ID'')
      else res_bind (row_exists trade_id account_id) (\<lambda>exists_row.
        if exists_row then Inl (ValueError ''TRADE_ID_NOT_UNIQUE'')
        else res_bind
          (case account of
             Some a \<Rightarrow> Inr (case own_sizer of Some sz \<Rightarrow> (sz, own_committed) | None \<Rightarrow> (settings_sizer, \<lambda>_. None))
           | None \<Rightarrow>
               (case own_sizer of
                  Some sz \<Rightarrow> Inr (sz, own_committed)
                | None \<Rightarrow>
                    (case committed (first_text (sg_strategy_id sg) (Some MODEL_BLUE_STRATEGY_ID)) of
                       None \<Rightarrow> Inl (ValueError ''MODEL_BLUE_COMMITTED_NOT_CONFIGURED'')
                     | Some c \<Rightarrow>
                         if c \<le> 0 then Inl (ValueError ''MODEL_BLUE_COMMITTED_NOT_CONFIGURED'')
                         else Inr (settings_sizer,
                                \<lambda>sid. if is_model_blue_strategy (Some sid) then Some c else None))))
          (\<lambda>(sz, prov).
             res_bind (size_open sz prov sg (map_option ac_pair_budget account)) (\<lambda>sized.
               if length sized \<noteq> 2 then Inl (ValueError ''MODEL_BLUE_INVALID_LEG_COUNT'')
               else Inr \<lparr>oi_signal_id = trade_id, oi_strategy_id = MODEL_BLUE_STRATEGY_ID, oi_action = OPEN,
                         oi_legs = map (\<lambda>(i, s). order_leg_from_sized i s) (enumerate 0 sized),
                         oi_account_id = account_id, oi_ibkr_account = map_option ac_ibkr_account account,
                         oi_market = sg_market sg, oi_timestamp = sg_timestamp sg,
                         oi_intent_mode = MODE_OPEN\<rparr>))))"

definition close_leg :: "nat \<Rightarrow> open_trade_leg \<Rightarrow> order_leg" where
  "close_leg index l =
     \<lparr>leg_symbol = ot_symbol l, leg_side = (if ot_side l = BUY then SELL else BUY),
      leg_quantity = ot_quantity l, leg_price = ot_price l, leg_contract_month = None, leg_con_id = None,
      leg_notional = Some (ot_quantity l * ot_price l), leg_instrument_type = Some (ot_instrument_type l),
      leg_weight = None, leg_leg_index = Some (int index), leg_metadata = None, leg_exchange = None,
      leg_currency = None, leg_resolved = None\<rparr>"

definition build_close_intent ::
  "(string \<Rightarrow> int option \<Rightarrow> open_trade option result) \<Rightarrow> signal \<Rightarrow> account_context option \<Rightarrow> order_intent result" where
  "build_close_intent get_trade sg account =
     (let trade_id = signal_trade_id sg; account_id = map_option ac_account_id account in
      if trade_id = [] then Inl (ValueError ''MODEL_BLUE_MISSING_TRADE_ID'')
      else res_bind (get_trade trade_id account_id) (\<lambda>open_trade.
        case open_trade of
          None \<Rightarrow> Inl (ValueError ''NO_OPEN_POSITION'')
        | Some tr \<Rightarrow>
            Inr \<lparr>oi_signal_id = trade_id @ '':CLOSE'', oi_strategy_id = MODEL_BLUE_STRATEGY_ID,
                 oi_action = CLOSE, oi_legs = map (\<lambda>(i, l). close_leg i l) (enumerate 0 (tr_legs tr)),
                 oi_account_id = account_id, oi_ibkr_account = map_option ac_ibkr_account account,
                 oi_market = sg_market sg, oi_timestamp = sg_timestamp sg, oi_intent_mode = MODE_OPEN\<rparr>))"

text \<open>The trade that \<open>after_submit\<close> records for an open intent.\<close>

definition recorded_trade :: "signal \<Rightarrow> order_intent \<Rightarrow> open_trade" where
  "recorded_trade sg intent =
     \<lparr>tr_trade_id = signal_trade_id sg, tr_strategy_id = oi_strategy_id intent,
      tr_direction = (case sg_direction sg of None \<Rightarrow> 0 | Some d \<Rightarrow> d),
      tr_legs = map (\<lambda>leg. \<lparr>ot_symbol = leg_symbol leg, ot_instrument_type = text_or (leg_instrument_type leg),
                            ot_side = leg_side leg, ot_quantity = leg_quantity leg, ot_price = leg_price leg\<rparr>)
                  (oi_legs intent)\<rparr>"

end
