(* ===== verification/Position_Ledger.thy ===== *)
theory Position_Ledger
  imports Model_Blue Oms_Models
begin

text \<open>
  The pair ledger: \<open>db/models/position.py\<close>, \<open>db/repositories/position_repository.py\<close> with the trade
  view of it in \<open>db/repositories/trade_repository.py\<close>, and the part of
  \<open>services/model_blue/persistence.py\<close> that turns broker fills into rows and closes them. The table
  is a list of rows with primary key account and trade.
\<close>

datatype risk_state = RS_OPEN | RS_CLOSED | RS_FLATTENED_PENDING_PRICE

record position =
  p_account_id :: int
  p_trade_id :: string
  p_strategy_id :: string
  p_leg_a_symbol :: string
  p_leg_a_signed_qty :: decimal
  p_leg_a_entry_mark :: decimal
  p_leg_b_symbol :: "string option"
  p_leg_b_signed_qty :: "decimal option"
  p_leg_b_entry_mark :: "decimal option"
  p_realised_pnl :: decimal
  p_commission :: decimal
  p_live_pnl :: decimal
  p_target :: decimal
  p_stop :: decimal
  p_time_limit :: int
  p_target_unit :: string
  p_stop_unit :: string
  p_exit_reason :: "string option"
  p_exit_automation_enabled :: bool
  p_leg_a_instrument_type :: string
  p_leg_b_instrument_type :: "string option"
  p_opened_at :: datetime
  p_closed_at :: "datetime option"
  p_risk_state :: risk_state

type_synonym ledger = "position list"

section \<open>Queries\<close>

definition signed_qty :: "order_side \<Rightarrow> decimal \<Rightarrow> decimal" where
  "signed_qty side quantity = (if side = BUY then quantity else - quantity)"

definition leg_from_signed ::
  "string option \<Rightarrow> decimal option \<Rightarrow> decimal option \<Rightarrow> string option \<Rightarrow> open_trade_leg option" where
  "leg_from_signed symbol q price instrument_type =
     (case (symbol, q, price) of
        (Some s, Some x, Some p) \<Rightarrow>
          if s = [] then None
          else Some \<lparr>ot_symbol = s,
                     ot_instrument_type = (if text_or instrument_type = [] then ''STK'' else text_or instrument_type),
                     ot_side = (if x \<ge> 0 then BUY else SELL), ot_quantity = \<bar>x\<bar>, ot_price = p\<rparr>
      | _ \<Rightarrow> None)"

definition matching :: "string \<Rightarrow> int option \<Rightarrow> ledger \<Rightarrow> ledger" where
  "matching trade_id account_id rows =
     filter (\<lambda>r. p_trade_id r = trade_id \<and> (case account_id of None \<Rightarrow> True | Some a \<Rightarrow> p_account_id r = a)) rows"

definition unique_row :: "ledger \<Rightarrow> position option result" where
  "unique_row rows =
     (case rows of [] \<Rightarrow> Inr None | [r] \<Rightarrow> Inr (Some r) | _ \<Rightarrow> Inl (ValueError ''AMBIGUOUS_TRADE_ID''))"

definition get_by_trade_id :: "string \<Rightarrow> int option \<Rightarrow> ledger \<Rightarrow> position option result" where
  "get_by_trade_id trade_id account_id rows = unique_row (matching trade_id account_id rows)"

definition get_open_by_trade_id :: "string \<Rightarrow> int option \<Rightarrow> ledger \<Rightarrow> position option result" where
  "get_open_by_trade_id trade_id account_id rows =
     unique_row (filter (\<lambda>r. p_risk_state r = RS_OPEN) (matching trade_id account_id rows))"

definition list_open :: "ledger \<Rightarrow> ledger" where
  "list_open rows = filter (\<lambda>r. p_risk_state r = RS_OPEN) rows"

definition to_open_trade :: "position \<Rightarrow> open_trade" where
  "to_open_trade row =
     \<lparr>tr_trade_id = p_trade_id row, tr_strategy_id = p_strategy_id row, tr_direction = 0,
      tr_legs = List.map_filter id
        [leg_from_signed (Some (p_leg_a_symbol row)) (Some (p_leg_a_signed_qty row))
           (Some (p_leg_a_entry_mark row)) (Some (p_leg_a_instrument_type row)),
         leg_from_signed (p_leg_b_symbol row) (p_leg_b_signed_qty row) (p_leg_b_entry_mark row)
           (p_leg_b_instrument_type row)]\<rparr>"

definition get_open_trade :: "string \<Rightarrow> int option \<Rightarrow> ledger \<Rightarrow> open_trade option result" where
  "get_open_trade trade_id account_id rows =
     res_bind (get_open_by_trade_id trade_id account_id rows) (\<lambda>r. Inr (map_option to_open_trade r))"

definition sum_realised_closed_since :: "int \<Rightarrow> datetime \<Rightarrow> ledger \<Rightarrow> decimal" where
  "sum_realised_closed_since account_id since rows =
     sum_list (map p_realised_pnl
       (filter (\<lambda>r. p_account_id r = account_id \<and> p_risk_state r = RS_CLOSED \<and>
                    (case p_closed_at r of None \<Rightarrow> False | Some t \<Rightarrow> t \<ge> since)) rows))"

section \<open>Opening\<close>

record exit_terms =
  xt_target :: decimal
  xt_stop :: decimal
  xt_time_limit :: int
  xt_target_unit :: string
  xt_stop_unit :: string
  xt_automation :: bool

definition unit_or_absolute :: "string \<Rightarrow> string" where
  "unit_or_absolute u = (if u = [] then ''ABSOLUTE'' else u)"

definition new_position ::
  "datetime \<Rightarrow> int \<Rightarrow> exit_terms \<Rightarrow> open_trade \<Rightarrow> open_trade_leg \<Rightarrow> open_trade_leg \<Rightarrow> position" where
  "new_position now account_id terms trade a b =
     \<lparr>p_account_id = account_id, p_trade_id = tr_trade_id trade, p_strategy_id = tr_strategy_id trade,
      p_leg_a_symbol = normalize_symbol (Some (ot_symbol a)),
      p_leg_a_signed_qty = signed_qty (ot_side a) (ot_quantity a), p_leg_a_entry_mark = ot_price a,
      p_leg_b_symbol = Some (normalize_symbol (Some (ot_symbol b))),
      p_leg_b_signed_qty = Some (signed_qty (ot_side b) (ot_quantity b)),
      p_leg_b_entry_mark = Some (ot_price b),
      p_realised_pnl = 0, p_commission = 0, p_live_pnl = 0,
      p_target = xt_target terms, p_stop = xt_stop terms, p_time_limit = xt_time_limit terms,
      p_target_unit = unit_or_absolute (xt_target_unit terms),
      p_stop_unit = unit_or_absolute (xt_stop_unit terms), p_exit_reason = None,
      p_exit_automation_enabled = xt_automation terms,
      p_leg_a_instrument_type = ot_instrument_type a,
      p_leg_b_instrument_type = Some (ot_instrument_type b),
      p_opened_at = now, p_closed_at = None, p_risk_state = RS_OPEN\<rparr>"

definition ledger_open ::
  "datetime \<Rightarrow> int \<Rightarrow> exit_terms \<Rightarrow> open_trade \<Rightarrow> ledger \<Rightarrow> ledger result" where
  "ledger_open now account_id terms trade rows =
     (case tr_legs trade of
        [a, b] \<Rightarrow>
          res_bind (get_by_trade_id (tr_trade_id trade) (Some account_id) rows) (\<lambda>existing.
            case existing of
              Some _ \<Rightarrow> Inl (ValueError ''TRADE_ID_NOT_UNIQUE'')
            | None \<Rightarrow> Inr (rows @ [new_position now account_id terms trade a b]))
      | _ \<Rightarrow> Inl (ValueError ''Model Blue position requires exactly two legs.''))"

section \<open>Closing\<close>

type_synonym exit_marks = "string \<rightharpoonup> decimal"

definition leg_pnl :: "exit_marks \<Rightarrow> string \<Rightarrow> decimal \<Rightarrow> decimal \<Rightarrow> decimal" where
  "leg_pnl marks symbol qty entry =
     (case marks symbol of None \<Rightarrow> 0 | Some m \<Rightarrow> qty * (m - entry))"

definition realised_on :: "exit_marks \<Rightarrow> position \<Rightarrow> decimal" where
  "realised_on marks row =
     leg_pnl marks (p_leg_a_symbol row) (p_leg_a_signed_qty row) (p_leg_a_entry_mark row) +
     (case (p_leg_b_symbol row, p_leg_b_signed_qty row, p_leg_b_entry_mark row) of
        (Some s, Some q, Some e) \<Rightarrow> if s = [] then 0 else leg_pnl marks s q e
      | _ \<Rightarrow> 0)"

definition needed_symbols :: "position \<Rightarrow> string list" where
  "needed_symbols row =
     filter (\<lambda>s. s \<noteq> []) (p_leg_a_symbol row # (case p_leg_b_symbol row of None \<Rightarrow> [] | Some s \<Rightarrow> [s]))"

definition close_row ::
  "datetime \<Rightarrow> exit_marks option \<Rightarrow> decimal option \<Rightarrow> string option \<Rightarrow> position \<Rightarrow> position result" where
  "close_row now exit_marks commission exit_reason row =
     (if (case exit_marks of None \<Rightarrow> False | Some m \<Rightarrow> list_ex (\<lambda>s. m s = None) (needed_symbols row))
      then Inl (ValueError ''INCOMPLETE_EXIT_MARKS'')
      else
        (let gross = realised_on (case exit_marks of None \<Rightarrow> Map.empty | Some m \<Rightarrow> m) row;
             comm = (case commission of
                       Some c \<Rightarrow> if c > 0 then p_commission row + c else p_commission row
                     | None \<Rightarrow> p_commission row);
             net = (case commission of
                      Some c \<Rightarrow> if c > 0 then gross - comm else gross
                    | None \<Rightarrow> gross)
         in Inr (row\<lparr>p_realised_pnl := net, p_commission := comm, p_live_pnl := net,
                     p_risk_state := RS_CLOSED, p_closed_at := Some now,
                     p_exit_reason := (case exit_reason of None \<Rightarrow> p_exit_reason row | Some r \<Rightarrow> Some r)\<rparr>)))"

definition same_position :: "position \<Rightarrow> position \<Rightarrow> bool" where
  "same_position a b \<longleftrightarrow> p_account_id a = p_account_id b \<and> p_trade_id a = p_trade_id b"

definition put_row :: "position \<Rightarrow> ledger \<Rightarrow> ledger" where
  "put_row row rows = map (\<lambda>r. if same_position r row then row else r) rows"

definition row_to_close :: "string \<Rightarrow> int option \<Rightarrow> ledger \<Rightarrow> position option result" where
  "row_to_close trade_id account_id rows =
     res_bind (get_open_by_trade_id trade_id account_id rows) (\<lambda>r.
       case r of
         Some row \<Rightarrow> Inr (Some row)
       | None \<Rightarrow>
           Inr (case filter (\<lambda>r. p_risk_state r = RS_FLATTENED_PENDING_PRICE) (matching trade_id account_id rows) of
                  [] \<Rightarrow> None | row # _ \<Rightarrow> Some row))"

definition close_trade ::
  "datetime \<Rightarrow> string \<Rightarrow> int option \<Rightarrow> exit_marks option \<Rightarrow> decimal option \<Rightarrow> string option \<Rightarrow>
   ledger \<Rightarrow> (position \<times> ledger) result" where
  "close_trade now trade_id account_id exit_marks commission exit_reason rows =
     res_bind (row_to_close trade_id account_id rows) (\<lambda>r.
       case r of
         None \<Rightarrow>
           res_bind (get_by_trade_id trade_id account_id rows) (\<lambda>existing.
             case existing of
               Some e \<Rightarrow> if p_risk_state e = RS_CLOSED then Inr (e, rows) else Inl KeyError
             | None \<Rightarrow> Inl KeyError)
       | Some row \<Rightarrow>
           res_bind (close_row now exit_marks commission exit_reason row) (\<lambda>row'.
             Inr (row', put_row row' rows)))"

section \<open>Edits of open rows\<close>

definition update_live_pnl :: "int \<Rightarrow> string \<Rightarrow> decimal \<Rightarrow> ledger \<Rightarrow> ledger result" where
  "update_live_pnl account_id trade_id live_pnl rows =
     res_bind (get_open_by_trade_id trade_id (Some account_id) rows) (\<lambda>r.
       Inr (case r of None \<Rightarrow> rows | Some row \<Rightarrow> put_row (row\<lparr>p_live_pnl := live_pnl\<rparr>) rows))"

definition set_exit_reason :: "int \<Rightarrow> string \<Rightarrow> string option \<Rightarrow> ledger \<Rightarrow> nat \<times> ledger" where
  "set_exit_reason account_id reason trade_id rows =
     (let sel = (\<lambda>r. p_account_id r = account_id \<and> p_risk_state r = RS_OPEN \<and>
                     (case trade_id of None \<Rightarrow> True | Some t \<Rightarrow> p_trade_id r = t))
      in (length (filter sel rows), map (\<lambda>r. if sel r then r\<lparr>p_exit_reason := Some reason\<rparr> else r) rows))"

definition set_if :: "'a option \<Rightarrow> 'a \<Rightarrow> 'a" where
  "set_if v old = (case v of None \<Rightarrow> old | Some x \<Rightarrow> x)"

definition update_exit_thresholds ::
  "int \<Rightarrow> string \<Rightarrow> decimal option \<Rightarrow> decimal option \<Rightarrow> string option \<Rightarrow> string option \<Rightarrow> bool option \<Rightarrow>
   ledger \<Rightarrow> (position \<times> ledger) result" where
  "update_exit_thresholds account_id trade_id target stop target_unit stop_unit automation rows =
     res_bind (get_by_trade_id trade_id (Some account_id) rows) (\<lambda>r.
       case r of
         None \<Rightarrow> Inl KeyError
       | Some row \<Rightarrow>
           if p_risk_state row \<noteq> RS_OPEN then Inl (ValueError ''POSITION_NOT_OPEN'')
           else (let row' = row\<lparr>p_target := set_if target (p_target row), p_stop := set_if stop (p_stop row),
                                p_target_unit := set_if target_unit (p_target_unit row),
                                p_stop_unit := set_if stop_unit (p_stop_unit row),
                                p_exit_automation_enabled := set_if automation (p_exit_automation_enabled row)\<rparr>
                 in Inr (row', put_row row' rows)))"

section \<open>From broker fills to rows\<close>

text \<open>\<open>derived or average or last\<close>: zero counts as absent.\<close>

definition or_price :: "decimal option \<Rightarrow> decimal option \<Rightarrow> decimal option" where
  "or_price a b = (case a of Some p \<Rightarrow> if p = 0 then b else a | None \<Rightarrow> b)"

definition fill_price :: "oms_order \<Rightarrow> decimal option" where
  "fill_price x = or_price (executions_weighted_average (o_executions x))
                    (or_price (o_average_fill_price x) (o_last_fill_price x))"

definition exit_marks_from_orders :: "oms_order list \<Rightarrow> exit_marks" where
  "exit_marks_from_orders orders =
     fold (\<lambda>x marks.
       if o_is_compensation x then marks
       else (case fill_price x of
               None \<Rightarrow> marks
             | Some price \<Rightarrow> if o_symbol x = [] then marks else marks(o_symbol x \<mapsto> price)))
       orders Map.empty"

fun commission_loop :: "oms_order list \<Rightarrow> decimal \<Rightarrow> bool \<Rightarrow> decimal \<times> bool" where
  "commission_loop [] tot found = (tot, found)"
| "commission_loop (x # xs) tot found =
     (if o_executions x \<noteq> []
      then (let part = executions_commission_total (o_executions x) in
            if part > 0 then commission_loop xs (tot + part) True else commission_loop xs tot found)
      else (case o_commission x of
              None \<Rightarrow> commission_loop xs tot found
            | Some c \<Rightarrow> commission_loop xs (tot + c) True))"

definition commission_from_orders :: "oms_order list \<Rightarrow> decimal option" where
  "commission_from_orders orders =
     (case commission_loop orders 0 False of
        (tot, found) \<Rightarrow> if found \<and> tot > 0 then Some tot else None)"

definition CLOSE_QTY_EPS :: decimal where
  "CLOSE_QTY_EPS = 1 / 10000"

definition filled_qty_by_symbol :: "oms_order list \<Rightarrow> string \<rightharpoonup> decimal" where
  "filled_qty_by_symbol orders =
     fold (\<lambda>x m. if o_is_compensation x \<or> o_filled x \<le> 0 \<or> o_symbol x = [] then m
                 else m(o_symbol x \<mapsto> get_or m (o_symbol x) 0 + o_filled x)) orders Map.empty"

definition leg_fills_match :: "(string \<rightharpoonup> decimal) \<Rightarrow> string option \<Rightarrow> decimal option \<Rightarrow> bool" where
  "leg_fills_match filled symbol signed =
     (case (symbol, signed) of
        (Some s, Some q) \<Rightarrow> s = [] \<or> \<not> \<bar>get_or filled s 0 - \<bar>q\<bar>\<bar> > CLOSE_QTY_EPS
      | _ \<Rightarrow> True)"

definition assert_close_qty_matches_open :: "position \<Rightarrow> (string \<rightharpoonup> decimal) \<Rightarrow> unit result" where
  "assert_close_qty_matches_open row filled =
     (if leg_fills_match filled (Some (p_leg_a_symbol row)) (Some (p_leg_a_signed_qty row)) \<and>
         leg_fills_match filled (p_leg_b_symbol row) (p_leg_b_signed_qty row)
      then Inr () else Inl (ValueError ''CLOSE_QTY_MISMATCH''))"

definition close_fills_match_open :: "position \<Rightarrow> oms_order list \<Rightarrow> bool" where
  "close_fills_match_open row orders = is_ok (assert_close_qty_matches_open row (filled_qty_by_symbol orders))"

text \<open>\<open>persist_close\<close> on the ledger, for the account that \<open>_account_id_from\<close> resolved.\<close>

definition persist_close ::
  "datetime \<Rightarrow> string \<Rightarrow> int \<Rightarrow> oms_order list \<Rightarrow> ledger \<Rightarrow> (open_trade \<times> ledger) result" where
  "persist_close now trade_id account_id orders rows =
     res_bind (get_by_trade_id trade_id (Some account_id) rows) (\<lambda>r.
       case r of
         None \<Rightarrow> Inl KeyError
       | Some row \<Rightarrow>
           res_bind (assert_close_qty_matches_open row (filled_qty_by_symbol orders)) (\<lambda>_.
             res_bind (close_trade now trade_id (Some account_id) (Some (exit_marks_from_orders orders))
                         (commission_from_orders orders) None rows) (\<lambda>(row', rows').
               Inr (to_open_trade row', rows'))))"

record leg_fills =
  lf_qty :: decimal
  lf_weighted :: decimal
  lf_instrument_type :: "string option"
  lf_symbol :: "string option"
  lf_side :: "order_side option"

definition order_instrument_type :: "oms_order \<Rightarrow> string option \<Rightarrow> string option" where
  "order_instrument_type x prior =
     (case o_resolved x of
        Some ri \<Rightarrow> Some (ri_sec_type ri)
      | None \<Rightarrow>
          (case o_leg_index x of
             Some i \<Rightarrow> if i < length (oi_legs (o_intent x))
                       then leg_instrument_type (oi_legs (o_intent x) ! i) else prior
           | None \<Rightarrow> prior))"

fun group_fills :: "oms_order list \<Rightarrow> leg_fills \<Rightarrow> leg_fills result" where
  "group_fills [] acc = Inr acc"
| "group_fills (x # xs) acc =
     (if o_filled x \<le> 0 then group_fills xs acc
      else (case fill_price x of
              None \<Rightarrow> Inl (ValueError ''POSITION_REQUIRES_FILLS'')
            | Some price \<Rightarrow>
                group_fills xs
                  \<lparr>lf_qty = lf_qty acc + o_filled x, lf_weighted = lf_weighted acc + o_filled x * price,
                   lf_instrument_type = order_instrument_type x (lf_instrument_type acc),
                   lf_symbol = Some (o_symbol x), lf_side = o_side x\<rparr>))"

definition leg_of_fills :: "leg_fills \<Rightarrow> open_trade_leg result" where
  "leg_of_fills f =
     (case (lf_symbol f, lf_side f) of
        (Some s, Some side) \<Rightarrow>
          if lf_qty f \<le> 0 then Inl (ValueError ''POSITION_REQUIRES_FILLS'')
          else if text_or (lf_instrument_type f) = [] then Inl (ValueError ''POSITION_REQUIRES_INSTRUMENT_TYPE'')
          else Inr \<lparr>ot_symbol = s, ot_instrument_type = text_or (lf_instrument_type f), ot_side = side,
                    ot_quantity = lf_qty f, ot_price = lf_weighted f / lf_qty f\<rparr>
      | _ \<Rightarrow> Inl (ValueError ''POSITION_REQUIRES_FILLS''))"

definition leg_group :: "oms_order list \<Rightarrow> nat \<Rightarrow> open_trade_leg result" where
  "leg_group orders index =
     res_bind (group_fills
       (filter (\<lambda>x. (case o_leg_index x of Some i \<Rightarrow> i | None \<Rightarrow> 0) = index) orders)
       \<lparr>lf_qty = 0, lf_weighted = 0, lf_instrument_type = None, lf_symbol = None, lf_side = None\<rparr>) leg_of_fills"

definition open_trade_from_fills :: "open_trade \<Rightarrow> oms_order list \<Rightarrow> open_trade result" where
  "open_trade_from_fills trade orders =
     (let fill_orders = filter (\<lambda>x. \<not> o_is_compensation x) orders;
          indexes = sort (remdups (map (\<lambda>x. case o_leg_index x of Some i \<Rightarrow> i | None \<Rightarrow> 0) fill_orders))
      in case indexes of
           [i, j] \<Rightarrow>
             res_bind (leg_group fill_orders i) (\<lambda>a. res_bind (leg_group fill_orders j) (\<lambda>b.
               Inr (trade\<lparr>tr_legs := [a, b]\<rparr>)))
         | _ \<Rightarrow> Inl (ValueError ''POSITION_REQUIRES_FILLS''))"

text \<open>\<open>_account_id_from\<close> and \<open>_require_account_allocation\<close>.\<close>

definition account_id_from :: "oms_order list \<Rightarrow> int option \<Rightarrow> int option \<Rightarrow> int result" where
  "account_id_from orders account_id own_account =
     (case account_id of
        Some i \<Rightarrow> Inr i
      | None \<Rightarrow>
          (case (case orders of [] \<Rightarrow> None | x # _ \<Rightarrow> oi_account_id (o_intent x)) of
             Some i \<Rightarrow> Inr i
           | None \<Rightarrow>
               (case own_account of
                  Some i \<Rightarrow> Inr i
                | None \<Rightarrow> Inl (ValueError ''MODEL_BLUE_ACCOUNT_MISSING''))))"

definition require_account_allocation ::
  "account_row list \<Rightarrow> allocation_row list \<Rightarrow> string \<Rightarrow> int \<Rightarrow> (account_row \<times> allocation_row) result" where
  "require_account_allocation accounts allocations strategy_id account_id =
     (case get_enabled_account accounts (Some account_id) of
        None \<Rightarrow> Inl (ValueError ''MODEL_BLUE_ACCOUNT_MISSING'')
      | Some a \<Rightarrow>
          (case get_allocation allocations (acc_id a) strategy_id of
             None \<Rightarrow> Inl (ValueError ''MODEL_BLUE_ALLOCATION_MISSING'')
           | Some l \<Rightarrow>
               if al_enabled l then Inr (a, l) else Inl (ValueError ''MODEL_BLUE_ALLOCATION_MISSING'')))"

definition terms_of_allocation :: "allocation_row \<Rightarrow> exit_terms" where
  "terms_of_allocation l =
     \<lparr>xt_target = al_target l, xt_stop = al_stop l, xt_time_limit = al_time_limit l,
      xt_target_unit = unit_or_absolute (text_or (al_target_unit l)),
      xt_stop_unit = unit_or_absolute (text_or (al_stop_unit l)),
      xt_automation = al_exit_automation_enabled l\<rparr>"

text \<open>\<open>persist_open\<close> on the ledger. The signal, order and event rows it writes beside the position
  are not part of the ledger.\<close>

definition with_commission :: "int \<Rightarrow> string \<Rightarrow> decimal option \<Rightarrow> ledger \<Rightarrow> ledger" where
  "with_commission account_id trade_id commission rows =
     (case commission of
        None \<Rightarrow> rows
      | Some c \<Rightarrow> map (\<lambda>r. if p_account_id r = account_id \<and> p_trade_id r = trade_id
                          then r\<lparr>p_commission := c\<rparr> else r) rows)"

definition persist_open ::
  "datetime \<Rightarrow> account_row list \<Rightarrow> allocation_row list \<Rightarrow> int option \<Rightarrow> open_trade \<Rightarrow> oms_order list \<Rightarrow>
   int option \<Rightarrow> ledger \<Rightarrow> ledger result" where
  "persist_open now accounts allocations own_account trade orders account_id rows =
     res_bind (account_id_from orders account_id own_account) (\<lambda>resolved.
       res_bind (open_trade_from_fills trade orders) (\<lambda>tr.
         res_bind (require_account_allocation accounts allocations (tr_strategy_id tr) resolved) (\<lambda>(a, l).
           res_bind (ledger_open now (acc_id a) (terms_of_allocation l) tr rows) (\<lambda>rows'.
             Inr (with_commission (acc_id a) (tr_trade_id tr) (commission_from_orders orders) rows')))))"

end
