(* ===== verification/Trade_Book.thy ===== *)
theory Trade_Book
  imports Position_Ledger
begin

text \<open>
  The trade books of Model Blue (\<open>services/model_blue/trade_book.py\<close> and
  \<open>services/model_blue/db_trade_book.py\<close>): the protocol \<open>ModelBlueTradeBook\<close> as a locale, what its
  client, the strategy, can rely on, and its two implementations, the process-local dictionary and
  the pair ledger.
\<close>

section \<open>The book in memory\<close>

type_synonym memory_book = "(int \<times> string) \<rightharpoonup> open_trade"

definition book_key :: "string \<Rightarrow> int option \<Rightarrow> int \<times> string" where
  "book_key trade_id account_id = ((case account_id of Some i \<Rightarrow> i | None \<Rightarrow> 0), trade_id)"

definition mem_get :: "memory_book \<Rightarrow> string \<Rightarrow> int option \<Rightarrow> open_trade option" where
  "mem_get trades trade_id account_id = trades (book_key trade_id account_id)"

definition mem_record_open :: "memory_book \<Rightarrow> open_trade \<Rightarrow> int option \<Rightarrow> memory_book" where
  "mem_record_open trades trade account_id = trades(book_key (tr_trade_id trade) account_id \<mapsto> trade)"

definition mem_close :: "memory_book \<Rightarrow> string \<Rightarrow> int option \<Rightarrow> (open_trade \<times> memory_book) result" where
  "mem_close trades trade_id account_id =
     (case trades (book_key trade_id account_id) of
        None \<Rightarrow> Inl KeyError
      | Some t \<Rightarrow> Inr (t, trades(book_key trade_id account_id := None)))"

definition mem_get_row :: "memory_book \<Rightarrow> string \<Rightarrow> int option \<Rightarrow> risk_state option" where
  "mem_get_row trades trade_id account_id =
     map_option (\<lambda>_. RS_OPEN) (trades (book_key trade_id account_id))"

section \<open>The book over the ledger\<close>

definition require_account :: "int option \<Rightarrow> int option \<Rightarrow> int result" where
  "require_account own_account account_id =
     (case (case account_id of Some i \<Rightarrow> Some i | None \<Rightarrow> own_account) of
        Some i \<Rightarrow> Inr i
      | None \<Rightarrow> Inl (ValueError ''MODEL_BLUE_ACCOUNT_MISSING''))"

definition db_get :: "int option \<Rightarrow> ledger \<Rightarrow> string \<Rightarrow> int option \<Rightarrow> open_trade option result" where
  "db_get own_account rows trade_id account_id =
     res_bind (require_account own_account account_id) (\<lambda>resolved.
       get_open_trade trade_id (Some resolved) rows)"

definition db_get_row :: "int option \<Rightarrow> ledger \<Rightarrow> string \<Rightarrow> int option \<Rightarrow> position option result" where
  "db_get_row own_account rows trade_id account_id =
     res_bind (require_account own_account account_id) (\<lambda>resolved.
       get_by_trade_id trade_id (Some resolved) rows)"

definition db_record_open ::
  "datetime \<Rightarrow> account_row list \<Rightarrow> allocation_row list \<Rightarrow> int option \<Rightarrow> ledger \<Rightarrow> open_trade \<Rightarrow> int option \<Rightarrow>
   ledger result" where
  "db_record_open now accounts allocations own_account rows trade account_id =
     res_bind (require_account own_account account_id) (\<lambda>resolved.
       res_bind (require_account_allocation accounts allocations (tr_strategy_id trade) resolved) (\<lambda>(a, l).
         ledger_open now (acc_id a) (terms_of_allocation l) trade rows))"

definition db_close ::
  "datetime \<Rightarrow> int option \<Rightarrow> ledger \<Rightarrow> string \<Rightarrow> int option \<Rightarrow> (open_trade \<times> ledger) result" where
  "db_close now own_account rows trade_id account_id =
     res_bind (require_account own_account account_id) (\<lambda>resolved.
       res_bind (close_trade now trade_id (Some resolved) None None None rows) (\<lambda>(row, rows').
         Inr (to_open_trade row, rows')))"

section \<open>The protocol\<close>

text \<open>A close leg reverses an opened one.\<close>

definition reverses :: "order_leg \<Rightarrow> order_leg \<Rightarrow> bool" where
  "reverses opened c \<longleftrightarrow>
     normalize_symbol (Some (leg_symbol c)) = normalize_symbol (Some (leg_symbol opened)) \<and>
     leg_side c = (if leg_side opened = BUY then SELL else BUY) \<and>
     leg_quantity c = leg_quantity opened \<and> leg_price c = leg_price opened"

definition same_leg :: "open_trade_leg \<Rightarrow> open_trade_leg \<Rightarrow> bool" where
  "same_leg a b \<longleftrightarrow>
     normalize_symbol (Some (ot_symbol b)) = normalize_symbol (Some (ot_symbol a)) \<and>
     ot_side b = ot_side a \<and> ot_quantity b = ot_quantity a \<and> ot_price b = ot_price a"

text \<open>What a book keeps: \<open>held\<close> is the trade as it comes back, \<open>fits\<close> the trades it can hold and
  \<open>ok\<close> its invariant.\<close>

locale trade_book =
  fixes get :: "'b \<Rightarrow> string \<Rightarrow> int option \<Rightarrow> open_trade option result"
    and get_row :: "'b \<Rightarrow> string \<Rightarrow> int option \<Rightarrow> bool result"
    and record_open :: "'b \<Rightarrow> open_trade \<Rightarrow> int option \<Rightarrow> 'b result"
    and close :: "'b \<Rightarrow> string \<Rightarrow> int option \<Rightarrow> (open_trade \<times> 'b) result"
    and held :: "open_trade \<Rightarrow> open_trade"
    and fits :: "open_trade \<Rightarrow> bool"
    and ok :: "'b \<Rightarrow> bool"
  assumes record_ok: "ok b \<Longrightarrow> record_open b t (Some a) = Inr b' \<Longrightarrow> ok b'"
    and close_ok: "ok b \<Longrightarrow> close b i (Some a) = Inr (t, b') \<Longrightarrow> ok b'"
    and record_get: "ok b \<Longrightarrow> fits t \<Longrightarrow> get_row b (tr_trade_id t) (Some a) = Inr False \<Longrightarrow>
          record_open b t (Some a) = Inr b' \<Longrightarrow> get b' (tr_trade_id t) (Some a) = Inr (Some (held t))"
    and record_frame: "ok b \<Longrightarrow> record_open b t (Some a) = Inr b' \<Longrightarrow> (i, a') \<noteq> (tr_trade_id t, a) \<Longrightarrow>
          get b' i (Some a') = get b i (Some a')"
    and close_get: "ok b \<Longrightarrow> get b i (Some a) = Inr (Some t) \<Longrightarrow>
          \<exists>b'. close b i (Some a) = Inr (t, b') \<and> get b' i (Some a) = Inr None"
    and held_legs: "fits t \<Longrightarrow> list_all2 same_leg (tr_legs t) (tr_legs (held t))"
begin

lemma close_intent_of_open_trade:
  assumes "get b i (Some (ac_account_id acct)) = Inr (Some t)"
    and "signal_trade_id sg = i" "i \<noteq> []"
  shows "\<exists>ci. build_close_intent (get b) sg (Some acct) = Inr ci \<and> oi_action ci = CLOSE \<and>
           oi_account_id ci = Some (ac_account_id acct) \<and>
           oi_legs ci = map (\<lambda>(k, l). close_leg k l) (enumerate 0 (tr_legs t))"
  using assms by (simp add: build_close_intent_def)

lemma record_then_close:
  assumes "ok b" "fits t" "get_row b (tr_trade_id t) (Some (ac_account_id acct)) = Inr False"
    and rec: "record_open b t (Some (ac_account_id acct)) = Inr b'"
    and sg: "signal_trade_id sg = tr_trade_id t" "tr_trade_id t \<noteq> []"
  shows "\<exists>ci b'' t'. build_close_intent (get b') sg (Some acct) = Inr ci \<and> oi_action ci = CLOSE \<and>
           oi_legs ci = map (\<lambda>(k, l). close_leg k l) (enumerate 0 (tr_legs (held t))) \<and>
           close b' (tr_trade_id t) (Some (ac_account_id acct)) = Inr (t', b'') \<and>
           build_close_intent (get b'') sg (Some acct) = Inl (ValueError ''NO_OPEN_POSITION'')"
proof -
  have got: "get b' (tr_trade_id t) (Some (ac_account_id acct)) = Inr (Some (held t))"
    by (rule record_get [OF assms(1-4)])
  have "ok b'" by (rule record_ok [OF assms(1) rec])
  from close_get [OF this got] obtain b'' where
    c: "close b' (tr_trade_id t) (Some (ac_account_id acct)) = Inr (held t, b'')"
       "get b'' (tr_trade_id t) (Some (ac_account_id acct)) = Inr None" by blast
  with close_intent_of_open_trade [OF got sg] show ?thesis
    by (auto simp: build_close_intent_def sg)
qed

end

section \<open>Both books keep the protocol\<close>

interpretation memory_book: trade_book
  "\<lambda>b i a. Inr (mem_get b i a)" "\<lambda>b i a. Inr (mem_get_row b i a \<noteq> None)"
  "\<lambda>b t a. Inr (mem_record_open b t a)" mem_close id "\<lambda>_. True" "\<lambda>_. True"
  by unfold_locales
    (auto simp: mem_get_def mem_record_open_def mem_close_def book_key_def same_leg_def list_all2_same
          split: option.splits)

definition ledger_ok :: "ledger \<Rightarrow> bool" where
  "ledger_ok rows \<longleftrightarrow> distinct (map (\<lambda>r. (p_account_id r, p_trade_id r)) rows)"

definition held_leg :: "open_trade_leg \<Rightarrow> open_trade_leg" where
  "held_leg l = l\<lparr>ot_symbol := normalize_symbol (Some (ot_symbol l)),
                  ot_instrument_type := (if ot_instrument_type l = [] then ''STK'' else ot_instrument_type l)\<rparr>"

definition held_trade :: "open_trade \<Rightarrow> open_trade" where
  "held_trade t = t\<lparr>tr_direction := 0, tr_legs := map held_leg (tr_legs t)\<rparr>"

definition ledger_fits :: "open_trade \<Rightarrow> bool" where
  "ledger_fits t \<longleftrightarrow> (\<forall>l\<in>set (tr_legs t). normalize_symbol (Some (ot_symbol l)) \<noteq> [] \<and> 0 < ot_quantity l)"

lemma matching_of_ok:
  assumes "ledger_ok rows"
  shows "matching i (Some a) rows = [] \<or> (\<exists>r. matching i (Some a) rows = [r])"
proof -
  have d: "distinct (map (\<lambda>r. (p_account_id r, p_trade_id r)) (matching i (Some a) rows))"
    using assms by (simp add: ledger_ok_def matching_def distinct_map_filter)
  have "\<forall>r\<in>set (matching i (Some a) rows). (p_account_id r, p_trade_id r) = (a, i)"
    by (auto simp: matching_def)
  with d show ?thesis
    by (cases "matching i (Some a) rows" rule: remdups_adj.cases) auto
qed

lemma ledger_open_Inr:
  assumes "ledger_open now account_id terms trade rows = Inr rows'"
  obtains a b where "tr_legs trade = [a, b]"
    and "matching (tr_trade_id trade) (Some account_id) rows = []"
    and "rows' = rows @ [new_position now account_id terms trade a b]"
  using assms
  by (auto simp: ledger_open_def get_by_trade_id_def unique_row_def split: list.splits option.splits)

lemma new_position_key [simp]:
  "p_account_id (new_position now acc terms trade a b) = acc"
  "p_trade_id (new_position now acc terms trade a b) = tr_trade_id trade"
  "p_risk_state (new_position now acc terms trade a b) = RS_OPEN"
  by (simp_all add: new_position_def)

lemma ledger_open_ok:
  "ledger_ok rows \<Longrightarrow> ledger_open now account_id terms trade rows = Inr rows' \<Longrightarrow> ledger_ok rows'"
  by (elim ledger_open_Inr) (auto simp: ledger_ok_def matching_def filter_empty_conv)

lemma matching_append: "matching i a (xs @ ys) = matching i a xs @ matching i a ys"
  by (simp add: matching_def)

lemma matching_new_position:
  "matching i (Some acc') [new_position now acc terms trade a b] =
     (if i = tr_trade_id trade \<and> acc' = acc then [new_position now acc terms trade a b] else [])"
  by (simp add: matching_def)

lemma leg_round_trip:
  assumes "normalize_symbol (Some (ot_symbol l)) \<noteq> []" "0 < ot_quantity l"
  shows "leg_from_signed (Some (normalize_symbol (Some (ot_symbol l)))) (Some (signed_qty (ot_side l) (ot_quantity l)))
           (Some (ot_price l)) (Some (ot_instrument_type l)) = Some (held_leg l)"
  using assms
  by (cases "ot_side l") (auto simp: leg_from_signed_def signed_qty_def held_leg_def text_or_def)

lemma new_position_trade:
  assumes "ledger_fits trade" "tr_legs trade = [a, b]"
  shows "to_open_trade (new_position now acc terms trade a b) = held_trade trade"
  using assms
  by (simp add: to_open_trade_def new_position_def ledger_fits_def leg_round_trip held_trade_def
      List.map_filter_def)

lemma close_row_shape:
  assumes "close_row now marks comm reason row = Inr row'"
  shows "\<exists>net fee why. row' = row\<lparr>p_realised_pnl := net, p_commission := fee, p_live_pnl := net,
           p_risk_state := RS_CLOSED, p_closed_at := Some now, p_exit_reason := why\<rparr>"
proof (cases "case marks of None \<Rightarrow> False | Some m \<Rightarrow> list_ex (\<lambda>s. m s = None) (needed_symbols row)")
  case True
  with assms show ?thesis unfolding close_row_def by (simp only: if_True sum.distinct)
next
  case False
  with assms show ?thesis unfolding close_row_def by (simp only: if_False Let_def sum.inject) blast
qed

lemma close_row_key [simp]:
  assumes "close_row now marks comm reason row = Inr row'"
  shows "p_account_id row' = p_account_id row" "p_trade_id row' = p_trade_id row"
    "p_risk_state row' = RS_CLOSED" "to_open_trade row' = to_open_trade row"
  using close_row_shape [OF assms] by (auto simp: to_open_trade_def cong: option.case_cong)

lemma close_row_without_marks: "\<exists>row'. close_row now None comm reason row = Inr row'"
  unfolding close_row_def option.case if_False Let_def by blast

lemma put_row_keys:
  "map (\<lambda>r. (p_account_id r, p_trade_id r)) (put_row row rows) = map (\<lambda>r. (p_account_id r, p_trade_id r)) rows"
  by (simp add: put_row_def same_position_def)

lemma matching_put_row:
  "matching i (Some a) (put_row row rows) = put_row row (matching i (Some a) rows)"
  by (induction rows) (auto simp: put_row_def matching_def same_position_def)

lemma get_open_cases:
  assumes "ledger_ok rows"
  shows "get_open_by_trade_id i (Some a) rows =
    Inr (case matching i (Some a) rows of [] \<Rightarrow> None | r # _ \<Rightarrow> if p_risk_state r = RS_OPEN then Some r else None)"
  using matching_of_ok [OF assms, of i a] by (auto simp: get_open_by_trade_id_def unique_row_def)

lemma get_open_SomeD:
  assumes "ledger_ok rows" "get_open_by_trade_id i (Some a) rows = Inr (Some row)"
  shows "matching i (Some a) rows = [row]" "p_risk_state row = RS_OPEN" "row \<in> set rows"
    "p_account_id row = a" "p_trade_id row = i"
proof -
  show m: "matching i (Some a) rows = [row]"
    using matching_of_ok [OF assms(1), of i a] assms(2)
    by (auto simp: get_open_by_trade_id_def unique_row_def split: if_splits)
  from m have "row \<in> set (matching i (Some a) rows)" by simp
  then show "row \<in> set rows" "p_account_id row = a" "p_trade_id row = i" by (auto simp: matching_def)
  show "p_risk_state row = RS_OPEN"
    using assms(2) by (simp add: get_open_by_trade_id_def unique_row_def m split: if_splits)
qed

lemma close_trade_open:
  assumes "get_open_by_trade_id i a rows = Inr (Some row)"
    and "close_row now marks comm reason row = Inr row'"
  shows "close_trade now i a marks comm reason rows = Inr (row', put_row row' rows)"
  using assms by (simp add: close_trade_def row_to_close_def)

lemma close_trade_Inr:
  assumes "close_trade now i a marks comm reason rows = Inr (row', rows')"
  shows "rows' = rows \<or> (\<exists>row. close_row now marks comm reason row = Inr row' \<and> rows' = put_row row' rows)"
  using assms by (auto simp: close_trade_def res_bind_Inr_iff split: option.splits if_splits)

lemma ledger_ok_put_row: "ledger_ok (put_row row rows) = ledger_ok rows"
  by (simp add: ledger_ok_def put_row_keys)

lemma close_trade_ok:
  "ledger_ok rows \<Longrightarrow> close_trade now i a marks comm reason rows = Inr (row', rows') \<Longrightarrow> ledger_ok rows'"
  by (auto dest!: close_trade_Inr simp: ledger_ok_put_row)

lemma get_after_close:
  assumes "ledger_ok rows" "get_open_by_trade_id i (Some a) rows = Inr (Some row)"
    and "close_row now marks comm reason row = Inr row'"
  shows "get_open_by_trade_id i (Some a) (put_row row' rows) = Inr None"
    "get_by_trade_id i (Some a) (put_row row' rows) = Inr (Some row')"
proof -
  note row = get_open_SomeD [OF assms(1,2)] and row' = close_row_key [OF assms(3)]
  have "matching i (Some a) (put_row row' rows) = [row']"
    unfolding matching_put_row row(1) by (simp add: put_row_def same_position_def row')
  then show "get_open_by_trade_id i (Some a) (put_row row' rows) = Inr None"
    "get_by_trade_id i (Some a) (put_row row' rows) = Inr (Some row')"
    by (simp_all add: get_open_by_trade_id_def get_by_trade_id_def unique_row_def row')
qed

interpretation ledger_book: trade_book
  "db_get own" "\<lambda>b i a. map_sum id (\<lambda>r. r \<noteq> None) (db_get_row own b i a)"
  "db_record_open now accounts allocations own" "db_close now own" held_trade ledger_fits ledger_ok
  for own now accounts allocations
proof unfold_locales
  fix b t a b'
  assume ok: "ledger_ok b" and rec: "db_record_open now accounts allocations own b t (Some a) = Inr b'"
  from rec obtain terms where opened: "ledger_open now a terms t b = Inr b'"
    by (auto simp: db_record_open_def require_account_def res_bind_Inr_iff require_account_allocation_def
        get_enabled_account_def find_Some_iff split: option.splits if_splits)
  show "ledger_ok b'" by (rule ledger_open_ok [OF ok opened])
  show "db_get own b' (tr_trade_id t) (Some a) = Inr (Some (held_trade t))" if "ledger_fits t"
    using opened
    by (elim ledger_open_Inr)
      (simp add: db_get_def require_account_def get_open_trade_def get_open_by_trade_id_def unique_row_def
        matching_append matching_new_position new_position_trade [OF that])
  show "db_get own b' i (Some a') = db_get own b i (Some a')" if "(i, a') \<noteq> (tr_trade_id t, a)" for i a'
    using opened that
    by (elim ledger_open_Inr)
      (auto simp: db_get_def require_account_def get_open_trade_def get_open_by_trade_id_def
        matching_append matching_new_position)
next
  fix b i a t b'
  assume "ledger_ok b" "db_close now own b i (Some a) = Inr (t, b')"
  then show "ledger_ok b'"
    by (auto simp: db_close_def require_account_def res_bind_Inr_iff intro: close_trade_ok)
next
  fix b i a t
  assume ok: "ledger_ok b" and got: "db_get own b i (Some a) = Inr (Some t)"
  then obtain row where row: "get_open_by_trade_id i (Some a) b = Inr (Some row)" and t: "t = to_open_trade row"
    by (auto simp: db_get_def require_account_def get_open_trade_def res_bind_Inr_iff)
  obtain row' where r': "close_row now None None None row = Inr row'"
    using close_row_without_marks by blast
  show "\<exists>b'. db_close now own b i (Some a) = Inr (t, b') \<and> db_get own b' i (Some a) = Inr None"
    using close_trade_open [OF row r'] get_after_close [OF ok row r'] close_row_key [OF r']
    by (simp add: db_close_def require_account_def db_get_def get_open_trade_def t)
next
  fix t
  show "ledger_fits t \<Longrightarrow> list_all2 same_leg (tr_legs t) (tr_legs (held_trade t))"
    by (auto simp: held_trade_def held_leg_def same_leg_def list_all2_conv_all_nth)
qed

end
