(* ===== verification/Model_Blue_Properties.thy ===== *)
theory Model_Blue_Properties
  imports Trade_Book
begin

text \<open>
  What the Model Blue strategy guarantees: the size of the two legs of an opened pair, that a close
  reverses what was opened, and what a close books on the ledger.
\<close>

section \<open>Sizing\<close>

lemma quantize_down_bounds:
  assumes "0 \<le> x"
  shows "quantize_down x \<le> x" "x < quantize_down x + 1" "quantize_down x \<in> \<int>"
  using assms floor_correct [of x] by (simp_all add: quantize_down_def)

lemma quantize_half_up_bounds:
  assumes "0 \<le> x"
  shows "\<bar>quantize_half_up x - x\<bar> \<le> 1 / 20000"
proof -
  define y where "y = x * 10000 + 1 / 2"
  have q: "quantize_half_up x = of_int \<lfloor>y\<rfloor> / 10000" using assms by (simp add: quantize_half_up_def y_def)
  have "of_int \<lfloor>y\<rfloor> \<le> y" "y < of_int \<lfloor>y\<rfloor> + 1" using floor_correct [of y] by simp_all
  then show ?thesis unfolding q y_def by linarith
qed

text \<open>A sized leg against its target.\<close>

definition leg_sized :: "sizer \<Rightarrow> decimal \<Rightarrow> int \<Rightarrow> signal_leg \<Rightarrow> sized_leg \<Rightarrow> bool" where
  "leg_sized sz budget direction l s \<longleftrightarrow>
     sd_symbol s = sl_symbol l \<and> sd_instrument_type s = sl_instrument_type l \<and>
     sd_price s = sl_price l \<and> 0 < sd_price s \<and>
     sl_weight l = Some (sd_weight s) \<and> sd_weight s * of_int direction \<noteq> 0 \<and>
     sd_side s = (if sd_weight s * of_int direction > 0 then BUY else SELL) \<and>
     sd_notional s = sd_quantity s * sd_price s \<and> sz_min_order_notional sz \<le> sd_notional s \<and>
     (if whole_shares (sd_instrument_type s)
      then sd_quantity s \<in> \<int> \<and> 1 \<le> sd_quantity s \<and> sd_notional s \<le> budget * \<bar>sd_weight s\<bar> \<and>
           budget * \<bar>sd_weight s\<bar> < sd_notional s + sd_price s
      else \<bar>sd_notional s - budget * \<bar>sd_weight s\<bar>\<bar> \<le> sd_price s / 20000)"

lemma scaled_bounds:
  fixes p q t :: decimal
  assumes "0 < p"
  shows "q \<le> t / p \<Longrightarrow> q * p \<le> t" "t / p < q + 1 \<Longrightarrow> t < q * p + p"
    "\<bar>q - t / p\<bar> \<le> e \<Longrightarrow> \<bar>q * p - t\<bar> \<le> e * p"
proof -
  show "q \<le> t / p \<Longrightarrow> q * p \<le> t" "t / p < q + 1 \<Longrightarrow> t < q * p + p"
    using assms by (simp_all add: pos_le_divide_eq pos_divide_less_eq distrib_right)
  have "\<bar>q * p - t\<bar> = \<bar>q - t / p\<bar> * p"
    using assms by (simp add: abs_mult [symmetric] abs_mult_pos left_diff_distrib)
  then show "\<bar>q - t / p\<bar> \<le> e \<Longrightarrow> \<bar>q * p - t\<bar> \<le> e * p"
    using assms by (simp add: mult_right_mono)
qed

definition leg_quantity_for :: "string \<Rightarrow> decimal \<Rightarrow> decimal" where
  "leg_quantity_for instrument_type x =
     (if whole_shares instrument_type then quantize_down x else quantize_half_up x)"

lemma size_leg_Inr:
  assumes "size_leg sz symbol it w p d t = Inr s"
  shows "0 < p \<and> (whole_shares it \<longrightarrow> 1 \<le> leg_quantity_for it (t / p)) \<and>
     sz_min_order_notional sz \<le> leg_quantity_for it (t / p) * p \<and> w * of_int d \<noteq> 0 \<and>
     s = \<lparr>sd_symbol = symbol, sd_instrument_type = it, sd_side = (if w * of_int d > 0 then BUY else SELL),
          sd_quantity = leg_quantity_for it (t / p), sd_price = p,
          sd_notional = leg_quantity_for it (t / p) * p, sd_weight = w\<rparr>"
  using assms unfolding size_leg_def Let_def leg_quantity_for_def [symmetric]
  by (simp only: split: if_split_asm) (simp_all add: not_le not_less)

lemma size_leg_sized:
  assumes "size_leg sz (sl_symbol l) (sl_instrument_type l) w (sl_price l) d (b * \<bar>w\<bar>) = Inr s"
    and w: "sl_weight l = Some w" and b: "0 < b"
  shows "leg_sized sz b d l s"
proof -
  note s = size_leg_Inr [OF assms(1)]
  then have p: "0 < sl_price l" by blast
  then have t: "0 \<le> b * \<bar>w\<bar> / sl_price l" using b by simp
  have "if whole_shares (sl_instrument_type l)
        then leg_quantity_for (sl_instrument_type l) (b * \<bar>w\<bar> / sl_price l) \<in> \<int> \<and>
             leg_quantity_for (sl_instrument_type l) (b * \<bar>w\<bar> / sl_price l) * sl_price l \<le> b * \<bar>w\<bar> \<and>
             b * \<bar>w\<bar> < leg_quantity_for (sl_instrument_type l) (b * \<bar>w\<bar> / sl_price l) * sl_price l + sl_price l
        else \<bar>leg_quantity_for (sl_instrument_type l) (b * \<bar>w\<bar> / sl_price l) * sl_price l - b * \<bar>w\<bar>\<bar> \<le> sl_price l / 20000"
  proof (cases "whole_shares (sl_instrument_type l)")
    case True
    then show ?thesis
      using quantize_down_bounds(3) [OF t] scaled_bounds(1) [OF p, OF quantize_down_bounds(1) [OF t]]
        scaled_bounds(2) [OF p, OF quantize_down_bounds(2) [OF t]]
      unfolding leg_quantity_for_def by (simp only: if_True simp_thms)
  next
    case False
    then show ?thesis
      using scaled_bounds(3) [OF p, OF quantize_half_up_bounds [OF t]]
      unfolding leg_quantity_for_def by (simp only: if_False)
  qed
  moreover have "w * of_int d \<noteq> 0" using s by blast
  ultimately show ?thesis unfolding leg_sized_def by (simp add: s w split: if_splits)
qed

lemma size_legs_sized:
  assumes "size_legs sz b d ls = Inr sized" "\<forall>l\<in>set ls. sl_weight l \<noteq> None" "0 < b"
  shows "list_all2 (leg_sized sz b d) ls sized"
  using assms
  by (induction ls arbitrary: sized)
    (auto simp: Let_def res_bind_Inr_iff intro: size_leg_sized split: option.splits)

lemma fold_max_bound:
  fixes f :: "'a \<Rightarrow> decimal"
  shows "w \<le> fold (\<lambda>s m. if f s > m then f s else m) xs w \<and>
         (\<forall>s\<in>set xs. f s \<le> fold (\<lambda>s m. if f s > m then f s else m) xs w)"
proof (induction xs arbitrary: w)
  case (Cons x xs)
  from Cons.IH [of "if f x > w then f x else w"] show ?case by auto
qed simp

lemma worst_deviation_bound: "s \<in> set sized \<Longrightarrow> share_deviation sized s \<le> worst_deviation sized"
  using fold_max_bound [of 0 "share_deviation sized" sized] by (simp add: worst_deviation_def)

lemma sum_sized_le:
  assumes "list_all2 (leg_sized sz b d) ls sized" "\<forall>s\<in>set sized. whole_shares (sd_instrument_type s)"
  shows "sum_list (map sd_notional sized) \<le> b * sum_list (map (\<lambda>l. \<bar>the (sl_weight l)\<bar>) ls)"
  using assms by (induction rule: list_all2_induct) (auto simp: leg_sized_def algebra_simps)

definition budget_of :: "(string \<Rightarrow> decimal option) \<Rightarrow> signal \<Rightarrow> decimal option \<Rightarrow> decimal option" where
  "budget_of committed sg pair_budget =
     (case pair_budget of Some b \<Rightarrow> Some b | None \<Rightarrow> committed (text_or (sg_strategy_id sg)))"

lemma size_open_Inr:
  assumes "size_open sz committed sg pair_budget = Inr sized" "budget_of committed sg pair_budget = Some b"
  shows "0 < b" "length (sg_legs sg) = 2" "\<forall>l\<in>set (sg_legs sg). sl_weight l \<noteq> None"
    "\<bar>sum_list (map (\<lambda>l. case sl_weight l of None \<Rightarrow> 0 | Some x \<Rightarrow> \<bar>x\<bar>) (sg_legs sg)) - 1\<bar> \<le> WEIGHT_SUM_TOLERANCE"
    "size_legs sz b (the (sg_direction sg)) (sg_legs sg) = Inr sized"
    "validate_realised_ratio sz sized b = Inr ()" "sg_direction sg \<in> {Some 1, Some (- 1)}"
  using assms
  by (auto simp: size_open_def budget_of_def [symmetric] Let_def res_bind_Inr_iff list_ex_iff not_less
      split: if_splits)

lemma weights_known:
  "\<forall>l\<in>set ls. sl_weight l \<noteq> None \<Longrightarrow>
   map (\<lambda>l. case sl_weight l of None \<Rightarrow> 0 | Some x \<Rightarrow> \<bar>x\<bar>) ls = map (\<lambda>l. \<bar>the (sl_weight l)\<bar>) ls"
  by auto

lemma validate_ok:
  assumes "validate_realised_ratio sz sized b = Inr ()" "0 < b"
  shows "\<forall>s\<in>set sized. share_deviation sized s \<le> sz_ratio_tolerance sz"
    "0 < sz_min_deployment sz \<Longrightarrow> sz_min_deployment sz * b \<le> sum_list (map sd_notional sized)"
  using assms worst_deviation_bound [of _ sized]
  by (fastforce simp: validate_realised_ratio_def Let_def not_less pos_le_divide_eq split: if_splits)+

lemma pair_sizing_legs:
  assumes "size_open sz committed sg pair_budget = Inr sized" "budget_of committed sg pair_budget = Some b"
  shows "list_all2 (leg_sized sz b (the (sg_direction sg))) (sg_legs sg) sized"
  using size_open_Inr [OF assms] by (intro size_legs_sized)

text \<open>
  C31. What an accepted Model Blue open is sized to. Both legs keep the symbol and price of the signal;
  the side is the sign of weight times direction; the notional is quantity times price and not
  below the minimum. A stock or ETF leg is a whole number of shares, at least one, that never
  exceeds its target, the pair budget times the absolute weight, and misses it by less than one
  share; any other leg is within half of the fourth digit of its target. The realised split is
  within the tolerance of the intended one, the deployment floor holds, and a pair of stocks
  deploys at most the budget, up to the tolerance on the sum of the weights.
\<close>

theorem pair_sizing_bounds:
  assumes "size_open sz committed sg pair_budget = Inr sized" "budget_of committed sg pair_budget = Some b"
  shows "length sized = 2 \<and>
    list_all2 (leg_sized sz b (the (sg_direction sg))) (sg_legs sg) sized \<and>
    (\<forall>s\<in>set sized. share_deviation sized s \<le> sz_ratio_tolerance sz) \<and>
    (0 < sz_min_deployment sz \<longrightarrow> sz_min_deployment sz * b \<le> sum_list (map sd_notional sized)) \<and>
    ((\<forall>s\<in>set sized. whole_shares (sd_instrument_type s)) \<longrightarrow>
       sum_list (map sd_notional sized) \<le> b * (1 + WEIGHT_SUM_TOLERANCE))"
proof (intro conjI impI)
  note o = size_open_Inr [OF assms]
  show legs: "list_all2 (leg_sized sz b (the (sg_direction sg))) (sg_legs sg) sized"
    by (rule pair_sizing_legs [OF assms])
  show "length sized = 2" using list_all2_lengthD [OF legs] o(2) by simp
  show "\<forall>s\<in>set sized. share_deviation sized s \<le> sz_ratio_tolerance sz"
    "0 < sz_min_deployment sz \<Longrightarrow> sz_min_deployment sz * b \<le> sum_list (map sd_notional sized)"
    using validate_ok [OF o(6,1)] by blast+
  assume whole: "\<forall>s\<in>set sized. whole_shares (sd_instrument_type s)"
  have "sum_list (map (\<lambda>l. \<bar>the (sl_weight l)\<bar>) (sg_legs sg)) \<le> 1 + WEIGHT_SUM_TOLERANCE"
    using o(4) weights_known [OF o(3)] by (simp add: abs_le_iff)
  from order_trans [OF sum_sized_le [OF legs whole] mult_left_mono [OF this less_imp_le [OF o(1)]]]
  show "sum_list (map sd_notional sized) \<le> b * (1 + WEIGHT_SUM_TOLERANCE)" .
qed

text \<open>A pair of ETFs on a budget of ten thousand.\<close>

definition sample_open_signal :: signal where
  "sample_open_signal =
     \<lparr>sg_signal_type = SIG_BUY, sg_timestamp = 0, sg_reason = [], sg_signal_id = Some ''T1'',
      sg_strategy_id = Some ''model_blue'', sg_action = ''OPEN'', sg_symbol = None, sg_side = None,
      sg_price = None, sg_quantity = None, sg_trade_id = Some ''T1'', sg_direction = Some 1, sg_market = None,
      sg_legs =
        [\<lparr>sl_symbol = ''SPY'', sl_instrument_type = ''ETF'', sl_weight = Some (1 / 2), sl_price = 300,
          sl_payload_side = None, sl_leg_index = Some 0\<rparr>,
         \<lparr>sl_symbol = ''QQQ'', sl_instrument_type = ''ETF'', sl_weight = Some (- 1 / 2), sl_price = 70,
          sl_payload_side = None, sl_leg_index = Some 1\<rparr>],
      sg_emergency = False\<rparr>"

definition sample_sized :: "sized_leg list" where
  "sample_sized =
     [\<lparr>sd_symbol = ''SPY'', sd_instrument_type = ''ETF'', sd_side = BUY, sd_quantity = 16, sd_price = 300,
       sd_notional = 4800, sd_weight = 1 / 2\<rparr>,
      \<lparr>sd_symbol = ''QQQ'', sd_instrument_type = ''ETF'', sd_side = SELL, sd_quantity = 71, sd_price = 70,
       sd_notional = 4970, sd_weight = - 1 / 2\<rparr>]"

lemma sample_size_open:
  "size_open default_sizer (\<lambda>_. None) sample_open_signal (Some 10000) = Inr sample_sized"
  by code_simp

theorem pair_sizing_bounds_witness:
  "size_open default_sizer (\<lambda>_. None) sample_open_signal (Some 10000) = Inr sample_sized \<and>
   list_all2 (leg_sized default_sizer 10000 1) (sg_legs sample_open_signal) sample_sized"
  using pair_sizing_bounds [OF sample_size_open, of 10000] sample_size_open
  by (simp add: budget_of_def) (simp add: sample_open_signal_def)

section \<open>A close reverses its open\<close>

definition row_exists_in :: "int option \<Rightarrow> ledger \<Rightarrow> string \<Rightarrow> int option \<Rightarrow> bool result" where
  "row_exists_in own rows trade_id account_id =
     map_sum id (\<lambda>r. r \<noteq> None) (db_get_row own rows trade_id account_id)"

lemma build_open_intent_Inr:
  assumes "build_open_intent ex own_sizer settings_sizer own_committed committed sg (Some acct) = Inr intent"
  obtains sized prov where
    "size_open (case own_sizer of Some z \<Rightarrow> z | None \<Rightarrow> settings_sizer) prov sg (Some (ac_pair_budget acct)) = Inr sized"
    "oi_legs intent = map (\<lambda>(i, s). order_leg_from_sized i s) (enumerate 0 sized)"
    "signal_trade_id sg \<noteq> []" "ex (signal_trade_id sg) (Some (ac_account_id acct)) = Inr False"
    "oi_strategy_id intent = MODEL_BLUE_STRATEGY_ID"
  using assms
  by (auto simp: build_open_intent_def Let_def res_bind_Inr_iff split: if_splits option.splits)

lemma recorded_fits:
  assumes sized: "size_open sz prov sg (Some b) = Inr sized"
    and legs: "oi_legs intent = map (\<lambda>(i, s). order_leg_from_sized i s) (enumerate 0 sized)"
    and min: "0 < sz_min_order_notional sz"
    and syms: "\<forall>l\<in>set (sg_legs sg). py_strip (sl_symbol l) \<noteq> []"
  shows "ledger_fits (recorded_trade sg intent)"
proof -
  have "list_all2 (leg_sized sz b (the (sg_direction sg))) (sg_legs sg) sized"
    using pair_sizing_legs [OF sized] by (simp add: budget_of_def)
  then have "py_strip (sd_symbol s) \<noteq> [] \<and> 0 < sd_quantity s" if "s \<in> set sized" for s
  proof -
    from that \<open>list_all2 _ _ _\<close> obtain l where l: "l \<in> set (sg_legs sg)" "leg_sized sz b (the (sg_direction sg)) l s"
      by (metis in_set_conv_nth list_all2_conv_all_nth)
    then have "0 < sd_quantity s * sd_price s" "0 < sd_price s" using min by (auto simp: leg_sized_def)
    with l syms show ?thesis by (auto simp: leg_sized_def zero_less_mult_iff)
  qed
  then show ?thesis
    by (auto simp: ledger_fits_def recorded_trade_def legs order_leg_from_sized_def normalize_symbol_def
        in_set_enumerate_eq)
qed

lemma close_legs_reverse:
  "list_all2 reverses (oi_legs intent)
     (map (\<lambda>(k, l). close_leg k l) (enumerate 0 (tr_legs (held_trade (recorded_trade sg intent)))))"
  by (auto simp: list_all2_conv_all_nth nth_enumerate_eq recorded_trade_def held_trade_def held_leg_def
      close_leg_def reverses_def)


text \<open>The sample pair recorded for account 7 and closed again.\<close>

definition sample_accounts :: "account_row list" where
  "sample_accounts =
     [\<lparr>acc_id = 7, acc_ibkr_account = ''DU7'', acc_enabled = True, acc_total_margin = 100000\<rparr>]"

definition sample_allocations :: "allocation_row list" where
  "sample_allocations =
     [\<lparr>al_account_id = 7, al_strategy_id = ''model_blue'', al_enabled = True, al_alloc_pct = 1 / 2,
       al_pair_max_allocation_pct = 1 / 5, al_target = 100, al_stop = 50, al_time_limit = 0,
       al_max_open_positions = 5, al_target_unit = None, al_stop_unit = None, al_exit_automation_enabled = False\<rparr>]"

definition sample_account :: account_context where
  "sample_account =
     context_from_rows (sample_accounts ! 0) (sample_allocations ! 0)
       \<lparr>st_strategy_id = ''model_blue'', st_enabled = True\<rparr>"

definition sample_open_intent :: order_intent where
  "sample_open_intent =
     (case build_open_intent (row_exists_in None []) None default_sizer (\<lambda>_. None) (\<lambda>_. None)
             sample_open_signal (Some sample_account) of
        Inr i \<Rightarrow> i
      | Inl _ \<Rightarrow> \<lparr>oi_signal_id = [], oi_strategy_id = [], oi_action = OPEN, oi_legs = [], oi_account_id = None,
                  oi_ibkr_account = None, oi_market = None, oi_timestamp = 0, oi_intent_mode = MODE_OPEN\<rparr>)"

definition sample_ledger :: ledger where
  "sample_ledger =
     (case db_record_open 5 sample_accounts sample_allocations None [] (recorded_trade sample_open_signal sample_open_intent)
             (Some (ac_account_id sample_account)) of Inr rows \<Rightarrow> rows | Inl _ \<Rightarrow> [])"

lemma sample_built:
  "build_open_intent (row_exists_in None []) None default_sizer (\<lambda>_. None) (\<lambda>_. None) sample_open_signal
     (Some sample_account) = Inr sample_open_intent"
  by code_simp

lemma sample_recorded:
  "db_record_open 5 sample_accounts sample_allocations None [] (recorded_trade sample_open_signal sample_open_intent)
     (Some (ac_account_id sample_account)) = Inr sample_ledger"
  by code_simp


section \<open>What a close books\<close>

lemma put_row_split:
  assumes "ledger_ok rows" "row \<in> set rows" "same_position row row'"
  obtains xs ys where "rows = xs @ row # ys" "put_row row' rows = xs @ row' # ys"
proof -
  from assms(2) obtain xs ys where r: "rows = xs @ row # ys" by (auto simp: in_set_conv_decomp)
  let ?key = "\<lambda>r. (p_account_id r, p_trade_id r)"
  have notin: "?key row \<notin> ?key ` (set xs \<union> set ys)"
    using assms(1) unfolding r ledger_ok_def by (simp add: image_Un)
  have "\<not> same_position x row'" if x: "x \<in> set xs \<union> set ys" for x
  proof
    assume "same_position x row'"
    then have "?key x = ?key row" using assms(3) unfolding same_position_def by simp
    with imageI [OF x, of ?key] notin show False by (simp only:)
  qed
  then have "put_row row' rows = xs @ row' # ys"
    using assms(3) by (simp add: put_row_def r map_idI)
  with r show ?thesis by (rule that)
qed

lemma commission_from_orders_pos: "commission_from_orders orders = Some c \<Longrightarrow> 0 < c"
  by (auto simp: commission_from_orders_def split: prod.splits if_splits)

lemma close_row_with_marks:
  assumes "close_row now (Some marks) comm reason row = Inr row'"
    and "\<And>c. comm = Some c \<Longrightarrow> 0 < c"
  shows "\<forall>s\<in>set (needed_symbols row). marks s \<noteq> None"
    "p_realised_pnl row' = realised_on marks row - (case comm of None \<Rightarrow> 0 | Some c \<Rightarrow> p_commission row + c)"
    "p_closed_at row' = Some now"
proof -
  have known: "\<not> list_ex (\<lambda>s. marks s = None) (needed_symbols row)"
    using assms(1) unfolding close_row_def option.case by (metis sum.distinct(1))
  then show "\<forall>s\<in>set (needed_symbols row). marks s \<noteq> None" by (simp add: list_ex_iff)
  from assms(1) known have row': "row' = (let comm' = (case comm of
                       Some c \<Rightarrow> if c > 0 then p_commission row + c else p_commission row
                     | None \<Rightarrow> p_commission row);
             net = (case comm of
                      Some c \<Rightarrow> if c > 0 then realised_on marks row - comm' else realised_on marks row
                    | None \<Rightarrow> realised_on marks row)
         in row\<lparr>p_realised_pnl := net, p_commission := comm', p_live_pnl := net,
                     p_risk_state := RS_CLOSED, p_closed_at := Some now,
                     p_exit_reason := (case reason of None \<Rightarrow> p_exit_reason row | Some r \<Rightarrow> Some r)\<rparr>)"
    unfolding close_row_def by (simp only: option.case if_False Let_def sum.inject)
  show "p_realised_pnl row' = realised_on marks row - (case comm of None \<Rightarrow> 0 | Some c \<Rightarrow> p_commission row + c)"
    unfolding row' Let_def by (cases comm) (simp_all add: assms(2))
  show "p_closed_at row' = Some now" unfolding row' Let_def by simp
qed

lemma sum_after_close:
  assumes "ledger_ok rows" "row \<in> set rows" "same_position row row'"
    and "p_risk_state row = RS_OPEN" "p_risk_state row' = RS_CLOSED" "p_closed_at row' = Some now" "since \<le> now"
  shows "sum_realised_closed_since (p_account_id row) since (put_row row' rows) =
         sum_realised_closed_since (p_account_id row) since rows + p_realised_pnl row'"
proof -
  obtain xs ys where "rows = xs @ row # ys" "put_row row' rows = xs @ row' # ys"
    by (rule put_row_split [OF assms(1-3)])
  moreover have "p_account_id row' = p_account_id row" using assms(3) by (simp add: same_position_def)
  ultimately show ?thesis using assms(4-) by (simp add: sum_realised_closed_since_def)
qed

lemma persist_close_open:
  assumes ok: "ledger_ok rows" and row: "get_open_by_trade_id i (Some a) rows = Inr (Some row)"
    and closed: "persist_close now i a orders rows = Inr (t, rows')"
  obtains row' where "assert_close_qty_matches_open row (filled_qty_by_symbol orders) = Inr ()"
    "close_row now (Some (exit_marks_from_orders orders)) (commission_from_orders orders) None row = Inr row'"
    "rows' = put_row row' rows" "t = to_open_trade row'"
proof -
  have "get_by_trade_id i (Some a) rows = Inr (Some row)"
    using get_open_SomeD(1) [OF ok row] by (simp add: get_by_trade_id_def unique_row_def)
  with closed show ?thesis
    by (auto simp: persist_close_def res_bind_Inr_iff close_trade_def row_to_close_def row intro: that)
qed

lemma persist_close_again:
  assumes "get_by_trade_id i (Some a) rows = Inr (Some row)" "p_risk_state row = RS_CLOSED"
    and "assert_close_qty_matches_open row (filled_qty_by_symbol orders) = Inr ()"
    and "get_open_by_trade_id i (Some a) rows = Inr None"
    and "matching i (Some a) rows = [row]"
  shows "persist_close now i a orders rows = Inr (to_open_trade row, rows)"
  using assms by (simp add: persist_close_def close_trade_def row_to_close_def)

text \<open>
  C33. What the close of an open pair books. The close is accepted only if the fills cover the
  quantities of both legs within the tolerance and every leg has an exit price. The row becomes
  CLOSED at the time of the close with a realised result of signed quantity times price move over
  both legs, less the commissions of open and close when the close reported any, and less nothing
  when it did not. The realised total of the account grows by exactly that amount, and a repeated
  close of the same trade answers the same and books nothing.
\<close>

theorem close_books_pnl:
  assumes ok: "ledger_ok rows" and row: "get_open_by_trade_id i (Some a) rows = Inr (Some row)"
    and two: "p_leg_b_symbol row = Some sb" "p_leg_b_signed_qty row = Some qb" "p_leg_b_entry_mark row = Some eb"
      "sb \<noteq> []" "p_leg_a_symbol row \<noteq> []"
    and closed: "persist_close now i a orders rows = Inr (t, rows')" and since: "since \<le> now"
  shows "\<exists>row' ma mb. get_by_trade_id i (Some a) rows' = Inr (Some row') \<and> p_risk_state row' = RS_CLOSED \<and>
    p_closed_at row' = Some now \<and>
    \<bar>get_or (filled_qty_by_symbol orders) (p_leg_a_symbol row) 0 - \<bar>p_leg_a_signed_qty row\<bar>\<bar> \<le> CLOSE_QTY_EPS \<and>
    \<bar>get_or (filled_qty_by_symbol orders) sb 0 - \<bar>qb\<bar>\<bar> \<le> CLOSE_QTY_EPS \<and>
    exit_marks_from_orders orders (p_leg_a_symbol row) = Some ma \<and> exit_marks_from_orders orders sb = Some mb \<and>
    p_realised_pnl row' = p_leg_a_signed_qty row * (ma - p_leg_a_entry_mark row) + qb * (mb - eb)
      - (case commission_from_orders orders of None \<Rightarrow> 0 | Some c \<Rightarrow> p_commission row + c) \<and>
    sum_realised_closed_since a since rows' = sum_realised_closed_since a since rows + p_realised_pnl row' \<and>
    persist_close now' i a orders rows' = Inr (t, rows')"
proof -
  obtain row' where qty: "assert_close_qty_matches_open row (filled_qty_by_symbol orders) = Inr ()"
    and c: "close_row now (Some (exit_marks_from_orders orders)) (commission_from_orders orders) None row = Inr row'"
    and r: "rows' = put_row row' rows" and t: "t = to_open_trade row'"
    by (rule persist_close_open [OF ok row closed])
  note key = close_row_key [OF c] and was = get_open_SomeD [OF ok row] and got = get_after_close [OF ok row c]
  note m = close_row_with_marks [OF c commission_from_orders_pos [of orders]]
  have same: "same_position row row'" by (simp add: same_position_def key)
  from m(1) two obtain ma mb where marks: "exit_marks_from_orders orders (p_leg_a_symbol row) = Some ma"
      "exit_marks_from_orders orders sb = Some mb" by (auto simp: needed_symbols_def)
  have real: "p_realised_pnl row' = p_leg_a_signed_qty row * (ma - p_leg_a_entry_mark row) + qb * (mb - eb)
      - (case commission_from_orders orders of None \<Rightarrow> 0 | Some c \<Rightarrow> p_commission row + c)"
    by (simp add: m(2) realised_on_def leg_pnl_def marks two)
  have fills: "\<bar>get_or (filled_qty_by_symbol orders) (p_leg_a_symbol row) 0 - \<bar>p_leg_a_signed_qty row\<bar>\<bar> \<le> CLOSE_QTY_EPS"
      "\<bar>get_or (filled_qty_by_symbol orders) sb 0 - \<bar>qb\<bar>\<bar> \<le> CLOSE_QTY_EPS"
    using qty by (auto simp: assert_close_qty_matches_open_def leg_fills_match_def two split: if_splits)
  have total: "sum_realised_closed_since a since rows' = sum_realised_closed_since a since rows + p_realised_pnl row'"
    using sum_after_close [OF ok was(3) same was(2) key(3) m(3) since] by (simp add: r was(4))
  have "assert_close_qty_matches_open row' (filled_qty_by_symbol orders) = Inr ()"
    using qty close_row_shape [OF c] by (auto simp: assert_close_qty_matches_open_def split: if_splits)
  moreover have "matching i (Some a) rows' = [row']"
    unfolding r matching_put_row was(1) by (simp add: put_row_def same)
  ultimately have again: "persist_close now' i a orders rows' = Inr (t, rows')"
    unfolding t by (intro persist_close_again) (simp_all add: r got key)
  show ?thesis
    using got(2) key(3) m(3) fills marks real total again unfolding r by blast
qed

text \<open>The sample pair closed by one order for each leg, and the second leg by two.\<close>

definition sample_fill :: "string \<Rightarrow> nat \<Rightarrow> order_side \<Rightarrow> decimal \<Rightarrow> decimal \<Rightarrow> oms_order" where
  "sample_fill symbol index side quantity price =
     (new_order symbol sample_open_intent symbol (Some side) quantity None ''MKT'' FILLED None (Some index) None
        no_timestamps)\<lparr>o_filled := quantity, o_average_fill_price := Some price\<rparr>"

definition sample_close_orders :: "oms_order list" where
  "sample_close_orders =
     [sample_fill ''SPY'' 0 SELL 16 310, sample_fill ''QQQ'' 1 BUY 70 80, sample_fill ''QQQ'' 1 BUY 1 69]"

definition sample_row :: position where
  "sample_row = hd sample_ledger"

lemma sample_persist_close:
  "\<exists>t rows'. persist_close 9 ''T1'' 7 sample_close_orders sample_ledger = Inr (t, rows')"
  "get_open_by_trade_id ''T1'' (Some 7) sample_ledger = Inr (Some sample_row)"
  "ledger_ok sample_ledger" "p_leg_b_symbol sample_row = Some ''QQQ''"
  "p_leg_b_signed_qty sample_row = Some (- 71)" "p_leg_b_entry_mark sample_row = Some 70"
  "p_leg_a_symbol sample_row \<noteq> []" "p_leg_a_signed_qty sample_row = 16" "p_leg_a_entry_mark sample_row = 300"
  "exit_marks_from_orders sample_close_orders ''QQQ'' = Some 69"
  "exit_marks_from_orders sample_close_orders (p_leg_a_symbol sample_row) = Some 310"
  "commission_from_orders sample_close_orders = None"
proof -
  have "is_ok (persist_close 9 ''T1'' 7 sample_close_orders sample_ledger)" by code_simp
  then show "\<exists>t rows'. persist_close 9 ''T1'' 7 sample_close_orders sample_ledger = Inr (t, rows')"
    by (cases "persist_close 9 ''T1'' 7 sample_close_orders sample_ledger") auto
qed code_simp+

text \<open>Seventy of the seventy-one shares came back at 80 and one at 69: the result is booked as if all
  of them had come back at 69.\<close>

theorem close_books_pnl_witness:
  "\<exists>t rows' row'. persist_close 9 ''T1'' 7 sample_close_orders sample_ledger = Inr (t, rows') \<and>
     get_by_trade_id ''T1'' (Some 7) rows' = Inr (Some row') \<and> p_realised_pnl row' = 16 * 10 + 71 * 1"
proof -
  note s = sample_persist_close
  obtain t rows' where c: "persist_close 9 ''T1'' 7 sample_close_orders sample_ledger = Inr (t, rows')"
    using s(1) by blast
  from close_books_pnl [OF s(3,2,4-6) _ s(7) c, of 0] c show ?thesis
    by (auto simp: s(8-))
qed

text \<open>The exit price of a leg is that of its last priced order, whatever the others filled.\<close>

lemma exit_mark_is_last_price:
  assumes "\<not> o_is_compensation x" "fill_price x = Some price" "o_symbol x \<noteq> []"
  shows "exit_marks_from_orders (orders @ [x]) (o_symbol x) = Some price"
  using assms by (simp add: exit_marks_from_orders_def)

end
