(* ===== verification/Instruments.thy ===== *)
theory Instruments
  imports Model_Blue Rms_Checks
begin

text \<open>
  From the instrument a signal asks for to the contract that is traded: \<open>instruments/models.py\<close>,
  \<open>instruments/execution_override.py\<close>, \<open>instruments/resolver.py\<close> and the catalogues of
  \<open>db/repositories/instrument_repository.py\<close>. An \<open>InstrumentResolutionError\<close> is a \<open>ValueError\<close>; the
  model keeps the code at the head of its message. The setting \<open>execute_stk_as_cfd\<close> is an argument.
\<close>

section \<open>Records and catalogues\<close>

record instrument_record =
  ir_symbol :: string
  ir_sec_type :: string
  ir_trade_conid :: int
  ir_market_data_conid :: "int option"
  ir_exchange :: string
  ir_currency :: string
  ir_multiplier :: decimal
  ir_underlying_exchange :: "string option"
  ir_size_increment :: "decimal option"

definition identity_key :: "resolved_instrument \<Rightarrow> string" where
  "identity_key r =
     ri_symbol r @ ''-'' @ ri_sec_type r @ ''-'' @ ri_exchange r @ ''-'' @ ri_currency r @
     (case ri_con_id r of Some c \<Rightarrow> if c = 0 then [] else '':'' @ int_text c | None \<Rightarrow> [])"

text \<open>\<open>SnapshotInstrumentCatalog\<close> and \<open>InMemoryInstrumentCatalog\<close>; \<open>EmptyInstrumentCatalog\<close> is the
  one without rows.\<close>

definition find_all :: "instrument_record list \<Rightarrow> string \<Rightarrow> string \<Rightarrow> instrument_record list" where
  "find_all rows symbol sec_type =
     filter (\<lambda>row. py_upper (py_strip (ir_symbol row)) = py_upper (py_strip symbol) \<and>
                   py_upper (py_strip (ir_sec_type row)) = py_upper (py_strip sec_type)) rows"

text \<open>The master table has one row for each symbol.\<close>

definition catalog_upsert :: "instrument_record \<Rightarrow> instrument_record list \<Rightarrow> instrument_record list result" where
  "catalog_upsert rec rows =
     (if ir_trade_conid rec \<le> 0 then Inl (ValueError ''INVALID_CONID'')
      else if py_upper (py_strip (ir_sec_type rec)) \<noteq> ''CFD'' then Inl (ValueError ''UNSUPPORTED_SEC_TYPE'')
      else
        (let row = rec\<lparr>ir_market_data_conid :=
                         Some (case ir_market_data_conid rec of
                                 Some c \<Rightarrow> if c = 0 then ir_trade_conid rec else c
                               | None \<Rightarrow> ir_trade_conid rec),
                       ir_underlying_exchange := Some (first_text (ir_underlying_exchange rec) (Some (ir_exchange rec)))\<rparr>
         in Inr (if list_ex (\<lambda>r. ir_symbol r = ir_symbol rec) rows
                 then map (\<lambda>r. if ir_symbol r = ir_symbol rec then row else r) rows
                 else rows @ [row])))"

section \<open>The execution override\<close>

definition STK_TO_CFD :: string where
  "STK_TO_CFD = ''STK_TO_CFD''"

definition apply_stk_to_cfd_for_strategy :: "bool \<Rightarrow> string option \<Rightarrow> bool" where
  "apply_stk_to_cfd_for_strategy setting strategy_id \<longleftrightarrow>
     setting \<and> normalize_strategy_id strategy_id = MODEL_BLUE_STRATEGY_ID"

definition execution_instrument_type :: "string option \<Rightarrow> bool \<Rightarrow> string \<times> string option" where
  "execution_instrument_type requested enabled =
     (let raw = py_upper (py_strip (text_or requested)) in
      if raw = [] then (raw, None)
      else if enabled \<and> raw = ''STK'' then (''CFD'', Some STK_TO_CFD)
      else (raw, None))"

section \<open>Resolution of a leg\<close>

definition ibkr_sec_type :: "string \<Rightarrow> string result" where
  "ibkr_sec_type requested =
     (let raw = py_strip requested in
      if raw = [] then Inl (ValueError ''MISSING_INSTRUMENT_TYPE'')
      else (case EXPLICIT_SEC_TYPE (py_upper raw) of
              None \<Rightarrow> Inl (ValueError ''UNSUPPORTED_INSTRUMENT_TYPE'')
            | Some mapped \<Rightarrow> Inr mapped))"

definition optional_con_id :: "int option \<Rightarrow> int option" where
  "optional_con_id raw = (case raw of None \<Rightarrow> None | Some v \<Rightarrow> if v \<le> 0 then None else Some v)"

definition require_con_id :: "int option \<Rightarrow> int result" where
  "require_con_id raw =
     (case optional_con_id raw of None \<Rightarrow> Inl (ValueError ''INVALID_CONID'') | Some v \<Rightarrow> Inr v)"

text \<open>\<open>(a or "").strip() or b\<close>.\<close>

definition stripped_or :: "string option \<Rightarrow> string \<Rightarrow> string" where
  "stripped_or a b = (if py_strip (text_or a) \<noteq> [] then py_strip (text_or a) else b)"

definition non_empty :: "string option \<Rightarrow> string option" where
  "non_empty a = (case a of Some (c # cs) \<Rightarrow> Some (c # cs) | _ \<Rightarrow> None)"

definition resolve_stk ::
  "string \<Rightarrow> string \<Rightarrow> string \<Rightarrow> string option \<Rightarrow> string option \<Rightarrow> int option \<Rightarrow> instrument_record option \<Rightarrow>
   resolved_instrument" where
  "resolve_stk symbol requested sec_type market currency con_id rec =
     \<lparr>ri_symbol = symbol, ri_requested_instrument_type = py_upper requested, ri_sec_type = sec_type,
      ri_exchange = stripped_or market (stripped_or (map_option ir_exchange rec) ''SMART''),
      ri_currency = stripped_or currency (stripped_or (map_option ir_currency rec) ''USD''),
      ri_con_id = (case optional_con_id con_id of
                     Some c \<Rightarrow> Some c
                   | None \<Rightarrow> optional_con_id (map_option ir_trade_conid rec)),
      ri_market_data_con_id = optional_con_id (case rec of None \<Rightarrow> None | Some r \<Rightarrow> ir_market_data_conid r),
      ri_multiplier = (case rec of None \<Rightarrow> 1 | Some r \<Rightarrow> ir_multiplier r),
      ri_primary_exchange = non_empty (case rec of None \<Rightarrow> None | Some r \<Rightarrow> ir_underlying_exchange r),
      ri_size_increment = (case rec of None \<Rightarrow> None | Some r \<Rightarrow> ir_size_increment r)\<rparr>"

definition resolve_mapped_cfd ::
  "string \<Rightarrow> string \<Rightarrow> string option \<Rightarrow> string option \<Rightarrow> int option \<Rightarrow> resolved_instrument" where
  "resolve_mapped_cfd symbol requested market currency con_id =
     \<lparr>ri_symbol = symbol, ri_requested_instrument_type = py_upper requested, ri_sec_type = ''CFD'',
      ri_exchange = stripped_or market ''SMART'', ri_currency = stripped_or currency ''USD'',
      ri_con_id = optional_con_id con_id, ri_market_data_con_id = None, ri_multiplier = 1,
      ri_primary_exchange = None, ri_size_increment = None\<rparr>"

definition resolve_cfd ::
  "string \<Rightarrow> string \<Rightarrow> string option \<Rightarrow> string option \<Rightarrow> int option \<Rightarrow> instrument_record option \<Rightarrow>
   resolved_instrument result" where
  "resolve_cfd symbol requested market currency con_id rec =
     (case rec of
        None \<Rightarrow> Inl (ValueError ''INSTRUMENT_METADATA_MISSING'')
      | Some r \<Rightarrow>
          if py_upper (py_strip (ir_sec_type r)) \<noteq> ''CFD'' then Inl (ValueError ''INSTRUMENT_METADATA_MISSING'')
          else res_bind
            (require_con_id (case con_id of
                               Some c \<Rightarrow> if c = 0 then Some (ir_trade_conid r) else Some c
                             | None \<Rightarrow> Some (ir_trade_conid r)))
            (\<lambda>con.
               let exchange = stripped_or market (py_strip (ir_exchange r));
                   ccy = stripped_or currency (py_strip (ir_currency r))
               in if exchange = [] \<or> ccy = [] then Inl (ValueError ''INSTRUMENT_METADATA_MISSING'')
                  else Inr \<lparr>ri_symbol = symbol, ri_requested_instrument_type = py_upper requested,
                            ri_sec_type = ''CFD'', ri_exchange = exchange, ri_currency = ccy,
                            ri_con_id = Some con,
                            ri_market_data_con_id = optional_con_id (ir_market_data_conid r),
                            ri_multiplier = ir_multiplier r,
                            ri_primary_exchange = non_empty (ir_underlying_exchange r),
                            ri_size_increment = ir_size_increment r\<rparr>))"

text \<open>With the security type known: the mapped path, and the path of the catalogue.\<close>

definition resolve_mapped ::
  "instrument_record list \<Rightarrow> string \<Rightarrow> string \<Rightarrow> string option \<Rightarrow> string option \<Rightarrow> string option \<Rightarrow> int option \<Rightarrow>
   resolved_instrument result" where
  "resolve_mapped catalog symbol requested override market currency con_id =
     (if py_upper requested = ''STK'' \<and> override \<noteq> Some STK_TO_CFD then Inl (ValueError ''STK_TO_CFD'')
      else res_bind
        (case find_all catalog symbol ''CFD'' of
           [] \<Rightarrow> Inr (resolve_mapped_cfd symbol requested market currency con_id)
         | [r] \<Rightarrow> resolve_cfd symbol requested market currency con_id (Some r)
         | _ \<Rightarrow> Inl (ValueError ''AMBIGUOUS_INSTRUMENT''))
        (\<lambda>resolved. if ri_sec_type resolved \<noteq> ''CFD'' then Inl (ValueError ''STK_TO_CFD'') else Inr resolved))"

definition resolve_listed ::
  "instrument_record list \<Rightarrow> string \<Rightarrow> string \<Rightarrow> string \<Rightarrow> string option \<Rightarrow> string option \<Rightarrow> int option \<Rightarrow>
   resolved_instrument result" where
  "resolve_listed catalog symbol requested sec_type market currency con_id =
     (let matches = find_all catalog symbol sec_type;
          rec = (case matches of [] \<Rightarrow> None | r # _ \<Rightarrow> Some r)
      in if length matches > 1 then Inl (ValueError ''AMBIGUOUS_INSTRUMENT'')
         else if sec_type = ''CFD'' then resolve_cfd symbol requested market currency con_id rec
         else Inr (resolve_stk symbol requested sec_type market currency con_id rec))"

definition resolve_leg ::
  "instrument_record list \<Rightarrow> bool \<Rightarrow> string \<Rightarrow> string option \<Rightarrow> string option \<Rightarrow> string option \<Rightarrow> int option \<Rightarrow>
   resolved_instrument result" where
  "resolve_leg catalog map_on symbol instrument_type market currency con_id =
     (let symbol_clean = py_strip symbol;
          requested = py_strip (text_or instrument_type);
          execution = execution_instrument_type (Some requested) map_on
      in if symbol_clean = [] then Inl (ValueError ''MISSING_SYMBOL'')
         else res_bind (ibkr_sec_type (fst execution)) (\<lambda>sec_type.
           if map_on \<and> sec_type = ''CFD''
           then resolve_mapped catalog symbol_clean requested (snd execution) market currency con_id
           else resolve_listed catalog symbol_clean requested sec_type market currency con_id))"

section \<open>Resolution of an intent\<close>

definition apply_size_increment :: "decimal \<Rightarrow> decimal \<Rightarrow> decimal result" where
  "apply_size_increment quantity increment =
     (if increment \<le> 0 then Inl (ValueError ''size_increment must be positive'')
      else Inr (quantize_down (quantity / increment) * increment))"

definition or_text :: "string option \<Rightarrow> string option \<Rightarrow> string option" where
  "or_text a b = (case a of Some (c # cs) \<Rightarrow> Some (c # cs) | _ \<Rightarrow> b)"

definition attach_leg ::
  "instrument_record list \<Rightarrow> bool \<Rightarrow> string option \<Rightarrow> order_leg \<Rightarrow> order_leg result" where
  "attach_leg catalog map_on market leg =
     res_bind (case leg_resolved leg of
                 Some r \<Rightarrow> Inr r
               | None \<Rightarrow> resolve_leg catalog map_on (leg_symbol leg) (leg_instrument_type leg)
                           (or_text market (leg_exchange leg)) (leg_currency leg) (leg_con_id leg))
       (\<lambda>resolved.
          res_bind (case ri_size_increment resolved of
                      Some increment \<Rightarrow>
                        if increment > 0 then apply_size_increment (leg_quantity leg) increment
                        else Inr (leg_quantity leg)
                    | None \<Rightarrow> Inr (leg_quantity leg))
            (\<lambda>qty.
               if (case ri_size_increment resolved of Some increment \<Rightarrow> increment > 0 | None \<Rightarrow> False) \<and> qty \<le> 0
               then Inl (ValueError ''quantized to zero'')
               else Inr (leg\<lparr>leg_quantity := qty, leg_notional := Some (qty * leg_price leg),
                             leg_resolved := Some resolved,
                             leg_con_id := (case ri_con_id resolved of Some c \<Rightarrow> Some c | None \<Rightarrow> leg_con_id leg),
                             leg_exchange := Some (ri_exchange resolved),
                             leg_currency := Some (ri_currency resolved),
                             leg_instrument_type := or_text (leg_instrument_type leg)
                               (Some (ri_requested_instrument_type resolved))\<rparr>)))"

text \<open>Every leg is tried and the failures are collected; one failure refuses the intent.\<close>

definition attach_resolved :: "instrument_record list \<Rightarrow> bool \<Rightarrow> order_intent \<Rightarrow> order_intent result" where
  "attach_resolved catalog map_on intent =
     (let tried = map (attach_leg catalog map_on (oi_market intent)) (oi_legs intent) in
      if list_all is_ok tried then Inr (intent\<lparr>oi_legs := map projr tried\<rparr>)
      else Inl (ValueError ''INSTRUMENT_RESOLUTION_FAILED''))"

section \<open>Contracts\<close>

record ibkr_contract =
  ct_symbol :: string
  ct_sec_type :: string
  ct_exchange :: string
  ct_currency :: string
  ct_con_id :: "int option"
  ct_primary_exchange :: "string option"
  ct_multiplier :: "decimal option"

definition non_zero :: "int option \<Rightarrow> int option" where
  "non_zero c = (case c of Some v \<Rightarrow> if v = 0 then None else Some v | None \<Rightarrow> None)"

definition ibkr_contract_from_resolved :: "resolved_instrument \<Rightarrow> ibkr_contract" where
  "ibkr_contract_from_resolved r =
     \<lparr>ct_symbol = ri_symbol r, ct_sec_type = ri_sec_type r, ct_exchange = ri_exchange r,
      ct_currency = ri_currency r, ct_con_id = non_zero (ri_con_id r),
      ct_primary_exchange = non_empty (ri_primary_exchange r),
      ct_multiplier = (if ri_multiplier r \<noteq> 1 then Some (ri_multiplier r) else None)\<rparr>"

definition ibkr_market_data_contract_from_resolved :: "resolved_instrument \<Rightarrow> ibkr_contract" where
  "ibkr_market_data_contract_from_resolved r =
     (let c = ibkr_contract_from_resolved r;
          md = (case non_zero (ri_market_data_con_id r) of Some v \<Rightarrow> Some v | None \<Rightarrow> non_zero (ri_con_id r))
      in case md of Some v \<Rightarrow> c\<lparr>ct_con_id := Some v\<rparr> | None \<Rightarrow> c)"

definition ibkr_stk_mark_contract :: "string \<Rightarrow> int option \<Rightarrow> string \<Rightarrow> string \<Rightarrow> ibkr_contract" where
  "ibkr_stk_mark_contract symbol con_id exchange currency =
     \<lparr>ct_symbol = py_upper (py_strip symbol), ct_sec_type = ''STK'',
      ct_exchange = (if exchange = [] then ''SMART'' else exchange),
      ct_currency = (if currency = [] then ''USD'' else currency),
      ct_con_id = optional_con_id con_id, ct_primary_exchange = None, ct_multiplier = None\<rparr>"

definition stk_mark_con_id_from_catalog :: "string \<Rightarrow> instrument_record list option \<Rightarrow> int option" where
  "stk_mark_con_id_from_catalog symbol catalog =
     (case catalog of
        None \<Rightarrow> None
      | Some rows \<Rightarrow>
          (let symbol_clean = py_upper (py_strip symbol) in
           case find_all rows symbol_clean ''STK'' of
             [row] \<Rightarrow>
               (case optional_con_id (ir_market_data_conid row) of
                  Some c \<Rightarrow> Some c | None \<Rightarrow> optional_con_id (Some (ir_trade_conid row)))
           | _ \<Rightarrow>
               (case find_all rows symbol_clean ''CFD'' of
                  [row] \<Rightarrow>
                    (case optional_con_id (ir_market_data_conid row) of
                       Some md \<Rightarrow> if Some md \<noteq> optional_con_id (Some (ir_trade_conid row)) then Some md else None
                     | None \<Rightarrow> None)
                | _ \<Rightarrow> None)))"

definition stk_mark_con_id_from_resolved :: "resolved_instrument option \<Rightarrow> int option" where
  "stk_mark_con_id_from_resolved resolved =
     (case resolved of
        None \<Rightarrow> None
      | Some r \<Rightarrow>
          (case optional_con_id (ri_market_data_con_id r) of
             Some md \<Rightarrow> if Some md \<noteq> optional_con_id (ri_con_id r) then Some md else None
           | None \<Rightarrow> None))"

section \<open>What resolution guarantees\<close>

text \<open>The security type at the broker for what the signal asks for.\<close>

definition traded_as :: "bool \<Rightarrow> string option \<Rightarrow> string \<Rightarrow> bool" where
  "traded_as map_on requested t \<longleftrightarrow>
     (let raw = py_upper (py_strip (text_or requested)) in
      (raw = ''CFD'' \<or> map_on \<and> raw = ''STK'') \<and> t = ''CFD'' \<or>
      (raw = ''ETF'' \<or> \<not> map_on \<and> raw = ''STK'') \<and> t = ''STK'')"

definition con_id_ok :: "int option \<Rightarrow> bool" where
  "con_id_ok c \<longleftrightarrow> (case c of None \<Rightarrow> True | Some v \<Rightarrow> 0 < v)"

definition contract_ok :: "resolved_instrument \<Rightarrow> bool" where
  "contract_ok r \<longleftrightarrow>
     ri_symbol r \<noteq> [] \<and> ri_exchange r \<noteq> [] \<and> ri_currency r \<noteq> [] \<and>
     con_id_ok (ri_con_id r) \<and> con_id_ok (ri_market_data_con_id r)"

lemma optional_con_id_ok [simp]: "con_id_ok (optional_con_id c)"
  by (simp add: con_id_ok_def optional_con_id_def split: option.split)

lemma optional_con_id_Some: "optional_con_id c = Some v \<Longrightarrow> con_id_ok (Some v)"
  by (simp add: con_id_ok_def optional_con_id_def split: option.splits if_splits)

lemma stripped_or_Nil [simp]: "stripped_or a b = [] \<longleftrightarrow> py_strip (text_or a) = [] \<and> b = []"
  by (simp add: stripped_or_def)

lemma resolve_stk_ok: "symbol \<noteq> [] \<Longrightarrow> contract_ok (resolve_stk symbol requested t market currency con_id rec)"
  unfolding contract_ok_def by (auto simp: resolve_stk_def optional_con_id_Some split: option.split)

lemma resolve_mapped_cfd_ok:
  "symbol \<noteq> [] \<Longrightarrow> contract_ok (resolve_mapped_cfd symbol requested market currency con_id)"
  unfolding contract_ok_def by (simp add: resolve_mapped_cfd_def con_id_ok_def [of None])

lemma resolve_cfd_ok:
  assumes "resolve_cfd symbol requested market currency con_id rec = Inr r" "symbol \<noteq> []"
  shows "contract_ok r \<and> ri_sec_type r = ''CFD'' \<and> ri_symbol r = symbol \<and> ri_con_id r \<noteq> None"
proof -
  have pos: "con_id_ok (Some c)" if "require_con_id x = Inr c" for x c
    using that by (auto simp: require_con_id_def optional_con_id_def con_id_ok_def split: option.splits if_splits)
  show ?thesis
    using assms
    by (auto simp: resolve_cfd_def contract_ok_def res_bind_Inr_iff Let_def pos split: option.splits if_splits)
qed

lemma execution_type_cases:
  "execution_instrument_type (Some requested) map_on =
     (let raw = py_upper (py_strip requested) in
      if map_on \<and> raw = ''STK'' then (''CFD'', Some STK_TO_CFD) else (raw, None))"
  by (auto simp: execution_instrument_type_def text_or_def Let_def py_upper_def)

lemma ibkr_sec_type_Inr:
  assumes "ibkr_sec_type t = Inr sec"
  shows "py_upper (py_strip t) = ''CFD'' \<and> sec = ''CFD'' \<or> py_upper (py_strip t) \<in> {''STK'', ''ETF''} \<and> sec = ''STK''"
  using assms by (auto simp: ibkr_sec_type_def Let_def EXPLICIT_SEC_TYPE_def split: if_splits option.splits)

lemma upper_strip_idem [simp]: "py_upper (py_strip (py_upper (py_strip s))) = py_upper (py_strip s)"
  by (simp add: py_strip_upper)

lemma resolve_mapped_ok:
  assumes "resolve_mapped catalog symbol requested ov market currency con_id = Inr r" "symbol \<noteq> []"
  shows "contract_ok r \<and> ri_symbol r = symbol \<and> ri_sec_type r = ''CFD''"
proof -
  have "r = resolve_mapped_cfd symbol requested market currency con_id \<or>
        (\<exists>row. resolve_cfd symbol requested market currency con_id (Some row) = Inr r)"
    using assms(1) by (auto simp: resolve_mapped_def res_bind_Inr_iff split: if_splits list.splits)
  then show ?thesis
    using resolve_cfd_ok [OF _ assms(2)] resolve_mapped_cfd_ok [OF assms(2)] by (auto simp: resolve_mapped_cfd_def)
qed

lemma resolve_listed_ok:
  assumes "resolve_listed catalog symbol requested sec market currency con_id = Inr r" "symbol \<noteq> []"
  shows "contract_ok r \<and> ri_symbol r = symbol \<and> ri_sec_type r = sec"
  using assms resolve_cfd_ok [OF _ assms(2)] resolve_stk_ok [OF assms(2)]
  by (auto simp: resolve_listed_def Let_def resolve_stk_def split: if_splits)

lemma resolve_leg_Inr:
  assumes "resolve_leg catalog map_on symbol itype market currency con_id = Inr r"
  shows "contract_ok r \<and> ri_symbol r = py_strip symbol \<and> traded_as map_on itype (ri_sec_type r)"
proof -
  let ?req = "py_strip (text_or itype)" and ?sym = "py_strip symbol"
  let ?ex = "execution_instrument_type (Some ?req) map_on"
  obtain sec where sym: "?sym \<noteq> []" and sec: "ibkr_sec_type (fst ?ex) = Inr sec"
    and r: "(if map_on \<and> sec = ''CFD'' then resolve_mapped catalog ?sym ?req (snd ?ex) market currency con_id
             else resolve_listed catalog ?sym ?req sec market currency con_id) = Inr r"
    using assms by (auto simp: resolve_leg_def Let_def res_bind_Inr_iff split: if_splits)
  have cfd: "py_upper (py_strip ''CFD'') = ''CFD''" by code_simp
  have "traded_as map_on itype sec"
    using ibkr_sec_type_Inr [OF sec]
    by (auto simp: execution_type_cases traded_as_def Let_def cfd split: if_splits)
  then show ?thesis
    using r resolve_mapped_ok [OF _ sym] resolve_listed_ok [OF _ sym] by (auto split: if_splits)
qed

text \<open>What an attached leg keeps and what it gains.\<close>

definition leg_attached :: "bool \<Rightarrow> order_leg \<Rightarrow> order_leg \<Rightarrow> bool" where
  "leg_attached map_on l l' \<longleftrightarrow>
     (\<exists>r. leg_resolved l' = Some r \<and>
        (leg_resolved l = Some r \<or>
         leg_resolved l = None \<and> contract_ok r \<and> ri_symbol r = py_strip (leg_symbol l) \<and>
         traded_as map_on (leg_instrument_type l) (ri_sec_type r)) \<and>
        leg_symbol l' = leg_symbol l \<and> leg_side l' = leg_side l \<and> leg_price l' = leg_price l \<and>
        leg_notional l' = Some (leg_quantity l' * leg_price l') \<and>
        (case ri_size_increment r of
           Some inc \<Rightarrow>
             if inc > 0
             then 0 < leg_quantity l' \<and> leg_quantity l' \<le> leg_quantity l \<and> leg_quantity l < leg_quantity l' + inc \<and>
                  leg_quantity l' / inc \<in> \<int>
             else leg_quantity l' = leg_quantity l
         | None \<Rightarrow> leg_quantity l' = leg_quantity l))"

lemma apply_size_increment_Inr:
  assumes "apply_size_increment q inc = Inr q'" "0 < q'"
  shows "q' \<le> q \<and> q < q' + inc \<and> q' / inc \<in> \<int>"
proof -
  have inc: "0 < inc" and q': "q' = quantize_down (q / inc) * inc"
    using assms(1) by (auto simp: apply_size_increment_def not_le split: if_splits)
  then have "0 < quantize_down (q / inc)" using assms(2) by (simp add: zero_less_mult_iff)
  then have "0 \<le> q / inc"
    by (rule contrapos_pp) (simp add: quantize_down_def ceiling_le_iff)
  then have "quantize_down (q / inc) = of_int \<lfloor>q / inc\<rfloor>" by (simp add: quantize_down_def)
  moreover have "of_int \<lfloor>q / inc\<rfloor> * inc \<le> q" "q < of_int \<lfloor>q / inc\<rfloor> * inc + inc"
    using floor_correct [of "q / inc"] inc
    unfolding pos_le_divide_eq [OF inc] pos_divide_less_eq [OF inc] by (simp_all add: distrib_right)
  ultimately show ?thesis using inc by (simp add: q')
qed

lemma attach_leg_Inr:
  assumes "attach_leg catalog map_on market l = Inr l'"
  shows "leg_attached map_on l l'"
proof -
  obtain r q where r: "(case leg_resolved l of Some r \<Rightarrow> Inr r
               | None \<Rightarrow> resolve_leg catalog map_on (leg_symbol l) (leg_instrument_type l)
                           (or_text market (leg_exchange l)) (leg_currency l) (leg_con_id l)) = Inr r"
    and q: "(case ri_size_increment r of
               Some inc \<Rightarrow> if inc > 0 then apply_size_increment (leg_quantity l) inc else Inr (leg_quantity l)
             | None \<Rightarrow> Inr (leg_quantity l)) = Inr q"
    and pos: "\<not> ((case ri_size_increment r of Some inc \<Rightarrow> inc > 0 | None \<Rightarrow> False) \<and> q \<le> 0)"
    and l': "leg_resolved l' = Some r" "leg_symbol l' = leg_symbol l" "leg_side l' = leg_side l"
      "leg_price l' = leg_price l" "leg_quantity l' = q" "leg_notional l' = Some (q * leg_price l)"
    using assms by (auto simp: attach_leg_def res_bind_Inr_iff split: if_splits)
  have src: "leg_resolved l = Some r \<or> leg_resolved l = None \<and> contract_ok r \<and>
      ri_symbol r = py_strip (leg_symbol l) \<and> traded_as map_on (leg_instrument_type l) (ri_sec_type r)"
    using r resolve_leg_Inr by (auto split: option.splits)
  show ?thesis
    unfolding leg_attached_def using src q pos
    by (auto simp: l' not_le dest: apply_size_increment_Inr split: option.splits if_splits)
qed

lemma attach_resolved_Inr:
  assumes "attach_resolved catalog map_on intent = Inr intent'"
  shows "list_all2 (leg_attached map_on) (oi_legs intent) (oi_legs intent')" "intent' = intent\<lparr>oi_legs := oi_legs intent'\<rparr>"
proof -
  let ?f = "attach_leg catalog map_on (oi_market intent)"
  have ok: "\<forall>l\<in>set (oi_legs intent). is_ok (?f l)" and i': "intent' = intent\<lparr>oi_legs := map (projr \<circ> ?f) (oi_legs intent)\<rparr>"
    using assms by (auto simp: attach_resolved_def Let_def list_all_iff split: if_splits)
  have "leg_attached map_on l (projr (?f l))" if "l \<in> set (oi_legs intent)" for l
    using ok that attach_leg_Inr [of catalog map_on "oi_market intent" l] by (cases "?f l") auto
  then show "list_all2 (leg_attached map_on) (oi_legs intent) (oi_legs intent')"
    by (simp add: i' list_all2_conv_all_nth)
  show "intent' = intent\<lparr>oi_legs := oi_legs intent'\<rparr>" by (simp add: i')
qed

text \<open>
  An intent that resolution accepts has the same legs with the same symbols, sides and prices, each
  with a contract. A contract found for a leg has a symbol, an exchange and a currency, positive
  identifiers where it has any, and the security type the signal asks for: a CFD for a CFD, and
  for a stock exactly when the mapping is on; a stock for an ETF, and for a stock otherwise; no CFD
  ever becomes a stock. The quantity is rounded down to a positive whole number of increments, by
  less than one increment, and the notional is that of the new quantity.
\<close>

theorem attach_resolved_sound:
  assumes "attach_resolved catalog map_on intent = Inr intent'"
  shows "list_all2 (leg_attached map_on) (oi_legs intent) (oi_legs intent') \<and>
         intent' = intent\<lparr>oi_legs := oi_legs intent'\<rparr>"
  using attach_resolved_Inr [OF assms] by blast

text \<open>A stock of Model Blue, with the mapping on and no row in the catalogue.\<close>

definition sample_stock_intent :: order_intent where
  "sample_stock_intent =
     \<lparr>oi_signal_id = ''T1'', oi_strategy_id = ''model_blue'', oi_action = OPEN,
      oi_legs = [\<lparr>leg_symbol = '' spy '', leg_side = BUY, leg_quantity = 16, leg_price = 300,
        leg_contract_month = None, leg_con_id = None, leg_notional = None, leg_instrument_type = Some ''STK'',
        leg_weight = None, leg_leg_index = Some 0, leg_metadata = None, leg_exchange = None,
        leg_currency = None, leg_resolved = None\<rparr>],
      oi_account_id = Some 7, oi_ibkr_account = Some ''DU7'', oi_market = None, oi_timestamp = 0,
      oi_intent_mode = MODE_OPEN\<rparr>"

theorem attach_resolved_sound_witness:
  "\<exists>i. attach_resolved [] True sample_stock_intent = Inr i \<and>
     list_all2 (leg_attached True) (oi_legs sample_stock_intent) (oi_legs i)"
proof -
  have "is_ok (attach_resolved [] True sample_stock_intent)" by code_simp
  then obtain i where i: "attach_resolved [] True sample_stock_intent = Inr i"
    by (cases "attach_resolved [] True sample_stock_intent") auto
  with attach_resolved_sound [OF i] show ?thesis by blast
qed

end
