(* ===== verification/Runtime_Books.thy ===== *)
theory Runtime_Books
  imports Position_Ledger Margin_Estimate
begin

text \<open>
  The books that \<open>services/order_manager.py\<close> keeps in the risk context beside the ledger: open
  positions, symbol exposures, market value in use, margin commitments and processed signals. Each
  method that writes them is a function on the context. Clock readings are arguments; the rows come
  from the ledger.
\<close>

section \<open>Buckets\<close>

definition bump :: "'k \<Rightarrow> 'a::monoid_add \<Rightarrow> ('k \<rightharpoonup> 'a) \<Rightarrow> 'k \<rightharpoonup> 'a" where
  "bump k d m = m(k \<mapsto> get_or m k 0 + d)"

text \<open>\<open>max(0, current - delta)\<close>.\<close>

definition drop_to_zero :: "'k \<Rightarrow> 'a::{linorder, zero, minus} \<Rightarrow> ('k \<rightharpoonup> 'a) \<Rightarrow> 'k \<rightharpoonup> 'a" where
  "drop_to_zero k d m = m(k \<mapsto> max 0 (get_or m k 0 - d))"

section \<open>Configuration\<close>

definition ensure_strategy_config :: "string \<Rightarrow> int option \<Rightarrow> rms_context \<Rightarrow> rms_context" where
  "ensure_strategy_config strategy_id max_open_positions ctx =
     (if strategy_id = [] then ctx
      else (case ctx_strategy_configs ctx strategy_id of
              None \<Rightarrow>
                ctx\<lparr>ctx_strategy_configs := (ctx_strategy_configs ctx)(strategy_id \<mapsto>
                  \<lparr>cfg_strategy_id = strategy_id,
                   cfg_max_open_positions = Some (case max_open_positions of Some m \<Rightarrow> m | None \<Rightarrow> 100),
                   cfg_money_limit_per_symbol = None\<rparr>)\<rparr>
            | Some existing \<Rightarrow>
                (case max_open_positions of
                   None \<Rightarrow> ctx
                 | Some m \<Rightarrow>
                     if cfg_max_open_positions existing = Some m then ctx
                     else ctx\<lparr>ctx_strategy_configs := (ctx_strategy_configs ctx)(strategy_id \<mapsto>
                       \<lparr>cfg_strategy_id = strategy_id, cfg_max_open_positions = Some m,
                        cfg_money_limit_per_symbol = cfg_money_limit_per_symbol existing\<rparr>)\<rparr>)))"

text \<open>The limit rows: account, symbol, limit; and the default limit of each account.\<close>

definition apply_symbol_limits ::
  "(int \<times> string \<times> decimal) list \<Rightarrow> (int \<times> decimal option) list option \<Rightarrow> rms_context \<Rightarrow> rms_context" where
  "apply_symbol_limits limits accounts ctx =
     (let ctx1 = ctx\<lparr>ctx_per_symbol_limits :=
            fold (\<lambda>(a, s, m) l. l((a, normalize_symbol (Some s)) \<mapsto> m)) limits Map.empty\<rparr>
      in case accounts of
           None \<Rightarrow> ctx1
         | Some accs \<Rightarrow>
             ctx1\<lparr>ctx_default_symbol_limits :=
               fold (\<lambda>(a, d) l. case d of None \<Rightarrow> l | Some m \<Rightarrow> l(a \<mapsto> m)) accs Map.empty\<rparr>)"

section \<open>The books of the ledger\<close>

definition market_row :: "position \<Rightarrow> position_row" where
  "market_row r =
     \<lparr>pos_leg_a_signed_qty = p_leg_a_signed_qty r, pos_leg_a_entry_mark = p_leg_a_entry_mark r,
      pos_leg_b_symbol = p_leg_b_symbol r, pos_leg_b_signed_qty = p_leg_b_signed_qty r,
      pos_leg_b_entry_mark = p_leg_b_entry_mark r\<rparr>"

text \<open>The legs of a row that carry exposure, with their notional.\<close>

definition row_notionals :: "position \<Rightarrow> (scoped_key \<times> decimal) list" where
  "row_notionals r =
     (Scoped (p_account_id r) (normalize_symbol (Some (p_leg_a_symbol r))),
      \<bar>p_leg_a_signed_qty r\<bar> * p_leg_a_entry_mark r) #
     (case (p_leg_b_symbol r, p_leg_b_signed_qty r, p_leg_b_entry_mark r) of
        (Some s, Some q, Some e) \<Rightarrow>
          if s = [] then [] else [(Scoped (p_account_id r) (normalize_symbol (Some s)), \<bar>q\<bar> * e)]
      | _ \<Rightarrow> [])"

definition value_key_of :: "position \<Rightarrow> int \<times> string" where
  "value_key_of r = (p_account_id r, normalize_strategy_id (Some (p_strategy_id r)))"

definition add_row_exposure :: "position \<Rightarrow> rms_context \<Rightarrow> rms_context" where
  "add_row_exposure r ctx =
     ctx\<lparr>ctx_symbol_exposures := fold (\<lambda>(k, n). bump k n) (row_notionals r) (ctx_symbol_exposures ctx),
         ctx_model_value_used := bump (value_key_of r) (position_row_market_value (market_row r)) (ctx_model_value_used ctx)\<rparr>"

definition count_row :: "position \<Rightarrow> rms_context \<Rightarrow> rms_context" where
  "count_row r ctx =
     ctx\<lparr>ctx_open_positions :=
       bump (Scoped (p_account_id r) (normalize_strategy_id (Some (p_strategy_id r)))) 1 (ctx_open_positions ctx)\<rparr>"

definition clear_books :: "rms_context \<Rightarrow> rms_context" where
  "clear_books ctx =
     ctx\<lparr>ctx_open_positions := Map.empty, ctx_symbol_exposures := Map.empty, ctx_model_value_used := Map.empty\<rparr>"

definition book_rows :: "position list \<Rightarrow> rms_context \<Rightarrow> rms_context" where
  "book_rows rows ctx = fold (\<lambda>r c. add_row_exposure r (count_row r c)) rows ctx"

definition rebuild_rms_from_positions :: "ledger \<Rightarrow> rms_context \<Rightarrow> rms_context" where
  "rebuild_rms_from_positions rows ctx = book_rows (list_open rows) (clear_books ctx)"

text \<open>The books of \<open>hydrate_runtime_from_db\<close>: the signals recorded as processed, each for the
  accounts that are routed to its strategy, and the trades of the ledger.\<close>

definition processed_keys ::
  "(string \<times> string) list \<Rightarrow> (string \<Rightarrow> int list) option \<Rightarrow> ledger \<Rightarrow> duplicate_key set" where
  "processed_keys processed router rows =
     {DupGlobal (normalize_strategy_id (Some st)) sid |st sid. (st, sid) \<in> set processed} \<union>
     (case router of
        None \<Rightarrow> {}
      | Some accounts \<Rightarrow>
          {DupAccount a (normalize_strategy_id (Some st)) sid |a st sid.
             (st, sid) \<in> set processed \<and> a \<in> set (accounts (normalize_strategy_id (Some st)))}) \<union>
     (\<lambda>r. DupAccount (p_account_id r) (normalize_strategy_id (Some (p_strategy_id r))) (p_trade_id r)) ` set rows"

definition hydrate_books ::
  "(string \<times> string) list \<Rightarrow> (string \<Rightarrow> int list) option \<Rightarrow> (int \<times> string \<times> decimal) list \<Rightarrow>
   (int \<times> decimal option) list \<Rightarrow> ledger \<Rightarrow> rms_context \<Rightarrow> rms_context" where
  "hydrate_books processed router limits accounts rows ctx =
     apply_symbol_limits limits (Some accounts)
       (book_rows (list_open rows)
         ((clear_books ctx)\<lparr>ctx_processed_signals := processed_keys processed router rows\<rparr>))"

text \<open>\<open>_reseed_model_value_used\<close>: here the strategy is not normalised.\<close>

definition reseed_model_value_used :: "ledger \<Rightarrow> rms_context \<Rightarrow> rms_context" where
  "reseed_model_value_used rows ctx =
     ctx\<lparr>ctx_model_value_used :=
       fold (\<lambda>r. bump (p_account_id r, p_strategy_id r) (position_row_market_value (market_row r)))
         (list_open rows) Map.empty\<rparr>"

section \<open>Margin\<close>

definition margin_account :: "string option \<Rightarrow> string" where
  "margin_account ibkr_account = py_upper (py_strip (text_or ibkr_account))"

definition on_margin_snapshot :: "account_margin_snapshot \<Rightarrow> rms_context \<Rightarrow> rms_context" where
  "on_margin_snapshot snapshot ctx =
     (let key = margin_account (Some (ms_ibkr_account snapshot));
          ctx1 = ctx\<lparr>ctx_margin_snapshots := (ctx_margin_snapshots ctx)(key \<mapsto> snapshot)\<rparr>;
          existing = get_or (ctx_margin_commitments ctx) key []
      in case ms_as_of snapshot of
           None \<Rightarrow> ctx1
         | Some t \<Rightarrow>
             ctx1\<lparr>ctx_margin_commitments := (ctx_margin_commitments ctx)(key \<mapsto>
               filter (\<lambda>(ts, amount). ts \<ge> t - COMMITMENT_GRACE) existing)\<rparr>)"

definition commit_margin :: "datetime \<Rightarrow> bool \<Rightarrow> order_intent \<Rightarrow> rms_context \<Rightarrow> rms_context" where
  "commit_margin now opening intent ctx =
     (let account = margin_account (oi_ibkr_account intent);
          required = fst (estimate_required_margin intent (ctx_margin_rates ctx) (ctx_margin_rate_sources ctx)
                            (ctx_margin_policy ctx))
      in if account = [] \<or> required \<le> 0 then ctx
         else ctx\<lparr>ctx_margin_commitments := (ctx_margin_commitments ctx)(account \<mapsto>
                get_or (ctx_margin_commitments ctx) account [] @
                [(now, if opening then required else - required)])\<rparr>)"

section \<open>After an execution\<close>

definition leg_orders :: "nat \<Rightarrow> oms_order list \<Rightarrow> oms_order list" where
  "leg_orders index orders = filter (\<lambda>x. o_leg_index x = Some index \<and> \<not> o_is_compensation x) orders"

text \<open>The orders of a leg that carry weight in its average price.\<close>

definition priced_fills :: "oms_order list \<Rightarrow> (decimal \<times> decimal) list" where
  "priced_fills orders =
     List.map_filter (\<lambda>x. if o_filled x \<le> 0 then None
                          else map_option (\<lambda>p. (o_filled x, p)) (fill_price x)) orders"

definition leg_with_fills :: "oms_order list \<Rightarrow> nat \<times> order_leg \<Rightarrow> order_leg" where
  "leg_with_fills orders il =
     (case il of (index, leg) \<Rightarrow>
        (let matching = leg_orders index orders;
             qty = sum_list (map o_filled matching);
             den = sum_list (map fst (priced_fills matching));
             px = (if den > 0 then sum_list (map (\<lambda>(q, p). q * p) (priced_fills matching)) / den else leg_price leg)
         in if matching = [] then leg
            else leg\<lparr>leg_quantity := qty, leg_price := px, leg_notional := Some (qty * px)\<rparr>))"

definition intent_with_fills :: "order_intent \<Rightarrow> oms_order list \<Rightarrow> order_intent" where
  "intent_with_fills intent orders =
     intent\<lparr>oi_legs := map (leg_with_fills orders) (enumerate 0 (oi_legs intent))\<rparr>"

text \<open>Fills of a basket that did not settle.\<close>

definition book_leg :: "bool \<Rightarrow> order_intent \<Rightarrow> order_leg \<Rightarrow> (scoped_key \<rightharpoonup> decimal) \<Rightarrow> scoped_key \<rightharpoonup> decimal" where
  "book_leg opening intent leg m =
     (if opening then bump else drop_to_zero) (exposure_key intent (leg_symbol leg)) (effective_notional leg) m"

definition book_value :: "bool \<Rightarrow> order_intent \<Rightarrow> decimal \<Rightarrow> (int \<times> string \<rightharpoonup> decimal) \<Rightarrow> int \<times> string \<rightharpoonup> decimal" where
  "book_value opening intent delta m =
     (case model_value_key intent of
        None \<Rightarrow> m
      | Some k \<Rightarrow> (if opening then bump else drop_to_zero) k delta m)"

definition record_unsettled_exposure ::
  "datetime \<Rightarrow> order_intent \<Rightarrow> oms_order list \<Rightarrow> rms_context \<Rightarrow> rms_context" where
  "record_unsettled_exposure now intent orders ctx =
     (if orders = [] then ctx
      else
        (let filled = intent_with_fills intent orders;
             opening = (oi_action intent = OPEN);
             ctx1 = ctx\<lparr>ctx_symbol_exposures :=
               fold (\<lambda>leg m. if leg_quantity leg \<le> 0 then m else book_leg opening intent leg m)
                 (oi_legs filled) (ctx_symbol_exposures ctx)\<rparr>;
             ctx2 = commit_margin now opening filled ctx1
         in if intent_market_value filled > 0
            then ctx2\<lparr>ctx_model_value_used :=
                   book_value opening intent (intent_market_value filled) (ctx_model_value_used ctx2)\<rparr>
            else ctx2))"

text \<open>The books of a settled basket, for an intent of a strategy handler.\<close>

definition book_settled :: "datetime \<Rightarrow> order_intent \<Rightarrow> rms_context \<Rightarrow> rms_context" where
  "book_settled now intent ctx =
     (case oi_action intent of
        OPEN \<Rightarrow>
          commit_margin now True intent
            (ctx\<lparr>ctx_processed_signals := insert (duplicate_lookup_key intent) (ctx_processed_signals ctx),
                 ctx_open_positions := bump (open_position_key intent) 1 (ctx_open_positions ctx),
                 ctx_symbol_exposures := fold (book_leg True intent) (oi_legs intent) (ctx_symbol_exposures ctx),
                 ctx_model_value_used := book_value True intent (intent_market_value intent) (ctx_model_value_used ctx)\<rparr>)
      | CLOSE \<Rightarrow>
          commit_margin now False intent
            (ctx\<lparr>ctx_open_positions := drop_to_zero (open_position_key intent) 1 (ctx_open_positions ctx),
                 ctx_symbol_exposures := fold (book_leg False intent) (oi_legs intent) (ctx_symbol_exposures ctx),
                 ctx_model_value_used := book_value False intent (intent_market_value intent) (ctx_model_value_used ctx)\<rparr>))"

text \<open>The books without a handler: quantities by symbol and by strategy.\<close>

definition book_legacy :: "order_intent \<Rightarrow> rms_context \<Rightarrow> rms_context result" where
  "book_legacy intent ctx =
     (case oi_legs intent of
        [] \<Rightarrow> Inl IndexError
      | leg # _ \<Rightarrow>
          (let q = (if 0 \<le> leg_quantity leg then \<lfloor>leg_quantity leg\<rfloor> else \<lceil>leg_quantity leg\<rceil>);
               sym = Unscoped (leg_symbol leg); strat = Unscoped (oi_strategy_id intent);
               m = ctx_open_positions ctx
           in Inr (ctx\<lparr>ctx_open_positions :=
                (case oi_action intent of
                   OPEN \<Rightarrow> bump strat q (bump sym q m)
                 | CLOSE \<Rightarrow> m(sym \<mapsto> max 0 (get_or m sym 0 - q), strat \<mapsto> max 0 (get_or m strat 0 - q)))\<rparr>)))"

section \<open>The rebuilt books are those of the ledger\<close>

lemma get_or_bump: "get_or (bump k d m) k' 0 = get_or m k' 0 + (if k' = k then d else 0)"
  by (simp add: bump_def)

lemma get_or_fold_bump:
  fixes d :: "'x \<Rightarrow> 'a::comm_monoid_add"
  shows "get_or (fold (\<lambda>x. bump (k x) (d x)) xs m) key 0 =
    get_or m key 0 + sum_list (map d (filter (\<lambda>x. k x = key) xs))"
  by (induction xs arbitrary: m) (auto simp: get_or_bump ac_simps)

lemma dom_fold_bump: "dom (fold (\<lambda>x. bump (k x) (d x)) xs m) = k ` set xs \<union> dom m"
  by (induction xs arbitrary: m) (auto simp: bump_def)

lemma fold_concat: "fold (\<lambda>r. fold g (f r)) rows m = fold g (concat (map f rows)) m"
  by (induction rows arbitrary: m) simp_all

definition position_key_of :: "position \<Rightarrow> scoped_key" where
  "position_key_of r = Scoped (p_account_id r) (normalize_strategy_id (Some (p_strategy_id r)))"

lemma book_rows_eq:
  "book_rows rows ctx =
     ctx\<lparr>ctx_open_positions := fold (\<lambda>r. bump (position_key_of r) 1) rows (ctx_open_positions ctx),
         ctx_symbol_exposures :=
           fold (\<lambda>x. bump (fst x) (snd x)) (concat (map row_notionals rows)) (ctx_symbol_exposures ctx),
         ctx_model_value_used :=
           fold (\<lambda>r. bump (value_key_of r) (position_row_market_value (market_row r))) rows
             (ctx_model_value_used ctx)\<rparr>"
proof (induction rows arbitrary: ctx)
  case (Cons r rows)
  have "book_rows (r # rows) ctx = book_rows rows (add_row_exposure r (count_row r ctx))"
    by (simp add: book_rows_def)
  then show ?case
    by (simp add: Cons.IH add_row_exposure_def count_row_def position_key_of_def case_prod_beta')
qed (simp add: book_rows_def)

lemma rebuild_eq:
  "rebuild_rms_from_positions rows ctx =
     ctx\<lparr>ctx_open_positions := fold (\<lambda>r. bump (position_key_of r) 1) (list_open rows) Map.empty,
         ctx_symbol_exposures :=
           fold (\<lambda>x. bump (fst x) (snd x)) (concat (map row_notionals (list_open rows))) Map.empty,
         ctx_model_value_used :=
           fold (\<lambda>r. bump (value_key_of r) (position_row_market_value (market_row r))) (list_open rows) Map.empty\<rparr>"
  by (simp add: rebuild_rms_from_positions_def book_rows_eq clear_books_def)

text \<open>What the risk checks would count on the ledger itself.\<close>

definition ledger_count :: "ledger \<Rightarrow> scoped_key \<Rightarrow> int" where
  "ledger_count rows k = int (length (filter (\<lambda>r. position_key_of r = k) (list_open rows)))"

definition ledger_exposure :: "ledger \<Rightarrow> scoped_key \<Rightarrow> decimal" where
  "ledger_exposure rows k =
     sum_list (map snd (filter (\<lambda>x. fst x = k) (concat (map row_notionals (list_open rows)))))"

definition ledger_value :: "ledger \<Rightarrow> int \<times> string \<Rightarrow> decimal" where
  "ledger_value rows k =
     sum_list (map (\<lambda>r. position_row_market_value (market_row r)) (filter (\<lambda>r. value_key_of r = k) (list_open rows)))"

lemma sum_list_ones: "sum_list (map (\<lambda>x. 1) xs) = int (length xs)"
  by (induction xs) simp_all

lemma rebuilt_books:
  "get_or (ctx_open_positions (rebuild_rms_from_positions rows ctx)) k 0 = ledger_count rows k"
  "get_or (ctx_symbol_exposures (rebuild_rms_from_positions rows ctx)) k 0 = ledger_exposure rows k"
  "get_or (ctx_model_value_used (rebuild_rms_from_positions rows ctx)) v 0 = ledger_value rows v"
  by (simp_all add: rebuild_eq get_or_fold_bump ledger_count_def ledger_exposure_def ledger_value_def
      sum_list_ones get_or_None)

end
