(* ===== verification/Order_Manager.thy ===== *)
theory Order_Manager
  imports Instruments Execution_Claims Coordinator Trade_Book Session_Clock Runtime_Books
begin

text \<open>
  \<open>services/order_manager.py\<close>: from a signal to the accounts it is routed to, and for each account from
  the intent through every gate to the execution barrier, the basket and the books.

  The wiring is that of the running service: a database, the account router, Model Blue with its
  persistence, and the basket coordinator. What the code reads of other services is in \<open>om_env\<close>, a
  reading \<open>n\<close> for each point where it reads: the clock, the kill switch, the trading pause, the
  margin snapshots, the catalogue rows and the what-if probe. The exposure guard, which holds the
  locks of every bucket an intent touches from the first gate to the last write, makes each call one
  step. Audit rows and events are written beside the state and are left out.
\<close>

section \<open>Environment, state and errors\<close>

record om_env =
  om_coord :: coord_env
  om_now :: "nat \<Rightarrow> datetime"
  om_killed :: "nat \<Rightarrow> int \<Rightarrow> bool"
  om_paused :: "nat \<Rightarrow> int \<Rightarrow> bool"
  om_world :: session_world
  om_session_clock :: session_clock
  om_margin :: "(string \<Rightarrow> account_margin_snapshot option) option"
  om_catalog :: "instrument_record list"
  om_stk_as_cfd :: bool
  om_probe :: "(order_leg \<Rightarrow> decimal option) option"
  om_order_type :: string
  om_utilisation_cap :: decimal
  om_sizer :: sizer
  om_accounts :: "account_row list"
  om_allocations :: "allocation_row list"
  om_strategies :: "strategy_row list"
  om_later :: claim_table
  om_correlation :: "string option"
  om_signal_pk :: "int option"
  om_live_pnl :: bool

datatype pnl_call = WatchOpen order_intent | Unwatch int string

record order_manager =
  om_ctx :: rms_context
  om_baskets :: "coordinator option"
  om_claims :: claim_table
  om_ledger :: ledger
  om_pnl_calls :: "pnl_call list"

datatype om_error = Raised py_error | ClaimRefused claim_error

section \<open>Gate A: free margin of the account\<close>

definition assert_account_has_free_margin ::
  "om_env \<Rightarrow> string option \<Rightarrow> rms_context \<Rightarrow> unit result \<times> rms_context" where
  "assert_account_has_free_margin env ibkr_account ctx =
     (case om_margin env of
        None \<Rightarrow> (Inr (), ctx)
      | Some snapshot_for \<Rightarrow>
          (let policy = ctx_margin_policy ctx;
               account = margin_account ibkr_account;
               found = (case ctx_margin_snapshots ctx account of
                          Some s \<Rightarrow> Some s | None \<Rightarrow> snapshot_for account);
               ctx1 = (case (ctx_margin_snapshots ctx account, found) of
                         (None, Some s) \<Rightarrow> ctx\<lparr>ctx_margin_snapshots := (ctx_margin_snapshots ctx)(account \<mapsto> s)\<rparr>
                       | _ \<Rightarrow> ctx);
               commitments = get_or (ctx_margin_commitments ctx) account []
           in case found of
                None \<Rightarrow> (Inl (ValueError ''MARGIN_SNAPSHOT_UNAVAILABLE''), ctx1)
              | Some snapshot \<Rightarrow>
                  if is_stale (om_now env 0) snapshot \<and> mp_reject_on_stale_snapshot policy
                  then (Inl (ValueError ''MARGIN_SNAPSHOT_STALE''), ctx1)
                  else (case effective_free_margin snapshot commitments policy of
                          None \<Rightarrow> (Inl (ValueError ''MARGIN_SNAPSHOT_UNAVAILABLE''), ctx1)
                        | Some effective \<Rightarrow>
                            (let floor_value = headroom_floor snapshot policy in
                             if effective \<le> floor_value then (Inl (ValueError ''MARGIN_NO_FREE_FUNDS''), ctx1)
                             else if mp_enforce_look_ahead policy \<and>
                                     (case look_ahead_effective_free snapshot commitments policy of
                                        None \<Rightarrow> False | Some l \<Rightarrow> l \<le> floor_value)
                             then (Inl (ValueError ''MARGIN_NO_FREE_FUNDS_LOOK_AHEAD''), ctx1)
                             else (Inr (), ctx1)))))"

section \<open>Instruments and gate C\<close>

definition zero_quantity :: "order_leg list \<Rightarrow> bool" where
  "zero_quantity legs \<longleftrightarrow> list_ex (\<lambda>l. leg_quantity l \<le> 0) legs"

definition resolve_instruments :: "om_env \<Rightarrow> order_intent \<Rightarrow> order_intent result" where
  "resolve_instruments env intent =
     res_bind (attach_resolved (om_catalog env)
                 (apply_stk_to_cfd_for_strategy (om_stk_as_cfd env) (Some (oi_strategy_id intent))) intent)
       (\<lambda>resolved. if zero_quantity (oi_legs resolved) then Inl (ValueError ''ZERO_QUANTITY'') else Inr resolved)"

definition annotate_leg :: "rms_context \<Rightarrow> order_leg \<Rightarrow> order_leg" where
  "annotate_leg ctx leg =
     (case leg_required_margin leg (ctx_margin_rates ctx) (ctx_margin_rate_sources ctx) (ctx_margin_policy ctx) of
        (required, source) \<Rightarrow>
          leg\<lparr>leg_metadata := Some (dict_set ''margin_source'' (MetaText source)
                 (dict_set ''margin_impact'' (MetaDecimal required)
                   (case leg_metadata leg of None \<Rightarrow> [] | Some d \<Rightarrow> d)))\<rparr>)"

definition annotate_margin_metadata :: "rms_context \<Rightarrow> order_intent \<Rightarrow> order_intent" where
  "annotate_margin_metadata ctx intent = intent\<lparr>oi_legs := map (annotate_leg ctx) (oi_legs intent)\<rparr>"

text \<open>The what-if probe of the broker for every leg of an intent in the borderline band.\<close>

fun probe_legs :: "(order_leg \<Rightarrow> decimal option) \<Rightarrow> order_leg list \<Rightarrow> decimal \<Rightarrow> decimal result" where
  "probe_legs probe [] confirmed = Inr confirmed"
| "probe_legs probe (leg # legs) confirmed =
     (if leg_resolved leg = None then Inl (ValueError ''MARGIN_PROBE_UNKNOWN'')
      else (case probe leg of
              None \<Rightarrow> Inl (ValueError ''MARGIN_PROBE_UNKNOWN'')
            | Some change \<Rightarrow> probe_legs probe legs (confirmed + \<bar>change\<bar>)))"

definition borderline :: "rms_context \<Rightarrow> order_intent \<Rightarrow> decimal option" where
  "borderline ctx intent =
     (let policy = ctx_margin_policy ctx; account = margin_account (oi_ibkr_account intent) in
      if \<not> mp_check_enabled policy \<or> \<not> mp_confirm_borderline policy \<or> oi_action intent \<noteq> OPEN \<or> account = []
      then None
      else (case ctx_margin_snapshots ctx account of
              None \<Rightarrow> None
            | Some snapshot \<Rightarrow>
                (case effective_free_margin snapshot (get_or (ctx_margin_commitments ctx) account []) policy of
                   None \<Rightarrow> None
                 | Some effective \<Rightarrow>
                     if classify_headroom
                          (fst (estimate_required_margin intent (ctx_margin_rates ctx) (ctx_margin_rate_sources ctx) policy))
                          effective policy = BORDERLINE
                     then Some effective else None)))"

definition confirm_margin_if_borderline :: "om_env \<Rightarrow> rms_context \<Rightarrow> order_intent \<Rightarrow> unit result" where
  "confirm_margin_if_borderline env ctx intent =
     (case borderline ctx intent of
        None \<Rightarrow> Inr ()
      | Some effective \<Rightarrow>
          (case om_probe env of
             None \<Rightarrow> Inl (ValueError ''MARGIN_PROBE_UNKNOWN'')
           | Some probe \<Rightarrow>
               res_bind (probe_legs probe (oi_legs intent) 0) (\<lambda>confirmed.
                 if confirmed \<ge> effective - mp_min_free_buffer (ctx_margin_policy ctx)
                 then Inl (ValueError ''MARGIN_INSUFFICIENT_CONFIRMED'') else Inr ())))"

section \<open>The gates before the barrier\<close>

definition red_zone_at :: "om_env \<Rightarrow> nat \<Rightarrow> bool result" where
  "red_zone_at env n = projected_in_red_zone (om_world env) (om_session_clock env) (Aware (om_now env n))"

definition account_flag :: "(int \<Rightarrow> bool) \<Rightarrow> int option \<Rightarrow> bool" where
  "account_flag f account_id = (case account_id of None \<Rightarrow> False | Some a \<Rightarrow> f a)"

text \<open>From the wiring to the red zone: what may still refuse an intent that passed the risk checks.\<close>

definition last_gates :: "om_env \<Rightarrow> order_intent \<Rightarrow> order_intent \<Rightarrow> coordinator option \<Rightarrow> coordinator result" where
  "last_gates env intent evaluated baskets =
     (case baskets of
        None \<Rightarrow> Inl (RuntimeError ''No OMSService configured on OrderManager.'')
      | Some coord \<Rightarrow>
          if oi_action intent = OPEN \<and> is_open_blocked (oi_account_id intent) (oi_strategy_id intent) coord
          then Inl (ValueError ''BASKET_CRITICAL'')
          else if oi_action evaluated = OPEN \<and> account_flag (om_killed env 1) (oi_account_id evaluated)
          then Inl (ValueError ''KILL_SWITCH_ACTIVE'')
          else if oi_action evaluated = OPEN \<and> account_flag (om_paused env 1) (oi_account_id evaluated)
          then Inl (ValueError ''TRADING_PAUSED'')
          else if oi_intent_mode evaluated \<noteq> EMERGENCY_FLATTEN \<and>
                  (case red_zone_at env 1 of Inl _ \<Rightarrow> True | Inr red \<Rightarrow> red)
          then Inl (ValueError ''RED_ZONE_DEFERRED'')
          else Inr coord)"

definition locked_gates ::
  "om_env \<Rightarrow> order_intent \<Rightarrow> order_manager \<Rightarrow> (order_intent \<times> rms_result \<times> coordinator) result \<times> rms_context" where
  "locked_gates env intent st =
     (let ctx = ensure_strategy_config (oi_strategy_id intent) None (om_ctx st) in
      (if zero_quantity (oi_legs intent) then Inl (ValueError ''ZERO_QUANTITY'')
       else res_bind (evaluate get_default_checks (om_now env 0) (om_now env 0) intent ctx) (\<lambda>rms.
         if rr_outcome rms \<noteq> PASS then Inl (ValueError ''RMS_REJECTED'')
         else res_bind (resolve_instruments env (rr_intent rms)) (\<lambda>resolved.
           let annotated = annotate_margin_metadata ctx resolved in
           res_bind (confirm_margin_if_borderline env ctx annotated) (\<lambda>_.
             res_bind (last_gates env intent annotated (om_baskets st)) (\<lambda>coord.
               Inr (annotated, rms, coord))))),
       ctx))"

definition margin_gate_applies :: "order_intent \<Rightarrow> bool" where
  "margin_gate_applies intent \<longleftrightarrow>
     oi_action intent = OPEN \<and> (case oi_ibkr_account intent of Some (_ # _) \<Rightarrow> True | _ \<Rightarrow> False)"

definition all_gates ::
  "om_env \<Rightarrow> order_intent \<Rightarrow> order_manager \<Rightarrow> (order_intent \<times> rms_result \<times> coordinator) result \<times> rms_context" where
  "all_gates env intent st =
     (if margin_gate_applies intent
      then (case assert_account_has_free_margin env (oi_ibkr_account intent) (om_ctx st) of
              (Inl e, ctx) \<Rightarrow> (Inl e, ctx)
            | (Inr _, ctx) \<Rightarrow> locked_gates env intent (st\<lparr>om_ctx := ctx\<rparr>))
      else locked_gates env intent st)"

section \<open>The barrier\<close>

definition action_value :: "order_action \<Rightarrow> string" where
  "action_value a = (case a of OPEN \<Rightarrow> ''OPEN'' | CLOSE \<Rightarrow> ''CLOSE'')"

definition claim_request_of :: "om_env \<Rightarrow> order_intent \<Rightarrow> claim_request" where
  "claim_request_of env intent =
     \<lparr>rq_dedupe_key = execution_dedupe_key intent, rq_account_id = oi_account_id intent,
      rq_strategy_id = oi_strategy_id intent, rq_signal_id = oi_signal_id intent,
      rq_action = action_value (oi_action intent), rq_correlation_id = om_correlation env\<rparr>"

definition acquire_execution_claim ::
  "om_env \<Rightarrow> order_intent \<Rightarrow> claim_table \<Rightarrow> (claim_error + execution_claim) \<times> claim_table" where
  "acquire_execution_claim env intent t =
     acquire_claim (om_now env 2) 300 (claim_request_of env intent) (om_later env) t"

definition seal_execution_claim :: "om_env \<Rightarrow> order_intent \<Rightarrow> claim_table \<Rightarrow> claim_table" where
  "seal_execution_claim env intent t =
     snd (mark_executed (om_now env 3) None (execution_dedupe_key intent) t)"

text \<open>\<open>_resolve_failed_claim\<close> counts the orders and logs; whatever it finds, the claim stays.\<close>

definition resolve_failed_claim :: "claim_table \<Rightarrow> claim_table" where
  "resolve_failed_claim t = t"

section \<open>The basket and the books\<close>

definition basket_state_value :: "basket_state \<Rightarrow> string" where
  "basket_state_value b =
     (case b of B_PENDING \<Rightarrow> ''PENDING'' | B_EXECUTING \<Rightarrow> ''EXECUTING'' | B_OPEN \<Rightarrow> ''OPEN''
      | B_CLOSED \<Rightarrow> ''CLOSED'' | B_UNWINDING \<Rightarrow> ''UNWINDING'' | B_COMPENSATED \<Rightarrow> ''COMPENSATED''
      | B_CRITICAL \<Rightarrow> ''CRITICAL'' | B_RECOVERED \<Rightarrow> ''RECOVERED'')"

definition basket_result :: "basket_execution_result \<Rightarrow> oms_order \<Rightarrow> execution_result" where
  "basket_result res first =
     mk_execution_result first (basket_success res)
       (if basket_success res then None else Some (basket_state_value (b_state (bx_basket res))))
       (bx_orders res @ bx_compensation_orders res)"

text \<open>\<open>after_submit\<close> of Model Blue with its persistence.\<close>

definition after_submit ::
  "om_env \<Rightarrow> signal \<Rightarrow> order_intent \<Rightarrow> oms_order list \<Rightarrow> ledger \<Rightarrow> ledger result" where
  "after_submit env sg intent orders rows =
     (case oi_action intent of
        OPEN \<Rightarrow>
          persist_open (om_now env 4) (om_accounts env) (om_allocations env) None (recorded_trade sg intent) orders
            (oi_account_id intent) rows
      | CLOSE \<Rightarrow>
          res_bind (account_id_from orders (oi_account_id intent) None) (\<lambda>a.
            res_bind (persist_close (om_now env 4) (signal_trade_id sg) a orders rows) (\<lambda>(_, rows'). Inr rows')))"

definition update_runtime_state ::
  "om_env \<Rightarrow> signal \<Rightarrow> order_intent \<Rightarrow> execution_result \<Rightarrow> order_manager \<Rightarrow> unit result \<times> order_manager" where
  "update_runtime_state env sg intent res st =
     (let st1 = st\<lparr>om_ctx := book_settled (om_now env 4) intent (om_ctx st)\<rparr> in
      case after_submit env sg intent (er_orders res) (om_ledger st1) of
        Inl e \<Rightarrow> (Inl e, st1)
      | Inr rows \<Rightarrow> (Inr (), st1\<lparr>om_ledger := rows\<rparr>))"

definition live_pnl_call :: "om_env \<Rightarrow> order_intent \<Rightarrow> order_intent \<Rightarrow> order_intent \<Rightarrow> basket_state \<Rightarrow> pnl_call list" where
  "live_pnl_call env intent evaluated filled state =
     (case oi_account_id intent of
        None \<Rightarrow> []
      | Some a \<Rightarrow>
          if \<not> om_live_pnl env then []
          else if state = B_OPEN then [WatchOpen filled]
          else [Unwatch a (py_before '':UNWIND:'' (py_before '':CLOSE'' (oi_signal_id evaluated)))])"

definition settle_books ::
  "om_env \<Rightarrow> signal \<Rightarrow> order_intent \<Rightarrow> order_intent \<Rightarrow> basket_execution_result \<Rightarrow> oms_order \<Rightarrow> order_manager \<Rightarrow>
   (om_error + execution_result) \<times> order_manager" where
  "settle_books env sg intent evaluated res first st =
     (let state = b_state (bx_basket res);
          exec = basket_result res first;
          rebuild = (\<lambda>s. s\<lparr>om_ctx := rebuild_rms_from_positions (om_ledger s) (om_ctx s)\<rparr>)
      in if state \<in> {B_OPEN, B_CLOSED}
         then
           (let st1 = st\<lparr>om_claims := seal_execution_claim env evaluated (om_claims st)\<rparr>;
                filled = intent_with_fills evaluated (bx_orders res)
            in case update_runtime_state env sg filled exec st1 of
                 (Inl e, st2) \<Rightarrow> (Inl (Raised e), st2)
               | (Inr _, st2) \<Rightarrow>
                   (Inr exec, rebuild (st2\<lparr>om_pnl_calls := om_pnl_calls st2 @
                                            live_pnl_call env intent evaluated filled state\<rparr>)))
         else
           (let st1 = (if state \<noteq> B_COMPENSATED
                       then st\<lparr>om_ctx := record_unsettled_exposure (om_now env 4) evaluated (bx_orders res) (om_ctx st)\<rparr>
                       else st);
                st2 = st1\<lparr>om_claims := resolve_failed_claim (om_claims st1)\<rparr>
            in (Inr exec, rebuild st2)))"

definition submit_basket ::
  "om_env \<Rightarrow> signal \<Rightarrow> order_intent \<Rightarrow> order_intent \<Rightarrow> rms_result \<Rightarrow> coordinator \<Rightarrow> order_manager \<Rightarrow>
   (om_error + execution_result) \<times> order_manager" where
  "submit_basket env sg intent evaluated rms coord st =
     (case execute (om_coord env) evaluated rms (om_order_type env) (om_signal_pk env) coord of
        (res, coord') \<Rightarrow>
          (let st1 = st\<lparr>om_baskets := Some coord'\<rparr>;
               failed = (\<lambda>e. (Inl (Raised e), st1\<lparr>om_claims := resolve_failed_claim (om_claims st1)\<rparr>))
           in case res of
                Inl e \<Rightarrow> failed e
              | Inr r \<Rightarrow>
                  (case (if bx_orders r \<noteq> [] then bx_orders r else bx_compensation_orders r) of
                     [] \<Rightarrow> failed (RuntimeError ''Basket coordinator returned no child orders.'')
                   | first # _ \<Rightarrow> settle_books env sg intent evaluated r first st1)))"

definition evaluate_and_submit ::
  "om_env \<Rightarrow> signal \<Rightarrow> order_intent \<Rightarrow> order_manager \<Rightarrow> (om_error + execution_result) \<times> order_manager" where
  "evaluate_and_submit env sg intent st =
     (case all_gates env intent st of
        (Inl e, ctx) \<Rightarrow> (Inl (Raised e), st\<lparr>om_ctx := ctx\<rparr>)
      | (Inr (evaluated, rms, coord), ctx) \<Rightarrow>
          (case acquire_execution_claim env evaluated (om_claims st) of
             (Inl e, t) \<Rightarrow> (Inl (ClaimRefused e), st\<lparr>om_ctx := ctx, om_claims := t\<rparr>)
           | (Inr _, t) \<Rightarrow>
               submit_basket env sg intent evaluated rms coord (st\<lparr>om_ctx := ctx, om_claims := t\<rparr>)))"

section \<open>One account\<close>

definition build_intent :: "om_env \<Rightarrow> ledger \<Rightarrow> signal \<Rightarrow> account_context \<Rightarrow> order_intent result" where
  "build_intent env rows sg account =
     (let action = py_upper (sg_action sg) in
      if action = ''CLOSE'' then build_close_intent (db_get None rows) sg (Some account)
      else if action = ''OPEN''
      then build_open_intent (\<lambda>i a. map_sum id (\<lambda>r. r \<noteq> None) (db_get_row None rows i a)) None (om_sizer env)
             (\<lambda>_. None) (\<lambda>_. None) sg (Some account)
      else Inl (ValueError ''MODEL_BLUE_INVALID_ACTION''))"

definition account_limits :: "om_env \<Rightarrow> account_context \<Rightarrow> rms_context \<Rightarrow> rms_context" where
  "account_limits env account ctx =
     (let c = ensure_strategy_config (ac_strategy_id account) None ctx in
      c\<lparr>ctx_account_open_limits := (ctx_account_open_limits c)
           ((ac_account_id account, ac_strategy_id account) \<mapsto> ac_max_open_positions account),
        ctx_model_value_limit := (ctx_model_value_limit c)
           ((ac_account_id account, ac_strategy_id account) \<mapsto>
              ac_committed_notional account * om_utilisation_cap env)\<rparr>)"

text \<open>The outcome of an account; a \<open>ValueError\<close> becomes one unless the account is the only one.\<close>

definition account_outcome ::
  "bool \<Rightarrow> account_context \<Rightarrow> om_error + execution_result \<Rightarrow> om_error + account_execution_outcome" where
  "account_outcome raise_if_single account res =
     (let out = (\<lambda>r err. \<lparr>ao_account_id = Some (ac_account_id account), ao_ibkr_account = Some (ac_ibkr_account account),
                          ao_result = r, ao_error = err\<rparr>)
      in case res of
           Inr r \<Rightarrow> Inr (out (Some r) None)
         | Inl (Raised (ValueError msg)) \<Rightarrow>
             if raise_if_single then Inl (Raised (ValueError msg)) else Inr (out None (Some msg))
         | Inl e \<Rightarrow> Inl e)"

definition fanout_single_account ::
  "om_env \<Rightarrow> signal \<Rightarrow> bool \<Rightarrow> account_context \<Rightarrow> order_manager \<Rightarrow>
   (om_error + account_execution_outcome) \<times> order_manager" where
  "fanout_single_account env sg raise_if_single account st =
     (let st1 = st\<lparr>om_ctx := account_limits env account (om_ctx st)\<rparr> in
      case (case build_intent env (om_ledger st1) sg account of
              Inl e \<Rightarrow> (Inl (Raised e), st1)
            | Inr intent \<Rightarrow>
                if oi_action intent = OPEN \<and> om_killed env 0 (ac_account_id account)
                then (Inl (Raised (ValueError ''KILL_SWITCH_ACTIVE'')), st1)
                else if oi_action intent = OPEN \<and> om_paused env 0 (ac_account_id account)
                then (Inl (Raised (ValueError ''TRADING_PAUSED'')), st1)
                else evaluate_and_submit env sg intent st1) of
        (res, st2) \<Rightarrow> (account_outcome raise_if_single account res, st2))"

section \<open>All accounts\<close>

text \<open>The tasks of a fan-out run under \<open>gather\<close>. Their calls are steps; here one follows the other
  in the order of the accounts. Each has an environment of its own.\<close>

fun fanout_tasks ::
  "(nat \<Rightarrow> om_env) \<Rightarrow> signal \<Rightarrow> bool \<Rightarrow> nat \<Rightarrow> account_context list \<Rightarrow> order_manager \<Rightarrow>
   (om_error + account_execution_outcome) list \<times> order_manager" where
  "fanout_tasks envs sg single n [] st = ([], st)"
| "fanout_tasks envs sg single n (a # accounts) st =
     (case fanout_single_account (envs n) sg single a st of
        (r, st1) \<Rightarrow>
          (case fanout_tasks envs sg single (n + 1) accounts st1 of (rs, st2) \<Rightarrow> (r # rs, st2)))"

definition unexpected_outcome :: "account_context \<Rightarrow> account_execution_outcome" where
  "unexpected_outcome account =
     \<lparr>ao_account_id = Some (ac_account_id account), ao_ibkr_account = Some (ac_ibkr_account account),
      ao_result = None, ao_error = Some ''unexpected''\<rparr>"

fun collect_outcomes ::
  "bool \<Rightarrow> (account_context \<times> (om_error + account_execution_outcome)) list \<Rightarrow>
   (account_execution_outcome list \<times> bool) result" where
  "collect_outcomes single [] = Inr ([], False)"
| "collect_outcomes single ((a, Inr out) # rest) =
     res_bind (collect_outcomes single rest) (\<lambda>(outs, bad). Inr (out # outs, bad))"
| "collect_outcomes single ((a, Inl e) # rest) =
     (case e of
        Raised (ValueError msg) \<Rightarrow>
          if single then Inl (ValueError msg)
          else res_bind (collect_outcomes single rest) (\<lambda>(outs, bad). Inr (unexpected_outcome a # outs, True))
      | _ \<Rightarrow> res_bind (collect_outcomes single rest) (\<lambda>(outs, bad). Inr (unexpected_outcome a # outs, True)))"

definition fanout_accounts ::
  "(nat \<Rightarrow> om_env) \<Rightarrow> signal \<Rightarrow> account_context list \<Rightarrow> order_manager \<Rightarrow>
   (account_execution_outcome list \<times> bool) result \<times> order_manager" where
  "fanout_accounts envs sg accounts st =
     (let single = (length accounts = 1) in
      case fanout_tasks envs sg single 0 accounts st of
        (rs, st') \<Rightarrow> (collect_outcomes single (zip accounts rs), st'))"

definition contexts_for_scope :: "account_context list \<Rightarrow> string option \<Rightarrow> account_context list" where
  "contexts_for_scope contexts account_scope =
     (let wanted = py_strip (text_or account_scope) in
      if wanted = [] then contexts
      else filter (\<lambda>c. int_text (ac_account_id c) = wanted \<or>
                       py_upper (py_strip (ac_ibkr_account c)) = py_upper wanted) contexts)"

datatype process_result = NoOrder | DeferredRedZone | Executed "account_execution_outcome list" bool

definition process_inner ::
  "(nat \<Rightarrow> om_env) \<Rightarrow> string \<Rightarrow> signal \<Rightarrow> string option \<Rightarrow> order_manager \<Rightarrow> process_result result \<times> order_manager" where
  "process_inner envs default_strategy sg account_scope st =
     (let strat_id = first_text (sg_strategy_id sg) (Some default_strategy); env = envs 0 in
      if \<not> is_model_blue_strategy (Some strat_id) then (Inl (ValueError ''UNKNOWN_STRATEGY''), st)
      else
        (let contexts = contexts_for_scope
               (resolve_accounts (om_accounts env) (om_allocations env) (om_strategies env) strat_id) account_scope
         in if contexts = [] then (Inl (ValueError ''NO_ELIGIBLE_ACCOUNTS''), st)
            else (case fanout_accounts envs sg contexts st of
                    (Inl e, st') \<Rightarrow> (Inl e, st')
                  | (Inr (outs, bad), st') \<Rightarrow> (Inr (Executed outs bad), st'))))"

text \<open>\<open>process_signal_execution\<close>: holding and the first look at the red zone. An emergency flatten is
  marked in the payload of the signal.\<close>

definition process_signal_execution ::
  "(nat \<Rightarrow> om_env) \<Rightarrow> string \<Rightarrow> signal \<Rightarrow> string option \<Rightarrow> order_manager \<Rightarrow> process_result result \<times> order_manager" where
  "process_signal_execution envs default_strategy sg account_scope st =
     (if sg_signal_type sg = SIG_HOLD then (Inr NoOrder, st)
      else if \<not> sg_emergency sg
      then (case red_zone_at (envs 0) 0 of
              Inl e \<Rightarrow> (Inl e, st)
            | Inr True \<Rightarrow> (Inr DeferredRedZone, st)
            | Inr False \<Rightarrow> process_inner envs default_strategy sg account_scope st)
      else process_inner envs default_strategy sg account_scope st)"

end
