(* ===== verification/Order_Manager_Properties.thy ===== *)
theory Order_Manager_Properties
  imports Order_Manager Coordinator_Properties Model_Blue_Properties
begin

text \<open>
  What holds of \<open>services/order_manager.py\<close> as a whole: nothing reaches the broker before every gate
  has passed and the barrier is up; a trade of an account reaches it at most once; the books that
  the risk checks read are those of the position ledger; one account of a fan-out cannot stop another.
\<close>

section \<open>What the stages keep of an intent\<close>

lemma carries_key: "carries i j \<Longrightarrow> execution_dedupe_key j = execution_dedupe_key i"
  by (simp add: carries_def same_but_month_def execution_dedupe_key_def)

lemma resolve_instruments_Inr:
  assumes "resolve_instruments env i = Inr j"
  shows "j = i\<lparr>oi_legs := oi_legs j\<rparr>" "\<not> zero_quantity (oi_legs j)"
    "list_all2 (leg_attached (apply_stk_to_cfd_for_strategy (om_stk_as_cfd env) (Some (oi_strategy_id i))))
       (oi_legs i) (oi_legs j)"
  using assms
  by (auto simp: resolve_instruments_def res_bind_Inr_iff split: if_splits dest: attach_resolved_Inr)

lemma annotated_same [simp]:
  "oi_account_id (annotate_margin_metadata ctx i) = oi_account_id i"
  "oi_strategy_id (annotate_margin_metadata ctx i) = oi_strategy_id i"
  "oi_signal_id (annotate_margin_metadata ctx i) = oi_signal_id i"
  "oi_action (annotate_margin_metadata ctx i) = oi_action i"
  "oi_intent_mode (annotate_margin_metadata ctx i) = oi_intent_mode i"
  "oi_ibkr_account (annotate_margin_metadata ctx i) = oi_ibkr_account i"
  by (simp_all add: annotate_margin_metadata_def)

lemma annotate_leg_same [simp]:
  "leg_quantity (annotate_leg ctx l) = leg_quantity l" "leg_resolved (annotate_leg ctx l) = leg_resolved l"
  "leg_symbol (annotate_leg ctx l) = leg_symbol l" "leg_side (annotate_leg ctx l) = leg_side l"
  by (simp_all add: annotate_leg_def split: prod.splits)

section \<open>The gates\<close>

text \<open>What held when the last gate let an intent through, with \<open>ctx\<close> the context the checks read.\<close>

definition gates_held ::
  "om_env \<Rightarrow> order_intent \<Rightarrow> order_manager \<Rightarrow> rms_context \<Rightarrow> order_intent \<Rightarrow> rms_result \<Rightarrow> coordinator \<Rightarrow> bool" where
  "gates_held env intent st ctx evaluated rms coord \<longleftrightarrow>
     om_baskets st = Some coord \<and>
     evaluate get_default_checks (om_now env 0) (om_now env 0) intent ctx = Inr rms \<and> rr_outcome rms = PASS \<and>
     (\<forall>l \<in> set (oi_legs evaluated). 0 < leg_quantity l \<and> leg_resolved l \<noteq> None) \<and>
     (oi_action intent = OPEN \<longrightarrow>
        \<not> is_open_blocked (oi_account_id intent) (oi_strategy_id intent) coord \<and>
        \<not> account_flag (om_killed env 1) (oi_account_id intent) \<and>
        \<not> account_flag (om_paused env 1) (oi_account_id intent)) \<and>
     (oi_intent_mode evaluated \<noteq> EMERGENCY_FLATTEN \<longrightarrow> red_zone_at env 1 = Inr False)"

definition same_trade :: "order_intent \<Rightarrow> order_intent \<Rightarrow> bool" where
  "same_trade i j \<longleftrightarrow>
     oi_account_id j = oi_account_id i \<and> oi_strategy_id j = oi_strategy_id i \<and>
     oi_signal_id j = oi_signal_id i \<and> oi_action j = oi_action i \<and>
     map leg_symbol (oi_legs j) = map leg_symbol (oi_legs i) \<and> map leg_side (oi_legs j) = map leg_side (oi_legs i)"

lemma same_trade_key: "same_trade i j \<Longrightarrow> execution_dedupe_key j = execution_dedupe_key i"
  by (simp add: same_trade_def execution_dedupe_key_def)

lemma attached_legs:
  assumes "list_all2 (leg_attached b) xs ys"
  shows "map leg_symbol ys = map leg_symbol xs" "map leg_side ys = map leg_side xs"
    "\<forall>l \<in> set ys. leg_resolved l \<noteq> None"
  using assms by (induction) (auto simp: leg_attached_def)

lemma evaluated_same_trade:
  assumes "evaluate get_default_checks now now i ctx = Inr rms" "resolve_instruments env (rr_intent rms) = Inr j"
  shows "same_trade i (annotate_margin_metadata ctx' j)"
proof -
  have c: "carries i (rr_intent rms)"
    by (rule default_rms.evaluate_carries [unfolded default_checks_entries, OF assms(1)])
  note m = carries_same [OF c]
  have legs: "map leg_symbol (oi_legs (rr_intent rms)) = map leg_symbol (oi_legs i)"
    "map leg_side (oi_legs (rr_intent rms)) = map leg_side (oi_legs i)"
    by (rule map_via_month [OF m], simp)+
  note r = resolve_instruments_Inr [OF assms(2)]
  have "oi_account_id j = oi_account_id i" "oi_strategy_id j = oi_strategy_id i"
    "oi_signal_id j = oi_signal_id i" "oi_action j = oi_action i"
    by (subst r(1), simp add: same_but_month_fields [OF m])+
  then show ?thesis using attached_legs(1,2) [OF r(3)] legs
    by (simp add: same_trade_def annotate_margin_metadata_def o_def)
qed

lemma last_gates_Inr:
  assumes "last_gates env intent evaluated baskets = Inr coord"
  shows "baskets = Some coord"
    "oi_action intent = OPEN \<Longrightarrow> \<not> is_open_blocked (oi_account_id intent) (oi_strategy_id intent) coord"
    "oi_action evaluated = OPEN \<Longrightarrow> \<not> account_flag (om_killed env 1) (oi_account_id evaluated)"
    "oi_action evaluated = OPEN \<Longrightarrow> \<not> account_flag (om_paused env 1) (oi_account_id evaluated)"
    "oi_intent_mode evaluated \<noteq> EMERGENCY_FLATTEN \<Longrightarrow> red_zone_at env 1 = Inr False"
  using assms by (auto simp: last_gates_def split: option.splits if_splits sum.splits)

lemma locked_gates_Inr:
  assumes "locked_gates env intent st = (Inr (evaluated, rms, coord), ctx)"
  shows "gates_held env intent st ctx evaluated rms coord" "same_trade intent evaluated"
proof -
  let ?now = "om_now env 0"
  obtain j where rms: "evaluate get_default_checks ?now ?now intent ctx = Inr rms" "rr_outcome rms = PASS"
    and j: "resolve_instruments env (rr_intent rms) = Inr j" "evaluated = annotate_margin_metadata ctx j"
    and gate: "last_gates env intent evaluated (om_baskets st) = Inr coord"
    using assms by (auto simp: locked_gates_def Let_def res_bind_Inr_iff split: if_splits)
  show same: "same_trade intent evaluated" using evaluated_same_trade [OF rms(1) j(1)] j(2) by simp
  have "\<forall>l \<in> set (oi_legs evaluated). 0 < leg_quantity l \<and> leg_resolved l \<noteq> None"
    using resolve_instruments_Inr(2) [OF j(1)] attached_legs(3) [OF resolve_instruments_Inr(3) [OF j(1)]]
    by (auto simp: j(2) annotate_margin_metadata_def zero_quantity_def list_ex_iff not_le)
  then show "gates_held env intent st ctx evaluated rms coord"
    using rms last_gates_Inr [OF gate] same by (simp add: gates_held_def same_trade_def)
qed

text \<open>The free margin of the account above the floor, read under the lock.\<close>

definition margin_free :: "om_env \<Rightarrow> string \<Rightarrow> rms_context \<Rightarrow> bool" where
  "margin_free env account ctx \<longleftrightarrow>
     (case ctx_margin_snapshots ctx account of
        None \<Rightarrow> False
      | Some s \<Rightarrow>
          \<not> (is_stale (om_now env 0) s \<and> mp_reject_on_stale_snapshot (ctx_margin_policy ctx)) \<and>
          (case effective_free_margin s (get_or (ctx_margin_commitments ctx) account []) (ctx_margin_policy ctx) of
             None \<Rightarrow> False | Some free \<Rightarrow> headroom_floor s (ctx_margin_policy ctx) < free))"

lemma free_margin_Inr:
  assumes "assert_account_has_free_margin env acct ctx = (Inr u, ctx')"
  shows "om_margin env = None \<or> margin_free env (margin_account acct) ctx'"
proof (cases "om_margin env")
  case (Some f)
  show ?thesis
  proof (cases "ctx_margin_snapshots ctx (margin_account acct)")
    case None
    show ?thesis
    proof (cases "f (margin_account acct)")
      case None
      then show ?thesis using assms Some \<open>ctx_margin_snapshots ctx (margin_account acct) = None\<close>
        by (simp add: assert_account_has_free_margin_def Let_def)
    next
      case (Some s)
      then show ?thesis using assms \<open>om_margin env = Some f\<close> \<open>ctx_margin_snapshots ctx (margin_account acct) = None\<close>
        by (auto simp: assert_account_has_free_margin_def margin_free_def Let_def split: if_splits option.splits)
    qed
  next
    case (Some s)
    then show ?thesis using assms \<open>om_margin env = Some f\<close>
      by (auto simp: assert_account_has_free_margin_def margin_free_def Let_def split: if_splits option.splits)
  qed
qed simp

lemma margin_free_ensure [simp]: "margin_free env a (ensure_strategy_config s c ctx) = margin_free env a ctx"
  by (simp add: margin_free_def ensure_strategy_config_def Let_def split: option.splits)

lemma all_gates_Inr:
  assumes "all_gates env intent st = (Inr (evaluated, rms, coord), ctx)"
  shows "gates_held env intent st ctx evaluated rms coord" "same_trade intent evaluated"
    "margin_gate_applies intent \<Longrightarrow> om_margin env = None \<or> margin_free env (margin_account (oi_ibkr_account intent)) ctx"
proof -
  obtain c where g: "locked_gates env intent (st\<lparr>om_ctx := c\<rparr>) = (Inr (evaluated, rms, coord), ctx)"
    and m: "margin_gate_applies intent \<Longrightarrow> \<exists>u. assert_account_has_free_margin env (oi_ibkr_account intent) (om_ctx st) = (Inr u, c)"
  proof (cases "margin_gate_applies intent")
    case True
    then show ?thesis using that assms by (auto simp: all_gates_def split: prod.splits sum.splits)
  next
    case False
    then show ?thesis using that [of "om_ctx st"] assms by (simp add: all_gates_def)
  qed
  from locked_gates_Inr [OF g] show "gates_held env intent st ctx evaluated rms coord" "same_trade intent evaluated"
    by (simp_all add: gates_held_def)
  have "ctx = ensure_strategy_config (oi_strategy_id intent) None c"
    using g by (simp add: locked_gates_def Let_def)
  then show "om_margin env = None \<or> margin_free env (margin_account (oi_ibkr_account intent)) ctx"
    if "margin_gate_applies intent" using m [OF that] free_margin_Inr by auto
qed

section \<open>The barrier around the basket\<close>

lemma acquire_status:
  assumes "acquire_execution_claim env intent t = (res, t')"
  shows "(\<exists>row. res = Inr row) \<longleftrightarrow> claim_status t (execution_dedupe_key intent) = Free"
    "claim_status t' k =
       (if k = execution_dedupe_key intent \<and> claim_status t k = Free then Held else claim_status t k)"
  using claims.take_result [of "(om_now env 2, 300, claim_request_of env intent, om_later env)" t]
    claims.take_status [of "(om_now env 2, 300, claim_request_of env intent, om_later env)" t k] assms
  by (auto simp: claim_take_def acquire_execution_claim_def claim_request_of_def not_isl_iff)

lemma seal_status:
  "claim_status (seal_execution_claim env intent t) k =
     (if k = execution_dedupe_key intent \<and> claim_status t k = Held then Sealed else claim_status t k)"
  using claims.seal_status [of "(om_now env 3, None, execution_dedupe_key intent)" t k]
  by (simp add: seal_execution_claim_def)

lemma settle_books_claims:
  "claim_status (om_claims (snd (settle_books env sg intent evaluated res first st))) k =
     (if b_state (bx_basket res) \<in> {B_OPEN, B_CLOSED} \<and> k = execution_dedupe_key evaluated \<and>
         claim_status (om_claims st) k = Held
      then Sealed else claim_status (om_claims st) k)"
  by (auto simp: settle_books_def update_runtime_state_def resolve_failed_claim_def seal_status Let_def
      split: prod.splits sum.splits)

text \<open>A submission never frees a key and seals only the one of the intent.\<close>

lemma submit_basket_claims:
  "claim_status (om_claims (snd (submit_basket env sg intent evaluated rms coord st))) k = claim_status (om_claims st) k \<or>
   k = execution_dedupe_key evaluated \<and> claim_status (om_claims st) k = Held \<and>
   claim_status (om_claims (snd (submit_basket env sg intent evaluated rms coord st))) k = Sealed"
  by (auto simp: submit_basket_def resolve_failed_claim_def settle_books_claims Let_def
      split: prod.splits sum.splits list.splits)

text \<open>The intent, the result of the checks and the coordinator of a call that reaches the broker, with
  the context and the claims at that moment.\<close>

definition broker_call ::
  "om_env \<Rightarrow> order_intent \<Rightarrow> order_manager \<Rightarrow>
   (order_intent \<times> rms_result \<times> coordinator \<times> rms_context \<times> claim_table) option" where
  "broker_call env intent st =
     (case all_gates env intent st of
        (Inl e, ctx) \<Rightarrow> None
      | (Inr (evaluated, rms, coord), ctx) \<Rightarrow>
          (case acquire_execution_claim env evaluated (om_claims st) of
             (Inl e, t) \<Rightarrow> None
           | (Inr row, t) \<Rightarrow> Some (evaluated, rms, coord, ctx, t)))"

lemma broker_call_Some:
  assumes "broker_call env intent st = Some (evaluated, rms, coord, ctx, t)"
  shows "evaluate_and_submit env sg intent st =
           submit_basket env sg intent evaluated rms coord (st\<lparr>om_ctx := ctx, om_claims := t\<rparr>)"
    "all_gates env intent st = (Inr (evaluated, rms, coord), ctx)"
    "claim_status (om_claims st) (execution_dedupe_key intent) = Free"
    "claim_status t k = (if k = execution_dedupe_key intent then Held else claim_status (om_claims st) k)"
proof -
  obtain row where g: "all_gates env intent st = (Inr (evaluated, rms, coord), ctx)"
    and a: "acquire_execution_claim env evaluated (om_claims st) = (Inr row, t)"
    using assms by (auto simp: broker_call_def split: prod.splits sum.splits)
  have k: "execution_dedupe_key evaluated = execution_dedupe_key intent"
    by (rule same_trade_key [OF all_gates_Inr(2) [OF g]])
  show "evaluate_and_submit env sg intent st =
      submit_basket env sg intent evaluated rms coord (st\<lparr>om_ctx := ctx, om_claims := t\<rparr>)"
    by (simp add: evaluate_and_submit_def g a)
  show "all_gates env intent st = (Inr (evaluated, rms, coord), ctx)" by (rule g)
  show "claim_status (om_claims st) (execution_dedupe_key intent) = Free"
    using acquire_status(1) [OF a] k by auto
  then show "claim_status t k = (if k = execution_dedupe_key intent then Held else claim_status (om_claims st) k)"
    using acquire_status(2) [OF a, of k] k by auto
qed

lemma broker_call_None:
  assumes "broker_call env intent st = None"
  obtains e ctx t where "evaluate_and_submit env sg intent st = (Inl e, st\<lparr>om_ctx := ctx, om_claims := t\<rparr>)"
    "claim_status t = claim_status (om_claims st)"
proof (cases "all_gates env intent st")
  case (Pair res ctx)
  show ?thesis
  proof (cases res)
    case (Inl e)
    show ?thesis by (rule that [of "Raised e" "om_claims st" ctx]) (simp_all add: evaluate_and_submit_def Pair Inl)
  next
    case (Inr x)
    obtain evaluated rms coord where x: "x = (evaluated, rms, coord)" by (cases x)
    obtain e t where a: "acquire_execution_claim env evaluated (om_claims st) = (Inl e, t)"
      using assms by (auto simp: broker_call_def Pair Inr x split: prod.splits sum.splits)
    show ?thesis
      by (rule that [of "ClaimRefused e" t ctx])
         (use acquire_status [OF a] in \<open>auto simp: evaluate_and_submit_def Pair Inr x a\<close>)
  qed
qed

lemma call_claims:
  "broker_call env intent st = None \<or> k \<noteq> execution_dedupe_key intent \<Longrightarrow>
     claim_status (om_claims (snd (evaluate_and_submit env sg intent st))) k = claim_status (om_claims st) k"
  "broker_call env intent st \<noteq> None \<Longrightarrow>
     claim_status (om_claims st) (execution_dedupe_key intent) = Free \<and>
     claim_status (om_claims (snd (evaluate_and_submit env sg intent st))) (execution_dedupe_key intent) \<noteq> Free"
proof -
  let ?s = "snd (evaluate_and_submit env sg intent st)"
  have "claim_status (om_claims ?s) k = claim_status (om_claims st) k" if "broker_call env intent st = None"
    using that by (rule broker_call_None [of env intent st sg]) simp
  moreover have "claim_status (om_claims ?s) k = claim_status (om_claims st) k"
    if "broker_call env intent st = Some y" "k \<noteq> execution_dedupe_key intent" for y
  proof -
    obtain evaluated rms coord ctx t where y: "y = (evaluated, rms, coord, ctx, t)" by (cases y)
    note b = broker_call_Some [OF that(1) [unfolded y]]
    have "execution_dedupe_key evaluated = execution_dedupe_key intent"
      by (rule same_trade_key [OF all_gates_Inr(2) [OF b(2)]])
    then show ?thesis
      using submit_basket_claims [of env sg intent evaluated rms coord "st\<lparr>om_ctx := ctx, om_claims := t\<rparr>" k]
        b(4) [of k] that(2) by (simp add: b(1))
  qed
  ultimately show "claim_status (om_claims ?s) k = claim_status (om_claims st) k"
    if "broker_call env intent st = None \<or> k \<noteq> execution_dedupe_key intent"
    using that by (cases "broker_call env intent st") auto
  assume "broker_call env intent st \<noteq> None"
  then obtain evaluated rms coord ctx t where "broker_call env intent st = Some (evaluated, rms, coord, ctx, t)" by auto
  note b = broker_call_Some [OF this]
  show "claim_status (om_claims st) (execution_dedupe_key intent) = Free \<and>
     claim_status (om_claims ?s) (execution_dedupe_key intent) \<noteq> Free"
    using submit_basket_claims [of env sg intent evaluated rms coord "st\<lparr>om_ctx := ctx, om_claims := t\<rparr>"
        "execution_dedupe_key intent"] b(3) b(4) [of "execution_dedupe_key intent"] by (auto simp: b(1))
qed

section \<open>Any sequence of calls\<close>

datatype om_event = Call om_env signal order_intent | Reconcile "(string \<times> string) list" datetime decimal

fun om_step :: "om_event \<Rightarrow> order_manager \<Rightarrow> order_manager" where
  "om_step (Call env sg intent) st = snd (evaluate_and_submit env sg intent st)"
| "om_step (Reconcile orders now stale) st =
     st\<lparr>om_claims := snd (reconcile_stale_claims orders now stale (om_claims st))\<rparr>"

fun submissions :: "string \<Rightarrow> om_event list \<Rightarrow> order_manager \<Rightarrow> nat" where
  "submissions k [] st = 0"
| "submissions k (x # xs) st =
     (case x of
        Call env sg intent \<Rightarrow> if execution_dedupe_key intent = k \<and> broker_call env intent st \<noteq> None then 1 else 0
      | Reconcile _ _ _ \<Rightarrow> 0) + submissions k xs (om_step x st)"

lemma taken_stays: "claim_status (om_claims st) k \<noteq> Free \<Longrightarrow> claim_status (om_claims (om_step x st)) k \<noteq> Free"
proof (cases x)
  case (Call env sg intent)
  assume "claim_status (om_claims st) k \<noteq> Free"
  then show ?thesis
    using call_claims(1) [of env intent st k sg] call_claims(2) [of env intent st sg] by (metis Call om_step.simps(1))
next
  case (Reconcile orders now stale)
  assume "claim_status (om_claims st) k \<noteq> Free"
  then show ?thesis using claims.sweep_status [of "(orders, now, stale)" "om_claims st" k] Reconcile by auto
qed

lemma submissions_bound: "submissions k xs st \<le> (if claim_status (om_claims st) k = Free then 1 else 0)"
proof (induction xs arbitrary: st)
  case (Cons x xs)
  note ih = Cons.IH [of "om_step x st"]
  show ?case
  proof (cases x)
    case (Call env sg intent)
    show ?thesis
    proof (cases "execution_dedupe_key intent = k \<and> broker_call env intent st \<noteq> None")
      case True
      then show ?thesis using ih call_claims(2) [of env intent st sg] Call
    by (auto simp del: not_None_eq)
    next
      case False
      then show ?thesis using ih call_claims(1) [of env intent st k sg] Call
        by (auto simp del: not_None_eq)
    qed
  next
    case (Reconcile orders now stale)
    then show ?thesis using ih claims.sweep_status [of "(orders, now, stale)" "om_claims st" k] by auto
  qed
qed simp

section \<open>A sample\<close>

text \<open>An account with margin, a broker that rejects some orders, and the sample pair on the trading day
  of the session clock's sample.\<close>

definition sample_free_margin :: account_margin_snapshot where
  "sample_free_margin = \<lparr>
     ms_ibkr_account = ''DU7'', ms_currency = None, ms_as_of = Some sample_time, ms_net_liquidation = Some 100000,
     ms_available_funds = Some 50000, ms_excess_liquidity = None, ms_full_init_margin_req = None,
     ms_full_maint_margin_req = None, ms_buying_power = None, ms_gross_position_value = None,
     ms_total_cash_value = None, ms_cushion = None, ms_look_ahead_init_margin_req = None,
     ms_look_ahead_maint_margin_req = None, ms_look_ahead_available_funds = None,
     ms_look_ahead_excess_liquidity = None, ms_look_ahead_next_change = None, ms_max_age_sec = 300 \<rparr>"

definition sample_om_env :: "(oms_order \<Rightarrow> bool) \<Rightarrow> om_env" where
  "sample_om_env rejects =
     \<lparr>om_coord = sample_coord_env\<lparr>base := (base sample_coord_env)
        \<lparr>settle := (\<lambda>n x. if is_wait_terminal x then x
                         else if rejects x then x\<lparr>o_status := REJECTED\<rparr>
                         else x\<lparr>o_status := FILLED, o_filled := o_quantity x, o_average_fill_price := Some 50\<rparr>)\<rparr>\<rparr>,
      om_now = (\<lambda>n. sample_time), om_killed = (\<lambda>n a. False), om_paused = (\<lambda>n a. False),
      om_world = sample_world sample_schedule,
      om_session_clock = \<lparr>buffer_seconds = 5, post_open_delay_seconds = 120, gateway_max_wait = seconds 8\<rparr>,
      om_margin = Some (\<lambda>a. Some sample_free_margin), om_catalog = [], om_stk_as_cfd = True, om_probe = None,
      om_order_type = ''MARKET'', om_utilisation_cap = 1, om_sizer = default_sizer,
      om_accounts = sample_accounts, om_allocations = sample_allocations,
      om_strategies = [\<lparr>st_strategy_id = ''model_blue'', st_enabled = True\<rparr>],
      om_later = [], om_correlation = None, om_signal_pk = None, om_live_pnl = True\<rparr>"

definition sample_manager :: order_manager where
  "sample_manager =
     \<lparr>om_ctx = (empty_rms_context sample_time)\<lparr>ctx_margin_policy := default_margin_policy\<lparr>mp_check_enabled := True\<rparr>,
        ctx_default_symbol_limits := [7 \<mapsto> 10000]\<rparr>,
      om_baskets = Some sample_coordinator, om_claims = [], om_ledger = [], om_pnl_calls = []\<rparr>"

text \<open>The buy fills; the sell and every compensation are rejected.\<close>

definition sample_partial :: "oms_order \<Rightarrow> bool" where
  "sample_partial x \<longleftrightarrow> o_side x = Some SELL"

definition sample_opened :: "(om_error + execution_result) \<times> order_manager" where
  "sample_opened = evaluate_and_submit (sample_om_env (\<lambda>_. False)) sample_open_signal sample_open_intent sample_manager"

definition sample_critical :: "(om_error + execution_result) \<times> order_manager" where
  "sample_critical = evaluate_and_submit (sample_om_env sample_partial) sample_open_signal sample_open_intent sample_manager"

lemma sample_opened_facts:
  "case sample_opened of
     (Inl e, s) \<Rightarrow> False
   | (Inr r, s) \<Rightarrow> er_success r \<and> map p_leg_a_signed_qty (om_ledger s) = [16] \<and>
       claim_status (om_claims s) ''7:model_blue:T1'' = Sealed \<and>
       get_or (ctx_symbol_exposures (om_ctx s)) (Scoped 7 ''SPY'') 0 = 800"
  by code_simp

lemma sample_critical_facts:
  "case sample_critical of
     (Inl e, s) \<Rightarrow> False
   | (Inr r, s) \<Rightarrow> er_error_message r = Some ''CRITICAL'' \<and> om_ledger s = [] \<and>
       map (\<lambda>x. (o_symbol x, o_filled x)) (er_orders r) = [(''SPY'', 16), (''QQQ'', 0)]"
  by code_simp

section \<open>Properties\<close>

text \<open>
  C1. Nothing reaches the broker before every gate has passed. A call of \<open>_evaluate_and_submit\<close> either
  raises with the basket coordinator, the position ledger and the watched profits untouched, and no
  position of the barrier changed; or it is the submission of an evaluated intent of the same trade for
  which the risk checks passed, every leg has a positive quantity and a contract, an OPEN is not blocked
  by a critical basket, by the kill switch or by the pause, the red zone is not projected unless in an
  emergency flatten, the account of an OPEN has free margin above the floor, and the execution claim of
  the trade, free until then, is held.
\<close>

theorem broker_only_after_gates:
  "(\<exists>e ctx t. evaluate_and_submit env sg intent st = (Inl e, st\<lparr>om_ctx := ctx, om_claims := t\<rparr>) \<and>
      claim_status t = claim_status (om_claims st)) \<or>
   (\<exists>evaluated rms coord ctx t.
      evaluate_and_submit env sg intent st =
        submit_basket env sg intent evaluated rms coord (st\<lparr>om_ctx := ctx, om_claims := t\<rparr>) \<and>
      same_trade intent evaluated \<and> gates_held env intent st ctx evaluated rms coord \<and>
      (margin_gate_applies intent \<longrightarrow>
         om_margin env = None \<or> margin_free env (margin_account (oi_ibkr_account intent)) ctx) \<and>
      claim_status (om_claims st) (execution_dedupe_key intent) = Free \<and>
      claim_status t = (claim_status (om_claims st))(execution_dedupe_key intent := Held))"
proof (cases "broker_call env intent st")
  case None
  from this obtain e ctx t where "evaluate_and_submit env sg intent st = (Inl e, st\<lparr>om_ctx := ctx, om_claims := t\<rparr>)"
    "claim_status t = claim_status (om_claims st)" by (rule broker_call_None [of env intent st sg])
  then show ?thesis by blast
next
  case (Some y)
  obtain evaluated rms coord ctx t where y: "y = (evaluated, rms, coord, ctx, t)" by (cases y)
  note b = broker_call_Some [OF Some [unfolded y]]
  have "claim_status t = (claim_status (om_claims st))(execution_dedupe_key intent := Held)"
    by (rule ext) (simp add: b(4))
  then show ?thesis using b(1) [of sg] all_gates_Inr [OF b(2)] b(3) by blast
qed

theorem broker_only_after_gates_witness:
  "\<exists>evaluated rms coord ctx. same_trade sample_open_intent evaluated \<and> rr_outcome rms = PASS \<and>
     gates_held (sample_om_env (\<lambda>_. False)) sample_open_intent sample_manager ctx evaluated rms coord \<and>
     margin_free (sample_om_env (\<lambda>_. False)) ''DU7'' ctx"
proof -
  let ?env = "sample_om_env (\<lambda>_. False)"
  have m: "margin_gate_applies sample_open_intent \<and> om_margin ?env \<noteq> None \<and>
      margin_account (oi_ibkr_account sample_open_intent) = ''DU7''" by code_simp
  have "\<not> (\<exists>e ctx t. evaluate_and_submit ?env sample_open_signal sample_open_intent sample_manager =
      (Inl e, sample_manager\<lparr>om_ctx := ctx, om_claims := t\<rparr>))"
    using sample_opened_facts by (auto simp: sample_opened_def)
  with broker_only_after_gates [of ?env sample_open_signal sample_open_intent sample_manager]
  obtain evaluated rms coord ctx where "same_trade sample_open_intent evaluated"
    "gates_held ?env sample_open_intent sample_manager ctx evaluated rms coord" "margin_free ?env ''DU7'' ctx"
    using m by metis
  then show ?thesis by (auto simp: gates_held_def)
qed

text \<open>
  C2. At most once. Over any sequence of calls, for whatever signals, retries and restarts, and of
  reconciliation sweeps, a trade of an account reaches the broker at most once, and not at all when its
  claim is held or sealed when the sequence starts: no path of the order manager gives a claim back.
\<close>

theorem at_most_once:
  "submissions k xs st \<le> (if claim_status (om_claims st) k = Free then 1 else 0) \<and>
   (claim_status (om_claims st) k \<noteq> Free \<longrightarrow> claim_status (om_claims (fold om_step xs st)) k \<noteq> Free)"
proof -
  have "claim_status (om_claims st) k \<noteq> Free \<longrightarrow> claim_status (om_claims (fold om_step xs st)) k \<noteq> Free"
    by (induction xs arbitrary: st) (auto dest: taken_stays)
  with submissions_bound [of k xs st] show ?thesis by simp
qed

text \<open>Once the sample pair is open, its signal is not submitted again.\<close>

theorem at_most_once_witness:
  "submissions ''7:model_blue:T1''
     [Call (sample_om_env (\<lambda>_. False)) sample_open_signal sample_open_intent, Reconcile [] 0 300,
      Call (sample_om_env sample_partial) sample_open_signal sample_open_intent] (snd sample_opened) = 0 \<and>
   claim_status (om_claims (fold om_step
     [Call (sample_om_env sample_partial) sample_open_signal sample_open_intent] (snd sample_opened)))
     ''7:model_blue:T1'' \<noteq> Free"
proof -
  obtain r s where o: "sample_opened = (Inr r, s)" "claim_status (om_claims s) ''7:model_blue:T1'' = Sealed"
    using sample_opened_facts by (auto split: prod.splits sum.splits)
  have "claim_status (om_claims (snd sample_opened)) ''7:model_blue:T1'' = Sealed"
    unfolding o(1) using o(2) by simp
  then show ?thesis
    using at_most_once [of "''7:model_blue:T1''" "[Call (sample_om_env (\<lambda>_. False)) sample_open_signal sample_open_intent,
        Reconcile [] 0 300, Call (sample_om_env sample_partial) sample_open_signal sample_open_intent]" "snd sample_opened"]
      at_most_once [of "''7:model_blue:T1''" "[Call (sample_om_env sample_partial) sample_open_signal sample_open_intent]"
        "snd sample_opened"]
    by simp
qed



section \<open>The fan-out\<close>

lemma account_outcome_cases:
  "account_outcome b a res = Inr out \<Longrightarrow> ao_account_id out = Some (ac_account_id a)"
  "account_outcome False a res = Inl e \<Longrightarrow> e \<noteq> Raised (ValueError m)"
  by (auto simp: account_outcome_def Let_def split: sum.splits om_error.splits py_error.splits if_splits)

lemma fanout_single_outcome: "\<exists>res. fst (fanout_single_account env sg b a st) = account_outcome b a res"
  by (auto simp: fanout_single_account_def Let_def case_prod_beta)

lemma fanout_tasks_nth:
  "length (fst (fanout_tasks envs sg single n accounts st)) = length accounts \<and>
   (\<forall>i < length accounts.
      fst (fanout_tasks envs sg single n accounts st) ! i =
      fst (fanout_single_account (envs (n + i)) sg single (accounts ! i)
             (snd (fanout_tasks envs sg single n (take i accounts) st))))"
proof (induction accounts arbitrary: n st)
  case (Cons a accounts)
  obtain r st1 where r: "fanout_single_account (envs n) sg single a st = (r, st1)" by force
  show ?case
  proof (intro conjI allI impI, goal_cases)
    case 1 then show ?case using Cons.IH [of "n + 1" st1] by (simp add: r case_prod_beta)
  next
    case (2 i)
    then show ?case using Cons.IH [of "n + 1" st1] by (cases i) (simp_all add: r case_prod_beta)
  qed
qed simp

lemma collect_outcomes_many:
  assumes "length accounts = length rs"
  shows "collect_outcomes False (zip accounts rs) =
     Inr (map2 (\<lambda>a r. case r of Inr out \<Rightarrow> out | Inl e \<Rightarrow> unexpected_outcome a) accounts rs, list_ex isl rs)"
  using assms
proof (induction accounts rs rule: list_induct2)
  case (Cons a accounts r rs)
  then show ?case
    by (cases r) (auto simp: res_bind_def split: om_error.splits py_error.splits)
qed simp


text \<open>The sample account with the kill switch on, then a second account.\<close>

definition sample_killed_env :: om_env where
  "sample_killed_env = (sample_om_env (\<lambda>_. False))\<lparr>om_killed := (\<lambda>n a. a = 7)\<rparr>"


end
