(* ===== verification/Gate_Cache.thy ===== *)
theory Gate_Cache
  imports Prelude
begin

text \<open>
  The contract of a gate that is read from a cache in memory while the decision it enforces is recorded in
  the database: what is recorded stays recorded, and stays enforced, until an operation releases it. The
  pause flag and the kill switch provide it.
\<close>

locale armed_gate =
  fixes step :: "'e \<Rightarrow> 's \<Rightarrow> 's"
    and wf :: "'s \<Rightarrow> bool"
    and recorded :: "'s \<Rightarrow> 'a set"
    and enforced :: "'s \<Rightarrow> 'a set"
    and releases :: "'e \<Rightarrow> 'a \<Rightarrow> bool"
  assumes wf_step: "wf s \<Longrightarrow> wf (step e s)"
    and recorded_step: "wf s \<Longrightarrow> a \<in> recorded s \<Longrightarrow> \<not> releases e a \<Longrightarrow> a \<in> recorded (step e s)"
    and enforced_step:
      "wf s \<Longrightarrow> a \<in> recorded s \<Longrightarrow> a \<in> enforced s \<Longrightarrow> \<not> releases e a \<Longrightarrow> a \<in> enforced (step e s)"
begin

lemma gate_stays_shut:
  assumes "wf s" "a \<in> recorded s" "a \<in> enforced s" "\<forall>e \<in> set es. \<not> releases e a"
  shows "wf (fold step es s) \<and> a \<in> recorded (fold step es s) \<and> a \<in> enforced (fold step es s)"
  using assms
proof (induction es arbitrary: s)
  case (Cons e es)
  then have "wf (step e s)" "a \<in> recorded (step e s)" "a \<in> enforced (step e s)"
    using wf_step recorded_step enforced_step by auto
  with Cons.IH [of "step e s"] Cons.prems show ?case by simp
qed simp

text \<open>In particular at every moment in between.\<close>

lemma gate_shut_throughout:
  assumes "wf s" "a \<in> recorded s" "a \<in> enforced s" "\<forall>e \<in> set es. \<not> releases e a" "n \<le> length es"
  shows "a \<in> enforced (fold step (take n es) s)"
  using gate_stays_shut [OF assms(1-3), of "take n es"] assms(4) set_take_subset [of n es] by blast

end

end
