(* ===== verification/Trading_Pause.thy ===== *)
theory Trading_Pause
  imports Gate_Cache
begin

text \<open>
  \<open>services/trading_pause.py\<close>: the pause flag of the accounts, the rows of the database first and the
  cache that the gates read second.

  A request is a transaction on the rows followed by a write of the cache; the two are also separate
  steps here, because another request can run between them.
\<close>

section \<open>Rows and cache\<close>

record pause_row =
  pa_id :: int
  pa_trading_paused :: bool
  pa_paused_at :: "datetime option"
  pa_paused_by :: "string option"

record pause_state =
  pause_rows :: "pause_row list"
  paused_accounts :: "int set"

definition is_account_trading_paused :: "int \<Rightarrow> pause_state \<Rightarrow> bool" where
  "is_account_trading_paused account_id st \<longleftrightarrow> account_id \<in> paused_accounts st"

definition pause_account_cache :: "int \<Rightarrow> pause_state \<Rightarrow> pause_state" where
  "pause_account_cache account_id st = st\<lparr>paused_accounts := insert account_id (paused_accounts st)\<rparr>"

definition resume_account_cache :: "int \<Rightarrow> pause_state \<Rightarrow> pause_state" where
  "resume_account_cache account_id st = st\<lparr>paused_accounts := paused_accounts st - {account_id}\<rparr>"

definition hydrate_trading_pause_cache :: "pause_state \<Rightarrow> int set \<times> pause_state" where
  "hydrate_trading_pause_cache st =
     (let paused = set (map pa_id (filter pa_trading_paused (pause_rows st))) in
      (paused, st\<lparr>paused_accounts := paused\<rparr>))"

definition get_account :: "int \<Rightarrow> pause_row list \<Rightarrow> pause_row option" where
  "get_account account_id rows = find (\<lambda>r. pa_id r = account_id) rows"

definition put_account :: "pause_row \<Rightarrow> pause_row list \<Rightarrow> pause_row list" where
  "put_account row rows = map (\<lambda>r. if pa_id r = pa_id row then row else r) rows"

definition get_pause_status :: "int \<Rightarrow> pause_state \<Rightarrow> pause_row option \<times> bool" where
  "get_pause_status account_id st =
     (case get_account account_id (pause_rows st) of
        None \<Rightarrow> (None, False) | Some account \<Rightarrow> (Some account, pa_trading_paused account))"

section \<open>Requests\<close>

text \<open>The transaction of a request: the row it returns and whether it changed. The cache is written
  afterwards whenever there is a row.\<close>

definition pause_commit :: "datetime \<Rightarrow> string \<Rightarrow> int \<Rightarrow> pause_state \<Rightarrow> (pause_row option \<times> bool) \<times> pause_state" where
  "pause_commit now paused_by account_id st =
     (case get_account account_id (pause_rows st) of
        None \<Rightarrow> ((None, False), st)
      | Some account \<Rightarrow>
          if pa_trading_paused account then ((Some account, False), st)
          else
            (let account' = account\<lparr>pa_trading_paused := True, pa_paused_at := Some now, pa_paused_by := Some paused_by\<rparr>
             in ((Some account', True), st\<lparr>pause_rows := put_account account' (pause_rows st)\<rparr>)))"

definition resume_commit :: "int \<Rightarrow> pause_state \<Rightarrow> (pause_row option \<times> bool) \<times> pause_state" where
  "resume_commit account_id st =
     (case get_account account_id (pause_rows st) of
        None \<Rightarrow> ((None, False), st)
      | Some account \<Rightarrow>
          if \<not> pa_trading_paused account then ((Some account, False), st)
          else
            (let account' = account\<lparr>pa_trading_paused := False, pa_paused_at := None, pa_paused_by := None\<rparr>
             in ((Some account', True), st\<lparr>pause_rows := put_account account' (pause_rows st)\<rparr>)))"

definition pause_account :: "datetime \<Rightarrow> string \<Rightarrow> int \<Rightarrow> pause_state \<Rightarrow> (pause_row option \<times> bool) \<times> pause_state" where
  "pause_account now paused_by account_id st =
     (case pause_commit now paused_by account_id st of
        (res, st1) \<Rightarrow> (res, if fst res = None then st1 else pause_account_cache account_id st1))"

definition resume_account :: "int \<Rightarrow> pause_state \<Rightarrow> (pause_row option \<times> bool) \<times> pause_state" where
  "resume_account account_id st =
     (case resume_commit account_id st of
        (res, st1) \<Rightarrow> (res, if fst res = None then st1 else resume_account_cache account_id st1))"

section \<open>The rows as a set\<close>

definition ids_distinct :: "pause_state \<Rightarrow> bool" where
  "ids_distinct st \<longleftrightarrow> distinct (map pa_id (pause_rows st))"

definition paused_in_db :: "pause_state \<Rightarrow> int set" where
  "paused_in_db st = {a. \<exists>r. get_account a (pause_rows st) = Some r \<and> pa_trading_paused r}"

definition known_accounts :: "pause_state \<Rightarrow> int set" where
  "known_accounts st = {a. get_account a (pause_rows st) \<noteq> None}"

lemma get_account_id: "get_account a rows = Some r \<Longrightarrow> pa_id r = a"
  by (auto simp: get_account_def find_Some_iff)

lemma put_ids [simp]: "map pa_id (put_account row rows) = map pa_id rows"
  by (simp add: put_account_def)

lemma get_put:
  "get_account a (put_account row rows) =
     (if a = pa_id row \<and> get_account a rows \<noteq> None then Some row else get_account a rows)"
  by (induction rows) (auto simp: get_account_def put_account_def)

lemma get_account_distinct:
  assumes "distinct (map pa_id rows)"
  shows "get_account a rows = Some r \<longleftrightarrow> r \<in> set rows \<and> pa_id r = a"
  using assms by (induction rows) (auto simp: get_account_def rev_image_eqI)

text \<open>Each transaction on the set of paused accounts.\<close>

lemma pause_commit_db:
  assumes "pause_commit now by_whom a st = (res, st')"
  shows "ids_distinct st' = ids_distinct st" "known_accounts st' = known_accounts st"
    "paused_accounts st' = paused_accounts st" "fst res = None \<longleftrightarrow> a \<notin> known_accounts st"
    "paused_in_db st' = paused_in_db st \<union> ({a} \<inter> known_accounts st)"
    "snd res \<longleftrightarrow> a \<in> known_accounts st \<and> a \<notin> paused_in_db st"
  using assms get_account_id [of a "pause_rows st"]
  by (auto simp: pause_commit_def ids_distinct_def known_accounts_def paused_in_db_def get_put Let_def
      split: option.splits if_splits)

lemma resume_commit_db:
  assumes "resume_commit a st = (res, st')"
  shows "ids_distinct st' = ids_distinct st" "known_accounts st' = known_accounts st"
    "paused_accounts st' = paused_accounts st" "fst res = None \<longleftrightarrow> a \<notin> known_accounts st"
    "paused_in_db st' = paused_in_db st - {a}" "snd res \<longleftrightarrow> a \<in> paused_in_db st"
  using assms get_account_id [of a "pause_rows st"]
  by (auto simp: resume_commit_def ids_distinct_def known_accounts_def paused_in_db_def get_put Let_def
      split: option.splits if_splits)

lemma paused_known: "a \<in> paused_in_db st \<Longrightarrow> a \<in> known_accounts st"
  by (auto simp: paused_in_db_def known_accounts_def)

lemma hydrate_db:
  assumes "ids_distinct st"
  shows "hydrate_trading_pause_cache st = (paused_in_db st, st\<lparr>paused_accounts := paused_in_db st\<rparr>)"
proof -
  have "pa_id ` {r \<in> set (pause_rows st). pa_trading_paused r} = paused_in_db st"
    using assms by (auto simp: ids_distinct_def paused_in_db_def get_account_distinct)
  then show ?thesis by (simp add: hydrate_trading_pause_cache_def Let_def)
qed

section \<open>Requests one after the other\<close>

datatype pause_op = Pause datetime string int | Resume int | Hydrate

fun pause_step :: "pause_op \<Rightarrow> pause_state \<Rightarrow> pause_state" where
  "pause_step (Pause now by_whom a) st = snd (pause_account now by_whom a st)"
| "pause_step (Resume a) st = snd (resume_account a st)"
| "pause_step Hydrate st = snd (hydrate_trading_pause_cache st)"

text \<open>The set of paused accounts, as an operator sees it.\<close>

fun pause_spec :: "int set \<Rightarrow> pause_op \<Rightarrow> int set \<Rightarrow> int set" where
  "pause_spec known (Pause now by_whom a) s = s \<union> ({a} \<inter> known)"
| "pause_spec known (Resume a) s = s - {a}"
| "pause_spec known Hydrate s = s"

definition cache_ok :: "pause_state \<Rightarrow> bool" where
  "cache_ok st \<longleftrightarrow> ids_distinct st \<and> paused_accounts st = paused_in_db st"

lemma pause_step_refines:
  assumes "cache_ok st"
  shows "cache_ok (pause_step x st)" "known_accounts (pause_step x st) = known_accounts st"
    "paused_accounts (pause_step x st) = pause_spec (known_accounts st) x (paused_accounts st)"
proof (atomize (full), cases x)
  case (Pause now by_whom a)
  obtain res st' where c: "pause_commit now by_whom a st = (res, st')" by (cases "pause_commit now by_whom a st")
  show "cache_ok (pause_step x st) \<and> known_accounts (pause_step x st) = known_accounts st \<and>
    paused_accounts (pause_step x st) = pause_spec (known_accounts st) x (paused_accounts st)"
    using assms pause_commit_db [OF c]
    by (auto simp: Pause pause_account_def c cache_ok_def pause_account_cache_def ids_distinct_def
        paused_in_db_def known_accounts_def)
next
  case (Resume a)
  obtain res st' where c: "resume_commit a st = (res, st')" by (cases "resume_commit a st")
  show "cache_ok (pause_step x st) \<and> known_accounts (pause_step x st) = known_accounts st \<and>
    paused_accounts (pause_step x st) = pause_spec (known_accounts st) x (paused_accounts st)"
    using assms resume_commit_db [OF c] paused_known [of a st]
    by (auto simp: Resume resume_account_def c cache_ok_def resume_account_cache_def ids_distinct_def
        paused_in_db_def known_accounts_def)
next
  case Hydrate
  then show "cache_ok (pause_step x st) \<and> known_accounts (pause_step x st) = known_accounts st \<and>
    paused_accounts (pause_step x st) = pause_spec (known_accounts st) x (paused_accounts st)"
    using assms by (auto simp: cache_ok_def hydrate_db ids_distinct_def paused_in_db_def known_accounts_def)
qed

interpretation pause_gate: armed_gate pause_step cache_ok paused_in_db paused_accounts "\<lambda>x a. x = Resume a"
proof unfold_locales
  fix st x a
  assume ok: "cache_ok st"
  note r = pause_step_refines [OF ok, of x]
  show "cache_ok (pause_step x st)" by (rule r)
  assume a: "a \<in> paused_in_db st" and x: "\<not> x = Resume a"
  have "a \<in> pause_spec (known_accounts st) x (paused_accounts st)"
    using a x ok by (cases x) (auto simp: cache_ok_def)
  with r show "a \<in> paused_accounts (pause_step x st)" "a \<in> paused_in_db (pause_step x st)"
    by (auto simp: cache_ok_def)
qed

lemmas paused_until_resumed = pause_gate.gate_shut_throughout

text \<open>
  C39. Requests that do not overlap keep the cache of the gates equal to the rows of the database:
  after any sequence of pauses, resumes and hydrations the account is paused for the gates exactly when
  its row is, and when the operators' requests on the known accounts say so.
\<close>

theorem pause_cache_follows_db:
  assumes "cache_ok st"
  shows "(is_account_trading_paused a (fold pause_step ops st) \<longleftrightarrow>
            snd (get_pause_status a (fold pause_step ops st))) \<and>
         (is_account_trading_paused a (fold pause_step ops st) \<longleftrightarrow>
            a \<in> fold (pause_spec (known_accounts st)) ops (paused_accounts st))"
proof -
  have r: "cache_ok (fold pause_step ops st) \<and>
      paused_accounts (fold pause_step ops st) = fold (pause_spec (known_accounts st)) ops (paused_accounts st)"
    using assms
  proof (induction ops arbitrary: st)
    case (Cons x ops)
    then show ?case using Cons.IH [of "pause_step x st"] pause_step_refines [OF Cons.prems, of x] by simp
  qed simp
  then show ?thesis
    by (auto simp: is_account_trading_paused_def cache_ok_def get_pause_status_def paused_in_db_def split: option.splits)
qed

definition sample_pause :: pause_state where
  "sample_pause = \<lparr>pause_rows = [\<lparr>pa_id = 7, pa_trading_paused = False, pa_paused_at = None, pa_paused_by = None\<rparr>],
     paused_accounts = {}\<rparr>"

lemma sample_cache_ok: "cache_ok sample_pause"
  by (simp add: cache_ok_def sample_pause_def ids_distinct_def paused_in_db_def get_account_def)

theorem pause_cache_follows_db_witness:
  "is_account_trading_paused 7 (fold pause_step [Pause 5 ''operator'' 7, Pause 6 ''operator'' 8] sample_pause) \<and>
   snd (get_pause_status 7 (fold pause_step [Pause 5 ''operator'' 7, Pause 6 ''operator'' 8] sample_pause))"
proof -
  have "7 \<in> known_accounts sample_pause"
    by (simp add: known_accounts_def sample_pause_def get_account_def)
  with pause_cache_follows_db [OF sample_cache_ok, of 7 "[Pause 5 ''operator'' 7, Pause 6 ''operator'' 8]"]
  show ?thesis by auto
qed

section \<open>Overlapping requests\<close>

text \<open>A pause whose cache write comes after a whole resume: the row is active, the cache paused. The other
  order leaves a paused row that the gates do not see.\<close>

lemma pause_race:
  "let st1 = snd (pause_commit 5 ''operator'' 7 sample_pause);
       st2 = snd (resume_account 7 st1);
       st3 = pause_account_cache 7 st2
   in is_account_trading_paused 7 st3 \<and> \<not> snd (get_pause_status 7 st3)"
  "let st0 = snd (pause_account 4 ''operator'' 7 sample_pause);
       st1 = snd (resume_commit 7 st0);
       st2 = snd (pause_account 5 ''operator'' 7 st1);
       st3 = resume_account_cache 7 st2
   in \<not> is_account_trading_paused 7 st3 \<and> snd (get_pause_status 7 st3)"
  by code_simp+

end
