(* ===== verification/Manual_Ledger.thy ===== *)
theory Manual_Ledger
  imports Prelude
begin

text \<open>
  The tables of manual trading, \<open>db/models/manual_order.py\<close>, and the operations of
  \<open>db/repositories/manual_repository.py\<close>: orders with a unique idempotency key per account, executions
  that are inserted once per broker execution id, positions that fold fills into a quantity, an average
  cost and a realised result, and the halt flag. A violated unique constraint is \<open>None\<close>.
\<close>

section \<open>Tables\<close>

datatype manual_order_status =
  MO_PENDING_SUBMIT | MO_SUBMITTED | MO_PARTIALLY_FILLED | MO_FILLED | MO_CANCELLED | MO_REJECTED | MO_ERROR

datatype manual_position_status = MP_OPEN | MP_CLOSED | MP_CLOSING | MP_FLATTENED_PENDING_PRICE | MP_PENDING_PRICE

record manual_order =
  mo_id :: nat
  mo_account_id :: int
  mo_ibkr_account :: string
  mo_idempotency_key :: string
  mo_internal_order_id :: string
  mo_trade_id :: string
  mo_broker_order_id :: "string option"
  mo_perm_id :: "int option"
  mo_con_id :: int
  mo_symbol :: string
  mo_sec_type :: string
  mo_exchange :: string
  mo_currency :: string
  mo_side :: string
  mo_quantity :: decimal
  mo_order_type :: string
  mo_limit_price :: "decimal option"
  mo_tif :: string
  mo_status :: manual_order_status
  mo_source :: string
  mo_reject_reason :: "string option"
  mo_submitted_at :: "datetime option"
  mo_completed_at :: "datetime option"

record manual_execution =
  me_order_id :: nat
  me_exec_id :: string
  me_broker_order_id :: "string option"
  me_quantity :: decimal
  me_price :: decimal
  me_commission :: "decimal option"
  me_commission_currency :: "string option"
  me_executed_at :: datetime

record manual_position =
  mn_id :: nat
  mn_account_id :: int
  mn_trade_id :: string
  mn_symbol :: string
  mn_con_id :: int
  mn_sec_type :: string
  mn_currency :: string
  mn_signed_qty :: decimal
  mn_avg_cost :: decimal
  mn_realized_pnl :: decimal
  mn_status :: manual_position_status
  mn_opened_at :: datetime
  mn_closed_at :: "datetime option"

record manual_halt =
  mh_halted :: bool
  mh_halted_by :: "string option"
  mh_halted_at :: "datetime option"
  mh_reason :: "string option"

record manual_db =
  manual_orders :: "manual_order list"
  manual_executions :: "manual_execution list"
  manual_positions :: "manual_position list"
  manual_halts :: "int \<rightharpoonup> manual_halt"

section \<open>Orders\<close>

text \<open>The arguments of \<open>create_order\<close> are the fields of a row; \<open>id\<close> and \<open>source\<close> are set here.\<close>

definition create_order :: "manual_order \<Rightarrow> manual_db \<Rightarrow> (manual_order \<times> manual_db) option" where
  "create_order draft db =
     (let row = draft\<lparr>mo_id := length (manual_orders db) + 1, mo_ibkr_account := py_upper (py_strip (mo_ibkr_account draft)),
            mo_symbol := py_upper (py_strip (mo_symbol draft)), mo_side := py_upper (py_strip (mo_side draft)),
            mo_order_type := py_upper (py_strip (mo_order_type draft)), mo_sec_type := py_upper (py_strip (mo_sec_type draft)),
            mo_exchange := py_upper (py_strip (mo_exchange draft)), mo_currency := py_upper (py_strip (mo_currency draft)),
            mo_tif := py_upper (py_strip (mo_tif draft)), mo_source := ''manual''\<rparr>
      in if list_ex (\<lambda>x. mo_account_id x = mo_account_id draft \<and> mo_idempotency_key x = mo_idempotency_key draft \<or>
                         mo_internal_order_id x = mo_internal_order_id draft) (manual_orders db)
         then None
         else Some (row, db\<lparr>manual_orders := manual_orders db @ [row]\<rparr>))"

definition order_by_id :: "nat \<Rightarrow> manual_db \<Rightarrow> manual_order option" where
  "order_by_id order_id db = find (\<lambda>x. mo_id x = order_id) (manual_orders db)"

definition order_by_internal_id :: "string \<Rightarrow> manual_db \<Rightarrow> manual_order option" where
  "order_by_internal_id internal_order_id db =
     find (\<lambda>x. mo_internal_order_id x = internal_order_id) (manual_orders db)"

definition order_by_key :: "int \<Rightarrow> string \<Rightarrow> manual_db \<Rightarrow> manual_order option" where
  "order_by_key account_id key db =
     find (\<lambda>x. mo_account_id x = account_id \<and> mo_idempotency_key x = key) (manual_orders db)"

text \<open>Newest first, of one account when it is given.\<close>

definition in_account :: "int option \<Rightarrow> manual_order \<Rightarrow> bool" where
  "in_account account_id x \<longleftrightarrow> (case account_id of None \<Rightarrow> True | Some a \<Rightarrow> mo_account_id x = a)"

definition order_by_broker_id :: "int option \<Rightarrow> string \<Rightarrow> manual_db \<Rightarrow> manual_order option" where
  "order_by_broker_id account_id broker_order_id db =
     find (\<lambda>x. mo_broker_order_id x = Some broker_order_id \<and> in_account account_id x) (rev (manual_orders db))"

definition order_by_perm_id :: "int option \<Rightarrow> int \<Rightarrow> manual_db \<Rightarrow> manual_order option" where
  "order_by_perm_id account_id perm_id db =
     find (\<lambda>x. mo_perm_id x = Some perm_id \<and> in_account account_id x) (rev (manual_orders db))"

definition unresolved_orders :: "manual_db \<Rightarrow> manual_order list" where
  "unresolved_orders db =
     filter (\<lambda>x. mo_status x \<in> {MO_PENDING_SUBMIT, MO_SUBMITTED, MO_PARTIALLY_FILLED}) (manual_orders db)"

definition or_new :: "'a option \<Rightarrow> 'a option \<Rightarrow> 'a option" where
  "or_new new old = (case new of None \<Rightarrow> old | Some v \<Rightarrow> Some v)"

definition update_order :: "nat \<Rightarrow> (manual_order \<Rightarrow> manual_order) \<Rightarrow> manual_db \<Rightarrow> manual_db" where
  "update_order order_id f db =
     db\<lparr>manual_orders := map (\<lambda>x. if mo_id x = order_id then f x else x) (manual_orders db)\<rparr>"

definition update_order_status ::
  "nat \<Rightarrow> manual_order_status \<Rightarrow> string option \<Rightarrow> int option \<Rightarrow> datetime option \<Rightarrow> datetime option \<Rightarrow> string option \<Rightarrow>
   manual_db \<Rightarrow> manual_db" where
  "update_order_status order_id status broker_order_id perm_id submitted_at completed_at reject_reason =
     update_order order_id (\<lambda>x. x\<lparr>mo_status := status,
        mo_broker_order_id := or_new broker_order_id (mo_broker_order_id x),
        mo_perm_id := or_new perm_id (mo_perm_id x),
        mo_submitted_at := or_new submitted_at (mo_submitted_at x),
        mo_completed_at := or_new completed_at (mo_completed_at x),
        mo_reject_reason := or_new reject_reason (mo_reject_reason x)\<rparr>)"

section \<open>Executions\<close>

definition execution_by_id :: "string \<Rightarrow> manual_db \<Rightarrow> manual_execution option" where
  "execution_by_id exec_id db = find (\<lambda>e. me_exec_id e = exec_id) (manual_executions db)"

definition record_execution_with_dedup :: "manual_execution \<Rightarrow> manual_db \<Rightarrow> (manual_execution \<times> bool) \<times> manual_db" where
  "record_execution_with_dedup e db =
     (case execution_by_id (me_exec_id e) db of
        Some existing \<Rightarrow> ((existing, False), db)
      | None \<Rightarrow> ((e, True), db\<lparr>manual_executions := manual_executions db @ [e]\<rparr>))"

definition update_commission ::
  "string \<Rightarrow> decimal \<Rightarrow> string option \<Rightarrow> manual_db \<Rightarrow> (manual_execution option \<times> bool) \<times> manual_db" where
  "update_commission exec_id commission currency db =
     (case execution_by_id exec_id db of
        None \<Rightarrow> ((None, False), db)
      | Some row \<Rightarrow>
          if me_commission row \<noteq> None \<and> me_commission row \<noteq> Some 0 then ((Some row, False), db)
          else
            (let upd = (\<lambda>e. e\<lparr>me_commission := Some commission,
                            me_commission_currency := or_new currency (me_commission_currency e)\<rparr>)
             in ((Some (upd row), True),
                 db\<lparr>manual_executions :=
                      map (\<lambda>e. if me_exec_id e = exec_id then upd e else e) (manual_executions db)\<rparr>)))"

definition executions_of_order :: "nat \<Rightarrow> manual_db \<Rightarrow> manual_execution list" where
  "executions_of_order order_id db = filter (\<lambda>e. me_order_id e = order_id) (manual_executions db)"

section \<open>Positions\<close>

definition manual_position_by_trade :: "int \<Rightarrow> string \<Rightarrow> manual_db \<Rightarrow> manual_position option" where
  "manual_position_by_trade account_id trade_id db =
     find (\<lambda>p. mn_account_id p = account_id \<and> mn_trade_id p = trade_id) (manual_positions db)"

definition put_manual_position :: "manual_position \<Rightarrow> manual_db \<Rightarrow> manual_db" where
  "put_manual_position pos db =
     db\<lparr>manual_positions :=
          map (\<lambda>p. if mn_account_id p = mn_account_id pos \<and> mn_trade_id p = mn_trade_id pos then pos else p)
            (manual_positions db)\<rparr>"

definition open_manual_positions :: "int \<Rightarrow> manual_db \<Rightarrow> manual_position list" where
  "open_manual_positions account_id db =
     rev (sort_key mn_opened_at (filter (\<lambda>p. mn_account_id p = account_id \<and> mn_status p = MP_OPEN) (manual_positions db)))"

record manual_fill =
  mf_account_id :: int
  mf_trade_id :: string
  mf_symbol :: string
  mf_con_id :: int
  mf_sec_type :: string
  mf_currency :: string
  mf_side :: string
  mf_quantity :: decimal
  mf_price :: decimal
  mf_commission :: decimal

text \<open>The signed quantity of a fill.\<close>

definition fill_delta :: "manual_fill \<Rightarrow> decimal result" where
  "fill_delta f =
     (let norm_side = py_upper (py_strip (mf_side f)) in
      if norm_side = ''BOT'' \<or> norm_side = ''BUY'' then Inr (mf_quantity f)
      else if norm_side = ''SLD'' \<or> norm_side = ''SELL'' then Inr (- mf_quantity f)
      else Inl (ValueError ''Invalid execution side''))"

definition new_manual_position :: "datetime \<Rightarrow> manual_fill \<Rightarrow> decimal \<Rightarrow> nat \<Rightarrow> manual_position" where
  "new_manual_position now f d row_id =
     \<lparr>mn_id = row_id, mn_account_id = mf_account_id f, mn_trade_id = mf_trade_id f,
      mn_symbol = py_upper (py_strip (mf_symbol f)), mn_con_id = mf_con_id f,
      mn_sec_type = py_upper (py_strip (mf_sec_type f)), mn_currency = py_upper (py_strip (mf_currency f)),
      mn_signed_qty = d, mn_avg_cost = mf_price f, mn_realized_pnl = - mf_commission f,
      mn_status = MP_OPEN, mn_opened_at = now, mn_closed_at = None\<rparr>"

text \<open>Reducing, closing or flipping a position, for a fill against its direction.\<close>

definition reduce_position :: "datetime \<Rightarrow> manual_fill \<Rightarrow> decimal \<Rightarrow> manual_position \<Rightarrow> manual_position \<times> decimal" where
  "reduce_position now f d pos =
     (let current = mn_signed_qty pos; abs_curr = \<bar>current\<bar>; q = mf_quantity f; p = mf_price f;
          close_qty = min abs_curr q;
          gross = (if current > 0 then close_qty * (p - mn_avg_cost pos) else close_qty * (mn_avg_cost pos - p));
          delta = gross - mf_commission f;
          pos1 = pos\<lparr>mn_realized_pnl := mn_realized_pnl pos + delta\<rparr>
      in (if abs_curr > q then pos1\<lparr>mn_signed_qty := current + d, mn_status := MP_OPEN\<rparr>
          else if abs_curr = q then pos1\<lparr>mn_signed_qty := 0, mn_status := MP_CLOSED, mn_closed_at := Some now\<rparr>
          else pos1\<lparr>mn_signed_qty := (if d > 0 then 1 else - 1) * (q - abs_curr), mn_avg_cost := p,
                    mn_status := MP_OPEN, mn_closed_at := None\<rparr>, delta))"

definition fill_position ::
  "datetime \<Rightarrow> manual_fill \<Rightarrow> decimal \<Rightarrow> manual_position \<Rightarrow> (manual_position \<times> decimal) result" where
  "fill_position now f d pos =
     (let current = mn_signed_qty pos; q = mf_quantity f; p = mf_price f; comm = mf_commission f in
      if mn_status pos = MP_CLOSED \<and> current = 0
      then Inl (ValueError ''trade_id was previously CLOSED and must not be reused'')
      else if current = 0
      then Inr (pos\<lparr>mn_signed_qty := d, mn_avg_cost := p, mn_realized_pnl := mn_realized_pnl pos - comm,
                    mn_status := MP_OPEN, mn_closed_at := None\<rparr>, - comm)
      else if current > 0 \<and> d > 0 \<or> current < 0 \<and> d < 0
      then Inr (pos\<lparr>mn_signed_qty := current + d,
                    mn_avg_cost := (\<bar>current\<bar> * mn_avg_cost pos + q * p) / \<bar>current + d\<bar>,
                    mn_realized_pnl := mn_realized_pnl pos - comm, mn_status := MP_OPEN\<rparr>, - comm)
      else Inr (reduce_position now f d pos))"

definition apply_execution :: "datetime \<Rightarrow> manual_fill \<Rightarrow> manual_db \<Rightarrow> ((manual_position \<times> decimal) \<times> manual_db) result" where
  "apply_execution now f db =
     res_bind (fill_delta f) (\<lambda>d.
       case manual_position_by_trade (mf_account_id f) (mf_trade_id f) db of
         None \<Rightarrow>
           (let pos = new_manual_position now f d (length (manual_positions db) + 1) in
            Inr ((pos, - mf_commission f), db\<lparr>manual_positions := manual_positions db @ [pos]\<rparr>))
       | Some pos \<Rightarrow>
           res_bind (fill_position now f d pos) (\<lambda>(pos', delta). Inr ((pos', delta), put_manual_position pos' db)))"

section \<open>Halts\<close>

definition set_halt :: "datetime \<Rightarrow> int \<Rightarrow> bool \<Rightarrow> string option \<Rightarrow> string option \<Rightarrow> manual_db \<Rightarrow> manual_db" where
  "set_halt now account_id halted halted_by reason db =
     db\<lparr>manual_halts := (manual_halts db)(account_id \<mapsto>
          \<lparr>mh_halted = halted, mh_halted_by = halted_by, mh_halted_at = (if halted then Some now else None),
           mh_reason = reason\<rparr>)\<rparr>"

definition is_halted :: "int \<Rightarrow> manual_db \<Rightarrow> bool" where
  "is_halted account_id db \<longleftrightarrow> (case manual_halts db account_id of None \<Rightarrow> False | Some h \<Rightarrow> mh_halted h)"

section \<open>What a position has booked\<close>

text \<open>A fill as it is booked: signed quantity, price and commission.\<close>

type_synonym booked = "decimal \<times> decimal \<times> decimal"

definition booked_qty :: "booked list \<Rightarrow> decimal" where
  "booked_qty fs = sum_list (map fst fs)"

definition booked_cash :: "booked list \<Rightarrow> decimal" where
  "booked_cash fs = sum_list (map (\<lambda>(d, p, c). - d * p - c) fs)"

text \<open>The quantity is the sum of the fills; what was paid and received is the realised result less the
  cost of what is held.\<close>

definition books_balance :: "booked list \<Rightarrow> manual_position \<Rightarrow> bool" where
  "books_balance fs pos \<longleftrightarrow>
     mn_signed_qty pos = booked_qty fs \<and>
     mn_realized_pnl pos = booked_cash fs + mn_signed_qty pos * mn_avg_cost pos"

lemma booked_snoc [simp]:
  "booked_qty (fs @ [(d, p, c)]) = booked_qty fs + d" "booked_cash (fs @ [(d, p, c)]) = booked_cash fs - d * p - c"
  by (simp_all add: booked_qty_def booked_cash_def)

lemma fill_delta_abs: "fill_delta f = Inr d \<Longrightarrow> d = mf_quantity f \<or> d = - mf_quantity f"
  by (auto simp: fill_delta_def Let_def split: if_splits)

lemma average_cost:
  assumes "(0::rat) < c \<and> 0 < d \<or> c < 0 \<and> d < 0"
  shows "(c + d) * ((\<bar>c\<bar> * a + \<bar>d\<bar> * p) / \<bar>c + d\<bar>) = c * a + d * p"
  using assms
proof
  assume "0 < c \<and> 0 < d"
  then have "c + d \<noteq> 0" "\<bar>c\<bar> = c" "\<bar>d\<bar> = d" "\<bar>c + d\<bar> = c + d" by auto
  then show ?thesis by simp
next
  assume "c < 0 \<and> d < 0"
  then have "c + d \<noteq> 0" "\<bar>c\<bar> = - c" "\<bar>d\<bar> = - d" "\<bar>c + d\<bar> = - (c + d)" by auto
  then show ?thesis by (simp add: field_simps)
qed

lemma reduce_balance:
  assumes "books_balance fs pos" "\<bar>d\<bar> = mf_quantity f" "mn_signed_qty pos \<noteq> 0"
    "\<not> (mn_signed_qty pos > 0 \<and> d > 0 \<or> mn_signed_qty pos < 0 \<and> d < 0)"
  shows "books_balance (fs @ [(d, mf_price f, mf_commission f)]) (fst (reduce_position now f d pos))"
proof -
  let ?c = "mn_signed_qty pos"
  consider "?c > 0" "d \<le> 0" | "?c < 0" "0 \<le> d" using assms(3,4) by linarith
  then show ?thesis
  proof cases
    case 1
    then have q: "mf_quantity f = - d" using assms(2) by simp
    consider "?c > - d" | "d = - ?c" | "?c < - d" by linarith
    then show ?thesis using 1 assms(1)
      by cases (auto simp: reduce_position_def books_balance_def Let_def q min_def algebra_simps)
  next
    case 2
    then have q: "mf_quantity f = d" using assms(2) by simp
    consider "- ?c > d" | "d = - ?c" | "- ?c < d" by linarith
    then show ?thesis using 2 assms(1)
      by cases (auto simp: reduce_position_def books_balance_def Let_def q min_def algebra_simps)
  qed
qed

lemma fill_balance:
  assumes "books_balance fs pos" "\<bar>d\<bar> = mf_quantity f" "fill_position now f d pos = Inr (pos', delta)"
  shows "books_balance (fs @ [(d, mf_price f, mf_commission f)]) pos'"
proof -
  let ?c = "mn_signed_qty pos"
  consider "?c = 0" | "?c > 0 \<and> d > 0 \<or> ?c < 0 \<and> d < 0"
    | "?c \<noteq> 0" "\<not> (?c > 0 \<and> d > 0 \<or> ?c < 0 \<and> d < 0)" by blast
  then show ?thesis
  proof cases
    case 1
    then show ?thesis using assms(1,3) by (auto simp: fill_position_def books_balance_def Let_def split: if_splits)
  next
    case 2
    then have "?c \<noteq> 0" by auto
    with 2 assms(3) have p: "mn_signed_qty pos' = ?c + d"
      "mn_avg_cost pos' = (\<bar>?c\<bar> * mn_avg_cost pos + \<bar>d\<bar> * mf_price f) / \<bar>?c + d\<bar>"
      "mn_realized_pnl pos' = mn_realized_pnl pos - mf_commission f"
      by (auto simp: fill_position_def Let_def assms(2))
    show ?thesis using assms(1) average_cost [OF 2, of "mn_avg_cost pos" "mf_price f"]
      by (simp add: books_balance_def p)
  next
    case 3
    then have "pos' = fst (reduce_position now f d pos)"
      using assms(3) by (auto simp: fill_position_def Let_def)
    with reduce_balance [OF assms(1,2) 3, of now] show ?thesis by simp
  qed
qed

text \<open>The sign of the result of a fill, and when a position is closed.\<close>

lemma fill_status:
  assumes "fill_position now f d pos = Inr (pos', delta)" "\<bar>d\<bar> = mf_quantity f"
  shows "mn_status pos' = MP_CLOSED \<longrightarrow> mn_signed_qty pos' = 0"
  using assms by (auto simp: fill_position_def reduce_position_def Let_def split: if_splits)

lemma fill_keys:
  assumes "fill_position now f d pos = Inr (pos', delta)"
  shows "mn_account_id pos' = mn_account_id pos" "mn_trade_id pos' = mn_trade_id pos"
    "delta = mn_realized_pnl pos' - mn_realized_pnl pos"
  using assms by (auto simp: fill_position_def reduce_position_def Let_def split: if_splits)

section \<open>Any sequence of fills\<close>

fun run_fills :: "(datetime \<times> manual_fill) list \<Rightarrow> manual_db \<Rightarrow> manual_db" where
  "run_fills [] db = db"
| "run_fills ((now, f) # fs) db =
     run_fills fs (case apply_execution now f db of Inl _ \<Rightarrow> db | Inr (_, db') \<Rightarrow> db')"

text \<open>The fills of a trade that were not refused.\<close>

definition booked_of :: "int \<Rightarrow> string \<Rightarrow> manual_fill \<Rightarrow> booked list" where
  "booked_of a t f =
     (if mf_account_id f = a \<and> mf_trade_id f = t
      then (case fill_delta f of Inl _ \<Rightarrow> [] | Inr d \<Rightarrow> [(d, mf_price f, mf_commission f)]) else [])"

fun accepted_fills :: "int \<Rightarrow> string \<Rightarrow> (datetime \<times> manual_fill) list \<Rightarrow> manual_db \<Rightarrow> booked list" where
  "accepted_fills a t [] db = []"
| "accepted_fills a t ((now, f) # fs) db =
     (case apply_execution now f db of
        Inl _ \<Rightarrow> accepted_fills a t fs db
      | Inr (_, db') \<Rightarrow> booked_of a t f @ accepted_fills a t fs db')"

definition trade_key_of :: "manual_position \<Rightarrow> int \<times> string" where
  "trade_key_of pos = (mn_account_id pos, mn_trade_id pos)"

definition ledger_balances :: "(int \<Rightarrow> string \<Rightarrow> booked list) \<Rightarrow> manual_db \<Rightarrow> bool" where
  "ledger_balances H db \<longleftrightarrow>
     distinct (map trade_key_of (manual_positions db)) \<and>
     (\<forall>pos \<in> set (manual_positions db). books_balance (H (mn_account_id pos) (mn_trade_id pos)) pos \<and>
        (mn_status pos = MP_CLOSED \<longrightarrow> mn_signed_qty pos = 0)) \<and>
     (\<forall>a t. manual_position_by_trade a t db = None \<longrightarrow> H a t = [])"

lemma by_trade_Some:
  "manual_position_by_trade a t db = Some pos \<Longrightarrow> pos \<in> set (manual_positions db) \<and> trade_key_of pos = (a, t)"
  by (auto simp: manual_position_by_trade_def find_Some_iff trade_key_of_def)

lemma by_trade_None:
  "manual_position_by_trade a t db = None \<longleftrightarrow> (a, t) \<notin> trade_key_of ` set (manual_positions db)"
  by (auto simp: manual_position_by_trade_def find_None_iff trade_key_of_def)

lemma put_position_keys [simp]:
  "map trade_key_of (manual_positions (put_manual_position pos db)) = map trade_key_of (manual_positions db)"
  by (auto simp: put_manual_position_def trade_key_of_def)

lemma put_position_set:
  "q \<in> set (manual_positions (put_manual_position pos db)) \<Longrightarrow>
     q = pos \<or> q \<in> set (manual_positions db) \<and> trade_key_of q \<noteq> trade_key_of pos"
  by (auto simp: put_manual_position_def trade_key_of_def split: if_splits)

text \<open>One accepted fill.\<close>

lemma apply_balances:
  assumes "ledger_balances H db" "0 \<le> mf_quantity f" "apply_execution now f db = Inr (x, db')"
  shows "ledger_balances (\<lambda>a t. H a t @ booked_of a t f) db'"
proof -
  let ?a = "mf_account_id f" and ?t = "mf_trade_id f"
  obtain d where d: "fill_delta f = Inr d" using assms(3) by (auto simp: apply_execution_def res_bind_Inr_iff)
  have q: "\<bar>d\<bar> = mf_quantity f" using fill_delta_abs [OF d] assms(2) by auto
  have other: "booked_of a t f = []" if "(a, t) \<noteq> (?a, ?t)" for a t using that by (auto simp: booked_of_def)
  have own: "booked_of ?a ?t f = [(d, mf_price f, mf_commission f)]" by (simp add: booked_of_def d)
  show ?thesis
  proof (cases "manual_position_by_trade ?a ?t db")
    case None
    let ?pos = "new_manual_position now f d (length (manual_positions db) + 1)"
    have db': "db' = db\<lparr>manual_positions := manual_positions db @ [?pos]\<rparr>"
      using assms(3) None by (auto simp: apply_execution_def d res_bind_Inr_iff Let_def)
    have k: "trade_key_of ?pos = (?a, ?t)" by (simp add: new_manual_position_def trade_key_of_def)
    have "H ?a ?t = []" using assms(1) None by (simp add: ledger_balances_def)
    then have new: "books_balance (H ?a ?t @ booked_of ?a ?t f) ?pos"
      by (simp add: own books_balance_def new_manual_position_def booked_qty_def booked_cash_def)
    have old: "booked_of (mn_account_id r) (mn_trade_id r) f = []" if "r \<in> set (manual_positions db)" for r
    proof (rule other)
      have "trade_key_of r \<noteq> (?a, ?t)" using that None unfolding by_trade_None by (metis imageI)
      then show "(mn_account_id r, mn_trade_id r) \<noteq> (?a, ?t)" by (simp add: trade_key_of_def)
    qed
    have rest: "H a t @ booked_of a t f = []" if "manual_position_by_trade a t db' = None" for a t
      using that assms(1) k unfolding by_trade_None
      by (auto simp: db' ledger_balances_def by_trade_None intro!: other)
    show ?thesis
      using assms(1) new old rest k None
      by (auto simp: ledger_balances_def db' by_trade_None new_manual_position_def)
  next
    case (Some pos)
    obtain pos' delta where f: "fill_position now f d pos = Inr (pos', delta)" and db': "db' = put_manual_position pos' db"
      using assms(3) Some by (auto simp: apply_execution_def d res_bind_Inr_iff)
    note p = by_trade_Some [OF Some]
    have k: "mn_account_id pos' = ?a" "mn_trade_id pos' = ?t" using fill_keys [OF f] p by (auto simp: trade_key_of_def)
    have "books_balance (H ?a ?t) pos" using assms(1) p by (auto simp: ledger_balances_def trade_key_of_def)
    then have b: "books_balance (H ?a ?t @ booked_of ?a ?t f) pos'" unfolding own by (rule fill_balance [OF _ q f])
    have "trade_key_of ` set (manual_positions db') = trade_key_of ` set (manual_positions db)"
      unfolding db' by (metis list.set_map put_position_keys)
    then have none: "manual_position_by_trade a t db' = None \<longleftrightarrow> manual_position_by_trade a t db = None" for a t
      by (simp add: by_trade_None)
    have each: "books_balance (H (mn_account_id r) (mn_trade_id r) @ booked_of (mn_account_id r) (mn_trade_id r) f) r \<and>
        (mn_status r = MP_CLOSED \<longrightarrow> mn_signed_qty r = 0)" if r: "r \<in> set (manual_positions db')" for r
    proof (cases "r = pos'")
      case True
      then show ?thesis using b k fill_status [OF f q] by simp
    next
      case False
      with put_position_set [OF r [unfolded db']] have "r \<in> set (manual_positions db)" "trade_key_of r \<noteq> (?a, ?t)"
        using k by (auto simp: trade_key_of_def)
      then show ?thesis using assms(1) other [of "mn_account_id r" "mn_trade_id r"]
        by (auto simp: ledger_balances_def trade_key_of_def)
    qed
    have empty: "H a t @ booked_of a t f = []" if "manual_position_by_trade a t db' = None" for a t
    proof -
      have n: "manual_position_by_trade a t db = None" using that none by simp
      with Some have "(a, t) \<noteq> (?a, ?t)" by auto
      then show ?thesis using assms(1) n other by (simp add: ledger_balances_def)
    qed
    show ?thesis unfolding ledger_balances_def
      using each empty assms(1) by (simp add: ledger_balances_def db')
  qed
qed

lemma run_balances:
  assumes "ledger_balances H db" "\<forall>(now, f) \<in> set fs. 0 \<le> mf_quantity f"
  shows "ledger_balances (\<lambda>a t. H a t @ accepted_fills a t fs db) (run_fills fs db)"
  using assms
proof (induction fs arbitrary: H db)
  case (Cons x fs)
  obtain now f where x: "x = (now, f)" by (cases x)
  show ?case
  proof (cases "apply_execution now f db")
    case (Inl e)
    then show ?thesis using Cons.IH [OF Cons.prems(1)] Cons.prems(2) by (simp add: x)
  next
    case (Inr y)
    obtain z db' where y: "y = (z, db')" by (cases y)
    have "ledger_balances (\<lambda>a t. H a t @ booked_of a t f) db'"
      by (rule apply_balances [OF Cons.prems(1) _ Inr [unfolded y]]) (use Cons.prems(2) x in auto)
    then show ?thesis using Cons.IH [of "\<lambda>a t. H a t @ booked_of a t f" db'] Cons.prems(2) by (simp add: x Inr y)
  qed
qed simp

text \<open>
  C4. The manual ledger balances. From an empty ledger, after any sequence of fills with quantities that
  are not negative, opened, added, reduced, closed and flipped in any order, every position holds
  exactly the sum of the signed fills accepted for its trade, and its realised result is the cash those
  fills paid and received, commissions included, plus the cost of what is still held; a closed position
  holds nothing. Fills of one trade never touch another.
\<close>

theorem manual_ledger_balances:
  assumes "manual_positions db = []" "\<forall>(now, f) \<in> set fs. 0 \<le> mf_quantity f"
    "pos \<in> set (manual_positions (run_fills fs db))"
  shows "mn_signed_qty pos = booked_qty (accepted_fills (mn_account_id pos) (mn_trade_id pos) fs db) \<and>
         mn_realized_pnl pos = booked_cash (accepted_fills (mn_account_id pos) (mn_trade_id pos) fs db) +
                               mn_signed_qty pos * mn_avg_cost pos \<and>
         (mn_status pos = MP_CLOSED \<longrightarrow> mn_signed_qty pos = 0)"
proof -
  have "ledger_balances (\<lambda>a t. []) db"
    using assms(1) by (simp add: ledger_balances_def)
  from run_balances [OF this assms(2)] assms(3) show ?thesis
    by (auto simp: ledger_balances_def books_balance_def)
qed

definition sample_manual_fill :: "string \<Rightarrow> decimal \<Rightarrow> decimal \<Rightarrow> manual_fill" where
  "sample_manual_fill sd q p =
     \<lparr>mf_account_id = 7, mf_trade_id = ''TRD_1'', mf_symbol = ''spy'', mf_con_id = 11, mf_sec_type = ''CFD'',
      mf_currency = ''USD'', mf_side = sd, mf_quantity = q, mf_price = p, mf_commission = 1\<rparr>"

definition sample_manual_db :: manual_db where
  "sample_manual_db = \<lparr>manual_orders = [], manual_executions = [], manual_positions = [], manual_halts = Map.empty\<rparr>"

text \<open>Long ten, flipped to short five.\<close>

theorem manual_ledger_balances_witness:
  "\<exists>pos. manual_positions (run_fills [(1, sample_manual_fill ''BOT'' 10 100), (2, sample_manual_fill ''SLD'' 15 110)]
          sample_manual_db) = [pos] \<and>
     mn_signed_qty pos = - 5 \<and> mn_realized_pnl pos = 98"
proof -
  let ?fs = "[(1, sample_manual_fill ''BOT'' 10 100), (2, sample_manual_fill ''SLD'' 15 110)]"
  have l: "length (manual_positions (run_fills ?fs sample_manual_db)) = 1" by code_simp
  have k: "map (\<lambda>p. (mn_account_id p, mn_trade_id p, mn_avg_cost p)) (manual_positions (run_fills ?fs sample_manual_db)) =
      [(7, ''TRD_1'', 110)]" by code_simp
  have a: "accepted_fills 7 ''TRD_1'' ?fs sample_manual_db = [(10, 100, 1), (- 15, 110, 1)]" by code_simp
  from k obtain pos where p: "manual_positions (run_fills ?fs sample_manual_db) = [pos]" "mn_account_id pos = 7"
    "mn_trade_id pos = ''TRD_1''" "mn_avg_cost pos = 110" by auto
  have "mn_signed_qty pos = booked_qty [(10, 100, 1), (- 15, 110, 1)] \<and>
      mn_realized_pnl pos = booked_cash [(10, 100, 1), (- 15, 110, 1)] + mn_signed_qty pos * 110"
    using manual_ledger_balances [of sample_manual_db ?fs pos] p a
    by (simp add: sample_manual_db_def sample_manual_fill_def)
  then show ?thesis using p(1) by (simp add: booked_qty_def booked_cash_def)
qed

end
