(* ===== verification/Manual_Trading.thy ===== *)
theory Manual_Trading
  imports Manual_Ledger
begin

text \<open>
  \<open>services/manual_trading.py\<close>: the gates of a manual order, its durable submission and its cancellation,
  and \<open>services/manual_recovery.py\<close>, the scan at startup.

  What a request reads outside the manual tables is in \<open>manual_env\<close>: the gateway, the account, the kill
  switch, the pause, the rate limiter and the answers of the client. Another request may commit between
  the look at the idempotency key and the insertion; \<open>mv_others\<close> is what it does to the tables. Calls of
  \<open>placeOrder\<close> and \<open>cancelOrder\<close> are recorded beside the tables; audit rows are left out.
\<close>

section \<open>Requests and environment\<close>

record manual_request =
  mr_idempotency_key :: string
  mr_con_id :: int
  mr_symbol :: string
  mr_sec_type :: string
  mr_exchange :: string
  mr_currency :: string
  mr_side :: string
  mr_quantity :: decimal
  mr_order_type :: string
  mr_limit_price :: "decimal option"
  mr_min_tick :: "decimal option"
  mr_tif :: string
  mr_trade_id :: "string option"

record manual_env =
  mv_account_id :: int
  mv_ibkr_account :: string
  mv_account_enabled :: bool
  mv_connected :: "nat \<Rightarrow> bool"
  mv_killed :: bool
  mv_manual_killed :: bool
  mv_armed_op :: bool
  mv_active_manual_op :: bool
  mv_paused_cache :: bool
  mv_paused_row :: bool
  mv_rate_ok :: bool
  mv_allocate :: "int option"
  mv_place_ok :: bool
  mv_internal_id :: string
  mv_new_trade_id :: string
  mv_now :: datetime
  mv_others :: "manual_db \<Rightarrow> manual_db"

section \<open>Gates\<close>

datatype gate_error =
    GatewayDisconnected | AccountDisabled | ManuallyHalted | KillSwitchActive | ManualKillSwitchActive
  | ArmedKillSwitch | ActiveManualKillSwitch | TradingPaused | InvalidSecType | InvalidConId | NoSymbol
  | NoExchange | NoCurrency | StopNotSupported | UnsupportedOrderType | BadQuantity | NoLimitPrice | OffTick

text \<open>\<open>round\<close> of a decimal: to the nearest, ties to even.\<close>

definition py_round :: "decimal \<Rightarrow> int" where
  "py_round x =
     (let f = \<lfloor>x\<rfloor>; r = x - of_int f in
      if r < 1 / 2 then f else if r > 1 / 2 then f + 1 else if even f then f else f + 1)"

definition kill_switch_errors :: "manual_env \<Rightarrow> gate_error list" where
  "kill_switch_errors env =
     (if mv_killed env then [KillSwitchActive]
      else if mv_manual_killed env then [ManualKillSwitchActive]
      else if mv_armed_op env then [ArmedKillSwitch]
      else if mv_active_manual_op env then [ActiveManualKillSwitch] else [])"

definition matched_position :: "manual_request \<Rightarrow> manual_position list \<Rightarrow> manual_position option" where
  "matched_position rq positions =
     find (\<lambda>p. mr_trade_id rq \<notin> {None, Some []} \<and> Some (mn_trade_id p) = mr_trade_id rq \<or>
               mn_symbol p = py_upper (py_strip (mr_symbol rq)) \<and> mn_con_id p = mr_con_id rq) positions"

definition is_reducing :: "manual_request \<Rightarrow> manual_position option \<Rightarrow> bool" where
  "is_reducing rq matched \<longleftrightarrow>
     (case matched of
        None \<Rightarrow> False
      | Some p \<Rightarrow>
          mn_signed_qty p > 0 \<and> mr_side rq = ''SELL'' \<and> mr_quantity rq \<le> mn_signed_qty p \<or>
          mn_signed_qty p < 0 \<and> mr_side rq = ''BUY'' \<and> mr_quantity rq \<le> \<bar>mn_signed_qty p\<bar>)"

definition pause_errors :: "manual_env \<Rightarrow> manual_request \<Rightarrow> manual_db \<Rightarrow> gate_error list" where
  "pause_errors env rq db =
     (if (mv_paused_cache env \<or> mv_paused_row env) \<and>
         \<not> is_reducing rq (matched_position rq (open_manual_positions (mv_account_id env) db))
      then [TradingPaused] else [])"

definition contract_errors :: "manual_request \<Rightarrow> gate_error list" where
  "contract_errors rq =
     (if mr_sec_type rq \<noteq> ''CFD'' then [InvalidSecType] else []) @
     (if mr_con_id rq \<le> 0 then [InvalidConId] else []) @
     (if py_strip (mr_symbol rq) = [] then [NoSymbol] else []) @
     (if py_strip (mr_exchange rq) = [] then [NoExchange] else []) @
     (if py_strip (mr_currency rq) = [] then [NoCurrency] else [])"

definition order_errors :: "manual_request \<Rightarrow> gate_error list" where
  "order_errors rq =
     (let order_type = py_upper (py_strip (mr_order_type rq)) in
      (if order_type = ''STOP'' then [StopNotSupported]
       else if order_type \<notin> {''LIMIT'', ''MARKET''} then [UnsupportedOrderType] else []) @
      (if mr_quantity rq \<le> 0 then [BadQuantity] else []) @
      (if order_type = ''LIMIT''
       then (case mr_limit_price rq of
               None \<Rightarrow> [NoLimitPrice]
             | Some p \<Rightarrow>
                 if p \<le> 0 then [NoLimitPrice]
                 else (case mr_min_tick rq of
                         None \<Rightarrow> []
                       | Some tick \<Rightarrow>
                           if tick > 0 \<and> \<bar>p / tick - of_int (py_round (p / tick))\<bar> > 1 / 100000 then [OffTick] else []))
       else []))"

definition validate_pretrade :: "manual_env \<Rightarrow> manual_request \<Rightarrow> manual_db \<Rightarrow> bool \<times> gate_error list" where
  "validate_pretrade env rq db =
     (let errors =
        (if mv_connected env 0 then [] else [GatewayDisconnected]) @
        (if mv_account_enabled env then [] else [AccountDisabled]) @
        (if is_halted (mv_account_id env) db then [ManuallyHalted] else []) @
        kill_switch_errors env @ pause_errors env rq db @ contract_errors rq @ order_errors rq
      in (errors = [], errors))"

section \<open>Submission\<close>

record manual_state =
  m_db :: manual_db
  m_placed :: "(int \<times> manual_order) list"
  m_cancelled :: "int list"

datatype submit_outcome = Placed manual_order | Replay manual_order | HttpStatus nat | Unhandled

text \<open>A request with a used key is a replay when every parameter is that of the order it made.\<close>

definition same_parameters :: "manual_request \<Rightarrow> manual_order \<Rightarrow> bool" where
  "same_parameters rq x \<longleftrightarrow>
     mo_con_id x = mr_con_id rq \<and> mo_symbol x = py_upper (py_strip (mr_symbol rq)) \<and> mo_side x = mr_side rq \<and>
     mo_quantity x = mr_quantity rq \<and> mo_order_type x = mr_order_type rq \<and> mo_limit_price x = mr_limit_price rq \<and>
     mo_tif x = py_upper (py_strip (mr_tif rq)) \<and> mo_exchange x = py_upper (py_strip (mr_exchange rq)) \<and>
     mo_currency x = py_upper (py_strip (mr_currency rq)) \<and> mo_sec_type x = py_upper (py_strip (mr_sec_type rq)) \<and>
     (let wanted = py_strip (case mr_trade_id rq of None \<Rightarrow> [] | Some t \<Rightarrow> t) in
      wanted = [] \<or> py_strip (mo_trade_id x) = wanted)"

definition replay_or_conflict :: "manual_request \<Rightarrow> manual_order \<Rightarrow> submit_outcome" where
  "replay_or_conflict rq x = (if same_parameters rq x then Replay x else HttpStatus 409)"

definition or_default :: "string \<Rightarrow> string \<Rightarrow> string" where
  "or_default s d = (if s = [] then d else s)"

definition draft_order :: "manual_env \<Rightarrow> manual_request \<Rightarrow> manual_order" where
  "draft_order env rq =
     \<lparr>mo_id = 0, mo_account_id = mv_account_id env, mo_ibkr_account = mv_ibkr_account env,
      mo_idempotency_key = py_strip (mr_idempotency_key rq), mo_internal_order_id = mv_internal_id env,
      mo_trade_id = (case mr_trade_id rq of
                       Some (c # cs) \<Rightarrow> py_strip (c # cs) | _ \<Rightarrow> mv_new_trade_id env),
      mo_broker_order_id = None, mo_perm_id = None, mo_con_id = mr_con_id rq,
      mo_symbol = py_upper (py_strip (mr_symbol rq)), mo_sec_type = ''CFD'',
      mo_exchange = or_default (py_upper (py_strip (mr_exchange rq))) ''SMART'',
      mo_currency = or_default (py_upper (py_strip (mr_currency rq))) ''USD'',
      mo_side = mr_side rq, mo_quantity = mr_quantity rq, mo_order_type = mr_order_type rq,
      mo_limit_price = mr_limit_price rq, mo_tif = or_default (py_upper (py_strip (mr_tif rq))) ''DAY'',
      mo_status = MO_PENDING_SUBMIT, mo_source = ''manual'', mo_reject_reason = None,
      mo_submitted_at = None, mo_completed_at = None\<rparr>"

definition fail_order :: "manual_order \<Rightarrow> string \<Rightarrow> nat \<Rightarrow> manual_state \<Rightarrow> submit_outcome \<times> manual_state" where
  "fail_order x reason code st =
     (HttpStatus code, st\<lparr>m_db := update_order_status (mo_id x) MO_ERROR None None None None (Some reason) (m_db st)\<rparr>)"

text \<open>From the committed \<open>PENDING_SUBMIT\<close> row to the broker.\<close>

definition transmit_order :: "manual_env \<Rightarrow> manual_order \<Rightarrow> manual_state \<Rightarrow> submit_outcome \<times> manual_state" where
  "transmit_order env x st =
     (if \<not> mv_connected env 1 then fail_order x ''Gateway disconnected before order placement'' 503 st
      else if \<not> mv_rate_ok env then fail_order x ''Gateway rate limiter timeout'' 504 st
      else case mv_allocate env of
             None \<Rightarrow> fail_order x ''Order ID allocation failed'' 500 st
           | Some broker_id \<Rightarrow>
               (let st1 = st\<lparr>m_db := update_order (mo_id x) (\<lambda>r. r\<lparr>mo_broker_order_id := Some (int_text broker_id)\<rparr>) (m_db st)\<rparr> in
                if \<not> mv_place_ok env then fail_order x ''placeOrder exception'' 502 st1
                else
                  (let st2 = st1\<lparr>m_placed := m_placed st1 @ [(broker_id, x)],
                         m_db := update_order_status (mo_id x) MO_SUBMITTED (Some (int_text broker_id)) None
                                   (Some (mv_now env)) None None (m_db st1)\<rparr>
                   in (Placed (case order_by_id (mo_id x) (m_db st2) of None \<Rightarrow> x | Some r \<Rightarrow> r), st2))))"

definition submit_order :: "manual_env \<Rightarrow> manual_request \<Rightarrow> manual_state \<Rightarrow> submit_outcome \<times> manual_state" where
  "submit_order env rq st =
     (if \<not> fst (validate_pretrade env rq (m_db st)) then (HttpStatus 400, st)
      else
        (let key = py_strip (mr_idempotency_key rq); account = mv_account_id env in
         case order_by_key account key (m_db st) of
           Some existing \<Rightarrow> (replay_or_conflict rq existing, st)
         | None \<Rightarrow>
             (let st1 = st\<lparr>m_db := mv_others env (m_db st)\<rparr> in
              case create_order (draft_order env rq) (m_db st1) of
                None \<Rightarrow>
                  (case order_by_key account key (m_db st1) of
                     Some existing \<Rightarrow> (replay_or_conflict rq existing, st1)
                   | None \<Rightarrow> (Unhandled, st1))
              | Some (x, db') \<Rightarrow> transmit_order env x (st1\<lparr>m_db := db'\<rparr>))))"

section \<open>Cancellation\<close>

datatype cancel_outcome = AlreadyCancelled | CancelledLocally | CancelRequested int | CancelHttp nat

definition cancel_order :: "manual_env \<Rightarrow> nat \<Rightarrow> manual_state \<Rightarrow> cancel_outcome \<times> manual_state" where
  "cancel_order env order_id st =
     (case find (\<lambda>x. mo_id x = order_id \<and> mo_account_id x = mv_account_id env) (manual_orders (m_db st)) of
        None \<Rightarrow> (CancelHttp 404, st)
      | Some x \<Rightarrow>
          if mo_status x = MO_CANCELLED then (AlreadyCancelled, st)
          else if mo_status x \<in> {MO_FILLED, MO_REJECTED, MO_ERROR} then (CancelHttp 400, st)
          else if mo_status x = MO_PENDING_SUBMIT \<and> mo_broker_order_id x \<in> {None, Some []}
          then (CancelledLocally,
                st\<lparr>m_db := update_order_status (mo_id x) MO_CANCELLED None None None (Some (mv_now env))
                            (Some ''Cancelled by operator prior to broker submission'') (m_db st)\<rparr>)
          else (case mo_broker_order_id x of
                  None \<Rightarrow> (CancelHttp 500, st)
                | Some text \<Rightarrow>
                    if text = [] then (CancelHttp 500, st)
                    else (case py_int text of
                            Inl _ \<Rightarrow> (CancelHttp 500, st)
                          | Inr broker_id \<Rightarrow>
                              if \<not> mv_connected env 0 then (CancelHttp 503, st)
                              else if \<not> mv_rate_ok env then (CancelHttp 504, st)
                              else if \<not> mv_place_ok env then (CancelHttp 502, st)
                              else (CancelRequested broker_id, st\<lparr>m_cancelled := m_cancelled st @ [broker_id]\<rparr>))))"

section \<open>Recovery at startup\<close>

definition manual_startup_recovery :: "manual_db \<Rightarrow> nat \<times> manual_db" where
  "manual_startup_recovery db =
     (length (unresolved_orders db),
      fold (\<lambda>x. if mo_status x = MO_PENDING_SUBMIT
                then update_order_status (mo_id x) MO_ERROR None None None None
                       (Some ''UNCONFIRMED_BROKER_SUBMISSION_REQUIRES_RECOVERY: order was pending submission across restart'')
                else id) (unresolved_orders db) db)"

section \<open>Keys\<close>

definition order_key :: "manual_order \<Rightarrow> int \<times> string" where
  "order_key x = (mo_account_id x, mo_idempotency_key x)"

definition used_keys :: "manual_db \<Rightarrow> (int \<times> string) set" where
  "used_keys db = order_key ` set (manual_orders db)"

definition request_key :: "manual_env \<Rightarrow> manual_request \<Rightarrow> int \<times> string" where
  "request_key env rq = (mv_account_id env, py_strip (mr_idempotency_key rq))"

lemma order_by_key_None: "order_by_key a k db = None \<longleftrightarrow> (a, k) \<notin> used_keys db"
  by (auto simp: order_by_key_def used_keys_def order_key_def find_None_iff)

lemma update_order_keys:
  assumes "\<And>x. order_key (f x) = order_key x"
  shows "used_keys (update_order i f db) = used_keys db"
proof -
  have "map order_key (map (\<lambda>x. if mo_id x = i then f x else x) (manual_orders db)) = map order_key (manual_orders db)"
    using assms by simp
  then show ?thesis unfolding used_keys_def update_order_def by (metis (no_types, lifting) list.set_map manual_db.select_convs(1) manual_db.update_convs(1) manual_db.surjective)
qed

lemma update_status_keys [simp]: "used_keys (update_order_status i s b p su c r db) = used_keys db"
  by (simp add: update_order_status_def update_order_keys order_key_def)

lemma update_broker_keys [simp]:
  "used_keys (update_order i (\<lambda>r. r\<lparr>mo_broker_order_id := b\<rparr>) db) = used_keys db"
  by (simp add: update_order_keys order_key_def)

lemma create_order_Some:
  assumes "create_order draft db = Some (x, db')"
  shows "order_key x = order_key draft" "order_key draft \<notin> used_keys db"
    "used_keys db' = insert (order_key draft) (used_keys db)"
  using assms by (auto simp: create_order_def used_keys_def order_key_def list_ex_iff Let_def split: if_splits)

lemma fail_order_state [simp]:
  "m_placed (snd (fail_order x r c st)) = m_placed st" "used_keys (m_db (snd (fail_order x r c st))) = used_keys (m_db st)"
  by (simp_all add: fail_order_def)

lemma transmit_keys: "used_keys (m_db (snd (transmit_order env x st))) = used_keys (m_db st)"
  by (simp add: transmit_order_def Let_def split: option.split)

lemma transmit_placed:
  "m_placed (snd (transmit_order env x st)) = m_placed st \<or> (\<exists>b. m_placed (snd (transmit_order env x st)) = m_placed st @ [(b, x)])"
  by (simp add: transmit_order_def Let_def split: option.split)

text \<open>Other requests add rows and never remove one.\<close>

definition others_only_add :: "manual_env \<Rightarrow> bool" where
  "others_only_add env \<longleftrightarrow> (\<forall>db. used_keys db \<subseteq> used_keys (mv_others env db))"

lemma submit_step:
  assumes "others_only_add env"
  shows "used_keys (m_db st) \<subseteq> used_keys (m_db (snd (submit_order env rq st))) \<and>
    (m_placed (snd (submit_order env rq st)) = m_placed st \<or>
     (\<exists>b x. m_placed (snd (submit_order env rq st)) = m_placed st @ [(b, x)] \<and> order_key x = request_key env rq \<and>
        request_key env rq \<notin> used_keys (m_db st) \<and> request_key env rq \<in> used_keys (m_db (snd (submit_order env rq st))) \<and>
        snd (validate_pretrade env rq (m_db st)) = []))"
proof (cases "fst (validate_pretrade env rq (m_db st)) \<and> request_key env rq \<notin> used_keys (m_db st)")
  case False
  then show ?thesis
    by (auto simp: submit_order_def request_key_def Let_def order_by_key_None [symmetric] split: option.splits)
next
  case True
  let ?st1 = "st\<lparr>m_db := mv_others env (m_db st)\<rparr>"
  have mono: "used_keys (m_db st) \<subseteq> used_keys (m_db ?st1)" using assms by (simp add: others_only_add_def)
  have v: "snd (validate_pretrade env rq (m_db st)) = []" using True by (auto simp: validate_pretrade_def Let_def)
  have n: "order_by_key (mv_account_id env) (py_strip (mr_idempotency_key rq)) (m_db st) = None"
    using True by (simp add: order_by_key_None request_key_def)
  show ?thesis
  proof (cases "create_order (draft_order env rq) (m_db ?st1)")
    case None
    then show ?thesis using mono True n by (auto simp: submit_order_def Let_def split: option.splits)
  next
    case (Some y)
    obtain x db' where y: "y = (x, db')" by (cases y)
    have d: "order_key (draft_order env rq) = request_key env rq"
      by (simp add: order_key_def request_key_def draft_order_def)
    note c = create_order_Some [OF Some [unfolded y], unfolded d]
    have s: "submit_order env rq st = transmit_order env x (?st1\<lparr>m_db := db'\<rparr>)"
      using True n Some y by (simp add: submit_order_def Let_def)
    have "used_keys (m_db (snd (submit_order env rq st))) = insert (request_key env rq) (used_keys (m_db ?st1))"
      by (simp add: s transmit_keys c(3))
    then show ?thesis using transmit_placed [of env x "?st1\<lparr>m_db := db'\<rparr>"] mono c(1) True v by (auto simp: s)
  qed
qed

definition placed_for :: "int \<times> string \<Rightarrow> manual_state \<Rightarrow> nat" where
  "placed_for k st = length (filter (\<lambda>(b, x). order_key x = k) (m_placed st))"

definition submit_all :: "(manual_env \<times> manual_request) list \<Rightarrow> manual_state \<Rightarrow> manual_state" where
  "submit_all rqs st = fold (\<lambda>(env, rq) s. snd (submit_order env rq s)) rqs st"

text \<open>
  C5. A manual order reaches the broker at most once per idempotency key, and only through the gates.
  Over any sequence of submissions, whatever other requests commit between a look at the key and the
  insertion, the broker receives at most one order for a key of an account, and none when the key was
  used before; an order is placed only by a request for which the list of gate errors is empty.
\<close>

theorem manual_submit_once:
  assumes "\<forall>(env, rq) \<in> set rqs. others_only_add env"
  shows "placed_for k (submit_all rqs st) \<le> placed_for k st + (if k \<in> used_keys (m_db st) then 0 else 1) \<and>
         (\<forall>env rq. others_only_add env \<and> m_placed (snd (submit_order env rq st)) \<noteq> m_placed st \<longrightarrow>
            snd (validate_pretrade env rq (m_db st)) = [])"
proof -
  have "placed_for k (submit_all rqs st) \<le> placed_for k st + (if k \<in> used_keys (m_db st) then 0 else 1)"
    using assms
  proof (induction rqs arbitrary: st)
    case (Cons x rqs)
    obtain env rq where x: "x = (env, rq)" by (cases x)
    let ?st = "snd (submit_order env rq st)"
    have all: "submit_all (x # rqs) st = submit_all rqs ?st" by (simp add: submit_all_def x)
    have ih: "placed_for k (submit_all rqs ?st) \<le> placed_for k ?st + (if k \<in> used_keys (m_db ?st) then 0 else 1)"
      using Cons by simp
    have o: "others_only_add env" using Cons.prems x by simp
    from submit_step [OF o, of st rq] consider "m_placed ?st = m_placed st" "used_keys (m_db st) \<subseteq> used_keys (m_db ?st)"
      | b y where "m_placed ?st = m_placed st @ [(b, y)]" "order_key y = request_key env rq"
          "request_key env rq \<notin> used_keys (m_db st)" "request_key env rq \<in> used_keys (m_db ?st)"
          "used_keys (m_db st) \<subseteq> used_keys (m_db ?st)" by blast
    then show ?case
    proof cases
      case 1
      then show ?thesis using ih unfolding all by (auto simp: placed_for_def split: if_splits)
    next
      case (2 b y)
      then show ?thesis using ih unfolding all by (auto simp: placed_for_def split: if_splits)
    qed
  qed (simp add: submit_all_def)
  then show ?thesis using submit_step by metis
qed

definition sample_manual_env :: manual_env where
  "sample_manual_env =
     \<lparr>mv_account_id = 7, mv_ibkr_account = ''DU7'', mv_account_enabled = True, mv_connected = (\<lambda>n. True),
      mv_killed = False, mv_manual_killed = False, mv_armed_op = False, mv_active_manual_op = False,
      mv_paused_cache = False, mv_paused_row = False, mv_rate_ok = True, mv_allocate = Some 1, mv_place_ok = True,
      mv_internal_id = ''MAN_1'', mv_new_trade_id = ''TRD_1'', mv_now = 5, mv_others = (\<lambda>db. db)\<rparr>"

definition sample_manual_request :: manual_request where
  "sample_manual_request =
     \<lparr>mr_idempotency_key = '' k1 '', mr_con_id = 11, mr_symbol = ''spy'', mr_sec_type = ''CFD'', mr_exchange = ''SMART'',
      mr_currency = ''USD'', mr_side = ''BUY'', mr_quantity = 10, mr_order_type = ''LIMIT'', mr_limit_price = Some (505 / 10),
      mr_min_tick = Some (1 / 100), mr_tif = ''DAY'', mr_trade_id = None\<rparr>"

definition sample_manual_state :: manual_state where
  "sample_manual_state = \<lparr>m_db = sample_manual_db, m_placed = [], m_cancelled = []\<rparr>"

theorem manual_submit_once_witness:
  "placed_for (7, ''k1'') (submit_all [(sample_manual_env, sample_manual_request),
      (sample_manual_env\<lparr>mv_internal_id := ''MAN_2''\<rparr>, sample_manual_request)] sample_manual_state) = 1 \<and>
   snd (validate_pretrade sample_manual_env sample_manual_request sample_manual_db) = []"
proof -
  let ?rqs = "[(sample_manual_env, sample_manual_request),
      (sample_manual_env\<lparr>mv_internal_id := ''MAN_2''\<rparr>, sample_manual_request)]"
  have a: "others_only_add sample_manual_env" by (simp add: others_only_add_def sample_manual_env_def)
  have h: "\<forall>(env, rq) \<in> set ?rqs. others_only_add env"
    by (simp add: others_only_add_def sample_manual_env_def)
  have "placed_for (7, ''k1'') (submit_all ?rqs sample_manual_state) \<noteq> 0" by code_simp
  moreover have "placed_for (7, ''k1'') (submit_all ?rqs sample_manual_state) \<le> 1"
    using manual_submit_once [OF h, of "(7, ''k1'')" sample_manual_state] by (simp add: placed_for_def sample_manual_state_def split: if_splits)
  moreover have "m_placed (snd (submit_order sample_manual_env sample_manual_request sample_manual_state)) \<noteq>
      m_placed sample_manual_state" by code_simp
  then have "snd (validate_pretrade sample_manual_env sample_manual_request (m_db sample_manual_state)) = []"
    using manual_submit_once [OF h, of "(7, ''k1'')" sample_manual_state] a by blast
  ultimately show ?thesis by (simp add: sample_manual_state_def)
qed

section \<open>The pause\<close>

text \<open>A paused account with one long position: a sale for a trade of its own, or without a trade, passes the
  gate as a reduction of the position of the same symbol, and is recorded for another trade.\<close>

definition sample_held :: manual_db where
  "sample_held = run_fills [(1, sample_manual_fill ''BOT'' 10 100)] sample_manual_db"

lemma pause_admits_new_trade:
  "case submit_order (sample_manual_env\<lparr>mv_paused_row := True, mv_new_trade_id := ''TRD_2''\<rparr>)
      (sample_manual_request\<lparr>mr_side := ''SELL''\<rparr>) (sample_manual_state\<lparr>m_db := sample_held\<rparr>) of
     (Placed x, st) \<Rightarrow> mo_trade_id x = ''TRD_2'' \<and> manual_position_by_trade 7 ''TRD_2'' (m_db st) = None
   | _ \<Rightarrow> False"
  by code_simp

end
