(* ===== verification/Manual_Callbacks.thy ===== *)
theory Manual_Callbacks
  imports Manual_Ledger
begin

text \<open>
  \<open>services/manual_callbacks.py\<close>: what the callbacks of the gateway do to the manual tables. Each handler
  is one transaction. The buffer of commissions that arrive before their execution is part of the
  state. Not in the model: the copy of a fill to the trade book, the live profit and the audit rows.
\<close>

section \<open>Callbacks\<close>

text \<open>The attributes of a contract: an identifier may be a number, a text or missing.\<close>

datatype con_attr = ConInt int | ConText string | ConOther

record exec_contract =
  xc_con_id :: con_attr
  xc_symbol :: "string option"
  xc_sec_type :: "string option"

record exec_report =
  xr_exec_id :: string
  xr_order_id :: "int option"
  xr_perm_id :: "int option"
  xr_order_ref :: string
  xr_acct_number :: string
  xr_shares :: decimal
  xr_price :: decimal
  xr_side :: "string option"
  xr_executed_at :: datetime

record callback_state =
  cb_db :: manual_db
  cb_pending :: "string \<rightharpoonup> decimal \<times> string"

definition map_ib_order_status :: "string \<Rightarrow> manual_order_status" where
  "map_ib_order_status raw =
     (let norm = filter (\<lambda>c. c \<noteq> CHR '' '') (py_upper (py_strip raw)) in
      if norm \<in> {''SUBMITTED'', ''PENDINGSUBMIT'', ''PRESUBMITTED'', ''APIPENDING''} then MO_SUBMITTED
      else if norm = ''PARTIALLYFILLED'' then MO_PARTIALLY_FILLED
      else if norm = ''FILLED'' then MO_FILLED
      else if norm \<in> {''CANCELLED'', ''APICANCELLED''} then MO_CANCELLED
      else if norm \<in> {''INACTIVE'', ''REJECTED''} then MO_REJECTED
      else MO_SUBMITTED)"

definition normalize_execution_side :: "string option \<Rightarrow> string" where
  "normalize_execution_side raw =
     (case raw of
        None \<Rightarrow> ''UNKNOWN''
      | Some r \<Rightarrow>
          if r = [] then ''UNKNOWN''
          else (let s = py_upper (py_strip r) in
                if s \<in> {''BOT'', ''BUY''} then ''BUY'' else if s \<in> {''SLD'', ''SELL''} then ''SELL'' else s))"

definition terminal_status :: "manual_order_status \<Rightarrow> bool" where
  "terminal_status s \<longleftrightarrow> s \<in> {MO_FILLED, MO_CANCELLED, MO_REJECTED, MO_ERROR}"

section \<open>Errors and status\<close>

definition ignored_error :: "int \<Rightarrow> bool" where
  "ignored_error code \<longleftrightarrow> 2000 \<le> code \<and> code < 3000 \<or> code \<in> {10349, 2104, 2107, 2158, 399, 2109} \<or> code = 100"

definition handle_error :: "datetime \<Rightarrow> int \<Rightarrow> int \<Rightarrow> string \<Rightarrow> manual_db \<Rightarrow> manual_db" where
  "handle_error now req_id code message db =
     (case order_by_broker_id None (int_text req_id) db of
        None \<Rightarrow> db
      | Some x \<Rightarrow>
          if terminal_status (mo_status x) then db
          else update_order_status (mo_id x) MO_REJECTED None None None (Some now)
                 (Some (''TWS Error '' @ int_text code @ '': '' @ message)) db)"

definition on_error :: "datetime \<Rightarrow> int \<Rightarrow> int \<Rightarrow> string \<Rightarrow> manual_db \<Rightarrow> manual_db" where
  "on_error now req_id code message db = (if ignored_error code then db else handle_error now req_id code message db)"

text \<open>An unknown permanent id is learned; a known one stays.\<close>

definition learned_perm :: "int \<Rightarrow> manual_order \<Rightarrow> int option" where
  "learned_perm perm_id x = (if perm_id > 0 \<and> mo_perm_id x \<in> {None, Some 0} then Some perm_id else None)"

definition no_regress :: "manual_order_status \<Rightarrow> manual_order_status \<Rightarrow> manual_order_status" where
  "no_regress old new = (if old = MO_PARTIALLY_FILLED \<and> new = MO_SUBMITTED then MO_PARTIALLY_FILLED else new)"

definition order_status_on :: "datetime \<Rightarrow> string \<Rightarrow> int \<Rightarrow> manual_order \<Rightarrow> manual_db \<Rightarrow> manual_db" where
  "order_status_on now status perm_id x db =
     (let new_perm = learned_perm perm_id x in
      if terminal_status (mo_status x)
      then (if new_perm = None then db
            else update_order_status (mo_id x) (mo_status x) None new_perm None None None db)
      else
        (let mapped = no_regress (mo_status x) (map_ib_order_status status) in
         update_order_status (mo_id x) mapped None new_perm None
           (if mapped \<in> {MO_FILLED, MO_CANCELLED, MO_REJECTED} then Some now else None) None db))"

definition handle_order_status :: "datetime \<Rightarrow> int \<Rightarrow> string \<Rightarrow> int \<Rightarrow> manual_db \<Rightarrow> manual_db" where
  "handle_order_status now order_id status perm_id db =
     (case order_by_broker_id None (int_text order_id) db of
        Some x \<Rightarrow> order_status_on now status perm_id x db
      | None \<Rightarrow>
          if perm_id > 0
          then (case order_by_perm_id None perm_id db of
                  Some x \<Rightarrow> order_status_on now status perm_id x db | None \<Rightarrow> db)
          else db)"

definition first_some :: "'a option \<Rightarrow> 'a option \<Rightarrow> 'a option" where
  "first_some a b = (case a of Some x \<Rightarrow> Some x | None \<Rightarrow> b)"

definition open_order_on :: "int \<Rightarrow> int \<Rightarrow> string \<Rightarrow> manual_order \<Rightarrow> manual_db \<Rightarrow> manual_db" where
  "open_order_on order_id perm_id raw_status x db =
     (let b_id = (if mo_broker_order_id x \<in> {None, Some []} \<and> order_id > 0 then Some (int_text order_id) else None);
          p_id = learned_perm perm_id x
      in if terminal_status (mo_status x)
         then (if b_id = None \<and> p_id = None then db
               else update_order_status (mo_id x) (mo_status x) b_id p_id None None None db)
         else
           (let mapped = (if raw_status = [] then mo_status x else map_ib_order_status raw_status) in
            update_order_status (mo_id x) (no_regress (mo_status x) mapped) b_id p_id None None None db))"

definition handle_open_order :: "int \<Rightarrow> string \<Rightarrow> int \<Rightarrow> string \<Rightarrow> manual_db \<Rightarrow> manual_db" where
  "handle_open_order order_id order_ref perm_id raw_status db =
     (case first_some (if order_ref \<noteq> [] then order_by_internal_id order_ref db else None)
             (first_some (if order_id > 0 then order_by_broker_id None (int_text order_id) db else None)
                (if perm_id > 0 then order_by_perm_id None perm_id db else None)) of
        None \<Rightarrow> db
      | Some x \<Rightarrow> open_order_on order_id perm_id raw_status x db)"

section \<open>Executions\<close>

definition text_matches :: "string option \<Rightarrow> string \<Rightarrow> bool" where
  "text_matches reported own \<longleftrightarrow>
     (case reported of
        None \<Rightarrow> True
      | Some r \<Rightarrow> py_strip r = [] \<or> py_upper (py_strip r) = py_upper (py_strip own))"

definition contract_matches :: "manual_order \<Rightarrow> exec_contract option \<Rightarrow> bool" where
  "contract_matches x contract \<longleftrightarrow>
     (case contract of
        None \<Rightarrow> True
      | Some c \<Rightarrow>
          (case xc_con_id c of
             ConInt i \<Rightarrow> i = 0 \<or> i = mo_con_id x
           | ConText t \<Rightarrow> py_strip t = [] \<or> \<not> list_all py_isdigit (py_strip t)
           | ConOther \<Rightarrow> True) \<and>
          text_matches (xc_symbol c) (mo_symbol x) \<and> text_matches (xc_sec_type c) (mo_sec_type x))"

definition perm_matches :: "manual_order \<Rightarrow> int option \<Rightarrow> bool" where
  "perm_matches x exec_perm \<longleftrightarrow>
     (case exec_perm of
        None \<Rightarrow> True | Some p \<Rightarrow> p = 0 \<or> mo_perm_id x = None \<or> mo_perm_id x = Some p)"

text \<open>The order of an execution: by its reference, then by the permanent id, then by the broker's id.\<close>

definition correlate_ref :: "string \<Rightarrow> int option \<Rightarrow> exec_contract option \<Rightarrow> exec_report \<Rightarrow> manual_db \<Rightarrow> manual_order option" where
  "correlate_ref acct account_id contract r db =
     (let ref = py_strip (xr_order_ref r) in
      if ref = [] then None
      else (case order_by_internal_id ref db of
              None \<Rightarrow> None
            | Some x \<Rightarrow>
                if account_id \<notin> {None, Some 0, Some (mo_account_id x)} then None
                else if acct \<noteq> [] \<and> acct \<noteq> py_upper (py_strip (mo_ibkr_account x)) then None
                else if contract_matches x contract \<and> perm_matches x (xr_perm_id r) then Some x else None))"

definition correlate_perm :: "int option \<Rightarrow> exec_contract option \<Rightarrow> exec_report \<Rightarrow> manual_db \<Rightarrow> manual_order option" where
  "correlate_perm account_id contract r db =
     (case xr_perm_id r of
        None \<Rightarrow> None
      | Some p \<Rightarrow>
          if p > 0
          then (case order_by_perm_id account_id p db of
                  None \<Rightarrow> None | Some x \<Rightarrow> if contract_matches x contract then Some x else None)
          else None)"

definition correlate_broker :: "int option \<Rightarrow> exec_contract option \<Rightarrow> exec_report \<Rightarrow> manual_db \<Rightarrow> manual_order option" where
  "correlate_broker account_id contract r db =
     (case xr_order_id r of
        None \<Rightarrow> None
      | Some i \<Rightarrow>
          if i > 0
          then (case order_by_broker_id account_id (int_text i) db of
                  None \<Rightarrow> None
                | Some x \<Rightarrow> if contract_matches x contract \<and> perm_matches x (xr_perm_id r) then Some x else None)
          else None)"

definition correlate ::
  "(string \<rightharpoonup> int) \<Rightarrow> exec_contract option \<Rightarrow> exec_report \<Rightarrow> manual_db \<Rightarrow> manual_order option" where
  "correlate accounts contract r db =
     (let acct = py_upper (py_strip (xr_acct_number r));
          account_id = (if acct = [] then None else accounts acct)
      in case first_some (correlate_ref acct account_id contract r db)
                (first_some (correlate_perm account_id contract r db) (correlate_broker account_id contract r db)) of
           None \<Rightarrow> None
         | Some x \<Rightarrow> if acct \<noteq> [] \<and> acct \<noteq> py_upper (py_strip (mo_ibkr_account x)) then None else Some x)"

definition fill_of :: "manual_order \<Rightarrow> exec_report \<Rightarrow> decimal option \<Rightarrow> manual_fill" where
  "fill_of x r commission =
     \<lparr>mf_account_id = mo_account_id x, mf_trade_id = mo_trade_id x, mf_symbol = mo_symbol x, mf_con_id = mo_con_id x,
      mf_sec_type = mo_sec_type x, mf_currency = mo_currency x, mf_side = normalize_execution_side (xr_side r),
      mf_quantity = xr_shares r, mf_price = xr_price r,
      mf_commission = (case commission of None \<Rightarrow> 0 | Some c \<Rightarrow> c)\<rparr>"

definition status_after_fill :: "datetime \<Rightarrow> decimal \<Rightarrow> manual_order \<Rightarrow> manual_order_status \<times> datetime option" where
  "status_after_fill now filled x =
     (if filled \<ge> mo_quantity x then (MO_FILLED, Some now)
      else if mo_status x \<in> {MO_CANCELLED, MO_REJECTED, MO_ERROR}
      then (mo_status x, Some (case mo_completed_at x of None \<Rightarrow> now | Some t \<Rightarrow> t))
      else (MO_PARTIALLY_FILLED, None))"

definition exec_row :: "string \<Rightarrow> manual_order \<Rightarrow> exec_report \<Rightarrow> (decimal \<times> string) option \<Rightarrow> manual_execution" where
  "exec_row exec_id x r pending =
     \<lparr>me_order_id = mo_id x, me_exec_id = exec_id,
      me_broker_order_id = (case xr_order_id r of Some i \<Rightarrow> Some (int_text i) | None \<Rightarrow> mo_broker_order_id x),
      me_quantity = xr_shares r, me_price = xr_price r, me_commission = map_option fst pending,
      me_commission_currency = map_option snd pending, me_executed_at = xr_executed_at r\<rparr>"

definition capture_perm :: "int option \<Rightarrow> manual_order \<Rightarrow> manual_db \<Rightarrow> manual_db" where
  "capture_perm perm_id x db =
     (case perm_id of
        None \<Rightarrow> db
      | Some p \<Rightarrow>
          if p \<noteq> 0 \<and> mo_perm_id x \<in> {None, Some 0}
          then update_order (mo_id x) (\<lambda>o'. o'\<lparr>mo_perm_id := Some p\<rparr>) db else db)"

text \<open>The transaction once the order is known.\<close>

definition exec_on ::
  "datetime \<Rightarrow> string \<Rightarrow> exec_report \<Rightarrow> (decimal \<times> string) option \<Rightarrow> manual_order \<Rightarrow> manual_db \<Rightarrow> bool \<times> manual_db" where
  "exec_on now exec_id r pending x db0 =
     (let db = capture_perm (xr_perm_id r) x db0;
          closed = (case manual_position_by_trade (mo_account_id x) (mo_trade_id x) db of
                      None \<Rightarrow> False | Some p \<Rightarrow> mn_status p = MP_CLOSED \<and> mn_signed_qty p = 0)
      in if closed then (False, db)
         else (case record_execution_with_dedup (exec_row exec_id x r pending) db of
                 ((_, False), db1) \<Rightarrow> (False, db1)
               | ((_, True), db1) \<Rightarrow>
                   (case apply_execution now (fill_of x r (map_option fst pending)) db1 of
                      Inl _ \<Rightarrow> (False, db1)
                    | Inr (_, db2) \<Rightarrow>
                        (let filled = sum_list (map me_quantity (executions_of_order (mo_id x) db2)) in
                         case status_after_fill now filled x of (status, completed) \<Rightarrow>
                           (True, update_order_status (mo_id x) status None None None completed None db2)))))"

definition handle_exec_details ::
  "datetime \<Rightarrow> (string \<rightharpoonup> int) \<Rightarrow> exec_contract option \<Rightarrow> exec_report \<Rightarrow> callback_state \<Rightarrow> bool \<times> callback_state" where
  "handle_exec_details now accounts contract r st =
     (let exec_id = py_strip (xr_exec_id r) in
      if exec_id = [] then (False, st)
      else
        (let pending = cb_pending st exec_id;
             st1 = st\<lparr>cb_pending := (cb_pending st)(exec_id := None)\<rparr>
         in case correlate accounts contract r (cb_db st1) of
              None \<Rightarrow> (False, st1)
            | Some x \<Rightarrow>
                (case exec_on now exec_id r pending x (cb_db st1) of
                   (new, db) \<Rightarrow> (new, st1\<lparr>cb_db := db\<rparr>))))"

section \<open>Commissions\<close>

definition charge_position :: "decimal \<Rightarrow> manual_order \<Rightarrow> manual_db \<Rightarrow> manual_db" where
  "charge_position commission x db =
     (case manual_position_by_trade (mo_account_id x) (mo_trade_id x) db of
        None \<Rightarrow> db
      | Some p \<Rightarrow> put_manual_position (p\<lparr>mn_realized_pnl := mn_realized_pnl p - commission\<rparr>) db)"

definition handle_commission_report ::
  "string \<Rightarrow> decimal \<Rightarrow> string \<Rightarrow> callback_state \<Rightarrow> bool \<times> callback_state" where
  "handle_commission_report raw_exec_id commission currency0 st =
     (let exec_id = py_strip raw_exec_id; currency = (if currency0 = [] then ''USD'' else currency0) in
      if exec_id = [] then (False, st)
      else (case execution_by_id exec_id (cb_db st) of
              None \<Rightarrow> (True, st\<lparr>cb_pending := (cb_pending st)(exec_id \<mapsto> (commission, currency))\<rparr>)
            | Some row \<Rightarrow>
                (case update_commission exec_id commission (Some currency) (cb_db st) of
                   ((_, False), _) \<Rightarrow> (False, st)
                 | ((_, True), db) \<Rightarrow>
                     (True, st\<lparr>cb_db := (case order_by_id (me_order_id row) db of
                                          None \<Rightarrow> db | Some x \<Rightarrow> charge_position commission x db)\<rparr>))))"

section \<open>Rows keep their identity\<close>

definition order_ids_distinct :: "manual_db \<Rightarrow> bool" where
  "order_ids_distinct db \<longleftrightarrow> distinct (map mo_id (manual_orders db))"

lemma update_order_lookup:
  assumes "\<And>x. mo_id (f x) = mo_id x"
  shows "order_by_id j (update_order i f db) = map_option (\<lambda>x. if j = i then f x else x) (order_by_id j db)"
proof -
  have "find (\<lambda>x. mo_id x = j) (map (\<lambda>x. if mo_id x = i then f x else x) xs) =
      map_option (\<lambda>x. if j = i then f x else x) (find (\<lambda>x. mo_id x = j) xs)" for xs
    using assms by (induction xs) auto
  then show ?thesis by (simp add: order_by_id_def update_order_def)
qed

lemma update_status_lookup:
  "order_by_id j (update_order_status i s b p su c rr db) =
     map_option (\<lambda>x. if j = i then x\<lparr>mo_status := s, mo_broker_order_id := or_new b (mo_broker_order_id x),
        mo_perm_id := or_new p (mo_perm_id x), mo_submitted_at := or_new su (mo_submitted_at x),
        mo_completed_at := or_new c (mo_completed_at x), mo_reject_reason := or_new rr (mo_reject_reason x)\<rparr> else x)
       (order_by_id j db)"
  by (simp add: update_order_status_def update_order_lookup)

lemma order_by_id_member:
  assumes "order_ids_distinct db" "x \<in> set (manual_orders db)"
  shows "order_by_id (mo_id x) db = Some x"
proof -
  have "find (\<lambda>y. mo_id y = mo_id x) xs = Some x" if "distinct (map mo_id xs)" "x \<in> set xs" for xs
    using that by (induction xs) (auto simp: rev_image_eqI)
  then show ?thesis using assms by (simp add: order_by_id_def order_ids_distinct_def)
qed

lemma found_members:
  "order_by_broker_id a t db = Some x \<Longrightarrow> x \<in> set (manual_orders db)"
  "order_by_perm_id a p db = Some x \<Longrightarrow> x \<in> set (manual_orders db)"
  "order_by_internal_id i db = Some x \<Longrightarrow> x \<in> set (manual_orders db)"
proof -
  have "find P xs = Some x \<Longrightarrow> x \<in> set xs" for P xs by (auto simp: find_Some_iff)
  from this [of _ "rev (manual_orders db)"] this [of _ "manual_orders db"]
  show "order_by_broker_id a t db = Some x \<Longrightarrow> x \<in> set (manual_orders db)"
    "order_by_perm_id a p db = Some x \<Longrightarrow> x \<in> set (manual_orders db)"
    "order_by_internal_id i db = Some x \<Longrightarrow> x \<in> set (manual_orders db)"
    by (auto simp: order_by_broker_id_def order_by_perm_id_def order_by_internal_id_def)
qed

section \<open>Status\<close>

text \<open>What a status callback may do: nothing to a final status, and no way back from a partial fill.\<close>

definition status_step :: "manual_order_status \<Rightarrow> manual_order_status \<Rightarrow> bool" where
  "status_step s s' \<longleftrightarrow> (terminal_status s \<longrightarrow> s' = s) \<and>
     (s = MO_PARTIALLY_FILLED \<longrightarrow> s' \<notin> {MO_SUBMITTED, MO_PENDING_SUBMIT})"

lemma status_step_refl [simp]: "status_step s s"
  by (simp add: status_step_def)

definition row_steps :: "manual_db \<Rightarrow> manual_db \<Rightarrow> bool" where
  "row_steps db db' \<longleftrightarrow>
     (\<forall>i. rel_option (\<lambda>x x'. status_step (mo_status x) (mo_status x') \<and> mo_account_id x' = mo_account_id x \<and>
        mo_trade_id x' = mo_trade_id x \<and> mo_quantity x' = mo_quantity x) (order_by_id i db) (order_by_id i db'))"

lemma row_steps_refl [simp]: "row_steps db db"
  by (simp add: row_steps_def option.rel_refl)

text \<open>An update of the row that was found, to a status that is a step.\<close>

lemma row_steps_update:
  assumes "order_ids_distinct db" "x \<in> set (manual_orders db)" "status_step (mo_status x) s"
  shows "row_steps db (update_order_status (mo_id x) s b p su c rr db)"
  unfolding row_steps_def
proof
  fix i
  show "rel_option (\<lambda>x x'. status_step (mo_status x) (mo_status x') \<and> mo_account_id x' = mo_account_id x \<and>
      mo_trade_id x' = mo_trade_id x \<and> mo_quantity x' = mo_quantity x)
    (order_by_id i db) (order_by_id i (update_order_status (mo_id x) s b p su c rr db))"
    using order_by_id_member [OF assms(1,2)] assms(3)
    by (cases "order_by_id i db") (auto simp: update_status_lookup)
qed

lemma mapped_step: "\<not> terminal_status s \<Longrightarrow> status_step s (no_regress s (map_ib_order_status raw))"
  by (auto simp: status_step_def no_regress_def map_ib_order_status_def Let_def)

lemma order_status_on_steps:
  assumes "order_ids_distinct db" "x \<in> set (manual_orders db)"
  shows "row_steps db (order_status_on now status perm_id x db)"
  using row_steps_update [OF assms] mapped_step by (simp add: order_status_on_def Let_def)

lemma open_order_on_steps:
  assumes "order_ids_distinct db" "x \<in> set (manual_orders db)"
  shows "row_steps db (open_order_on order_id perm_id raw x db)"
proof -
  have "status_step (mo_status x) (no_regress (mo_status x) (mo_status x))"
    by (simp add: no_regress_def)
  then show ?thesis using row_steps_update [OF assms] mapped_step by (simp add: open_order_on_def Let_def)
qed

lemma error_steps:
  assumes "order_ids_distinct db"
  shows "row_steps db (on_error now req code msg db)"
proof (cases "ignored_error code")
  case False
  show ?thesis
  proof (cases "order_by_broker_id None (int_text req) db")
    case (Some x)
    have "\<not> terminal_status (mo_status x) \<Longrightarrow> status_step (mo_status x) MO_REJECTED"
      by (auto simp: status_step_def)
    then show ?thesis using row_steps_update [OF assms found_members(1) [OF Some]] False Some
      by (simp add: on_error_def handle_error_def)
  qed (use False in \<open>simp add: on_error_def handle_error_def\<close>)
qed (simp add: on_error_def)

text \<open>
  C7. Broker callbacks never undo an outcome. Whatever errors, order states and open-order reports the
  gateway sends, in whatever order, no row of an order with a final status changes its status, no
  partially filled order goes back to submitted, and no callback changes the account, the trade or the
  quantity of an order.
\<close>

theorem status_callbacks_monotone:
  assumes "order_ids_distinct db"
  shows "row_steps db (on_error now req code msg db) \<and> row_steps db (handle_order_status now order_id status perm_id db) \<and>
         row_steps db (handle_open_order order_id order_ref perm_id raw db)"
proof -
  have "row_steps db (handle_order_status now order_id status perm_id db)"
    using order_status_on_steps [OF assms] found_members
    by (auto simp: handle_order_status_def split: option.split)
  moreover have "row_steps db (handle_open_order order_id order_ref perm_id raw db)"
    using open_order_on_steps [OF assms] found_members
    by (auto simp: handle_open_order_def first_some_def split: option.splits if_splits)
  ultimately show ?thesis using error_steps [OF assms] by blast
qed

definition sample_manual_order :: "manual_order_status \<Rightarrow> manual_order" where
  "sample_manual_order status =
     \<lparr>mo_id = 1, mo_account_id = 7, mo_ibkr_account = ''DU7'', mo_idempotency_key = ''k1'',
      mo_internal_order_id = ''MAN_1'', mo_trade_id = ''TRD_1'', mo_broker_order_id = Some ''5'', mo_perm_id = None,
      mo_con_id = 11, mo_symbol = ''SPY'', mo_sec_type = ''CFD'', mo_exchange = ''SMART'', mo_currency = ''USD'',
      mo_side = ''BUY'', mo_quantity = 10, mo_order_type = ''MARKET'', mo_limit_price = None, mo_tif = ''DAY'',
      mo_status = status, mo_source = ''manual'', mo_reject_reason = None, mo_submitted_at = None,
      mo_completed_at = None\<rparr>"

definition sample_callback_db :: "manual_order_status \<Rightarrow> manual_db" where
  "sample_callback_db status = sample_manual_db\<lparr>manual_orders := [sample_manual_order status]\<rparr>"

lemma sample_ids: "order_ids_distinct (sample_callback_db status)"
  by (simp add: order_ids_distinct_def sample_callback_db_def)

theorem status_callbacks_monotone_witness:
  "\<exists>x. order_by_id 1 (handle_order_status 9 5 ''Cancelled'' 77 (sample_callback_db MO_FILLED)) = Some x \<and>
     mo_status x = MO_FILLED"
proof -
  have o: "order_by_id 1 (sample_callback_db MO_FILLED) = Some (sample_manual_order MO_FILLED)"
    by (simp add: order_by_id_def sample_callback_db_def sample_manual_order_def)
  have "row_steps (sample_callback_db MO_FILLED) (handle_order_status 9 5 ''Cancelled'' 77 (sample_callback_db MO_FILLED))"
    using status_callbacks_monotone [OF sample_ids, where now = 9 and order_id = 5 and status = "''Cancelled''" and perm_id = 77] by blast
  then have "rel_option (\<lambda>x x'. status_step (mo_status x) (mo_status x') \<and> mo_account_id x' = mo_account_id x \<and>
      mo_trade_id x' = mo_trade_id x \<and> mo_quantity x' = mo_quantity x) (order_by_id 1 (sample_callback_db MO_FILLED))
      (order_by_id 1 (handle_order_status 9 5 ''Cancelled'' 77 (sample_callback_db MO_FILLED)))"
    unfolding row_steps_def by blast
  then show ?thesis unfolding o
    by (auto simp: option_rel_Some1 status_step_def terminal_status_def sample_manual_order_def)
qed

section \<open>Commissions before and after their execution\<close>

text \<open>A commission only lowers the realised result by its amount.\<close>

definition charge :: "decimal \<Rightarrow> manual_position \<Rightarrow> manual_position" where
  "charge c p = p\<lparr>mn_realized_pnl := mn_realized_pnl p - c\<rparr>"

lemma fill_position_commission:
  "fill_position now (f\<lparr>mf_commission := c\<rparr>) d pos =
     map_sum id (\<lambda>(p, delta). (charge c p, delta - c)) (fill_position now (f\<lparr>mf_commission := 0\<rparr>) d pos)"
  by (simp add: fill_position_def reduce_position_def charge_def Let_def)

lemma fill_delta_commission [simp]: "fill_delta (f\<lparr>mf_commission := c\<rparr>) = fill_delta f"
  by (simp add: fill_delta_def Let_def)

lemma put_put:
  "trade_key_of q = trade_key_of p \<Longrightarrow> put_manual_position q (put_manual_position p db) = put_manual_position q db"
  by (auto simp: put_manual_position_def trade_key_of_def)

lemma find_put:
  assumes "manual_position_by_trade a t db \<noteq> None" "trade_key_of p = (a, t)"
  shows "manual_position_by_trade a t (put_manual_position p db) = Some p"
proof -
  have "find (\<lambda>p. mn_account_id p = a \<and> mn_trade_id p = t) xs \<noteq> None \<Longrightarrow>
      find (\<lambda>p. mn_account_id p = a \<and> mn_trade_id p = t)
        (map (\<lambda>q. if mn_account_id q = a \<and> mn_trade_id q = t then p else q) xs) = Some p" for xs
    using assms(2) by (induction xs) (auto simp: trade_key_of_def)
  then show ?thesis using assms by (simp add: manual_position_by_trade_def put_manual_position_def trade_key_of_def)
qed

lemma find_append_new:
  assumes "manual_position_by_trade a t db = None" "trade_key_of p = (a, t)"
  shows "manual_position_by_trade a t (db\<lparr>manual_positions := manual_positions db @ [p]\<rparr>) = Some p"
    "trade_key_of q = (a, t) \<Longrightarrow> put_manual_position q (db\<lparr>manual_positions := manual_positions db @ [p]\<rparr>) =
       db\<lparr>manual_positions := manual_positions db @ [q]\<rparr>"
proof -
  have "find (\<lambda>p. mn_account_id p = a \<and> mn_trade_id p = t) (xs @ [p]) = Some p"
    if "find (\<lambda>p. mn_account_id p = a \<and> mn_trade_id p = t) xs = None" for xs
    using that assms(2) by (induction xs) (auto simp: trade_key_of_def split: if_splits)
  then show "manual_position_by_trade a t (db\<lparr>manual_positions := manual_positions db @ [p]\<rparr>) = Some p"
    using assms(1) by (simp add: manual_position_by_trade_def)
  have "map (\<lambda>r. if mn_account_id r = a \<and> mn_trade_id r = t then q else r) (manual_positions db) = manual_positions db"
    using assms(1) unfolding by_trade_None by (intro map_idI) (auto simp: trade_key_of_def)
  then show "put_manual_position q (db\<lparr>manual_positions := manual_positions db @ [p]\<rparr>) =
       db\<lparr>manual_positions := manual_positions db @ [q]\<rparr>" if "trade_key_of q = (a, t)"
    using that assms(2) by (auto simp: put_manual_position_def trade_key_of_def)
qed

text \<open>Applying a fill with its commission is applying it without and charging the position afterwards.\<close>

lemma apply_then_charge:
  assumes "apply_execution now (f\<lparr>mf_commission := 0\<rparr>) db = Inr (y, db0)"
  shows "\<exists>y'. apply_execution now (f\<lparr>mf_commission := c\<rparr>) db =
     Inr (y', case manual_position_by_trade (mf_account_id f) (mf_trade_id f) db0 of
                None \<Rightarrow> db0 | Some p \<Rightarrow> put_manual_position (charge c p) db0)"
proof -
  let ?a = "mf_account_id f" and ?t = "mf_trade_id f"
  obtain d where d: "fill_delta f = Inr d" using assms by (auto simp: apply_execution_def res_bind_Inr_iff)
  show ?thesis
  proof (cases "manual_position_by_trade ?a ?t db")
    case None
    let ?p = "\<lambda>c. new_manual_position now (f\<lparr>mf_commission := c\<rparr>) d (length (manual_positions db) + 1)"
    have k: "trade_key_of (?p 0) = (?a, ?t)" "trade_key_of (charge c (?p 0)) = (?a, ?t)" "?p c = charge c (?p 0)"
      by (simp_all add: new_manual_position_def trade_key_of_def charge_def)
    have db0: "db0 = db\<lparr>manual_positions := manual_positions db @ [?p 0]\<rparr>"
      using assms None by (auto simp: apply_execution_def d res_bind_Inr_iff Let_def)
    have "apply_execution now (f\<lparr>mf_commission := c\<rparr>) db =
        Inr ((?p c, - c), db\<lparr>manual_positions := manual_positions db @ [?p c]\<rparr>)"
      using None by (simp add: apply_execution_def d res_bind_def Let_def)
    moreover have "manual_position_by_trade ?a ?t db0 = Some (?p 0)"
      unfolding db0 by (rule find_append_new(1) [OF None k(1)])
    moreover have "put_manual_position (charge c (?p 0)) db0 = db\<lparr>manual_positions := manual_positions db @ [?p c]\<rparr>"
      unfolding db0 k(3) by (rule find_append_new(2) [OF None k(1) k(2)])
    ultimately show ?thesis by (intro exI) simp
  next
    case (Some pos)
    obtain p delta where f: "fill_position now (f\<lparr>mf_commission := 0\<rparr>) d pos = Inr (p, delta)"
      and db0: "db0 = put_manual_position p db"
      using assms Some by (auto simp: apply_execution_def d res_bind_Inr_iff)
    have k: "trade_key_of p = (?a, ?t)" "trade_key_of (charge c p) = trade_key_of p"
      using fill_keys [OF f] by_trade_Some [OF Some] by (auto simp: trade_key_of_def charge_def)
    have "fill_position now (f\<lparr>mf_commission := c\<rparr>) d pos = Inr (charge c p, delta - c)"
      by (subst fill_position_commission) (simp add: f)
    then have "apply_execution now (f\<lparr>mf_commission := c\<rparr>) db = Inr ((charge c p, delta - c), put_manual_position (charge c p) db)"
      using Some by (simp add: apply_execution_def d res_bind_def)
    moreover have "manual_position_by_trade ?a ?t db0 = Some p"
      unfolding db0 by (rule find_put [OF _ k(1)]) (simp add: Some)
    moreover have "put_manual_position (charge c p) db0 = put_manual_position (charge c p) db"
      unfolding db0 by (rule put_put [OF k(2)])
    ultimately show ?thesis by (intro exI) simp
  qed
qed

lemma put_frame [simp]:
  "manual_orders (put_manual_position p db) = manual_orders db"
  "manual_executions (put_manual_position p db) = manual_executions db"
  by (simp_all add: put_manual_position_def)

lemma update_order_frame [simp]:
  "manual_positions (update_order i f db) = manual_positions db"
  "manual_executions (update_order i f db) = manual_executions db"
  "manual_positions (update_order_status i s b p su c rr db) = manual_positions db"
  "manual_executions (update_order_status i s b p su c rr db) = manual_executions db"
  by (simp_all add: update_order_def update_order_status_def)

lemma capture_perm_frame [simp]:
  "manual_positions (capture_perm p x db) = manual_positions db"
  "manual_executions (capture_perm p x db) = manual_executions db"
  by (simp_all add: capture_perm_def split: option.split)

text \<open>A fill reads and writes positions only.\<close>

lemma by_trade_executions [simp]:
  "manual_position_by_trade a t (db\<lparr>manual_executions := es\<rparr>) = manual_position_by_trade a t db"
  by (simp add: manual_position_by_trade_def)

lemma apply_executions:
  "apply_execution now f (db\<lparr>manual_executions := es\<rparr>) =
     map_sum id (\<lambda>(y, db'). (y, db'\<lparr>manual_executions := es\<rparr>)) (apply_execution now f db)"
  by (auto simp: apply_execution_def res_bind_def put_manual_position_def Let_def
      split: sum.splits option.splits prod.splits)

lemma apply_frame:
  assumes "apply_execution now f db = Inr (y, db')"
  shows "manual_orders db' = manual_orders db" "manual_executions db' = manual_executions db"
  using assms by (auto simp: apply_execution_def res_bind_Inr_iff Let_def split: option.splits)

lemma fill_of_commission:
  "fill_of x r None = (fill_of x r None)\<lparr>mf_commission := 0\<rparr>"
  "fill_of x r (Some c) = (fill_of x r None)\<lparr>mf_commission := c\<rparr>"
  by (simp_all add: fill_of_def)

text \<open>What an accepted execution leaves behind, for a commission that came first or not.\<close>

definition booked_execution ::
  "datetime \<Rightarrow> string \<Rightarrow> exec_report \<Rightarrow> (decimal \<times> string) option \<Rightarrow> manual_order \<Rightarrow> manual_db \<Rightarrow> manual_db \<Rightarrow> manual_db" where
  "booked_execution now exec_id r pending x db db2 =
     (let es = manual_executions db @ [exec_row exec_id x r pending];
          filled = sum_list (map me_quantity (filter (\<lambda>e. me_order_id e = mo_id x) es))
      in case status_after_fill now filled x of (status, completed) \<Rightarrow>
           update_order_status (mo_id x) status None None None completed None (db2\<lparr>manual_executions := es\<rparr>))"

lemma exec_on_fresh:
  assumes "execution_by_id exec_id db = None"
  shows "exec_on now exec_id r pending x db =
     (let D = capture_perm (xr_perm_id r) x db in
      if (case manual_position_by_trade (mo_account_id x) (mo_trade_id x) D of
            None \<Rightarrow> False | Some p \<Rightarrow> mn_status p = MP_CLOSED \<and> mn_signed_qty p = 0)
      then (False, D)
      else (case apply_execution now (fill_of x r (map_option fst pending)) D of
              Inl _ \<Rightarrow> (False, D\<lparr>manual_executions := manual_executions D @ [exec_row exec_id x r pending]\<rparr>)
            | Inr (_, db2) \<Rightarrow> (True, booked_execution now exec_id r pending x D db2)))"
proof -
  let ?D = "capture_perm (xr_perm_id r) x db"
  have n: "execution_by_id exec_id ?D = None" using assms by (simp add: execution_by_id_def)
  have "record_execution_with_dedup (exec_row exec_id x r pending) ?D =
      ((exec_row exec_id x r pending, True), ?D\<lparr>manual_executions := manual_executions ?D @ [exec_row exec_id x r pending]\<rparr>)"
    using n by (simp add: record_execution_with_dedup_def exec_row_def)
  then show ?thesis
    by (auto simp: exec_on_def apply_executions booked_execution_def executions_of_order_def Let_def
        split: sum.splits prod.splits)
qed

lemma order_lookup_frame [simp]:
  "order_by_id i (db\<lparr>manual_executions := es\<rparr>) = order_by_id i db"
  by (simp add: order_by_id_def)

lemma capture_perm_row:
  assumes "order_by_id i db = Some y"
  shows "\<exists>y'. order_by_id i (capture_perm p x db) = Some y' \<and> mo_account_id y' = mo_account_id y \<and>
     mo_trade_id y' = mo_trade_id y"
proof (cases p)
  case (Some v)
  then show ?thesis
    using assms update_order_lookup [of "\<lambda>o'. o'\<lparr>mo_perm_id := Some v\<rparr>" i "mo_id x" db]
    by (simp add: capture_perm_def)
qed (use assms in \<open>simp add: capture_perm_def\<close>)

lemma find_snoc: "\<forall>x \<in> set xs. \<not> P x \<Longrightarrow> P y \<Longrightarrow> find P (xs @ [y]) = Some y"
  by (induction xs) auto

lemma charge_commutes:
  "charge_position c x (update_order_status i s b p su cc rr (db\<lparr>manual_executions := es\<rparr>)) =
     update_order_status i s b p su cc rr
       ((case manual_position_by_trade (mo_account_id x) (mo_trade_id x) db of
           None \<Rightarrow> db | Some q \<Rightarrow> put_manual_position (charge c q) db)\<lparr>manual_executions := es\<rparr>)"
proof -
  have "manual_position_by_trade a t (update_order_status i s b p su cc rr (db\<lparr>manual_executions := es\<rparr>)) =
      manual_position_by_trade a t db" for a t
    by (simp add: manual_position_by_trade_def)
  then show ?thesis
    by (cases "manual_position_by_trade (mo_account_id x) (mo_trade_id x) db")
       (simp_all add: charge_position_def charge_def put_manual_position_def update_order_status_def update_order_def)
qed

lemma commission_on_booked:
  assumes fresh: "execution_by_id exec_id db = None" and e: "db1 = booked_execution now exec_id r None x db db2"
    and id: "order_by_id (mo_id x) db = Some x0" "mo_account_id x0 = mo_account_id x" "mo_trade_id x0 = mo_trade_id x"
    and fr: "manual_orders db2 = manual_orders db"
  shows "case update_commission exec_id c (Some cur) db1 of ((row, ok), db3) \<Rightarrow>
           ok \<and> (\<exists>rw. execution_by_id exec_id db1 = Some rw \<and> me_order_id rw = mo_id x) \<and>
           (case order_by_id (mo_id x) db3 of None \<Rightarrow> db3 | Some o' \<Rightarrow> charge_position c o' db3) =
           booked_execution now exec_id r (Some (c, cur)) x db
             (case manual_position_by_trade (mo_account_id x) (mo_trade_id x) db2 of
                None \<Rightarrow> db2 | Some p \<Rightarrow> put_manual_position (charge c p) db2)"
proof -
  let ?es = "manual_executions db" and ?row = "exec_row exec_id x r None" and ?rowc = "exec_row exec_id x r (Some (c, cur))"
  have e1: "manual_executions db1 = ?es @ [?row]" "manual_positions db1 = manual_positions db2"
    by (simp_all add: e booked_execution_def Let_def split: prod.split)
  have no: "me_exec_id e' \<noteq> exec_id" if "e' \<in> set ?es" for e'
    using fresh that by (auto simp: execution_by_id_def find_None_iff)
  have f: "find (\<lambda>e. me_exec_id e = exec_id) (?es @ [?row]) = Some ?row"
    by (rule find_snoc) (use no in \<open>auto simp: exec_row_def\<close>)
  have found: "execution_by_id exec_id db1 = Some ?row" by (simp add: execution_by_id_def e1 f)
  have upd: "map (\<lambda>e. if me_exec_id e = exec_id then e\<lparr>me_commission := Some c,
      me_commission_currency := or_new (Some cur) (me_commission_currency e)\<rparr> else e) (?es @ [?row]) = ?es @ [?rowc]"
    using no by (auto simp: exec_row_def or_new_def intro!: map_idI)
  have uc: "update_commission exec_id c (Some cur) db1 =
      ((Some (?row\<lparr>me_commission := Some c, me_commission_currency := or_new (Some cur) (me_commission_currency ?row)\<rparr>), True),
       db1\<lparr>manual_executions := ?es @ [?rowc]\<rparr>)"
    by (simp add: update_commission_def found upd [symmetric] e1 Let_def) (simp add: exec_row_def)
  let ?filled = "sum_list (map me_quantity (filter (\<lambda>e. me_order_id e = mo_id x) (?es @ [?row])))"
  obtain s comp where sc: "status_after_fill now ?filled x = (s, comp)" by (metis surj_pair)
  let ?U = "update_order_status (mo_id x) s None None None comp None"
  have db1: "db1 = ?U (db2\<lparr>manual_executions := ?es @ [?row]\<rparr>)"
    by (simp only: e booked_execution_def Let_def sc prod.case)
  have db3: "db1\<lparr>manual_executions := ?es @ [?rowc]\<rparr> = ?U (db2\<lparr>manual_executions := ?es @ [?rowc]\<rparr>)"
    by (simp add: db1 update_order_status_def update_order_def)
  have "order_by_id (mo_id x) db2 = Some x0" using id(1) fr by (simp add: order_by_id_def)
  then obtain o' where o': "order_by_id (mo_id x) (db1\<lparr>manual_executions := ?es @ [?rowc]\<rparr>) = Some o'"
    "mo_account_id o' = mo_account_id x" "mo_trade_id o' = mo_trade_id x"
    using id(2,3) by (simp add: db1 update_status_lookup)
  have "sum_list (map me_quantity (filter (\<lambda>e. me_order_id e = mo_id x) (?es @ [?rowc]))) = ?filled"
    by (simp add: exec_row_def)
  then have "booked_execution now exec_id r (Some (c, cur)) x db d = ?U (d\<lparr>manual_executions := ?es @ [?rowc]\<rparr>)" for d
    by (simp only: booked_execution_def Let_def sc prod.case)
  moreover have "charge_position c o' (?U (db2\<lparr>manual_executions := ?es @ [?rowc]\<rparr>)) =
      ?U ((case manual_position_by_trade (mo_account_id x) (mo_trade_id x) db2 of
             None \<Rightarrow> db2 | Some p \<Rightarrow> put_manual_position (charge c p) db2)\<lparr>manual_executions := ?es @ [?rowc]\<rparr>)"
    using charge_commutes [of c o'] by (simp only: o'(2,3))
  moreover have "me_order_id ?row = mo_id x" by (simp add: exec_row_def)
  ultimately show ?thesis
    unfolding uc prod.case db3 o'(1) [unfolded db3] option.case using found by auto
qed

section \<open>Once, whatever comes first\<close>

text \<open>A repeated execution writes no execution and no position.\<close>

lemma duplicate_execution:
  assumes "execution_by_id (py_strip (xr_exec_id r)) (cb_db st) \<noteq> None"
  shows "\<not> fst (handle_exec_details now accounts contract r st) \<and>
    manual_executions (cb_db (snd (handle_exec_details now accounts contract r st))) = manual_executions (cb_db st) \<and>
    manual_positions (cb_db (snd (handle_exec_details now accounts contract r st))) = manual_positions (cb_db st)"
proof -
  have "fst (exec_on now (py_strip (xr_exec_id r)) r p x (cb_db st)) = False \<and>
      manual_executions (snd (exec_on now (py_strip (xr_exec_id r)) r p x (cb_db st))) = manual_executions (cb_db st) \<and>
      manual_positions (snd (exec_on now (py_strip (xr_exec_id r)) r p x (cb_db st))) = manual_positions (cb_db st)" for p x
    using assms
    by (auto simp: exec_on_def record_execution_with_dedup_def exec_row_def execution_by_id_def Let_def)
  then show ?thesis
    by (auto simp: handle_exec_details_def Let_def split: option.split prod.split)
       (metis fst_conv snd_conv)+
qed

lemma first_some_Some: "first_some a b = Some x \<longleftrightarrow> a = Some x \<or> a = None \<and> b = Some x"
  by (simp add: first_some_def split: option.split)

lemma correlate_member:
  assumes "correlate accounts contract r db = Some x"
  shows "x \<in> set (manual_orders db)"
proof -
  let ?acct = "py_upper (py_strip (xr_acct_number r))"
  let ?a = "if ?acct = [] then None else accounts ?acct"
  have "correlate_ref acct a contract r db = Some x \<Longrightarrow> x \<in> set (manual_orders db)" for acct a
    by (auto simp: correlate_ref_def Let_def split: if_splits option.splits dest: found_members)
  moreover have "correlate_perm a contract r db = Some x \<Longrightarrow> x \<in> set (manual_orders db)" for a
    by (auto simp: correlate_perm_def split: if_splits option.splits dest: found_members)
  moreover have "correlate_broker a contract r db = Some x \<Longrightarrow> x \<in> set (manual_orders db)" for a
    by (auto simp: correlate_broker_def split: if_splits option.splits dest: found_members)
  moreover have "correlate_ref ?acct ?a contract r db = Some x \<or> correlate_perm ?a contract r db = Some x \<or>
      correlate_broker ?a contract r db = Some x"
  proof (cases "first_some (correlate_ref ?acct ?a contract r db)
      (first_some (correlate_perm ?a contract r db) (correlate_broker ?a contract r db))")
    case None
    then show ?thesis using assms unfolding correlate_def Let_def None by simp
  next
    case (Some y)
    then have "y = x" using assms unfolding correlate_def Let_def Some by (simp split: if_split_asm)
    then show ?thesis using Some unfolding first_some_Some by blast
  qed
  ultimately show ?thesis by metis
qed

lemma commission_either_order:
  assumes ids: "order_ids_distinct (cb_db st)" and fresh: "execution_by_id (py_strip (xr_exec_id r)) (cb_db st) = None"
    and none: "cb_pending st (py_strip (xr_exec_id r)) = None"
    and acc: "fst (handle_exec_details now accounts contract r st)"
  shows "snd (handle_commission_report (xr_exec_id r) c cur (snd (handle_exec_details now accounts contract r st))) =
         snd (handle_exec_details now accounts contract r (snd (handle_commission_report (xr_exec_id r) c cur st)))"
proof -
  let ?id = "py_strip (xr_exec_id r)" and ?cur = "if cur = [] then ''USD'' else cur"
  have e: "?id \<noteq> []" using acc by (auto simp: handle_exec_details_def)
  have clear: "(cb_pending st)(?id := None) = cb_pending st" using none by auto
  obtain x where x: "correlate accounts contract r (cb_db st) = Some x"
    using acc e by (auto simp: handle_exec_details_def Let_def split: option.splits)
  let ?D = "capture_perm (xr_perm_id r) x (cb_db st)"
  obtain y db2 where open': "\<not> (case manual_position_by_trade (mo_account_id x) (mo_trade_id x) ?D of
        None \<Rightarrow> False | Some p \<Rightarrow> mn_status p = MP_CLOSED \<and> mn_signed_qty p = 0)"
    and ap: "apply_execution now (fill_of x r None) ?D = Inr (y, db2)"
    using acc e by (auto simp: handle_exec_details_def x none exec_on_fresh [OF fresh] Let_def
        split: prod.splits sum.splits if_splits)
  let ?db1 = "booked_execution now ?id r None x ?D db2"
  let ?db2' = "case manual_position_by_trade (mo_account_id x) (mo_trade_id x) db2 of
      None \<Rightarrow> db2 | Some p \<Rightarrow> put_manual_position (charge c p) db2"
  have first: "snd (handle_exec_details now accounts contract r st) = st\<lparr>cb_db := ?db1\<rparr>"
    using e open' by (simp add: handle_exec_details_def x none clear exec_on_fresh [OF fresh] ap Let_def)
  obtain y' where "apply_execution now (fill_of x r (Some c)) ?D = Inr (y', ?db2')"
    using apply_then_charge [of now "fill_of x r None" ?D y db2 c] ap
    by (auto simp: fill_of_commission(2) fill_of_commission(1) [symmetric]) (auto simp: fill_of_def)
  then have second: "snd (handle_exec_details now accounts contract r (snd (handle_commission_report (xr_exec_id r) c cur st))) =
      st\<lparr>cb_db := booked_execution now ?id r (Some (c, ?cur)) x ?D ?db2'\<rparr>"
    using e open' by (simp add: handle_commission_report_def handle_exec_details_def x fresh exec_on_fresh [OF fresh] clear Let_def)
  have "x \<in> set (manual_orders (cb_db st))" by (rule correlate_member [OF x])
  from capture_perm_row [OF order_by_id_member [OF ids this], of "xr_perm_id r" x]
  obtain x0 where x0: "order_by_id (mo_id x) ?D = Some x0" "mo_account_id x0 = mo_account_id x" "mo_trade_id x0 = mo_trade_id x"
    by blast
  have fD: "execution_by_id ?id ?D = None" using fresh by (simp add: execution_by_id_def)
  from commission_on_booked [OF fD refl x0 apply_frame(1) [OF ap], of now r c ?cur]
  have "snd (handle_commission_report (xr_exec_id r) c cur (st\<lparr>cb_db := ?db1\<rparr>)) =
      st\<lparr>cb_db := booked_execution now ?id r (Some (c, ?cur)) x ?D ?db2'\<rparr>"
    using e by (auto simp: handle_commission_report_def Let_def split: prod.splits)
  then show ?thesis by (simp only: first second)
qed


definition sample_report :: "string \<Rightarrow> decimal \<Rightarrow> exec_report" where
  "sample_report exec_id shares =
     \<lparr>xr_exec_id = exec_id, xr_order_id = Some 5, xr_perm_id = Some 77, xr_order_ref = ''MAN_1'', xr_acct_number = ''du7'',
      xr_shares = shares, xr_price = 50, xr_side = Some ''BOT'', xr_executed_at = 3\<rparr>"

definition sample_callbacks :: "manual_order_status \<Rightarrow> callback_state" where
  "sample_callbacks status = \<lparr>cb_db = sample_callback_db status, cb_pending = Map.empty\<rparr>"


text \<open>An order the gateway reported as filled goes back to partially filled when the first of its executions
  arrives.\<close>

lemma filled_goes_back:
  "map mo_status (manual_orders (cb_db (snd (handle_exec_details 4 [''DU7'' \<mapsto> 7] None (sample_report ''E1'' 4)
     (sample_callbacks MO_FILLED))))) = [MO_PARTIALLY_FILLED]"
  by code_simp

text \<open>A fill whose side is not known is recorded, so that it is a duplicate from then on, and never booked.\<close>

lemma unknown_side_is_lost:
  "let st = snd (handle_exec_details 4 [''DU7'' \<mapsto> 7] None ((sample_report ''E1'' 4)\<lparr>xr_side := None\<rparr>)
              (sample_callbacks MO_SUBMITTED))
   in length (manual_executions (cb_db st)) = 1 \<and> manual_positions (cb_db st) = []"
  by code_simp

end
