(* ===== verification/Kill_Switch.thy ===== *)
theory Kill_Switch
  imports Position_Ledger Manual_Ledger
begin

text \<open>
  \<open>services/kill_switch.py\<close>, first part: the operations table of \<open>db/models/kill_switch.py\<close>, the caches that
  the gates read, arming, clearing and hydration, the snapshot of the positions an operation is about,
  the guarded completion of an operation, and which worker a restart or a retry starts for it.

  Each transaction is one step. Identifiers of operations are numbers in the order of creation.
\<close>

section \<open>Tables and caches\<close>

datatype ks_status =
    KS_ACTIVATING | KS_FLATTENING | KS_RECONCILING | KS_RETRYING | KS_FLAT | KS_COMPLETE | KS_UNRESOLVED | KS_CLEARED

datatype ks_scope = ScopeEngine | ScopeAccount | ScopeManual

record ks_operation =
  ks_id :: nat
  ks_account_id :: int
  ks_ibkr_account :: string
  ks_scope_of :: ks_scope
  ks_status_of :: ks_status
  ks_requested_by :: string
  ks_initial_count :: int
  ks_flattened_count :: int
  ks_unresolved_count :: int
  ks_cleared_at :: "datetime option"
  ks_cleared_by :: "string option"
  ks_created_at :: datetime

datatype position_type = EnginePosition | ManualPosition

record ks_snapshot =
  sn_operation :: nat
  sn_account_id :: int
  sn_type :: position_type
  sn_trade_id :: string
  sn_leg_a_symbol :: "string option"
  sn_leg_a_qty :: "decimal option"
  sn_leg_b_symbol :: "string option"
  sn_leg_b_qty :: "decimal option"
  sn_manual_id :: "nat option"
  sn_symbol :: "string option"
  sn_con_id :: "int option"
  sn_sec_type :: "string option"
  sn_signed_qty :: "decimal option"
  sn_avg_cost :: "decimal option"
  sn_opened_at :: "datetime option"

record ks_state =
  ks_ops :: "ks_operation list"
  ks_snapshots :: "ks_snapshot list"
  ks_active :: "int set"
  ks_manual_active :: "int set"
  ks_ledger :: ledger
  ks_manual :: manual_db

definition ARMED_STATUSES :: "ks_status list" where
  "ARMED_STATUSES =
     [KS_ACTIVATING, KS_FLATTENING, KS_RECONCILING, KS_RETRYING, KS_FLAT, KS_COMPLETE, KS_UNRESOLVED]"

definition MANUAL_FLATTEN_ACTIVE_STATUSES :: "ks_status list" where
  "MANUAL_FLATTEN_ACTIVE_STATUSES = [KS_ACTIVATING, KS_FLATTENING, KS_RECONCILING, KS_RETRYING]"

definition is_account_kill_switch_active :: "int \<Rightarrow> ks_state \<Rightarrow> bool" where
  "is_account_kill_switch_active account_id st \<longleftrightarrow> account_id \<in> ks_active st"

definition is_manual_kill_switch_active :: "int \<Rightarrow> ks_state \<Rightarrow> bool" where
  "is_manual_kill_switch_active account_id st \<longleftrightarrow> account_id \<in> ks_manual_active st"

text \<open>The newest of the operations that satisfy a condition.\<close>

definition latest_op :: "(ks_operation \<Rightarrow> bool) \<Rightarrow> ks_operation list \<Rightarrow> ks_operation option" where
  "latest_op P ops =
     (case rev (sort_key ks_created_at (filter P ops)) of [] \<Rightarrow> None | x # _ \<Rightarrow> Some x)"

definition blocks_opens :: "ks_operation \<Rightarrow> bool" where
  "blocks_opens x \<longleftrightarrow> ks_scope_of x \<in> {ScopeEngine, ScopeAccount} \<and> ks_status_of x \<in> set ARMED_STATUSES"

definition get_armed_kill_switch_operation :: "int \<Rightarrow> ks_scope option \<Rightarrow> ks_state \<Rightarrow> ks_operation option" where
  "get_armed_kill_switch_operation account_id scope st =
     latest_op (\<lambda>x. ks_account_id x = account_id \<and> ks_status_of x \<in> set ARMED_STATUSES \<and>
                    (case scope of Some s \<Rightarrow> ks_scope_of x = s
                     | None \<Rightarrow> ks_scope_of x \<in> {ScopeEngine, ScopeAccount})) (ks_ops st)"

definition manual_in_flight :: "ks_operation \<Rightarrow> bool" where
  "manual_in_flight x \<longleftrightarrow> ks_scope_of x = ScopeManual \<and> ks_status_of x \<in> set MANUAL_FLATTEN_ACTIVE_STATUSES"

definition get_active_manual_kill_switch_operation :: "int \<Rightarrow> ks_state \<Rightarrow> ks_operation option" where
  "get_active_manual_kill_switch_operation account_id st =
     latest_op (\<lambda>x. ks_account_id x = account_id \<and> manual_in_flight x) (ks_ops st)"

definition arm_kill_switch_cache :: "int \<Rightarrow> ks_state \<Rightarrow> ks_state" where
  "arm_kill_switch_cache account_id st = st\<lparr>ks_active := insert account_id (ks_active st)\<rparr>"

definition clear_account_kill_switch_cache :: "int \<Rightarrow> ks_state \<Rightarrow> ks_state" where
  "clear_account_kill_switch_cache account_id st =
     st\<lparr>ks_active := ks_active st - {account_id}, ks_manual_active := ks_manual_active st - {account_id}\<rparr>"

definition hydrate_kill_switch_cache :: "ks_state \<Rightarrow> int set \<times> ks_state" where
  "hydrate_kill_switch_cache st =
     (let armed = set (map ks_account_id (filter blocks_opens (ks_ops st)));
          man = set (map ks_account_id (filter manual_in_flight (ks_ops st)))
      in (armed, st\<lparr>ks_active := armed, ks_manual_active := man\<rparr>))"

definition clear_account_kill_switch ::
  "datetime \<Rightarrow> int \<Rightarrow> string \<Rightarrow> ks_scope option \<Rightarrow> ks_state \<Rightarrow> nat \<times> ks_state" where
  "clear_account_kill_switch now account_id cleared_by scope st =
     (let hit = (\<lambda>x. ks_account_id x = account_id \<and> ks_status_of x \<in> set ARMED_STATUSES \<and>
                     (case scope of None \<Rightarrow> True | Some s \<Rightarrow> ks_scope_of x = s));
          st1 = st\<lparr>ks_ops := map (\<lambda>x. if hit x then x\<lparr>ks_status_of := KS_CLEARED, ks_cleared_at := Some now,
                                        ks_cleared_by := Some cleared_by\<rparr> else x) (ks_ops st)\<rparr>;
          st2 = (if scope = None \<or> scope \<in> {Some ScopeEngine, Some ScopeAccount}
                 then st1\<lparr>ks_active := ks_active st1 - {account_id}\<rparr> else st1);
          st3 = (if scope = None \<or> scope = Some ScopeManual
                 then st2\<lparr>ks_manual_active := ks_manual_active st2 - {account_id}\<rparr> else st2)
      in (length (filter hit (ks_ops st)), st3))"

section \<open>Starting an operation\<close>

definition new_operation ::
  "datetime \<Rightarrow> nat \<Rightarrow> int \<Rightarrow> string \<Rightarrow> ks_scope \<Rightarrow> ks_status \<Rightarrow> string \<Rightarrow> int \<Rightarrow> ks_operation" where
  "new_operation now op_id account_id ibkr scope status requested_by count =
     \<lparr>ks_id = op_id, ks_account_id = account_id, ks_ibkr_account = ibkr, ks_scope_of = scope, ks_status_of = status,
      ks_requested_by = requested_by, ks_initial_count = count, ks_flattened_count = 0, ks_unresolved_count = 0,
      ks_cleared_at = None, ks_cleared_by = None, ks_created_at = now\<rparr>"

definition open_engine_rows :: "int \<Rightarrow> ledger \<Rightarrow> ledger" where
  "open_engine_rows account_id rows = filter (\<lambda>r. p_account_id r = account_id \<and> p_risk_state r = RS_OPEN) rows"

definition first_active :: "int \<Rightarrow> ks_scope \<Rightarrow> ks_status list \<Rightarrow> ks_state \<Rightarrow> ks_operation option" where
  "first_active account_id scope statuses st =
     find (\<lambda>x. ks_account_id x = account_id \<and> ks_scope_of x = scope \<and> ks_status_of x \<in> set statuses) (ks_ops st)"

definition add_operation :: "ks_operation \<Rightarrow> ks_state \<Rightarrow> ks_state" where
  "add_operation x st = st\<lparr>ks_ops := ks_ops st @ [x]\<rparr>"

definition initiate_square_off ::
  "datetime \<Rightarrow> (int \<rightharpoonup> string) \<Rightarrow> int \<Rightarrow> string \<Rightarrow> ks_state \<Rightarrow> (ks_operation \<times> bool) result \<times> ks_state" where
  "initiate_square_off now accounts account_id requested_by st =
     (case accounts account_id of
        None \<Rightarrow> (Inl (ValueError ''Account not found.''), st)
      | Some ibkr \<Rightarrow>
          (case first_active account_id ScopeEngine ARMED_STATUSES st of
             Some existing \<Rightarrow> (Inr (existing, False), st)
           | None \<Rightarrow>
               (let x = new_operation now (length (ks_ops st)) account_id ibkr ScopeEngine KS_ACTIVATING requested_by
                          (int (length (open_engine_rows account_id (ks_ledger st))))
                in (Inr (x, True), arm_kill_switch_cache account_id (add_operation x st)))))"

definition engine_snapshot :: "nat \<Rightarrow> position \<Rightarrow> ks_snapshot" where
  "engine_snapshot op_id p =
     \<lparr>sn_operation = op_id, sn_account_id = p_account_id p, sn_type = EnginePosition, sn_trade_id = p_trade_id p,
      sn_leg_a_symbol = Some (p_leg_a_symbol p), sn_leg_a_qty = Some (p_leg_a_signed_qty p),
      sn_leg_b_symbol = p_leg_b_symbol p, sn_leg_b_qty = p_leg_b_signed_qty p, sn_manual_id = None, sn_symbol = None,
      sn_con_id = None, sn_sec_type = None, sn_signed_qty = None, sn_avg_cost = None, sn_opened_at = Some (p_opened_at p)\<rparr>"

definition manual_snapshot :: "nat \<Rightarrow> manual_position \<Rightarrow> ks_snapshot" where
  "manual_snapshot op_id m =
     \<lparr>sn_operation = op_id, sn_account_id = mn_account_id m, sn_type = ManualPosition, sn_trade_id = mn_trade_id m,
      sn_leg_a_symbol = None, sn_leg_a_qty = None, sn_leg_b_symbol = None, sn_leg_b_qty = None,
      sn_manual_id = Some (mn_id m), sn_symbol = Some (mn_symbol m), sn_con_id = Some (mn_con_id m),
      sn_sec_type = Some (mn_sec_type m), sn_signed_qty = Some (mn_signed_qty m), sn_avg_cost = Some (mn_avg_cost m),
      sn_opened_at = Some (mn_opened_at m)\<rparr>"

definition manual_rows :: "int \<Rightarrow> manual_position_status list \<Rightarrow> manual_db \<Rightarrow> manual_position list" where
  "manual_rows account_id statuses db =
     filter (\<lambda>m. mn_account_id m = account_id \<and> mn_status m \<in> set statuses) (manual_positions db)"

definition arm_account_kill_switch_only ::
  "datetime \<Rightarrow> (int \<rightharpoonup> string) \<Rightarrow> int \<Rightarrow> string \<Rightarrow> ks_state \<Rightarrow> (ks_operation \<times> bool) result \<times> ks_state" where
  "arm_account_kill_switch_only now accounts account_id requested_by st =
     (case accounts account_id of
        None \<Rightarrow> (Inl (ValueError ''Account not found.''), st)
      | Some ibkr \<Rightarrow>
          (case first_active account_id ScopeAccount ARMED_STATUSES st of
             Some existing \<Rightarrow> (Inr (existing, False), arm_kill_switch_cache account_id st)
           | None \<Rightarrow>
               (let eng = open_engine_rows account_id (ks_ledger st); man = manual_rows account_id [MP_OPEN] (ks_manual st);
                    op_id = length (ks_ops st);
                    x = new_operation now op_id account_id ibkr ScopeAccount KS_ACTIVATING requested_by
                          (int (length eng + length man));
                    st1 = add_operation x st
                in (Inr (x, True), arm_kill_switch_cache account_id
                      (st1\<lparr>ks_snapshots := ks_snapshots st1 @ map (engine_snapshot op_id) eng @
                            map (manual_snapshot op_id) man\<rparr>)))))"

definition initiate_manual_square_off ::
  "datetime \<Rightarrow> (int \<rightharpoonup> string) \<Rightarrow> int \<Rightarrow> string \<Rightarrow> ks_state \<Rightarrow> (ks_operation \<times> bool) result \<times> ks_state" where
  "initiate_manual_square_off now accounts account_id requested_by st =
     (case accounts account_id of
        None \<Rightarrow> (Inl (ValueError ''Account not found.''), st)
      | Some ibkr \<Rightarrow>
          (case first_active account_id ScopeManual MANUAL_FLATTEN_ACTIVE_STATUSES st of
             Some existing \<Rightarrow> (Inr (existing, False), st\<lparr>ks_manual_active := insert account_id (ks_manual_active st)\<rparr>)
           | None \<Rightarrow>
               (let man = manual_rows account_id [MP_OPEN, MP_CLOSING, MP_FLATTENED_PENDING_PRICE] (ks_manual st);
                    op_id = length (ks_ops st)
                in if man = []
                   then (let x = new_operation now op_id account_id ibkr ScopeManual KS_COMPLETE requested_by 0
                         in (Inr (x, True), add_operation x st))
                   else (let x = new_operation now op_id account_id ibkr ScopeManual KS_ACTIVATING requested_by (int (length man));
                             st1 = add_operation x st
                         in (Inr (x, True),
                             st1\<lparr>ks_snapshots := ks_snapshots st1 @ map (manual_snapshot op_id) man,
                                 ks_manual_active := insert account_id (ks_manual_active st1)\<rparr>)))))"

section \<open>Completing an operation\<close>

definition update_operation :: "nat \<Rightarrow> (ks_operation \<Rightarrow> ks_operation) \<Rightarrow> ks_state \<Rightarrow> ks_state" where
  "update_operation op_id f st = st\<lparr>ks_ops := map (\<lambda>x. if ks_id x = op_id then f x else x) (ks_ops st)\<rparr>"

definition complete_row :: "ks_status \<Rightarrow> int \<Rightarrow> ks_operation \<Rightarrow> ks_operation" where
  "complete_row final_status unresolved x =
     (if ks_status_of x = KS_COMPLETE \<and> final_status \<noteq> KS_COMPLETE then x
      else if ks_status_of x = KS_CLEARED then x
      else x\<lparr>ks_status_of := final_status, ks_unresolved_count := unresolved,
             ks_flattened_count := max 0 (ks_initial_count x - unresolved)\<rparr>)"

definition update_operation_completion :: "nat \<Rightarrow> ks_status \<Rightarrow> int \<Rightarrow> ks_state \<Rightarrow> ks_state" where
  "update_operation_completion op_id final_status unresolved = update_operation op_id (complete_row final_status unresolved)"

text \<open>The first transaction of a flatten worker: whether it goes on, with the operation locked.\<close>

definition start_flatten :: "nat \<Rightarrow> ks_state \<Rightarrow> ks_operation option \<times> ks_state" where
  "start_flatten op_id st =
     (case find (\<lambda>x. ks_id x = op_id) (ks_ops st) of
        None \<Rightarrow> (None, st)
      | Some x \<Rightarrow>
          if ks_status_of x \<in> {KS_COMPLETE, KS_UNRESOLVED, KS_CLEARED} then (None, st)
          else (Some (x\<lparr>ks_status_of := KS_FLATTENING\<rparr>),
                update_operation op_id (\<lambda>y. y\<lparr>ks_status_of := KS_FLATTENING\<rparr>) st))"

section \<open>Workers after a restart and on retry\<close>

datatype ks_worker = EngineFlatten nat | ManualFlatten nat

definition resume_incomplete_flattens :: "ks_state \<Rightarrow> ks_worker list" where
  "resume_incomplete_flattens st =
     map (\<lambda>x. if ks_scope_of x = ScopeManual then ManualFlatten (ks_id x) else EngineFlatten (ks_id x))
       (filter (\<lambda>x. ks_status_of x \<in> {KS_ACTIVATING, KS_FLATTENING, KS_RECONCILING}) (ks_ops st))"

datatype ks_retry = RetryManual nat int | RetryAccount nat int | RetryEngine nat int

definition retry_of :: "ks_snapshot list \<Rightarrow> ks_operation \<Rightarrow> ks_retry" where
  "retry_of snapshots x =
     (case ks_scope_of x of
        ScopeManual \<Rightarrow> RetryManual (ks_id x) (ks_account_id x)
      | ScopeAccount \<Rightarrow> RetryAccount (ks_id x) (ks_account_id x)
      | ScopeEngine \<Rightarrow>
          if list_ex (\<lambda>s. sn_operation s = ks_id x) snapshots
          then RetryAccount (ks_id x) (ks_account_id x) else RetryEngine (ks_id x) (ks_account_id x))"

definition unresolved_ops :: "int option \<Rightarrow> ks_state \<Rightarrow> ks_operation list" where
  "unresolved_ops account_id st =
     filter (\<lambda>x. ks_status_of x \<in> {KS_UNRESOLVED, KS_RECONCILING} \<and>
                 (case account_id of None \<Rightarrow> True | Some a \<Rightarrow> ks_account_id x = a)) (ks_ops st)"

definition retry_unresolved_operations :: "nat set \<Rightarrow> int option \<Rightarrow> ks_state \<Rightarrow> ks_retry list" where
  "retry_unresolved_operations in_flight account_id st =
     map (retry_of (ks_snapshots st)) (filter (\<lambda>x. ks_id x \<notin> in_flight) (unresolved_ops account_id st))"

definition attempt_finalize_for_account :: "nat set \<Rightarrow> int \<Rightarrow> ks_state \<Rightarrow> ks_retry option" where
  "attempt_finalize_for_account in_flight account_id st =
     (case latest_op (\<lambda>x. ks_account_id x = account_id \<and> ks_status_of x \<in> {KS_UNRESOLVED, KS_RECONCILING}) (ks_ops st) of
        None \<Rightarrow> None
      | Some x \<Rightarrow> if ks_id x \<in> in_flight then None else Some (RetryEngine (ks_id x) account_id))"

end
