(* ===== verification/Kill_Switch_Flatten.thy ===== *)
theory Kill_Switch_Flatten
  imports Kill_Switch Flatten Order_Manager
begin

text \<open>
  \<open>services/kill_switch.py\<close>, second part: the flatten of the engine positions of an account. One position
  is closed by a market basket of reversed legs under its flatten key, and its ledger row is closed when
  the fills cover the open quantities; the reconciliation afterwards repairs rows whose close orders are
  recorded as filled and decides how the operation ends; an account flatten done outside the engine is
  allocated first in first out to the positions of the snapshot.

  The coordinator is the one of \<open>Coordinator\<close>. Rows of \<open>orders\<close>, \<open>executions\<close>, \<open>broker_positions\<close> and
  \<open>trade_executions\<close> are inputs.
\<close>

section \<open>Flattening one position\<close>

definition reverse_leg :: "string option \<Rightarrow> decimal option \<Rightarrow> string option \<Rightarrow> int \<Rightarrow> order_leg list" where
  "reverse_leg symbol signed itype index =
     (case (symbol, signed) of
        (Some s, Some x) \<Rightarrow>
          if s \<noteq> [] \<and> \<bar>x\<bar> > 0
          then [\<lparr>leg_symbol = s, leg_side = (if x > 0 then SELL else BUY), leg_quantity = \<bar>x\<bar>, leg_price = 0,
                 leg_contract_month = None, leg_con_id = None, leg_notional = None,
                 leg_instrument_type = Some (if text_or itype = [] then ''STK'' else text_or itype), leg_weight = None,
                 leg_leg_index = Some index, leg_metadata = None, leg_exchange = None, leg_currency = None,
                 leg_resolved = None\<rparr>]
          else []
      | _ \<Rightarrow> [])"

definition flatten_legs :: "position \<Rightarrow> order_leg list" where
  "flatten_legs pos =
     reverse_leg (Some (p_leg_a_symbol pos)) (Some (p_leg_a_signed_qty pos)) (Some (p_leg_a_instrument_type pos)) 0 @
     reverse_leg (p_leg_b_symbol pos) (p_leg_b_signed_qty pos) (p_leg_b_instrument_type pos) 1"

definition flatten_intent :: "datetime \<Rightarrow> int \<Rightarrow> string \<Rightarrow> position \<Rightarrow> order_intent" where
  "flatten_intent now account_id ibkr pos =
     \<lparr>oi_signal_id = ''KILLSWITCH-'' @ p_trade_id pos, oi_strategy_id = p_strategy_id pos, oi_action = CLOSE,
      oi_legs = flatten_legs pos, oi_account_id = Some account_id, oi_ibkr_account = Some ibkr, oi_market = None,
      oi_timestamp = now, oi_intent_mode = EMERGENCY_FLATTEN\<rparr>"

definition flatten_pass :: "datetime \<Rightarrow> order_intent \<Rightarrow> rms_result" where
  "flatten_pass now intent =
     \<lparr>rr_outcome = PASS, rr_intent = intent, rr_original_intent = intent, rr_check_number = None,
      rr_reason = Some KILL_SWITCH_EMERGENCY_CLOSE, rr_check_results = [], rr_timestamp = now\<rparr>"

text \<open>The marks of a close: the prices of the orders, then the average of the executions an order
  carries, then its last fill price, each only while a needed mark is missing.\<close>

definition missing_marks :: "exit_marks \<Rightarrow> position \<Rightarrow> bool" where
  "missing_marks marks row \<longleftrightarrow> list_ex (\<lambda>s. marks s = None) (needed_symbols row)"

definition add_mark :: "(oms_order \<Rightarrow> decimal option) \<Rightarrow> oms_order list \<Rightarrow> exit_marks \<Rightarrow> exit_marks" where
  "add_mark price orders marks =
     fold (\<lambda>x m. case price x of
        None \<Rightarrow> m | Some p \<Rightarrow> if m (o_symbol x) = None then m(o_symbol x \<mapsto> p) else m) orders marks"

definition flatten_exit_marks :: "position \<Rightarrow> oms_order list \<Rightarrow> exit_marks" where
  "flatten_exit_marks row orders =
     (let m0 = exit_marks_from_orders orders;
          m1 = (if missing_marks m0 row
                then add_mark (\<lambda>x. executions_weighted_average (o_executions x)) orders m0 else m0)
      in if missing_marks m1 row then add_mark o_last_fill_price orders m1 else m1)"

definition persist_flatten_close_if_filled ::
  "datetime \<Rightarrow> int \<Rightarrow> string \<Rightarrow> oms_order list \<Rightarrow> ledger \<Rightarrow> (bool \<times> ledger) result" where
  "persist_flatten_close_if_filled now account_id trade_id orders rows =
     (let fills = filter (\<lambda>x. \<not> o_is_compensation x) orders in
      if fills = [] then Inr (False, rows)
      else res_bind (get_open_by_trade_id trade_id (Some account_id) rows) (\<lambda>r.
        case r of
          None \<Rightarrow> Inr (False, rows)
        | Some row \<Rightarrow>
            if \<not> close_fills_match_open row fills then Inr (False, rows)
            else (let marks = flatten_exit_marks row fills in
                  if missing_marks marks row then Inr (False, rows)
                  else res_bind (close_trade now trade_id (Some account_id) (Some marks)
                                   (commission_from_orders fills) None rows) (\<lambda>(_, rows').
                         Inr (True, rows')))))"

record flatten_state =
  fs_inflight :: "flatten_key set"
  fs_coord :: "coordinator option"
  fs_ledger :: ledger

definition flatten_single_position_locked ::
  "om_env \<Rightarrow> datetime \<Rightarrow> int \<Rightarrow> string \<Rightarrow> position \<Rightarrow> flatten_state \<Rightarrow> bool result \<times> flatten_state" where
  "flatten_single_position_locked env now account_id ibkr pos st =
     (if flatten_legs pos = [] then (Inr True, st)
      else (case fs_coord st of
              None \<Rightarrow> (Inr True, st)
            | Some coord \<Rightarrow>
                (case resolve_instruments env (flatten_intent now account_id ibkr pos) of
                   Inl e \<Rightarrow> (Inl e, st)
                 | Inr intent \<Rightarrow>
                     (case execute (om_coord env) intent (flatten_pass now intent) ''MARKET'' None coord of
                        (Inl _, coord') \<Rightarrow> (Inr False, st\<lparr>fs_coord := Some coord'\<rparr>)
                      | (Inr r, coord') \<Rightarrow>
                          (let st1 = st\<lparr>fs_coord := Some coord'\<rparr> in
                           if bx_orders r = [] then (Inr (basket_success r), st1)
                           else (case persist_flatten_close_if_filled now account_id (p_trade_id pos) (bx_orders r)
                                        (fs_ledger st1) of
                                   Inl _ \<Rightarrow> (Inr False, st1)
                                 | Inr (_, rows) \<Rightarrow> (Inr (basket_success r), st1\<lparr>fs_ledger := rows\<rparr>)))))))"

definition flatten_single_position ::
  "om_env \<Rightarrow> datetime \<Rightarrow> int \<Rightarrow> string \<Rightarrow> position \<Rightarrow> flatten_state \<Rightarrow> bool result \<times> flatten_state" where
  "flatten_single_position env now account_id ibkr pos st =
     (let key = ledger_key account_id (p_trade_id pos) in
      case flatten_try_acquire key (fs_inflight st) of
        (False, _) \<Rightarrow> (Inr True, st)
      | (True, keys) \<Rightarrow>
          (case flatten_single_position_locked env now account_id ibkr pos (st\<lparr>fs_inflight := keys\<rparr>) of
             (res, st1) \<Rightarrow> (res, st1\<lparr>fs_inflight := flatten_release key (fs_inflight st1)\<rparr>)))"

section \<open>Reconciliation of the engine rows\<close>

record ks_order_row =
  kr_id :: int
  kr_trade_id :: "string option"
  kr_internal_order_id :: "string option"
  kr_account_id :: int
  kr_symbol :: string
  kr_status :: string
  kr_is_compensation :: bool
  kr_fill_price :: "decimal option"
  kr_fill_qty :: "decimal option"

record ks_exec_row =
  kx_internal_order_id :: "string option"
  kx_quantity :: decimal
  kx_price :: decimal

definition kill_switch_order_trade_ids :: "string \<Rightarrow> string list" where
  "kill_switch_order_trade_ids trade_id =
     (if py_startswith trade_id ''KILLSWITCH-'' then [trade_id] else [trade_id, ''KILLSWITCH-'' @ trade_id])"

definition is_kill_switch_close_order :: "ks_order_row \<Rightarrow> bool" where
  "is_kill_switch_close_order row =
     (let internal_id = text_or (kr_internal_order_id row) in
      if kr_is_compensation row \<or> py_contains internal_id '':UNWIND:'' then False
      else py_contains internal_id ''KILLSWITCH-'' \<or> py_contains internal_id '':CLOSE'')"

definition list_by_trade_id :: "string \<Rightarrow> ks_order_row list \<Rightarrow> ks_order_row list" where
  "list_by_trade_id trade_id rows = sort_key kr_id (filter (\<lambda>r. kr_trade_id r = Some trade_id) rows)"

definition order_row_key :: "ks_order_row \<Rightarrow> string" where
  "order_row_key row = (if text_or (kr_internal_order_id row) \<noteq> [] then text_or (kr_internal_order_id row) else int_text (kr_id row))"

definition position_orders :: "ks_order_row list \<Rightarrow> string \<Rightarrow> ks_order_row list" where
  "position_orders orders trade_id =
     fold (\<lambda>row found. if list_ex (\<lambda>x. order_row_key x = order_row_key row) found then found else found @ [row])
       (concat (map (\<lambda>t. list_by_trade_id t orders) (kill_switch_order_trade_ids trade_id))) []"

definition executions_of :: "ks_exec_row list \<Rightarrow> ks_order_row \<Rightarrow> ks_exec_row list" where
  "executions_of execs row = filter (\<lambda>x. kx_internal_order_id x = kr_internal_order_id row) execs"

definition weighted_average_price :: "ks_exec_row list \<Rightarrow> decimal option" where
  "weighted_average_price rows =
     (let used = filter (\<lambda>x. \<not> kx_quantity x \<le> 0) rows;
          qty = sum_list (map kx_quantity used);
          notional = sum_list (map (\<lambda>x. kx_quantity x * kx_price x) used)
      in if qty \<le> 0 then None else Some (notional / qty))"

definition close_order_mark :: "ks_exec_row list \<Rightarrow> ks_order_row \<Rightarrow> exit_marks \<Rightarrow> exit_marks" where
  "close_order_mark execs row marks =
     (if kr_symbol row = [] then marks
      else (let m1 = (case kr_fill_price row of None \<Rightarrow> marks | Some p \<Rightarrow> marks(kr_symbol row \<mapsto> p)) in
            if m1 (kr_symbol row) \<noteq> None then m1
            else (case weighted_average_price (executions_of execs row) of
                    None \<Rightarrow> m1 | Some p \<Rightarrow> m1(kr_symbol row \<mapsto> p))))"

definition close_order_qty :: "ks_exec_row list \<Rightarrow> ks_order_row \<Rightarrow> decimal" where
  "close_order_qty execs row =
     (let q = (case kr_fill_qty row of None \<Rightarrow> 0 | Some x \<Rightarrow> x) in
      if q \<le> 0 then sum_list (map kx_quantity (executions_of execs row)) else q)"

definition add_close_qty :: "ks_exec_row list \<Rightarrow> ks_order_row \<Rightarrow> (string \<rightharpoonup> decimal) \<Rightarrow> (string \<rightharpoonup> decimal)" where
  "add_close_qty execs row filled =
     (let q = close_order_qty execs row in
      if kr_symbol row \<noteq> [] \<and> q > 0 then filled(kr_symbol row \<mapsto> get_or filled (kr_symbol row) 0 + q) else filled)"

definition symbol_average :: "ks_exec_row list \<Rightarrow> ks_order_row list \<Rightarrow> string \<Rightarrow> decimal option" where
  "symbol_average execs filled_close s =
     (case List.map_filter (\<lambda>r. if kr_symbol r = s then weighted_average_price (executions_of execs r) else None) filled_close of
        [] \<Rightarrow> None | p # _ \<Rightarrow> Some p)"

definition reconcile_marks :: "ks_exec_row list \<Rightarrow> ks_order_row list \<Rightarrow> position \<Rightarrow> exit_marks" where
  "reconcile_marks execs filled_close pos =
     fold (\<lambda>s m. if m s \<noteq> None then m
                 else (case symbol_average execs filled_close s of None \<Rightarrow> m | Some p \<Rightarrow> m(s \<mapsto> p)))
       (needed_symbols pos) (fold (close_order_mark execs) filled_close Map.empty)"

definition reconcile_position ::
  "datetime \<Rightarrow> ks_order_row list \<Rightarrow> ks_exec_row list \<Rightarrow> int \<Rightarrow> position \<Rightarrow> ledger \<Rightarrow> ledger result" where
  "reconcile_position now orders execs account_id pos rows =
     (let filled_close = filter (\<lambda>r. is_kill_switch_close_order r \<and> kr_status r = ''FILLED'') (position_orders orders (p_trade_id pos));
          req_legs = (if text_or (p_leg_b_symbol pos) \<noteq> [] then 2 else 1);
          marks = reconcile_marks execs filled_close pos;
          filled = fold (add_close_qty execs) filled_close Map.empty
      in if length filled_close < req_legs \<or> missing_marks marks pos then Inr rows
         else (case assert_close_qty_matches_open pos filled of
                 Inl _ \<Rightarrow> Inr rows
               | Inr _ \<Rightarrow> res_bind (close_trade now (p_trade_id pos) (Some account_id) (Some marks) None None rows)
                            (\<lambda>(_, rows'). Inr rows')))"

fun reconcile_positions ::
  "datetime \<Rightarrow> ks_order_row list \<Rightarrow> ks_exec_row list \<Rightarrow> int \<Rightarrow> position list \<Rightarrow> ledger \<Rightarrow> ledger result" where
  "reconcile_positions now orders execs account_id [] rows = Inr rows"
| "reconcile_positions now orders execs account_id (p # ps) rows =
     res_bind (reconcile_position now orders execs account_id p rows) (reconcile_positions now orders execs account_id ps)"

definition reconcile_and_finalize ::
  "datetime \<Rightarrow> ks_order_row list \<Rightarrow> ks_exec_row list \<Rightarrow> nat \<Rightarrow> int \<Rightarrow> ks_state \<Rightarrow> unit result \<times> ks_state" where
  "reconcile_and_finalize now orders execs op_id account_id st =
     (case reconcile_positions now orders execs account_id (open_engine_rows account_id (ks_ledger st)) (ks_ledger st) of
        Inl e \<Rightarrow> (Inl e, st)
      | Inr rows \<Rightarrow>
          (let remaining = length (open_engine_rows account_id rows) in
           (Inr (), update_operation_completion op_id (if remaining = 0 then KS_COMPLETE else KS_UNRESOLVED) (int remaining)
                      (st\<lparr>ks_ledger := rows\<rparr>))))"

text \<open>The worker. The positions are taken one after the other; the code runs them concurrently, each under
  its own key. An error of one position does not stop the others.\<close>

definition execute_flatten_operation ::
  "om_env \<Rightarrow> datetime \<Rightarrow> ks_order_row list \<Rightarrow> ks_exec_row list \<Rightarrow> nat \<Rightarrow> flatten_key set \<Rightarrow> coordinator option \<Rightarrow>
   ks_state \<Rightarrow> unit result \<times> flatten_key set \<times> coordinator option \<times> ks_state" where
  "execute_flatten_operation env now orders execs op_id keys coord st =
     (case start_flatten op_id st of
        (None, st1) \<Rightarrow> (Inr (), keys, coord, st1)
      | (Some x, st1) \<Rightarrow>
          (let rows = open_engine_rows (ks_account_id x) (ks_ledger st1) in
           if rows = [] then (Inr (), keys, coord, update_operation_completion op_id KS_COMPLETE 0 st1)
           else
             (let fs = fold (\<lambda>pos f. snd (flatten_single_position env now (ks_account_id x) (ks_ibkr_account x) pos f)) rows
                         \<lparr>fs_inflight = keys, fs_coord = coord, fs_ledger = ks_ledger st1\<rparr>
              in case reconcile_and_finalize now orders execs op_id (ks_account_id x) (st1\<lparr>ks_ledger := fs_ledger fs\<rparr>) of
                   (res, st2) \<Rightarrow> (res, fs_inflight fs, fs_coord fs, st2))))"

section \<open>Allocation of an account flatten\<close>

record broker_line =
  bl_symbol :: string
  bl_signed_qty :: decimal

record trade_execution =
  tx_symbol :: string
  tx_quantity :: decimal
  tx_price :: decimal
  tx_executed_at :: datetime

definition broker_qty :: "broker_line list \<Rightarrow> string \<Rightarrow> decimal" where
  "broker_qty lines s = sum_list (map bl_signed_qty (filter (\<lambda>b. norm (bl_symbol b) = s) lines))"

definition executed_qty :: "trade_execution list \<Rightarrow> string \<Rightarrow> decimal" where
  "executed_qty execs s = sum_list (map (\<lambda>e. \<bar>tx_quantity e\<bar>) (filter (\<lambda>e. norm (tx_symbol e) = s) execs))"

definition executed_notional :: "trade_execution list \<Rightarrow> string \<Rightarrow> decimal" where
  "executed_notional execs s =
     sum_list (map (\<lambda>e. \<bar>tx_quantity e\<bar> * tx_price e) (filter (\<lambda>e. norm (tx_symbol e) = s) execs))"

definition price_by_symbol :: "trade_execution list \<Rightarrow> string \<rightharpoonup> decimal" where
  "price_by_symbol execs s =
     (if executed_qty execs s > 0 then Some (executed_notional execs s / executed_qty execs s) else None)"

text \<open>Oldest first; rows without an opening time come last.\<close>

definition fifo_snapshots :: "nat \<Rightarrow> ks_snapshot list \<Rightarrow> ks_snapshot list" where
  "fifo_snapshots op_id snaps =
     (let mine = filter (\<lambda>s. sn_operation s = op_id) snaps in
      sort_key (\<lambda>s. the (sn_opened_at s)) (filter (\<lambda>s. sn_opened_at s \<noteq> None) mine) @
      filter (\<lambda>s. sn_opened_at s = None) mine)"

definition snapshots_to_close :: "nat \<Rightarrow> int \<Rightarrow> ks_state \<Rightarrow> ks_snapshot list" where
  "snapshots_to_close op_id account_id st =
     (let snaps = fifo_snapshots op_id (ks_snapshots st) in
      if snaps \<noteq> [] then snaps
      else map (engine_snapshot op_id) (open_engine_rows account_id (ks_ledger st)) @
           map (\<lambda>m. (manual_snapshot op_id m)\<lparr>sn_manual_id := None\<rparr>) (manual_rows account_id [MP_OPEN] (ks_manual st)))"

definition needed_syms :: "ks_snapshot \<Rightarrow> string list" where
  "needed_syms snap = filter (\<lambda>s. s \<noteq> []) (map text_or [sn_leg_a_symbol snap, sn_leg_b_symbol snap])"

definition needed_qtys :: "ks_snapshot \<Rightarrow> string \<rightharpoonup> decimal" where
  "needed_qtys snap =
     (let add = (\<lambda>symbol qty m. case (symbol, qty) of
                   (Some s, Some q) \<Rightarrow> if s = [] then m else m(norm s \<mapsto> \<bar>q :: decimal\<bar>) | _ \<Rightarrow> m)
      in add (sn_leg_b_symbol snap) (sn_leg_b_qty snap) (add (sn_leg_a_symbol snap) (sn_leg_a_qty snap) Map.empty))"

definition ALLOCATION_EPS :: decimal where
  "ALLOCATION_EPS = 1 / 10000"

record fifo_state =
  ff_remaining :: "string \<Rightarrow> decimal"
  ff_closed :: nat
  ff_pending :: nat
  ff_ledger :: ledger
  ff_manual :: manual_db

definition position_by_key :: "int \<Rightarrow> string \<Rightarrow> ledger \<Rightarrow> position option" where
  "position_by_key account_id trade_id rows = find (\<lambda>r. p_account_id r = account_id \<and> p_trade_id r = trade_id) rows"

definition allocate :: "(string \<rightharpoonup> decimal) \<Rightarrow> string \<Rightarrow> (string \<Rightarrow> decimal) \<Rightarrow> string \<Rightarrow> decimal" where
  "allocate needed s left =
     (case needed (norm s) of
        None \<Rightarrow> left | Some req \<Rightarrow> if req = 0 then left else left(norm s := left (norm s) - req))"

definition can_allocate :: "ks_snapshot \<Rightarrow> (string \<Rightarrow> decimal) \<Rightarrow> bool" where
  "can_allocate snap left \<longleftrightarrow>
     list_all (\<lambda>s. case needed_qtys snap (norm s) of
        None \<Rightarrow> True | Some req \<Rightarrow> \<not> left (norm s) + ALLOCATION_EPS < req) (needed_syms snap)"

definition engine_pending :: "position \<Rightarrow> fifo_state \<Rightarrow> fifo_state" where
  "engine_pending cur ff =
     (if p_risk_state cur = RS_OPEN
      then ff\<lparr>ff_ledger := put_row (cur\<lparr>p_risk_state := RS_FLATTENED_PENDING_PRICE\<rparr>) (ff_ledger ff),
              ff_pending := ff_pending ff + 1\<rparr>
      else ff)"

definition marks_of_prices :: "(string \<rightharpoonup> decimal) \<Rightarrow> string list \<Rightarrow> exit_marks" where
  "marks_of_prices prices symbols = (\<lambda>s. if s \<in> set symbols then prices (norm s) else None)"

definition close_engine_snapshot ::
  "datetime \<Rightarrow> int \<Rightarrow> broker_line list \<Rightarrow> trade_execution list \<Rightarrow> ks_snapshot \<Rightarrow> fifo_state \<Rightarrow> fifo_state" where
  "close_engine_snapshot now account_id lines execs snap ff =
     (if list_ex (\<lambda>s. broker_qty lines (norm s) \<noteq> 0) (needed_syms snap) then ff
      else (case position_by_key (sn_account_id snap) (sn_trade_id snap) (ff_ledger ff) of
              None \<Rightarrow> ff
            | Some cur \<Rightarrow>
                if p_risk_state cur \<notin> {RS_OPEN, RS_FLATTENED_PENDING_PRICE} then ff
                else if \<not> can_allocate snap (ff_remaining ff) \<or>
                        list_ex (\<lambda>s. price_by_symbol execs (norm s) = None) (needed_syms snap)
                then engine_pending cur ff
                else (let ff1 = ff\<lparr>ff_remaining := fold (allocate (needed_qtys snap)) (needed_syms snap) (ff_remaining ff)\<rparr> in
                      case close_trade now (sn_trade_id snap) (Some account_id)
                             (Some (marks_of_prices (price_by_symbol execs) (needed_syms snap))) None None (ff_ledger ff1) of
                        Inl _ \<Rightarrow> ff1
                      | Inr (_, rows) \<Rightarrow> ff1\<lparr>ff_ledger := rows, ff_closed := ff_closed ff1 + 1\<rparr>)))"

definition manual_pending :: "manual_position \<Rightarrow> fifo_state \<Rightarrow> fifo_state" where
  "manual_pending cur ff =
     (if mn_status cur = MP_OPEN
      then ff\<lparr>ff_manual := put_manual_position (cur\<lparr>mn_status := MP_PENDING_PRICE\<rparr>) (ff_manual ff),
              ff_pending := ff_pending ff + 1\<rparr>
      else ff)"

definition close_manual_snapshot ::
  "datetime \<Rightarrow> broker_line list \<Rightarrow> trade_execution list \<Rightarrow> ks_snapshot \<Rightarrow> fifo_state \<Rightarrow> fifo_state" where
  "close_manual_snapshot now lines execs snap ff =
     (let s = norm (text_or (sn_symbol snap)) in
      if s = [] then ff
      else (case manual_position_by_trade (sn_account_id snap) (sn_trade_id snap) (ff_manual ff) of
              None \<Rightarrow> ff
            | Some cur \<Rightarrow>
                if mn_status cur \<notin> {MP_OPEN, MP_PENDING_PRICE} \<or> broker_qty lines s \<noteq> 0 then ff
                else (let req = (case sn_signed_qty snap of None \<Rightarrow> 0 | Some q \<Rightarrow> \<bar>q\<bar>) in
                      if ff_remaining ff s + ALLOCATION_EPS < req \<or> price_by_symbol execs s = None
                      then manual_pending cur ff
                      else ff\<lparr>ff_remaining := (ff_remaining ff)(s := ff_remaining ff s - req),
                              ff_manual := put_manual_position (cur\<lparr>mn_status := MP_CLOSED, mn_signed_qty := 0,
                                                                  mn_closed_at := Some now\<rparr>) (ff_manual ff),
                              ff_closed := ff_closed ff + 1\<rparr>)))"

definition close_snapshot ::
  "datetime \<Rightarrow> int \<Rightarrow> broker_line list \<Rightarrow> trade_execution list \<Rightarrow> ks_snapshot \<Rightarrow> fifo_state \<Rightarrow> fifo_state" where
  "close_snapshot now account_id lines execs snap ff =
     (if sn_type snap = EnginePosition then close_engine_snapshot now account_id lines execs snap ff
      else close_manual_snapshot now lines execs snap ff)"

definition still_open :: "fifo_state \<Rightarrow> ks_snapshot \<Rightarrow> bool" where
  "still_open ff snap \<longleftrightarrow>
     (if sn_type snap = EnginePosition
      then (case position_by_key (sn_account_id snap) (sn_trade_id snap) (ff_ledger ff) of
              None \<Rightarrow> False | Some cur \<Rightarrow> p_risk_state cur \<noteq> RS_CLOSED)
      else (case manual_position_by_trade (sn_account_id snap) (sn_trade_id snap) (ff_manual ff) of
              None \<Rightarrow> False | Some cur \<Rightarrow> mn_status cur \<noteq> MP_CLOSED))"

definition flatten_verdict :: "nat \<Rightarrow> nat \<Rightarrow> nat \<Rightarrow> ks_status" where
  "flatten_verdict n_closed pending remaining =
     (if pending > 0 \<and> remaining > 0 then KS_RECONCILING
      else if remaining = 0 then KS_COMPLETE
      else if n_closed = 0 \<and> remaining > 0 then KS_UNRESOLVED
      else if remaining = 0 then KS_COMPLETE else KS_UNRESOLVED)"

definition executions_since :: "datetime \<Rightarrow> nat \<Rightarrow> ks_state \<Rightarrow> trade_execution list \<Rightarrow> trade_execution list" where
  "executions_since now op_id st execs =
     (let since = (case find (\<lambda>x. ks_id x = op_id) (ks_ops st) of
                     Some x \<Rightarrow> ks_created_at x | None \<Rightarrow> now - seconds 7200)
      in filter (\<lambda>e. tx_executed_at e \<ge> since) execs)"

definition close_all_ledger_after_account_flatten ::
  "datetime \<Rightarrow> broker_line list \<Rightarrow> trade_execution list \<Rightarrow> int \<Rightarrow> nat \<Rightarrow> ks_state \<Rightarrow> nat \<times> ks_state" where
  "close_all_ledger_after_account_flatten now lines all_execs account_id op_id st =
     (let snaps = snapshots_to_close op_id account_id st;
          execs = executions_since now op_id st all_execs;
          ff = fold (close_snapshot now account_id lines execs) snaps
                 \<lparr>ff_remaining = executed_qty execs, ff_closed = 0, ff_pending = 0, ff_ledger = ks_ledger st,
                  ff_manual = ks_manual st\<rparr>;
          remaining = length (filter (still_open ff) snaps)
      in (ff_closed ff,
          update_operation_completion op_id (flatten_verdict (ff_closed ff) (ff_pending ff) remaining) (int remaining)
            (st\<lparr>ks_ledger := ff_ledger ff, ks_manual := ff_manual ff\<rparr>)))"

end
