(* ===== verification/Kill_Switch_Manual.thy ===== *)
theory Kill_Switch_Manual
  imports Kill_Switch_Flatten
begin

text \<open>
  \<open>services/kill_switch.py\<close>, third part: the flatten of the manual positions of an account. One market
  order per position of the snapshot, under an idempotency key of the operation and the trade; the
  reconciliation reads the executions of these orders and the positions at the broker, closes the manual
  positions and decides how the operation ends.
\<close>

section \<open>Flattening one manual position\<close>

record ks_manual_env =
  km_now :: datetime
  km_op_text :: "nat \<Rightarrow> string"
  km_client_connected :: bool
  km_rate_limiter :: "string option"
  km_next_order_id :: "string + int"
  km_place :: "string option"

record broker_order =
  bo_id :: int
  bo_con_id :: int
  bo_symbol :: string
  bo_action :: string
  bo_quantity :: decimal
  bo_account :: string
  bo_ref :: string

record ks_manual_world =
  kw_db :: manual_db
  kw_placed :: "broker_order list"

definition manual_flatten_key :: "ks_manual_env \<Rightarrow> nat \<Rightarrow> string \<Rightarrow> string" where
  "manual_flatten_key env op_id trade_id = ''killswitch-manual:'' @ km_op_text env op_id @ '':'' @ trade_id"

definition manual_flatten_ref :: "ks_manual_env \<Rightarrow> nat \<Rightarrow> ks_snapshot \<Rightarrow> string" where
  "manual_flatten_ref env op_id snap =
     (let tail = (case sn_manual_id snap of
                    Some n \<Rightarrow> if n = 0 then sn_trade_id snap else int_text (int n) | None \<Rightarrow> sn_trade_id snap);
          ref = ''KILLSWITCH-MANUAL-'' @ km_op_text env op_id @ ''-'' @ tail
      in if length ref > 64 then take 64 (''KSMAN-'' @ take 8 (km_op_text env op_id) @ ''-'' @ tail) else ref)"

definition close_side_of :: "decimal \<Rightarrow> string" where
  "close_side_of q = (if q > 0 then ''SELL'' else ''BUY'')"

definition manual_flatten_draft ::
  "ks_manual_env \<Rightarrow> int \<Rightarrow> string \<Rightarrow> nat \<Rightarrow> ks_snapshot \<Rightarrow> manual_position \<Rightarrow> manual_order" where
  "manual_flatten_draft env account_id ibkr op_id snap pos =
     \<lparr>mo_id = 0, mo_account_id = account_id, mo_ibkr_account = ibkr,
      mo_idempotency_key = manual_flatten_key env op_id (sn_trade_id snap),
      mo_internal_order_id = manual_flatten_ref env op_id snap, mo_trade_id = sn_trade_id snap,
      mo_broker_order_id = None, mo_perm_id = None, mo_con_id = (case sn_con_id snap of None \<Rightarrow> 0 | Some c \<Rightarrow> c),
      mo_symbol = text_or (sn_symbol snap),
      mo_sec_type = (if text_or (sn_sec_type snap) = [] then ''CFD'' else text_or (sn_sec_type snap)),
      mo_exchange = ''SMART'', mo_currency = ''USD'', mo_side = close_side_of (mn_signed_qty pos),
      mo_quantity = \<bar>mn_signed_qty pos\<bar>, mo_order_type = ''MARKET'', mo_limit_price = None, mo_tif = ''DAY'',
      mo_status = MO_PENDING_SUBMIT, mo_source = ''manual'', mo_reject_reason = None, mo_submitted_at = None,
      mo_completed_at = None\<rparr>"

text \<open>Transmission of the order that was created: each failure leaves the row in \<open>ERROR\<close>.\<close>

definition fail_flatten :: "nat \<Rightarrow> string \<Rightarrow> ks_manual_world \<Rightarrow> bool \<times> ks_manual_world" where
  "fail_flatten order_id reason w =
     (False, w\<lparr>kw_db := update_order_status order_id MO_ERROR None None None None (Some reason) (kw_db w)\<rparr>)"

definition transmit_flatten ::
  "ks_manual_env \<Rightarrow> string \<Rightarrow> ks_snapshot \<Rightarrow> manual_position \<Rightarrow> manual_order \<Rightarrow> ks_manual_world \<Rightarrow> bool \<times> ks_manual_world" where
  "transmit_flatten env ibkr snap pos row w =
     (if \<not> km_client_connected env then (True, w)
      else (case km_rate_limiter env of
        Some e \<Rightarrow> fail_flatten (mo_id row) (''Rate limiter timeout: '' @ e) w
      | None \<Rightarrow>
          (case km_next_order_id env of
             Inl e \<Rightarrow> fail_flatten (mo_id row) (''Order ID allocation failed: '' @ e) w
           | Inr broker_id \<Rightarrow>
               (let w1 = w\<lparr>kw_db := update_order_status (mo_id row) MO_PENDING_SUBMIT (Some (int_text broker_id)) None None None None
                                     (kw_db w)\<rparr>;
                    sent = \<lparr>bo_id = broker_id, bo_con_id = (case sn_con_id snap of None \<Rightarrow> 0 | Some c \<Rightarrow> c),
                            bo_symbol = norm (text_or (sn_symbol snap)), bo_action = close_side_of (mn_signed_qty pos),
                            bo_quantity = \<bar>mn_signed_qty pos\<bar>, bo_account = ibkr, bo_ref = mo_internal_order_id row\<rparr>
                in case km_place env of
                     Some e \<Rightarrow> fail_flatten (mo_id row) (''placeOrder failed: '' @ e) w1
                   | None \<Rightarrow>
                       (True, w1\<lparr>kw_placed := kw_placed w1 @ [sent],
                                 kw_db := update_order_status (mo_id row) MO_SUBMITTED (Some (int_text broker_id)) None
                                            (Some (km_now env)) None None (kw_db w1)\<rparr>)))))"

text \<open>\<open>None\<close> is the violated constraint of a second row with the same key, which the worker logs.\<close>

definition flatten_single_manual_position ::
  "ks_manual_env \<Rightarrow> int \<Rightarrow> string \<Rightarrow> nat \<Rightarrow> ks_snapshot \<Rightarrow> ks_manual_world \<Rightarrow> bool option \<times> ks_manual_world" where
  "flatten_single_manual_position env account_id ibkr op_id snap w =
     (case manual_position_by_trade account_id (sn_trade_id snap) (kw_db w) of
        None \<Rightarrow> (Some True, w)
      | Some pos \<Rightarrow>
          if mn_status pos = MP_CLOSED \<or> mn_signed_qty pos = 0 then (Some True, w)
          else if (case order_by_key account_id (manual_flatten_key env op_id (sn_trade_id snap)) (kw_db w) of
                     None \<Rightarrow> False | Some x \<Rightarrow> mo_status x \<in> {MO_SUBMITTED, MO_FILLED, MO_PARTIALLY_FILLED})
          then (Some True, w)
          else (case create_order (manual_flatten_draft env account_id ibkr op_id snap pos) (kw_db w) of
                  None \<Rightarrow> (None, w)
                | Some (row, db) \<Rightarrow>
                    (case transmit_flatten env ibkr snap pos row
                            (w\<lparr>kw_db := update_order (mo_id row) (\<lambda>x. x\<lparr>mo_source := ''ks_manual''\<rparr>) db\<rparr>) of
                       (ok, w1) \<Rightarrow> (Some ok, w1))))"

section \<open>Reconciliation of the manual rows\<close>

datatype manual_verdict = Flattened | PendingPrice | Unresolved

definition required_qty :: "ks_snapshot \<Rightarrow> decimal" where
  "required_qty snap = \<bar>case sn_signed_qty snap of None \<Rightarrow> 0 | Some q \<Rightarrow> q\<bar>"

definition execution_total :: "manual_execution list \<Rightarrow> decimal" where
  "execution_total execs = sum_list (map me_quantity execs)"

definition exit_result :: "ks_snapshot \<Rightarrow> decimal \<Rightarrow> manual_execution list \<Rightarrow> decimal" where
  "exit_result snap qty execs =
     (let notional = sum_list (map (\<lambda>e. me_quantity e * me_price e) execs);
          exit_price = (if execution_total execs > 0 then notional / execution_total execs else 0);
          fees = sum_list (map (\<lambda>e. case me_commission e of None \<Rightarrow> 0 | Some c \<Rightarrow> c) execs);
          cost = (case sn_avg_cost snap of None \<Rightarrow> 0 | Some c \<Rightarrow> c);
          held_qty = (case sn_signed_qty snap of None \<Rightarrow> 0 | Some q \<Rightarrow> q)
      in (if held_qty > 0 then qty * (exit_price - cost) else qty * (cost - exit_price)) - fees)"

definition close_manual :: "datetime \<Rightarrow> ks_snapshot \<Rightarrow> manual_execution list \<Rightarrow> manual_position \<Rightarrow> manual_position" where
  "close_manual now snap execs cur =
     cur\<lparr>mn_realized_pnl := exit_result snap (required_qty snap) execs, mn_signed_qty := 0, mn_status := MP_CLOSED,
         mn_closed_at := Some now\<rparr>"

definition ks_close_orders :: "int \<Rightarrow> string \<Rightarrow> manual_order_status \<Rightarrow> manual_db \<Rightarrow> manual_order list" where
  "ks_close_orders account_id trade_id status db =
     filter (\<lambda>x. mo_account_id x = account_id \<and> mo_trade_id x = trade_id \<and> mo_source x = ''ks_manual'' \<and> mo_status x = status)
       (rev (manual_orders db))"

definition executions_of_orders :: "manual_order list \<Rightarrow> manual_db \<Rightarrow> manual_execution list" where
  "executions_of_orders orders db = filter (\<lambda>e. me_order_id e \<in> set (map mo_id orders)) (manual_executions db)"

definition trade_executions :: "int \<Rightarrow> string \<Rightarrow> manual_db \<Rightarrow> manual_execution list" where
  "trade_executions account_id trade_id db =
     executions_of_orders (filter (\<lambda>x. mo_account_id x = account_id \<and> mo_trade_id x = trade_id) (manual_orders db)) db"

definition reduce_manual :: "ks_snapshot \<Rightarrow> manual_execution list \<Rightarrow> manual_position \<Rightarrow> manual_position" where
  "reduce_manual snap execs cur =
     (if execution_total execs > 0 \<and> execs \<noteq> []
      then cur\<lparr>mn_status := MP_CLOSING,
               mn_signed_qty := (if (case sn_signed_qty snap of None \<Rightarrow> 0 | Some q \<Rightarrow> q) > 0 then 1 else -1) *
                                (required_qty snap - execution_total execs),
               mn_realized_pnl := exit_result snap (execution_total execs) execs\<rparr>
      else cur)"

text \<open>The last check: what the broker holds of the symbol against the open engine rows.\<close>

definition engine_qty :: "ledger \<Rightarrow> string \<Rightarrow> decimal" where
  "engine_qty rows s =
     sum_list (map (\<lambda>p. (if p_leg_a_symbol p \<noteq> [] \<and> norm (p_leg_a_symbol p) = s then p_leg_a_signed_qty p else 0) +
                        (case (p_leg_b_symbol p, p_leg_b_signed_qty p) of
                           (Some b, Some q) \<Rightarrow> if b \<noteq> [] \<and> norm b = s then q else 0 | _ \<Rightarrow> 0)) rows)"

definition broker_check ::
  "datetime \<Rightarrow> int \<Rightarrow> broker_line list \<Rightarrow> ledger \<Rightarrow> ks_snapshot \<Rightarrow> manual_position \<Rightarrow> manual_db \<Rightarrow>
   manual_verdict \<times> manual_position" where
  "broker_check now account_id lines rows snap cur db =
     (let s = norm (text_or (sn_symbol snap)) in
      if broker_qty lines s = engine_qty rows s \<and> lines \<noteq> []
      then (let execs = trade_executions account_id (sn_trade_id snap) db in
            if execs = [] then (PendingPrice, cur\<lparr>mn_status := MP_FLATTENED_PENDING_PRICE\<rparr>)
            else if execution_total execs \<ge> required_qty snap then (Flattened, close_manual now snap execs cur)
            else (Unresolved, cur))
      else (Unresolved, cur))"

definition reconcile_manual_position ::
  "datetime \<Rightarrow> int \<Rightarrow> broker_line list \<Rightarrow> ledger \<Rightarrow> ks_snapshot \<Rightarrow> manual_position \<Rightarrow> manual_db \<Rightarrow>
   manual_verdict \<times> manual_position" where
  "reconcile_manual_position now account_id lines rows snap cur db =
     (let filled = ks_close_orders account_id (sn_trade_id snap) MO_FILLED db;
          partly = ks_close_orders account_id (sn_trade_id snap) MO_PARTIALLY_FILLED db;
          execs = executions_of_orders filled db
      in if filled \<noteq> [] \<and> execution_total execs \<ge> required_qty snap \<and> execs \<noteq> [] \<and> mn_status cur \<noteq> MP_CLOSED
         then (Flattened, close_manual now snap execs cur)
         else if filled \<noteq> [] \<and> execs = [] then (PendingPrice, cur\<lparr>mn_status := MP_FLATTENED_PENDING_PRICE\<rparr>)
         else if partly \<noteq> [] \<and> filled = []
         then (let part = executions_of_orders partly db; cur1 = reduce_manual snap part cur in
               if required_qty snap - execution_total part > 0 then (Unresolved, cur1)
               else broker_check now account_id lines rows snap cur1 db)
         else broker_check now account_id lines rows snap cur db)"

definition reconcile_manual_snapshot ::
  "datetime \<Rightarrow> int \<Rightarrow> broker_line list \<Rightarrow> ledger \<Rightarrow> ks_snapshot \<Rightarrow> manual_db \<Rightarrow> manual_verdict \<times> manual_db" where
  "reconcile_manual_snapshot now account_id lines rows snap db =
     (case manual_position_by_trade account_id (sn_trade_id snap) db of
        None \<Rightarrow> (Flattened, db)
      | Some cur \<Rightarrow>
          if mn_status cur = MP_CLOSED \<and> mn_signed_qty cur = 0 then (Flattened, db)
          else (case reconcile_manual_position now account_id lines rows snap cur db of
                  (v, cur') \<Rightarrow> (v, put_manual_position cur' db)))"

fun reconcile_manual_snapshots ::
  "datetime \<Rightarrow> int \<Rightarrow> broker_line list \<Rightarrow> ledger \<Rightarrow> ks_snapshot list \<Rightarrow> manual_db \<Rightarrow> manual_verdict list \<times> manual_db" where
  "reconcile_manual_snapshots now account_id lines rows [] db = ([], db)"
| "reconcile_manual_snapshots now account_id lines rows (s # ss) db =
     (case reconcile_manual_snapshot now account_id lines rows s db of
        (v, db1) \<Rightarrow> (case reconcile_manual_snapshots now account_id lines rows ss db1 of (vs, db2) \<Rightarrow> (v # vs, db2)))"

definition manual_snapshots :: "nat \<Rightarrow> ks_state \<Rightarrow> ks_snapshot list" where
  "manual_snapshots op_id st = filter (\<lambda>s. sn_type s = ManualPosition) (fifo_snapshots op_id (ks_snapshots st))"

definition release_manual :: "int \<Rightarrow> ks_state \<Rightarrow> ks_state" where
  "release_manual account_id st = st\<lparr>ks_manual_active := ks_manual_active st - {account_id}\<rparr>"

definition reconcile_and_finalize_manual :: "datetime \<Rightarrow> broker_line list \<Rightarrow> nat \<Rightarrow> int \<Rightarrow> ks_state \<Rightarrow> ks_state" where
  "reconcile_and_finalize_manual now lines op_id account_id st =
     (let snaps = manual_snapshots op_id st in
      if snaps = [] then release_manual account_id (update_operation_completion op_id KS_COMPLETE 0 st)
      else (case reconcile_manual_snapshots now account_id lines (open_engine_rows account_id (ks_ledger st)) snaps
                   (ks_manual st) of
              (vs, db) \<Rightarrow>
                (let unresolved = length (filter (\<lambda>v. v \<noteq> Flattened) vs); st1 = st\<lparr>ks_manual := db\<rparr>
                 in if unresolved = 0 then update_operation_completion op_id KS_COMPLETE 0 (release_manual account_id st1)
                    else update_operation_completion op_id KS_UNRESOLVED (int unresolved) st1)))"

definition execute_manual_flatten_operation ::
  "(nat \<Rightarrow> ks_manual_env) \<Rightarrow> datetime \<Rightarrow> broker_line list \<Rightarrow> nat \<Rightarrow> broker_order list \<Rightarrow> ks_state \<Rightarrow>
   broker_order list \<times> ks_state" where
  "execute_manual_flatten_operation env now lines op_id placed st =
     (case start_flatten op_id st of
        (None, st1) \<Rightarrow> (placed, st1)
      | (Some x, st1) \<Rightarrow>
          (let snaps = filter (\<lambda>s. sn_operation s = op_id \<and> sn_type s = ManualPosition) (ks_snapshots st1) in
           if snaps = []
           then (placed, release_manual (ks_account_id x) (update_operation_completion op_id KS_COMPLETE 0 st1))
           else
             (let w = fold (\<lambda>(i, snap) w. snd (flatten_single_manual_position (env i) (ks_account_id x) (ks_ibkr_account x)
                                                 op_id snap w))
                        (enumerate 0 snaps) \<lparr>kw_db = ks_manual st1, kw_placed = placed\<rparr>
              in (kw_placed w, reconcile_and_finalize_manual now lines op_id (ks_account_id x)
                    (st1\<lparr>ks_manual := kw_db w\<rparr>)))))"

end
