(* ===== verification/Kill_Switch_Gate.thy ===== *)
theory Kill_Switch_Gate
  imports Kill_Switch_Manual Gate_Cache
begin

text \<open>
  The kill switch over time. An event is a request of an operator, a run of a worker, a retry, or the
  hydration of the caches after a restart; \<open>KsBooks\<close> is whatever else changes the ledgers. Whatever
  happens short of a clear, an armed account stays armed in the database and shut at the gate, and an
  operation that ended stays ended.
\<close>

section \<open>Events\<close>

datatype ks_event =
    KsSquareOff datetime "int \<rightharpoonup> string" int string
  | KsArmOnly datetime "int \<rightharpoonup> string" int string
  | KsManualSquareOff datetime "int \<rightharpoonup> string" int string
  | KsClear datetime int string "ks_scope option"
  | KsHydrate
  | KsEngineWorker om_env datetime "ks_order_row list" "ks_exec_row list" nat "flatten_key set" "coordinator option"
  | KsEngineRetry datetime "ks_order_row list" "ks_exec_row list" nat int
  | KsAccountRetry datetime "broker_line list" "trade_execution list" int nat
  | KsManualWorker "nat \<Rightarrow> ks_manual_env" datetime "broker_line list" nat "broker_order list"
  | KsManualRetry datetime "broker_line list" nat int
  | KsBooks ledger manual_db

fun ks_step :: "ks_event \<Rightarrow> ks_state \<Rightarrow> ks_state" where
  "ks_step (KsSquareOff now accounts a who) st = snd (initiate_square_off now accounts a who st)"
| "ks_step (KsArmOnly now accounts a who) st = snd (arm_account_kill_switch_only now accounts a who st)"
| "ks_step (KsManualSquareOff now accounts a who) st = snd (initiate_manual_square_off now accounts a who st)"
| "ks_step (KsClear now a who scope) st = snd (clear_account_kill_switch now a who scope st)"
| "ks_step KsHydrate st = snd (hydrate_kill_switch_cache st)"
| "ks_step (KsEngineWorker env now orders execs x keys coord) st =
     snd (snd (snd (execute_flatten_operation env now orders execs x keys coord st)))"
| "ks_step (KsEngineRetry now orders execs x a) st = snd (reconcile_and_finalize now orders execs x a st)"
| "ks_step (KsAccountRetry now lines execs a x) st = snd (close_all_ledger_after_account_flatten now lines execs a x st)"
| "ks_step (KsManualWorker env now lines x placed) st = snd (execute_manual_flatten_operation env now lines x placed st)"
| "ks_step (KsManualRetry now lines x a) st = reconcile_and_finalize_manual now lines x a st"
| "ks_step (KsBooks rows db) st = st\<lparr>ks_ledger := rows, ks_manual := db\<rparr>"

definition disarms :: "ks_event \<Rightarrow> int \<Rightarrow> bool" where
  "disarms e a \<longleftrightarrow> (case e of KsClear now b who scope \<Rightarrow> a = b \<and> scope \<noteq> Some ScopeManual | _ \<Rightarrow> False)"

definition armed_accounts :: "ks_state \<Rightarrow> int set" where
  "armed_accounts st = {ks_account_id x | x. x \<in> set (ks_ops st) \<and> blocks_opens x}"

section \<open>What an event does to an operation\<close>

definition op_goes_on :: "ks_operation \<Rightarrow> ks_operation \<Rightarrow> bool" where
  "op_goes_on x y \<longleftrightarrow>
     ks_id y = ks_id x \<and> ks_account_id y = ks_account_id x \<and> ks_scope_of y = ks_scope_of x \<and>
     (ks_status_of x = KS_CLEARED \<longrightarrow> y = x) \<and>
     (ks_status_of x = KS_COMPLETE \<longrightarrow> ks_status_of y = KS_COMPLETE \<or> ks_status_of y = KS_CLEARED)"

definition op_worked :: "ks_operation \<Rightarrow> ks_operation \<Rightarrow> bool" where
  "op_worked x y \<longleftrightarrow> op_goes_on x y \<and> (ks_status_of y = KS_CLEARED \<longrightarrow> ks_status_of x = KS_CLEARED)"

lemma op_worked_refl [simp]: "op_worked x x"
  by (simp add: op_worked_def op_goes_on_def)

lemma op_goes_on_trans:
  assumes "op_goes_on x y" "op_goes_on y z"
  shows "op_goes_on x z"
  using assms unfolding op_goes_on_def by metis

lemma op_worked_trans: "op_worked x y \<Longrightarrow> op_worked y z \<Longrightarrow> op_worked x z"
  unfolding op_worked_def using op_goes_on_trans by blast

lemma status_armed: "s \<in> set ARMED_STATUSES \<longleftrightarrow> s \<noteq> KS_CLEARED"
  by (cases s) (simp_all add: ARMED_STATUSES_def)

lemma op_worked_blocks: "op_worked x y \<Longrightarrow> blocks_opens x \<Longrightarrow> blocks_opens y \<and> ks_account_id y = ks_account_id x"
  by (auto simp: op_worked_def op_goes_on_def blocks_opens_def status_armed)

text \<open>A worker: operations go on one by one, nothing is added, the gate is not touched.\<close>

definition worked :: "ks_state \<Rightarrow> ks_state \<Rightarrow> bool" where
  "worked st st' \<longleftrightarrow> list_all2 op_worked (ks_ops st) (ks_ops st') \<and> ks_active st' = ks_active st"

lemma worked_refl [simp]: "worked st st"
  by (simp add: worked_def list_all2_refl)

lemma worked_trans: "worked a b \<Longrightarrow> worked b c \<Longrightarrow> worked a c"
  unfolding worked_def by (auto intro: list_all2_trans [OF op_worked_trans])

lemma worked_other [simp]:
  "worked st (st'\<lparr>ks_ledger := r\<rparr>) = worked st st'" "worked st (st'\<lparr>ks_manual := d\<rparr>) = worked st st'"
  "worked st (st'\<lparr>ks_manual_active := s\<rparr>) = worked st st'" "worked (st\<lparr>ks_ledger := r\<rparr>) st' = worked st st'"
  "worked (st\<lparr>ks_manual := d\<rparr>) st' = worked st st'" "worked (st\<lparr>ks_manual_active := s\<rparr>) st' = worked st st'"
  by (simp_all add: worked_def)

lemma worked_release [simp]: "worked st (release_manual a st') = worked st st'"
  by (simp add: release_manual_def)

lemma worked_update:
  assumes "\<And>x. op_worked x (f x)"
  shows "worked st (update_operation i f st)"
  using assms by (simp add: worked_def update_operation_def list_all2_map2 list_all2_refl)

lemma complete_row_works: "s \<noteq> KS_CLEARED \<Longrightarrow> op_worked x (complete_row s n x)"
  by (auto simp: op_worked_def op_goes_on_def complete_row_def)

lemma worked_completion: "s \<noteq> KS_CLEARED \<Longrightarrow> worked st (update_operation_completion i s n st)"
  unfolding update_operation_completion_def by (rule worked_update) (rule complete_row_works)

lemma worked_completion_of: "s \<noteq> KS_CLEARED \<Longrightarrow> worked st st' \<Longrightarrow> worked st (update_operation_completion i s n st')"
  using worked_trans worked_completion by blast

section \<open>Workers\<close>

definition ids_in_order :: "ks_state \<Rightarrow> bool" where
  "ids_in_order st \<longleftrightarrow> map ks_id (ks_ops st) = [0..<length (ks_ops st)]"

lemma ids_same:
  assumes "ids_in_order st" "x \<in> set (ks_ops st)" "y \<in> set (ks_ops st)" "ks_id x = ks_id y"
  shows "x = y"
  using assms distinct_map [of ks_id "ks_ops st"] by (auto simp: ids_in_order_def dest: inj_onD)

lemma op_worked_id: "op_worked x y \<Longrightarrow> ks_id y = ks_id x"
  unfolding op_worked_def op_goes_on_def by blast

lemma op_worked_ids: "list_all2 op_worked xs ys \<Longrightarrow> map ks_id ys = map ks_id xs"
  by (induction rule: list_all2_induct) (simp_all add: op_worked_id)

lemma worked_ids:
  assumes "worked st st'" "ids_in_order st"
  shows "ids_in_order st'"
proof -
  have "list_all2 op_worked (ks_ops st) (ks_ops st')" using assms(1) by (simp add: worked_def)
  note this [THEN op_worked_ids] this [THEN list_all2_lengthD]
  with assms(2) show ?thesis by (simp add: ids_in_order_def)
qed

lemma worked_start:
  assumes "ids_in_order st" "start_flatten i st = (r, st')"
  shows "worked st st'"
proof (cases "find (\<lambda>x. ks_id x = i) (ks_ops st)")
  case (Some x)
  then have x: "x \<in> set (ks_ops st)" "ks_id x = i" by (auto simp: find_Some_iff)
  have set_flattening: "op_worked x (x\<lparr>ks_status_of := KS_FLATTENING\<rparr>)"
    if "ks_status_of x \<noteq> KS_COMPLETE" "ks_status_of x \<noteq> KS_CLEARED"
    using that by (simp add: op_worked_def op_goes_on_def)
  have "list_all2 op_worked (ks_ops st)
      (map (\<lambda>y. if ks_id y = i then y\<lparr>ks_status_of := KS_FLATTENING\<rparr> else y) (ks_ops st))"
    if "ks_status_of x \<noteq> KS_COMPLETE" "ks_status_of x \<noteq> KS_CLEARED"
    unfolding list_all2_map2 list_all2_same
  proof
    fix y assume y: "y \<in> set (ks_ops st)"
    show "op_worked y (if ks_id y = i then y\<lparr>ks_status_of := KS_FLATTENING\<rparr> else y)"
    proof (cases "ks_id y = i")
      case True
      then have "y = x" using ids_same [OF assms(1) y x(1)] x(2) by simp
      then show ?thesis using set_flattening [OF that] x(2) by simp
    qed simp
  qed
  then show ?thesis
    using assms(2) Some by (auto simp: start_flatten_def update_operation_def worked_def list_all2_refl split: if_splits)
qed (use assms(2) in \<open>simp add: start_flatten_def\<close>)

lemma worked_reconcile: "worked st (snd (reconcile_and_finalize now orders execs i a st))"
  by (simp add: reconcile_and_finalize_def Let_def worked_completion_of split: sum.split)

lemma worked_account: "worked st (snd (close_all_ledger_after_account_flatten now lines execs a i st))"
  by (simp add: close_all_ledger_after_account_flatten_def Let_def worked_completion_of flatten_verdict_def)

lemma worked_manual: "worked st (reconcile_and_finalize_manual now lines i a st)"
  by (simp add: reconcile_and_finalize_manual_def Let_def case_prod_beta worked_completion_of)

lemma worked_engine_worker:
  assumes "ids_in_order st"
  shows "worked st (snd (snd (snd (execute_flatten_operation env now orders execs i keys coord st))))"
proof -
  obtain r st1 where s: "start_flatten i st = (r, st1)" by (cases "start_flatten i st")
  note w = worked_start [OF assms s]
  have "worked st (snd (reconcile_and_finalize now orders execs i a (st1\<lparr>ks_ledger := rows\<rparr>)))" for a rows
    using worked_trans [OF _ worked_reconcile] w by simp
  then show ?thesis
    using w by (simp add: execute_flatten_operation_def s Let_def case_prod_beta worked_completion_of split: option.split)
qed

lemma worked_manual_worker:
  assumes "ids_in_order st"
  shows "worked st (snd (execute_manual_flatten_operation env now lines i placed st))"
proof -
  obtain r st1 where s: "start_flatten i st = (r, st1)" by (cases "start_flatten i st")
  note w = worked_start [OF assms s]
  have "worked st (reconcile_and_finalize_manual now lines i a (st1\<lparr>ks_manual := db\<rparr>))" for a db
    using worked_trans [OF _ worked_manual] w by simp
  then show ?thesis
    using w by (simp add: execute_manual_flatten_operation_def s Let_def worked_completion_of split: option.split)
qed

lemmas workers = worked_reconcile worked_account worked_manual worked_engine_worker worked_manual_worker

section \<open>The gate\<close>

lemma list_all2_member: "list_all2 R xs ys \<Longrightarrow> x \<in> set xs \<Longrightarrow> \<exists>y \<in> set ys. R x y"
  by (induction rule: list_all2_induct) auto

lemma armed_worked: "worked st st' \<Longrightarrow> armed_accounts st \<subseteq> armed_accounts st'"
proof
  fix a
  assume w: "worked st st'" and "a \<in> armed_accounts st"
  then obtain x where x: "x \<in> set (ks_ops st)" "blocks_opens x" "a = ks_account_id x" by (auto simp: armed_accounts_def)
  with w obtain y where "y \<in> set (ks_ops st')" "op_worked x y"
    using list_all2_member [of op_worked "ks_ops st" "ks_ops st'" x] by (auto simp: worked_def)
  with op_worked_blocks [OF this(2) x(2)] x(3) show "a \<in> armed_accounts st'"
    by (auto simp: armed_accounts_def intro!: exI [of _ y])
qed

lemma armed_other [simp]:
  "armed_accounts (st\<lparr>ks_ledger := r\<rparr>) = armed_accounts st" "armed_accounts (st\<lparr>ks_manual := d\<rparr>) = armed_accounts st"
  "armed_accounts (st\<lparr>ks_manual_active := s\<rparr>) = armed_accounts st" "armed_accounts (st\<lparr>ks_active := s\<rparr>) = armed_accounts st"
  "armed_accounts (st\<lparr>ks_snapshots := n\<rparr>) = armed_accounts st"
  by (simp_all add: armed_accounts_def)

lemma armed_add: "armed_accounts st \<subseteq> armed_accounts (add_operation x st)"
  by (auto simp: armed_accounts_def add_operation_def)

lemma ids_other [simp]:
  "ids_in_order (st\<lparr>ks_ledger := r\<rparr>) = ids_in_order st" "ids_in_order (st\<lparr>ks_manual := d\<rparr>) = ids_in_order st"
  "ids_in_order (st\<lparr>ks_manual_active := s\<rparr>) = ids_in_order st" "ids_in_order (st\<lparr>ks_active := s\<rparr>) = ids_in_order st"
  "ids_in_order (st\<lparr>ks_snapshots := n\<rparr>) = ids_in_order st"
  by (simp_all add: ids_in_order_def)

lemma ids_add: "ids_in_order st \<Longrightarrow> ids_in_order (st\<lparr>ks_ops := ks_ops st @ [new_operation now (length (ks_ops st)) a i s t w c]\<rparr>)"
  by (simp add: ids_in_order_def new_operation_def)

lemma active_add [simp]: "ks_active (add_operation x st) = ks_active st"
  by (simp add: add_operation_def)

lemmas request_defs = initiate_square_off_def arm_account_kill_switch_only_def initiate_manual_square_off_def
  arm_kill_switch_cache_def Let_def

text \<open>A request adds at most one operation, arms at most its account, and disarms none.\<close>

definition requested :: "ks_state \<Rightarrow> ks_state \<Rightarrow> bool" where
  "requested st st' \<longleftrightarrow>
     (ids_in_order st \<longrightarrow> ids_in_order st') \<and> armed_accounts st \<subseteq> armed_accounts st' \<and> ks_active st \<subseteq> ks_active st' \<and>
     (\<exists>new. ks_ops st' = ks_ops st @ new)"

lemma requests:
  "requested st (snd (initiate_square_off now accounts a who st))"
  "requested st (snd (arm_account_kill_switch_only now accounts a who st))"
  "requested st (snd (initiate_manual_square_off now accounts a who st))"
  by (auto simp: request_defs requested_def ids_add add_operation_def armed_accounts_def split: option.split)

lemma clear_keeps:
  assumes "a \<in> armed_accounts st" "\<not> disarms (KsClear now b who scope) a"
  shows "a \<in> armed_accounts (snd (clear_account_kill_switch now b who scope st))"
    "ks_active (snd (clear_account_kill_switch now b who scope st)) \<supseteq> ks_active st \<inter> {a}"
proof -
  obtain x where x: "x \<in> set (ks_ops st)" "blocks_opens x" "a = ks_account_id x"
    using assms(1) by (auto simp: armed_accounts_def)
  then have "\<not> (ks_account_id x = b \<and> ks_status_of x \<in> set ARMED_STATUSES \<and>
      (case scope of None \<Rightarrow> True | Some s \<Rightarrow> ks_scope_of x = s))"
    using assms(2) by (auto simp: disarms_def blocks_opens_def split: option.splits)
  then have "x \<in> set (ks_ops (snd (clear_account_kill_switch now b who scope st)))"
    using x(1) by (auto simp: clear_account_kill_switch_def Let_def image_iff intro!: bexI [of _ x])
  with x(2,3) show "a \<in> armed_accounts (snd (clear_account_kill_switch now b who scope st))"
    by (auto simp: armed_accounts_def)
  show "ks_active (snd (clear_account_kill_switch now b who scope st)) \<supseteq> ks_active st \<inter> {a}"
    using assms(2) by (auto simp: clear_account_kill_switch_def Let_def disarms_def)
qed

lemma clear_ids: "ids_in_order st \<Longrightarrow> ids_in_order (snd (clear_account_kill_switch now b who scope st))"
  by (simp add: clear_account_kill_switch_def Let_def ids_in_order_def o_def if_distrib cong: if_cong)

lemma armed_hydrate: "ks_active (snd (hydrate_kill_switch_cache st)) = armed_accounts st"
  by (auto simp: hydrate_kill_switch_cache_def armed_accounts_def Let_def)

interpretation ks_gate: armed_gate ks_step ids_in_order armed_accounts ks_active disarms
proof
  fix st e
  assume ids: "ids_in_order st"
  have w: "ids_in_order st'" "armed_accounts st \<subseteq> armed_accounts st'" "ks_active st' = ks_active st" if "worked st st'" for st'
    using worked_ids [OF that ids] armed_worked [OF that] that by (simp_all add: worked_def)
  note w = w [OF worked_reconcile] w [OF worked_account] w [OF worked_manual]
    w [OF worked_engine_worker [OF ids]] w [OF worked_manual_worker [OF ids]]
  note r = requests [unfolded requested_def]
  show "ids_in_order (ks_step e st)"
    using ids r by (cases e) (simp_all add: w clear_ids hydrate_kill_switch_cache_def Let_def)
  fix a
  assume a: "a \<in> armed_accounts st" and e: "\<not> disarms e a"
  show "a \<in> armed_accounts (ks_step e st)"
    using a e r w by (cases e) (simp_all add: clear_keeps hydrate_kill_switch_cache_def Let_def subset_iff)
  assume "a \<in> ks_active st"
  then show "a \<in> ks_active (ks_step e st)"
    using a e r clear_keeps(2) [OF a] by (cases e) (simp_all add: w armed_hydrate subset_iff)
qed

lemma armed_found: "get_armed_kill_switch_operation a None st \<noteq> None \<longleftrightarrow> a \<in> armed_accounts st"
proof -
  have "latest_op P ops \<noteq> None \<longleftrightarrow> filter P ops \<noteq> []" for P and ops :: "ks_operation list"
    using length_sort [of ks_created_at "filter P ops"]
    by (auto simp: latest_op_def simp del: length_sort split: list.splits)
  then show ?thesis
    by (auto simp: get_armed_kill_switch_operation_def armed_accounts_def blocks_opens_def filter_empty_conv)
qed

text \<open>
  C3. An account whose kill switch is armed stays blocked: whatever requests, workers, retries, restarts
  and changes of the books follow, as long as none of them is a clear of the account for engine or
  account scope, every gate check in between sees the account as blocked, and the database still has the
  armed operation from which a restart rebuilds the block.
\<close>

theorem kill_switch_holds:
  assumes "ids_in_order st" "is_account_kill_switch_active a st" "get_armed_kill_switch_operation a None st \<noteq> None"
    and "\<forall>e \<in> set es. \<not> disarms e a"
  shows "(\<forall>n \<le> length es. is_account_kill_switch_active a (fold ks_step (take n es) st)) \<and>
         get_armed_kill_switch_operation a None (fold ks_step es st) \<noteq> None \<and>
         a \<in> fst (hydrate_kill_switch_cache (fold ks_step es st))"
proof -
  have on: "a \<in> armed_accounts st" "a \<in> ks_active st"
    using assms(2,3) armed_found by (auto simp: is_account_kill_switch_active_def)
  have armed: "a \<in> armed_accounts (fold ks_step es st)"
    using ks_gate.gate_stays_shut [OF assms(1) on assms(4)] by blast
  then have "a \<in> fst (hydrate_kill_switch_cache (fold ks_step es st))"
    by (auto simp: hydrate_kill_switch_cache_def armed_accounts_def Let_def)
  with armed ks_gate.gate_shut_throughout [OF assms(1) on assms(4)] show ?thesis
    unfolding armed_found is_account_kill_switch_active_def by blast
qed

section \<open>The end of an operation\<close>

definition ops_go_on :: "ks_state \<Rightarrow> ks_state \<Rightarrow> bool" where
  "ops_go_on st st' \<longleftrightarrow> length (ks_ops st) \<le> length (ks_ops st') \<and>
     (\<forall>i < length (ks_ops st). op_goes_on (ks_ops st ! i) (ks_ops st' ! i))"

lemma op_goes_on_refl [simp]: "op_goes_on x x"
  by (simp add: op_goes_on_def)

lemma ops_go_on_refl: "ks_ops st' = ks_ops st \<Longrightarrow> ops_go_on st st'"
  by (simp add: ops_go_on_def)

lemma ops_go_on_trans:
  assumes "ops_go_on a b" "ops_go_on b c"
  shows "ops_go_on a c"
  using assms op_goes_on_trans unfolding ops_go_on_def by (meson order.trans less_le_trans)

lemma worked_goes_on: "worked st st' \<Longrightarrow> ops_go_on st st'"
  by (simp add: worked_def ops_go_on_def list_all2_conv_all_nth op_worked_def)

lemma requested_goes_on: "requested st st' \<Longrightarrow> ops_go_on st st'"
  by (auto simp: requested_def ops_go_on_def nth_append)

lemma clear_goes_on: "ops_go_on st (snd (clear_account_kill_switch now a who scope st))"
  by (simp add: clear_account_kill_switch_def Let_def ops_go_on_def op_goes_on_def status_armed)

lemma step_goes_on:
  assumes "ids_in_order st"
  shows "ops_go_on st (ks_step e st)"
proof (cases e)
  case KsHydrate
  then show ?thesis by (simp add: hydrate_kill_switch_cache_def Let_def ops_go_on_refl)
qed (use assms in \<open>simp_all add: workers worked_goes_on requests requested_goes_on clear_goes_on ops_go_on_refl\<close>)

lemma run_goes_on: "ids_in_order st \<Longrightarrow> ops_go_on st (fold ks_step es st)"
proof (induction es arbitrary: st)
  case (Cons e es)
  then show ?case
    using ops_go_on_trans [OF step_goes_on] ks_gate.wf_step by (metis fold_simps(2))
qed (simp add: ops_go_on_refl)

text \<open>
  A kill-switch operation that has ended stays ended. Whatever happens afterwards, the row keeps its
  identifier, account and scope; a row that was cleared never changes again, and a row that was complete
  stays complete until it is cleared, so a late worker cannot reopen it.
\<close>

theorem kill_switch_end_is_final:
  assumes "ids_in_order st" "i < length (ks_ops st)" "x = ks_ops st ! i" "y = ks_ops (fold ks_step es st) ! i"
  shows "ks_id y = ks_id x \<and> ks_account_id y = ks_account_id x \<and> ks_scope_of y = ks_scope_of x \<and>
    (ks_status_of x = KS_CLEARED \<longrightarrow> y = x) \<and>
    (ks_status_of x = KS_COMPLETE \<longrightarrow> ks_status_of y = KS_COMPLETE \<or> ks_status_of y = KS_CLEARED)"
  using run_goes_on [OF assms(1), of es] assms(2-4) by (simp add: ops_go_on_def op_goes_on_def)

section \<open>Samples\<close>

definition sample_ks :: ks_state where
  "sample_ks = \<lparr>ks_ops = [], ks_snapshots = [], ks_active = {}, ks_manual_active = {}, ks_ledger = [],
     ks_manual = \<lparr>manual_orders = [], manual_executions = [], manual_positions = [], manual_halts = Map.empty\<rparr>\<rparr>"

definition sample_accounts :: "int \<rightharpoonup> string" where
  "sample_accounts = [7 \<mapsto> ''DU7'']"

definition sample_armed :: ks_state where
  "sample_armed = ks_step (KsArmOnly 5 sample_accounts 7 ''operator'') sample_ks"

lemma sample_armed_shape:
  "ks_ops sample_armed = [new_operation 5 0 7 ''DU7'' ScopeAccount KS_ACTIVATING ''operator'' 0]" "ks_active sample_armed = {7}"
  by (simp_all add: sample_armed_def sample_ks_def sample_accounts_def arm_account_kill_switch_only_def first_active_def
      Let_def open_engine_rows_def manual_rows_def add_operation_def arm_kill_switch_cache_def)

lemma sample_armed_ids: "ids_in_order sample_armed"
  by (simp add: ids_in_order_def sample_armed_shape new_operation_def)

theorem kill_switch_holds_witness:
  "is_account_kill_switch_active 7 (fold ks_step [KsHydrate, KsAccountRetry 6 [] [] 7 0] sample_armed) \<and>
   get_armed_kill_switch_operation 7 None (fold ks_step [KsHydrate, KsAccountRetry 6 [] [] 7 0] sample_armed) \<noteq> None"
proof -
  have g: "get_armed_kill_switch_operation 7 None sample_armed \<noteq> None"
    unfolding armed_found by (simp add: armed_accounts_def sample_armed_shape new_operation_def blocks_opens_def ARMED_STATUSES_def)
  have a: "is_account_kill_switch_active 7 sample_armed"
    by (simp add: is_account_kill_switch_active_def sample_armed_shape)
  have d: "\<forall>e \<in> set [KsHydrate, KsAccountRetry 6 [] [] 7 0]. \<not> disarms e 7" by (simp add: disarms_def)
  show ?thesis using kill_switch_holds [OF sample_armed_ids a g d] by fastforce
qed

theorem kill_switch_end_is_final_witness:
  "ks_scope_of (ks_ops (fold ks_step [KsAccountRetry 6 [] [] 7 0, KsClear 9 7 ''operator'' None] sample_armed) ! 0) = ScopeAccount"
  using kill_switch_end_is_final [OF sample_armed_ids, of 0 _ _ "[KsAccountRetry 6 [] [] 7 0, KsClear 9 7 ''operator'' None]"]
  by (simp add: sample_armed_shape new_operation_def)

section \<open>Where the gate opens early\<close>

text \<open>A clear for one scope drops the account from the cache although an operation of the other scope is
  armed; a second square-off then finds that operation and does not arm the cache again.\<close>

lemma scoped_clear_opens_gate:
  "let st = fold ks_step [KsSquareOff 5 sample_accounts 7 ''operator'', KsArmOnly 6 sample_accounts 7 ''operator'',
                          KsClear 7 7 ''operator'' (Some ScopeAccount), KsSquareOff 8 sample_accounts 7 ''operator''] sample_ks
   in get_armed_kill_switch_operation 7 None st \<noteq> None \<and> \<not> is_account_kill_switch_active 7 st"
  by code_simp

text \<open>A restart starts the broker flatten of an operation that was armed without one.\<close>

lemma arm_only_resumed_as_flatten: "resume_incomplete_flattens sample_armed = [EngineFlatten 0]"
  by code_simp

end
