(* ===== verification/Kill_Switch_Properties.thy ===== *)
theory Kill_Switch_Properties
  imports Kill_Switch_Manual
begin

text \<open>
  What the flattens of the kill switch guarantee: how an account flatten is shared out to the positions of
  its snapshot, what the end of an operation says about the ledgers, what the flatten of one position
  sends and books, and that a manual position is sent to the broker once.
\<close>

section \<open>First in, first out\<close>

definition claimed :: "ks_snapshot \<Rightarrow> string \<Rightarrow> decimal" where
  "claimed snap s =
     (if sn_type snap = EnginePosition then (case needed_qtys snap s of None \<Rightarrow> 0 | Some q \<Rightarrow> q)
      else if norm (text_or (sn_symbol snap)) = s then (case sn_signed_qty snap of None \<Rightarrow> 0 | Some q \<Rightarrow> \<bar>q\<bar>) else 0)"

definition snapshot_symbols :: "ks_snapshot \<Rightarrow> string list" where
  "snapshot_symbols snap =
     (if sn_type snap = EnginePosition then map norm (needed_syms snap) else [norm (text_or (sn_symbol snap))])"

definition legs_differ :: "ks_snapshot \<Rightarrow> bool" where
  "legs_differ snap \<longleftrightarrow> distinct (map norm (needed_syms snap))"

fun closed_snaps ::
  "datetime \<Rightarrow> int \<Rightarrow> broker_line list \<Rightarrow> trade_execution list \<Rightarrow> ks_snapshot list \<Rightarrow> fifo_state \<Rightarrow> ks_snapshot list" where
  "closed_snaps now a lines execs [] ff = []"
| "closed_snaps now a lines execs (snap # snaps) ff =
     (let ff' = close_snapshot now a lines execs snap ff in
      (if ff_closed ff' > ff_closed ff then [snap] else []) @ closed_snaps now a lines execs snaps ff')"

definition fifo_start :: "trade_execution list \<Rightarrow> ks_state \<Rightarrow> fifo_state" where
  "fifo_start execs st =
     \<lparr>ff_remaining = executed_qty execs, ff_closed = 0, ff_pending = 0, ff_ledger = ks_ledger st, ff_manual = ks_manual st\<rparr>"

definition not_overdrawn :: "fifo_state \<Rightarrow> bool" where
  "not_overdrawn ff \<longleftrightarrow> (\<forall>s. - ALLOCATION_EPS \<le> ff_remaining ff s)"

lemma needed_qtys_dom: "needed_qtys snap s = Some q \<Longrightarrow> s \<in> norm ` set (needed_syms snap) \<and> 0 \<le> q"
  by (auto simp: needed_qtys_def needed_syms_def text_or_def Let_def split: option.splits if_splits)

lemma claimed_nonneg: "0 \<le> claimed snap s"
  by (auto simp: claimed_def dest: needed_qtys_dom split: option.split)

lemma allocate_fold:
  assumes "distinct (map norm syms)"
  shows "fold (allocate needed) syms left s =
    left s - (if s \<in> norm ` set syms then (case needed s of None \<Rightarrow> 0 | Some q \<Rightarrow> q) else 0)"
  using assms
proof (induction syms arbitrary: left)
  case (Cons x syms)
  have "allocate needed x left s = left s - (if s = norm x then (case needed s of None \<Rightarrow> 0 | Some q \<Rightarrow> q) else 0)"
    by (auto simp: allocate_def split: option.split)
  then show ?case using Cons by auto
qed simp

lemma allocate_claimed:
  assumes "legs_differ snap" "sn_type snap = EnginePosition"
  shows "fold (allocate (needed_qtys snap)) (needed_syms snap) left s = left s - claimed snap s"
  using assms needed_qtys_dom [of snap s]
  by (auto simp: allocate_fold [OF assms(1) [unfolded legs_differ_def]] claimed_def split: option.split)

lemma can_allocate_claimed:
  assumes "can_allocate snap left" "sn_type snap = EnginePosition" "- ALLOCATION_EPS \<le> left s"
  shows "claimed snap s \<le> left s + ALLOCATION_EPS"
  using assms needed_qtys_dom [of snap s]
  by (force simp: can_allocate_def claimed_def list_all_iff split: option.splits)

text \<open>One position of the snapshot.\<close>

lemma close_snapshot_step:
  assumes "legs_differ snap" "not_overdrawn ff" "ff' = close_snapshot now a lines execs snap ff"
  shows "not_overdrawn ff' \<and> ff_closed ff \<le> ff_closed ff' \<and> ff_closed ff' \<le> ff_closed ff + 1 \<and>
    ff_remaining ff' s \<le> ff_remaining ff s - (if ff_closed ff < ff_closed ff' then claimed snap s else 0) \<and>
    (ff_closed ff < ff_closed ff' \<longrightarrow> (\<forall>s \<in> set (snapshot_symbols snap). broker_qty lines s = 0))"
proof (cases "sn_type snap = EnginePosition")
  case True
  note left = allocate_claimed [OF assms(1) True]
  have low: "- ALLOCATION_EPS \<le> ff_remaining ff r - claimed snap r" if "can_allocate snap (ff_remaining ff)" for r
    using can_allocate_claimed [OF that True, of r] assms(2) by (auto simp: not_overdrawn_def)
  show ?thesis
    using assms(2) claimed_nonneg [of snap] low
    by (auto simp: assms(3) close_snapshot_def True close_engine_snapshot_def engine_pending_def Let_def left
        not_overdrawn_def snapshot_symbols_def list_ex_iff split: option.split sum.split)
next
  case False
  then show ?thesis
    using assms(2) claimed_nonneg [of snap]
    by (auto simp: assms(3) close_snapshot_def close_manual_snapshot_def manual_pending_def Let_def not_overdrawn_def
        snapshot_symbols_def claimed_def split: option.split)
qed

lemma closed_snaps_bound:
  assumes "\<forall>snap \<in> set snaps. legs_differ snap" "not_overdrawn ff"
  shows "ff_closed (fold (close_snapshot now a lines execs) snaps ff) =
           ff_closed ff + length (closed_snaps now a lines execs snaps ff) \<and>
         sum_list (map (\<lambda>snap. claimed snap s) (closed_snaps now a lines execs snaps ff)) \<le> ff_remaining ff s + ALLOCATION_EPS \<and>
         (\<forall>snap \<in> set (closed_snaps now a lines execs snaps ff). \<forall>r \<in> set (snapshot_symbols snap). broker_qty lines r = 0)"
  using assms
proof (induction snaps arbitrary: ff)
  case Nil
  have "0 \<le> ff_remaining ff s + ALLOCATION_EPS"
    using Nil.prems(2) [unfolded not_overdrawn_def, rule_format, of s] by linarith
  then show ?case by simp
next
  case (Cons snap snaps)
  define ff' where "ff' = close_snapshot now a lines execs snap ff"
  note step = close_snapshot_step [OF _ Cons.prems(2) ff'_def, of s]
  have d: "legs_differ snap" using Cons.prems(1) by simp
  note step = step [OF d] and IH = Cons.IH [of ff']
  from step Cons.prems(1) have ih: "ff_closed (fold (close_snapshot now a lines execs) snaps ff') =
      ff_closed ff' + length (closed_snaps now a lines execs snaps ff')"
    "sum_list (map (\<lambda>snap. claimed snap s) (closed_snaps now a lines execs snaps ff')) \<le> ff_remaining ff' s + ALLOCATION_EPS"
    "\<forall>snap \<in> set (closed_snaps now a lines execs snaps ff'). \<forall>r \<in> set (snapshot_symbols snap). broker_qty lines r = 0"
    using IH by auto
  show ?case
  proof (cases "ff_closed ff < ff_closed ff'")
    case True
    then show ?thesis using step ih by (auto simp: ff'_def [symmetric] Let_def)
  next
    case False
    then show ?thesis using step ih by (auto simp: ff'_def [symmetric] Let_def)
  qed
qed

text \<open>
  C9. An account flatten closes no more than was executed. Over the positions of the snapshot, oldest
  first, the quantities of the positions that are closed add up, for every symbol, to at most what was
  executed in that symbol since the operation began, up to one tolerance in all; every position that is
  closed is flat at the broker in each of its symbols; and the count that is returned is the number of
  these positions. The two legs of a position are on different symbols.
\<close>

theorem account_flatten_allocation:
  assumes "\<forall>snap \<in> set (snapshots_to_close i a st). legs_differ snap"
    and "execs = executions_since now i st all_execs"
    and "shut = closed_snaps now a lines execs (snapshots_to_close i a st) (fifo_start execs st)"
  shows "fst (close_all_ledger_after_account_flatten now lines all_execs a i st) = length shut \<and>
    (\<forall>s. sum_list (map (\<lambda>snap. claimed snap s) shut) \<le> executed_qty execs s + ALLOCATION_EPS) \<and>
    (\<forall>snap \<in> set shut. \<forall>s \<in> set (snapshot_symbols snap). broker_qty lines s = 0)"
proof -
  have "0 \<le> executed_qty execs s" for s
    by (auto simp: executed_qty_def intro!: sum_list_nonneg)
  then have "not_overdrawn (fifo_start execs st)"
    by (auto simp: not_overdrawn_def fifo_start_def ALLOCATION_EPS_def intro: order.trans [of _ 0])
  note b = closed_snaps_bound [OF assms(1) this, of now a lines execs]
  have "fst (close_all_ledger_after_account_flatten now lines all_execs a i st) =
      ff_closed (fold (close_snapshot now a lines execs) (snapshots_to_close i a st) (fifo_start execs st))"
    by (simp add: close_all_ledger_after_account_flatten_def Let_def fifo_start_def assms(2))
  with b assms(3) show ?thesis by (simp add: fifo_start_def)
qed

section \<open>What COMPLETE says\<close>

definition op_status :: "nat \<Rightarrow> ks_state \<Rightarrow> ks_status option" where
  "op_status i st = map_option ks_status_of (find (\<lambda>x. ks_id x = i) (ks_ops st))"

definition flat_in :: "ks_state \<Rightarrow> ks_snapshot \<Rightarrow> bool" where
  "flat_in st snap \<longleftrightarrow>
     (if sn_type snap = EnginePosition
      then (case position_by_key (sn_account_id snap) (sn_trade_id snap) (ks_ledger st) of
              None \<Rightarrow> True | Some cur \<Rightarrow> p_risk_state cur = RS_CLOSED)
      else (case manual_position_by_trade (sn_account_id snap) (sn_trade_id snap) (ks_manual st) of
              None \<Rightarrow> True | Some cur \<Rightarrow> mn_status cur = MP_CLOSED))"

definition flat_trade :: "int \<Rightarrow> string \<Rightarrow> manual_db \<Rightarrow> bool" where
  "flat_trade a t db \<longleftrightarrow>
     (case manual_position_by_trade a t db of None \<Rightarrow> True | Some cur \<Rightarrow> mn_status cur = MP_CLOSED \<and> mn_signed_qty cur = 0)"

lemma find_update:
  assumes "\<And>x. ks_id (f x) = ks_id x"
  shows "find (\<lambda>x. ks_id x = i) (map (\<lambda>x. if ks_id x = i then f x else x) ops) = map_option f (find (\<lambda>x. ks_id x = i) ops)"
  by (induction ops) (auto simp: assms)

lemma completed_status:
  assumes "op_status i st \<notin> {Some KS_COMPLETE, Some KS_CLEARED}" "op_status i (update_operation_completion i s n st) = Some KS_COMPLETE"
  shows "s = KS_COMPLETE"
proof -
  have "ks_id (complete_row s n x) = ks_id x" for x by (simp add: complete_row_def)
  with assms find_update [of "complete_row s n" i "ks_ops st"] show ?thesis
    by (auto simp: op_status_def update_operation_completion_def update_operation_def complete_row_def split: if_splits)
qed

lemma completion_ledgers [simp]:
  "ks_ledger (update_operation_completion i s n st) = ks_ledger st" "ks_manual (update_operation_completion i s n st) = ks_manual st"
  "ks_ledger (release_manual a st) = ks_ledger st" "ks_manual (release_manual a st) = ks_manual st"
  by (simp_all add: update_operation_completion_def update_operation_def release_manual_def)

lemma op_status_other [simp]:
  "op_status i (st\<lparr>ks_ledger := r\<rparr>) = op_status i st" "op_status i (st\<lparr>ks_manual := d\<rparr>) = op_status i st"
  "op_status i (release_manual a st) = op_status i st"
  by (simp_all add: op_status_def release_manual_def)

lemma by_trade_put:
  "manual_position_by_trade a t (put_manual_position p db) =
     (if trade_key_of p = (a, t) \<and> manual_position_by_trade a t db \<noteq> None then Some p else manual_position_by_trade a t db)"
proof -
  have "find (\<lambda>q. mn_account_id q = a \<and> mn_trade_id q = t)
      (map (\<lambda>q. if mn_account_id q = mn_account_id p \<and> mn_trade_id q = mn_trade_id p then p else q) ps) =
    (if trade_key_of p = (a, t) \<and> find (\<lambda>q. mn_account_id q = a \<and> mn_trade_id q = t) ps \<noteq> None then Some p
     else find (\<lambda>q. mn_account_id q = a \<and> mn_trade_id q = t) ps)" for ps
    by (induction ps) (auto simp: trade_key_of_def)
  then show ?thesis by (simp add: manual_position_by_trade_def put_manual_position_def)
qed

lemma reconcile_position_key:
  "reconcile_manual_position now a lines rows snap cur db = (v, cur') \<Longrightarrow> trade_key_of cur' = trade_key_of cur"
  by (auto simp: reconcile_manual_position_def broker_check_def close_manual_def reduce_manual_def trade_key_of_def Let_def
      split: if_splits)

lemma reconcile_position_flat:
  "reconcile_manual_position now a lines rows snap cur db = (Flattened, cur') \<Longrightarrow>
   mn_status cur' = MP_CLOSED \<and> mn_signed_qty cur' = 0"
  by (auto simp: reconcile_manual_position_def broker_check_def close_manual_def Let_def split: if_splits)

lemma reconcile_snapshot_flat:
  assumes "reconcile_manual_snapshot now a lines rows snap db = (v, db')"
  shows "(v = Flattened \<longrightarrow> flat_trade a (sn_trade_id snap) db') \<and> (flat_trade a t db \<longrightarrow> flat_trade a t db')"
proof (cases "manual_position_by_trade a (sn_trade_id snap) db")
  case None
  then show ?thesis using assms by (simp add: reconcile_manual_snapshot_def flat_trade_def)
next
  case (Some cur)
  show ?thesis
  proof (cases "mn_status cur = MP_CLOSED \<and> mn_signed_qty cur = 0")
    case True
    then show ?thesis using assms Some by (simp add: reconcile_manual_snapshot_def flat_trade_def)
  next
    case False
    obtain cur' where r: "reconcile_manual_position now a lines rows snap cur db = (v, cur')" "db' = put_manual_position cur' db"
      using assms Some False by (auto simp: reconcile_manual_snapshot_def split: prod.splits)
    have k: "trade_key_of cur' = (a, sn_trade_id snap)"
      using reconcile_position_key [OF r(1)] by_trade_Some [OF Some] by simp
    have "mn_status cur' = MP_CLOSED \<and> mn_signed_qty cur' = 0" if "v = Flattened"
      using reconcile_position_flat r(1) that by blast
    then show ?thesis using Some False k by (auto simp: flat_trade_def r(2) by_trade_put)
  qed
qed

lemma reconcile_snapshots_flat:
  assumes "reconcile_manual_snapshots now a lines rows snaps db = (vs, db')"
  shows "(filter (\<lambda>v. v \<noteq> Flattened) vs = [] \<longrightarrow> (\<forall>snap \<in> set snaps. flat_trade a (sn_trade_id snap) db')) \<and>
    (\<forall>t. flat_trade a t db \<longrightarrow> flat_trade a t db')"
  using assms
proof (induction snaps arbitrary: db vs)
  case (Cons snap snaps)
  obtain v db1 where one: "reconcile_manual_snapshot now a lines rows snap db = (v, db1)"
    by (cases "reconcile_manual_snapshot now a lines rows snap db")
  obtain vs1 where more: "reconcile_manual_snapshots now a lines rows snaps db1 = (vs1, db')" "vs = v # vs1"
    using Cons.prems one by (auto split: prod.splits)
  show ?case using reconcile_snapshot_flat [OF one] Cons.IH [OF more(1)] more(2) by simp
qed simp

text \<open>
  C8. An operation that becomes COMPLETE is flat. When the reconciliation of the engine ends an operation
  as COMPLETE no engine row of the account is open; when the account flatten does, every position of its
  snapshot is closed or gone; when the manual reconciliation does, every manual position of its snapshot
  is gone or closed with quantity zero.
\<close>

theorem complete_means_flat:
  assumes "op_status i st \<notin> {Some KS_COMPLETE, Some KS_CLEARED}"
    and "engine = reconcile_and_finalize now orders execs i a st"
    and "account = snd (close_all_ledger_after_account_flatten now lines all_execs a i st)"
    and "manual = reconcile_and_finalize_manual now lines i a st"
  shows "(fst engine = Inr () \<and> op_status i (snd engine) = Some KS_COMPLETE \<longrightarrow> open_engine_rows a (ks_ledger (snd engine)) = []) \<and>
    (op_status i account = Some KS_COMPLETE \<longrightarrow> (\<forall>snap \<in> set (snapshots_to_close i a st). flat_in account snap)) \<and>
    (op_status i manual = Some KS_COMPLETE \<longrightarrow> (\<forall>snap \<in> set (manual_snapshots i st). flat_trade a (sn_trade_id snap) (ks_manual manual)))"
proof (intro conjI impI)
  assume e: "fst engine = Inr () \<and> op_status i (snd engine) = Some KS_COMPLETE"
  then obtain rows where r: "reconcile_positions now orders execs a (open_engine_rows a (ks_ledger st)) (ks_ledger st) = Inr rows"
    by (auto simp: assms(2) reconcile_and_finalize_def split: sum.splits)
  then have "(if open_engine_rows a rows = [] then KS_COMPLETE else KS_UNRESOLVED) = KS_COMPLETE"
    using e assms(1) completed_status [of i "st\<lparr>ks_ledger := rows\<rparr>"]
    by (simp add: assms(2) reconcile_and_finalize_def Let_def)
  then show "open_engine_rows a (ks_ledger (snd engine)) = []"
    using r by (simp add: assms(2) reconcile_and_finalize_def Let_def split: if_splits)
next
  assume c: "op_status i account = Some KS_COMPLETE"
  define xs where "xs = executions_since now i st all_execs"
  define ff where "ff = fold (close_snapshot now a lines xs) (snapshots_to_close i a st) (fifo_start xs st)"
  define n where "n = length (filter (still_open ff) (snapshots_to_close i a st))"
  have acc: "account = update_operation_completion i (flatten_verdict (ff_closed ff) (ff_pending ff) n) (int n)
      (st\<lparr>ks_ledger := ff_ledger ff, ks_manual := ff_manual ff\<rparr>)"
    by (simp add: assms(3) close_all_ledger_after_account_flatten_def Let_def ff_def fifo_start_def xs_def n_def)
  have "flatten_verdict (ff_closed ff) (ff_pending ff) n = KS_COMPLETE"
    using completed_status [OF _ c [unfolded acc]] assms(1) by simp
  then have "n = 0" by (auto simp: flatten_verdict_def split: if_splits)
  then show "\<forall>snap \<in> set (snapshots_to_close i a st). flat_in account snap"
    by (auto simp: n_def filter_empty_conv still_open_def flat_in_def acc split: option.splits if_splits)
next
  assume c: "op_status i manual = Some KS_COMPLETE"
  show "\<forall>snap \<in> set (manual_snapshots i st). flat_trade a (sn_trade_id snap) (ks_manual manual)"
  proof (cases "manual_snapshots i st = []")
    case False
    obtain vs db where r: "reconcile_manual_snapshots now a lines (open_engine_rows a (ks_ledger st)) (manual_snapshots i st)
        (ks_manual st) = (vs, db)" by (metis surj_pair)
    have "filter (\<lambda>v. v \<noteq> Flattened) vs = []"
      using c assms(1) completed_status [of i "st\<lparr>ks_manual := db\<rparr>" KS_UNRESOLVED] False
      by (auto simp: assms(4) reconcile_and_finalize_manual_def r Let_def split: if_splits)
    then show ?thesis
      using reconcile_snapshots_flat [OF r] False by (simp add: assms(4) reconcile_and_finalize_manual_def r Let_def)
  qed simp
qed

section \<open>One engine position\<close>

definition leg_flow :: "order_leg list \<Rightarrow> string \<Rightarrow> decimal" where
  "leg_flow legs s = sum_list (map (\<lambda>l. if leg_symbol l = s then signed_qty (leg_side l) (leg_quantity l) else 0) legs)"

definition held_in :: "position \<Rightarrow> string \<Rightarrow> decimal" where
  "held_in pos s =
     (if s = [] then 0
      else (if p_leg_a_symbol pos = s then p_leg_a_signed_qty pos else 0) +
           (if p_leg_b_symbol pos = Some s then (case p_leg_b_signed_qty pos of None \<Rightarrow> 0 | Some q \<Rightarrow> q) else 0))"

lemma flatten_legs_cancel: "leg_flow (flatten_legs pos) s + held_in pos s = 0"
proof -
  have leg: "leg_flow (reverse_leg symbol q itype index) s =
      - (if s \<noteq> [] \<and> symbol = Some s then (case q of None \<Rightarrow> 0 | Some x \<Rightarrow> x) else 0)" for symbol q itype index
    by (auto simp: leg_flow_def reverse_leg_def signed_qty_def split: option.split)
  have "leg_flow (xs @ ys) s = leg_flow xs s + leg_flow ys s" for xs ys by (simp add: leg_flow_def)
  then show ?thesis by (simp add: flatten_legs_def leg held_in_def)
qed

lemma close_open_row:
  assumes "get_open_by_trade_id t (Some a) rows = Inr (Some row)"
    and "close_trade now t (Some a) (Some marks) comm None rows = Inr (row', rows')"
  shows "rows' = put_row row' rows \<and> p_risk_state row' = RS_CLOSED \<and> same_position row' row"
proof -
  have "row_to_close t (Some a) rows = Inr (Some row)" using assms(1) by (simp add: row_to_close_def res_bind_def)
  then have c: "close_row now (Some marks) comm None row = Inr row'" "rows' = put_row row' rows"
    using assms(2) by (auto simp: close_trade_def res_bind_def split: sum.splits)
  from c(1) have "p_risk_state row' = RS_CLOSED \<and> same_position row' row"
    unfolding close_row_def Let_def by (auto simp: same_position_def split: if_splits)
  with c(2) show ?thesis by simp
qed

text \<open>What the flatten of a position can do to the ledger: close the row, when the fills cover it.\<close>

definition closed_on_fills :: "int \<Rightarrow> string \<Rightarrow> ledger \<Rightarrow> ledger \<Rightarrow> bool" where
  "closed_on_fills a t rows rows' \<longleftrightarrow>
     (\<exists>row row' fills. get_open_by_trade_id t (Some a) rows = Inr (Some row) \<and> close_fills_match_open row fills \<and>
        \<not> missing_marks (flatten_exit_marks row fills) row \<and> rows' = put_row row' rows \<and>
        p_risk_state row' = RS_CLOSED \<and> same_position row' row)"

lemma persist_flatten_cases:
  assumes "persist_flatten_close_if_filled now a t orders rows = Inr (b, rows')"
  shows "rows' = rows \<or> closed_on_fills a t rows rows'"
proof (cases "rows' = rows")
  case False
  define fills where "fills = filter (\<lambda>x. \<not> o_is_compensation x) orders"
  obtain row where r: "get_open_by_trade_id t (Some a) rows = Inr (Some row)"
    using assms False
    by (auto simp: persist_flatten_close_if_filled_def Let_def res_bind_Inr_iff split: if_splits option.splits)
  define marks where "marks = flatten_exit_marks row fills"
  have f: "close_fills_match_open row fills" "\<not> missing_marks marks row"
    using assms False
    by (auto simp: persist_flatten_close_if_filled_def Let_def r fills_def [symmetric] marks_def [symmetric] res_bind_def
        split: if_splits)
  obtain row' where c: "close_trade now t (Some a) (Some marks) (commission_from_orders fills) None rows = Inr (row', rows')"
    using assms False f
    by (auto simp: persist_flatten_close_if_filled_def Let_def r fills_def [symmetric] marks_def [symmetric] res_bind_def
        split: if_splits sum.splits)
  show ?thesis
    unfolding closed_on_fills_def using r f close_open_row [OF r c] marks_def by blast
qed simp

lemma flatten_locked_cases:
  assumes "flatten_single_position_locked env now a ibkr pos st = (res, st')"
  shows "fs_inflight st' = fs_inflight st \<and>
    (fs_ledger st' = fs_ledger st \<or> closed_on_fills a (p_trade_id pos) (fs_ledger st) (fs_ledger st'))"
  using assms
  by (auto simp: flatten_single_position_locked_def Let_def dest: persist_flatten_cases
      split: if_splits option.splits sum.splits prod.splits)


section \<open>One manual position\<close>

definition internal_ids :: "manual_db \<Rightarrow> string set" where
  "internal_ids db = mo_internal_order_id ` set (manual_orders db)"

definition refs_recorded :: "ks_manual_world \<Rightarrow> bool" where
  "refs_recorded w \<longleftrightarrow> distinct (map bo_ref (kw_placed w)) \<and> bo_ref ` set (kw_placed w) \<subseteq> internal_ids (kw_db w)"

lemma update_order_internal:
  assumes "\<And>x. mo_internal_order_id (f x) = mo_internal_order_id x"
  shows "internal_ids (update_order i f db) = internal_ids db"
proof -
  have "map mo_internal_order_id (map (\<lambda>x. if mo_id x = i then f x else x) (manual_orders db)) = map mo_internal_order_id (manual_orders db)"
    by (simp add: assms)
  then have "set (map mo_internal_order_id (manual_orders (update_order i f db))) = set (map mo_internal_order_id (manual_orders db))"
    by (simp add: update_order_def del: set_map map_map)
  then show ?thesis by (simp add: internal_ids_def)
qed

lemma update_status_internal [simp]: "internal_ids (update_order_status i s b p su c r db) = internal_ids db"
  by (simp add: update_order_status_def update_order_internal)

lemma transmit_flatten_cases:
  assumes "transmit_flatten env ibkr snap pos row w = (ok, w')"
  shows "internal_ids (kw_db w') = internal_ids (kw_db w) \<and>
    (kw_placed w' = kw_placed w \<or>
     (\<exists>b. kw_placed w' = kw_placed w @ [b] \<and> bo_ref b = mo_internal_order_id row \<and>
        bo_action b = close_side_of (mn_signed_qty pos) \<and> bo_quantity b = \<bar>mn_signed_qty pos\<bar> \<and> bo_account b = ibkr))"
  using assms by (auto simp: transmit_flatten_def fail_flatten_def Let_def split: if_splits option.splits sum.splits)

definition sent_for :: "ks_manual_env \<Rightarrow> int \<Rightarrow> string \<Rightarrow> nat \<Rightarrow> ks_snapshot \<Rightarrow> ks_manual_world \<Rightarrow> broker_order \<Rightarrow> bool" where
  "sent_for env a ibkr i snap w b \<longleftrightarrow>
     bo_ref b = manual_flatten_ref env i snap \<and> bo_ref b \<notin> internal_ids (kw_db w) \<and> bo_account b = ibkr \<and>
     (\<exists>pos. manual_position_by_trade a (sn_trade_id snap) (kw_db w) = Some pos \<and> mn_signed_qty pos \<noteq> 0 \<and>
        bo_action b = close_side_of (mn_signed_qty pos) \<and> bo_quantity b = \<bar>mn_signed_qty pos\<bar>)"

lemma manual_flatten_step:
  assumes "flatten_single_manual_position env a ibkr i snap w = (res, w')"
  shows "internal_ids (kw_db w) \<subseteq> internal_ids (kw_db w') \<and>
    (kw_placed w' = kw_placed w \<or>
     (\<exists>b. kw_placed w' = kw_placed w @ [b] \<and> sent_for env a ibkr i snap w b \<and> bo_ref b \<in> internal_ids (kw_db w')))"
proof (cases "res \<noteq> None \<and> (\<exists>pos row db. manual_position_by_trade a (sn_trade_id snap) (kw_db w) = Some pos \<and> mn_signed_qty pos \<noteq> 0 \<and>
    create_order (manual_flatten_draft env a ibkr i snap pos) (kw_db w) = Some (row, db) \<and>
    transmit_flatten env ibkr snap pos row (w\<lparr>kw_db := update_order (mo_id row) (\<lambda>x. x\<lparr>mo_source := ''ks_manual''\<rparr>) db\<rparr>) = (the res, w'))")
  case False
  then have "w' = w" using assms by (auto simp: flatten_single_manual_position_def split: option.splits if_splits prod.splits)
  then show ?thesis by simp
next
  case True
  then obtain pos row db where p: "manual_position_by_trade a (sn_trade_id snap) (kw_db w) = Some pos" "mn_signed_qty pos \<noteq> 0"
    and c: "create_order (manual_flatten_draft env a ibkr i snap pos) (kw_db w) = Some (row, db)"
    and t: "transmit_flatten env ibkr snap pos row
        (w\<lparr>kw_db := update_order (mo_id row) (\<lambda>x. x\<lparr>mo_source := ''ks_manual''\<rparr>) db\<rparr>) = (the res, w')"
    by blast
  have row: "mo_internal_order_id row = manual_flatten_ref env i snap" "manual_flatten_ref env i snap \<notin> internal_ids (kw_db w)"
    "internal_ids db = insert (manual_flatten_ref env i snap) (internal_ids (kw_db w))"
    using c by (auto simp: create_order_def manual_flatten_draft_def internal_ids_def list_ex_iff Let_def split: if_splits)
  show ?thesis
    using transmit_flatten_cases [OF t] row p by (auto simp: sent_for_def update_order_internal)
qed

lemma refs_recorded_step:
  "refs_recorded w \<Longrightarrow> refs_recorded (snd (flatten_single_manual_position env a ibkr i snap w))"
  using manual_flatten_step [of env a ibkr i snap w, OF prod.collapse [symmetric]]
  by (auto simp: refs_recorded_def sent_for_def image_subset_iff subset_iff)

type_synonym manual_flatten_run = "ks_manual_env \<times> int \<times> string \<times> nat \<times> ks_snapshot"

fun flatten_run :: "manual_flatten_run \<Rightarrow> ks_manual_world \<Rightarrow> ks_manual_world" where
  "flatten_run (env, a, ibkr, i, snap) w = snd (flatten_single_manual_position env a ibkr i snap w)"

text \<open>
  C11. The manual kill switch sends each close order once. Over any number of runs, of any operations and
  whatever fails in between, no two orders at the broker carry the same reference; and what one more run
  sends is at most one order, new to the database, that opposes the position as it then stands with exactly
  its quantity.
\<close>

theorem manual_flatten_once:
  assumes "refs_recorded w" "w1 = fold flatten_run runs w"
  shows "distinct (map bo_ref (kw_placed w1)) \<and>
    (kw_placed (flatten_run (env, a, ibkr, i, snap) w1) = kw_placed w1 \<or>
     (\<exists>b. kw_placed (flatten_run (env, a, ibkr, i, snap) w1) = kw_placed w1 @ [b] \<and> sent_for env a ibkr i snap w1 b))"
proof -
  have "refs_recorded (fold flatten_run runs w)"
    using assms(1)
  proof (induction runs arbitrary: w)
    case (Cons r runs)
    then show ?case by (cases r) (simp add: refs_recorded_step)
  qed simp
  then show ?thesis
    using manual_flatten_step [of env a ibkr i snap w1, OF prod.collapse [symmetric]]
    by (auto simp: refs_recorded_def assms(2))
qed

section \<open>Samples\<close>

definition sample_msft :: manual_position where
  "sample_msft = \<lparr>mn_id = 3, mn_account_id = 7, mn_trade_id = ''M1'', mn_symbol = ''MSFT'', mn_con_id = 11, mn_sec_type = ''CFD'',
     mn_currency = ''USD'', mn_signed_qty = 10, mn_avg_cost = 100, mn_realized_pnl = 0, mn_status = MP_OPEN, mn_opened_at = 1,
     mn_closed_at = None\<rparr>"

definition sample_books :: manual_db where
  "sample_books = \<lparr>manual_orders = [], manual_executions = [], manual_positions = [sample_msft], manual_halts = Map.empty\<rparr>"

definition sample_flattened :: ks_state where
  "sample_flattened = snd (arm_account_kill_switch_only 5 [7 \<mapsto> ''DU7''] 7 ''operator''
     \<lparr>ks_ops = [], ks_snapshots = [], ks_active = {}, ks_manual_active = {}, ks_ledger = [], ks_manual = sample_books\<rparr>)"

definition sample_execution :: trade_execution where
  "sample_execution = \<lparr>tx_symbol = ''MSFT'', tx_quantity = 10, tx_price = 120, tx_executed_at = 6\<rparr>"

lemma sample_snaps: "snapshots_to_close 0 7 sample_flattened = [manual_snapshot 0 sample_msft]"
  by code_simp

lemma sample_status: "op_status 0 sample_flattened = Some KS_ACTIVATING"
  by code_simp

theorem account_flatten_allocation_witness:
  "fst (close_all_ledger_after_account_flatten 9 [] [sample_execution] 7 0 sample_flattened) = 1 \<and>
   claimed (manual_snapshot 0 sample_msft) ''MSFT'' \<le> executed_qty [sample_execution] ''MSFT'' + ALLOCATION_EPS"
proof -
  have l: "\<forall>snap \<in> set (snapshots_to_close 0 7 sample_flattened). legs_differ snap"
    unfolding sample_snaps by (simp add: legs_differ_def needed_syms_def manual_snapshot_def text_or_def)
  have e: "executions_since 9 0 sample_flattened [sample_execution] = [sample_execution]" by code_simp
  have c: "closed_snaps 9 7 [] [sample_execution] (snapshots_to_close 0 7 sample_flattened)
      (fifo_start [sample_execution] sample_flattened) = [manual_snapshot 0 sample_msft]" by code_simp
  show ?thesis using account_flatten_allocation [OF l e [symmetric] c [symmetric]] by simp
qed

theorem complete_means_flat_witness:
  "op_status 0 (snd (close_all_ledger_after_account_flatten 9 [] [sample_execution] 7 0 sample_flattened)) = Some KS_COMPLETE \<and>
   flat_in (snd (close_all_ledger_after_account_flatten 9 [] [sample_execution] 7 0 sample_flattened)) (manual_snapshot 0 sample_msft)"
proof -
  have c: "op_status 0 (snd (close_all_ledger_after_account_flatten 9 [] [sample_execution] 7 0 sample_flattened)) = Some KS_COMPLETE"
    by code_simp
  have s: "op_status 0 sample_flattened \<notin> {Some KS_COMPLETE, Some KS_CLEARED}" by (simp add: sample_status)
  show ?thesis
    using complete_means_flat [OF s refl refl refl, of 9 "[]" "[]" 7 "[]" "[sample_execution]"] c by (simp add: sample_snaps)
qed

definition sample_pair :: "int \<Rightarrow> position" where
  "sample_pair a = \<lparr>p_account_id = a, p_trade_id = ''T1'', p_strategy_id = ''MODEL_BLUE'', p_leg_a_symbol = ''SPY'',
     p_leg_a_signed_qty = 10, p_leg_a_entry_mark = 400, p_leg_b_symbol = None, p_leg_b_signed_qty = None, p_leg_b_entry_mark = None,
     p_realised_pnl = 0, p_commission = 0, p_live_pnl = 0, p_target = 0, p_stop = 0, p_time_limit = 0, p_target_unit = ''absolute'',
     p_stop_unit = ''absolute'', p_exit_reason = None, p_exit_automation_enabled = False, p_leg_a_instrument_type = ''STK'',
     p_leg_b_instrument_type = None, p_opened_at = 1, p_closed_at = None, p_risk_state = RS_OPEN\<rparr>"


definition sample_ks_env :: ks_manual_env where
  "sample_ks_env = \<lparr>km_now = 9, km_op_text = (\<lambda>n. ''op''), km_client_connected = True, km_rate_limiter = None,
     km_next_order_id = Inr 41, km_place = None\<rparr>"

theorem manual_flatten_once_witness:
  "let w = fold flatten_run (replicate 3 (sample_ks_env, 7, ''DU7'', 0, manual_snapshot 0 sample_msft)) \<lparr>kw_db = sample_books, kw_placed = []\<rparr>
   in distinct (map bo_ref (kw_placed w)) \<and> length (kw_placed w) = 1"
proof -
  have r: "refs_recorded \<lparr>kw_db = sample_books, kw_placed = []\<rparr>" by (simp add: refs_recorded_def)
  have n: "length (kw_placed (fold flatten_run (replicate 3 (sample_ks_env, 7, ''DU7'', 0, manual_snapshot 0 sample_msft))
      \<lparr>kw_db = sample_books, kw_placed = []\<rparr>)) = 1" by code_simp
  show ?thesis using manual_flatten_once [OF r refl] n unfolding Let_def by blast
qed

section \<open>Where the reconciliation goes wrong\<close>

text \<open>The close orders of a position are looked up by trade only: the filled order of account 8 closes the row of
  account 7, whose own order never filled.\<close>

definition sample_foreign :: ks_order_row where
  "sample_foreign = \<lparr>kr_id = 1, kr_trade_id = Some ''KILLSWITCH-T1'', kr_internal_order_id = Some ''KILLSWITCH-T1:8'', kr_account_id = 8,
     kr_symbol = ''SPY'', kr_status = ''FILLED'', kr_is_compensation = False, kr_fill_price = Some 410, kr_fill_qty = Some 10\<rparr>"

lemma foreign_fill_closes_row:
  "map_sum id (map p_risk_state) (reconcile_positions 9 [sample_foreign] [] 7 [sample_pair 7] [sample_pair 7]) = Inr [RS_CLOSED]"
  by code_simp

text \<open>The executions of a trade include those that opened it: a position that is gone from the broker without any
  close order is booked as sold at the price it was bought for.\<close>

definition sample_opening_order :: manual_order where
  "sample_opening_order = (manual_flatten_draft sample_ks_env 7 ''DU7'' 0 (manual_snapshot 0 sample_msft) sample_msft)
     \<lparr>mo_id := 1, mo_side := ''BUY'', mo_status := MO_FILLED\<rparr>"

definition sample_opened :: manual_db where
  "sample_opened = sample_books\<lparr>manual_orders := [sample_opening_order],
     manual_executions := [\<lparr>me_order_id = 1, me_exec_id = ''e1'', me_broker_order_id = None, me_quantity = 10, me_price = 100,
       me_commission = None, me_commission_currency = None, me_executed_at = 1\<rparr>]\<rparr>"

lemma opening_fill_counts_as_exit:
  "let r = reconcile_manual_snapshot 9 7 [\<lparr>bl_symbol = ''SPY'', bl_signed_qty = 5\<rparr>] [] (manual_snapshot 0 sample_msft) sample_opened
   in fst r = Flattened \<and> map mn_realized_pnl (manual_positions (snd r)) = [0] \<and> map mn_status (manual_positions (snd r)) = [MP_CLOSED]"
  by code_simp

end
