(* ===== verification/Position_Reconciler.thy ===== *)
theory Position_Reconciler
  imports Flatten Position_Ledger Manual_Ledger "HOL-Library.Char_ord" "HOL-Library.List_Lexorder" "HOL-Library.Product_Lexorder"
begin

text \<open>
  \<open>services/position_reconciler.py\<close> and the collector of \<open>broker/ibkr/positions.py\<close>: the positions reported by
  the broker against the nets of the open engine and manual rows, one classified line per account, symbol
  and security type, and the alerts for mismatches that persist over several sweeps.

  Quantities of the broker are exact numbers here. The contract id of a ledger line is taken from a set in
  no particular order, which is a parameter.
\<close>

section \<open>Lines\<close>

record broker_position_line =
  bp_ibkr_account :: string
  bp_symbol :: string
  bp_sec_type :: string
  bp_con_id :: int
  bp_currency :: string
  bp_exchange :: string
  bp_quantity :: decimal
  bp_avg_cost :: decimal

record broker_contract =
  bc_symbol :: "string option"
  bc_sec_type :: "string option"
  bc_con_id :: "int option"
  bc_currency :: "string option"
  bc_exchange :: "string option"

definition on_position ::
  "string \<Rightarrow> broker_contract \<Rightarrow> decimal option \<Rightarrow> decimal option \<Rightarrow> broker_position_line list \<Rightarrow> broker_position_line list" where
  "on_position account contract position avg_cost lines =
     (let qty = (case position of None \<Rightarrow> 0 | Some q \<Rightarrow> q) in
      if \<bar>qty\<bar> \<le> 1 / 1000000000 then lines
      else lines @ [\<lparr>bp_ibkr_account = account, bp_symbol = text_or (bc_symbol contract), bp_sec_type = text_or (bc_sec_type contract),
                     bp_con_id = (case bc_con_id contract of None \<Rightarrow> 0 | Some c \<Rightarrow> c),
                     bp_currency = (if text_or (bc_currency contract) = [] then ''USD'' else text_or (bc_currency contract)),
                     bp_exchange = text_or (bc_exchange contract), bp_quantity = qty,
                     bp_avg_cost = (case avg_cost of None \<Rightarrow> 0 | Some c \<Rightarrow> c)\<rparr>])"

type_synonym net_key = "int \<times> string \<times> string"

record ledger_net_line =
  ln_key :: net_key
  ln_signed_qty :: decimal
  ln_con_ids :: "int set"
  ln_engine_qty :: decimal
  ln_manual_qty :: decimal

record instrument_line =
  il_symbol :: string
  il_sec_type :: string
  il_trade_conid :: int

definition qty_close :: "decimal option \<Rightarrow> decimal option \<Rightarrow> bool" where
  "qty_close a b = (case (a, b) of (Some x, Some y) \<Rightarrow> \<bar>x - y\<bar> \<le> QTY_EPSILON | _ \<Rightarrow> False)"

definition con_ids_for_symbol :: "(string \<times> string \<Rightarrow> int set) \<Rightarrow> string \<Rightarrow> string \<Rightarrow> int set" where
  "con_ids_for_symbol catalog s t =
     (if catalog (s, t) \<noteq> {} then catalog (s, t)
      else if t = ''STK'' then catalog (s, ''CFD'')
      else if t = ''CFD'' then catalog (s, ''STK'') else {})"

text \<open>The legs of an open engine row and of an open manual row, with the key they are netted under.\<close>

definition engine_leg :: "int \<Rightarrow> string option \<Rightarrow> string option \<Rightarrow> decimal option \<Rightarrow> (net_key \<times> decimal) list" where
  "engine_leg a symbol itype qty =
     (case (symbol, qty) of
        (Some s, Some q) \<Rightarrow>
          if s = [] then [] else [((a, norm s, norm (if text_or itype = [] then ''STK'' else text_or itype)), q)]
      | _ \<Rightarrow> [])"

definition engine_legs :: "position \<Rightarrow> (net_key \<times> decimal) list" where
  "engine_legs row =
     engine_leg (p_account_id row) (Some (p_leg_a_symbol row)) (Some (p_leg_a_instrument_type row)) (Some (p_leg_a_signed_qty row)) @
     engine_leg (p_account_id row) (p_leg_b_symbol row) (p_leg_b_instrument_type row) (p_leg_b_signed_qty row)"

definition manual_leg :: "manual_position \<Rightarrow> (net_key \<times> decimal) list" where
  "manual_leg m =
     (if mn_symbol m = [] then []
      else [((mn_account_id m, norm (mn_symbol m), norm (if mn_sec_type m = [] then ''CFD'' else mn_sec_type m)), mn_signed_qty m)])"

definition net_of :: "(net_key \<times> decimal) list \<Rightarrow> net_key \<Rightarrow> decimal" where
  "net_of legs k = sum_list (map snd (filter (\<lambda>l. fst l = k) legs))"

definition catalog_con_ids :: "instrument_line list \<Rightarrow> manual_position list \<Rightarrow> string \<times> string \<Rightarrow> int set" where
  "catalog_con_ids instruments manual_rows st =
     set (map il_trade_conid (filter (\<lambda>i. (norm (il_symbol i), norm (il_sec_type i)) = st) instruments)) \<union>
     set (map mn_con_id (filter (\<lambda>m. mn_symbol m \<noteq> [] \<and> mn_con_id m > 0 \<and>
            (norm (mn_symbol m), norm (if mn_sec_type m = [] then ''CFD'' else mn_sec_type m)) = st) manual_rows))"

definition build_ledger_net_lines :: "position list \<Rightarrow> instrument_line list \<Rightarrow> manual_position list \<Rightarrow> ledger_net_line list" where
  "build_ledger_net_lines open_rows instruments manual_rows =
     (let engine = concat (map engine_legs open_rows); man = concat (map manual_leg manual_rows);
          catalog = catalog_con_ids instruments manual_rows
      in map (\<lambda>k. \<lparr>ln_key = k, ln_signed_qty = net_of engine k + net_of man k,
                   ln_con_ids = con_ids_for_symbol catalog (fst (snd k)) (snd (snd k)),
                   ln_engine_qty = net_of engine k, ln_manual_qty = net_of man k\<rparr>)
           (filter (\<lambda>k. \<not> \<bar>net_of engine k + net_of man k\<bar> \<le> QTY_EPSILON)
             (sort (remdups (map fst engine @ map fst man)))))"

definition ledger_net_qty_for_symbol ::
  "position list \<Rightarrow> instrument_line list \<Rightarrow> int \<Rightarrow> string \<Rightarrow> string \<Rightarrow> manual_position list \<Rightarrow> decimal option" where
  "ledger_net_qty_for_symbol open_rows instruments a s t manual_rows =
     map_option ln_signed_qty (find (\<lambda>l. ln_key l = (a, norm s, norm t)) (build_ledger_net_lines open_rows instruments manual_rows))"

section \<open>Classification\<close>

datatype mismatch = MISMATCH_MATCH | MISMATCH_LEDGER_GHOST | MISMATCH_BROKER_ORPHAN | MISMATCH_QTY_DRIFT | MISMATCH_UNMAPPED_ACCOUNT

record reconcile_diff =
  df_kind :: mismatch
  df_ibkr_account :: "string option"
  df_account_id :: "int option"
  df_symbol :: string
  df_sec_type :: string
  df_con_id :: "int option"
  df_broker_qty :: "decimal option"
  df_ledger_qty :: "decimal option"
  df_in_flight :: bool
  df_engine_qty :: "decimal option"
  df_manual_qty :: "decimal option"

record reconcile_input =
  ri_broker :: "broker_position_line list"
  ri_ledger :: "ledger_net_line list"
  ri_ibkr_to_account :: "string \<rightharpoonup> int"
  ri_account_to_ibkr :: "int \<rightharpoonup> string"
  ri_order_con_ids :: "net_key \<rightharpoonup> int"
  ri_timed_out :: bool
  ri_in_flight :: "int set"
  ri_pick :: "int set \<Rightarrow> int"

definition line_account :: "reconcile_input \<Rightarrow> broker_position_line \<Rightarrow> int option" where
  "line_account inp l = ri_ibkr_to_account inp (normalize_account (Some (bp_ibkr_account l)))"

definition line_key :: "reconcile_input \<Rightarrow> broker_position_line \<Rightarrow> net_key option" where
  "line_key inp l = map_option (\<lambda>a. (a, norm (bp_symbol l), norm (bp_sec_type l))) (line_account inp l)"

definition broker_group :: "reconcile_input \<Rightarrow> net_key \<Rightarrow> broker_position_line list" where
  "broker_group inp k = filter (\<lambda>l. line_key inp l = Some k) (ri_broker inp)"

text \<open>The dictionary of the ledger lines keeps the last line of a key.\<close>

definition ledger_line :: "reconcile_input \<Rightarrow> net_key \<Rightarrow> ledger_net_line option" where
  "ledger_line inp k = find (\<lambda>l. ln_key l = k) (rev (ri_ledger inp))"

definition resolve_ibkr_account :: "reconcile_input \<Rightarrow> int \<Rightarrow> broker_position_line list \<Rightarrow> string option" where
  "resolve_ibkr_account inp a lines =
     (case lines of l # _ \<Rightarrow> Some (bp_ibkr_account l) | [] \<Rightarrow> ri_account_to_ibkr inp a)"

definition resolve_diff_con_id :: "reconcile_input \<Rightarrow> net_key \<Rightarrow> int option" where
  "resolve_diff_con_id inp k =
     (case k of (a, s, t) \<Rightarrow>
       (case broker_group inp k of
          l # _ \<Rightarrow> Some (bp_con_id l)
        | [] \<Rightarrow>
            let ids = (case ledger_line inp k of None \<Rightarrow> {} | Some l \<Rightarrow> ln_con_ids l) in
            if ids \<noteq> {} then Some (ri_pick inp ids)
            else (case ri_order_con_ids inp k of
                    Some c \<Rightarrow> Some c
                  | None \<Rightarrow> if t = ''STK'' then ri_order_con_ids inp (a, s, ''CFD'')
                            else if t = ''CFD'' then ri_order_con_ids inp (a, s, ''STK'') else None)))"

definition unmapped_diff :: "broker_position_line \<Rightarrow> reconcile_diff" where
  "unmapped_diff l =
     \<lparr>df_kind = MISMATCH_UNMAPPED_ACCOUNT, df_ibkr_account = Some (bp_ibkr_account l), df_account_id = None,
      df_symbol = norm (bp_symbol l), df_sec_type = norm (bp_sec_type l), df_con_id = Some (bp_con_id l),
      df_broker_qty = Some (bp_quantity l), df_ledger_qty = None, df_in_flight = False, df_engine_qty = None, df_manual_qty = None\<rparr>"

definition group_qty :: "reconcile_input \<Rightarrow> net_key \<Rightarrow> decimal option" where
  "group_qty inp k =
     (if broker_group inp k = [] then None else Some (sum_list (map bp_quantity (broker_group inp k))))"

definition diff_kind :: "reconcile_input \<Rightarrow> net_key \<Rightarrow> mismatch option" where
  "diff_kind inp k =
     (case (group_qty inp k, map_option ln_signed_qty (ledger_line inp k)) of
        (Some b, Some q) \<Rightarrow> Some (if qty_close (Some b) (Some q) then MISMATCH_MATCH else MISMATCH_QTY_DRIFT)
      | (Some b, None) \<Rightarrow> Some MISMATCH_BROKER_ORPHAN
      | (None, Some q) \<Rightarrow> if ri_timed_out inp then None else Some MISMATCH_LEDGER_GHOST
      | (None, None) \<Rightarrow> None)"

definition key_diff :: "reconcile_input \<Rightarrow> net_key \<Rightarrow> reconcile_diff option" where
  "key_diff inp k =
     (case diff_kind inp k of
        None \<Rightarrow> None
      | Some kind \<Rightarrow>
          Some \<lparr>df_kind = kind, df_ibkr_account = resolve_ibkr_account inp (fst k) (broker_group inp k),
                df_account_id = Some (fst k), df_symbol = fst (snd k), df_sec_type = snd (snd k),
                df_con_id = resolve_diff_con_id inp k, df_broker_qty = group_qty inp k,
                df_ledger_qty = map_option ln_signed_qty (ledger_line inp k), df_in_flight = fst k \<in> ri_in_flight inp,
                df_engine_qty = map_option ln_engine_qty (ledger_line inp k),
                df_manual_qty = map_option ln_manual_qty (ledger_line inp k)\<rparr>)"

definition reconcile_keys :: "reconcile_input \<Rightarrow> net_key list" where
  "reconcile_keys inp = sort (remdups (List.map_filter (line_key inp) (ri_broker inp) @ map ln_key (ri_ledger inp)))"

definition classify_reconcile_diffs :: "reconcile_input \<Rightarrow> reconcile_diff list" where
  "classify_reconcile_diffs inp =
     map unmapped_diff (filter (\<lambda>l. line_account inp l = None) (ri_broker inp)) @
     List.map_filter (key_diff inp) (reconcile_keys inp)"

section \<open>Accounts with work under way\<close>

definition fetch_in_flight_accounts :: "(int \<times> basket_state) list \<Rightarrow> string option list \<Rightarrow> manual_order list \<Rightarrow> int set" where
  "fetch_in_flight_accounts baskets processing_scopes orders =
     set (map fst (filter (\<lambda>b. snd b \<in> {B_EXECUTING, B_UNWINDING}) baskets)) \<union>
     set (map mo_account_id (filter (\<lambda>x. mo_status x \<in> {MO_PENDING_SUBMIT, MO_SUBMITTED, MO_PARTIALLY_FILLED}) orders)) \<union>
     set (List.map_filter (\<lambda>s. case s of None \<Rightarrow> None
            | Some t \<Rightarrow> (case py_int t of Inl _ \<Rightarrow> None | Inr i \<Rightarrow> Some i)) processing_scopes)"

section \<open>Alerts\<close>

type_synonym rogue_key = "string \<times> string \<times> string \<times> mismatch"

definition ROGUE_MISMATCH_KINDS :: "mismatch set" where
  "ROGUE_MISMATCH_KINDS = {MISMATCH_QTY_DRIFT, MISMATCH_BROKER_ORPHAN, MISMATCH_LEDGER_GHOST}"

definition rogue_key_of :: "reconcile_diff \<Rightarrow> rogue_key" where
  "rogue_key_of d =
     (if text_or (df_ibkr_account d) \<noteq> [] then text_or (df_ibkr_account d)
      else (case df_account_id d of None \<Rightarrow> [] | Some a \<Rightarrow> if a = 0 then [] else int_text a),
      df_symbol d, df_sec_type d, df_kind d)"

record rogue_state =
  rg_active :: "rogue_key set option"
  rg_pending :: "rogue_key \<Rightarrow> nat"

text \<open>A key without an entry in the dictionary of the streaks has streak zero.\<close>

datatype rogue_event = RogueDetected rogue_key | RogueResolved rogue_key

definition present_keys :: "reconcile_diff list \<Rightarrow> rogue_key set" where
  "present_keys ds = rogue_key_of ` set (filter (\<lambda>d. df_kind d \<in> ROGUE_MISMATCH_KINDS) ds)"

definition alertable_keys :: "reconcile_diff list \<Rightarrow> rogue_key set" where
  "alertable_keys ds = rogue_key_of ` set (filter (\<lambda>d. df_kind d \<in> ROGUE_MISMATCH_KINDS \<and> \<not> df_in_flight d) ds)"

definition ensure_active_rogue_keys :: "reconcile_diff list option \<Rightarrow> rogue_state \<Rightarrow> rogue_state" where
  "ensure_active_rogue_keys latest st =
     (case rg_active st of
        Some _ \<Rightarrow> st
      | None \<Rightarrow> st\<lparr>rg_active := Some (case latest of None \<Rightarrow> {} | Some ds \<Rightarrow> alertable_keys ds)\<rparr>)"

definition active_keys :: "rogue_state \<Rightarrow> rogue_key set" where
  "active_keys st = (case rg_active st of None \<Rightarrow> {} | Some s \<Rightarrow> s)"

definition streak_after :: "reconcile_diff list \<Rightarrow> rogue_state \<Rightarrow> rogue_key \<Rightarrow> nat" where
  "streak_after ds st k =
     (if k \<notin> alertable_keys ds then 0
      else if k \<in> active_keys st then rg_pending st k else rg_pending st k + 1)"

definition newly_confirmed :: "nat \<Rightarrow> reconcile_diff list \<Rightarrow> rogue_state \<Rightarrow> rogue_key set" where
  "newly_confirmed n ds st = {k \<in> alertable_keys ds. k \<notin> active_keys st \<and> streak_after ds st k \<ge> n}"

definition resolved_keys :: "reconcile_diff list \<Rightarrow> rogue_state \<Rightarrow> rogue_key set" where
  "resolved_keys ds st = active_keys st - present_keys ds"

definition track_rogues :: "nat \<Rightarrow> reconcile_diff list \<Rightarrow> rogue_state \<Rightarrow> rogue_event set \<times> rogue_state" where
  "track_rogues confirm ds st =
     (let n = max 1 confirm; new = newly_confirmed n ds st; gone = resolved_keys ds st in
      (RogueDetected ` new \<union> RogueResolved ` gone,
       st\<lparr>rg_active := Some ((active_keys st \<union> new) - gone),
          rg_pending := (\<lambda>k. if k \<in> new then 0 else streak_after ds st k)\<rparr>))"

section \<open>A sweep\<close>

record reconcile_run =
  rn_timed_out :: bool
  rn_error :: bool
  rn_broker_line_count :: nat
  rn_match_count :: nat
  rn_ghost_count :: nat
  rn_orphan_count :: nat
  rn_drift_count :: nat
  rn_unmapped_count :: nat
  rn_mismatches :: "reconcile_diff list"

record reconciler =
  rc_snapshot :: "broker_position_line list"
  rc_runs :: "reconcile_run list"
  rc_rogues :: rogue_state

definition snapshot_row :: "broker_position_line \<Rightarrow> broker_position_line" where
  "snapshot_row l = l\<lparr>bp_symbol := norm (bp_symbol l), bp_sec_type := norm (bp_sec_type l)\<rparr>"

definition count_kind :: "mismatch \<Rightarrow> reconcile_diff list \<Rightarrow> nat" where
  "count_kind kind ds = length (filter (\<lambda>d. df_kind d = kind) ds)"

definition reconcile_run_of :: "bool \<Rightarrow> reconcile_input \<Rightarrow> reconcile_run" where
  "reconcile_run_of failed inp =
     (let ds = classify_reconcile_diffs inp in
      \<lparr>rn_timed_out = ri_timed_out inp, rn_error = failed, rn_broker_line_count = length (ri_broker inp),
       rn_match_count = count_kind MISMATCH_MATCH ds, rn_ghost_count = count_kind MISMATCH_LEDGER_GHOST ds,
       rn_orphan_count = count_kind MISMATCH_BROKER_ORPHAN ds, rn_drift_count = count_kind MISMATCH_QTY_DRIFT ds,
       rn_unmapped_count = count_kind MISMATCH_UNMAPPED_ACCOUNT ds,
       rn_mismatches = filter (\<lambda>d. df_kind d \<noteq> MISMATCH_MATCH) ds\<rparr>)"

definition persist_and_diff :: "nat \<Rightarrow> bool \<Rightarrow> reconcile_input \<Rightarrow> reconciler \<Rightarrow> rogue_event set \<times> reconciler" where
  "persist_and_diff confirm failed inp rc =
     (let ds = classify_reconcile_diffs inp;
          latest = (if rc_runs rc = [] then None else Some (rn_mismatches (last (rc_runs rc))));
          r = track_rogues confirm ds (ensure_active_rogue_keys latest (rc_rogues rc))
      in (fst r,
          rc\<lparr>rc_snapshot := (if failed then rc_snapshot rc else map snapshot_row (ri_broker inp)),
             rc_runs := rc_runs rc @ [reconcile_run_of failed inp], rc_rogues := snd r\<rparr>))"

text \<open>What the fetch gave: lines and whether the end marker was missing, or an error, which leaves no lines
  and no time-out.\<close>

definition run_once ::
  "nat \<Rightarrow> bool \<Rightarrow> bool \<Rightarrow> (broker_position_line list \<times> bool) option \<Rightarrow> reconcile_input \<Rightarrow> reconciler \<Rightarrow>
   rogue_event set \<times> reconciler" where
  "run_once confirm busy is_up fetched inp rc =
     (if busy \<or> \<not> is_up then ({}, rc)
      else (case fetched of
              Some (lines, timed_out) \<Rightarrow> persist_and_diff confirm False (inp\<lparr>ri_broker := lines, ri_timed_out := timed_out\<rparr>) rc
            | None \<Rightarrow> persist_and_diff confirm True (inp\<lparr>ri_broker := [], ri_timed_out := False\<rparr>) rc))"

end
