(* ===== verification/Position_Reconciler_Properties.thy ===== *)
theory Position_Reconciler_Properties
  imports Position_Reconciler
begin

text \<open>
  What a sweep without a mismatch says about the books, and when an alert is raised and withdrawn: both as
  equivalences with descriptions that do not mention how the code gets there.
\<close>

section \<open>A sweep without a mismatch\<close>

definition ledger_net :: "position list \<Rightarrow> manual_position list \<Rightarrow> net_key \<Rightarrow> decimal" where
  "ledger_net rows man k = net_of (concat (map engine_legs rows)) k + net_of (concat (map manual_leg man)) k"

definition broker_net :: "reconcile_input \<Rightarrow> net_key \<Rightarrow> decimal" where
  "broker_net inp k = sum_list (map bp_quantity (broker_group inp k))"

lemma net_of_absent: "k \<notin> set (map fst legs) \<Longrightarrow> net_of legs k = 0"
proof -
  assume "k \<notin> set (map fst legs)"
  then have "filter (\<lambda>l. fst l = k) legs = []" by (auto simp: filter_empty_conv)
  then show ?thesis by (simp add: net_of_def)
qed

lemma find_line:
  assumes "\<And>k. ln_key (f k) = k"
  shows "find (\<lambda>l. ln_key l = k) (map f ks) = (if k \<in> set ks then Some (f k) else None)"
  by (induction ks) (auto simp: assms)

lemma ledger_line_build:
  assumes "ri_ledger inp = build_ledger_net_lines rows instruments man"
  shows "map_option ln_signed_qty (ledger_line inp k) =
    (if \<bar>ledger_net rows man k\<bar> \<le> QTY_EPSILON then None else Some (ledger_net rows man k))"
proof -
  define engine where "engine = concat (map engine_legs rows)"
  define manual where "manual = concat (map manual_leg man)"
  have n: "ledger_net rows man q = net_of engine q + net_of manual q" for q
    by (simp add: ledger_net_def engine_def manual_def)
  have "k \<in> set (map fst engine @ map fst manual)" if "\<not> \<bar>ledger_net rows man k\<bar> \<le> QTY_EPSILON"
  proof (rule ccontr)
    assume "\<not> ?thesis"
    then have "ledger_net rows man k = 0" by (simp add: n net_of_absent)
    then show False using that by (simp add: QTY_EPSILON_def)
  qed
  then show ?thesis
    unfolding ledger_line_def assms build_ledger_net_lines_def Let_def engine_def [symmetric] manual_def [symmetric]
      rev_map n [symmetric]
    by (subst find_line) auto
qed

lemma ledger_keys:
  "k \<in> set (map ln_key (ri_ledger inp)) \<longleftrightarrow> ledger_line inp k \<noteq> None"
  unfolding ledger_line_def find_None_iff by auto

lemma set_map_filter: "set (List.map_filter f xs) = {y. \<exists>x \<in> set xs. f x = Some y}"
  by (induction xs) (auto simp: map_filter_simps split: option.splits)

lemma broker_keys: "k \<in> set (List.map_filter (line_key inp) (ri_broker inp)) \<longleftrightarrow> broker_group inp k \<noteq> []"
  by (auto simp: set_map_filter broker_group_def filter_empty_conv)

lemma diff_kind_None: "k \<notin> set (reconcile_keys inp) \<Longrightarrow> diff_kind inp k = None"
  using ledger_keys [of k inp] broker_keys [of k inp] by (auto simp: reconcile_keys_def diff_kind_def group_qty_def)

lemma key_diff_kind: "key_diff inp k = Some d \<Longrightarrow> diff_kind inp k = Some (df_kind d)"
  by (auto simp: key_diff_def split: option.splits)

lemma key_diff_None: "key_diff inp k = None \<longleftrightarrow> diff_kind inp k = None"
  by (auto simp: key_diff_def split: option.splits)

lemma all_match_iff:
  "(\<forall>d \<in> set (classify_reconcile_diffs inp). df_kind d = MISMATCH_MATCH) \<longleftrightarrow>
   (\<forall>l \<in> set (ri_broker inp). line_account inp l \<noteq> None) \<and> (\<forall>k. diff_kind inp k \<in> {None, Some MISMATCH_MATCH})"
proof -
  have "(\<forall>d \<in> set (List.map_filter (key_diff inp) (reconcile_keys inp)). df_kind d = MISMATCH_MATCH) \<longleftrightarrow>
      (\<forall>k. diff_kind inp k \<in> {None, Some MISMATCH_MATCH})" (is "?l \<longleftrightarrow> ?r")
  proof
    assume l: ?l
    show ?r
    proof
      fix k
      show "diff_kind inp k \<in> {None, Some MISMATCH_MATCH}"
      proof (cases "key_diff inp k")
        case (Some d)
        then have "k \<in> set (reconcile_keys inp)" using diff_kind_None [of k inp] key_diff_None [of inp k] by (metis option.distinct(1))
        then have "df_kind d = MISMATCH_MATCH" using l Some by (auto simp: set_map_filter)
        then show ?thesis using key_diff_kind [OF Some] by simp
      qed (simp add: key_diff_None)
    qed
  next
    assume ?r
    then show ?l by (auto simp: set_map_filter dest!: key_diff_kind) (metis option.distinct(1) option.inject insertE singletonD)
  qed
  moreover have "(\<forall>d \<in> set (map unmapped_diff (filter (\<lambda>l. line_account inp l = None) (ri_broker inp))). df_kind d = MISMATCH_MATCH) \<longleftrightarrow>
      (\<forall>l \<in> set (ri_broker inp). line_account inp l \<noteq> None)"
    by (simp add: unmapped_diff_def) blast
  ultimately show ?thesis unfolding classify_reconcile_diffs_def set_append ball_Un by blast
qed


section \<open>Alerts\<close>

lemma alertable_present: "k \<in> alertable_keys ds \<Longrightarrow> k \<in> present_keys ds"
  by (auto simp: alertable_keys_def present_keys_def)

definition sweeps :: "nat \<Rightarrow> reconcile_diff list list \<Rightarrow> rogue_state \<Rightarrow> rogue_state" where
  "sweeps n dss st = fold (\<lambda>ds s. snd (track_rogues n ds s)) dss st"

definition confirmed :: "nat \<Rightarrow> rogue_key \<Rightarrow> reconcile_diff list list \<Rightarrow> bool" where
  "confirmed n k dss \<longleftrightarrow>
     (\<exists>before run since. dss = before @ run @ since \<and> length run = max 1 n \<and>
        (\<forall>ds \<in> set run. k \<in> alertable_keys ds) \<and> (\<forall>ds \<in> set since. k \<in> present_keys ds))"

fun alert_run :: "rogue_key \<Rightarrow> reconcile_diff list list \<Rightarrow> nat" where
  "alert_run k [] = 0"
| "alert_run k (ds # dss) = (if k \<in> alertable_keys ds then alert_run k dss + 1 else 0)"

lemma alert_run_take: "n \<le> alert_run k dss \<longleftrightarrow> n \<le> length dss \<and> (\<forall>ds \<in> set (take n dss). k \<in> alertable_keys ds)"
proof (induction dss arbitrary: n)
  case (Cons ds dss)
  show ?case
  proof (cases n)
    case (Suc m)
    then show ?thesis using Cons.IH [of m] by auto
  qed simp
qed simp

lemma confirmed_snoc:
  "confirmed n k (dss @ [ds]) \<longleftrightarrow>
     confirmed n k dss \<and> k \<in> present_keys ds \<or> max 1 n \<le> alert_run k (rev (dss @ [ds]))"
proof
  assume "confirmed n k (dss @ [ds])"
  then obtain b r s where c: "dss @ [ds] = b @ r @ s" "length r = max 1 n" "\<forall>ds \<in> set r. k \<in> alertable_keys ds"
    "\<forall>ds \<in> set s. k \<in> present_keys ds" by (auto simp: confirmed_def)
  show "confirmed n k dss \<and> k \<in> present_keys ds \<or> max 1 n \<le> alert_run k (rev (dss @ [ds]))"
  proof (cases s rule: rev_cases)
    case Nil
    then have "rev (dss @ [ds]) = rev r @ rev b" using c(1) by simp
    then have "max 1 n \<le> alert_run k (rev (dss @ [ds]))" using c(2,3) by (simp add: alert_run_take)
    then show ?thesis ..
  next
    case (snoc s' d)
    then have "dss = b @ r @ s'" "d = ds" using c(1) by auto
    then have "confirmed n k dss" "k \<in> present_keys ds" using c snoc by (auto simp: confirmed_def)
    then show ?thesis by blast
  qed
next
  assume "confirmed n k dss \<and> k \<in> present_keys ds \<or> max 1 n \<le> alert_run k (rev (dss @ [ds]))"
  then show "confirmed n k (dss @ [ds])"
  proof
    assume "confirmed n k dss \<and> k \<in> present_keys ds"
    then obtain b r s where "dss = b @ r @ s" "length r = max 1 n" "\<forall>ds \<in> set r. k \<in> alertable_keys ds"
      "\<forall>ds \<in> set (s @ [ds]). k \<in> present_keys ds" by (auto simp: confirmed_def)
    then show ?thesis unfolding confirmed_def by (metis append_assoc)
  next
    assume a: "max 1 n \<le> alert_run k (rev (dss @ [ds]))"
    let ?l = "rev (dss @ [ds])"
    have "dss @ [ds] = rev (drop (max 1 n) ?l) @ rev (take (max 1 n) ?l) @ []"
      by (metis append_Nil2 append_take_drop_id rev_append rev_rev_ident)
    moreover have "length (rev (take (max 1 n) ?l)) = max 1 n" "\<forall>ds \<in> set (rev (take (max 1 n) ?l)). k \<in> alertable_keys ds"
      using a by (simp_all only: alert_run_take) auto
    ultimately show ?thesis unfolding confirmed_def by (metis empty_iff empty_set)
  qed
qed

lemma confirmed_run: "max 1 n \<le> alert_run k (rev dss) \<Longrightarrow> confirmed n k dss"
  by (cases dss rule: rev_cases) (auto simp: confirmed_snoc)

lemma track_active:
  "k \<in> active_keys (snd (track_rogues n ds st)) \<longleftrightarrow>
     (if k \<in> active_keys st then k \<in> present_keys ds else k \<in> alertable_keys ds \<and> max 1 n \<le> rg_pending st k + 1)"
  by (auto simp: track_rogues_def Let_def active_keys_def newly_confirmed_def resolved_keys_def streak_after_def)

lemma track_pending:
  "rg_pending (snd (track_rogues n ds st)) k =
     (if k \<notin> alertable_keys ds then 0 else if k \<in> active_keys st then rg_pending st k
      else if max 1 n \<le> rg_pending st k + 1 then 0 else rg_pending st k + 1)"
  by (auto simp: track_rogues_def Let_def newly_confirmed_def streak_after_def)

lemma sweeps_state:
  assumes "active_keys st = {}" "rg_pending st = (\<lambda>k. 0)"
  shows "(k \<in> active_keys (sweeps n dss st) \<longleftrightarrow> confirmed n k dss) \<and>
    rg_pending (sweeps n dss st) k = (if confirmed n k dss then 0 else alert_run k (rev dss))"
proof (induction dss rule: rev_induct)
  case Nil
  then show ?case using assms by (auto simp: sweeps_def confirmed_def)
next
  case (snoc ds dss)
  let ?s = "sweeps n dss st"
  have s: "sweeps n (dss @ [ds]) st = snd (track_rogues n ds ?s)" by (simp add: sweeps_def)
  show ?case
    unfolding s track_active track_pending confirmed_snoc using snoc confirmed_run [of n k dss] alertable_present [of k ds]
    by auto
qed


section \<open>Samples\<close>

definition sample_line :: broker_position_line where
  "sample_line = \<lparr>bp_ibkr_account = ''du7'', bp_symbol = ''msft '', bp_sec_type = ''CFD'', bp_con_id = 11, bp_currency = ''USD'',
     bp_exchange = ''SMART'', bp_quantity = 10, bp_avg_cost = 100\<rparr>"

definition sample_manual_row :: manual_position where
  "sample_manual_row = \<lparr>mn_id = 3, mn_account_id = 7, mn_trade_id = ''M1'', mn_symbol = ''MSFT'', mn_con_id = 11, mn_sec_type = ''CFD'',
     mn_currency = ''USD'', mn_signed_qty = 10, mn_avg_cost = 100, mn_realized_pnl = 0, mn_status = MP_OPEN, mn_opened_at = 1,
     mn_closed_at = None\<rparr>"

definition sample_input :: "broker_position_line list \<Rightarrow> bool \<Rightarrow> reconcile_input" where
  "sample_input lines timed_out = \<lparr>ri_broker = lines, ri_ledger = build_ledger_net_lines [] [] [sample_manual_row],
     ri_ibkr_to_account = [''DU7'' \<mapsto> 7], ri_account_to_ibkr = [7 \<mapsto> ''DU7''], ri_order_con_ids = Map.empty,
     ri_timed_out = timed_out, ri_in_flight = {}, ri_pick = (\<lambda>s. 11)\<rparr>"


definition sample_rogues :: rogue_state where
  "sample_rogues = \<lparr>rg_active = Some {}, rg_pending = (\<lambda>k. 0)\<rparr>"

definition sample_ghost :: rogue_key where
  "sample_ghost = (''DU7'', ''MSFT'', ''CFD'', MISMATCH_LEDGER_GHOST)"

lemma sample_ghost_seen: "sample_ghost \<in> alertable_keys (classify_reconcile_diffs (sample_input [] False))"
  by code_simp


section \<open>Sweeps that saw too little\<close>

text \<open>A sweep whose answer timed out reports no ghost, so it withdraws every standing alert of that kind.\<close>

lemma timeout_withdraws_ghosts:
  assumes "ri_timed_out inp" "(a, s, t, MISMATCH_LEDGER_GHOST) \<in> active_keys st"
  shows "RogueResolved (a, s, t, MISMATCH_LEDGER_GHOST) \<in> fst (track_rogues n (classify_reconcile_diffs inp) st)"
proof -
  have "df_kind d \<noteq> MISMATCH_LEDGER_GHOST" if "d \<in> set (classify_reconcile_diffs inp)" for d
  proof -
    have "diff_kind inp k \<noteq> Some MISMATCH_LEDGER_GHOST" for k
      using assms(1) by (auto simp: diff_kind_def split: option.splits)
    then show ?thesis
      using that key_diff_kind by (fastforce simp: classify_reconcile_diffs_def set_map_filter unmapped_diff_def)
  qed
  then have "(a, s, t, MISMATCH_LEDGER_GHOST) \<notin> present_keys (classify_reconcile_diffs inp)"
    by (force simp: present_keys_def rogue_key_of_def)
  with assms(2) show ?thesis by (auto simp: track_rogues_def Let_def resolved_keys_def)
qed

text \<open>A fetch that fails counts as an empty answer: every ledger line becomes a ghost.\<close>

lemma failed_fetch_reports_ghosts:
  "map df_kind (rn_mismatches (last (rc_runs (snd (run_once 2 False True None (sample_input [] True)
     \<lparr>rc_snapshot = [sample_line], rc_runs = [], rc_rogues = sample_rogues\<rparr>))))) = [MISMATCH_LEDGER_GHOST]"
  by code_simp

end
