(* ===== verification/Critical_Recovery.thy ===== *)
theory Critical_Recovery
  imports Position_Reconciler Coordinator Instruments
begin

text \<open>
  \<open>services/critical_recovery.py\<close>: the recovery of a basket that ended critical. Two attempts at most, each a
  snapshot of the broker's positions, a flatten of the contracts the basket filled, a second snapshot, and
  the release of the latch when these contracts are flat. What the broker answers in each attempt is an
  input; the flatten requests are an output.
\<close>

section \<open>Contracts as text\<close>

text \<open>\<open>rsplit(":", 1)\<close>: the text before and after the last colon.\<close>

definition rsplit_colon :: "string \<Rightarrow> (string \<times> string) option" where
  "rsplit_colon s =
     (if CHR '':'' \<in> set s
      then Some (rev (tl (dropWhile (\<lambda>c. c \<noteq> CHR '':'') (rev s))), rev (takeWhile (\<lambda>c. c \<noteq> CHR '':'') (rev s)))
      else None)"

definition parse_ibkr_contract :: "string \<Rightarrow> string \<times> string \<times> string \<times> string \<times> int option" where
  "parse_ibkr_contract text =
     (let (base, con_id) =
        (case rsplit_colon (py_strip text) of
           None \<Rightarrow> (py_strip text, None)
         | Some (b, c) \<Rightarrow> (b, case py_int c of Inl _ \<Rightarrow> None | Inr i \<Rightarrow> Some i))
      in case py_split (CHR ''-'') base of
           s # t # e # c # _ \<Rightarrow> (s, t, e, c, con_id)
         | s # _ \<Rightarrow> (s, ''STK'', ''SMART'', ''USD'', con_id)
         | [] \<Rightarrow> (base, ''STK'', ''SMART'', ''USD'', con_id))"

definition build_order_con_id_map :: "(int \<times> string) list \<Rightarrow> net_key \<rightharpoonup> int" where
  "build_order_con_id_map orders =
     fold (\<lambda>(account_id, contract) result.
        case parse_ibkr_contract contract of
          (s, t, _, _, con_id) \<Rightarrow>
            (case con_id of None \<Rightarrow> result | Some c \<Rightarrow> result((account_id, norm s, norm t) \<mapsto> c))) orders Map.empty"

section \<open>Tables\<close>

record cr_basket =
  cb_id :: int
  cb_account_id :: int
  cb_trade_id :: string
  cb_action :: string
  cb_strategy_id :: string
  cb_state :: basket_state
  cb_recovery_status :: "string option"

record cr_order =
  co_basket_id :: "int option"
  co_is_compensation :: bool
  co_fill_qty :: "decimal option"
  co_ibkr_contract :: string

record leftover_leg =
  lo_con_id :: int
  lo_symbol :: string
  lo_sec_type :: string

record recovery_world =
  rw_baskets :: "cr_basket list"
  rw_orders :: "cr_order list"
  rw_accounts :: "int \<rightharpoonup> string"
  rw_snapshot :: "broker_position_line list"
  rw_coord :: "coordinator option"

record recovery_env =
  re_connected :: "bool \<times> bool"
  re_fetched :: "(broker_position_line list \<times> bool) option \<times> (broker_position_line list \<times> bool) option"

record recovery_job =
  rj_account_id :: int
  rj_trade_id :: string
  rj_action :: string
  rj_strategy_id :: string

datatype recovery_outcome = Finished | Again

definition MAX_RECOVERY_ATTEMPTS :: nat where
  "MAX_RECOVERY_ATTEMPTS = 2"

section \<open>Steps of an attempt\<close>

definition job_row :: "recovery_job \<Rightarrow> cr_basket \<Rightarrow> bool" where
  "job_row job b \<longleftrightarrow> cb_account_id b = rj_account_id job \<and> cb_trade_id b = rj_trade_id job \<and> cb_action b = rj_action job"

definition get_basket :: "recovery_job \<Rightarrow> recovery_world \<Rightarrow> cr_basket option" where
  "get_basket job w = find (job_row job) (rw_baskets w)"

definition update_recovery :: "recovery_job \<Rightarrow> string option \<Rightarrow> basket_state option \<Rightarrow> recovery_world \<Rightarrow> recovery_world" where
  "update_recovery job status new_state w =
     w\<lparr>rw_baskets := map (\<lambda>b. if job_row job b
        then b\<lparr>cb_recovery_status := (case status of None \<Rightarrow> cb_recovery_status b | Some s \<Rightarrow> Some s),
               cb_state := (case new_state of None \<Rightarrow> cb_state b | Some s \<Rightarrow> s)\<rparr> else b) (rw_baskets w)\<rparr>"

definition has_critical :: "int \<Rightarrow> string \<Rightarrow> recovery_world \<Rightarrow> bool" where
  "has_critical a strategy_id w =
     list_ex (\<lambda>b. cb_account_id b = a \<and> cb_strategy_id b = strategy_id \<and> cb_state b = B_CRITICAL) (rw_baskets w)"

fun leftover_loop :: "cr_order list \<Rightarrow> int list \<Rightarrow> leftover_leg list" where
  "leftover_loop [] seen = []"
| "leftover_loop (x # xs) seen =
     (if co_is_compensation x \<or> (case co_fill_qty x of None \<Rightarrow> 0 | Some q \<Rightarrow> q) \<le> FILL_EPS then leftover_loop xs seen
      else (case parse_ibkr_contract (co_ibkr_contract x) of
              (s, t, _, _, con_id) \<Rightarrow>
                (case con_id of
                   None \<Rightarrow> leftover_loop xs seen
                 | Some c \<Rightarrow>
                     if c \<in> set seen then leftover_loop xs seen
                     else \<lparr>lo_con_id = c, lo_symbol = norm s, lo_sec_type = norm t\<rparr> # leftover_loop xs (c # seen))))"

definition collect_leftover_legs :: "int \<Rightarrow> recovery_world \<Rightarrow> leftover_leg list" where
  "collect_leftover_legs basket_id w = leftover_loop (filter (\<lambda>x. co_basket_id x = Some basket_id) (rw_orders w)) []"

text \<open>\<open>None\<close> is the violated key of two lines for one contract of an account.\<close>

definition fetch_and_persist_snapshot ::
  "bool \<Rightarrow> (broker_position_line list \<times> bool) option \<Rightarrow> recovery_world \<Rightarrow> (bool \<times> recovery_world) option" where
  "fetch_and_persist_snapshot is_up fetched w =
     (if \<not> is_up then Some (False, w)
      else (case fetched of
              None \<Rightarrow> Some (False, w)
            | Some (lines, timed_out) \<Rightarrow>
                if timed_out then Some (False, w)
                else if \<not> distinct (map (\<lambda>l. (bp_ibkr_account l, bp_con_id l)) lines) then None
                else Some (True, w\<lparr>rw_snapshot := map snapshot_row lines\<rparr>)))"

definition get_snapshot_line :: "string \<Rightarrow> int \<Rightarrow> recovery_world \<Rightarrow> broker_position_line option" where
  "get_snapshot_line ibkr con_id w = find (\<lambda>l. bp_ibkr_account l = ibkr \<and> bp_con_id l = con_id) (rw_snapshot w)"

definition flatten_leftovers :: "string \<Rightarrow> leftover_leg list \<Rightarrow> recovery_world \<Rightarrow> (leftover_leg \<times> decimal) list" where
  "flatten_leftovers ibkr legs w =
     List.map_filter (\<lambda>leg. case get_snapshot_line ibkr (lo_con_id leg) w of
        None \<Rightarrow> None
      | Some l \<Rightarrow> if \<bar>bp_quantity l\<bar> \<le> QTY_EPSILON then None else Some (leg, \<bar>bp_quantity l\<bar>)) legs"

definition broker_flat_for_conids :: "string \<Rightarrow> leftover_leg list \<Rightarrow> recovery_world \<Rightarrow> bool" where
  "broker_flat_for_conids ibkr legs w =
     list_all (\<lambda>leg. case get_snapshot_line ibkr (lo_con_id leg) w of
        None \<Rightarrow> True | Some l \<Rightarrow> \<not> \<bar>bp_quantity l\<bar> > QTY_EPSILON) legs"

text \<open>\<open>_clear_if_possible\<close> with \<open>clear_critical\<close> of the coordinator.\<close>

definition clear_if_possible :: "recovery_job \<Rightarrow> recovery_world \<Rightarrow> recovery_world" where
  "clear_if_possible job w =
     (case rw_coord w of
        None \<Rightarrow> w
      | Some coord \<Rightarrow>
          (let w1 = update_recovery job (Some ''CLEARED'') (Some B_RECOVERED) w in
           w1\<lparr>rw_coord := Some (snd (clear_critical (get_basket job w \<noteq> None)
                (has_critical (rj_account_id job) (rj_strategy_id job) w1) (rj_account_id job) (rj_strategy_id job) coord))\<rparr>))"

definition mark_failed :: "recovery_job \<Rightarrow> recovery_world \<Rightarrow> recovery_world" where
  "mark_failed job = update_recovery job (Some ''FAILED'') None"

definition again :: "nat \<Rightarrow> recovery_outcome" where
  "again attempt = (if attempt < MAX_RECOVERY_ATTEMPTS then Again else Finished)"

text \<open>The second half of an attempt, from the legs on. \<open>None\<close> stands for an exception, which the loop treats
  as another try.\<close>

definition flatten_and_verify ::
  "recovery_env \<Rightarrow> recovery_job \<Rightarrow> nat \<Rightarrow> string \<Rightarrow> leftover_leg list \<Rightarrow> recovery_world \<Rightarrow>
   recovery_outcome option \<times> (leftover_leg \<times> decimal) list \<times> recovery_world" where
  "flatten_and_verify env job attempt ibkr legs w =
     (case fetch_and_persist_snapshot (fst (re_connected env)) (fst (re_fetched env)) w of
        None \<Rightarrow> (None, [], w)
      | Some (False, w1) \<Rightarrow> (Some (again attempt), [], mark_failed job w1)
      | Some (True, w1) \<Rightarrow>
          (let sent = flatten_leftovers ibkr legs w1 in
           case fetch_and_persist_snapshot (snd (re_connected env)) (snd (re_fetched env)) w1 of
             None \<Rightarrow> (None, sent, w1)
           | Some (False, w2) \<Rightarrow> (Some (again attempt), sent, mark_failed job w2)
           | Some (True, w2) \<Rightarrow>
               if broker_flat_for_conids ibkr legs w2 then (Some Finished, sent, clear_if_possible job w2)
               else (Some (again attempt), sent, mark_failed job w2)))"

definition recover_once ::
  "recovery_env \<Rightarrow> recovery_job \<Rightarrow> nat \<Rightarrow> recovery_world \<Rightarrow>
   recovery_outcome option \<times> (leftover_leg \<times> decimal) list \<times> recovery_world" where
  "recover_once env job attempt w =
     (case get_basket job w of
        None \<Rightarrow> (Some Finished, [], w)
      | Some row \<Rightarrow>
          if cb_state row \<noteq> B_CRITICAL then (Some Finished, [], w)
          else (case rw_accounts w (rj_account_id job) of
                  None \<Rightarrow> (Some Finished, [], w)
                | Some ibkr \<Rightarrow>
                    (let w1 = update_recovery job (Some ''RECOVERING'') None w;
                         legs = collect_leftover_legs (cb_id row) w1
                     in if legs = [] then (Some Finished, [], clear_if_possible job w1)
                        else flatten_and_verify env job attempt ibkr legs w1)))"

fun recovery_loop ::
  "(nat \<Rightarrow> recovery_env) \<Rightarrow> recovery_job \<Rightarrow> nat \<Rightarrow> nat \<Rightarrow> recovery_world \<Rightarrow> (leftover_leg \<times> decimal) list \<times> recovery_world" where
  "recovery_loop envs job 0 attempt w = ([], w)"
| "recovery_loop envs job (Suc n) attempt w =
     (case recover_once (envs attempt) job attempt w of
        (outcome, sent, w1) \<Rightarrow>
          if outcome = Some Finished then (sent, w1)
          else (case recovery_loop envs job n (attempt + 1) w1 of (rest, w2) \<Rightarrow> (sent @ rest, w2)))"

definition run_recovery :: "(nat \<Rightarrow> recovery_env) \<Rightarrow> recovery_job \<Rightarrow> recovery_world \<Rightarrow> (leftover_leg \<times> decimal) list \<times> recovery_world" where
  "run_recovery envs job w = recovery_loop envs job MAX_RECOVERY_ATTEMPTS 1 w"

section \<open>Scheduling\<close>

definition schedule_recovery :: "recovery_job \<Rightarrow> recovery_job list \<Rightarrow> recovery_job list" where
  "schedule_recovery job in_flight =
     (if list_ex (\<lambda>j. rj_account_id j = rj_account_id job \<and> rj_trade_id j = rj_trade_id job \<and> rj_action j = rj_action job) in_flight
      then in_flight else in_flight @ [job])"

definition enqueue_all_critical :: "recovery_world \<Rightarrow> recovery_job list \<Rightarrow> recovery_job list" where
  "enqueue_all_critical w in_flight =
     fold (\<lambda>b. schedule_recovery \<lparr>rj_account_id = cb_account_id b, rj_trade_id = cb_trade_id b, rj_action = cb_action b,
                                  rj_strategy_id = cb_strategy_id b\<rparr>)
       (filter (\<lambda>b. cb_state b = B_CRITICAL) (rw_baskets w)) in_flight"

section \<open>Contracts as text, there and back\<close>

definition plain_word :: "string \<Rightarrow> bool" where
  "plain_word s \<longleftrightarrow> list_all (\<lambda>c. c \<noteq> CHR ''-'' \<and> c \<noteq> CHR '':'' \<and> \<not> py_isspace c) s"

lemma py_strip_no_space: "list_all (\<lambda>c. \<not> py_isspace c) s \<Longrightarrow> py_strip s = s"
proof -
  have keep: "dropWhile py_isspace t = t" if "list_all (\<lambda>c. \<not> py_isspace c) t" for t
    using that by (cases t) auto
  assume "list_all (\<lambda>c. \<not> py_isspace c) s"
  then show ?thesis
    by (simp add: py_strip_def py_lstrip_def py_rstrip_def keep list_all_rev)
qed

lemma rsplit_colon_last:
  assumes "CHR '':'' \<notin> set t"
  shows "rsplit_colon (s @ CHR '':'' # t) = Some (s, t)"
proof -
  have "takeWhile (\<lambda>c. c \<noteq> CHR '':'') (rev t @ CHR '':'' # rev s) = rev t"
    "dropWhile (\<lambda>c. c \<noteq> CHR '':'') (rev t @ CHR '':'' # rev s) = CHR '':'' # rev s"
    using assms by (subst takeWhile_append2 dropWhile_append2; auto)+
  then show ?thesis by (simp add: rsplit_colon_def)
qed

lemma plain_wordD:
  assumes "plain_word s"
  shows "CHR ''-'' \<notin> set s" "CHR '':'' \<notin> set s" "list_all (\<lambda>c. \<not> py_isspace c) s"
  using assms by (auto simp: plain_word_def list_all_iff)

lemma plain_parts:
  assumes "plain_word s" "plain_word t" "plain_word e" "plain_word c"
  shows "py_split (CHR ''-'') (s @ ''-'' @ t @ ''-'' @ e @ ''-'' @ c) = [s, t, e, c]"
  using assms by (simp add: py_split_sep py_split_no_sep plain_wordD)

lemma con_id_text:
  assumes "0 < c" "c < 10 ^ 18"
  shows "py_int (int_text c) = Inr c" "CHR '':'' \<notin> set (int_text c)" "list_all (\<lambda>c. \<not> py_isspace c) (int_text c)"
proof -
  have t: "int_text c = nat_digits (nat c)" using assms by (simp add: int_text_def)
  have "nat c < 10 ^ Suc 17" using assms by (simp add: nat_less_iff)
  then have "length (nat_digits (nat c)) \<le> 4300" using length_nat_digits [of "nat c" 17] by simp
  then show "py_int (int_text c) = Inr c"
    unfolding t using assms by (subst py_int_digits) (auto simp: digits_value_nat_digits dest: nat_digits_digit)
  show "CHR '':'' \<notin> set (int_text c)"
    unfolding t using nat_digits_digit [of "CHR '':''" "nat c"] by (auto simp: py_isdigit_def char_code_def)
  show "list_all (\<lambda>c. \<not> py_isspace c) (int_text c)"
    unfolding t by (auto simp: list_all_iff dest!: nat_digits_digit digit_facts(1))
qed

text \<open>C40. The identity key an order is stored under reads back as its instrument's symbol, security type, exchange, currency and
  contract id, when these are free of the two separators and of white space.\<close>

theorem contract_text_roundtrip:
  assumes "plain_word (ri_symbol r)" "plain_word (ri_sec_type r)" "plain_word (ri_exchange r)" "plain_word (ri_currency r)"
    and "case ri_con_id r of None \<Rightarrow> True | Some c \<Rightarrow> 0 < c \<and> c < 10 ^ 18"
  shows "parse_ibkr_contract (identity_key r) = (ri_symbol r, ri_sec_type r, ri_exchange r, ri_currency r, ri_con_id r)"
proof -
  let ?base = "ri_symbol r @ ''-'' @ ri_sec_type r @ ''-'' @ ri_exchange r @ ''-'' @ ri_currency r"
  have parts: "py_split (CHR ''-'') ?base = [ri_symbol r, ri_sec_type r, ri_exchange r, ri_currency r]"
    using assms by (intro plain_parts)
  have dash: "\<not> py_isspace (CHR ''-'')" "\<not> py_isspace (CHR '':'')" by code_simp+
  have tight: "list_all (\<lambda>c. \<not> py_isspace c) ?base" using assms by (simp add: plain_wordD dash)
  have nocolon: "CHR '':'' \<notin> set ?base" using assms by (simp add: plain_wordD)
  show ?thesis
  proof (cases "ri_con_id r")
    case None
    then have "identity_key r = ?base" by (simp add: identity_key_def)
    then show ?thesis
      using parts nocolon None py_strip_no_space [OF tight] by (simp add: parse_ibkr_contract_def rsplit_colon_def)
  next
    case (Some c)
    then have c: "0 < c" "c < 10 ^ 18" using assms by auto
    then have key: "identity_key r = ?base @ CHR '':'' # int_text c" using Some by (simp add: identity_key_def)
    have "list_all (\<lambda>c. \<not> py_isspace c) (?base @ CHR '':'' # int_text c)"
      using tight con_id_text(3) [OF c] dash by (simp only: list_all_append list.pred_inject) simp
    then have strip: "py_strip (identity_key r) = ?base @ CHR '':'' # int_text c"
      unfolding key by (rule py_strip_no_space)
    show ?thesis
      unfolding parse_ibkr_contract_def strip rsplit_colon_last [OF con_id_text(2) [OF c]]
      using parts con_id_text(1) [OF c] Some by simp
  qed
qed

definition contract_sample :: resolved_instrument where
  "contract_sample =
     \<lparr>ri_symbol = ''AAPL'', ri_requested_instrument_type = ''STK'', ri_sec_type = ''STK'', ri_exchange = ''SMART'', ri_currency = ''USD'',
      ri_con_id = Some 265598, ri_market_data_con_id = None, ri_multiplier = 1, ri_primary_exchange = None, ri_size_increment = None\<rparr>"

theorem contract_text_roundtrip_witness:
  "parse_ibkr_contract (identity_key contract_sample) = (''AAPL'', ''STK'', ''SMART'', ''USD'', Some 265598)"
proof -
  have "plain_word ''AAPL''" "plain_word ''STK''" "plain_word ''SMART''" "plain_word ''USD''" by code_simp+
  then show ?thesis using contract_text_roundtrip [of contract_sample] by (simp add: contract_sample_def)
qed

text \<open>A symbol with a dash does not survive: its parts take the places of the following fields.\<close>

lemma dashed_symbol_shifts:
  "parse_ibkr_contract ''BRK-B-STK-SMART-USD'' = (''BRK'', ''B'', ''STK'', ''SMART'', None)"
  by code_simp

section \<open>When the latch is released\<close>

text \<open>The contracts a basket holds by its order rows: filled, not by a compensation, with a contract id.\<close>

definition filled_con_ids :: "int \<Rightarrow> recovery_world \<Rightarrow> int list" where
  "filled_con_ids basket_id w =
     List.map_filter (\<lambda>x. if co_basket_id x = Some basket_id \<and> \<not> co_is_compensation x \<and>
          FILL_EPS < (case co_fill_qty x of None \<Rightarrow> 0 | Some q \<Rightarrow> q)
        then snd (snd (snd (snd (parse_ibkr_contract (co_ibkr_contract x))))) else None) (rw_orders w)"

definition without_status :: "cr_basket \<Rightarrow> cr_basket" where
  "without_status b = b\<lparr>cb_recovery_status := None\<rparr>"

definition same_but_status :: "recovery_world \<Rightarrow> recovery_world \<Rightarrow> bool" where
  "same_but_status w w1 \<longleftrightarrow>
     rw_orders w1 = rw_orders w \<and> rw_accounts w1 = rw_accounts w \<and> rw_coord w1 = rw_coord w \<and>
     map without_status (rw_baskets w1) = map without_status (rw_baskets w)"

text \<open>The evidence for a release: the last answer of the broker, complete, shows the contracts flat.\<close>

definition seen_flat :: "recovery_env \<Rightarrow> string \<Rightarrow> int list \<Rightarrow> bool" where
  "seen_flat env ibkr con_ids \<longleftrightarrow> snd (re_connected env) \<and>
     (case snd (re_fetched env) of
        Some (lines, False) \<Rightarrow>
          list_all (\<lambda>l. bp_ibkr_account l = ibkr \<and> bp_con_id l \<in> set con_ids \<longrightarrow> \<bar>bp_quantity l\<bar> \<le> QTY_EPSILON) lines
      | _ \<Rightarrow> False)"

lemma same_but_status_refl [simp]: "same_but_status w w"
  by (simp add: same_but_status_def)

lemma same_but_status_trans: "same_but_status w1 w2 \<Longrightarrow> same_but_status w2 w3 \<Longrightarrow> same_but_status w1 w3"
  by (simp add: same_but_status_def)

lemma update_recovery_status: "same_but_status w (update_recovery job status None w)"
  by (auto simp: same_but_status_def update_recovery_def without_status_def)

lemma mark_failed_status: "same_but_status w (mark_failed job w)"
  by (simp add: mark_failed_def update_recovery_status)

lemma fetch_status: "fetch_and_persist_snapshot up fetched w = Some (ok, w1) \<Longrightarrow> same_but_status w w1"
  by (auto simp: fetch_and_persist_snapshot_def same_but_status_def split: if_splits option.splits)

lemma find_map_keeping: "(\<And>x. P (f x) = P x) \<Longrightarrow> find P (map f xs) = map_option f (find P xs)"
  by (induction xs) auto

lemma get_basket_status:
  assumes "same_but_status w w1"
  shows "map_option without_status (get_basket job w1) = map_option without_status (get_basket job w)"
proof -
  have "job_row job (without_status b) = job_row job b" for b by (simp add: job_row_def without_status_def)
  from find_map_keeping [of "job_row job" without_status, OF this]
  have "find (job_row job) (map without_status (rw_baskets v)) = map_option without_status (get_basket job v)" for v
    by (simp add: get_basket_def)
  then show ?thesis using assms by (metis same_but_status_def)
qed

lemma leftover_con_ids:
  "set (map lo_con_id (leftover_loop xs seen)) \<union> set seen =
   set seen \<union> set (List.map_filter (\<lambda>x. if \<not> co_is_compensation x \<and> FILL_EPS < (case co_fill_qty x of None \<Rightarrow> 0 | Some q \<Rightarrow> q)
     then snd (snd (snd (snd (parse_ibkr_contract (co_ibkr_contract x))))) else None) xs)"
proof (induction xs seen rule: leftover_loop.induct)
  case (1 seen)
  then show ?case by (simp add: map_filter_simps)
next
  case (2 x xs seen)
  obtain s t e c con_id where p: "parse_ibkr_contract (co_ibkr_contract x) = (s, t, e, c, con_id)"
    by (metis prod_cases5)
  show ?case
  proof (cases con_id)
    case None
    then show ?thesis using 2 p by (cases "co_fill_qty x") (auto simp: map_filter_simps)
  next
    case (Some i)
    then show ?thesis using 2 p by (cases "co_fill_qty x"; cases "i \<in> set seen") (auto simp: map_filter_simps)
  qed
qed

lemma map_filter_filter: "List.map_filter f (filter P xs) = List.map_filter (\<lambda>x. if P x then f x else None) xs"
  by (induction xs) (auto simp: map_filter_simps split: option.splits)

lemma collect_leftover_con_ids: "set (map lo_con_id (collect_leftover_legs basket_id w)) = set (filled_con_ids basket_id w)"
proof -
  have "set (map lo_con_id (collect_leftover_legs basket_id w)) =
    set (List.map_filter (\<lambda>x. if \<not> co_is_compensation x \<and> FILL_EPS < (case co_fill_qty x of None \<Rightarrow> 0 | Some q \<Rightarrow> q)
     then snd (snd (snd (snd (parse_ibkr_contract (co_ibkr_contract x))))) else None)
       (filter (\<lambda>x. co_basket_id x = Some basket_id) (rw_orders w)))"
    using leftover_con_ids [of _ "[]"] by (simp add: collect_leftover_legs_def)
  also have "\<dots> = set (filled_con_ids basket_id w)"
    unfolding map_filter_filter filled_con_ids_def by (rule arg_cong [where f = "\<lambda>f. set (List.map_filter f (rw_orders w))"]) auto
  finally show ?thesis .
qed

lemma distinct_key_find:
  assumes "distinct (map k xs)" "x \<in> set xs" "\<And>y. P y \<longleftrightarrow> k y = k x"
  shows "find P xs = Some x"
  using assms(1,2) by (induction xs) (auto simp: assms(3) rev_image_eqI)

lemma fetch_flat:
  assumes "fetch_and_persist_snapshot (snd (re_connected env)) (snd (re_fetched env)) w = Some (True, w1)"
    and "broker_flat_for_conids ibkr legs w1"
  shows "seen_flat env ibkr (map lo_con_id legs)"
proof -
  obtain lines where up: "snd (re_connected env)" and fetched: "snd (re_fetched env) = Some (lines, False)"
    and keys: "distinct (map (\<lambda>l. (bp_ibkr_account l, bp_con_id l)) lines)" and snap: "rw_snapshot w1 = map snapshot_row lines"
    using assms(1) by (auto simp: fetch_and_persist_snapshot_def split: if_splits option.splits)
  have "\<bar>bp_quantity l\<bar> \<le> QTY_EPSILON" if l: "l \<in> set lines" "bp_ibkr_account l = ibkr" "bp_con_id l \<in> set (map lo_con_id legs)" for l
  proof -
    obtain leg where leg: "leg \<in> set legs" "lo_con_id leg = bp_con_id l" using l(3) by auto
    have "find (\<lambda>k. bp_ibkr_account k = ibkr \<and> bp_con_id k = lo_con_id leg) (map snapshot_row lines) =
      map_option snapshot_row (find (\<lambda>k. bp_ibkr_account k = ibkr \<and> bp_con_id k = lo_con_id leg) lines)"
      by (rule find_map_keeping) (simp add: snapshot_row_def)
    moreover have "find (\<lambda>k. bp_ibkr_account k = ibkr \<and> bp_con_id k = lo_con_id leg) lines = Some l"
      by (rule distinct_key_find [OF keys l(1)]) (use l leg in auto)
    ultimately have "get_snapshot_line ibkr (lo_con_id leg) w1 = Some (snapshot_row l)"
      by (simp add: get_snapshot_line_def snap)
    then show ?thesis using assms(2) leg(1) by (auto simp: broker_flat_for_conids_def list_all_iff snapshot_row_def)
  qed
  then show ?thesis using up fetched by (simp add: seen_flat_def list_all_iff)
qed

lemma flatten_and_verify_cases:
  assumes "flatten_and_verify env job attempt ibkr legs w = (outcome, sent, w1)"
  shows "same_but_status w w1 \<or>
    (outcome = Some Finished \<and> seen_flat env ibkr (map lo_con_id legs) \<and> (\<exists>w2. same_but_status w w2 \<and> w1 = clear_if_possible job w2))"
proof (cases "fetch_and_persist_snapshot (fst (re_connected env)) (fst (re_fetched env)) w")
  case None
  then show ?thesis using assms by (simp add: flatten_and_verify_def)
next
  case (Some p)
  obtain ok1 v1 where p: "p = (ok1, v1)" by (cases p)
  have s1: "same_but_status w v1" using Some p by (auto dest: fetch_status)
  show ?thesis
  proof (cases "ok1 \<and> fetch_and_persist_snapshot (snd (re_connected env)) (snd (re_fetched env)) v1 \<noteq> None")
    case False
    then show ?thesis using assms Some p s1 same_but_status_trans [OF s1 mark_failed_status [of v1 job]]
      by (auto simp: flatten_and_verify_def Let_def split: bool.splits option.splits)
  next
    case True
    then obtain ok2 v2 where q: "fetch_and_persist_snapshot (snd (re_connected env)) (snd (re_fetched env)) v1 = Some (ok2, v2)"
      by auto
    have s2: "same_but_status w v2" using same_but_status_trans [OF s1 fetch_status [OF q]] .
    show ?thesis
      using assms Some p True q s2 same_but_status_trans [OF s2 mark_failed_status [of v2 job]] fetch_flat [of env v1 v2 ibkr legs]
      by (cases ok2) (auto simp: flatten_and_verify_def Let_def split: if_splits)
  qed
qed

lemma recover_once_cases:
  assumes "recover_once env job attempt w = (outcome, sent, w1)"
  shows "same_but_status w w1 \<or>
    (outcome = Some Finished \<and>
     (\<exists>row ibkr w2. get_basket job w = Some row \<and> cb_state row = B_CRITICAL \<and> rw_accounts w (rj_account_id job) = Some ibkr \<and>
        (filled_con_ids (cb_id row) w = [] \<or> seen_flat env ibkr (filled_con_ids (cb_id row) w)) \<and>
        same_but_status w w2 \<and> w1 = clear_if_possible job w2))"
proof (cases "\<exists>row ibkr. get_basket job w = Some row \<and> cb_state row = B_CRITICAL \<and> rw_accounts w (rj_account_id job) = Some ibkr")
  case False
  then have "w1 = w" using assms by (auto simp: recover_once_def Let_def split: option.splits if_splits)
  then show ?thesis by simp
next
  case True
  then obtain row ibkr where found: "get_basket job w = Some row" "cb_state row = B_CRITICAL" "rw_accounts w (rj_account_id job) = Some ibkr"
    by auto
  define v where "v = update_recovery job (Some ''RECOVERING'') None w"
  define legs where "legs = collect_leftover_legs (cb_id row) v"
  have s1: "same_but_status w v" by (simp add: v_def update_recovery_status)
  have "filled_con_ids (cb_id row) v = filled_con_ids (cb_id row) w" using s1 by (simp add: filled_con_ids_def same_but_status_def)
  then have ids: "set (map lo_con_id legs) = set (filled_con_ids (cb_id row) w)"
    unfolding legs_def collect_leftover_con_ids by simp
  have run: "(if legs = [] then (Some Finished, [], clear_if_possible job v) else flatten_and_verify env job attempt ibkr legs v)
    = (outcome, sent, w1)"
    using assms found by (auto simp: recover_once_def Let_def v_def legs_def split: if_splits)
  show ?thesis
  proof (cases "legs = []")
    case True
    then show ?thesis using run ids found s1 by auto
  next
    case False
    have flat: "seen_flat env ibkr (map lo_con_id legs) = seen_flat env ibkr (filled_con_ids (cb_id row) w)"
      unfolding seen_flat_def ids ..
    from False run have "flatten_and_verify env job attempt ibkr legs v = (outcome, sent, w1)" by simp
    from flatten_and_verify_cases [OF this] show ?thesis
      unfolding flat using found s1 same_but_status_trans by blast
  qed
qed

lemma clear_if_possible_latch:
  assumes "rw_coord w = Some s" "k \<in> critical s" "k = (rj_account_id job, rj_strategy_id job)"
    and "rw_coord (clear_if_possible job w) = Some s'" "k \<notin> critical s'"
  shows "\<not> has_critical (rj_account_id job) (rj_strategy_id job) (clear_if_possible job w)"
  using assms by (auto simp: clear_if_possible_def clear_critical_def has_critical_def Let_def split: if_splits)

text \<open>A latch that was set before a recovery and is not set after it: the basket was critical, no critical row of the
  account and strategy is left, and either no order row of the basket shows a fill of a known contract or a
  complete answer of the broker showed every one of these contracts flat.\<close>

lemma recovery_loop_latch:
  assumes "recovery_loop envs job n attempt w = (sent, w')"
    and "rw_coord w = Some s" "k \<in> critical s" "k = (rj_account_id job, rj_strategy_id job)"
    and "rw_coord w' = Some s'" "k \<notin> critical s'"
  shows "\<not> has_critical (rj_account_id job) (rj_strategy_id job) w' \<and>
    (\<exists>row ibkr. get_basket job w = Some row \<and> cb_state row = B_CRITICAL \<and> rw_accounts w (rj_account_id job) = Some ibkr \<and>
       (filled_con_ids (cb_id row) w = [] \<or>
        (\<exists>i. attempt \<le> i \<and> i < attempt + n \<and> seen_flat (envs i) ibkr (filled_con_ids (cb_id row) w))))"
  using assms
proof (induction n arbitrary: attempt w sent)
  case 0
  then show ?case by auto
next
  case (Suc n)
  obtain outcome sent1 w1 where once: "recover_once (envs attempt) job attempt w = (outcome, sent1, w1)"
    by (metis prod_cases3)
  from recover_once_cases [OF once] show ?case
  proof
    assume same: "same_but_status w w1"
    then have "outcome \<noteq> Some Finished" using Suc.prems once by (auto simp: same_but_status_def)
    then obtain sent2 where rest: "recovery_loop envs job n (attempt + 1) w1 = (sent2, w')"
      using Suc.prems(1) once by (auto split: prod.splits)
    have "rw_coord w1 = Some s" using same Suc.prems(2) by (simp add: same_but_status_def)
    from Suc.IH [OF rest this Suc.prems(3-6)] obtain row1 ibkr where
      hc: "\<not> has_critical (rj_account_id job) (rj_strategy_id job) w'" and
      row1: "get_basket job w1 = Some row1" "cb_state row1 = B_CRITICAL" "rw_accounts w1 (rj_account_id job) = Some ibkr" and
      ev: "filled_con_ids (cb_id row1) w1 = [] \<or>
        (\<exists>i. attempt + 1 \<le> i \<and> i < attempt + 1 + n \<and> seen_flat (envs i) ibkr (filled_con_ids (cb_id row1) w1))" by blast
    from get_basket_status [OF same, of job] row1(1) obtain row where
      row: "get_basket job w = Some row" "without_status row1 = without_status row"
      by (cases "get_basket job w") auto
    then have "cb_id row1 = cb_id row" "cb_state row1 = cb_state row"
      by (auto simp: without_status_def dest: arg_cong [where f = cb_id] arg_cong [where f = cb_state])
    moreover have "filled_con_ids b w1 = filled_con_ids b w" "rw_accounts w1 = rw_accounts w" for b
      using same by (simp_all add: filled_con_ids_def same_but_status_def)
    ultimately show ?thesis using hc row row1 ev by (auto intro: Suc_leD)
  next
    assume "outcome = Some Finished \<and>
     (\<exists>row ibkr w2. get_basket job w = Some row \<and> cb_state row = B_CRITICAL \<and> rw_accounts w (rj_account_id job) = Some ibkr \<and>
        (filled_con_ids (cb_id row) w = [] \<or> seen_flat (envs attempt) ibkr (filled_con_ids (cb_id row) w)) \<and>
        same_but_status w w2 \<and> w1 = clear_if_possible job w2)"
    then obtain row ibkr w2 where d: "outcome = Some Finished" "get_basket job w = Some row" "cb_state row = B_CRITICAL"
      "rw_accounts w (rj_account_id job) = Some ibkr"
      "filled_con_ids (cb_id row) w = [] \<or> seen_flat (envs attempt) ibkr (filled_con_ids (cb_id row) w)"
      "same_but_status w w2" "w1 = clear_if_possible job w2" by blast
    have w': "w' = clear_if_possible job w2" using Suc.prems(1) once d by simp
    have "rw_coord w2 = Some s" using d(6) Suc.prems(2) by (simp add: same_but_status_def)
    from clear_if_possible_latch [OF this Suc.prems(3,4)] have "\<not> has_critical (rj_account_id job) (rj_strategy_id job) w'"
      using Suc.prems(5,6) w' by simp
    then show ?thesis using d(2-5) by auto
  qed
qed


text \<open>A basket whose one leg was filled, with an unwind that did not: the first attempt times out on the second
  snapshot, the second sees the contract flat.\<close>

definition recovery_sample_job :: recovery_job where
  "recovery_sample_job = \<lparr>rj_account_id = 1, rj_trade_id = ''T1'', rj_action = ''OPEN'', rj_strategy_id = ''blue''\<rparr>"

definition recovery_sample_line :: "decimal \<Rightarrow> broker_position_line" where
  "recovery_sample_line q = \<lparr>bp_ibkr_account = ''DU1'', bp_symbol = ''AAPL'', bp_sec_type = ''STK'', bp_con_id = 265598,
     bp_currency = ''USD'', bp_exchange = ''SMART'', bp_quantity = q, bp_avg_cost = 100\<rparr>"

definition recovery_sample_envs :: "nat \<Rightarrow> recovery_env" where
  "recovery_sample_envs i =
     \<lparr>re_connected = (True, True),
      re_fetched = (Some ([recovery_sample_line 5], False), Some ([recovery_sample_line (if i = 1 then 5 else 0)], i = 1))\<rparr>"

definition recovery_sample_world :: recovery_world where
  "recovery_sample_world =
     \<lparr>rw_baskets = [\<lparr>cb_id = 7, cb_account_id = 1, cb_trade_id = ''T1'', cb_action = ''OPEN'', cb_strategy_id = ''blue'',
        cb_state = B_CRITICAL, cb_recovery_status = None\<rparr>],
      rw_orders = [\<lparr>co_basket_id = Some 7, co_is_compensation = False, co_fill_qty = Some 5,
        co_ibkr_contract = ''AAPL-STK-SMART-USD:265598''\<rparr>],
      rw_accounts = [1 \<mapsto> ''DU1''], rw_snapshot = [],
      rw_coord = Some \<lparr>io_step = 0, tracked = Map.empty, submitted_signals = {}, retry_policy = None, fill_timeout = 10,
        paper_retries_allowed = False, rms_wired = True, retry_ids = {}, critical = {(1, ''blue'')}, saved_baskets = [],
        events = [], scheduled = []\<rparr>\<rparr>"

lemma recovery_sample_contract:
  "parse_ibkr_contract ''AAPL-STK-SMART-USD:265598'' = (''AAPL'', ''STK'', ''SMART'', ''USD'', Some 265598)"
proof -
  have "py_int ''265598'' = Inr (int (digits_value 0 ''265598''))"
    by (rule py_int_digits) (simp_all add: py_isdigit_def char_code_def)
  moreover have "digits_value 0 ''265598'' = 265598" by (simp add: char_code_def)
  moreover have "py_strip ''AAPL-STK-SMART-USD:265598'' = ''AAPL-STK-SMART-USD:265598''" by code_simp
  moreover have "rsplit_colon ''AAPL-STK-SMART-USD:265598'' = Some (''AAPL-STK-SMART-USD'', ''265598'')" by code_simp
  moreover have "py_split (CHR ''-'') ''AAPL-STK-SMART-USD'' = [''AAPL'', ''STK'', ''SMART'', ''USD'']" by code_simp
  ultimately show ?thesis by (simp add: parse_ibkr_contract_def)
qed

lemmas recovery_sample_defs = recovery_sample_world_def recovery_sample_job_def recovery_sample_envs_def
  recovery_sample_line_def recovery_sample_contract FILL_EPS_def QTY_EPSILON_def

lemma recovery_sample_legs:
  "rw_orders w = rw_orders recovery_sample_world \<Longrightarrow>
   collect_leftover_legs 7 w = [\<lparr>lo_con_id = 265598, lo_symbol = ''AAPL'', lo_sec_type = ''STK''\<rparr>]"
proof -
  have n: "norm ''AAPL'' = ''AAPL''" "norm ''STK'' = ''STK''" by code_simp+
  assume "rw_orders w = rw_orders recovery_sample_world"
  then show ?thesis by (simp add: collect_leftover_legs_def recovery_sample_defs n)
qed

lemma recovery_sample_released:
  "\<exists>sent w' s'. run_recovery recovery_sample_envs recovery_sample_job recovery_sample_world = (sent, w') \<and> rw_coord w' = Some s' \<and>
     (1, ''blue'') \<notin> critical s' \<and> length sent = 2"
  using recovery_sample_legs
  by (simp add: run_recovery_def MAX_RECOVERY_ATTEMPTS_def numeral_2_eq_2 recover_once_def get_basket_def job_row_def
    update_recovery_def flatten_and_verify_def fetch_and_persist_snapshot_def flatten_leftovers_def map_filter_simps
    get_snapshot_line_def snapshot_row_def broker_flat_for_conids_def clear_if_possible_def clear_critical_def
    has_critical_def mark_failed_def again_def recovery_sample_defs)


text \<open>An order without a contract id is not among the legs: the latch of a basket with such a fill is released
  without any look at the broker.\<close>

lemma unknown_contract_released:
  "let w = recovery_sample_world\<lparr>rw_orders := [\<lparr>co_basket_id = Some 7, co_is_compensation = False, co_fill_qty = Some 5,
       co_ibkr_contract = ''AAPL-STK-SMART-USD''\<rparr>]\<rparr>;
       (outcome, sent, w') = recover_once env recovery_sample_job 1 w
   in outcome = Some Finished \<and> sent = [] \<and> map_option critical (rw_coord w') = Some {}"
proof -
  have "parse_ibkr_contract ''AAPL-STK-SMART-USD'' = (''AAPL'', ''STK'', ''SMART'', ''USD'', None)" by code_simp
  then show ?thesis
    by (simp add: recover_once_def get_basket_def job_row_def update_recovery_def collect_leftover_legs_def
      clear_if_possible_def clear_critical_def has_critical_def recovery_sample_defs)
qed

end
