(* ===== verification/Risk_Monitor.thy ===== *)
theory Risk_Monitor
  imports Kill_Switch_Properties Risk_Exit Session_Clock
begin

text \<open>
  \<open>services/position_close_service.py\<close>, \<open>services/risk_exit_monitor.py\<close> and
  \<open>services/loss_threshold_monitor.py\<close>: the close of one pair on request, the monitor that applies the risk
  exit rules to the open pairs and to the day's result of the accounts, and the alert on realised losses.

  A tick of the monitor runs alone, since it holds the tick lock; other requests run between ticks. Its two
  in-flight sets are therefore empty whenever they are read. Moments are in UTC; opening and closing times
  are those of the session clock in New York time, \<open>rv_utc\<close> converts them. Live marks are read for the accounts (0)
  and again for the pairs (1). The rebuild of the risk context
  after a close is not part of the model.
\<close>

section \<open>Closing one pair\<close>

datatype close_error = AccountUnknown | AlreadyClosed | PositionUnknown | FlattenInProgress | CloseRaised py_error

record close_response =
  cp_status :: string
  cp_success :: bool

definition CLOSED_RESPONSE :: close_response where "CLOSED_RESPONSE = \<lparr>cp_status = ''CLOSED'', cp_success = True\<rparr>"
definition FAILED_RESPONSE :: close_response where "FAILED_RESPONSE = \<lparr>cp_status = ''FAILED'', cp_success = False\<rparr>"

definition close_pair_intent :: "datetime \<Rightarrow> int \<Rightarrow> string \<Rightarrow> string \<Rightarrow> position \<Rightarrow> order_intent" where
  "close_pair_intent now account_id ibkr trade_id pos =
     \<lparr>oi_signal_id = ''CLOSEPAIR-'' @ trade_id, oi_strategy_id = p_strategy_id pos, oi_action = CLOSE,
      oi_legs = flatten_legs pos, oi_account_id = Some account_id, oi_ibkr_account = Some ibkr, oi_market = None,
      oi_timestamp = now, oi_intent_mode = EMERGENCY_FLATTEN\<rparr>"

definition close_pair_pass :: "datetime \<Rightarrow> order_intent \<Rightarrow> rms_result" where
  "close_pair_pass now intent =
     \<lparr>rr_outcome = PASS, rr_intent = intent, rr_original_intent = intent, rr_check_number = None,
      rr_reason = Some CLOSE_SELECTED_PAIR, rr_check_results = [], rr_timestamp = now\<rparr>"

text \<open>What the fills of a close do to the ledger, and the response.\<close>

definition book_pair_close ::
  "datetime \<Rightarrow> int \<Rightarrow> string \<Rightarrow> string option \<Rightarrow> oms_order list \<Rightarrow> ledger \<Rightarrow> close_response \<times> ledger" where
  "book_pair_close now account_id trade_id why orders rows =
     (let fills = filter (\<lambda>x. \<not> o_is_compensation x) orders in
      case get_open_by_trade_id trade_id (Some account_id) rows of
        Inl _ \<Rightarrow> (FAILED_RESPONSE, rows)
      | Inr p_row \<Rightarrow>
          if (case p_row of None \<Rightarrow> False | Some row \<Rightarrow> close_fills_match_open row fills)
          then (case close_trade now trade_id (Some account_id) (Some (exit_marks_from_orders fills))
                       (commission_from_orders fills) why rows of
                  Inl _ \<Rightarrow> (FAILED_RESPONSE, rows)
                | Inr (_, rows') \<Rightarrow> (CLOSED_RESPONSE, rows'))
          else (if list_ex (\<lambda>x. filled_qty_by_symbol fills (o_symbol x) \<noteq> None) fills
                then \<lparr>cp_status = ''PARTIAL'', cp_success = False\<rparr> else FAILED_RESPONSE, rows))"

definition submit_pair_close ::
  "om_env \<Rightarrow> datetime \<Rightarrow> int \<Rightarrow> string \<Rightarrow> string \<Rightarrow> position \<Rightarrow> string option \<Rightarrow> flatten_state \<Rightarrow>
   (close_error + close_response) \<times> flatten_state" where
  "submit_pair_close env now account_id ibkr trade_id pos why st =
     (case fs_coord st of
        None \<Rightarrow> (Inr FAILED_RESPONSE, st)
      | Some coord \<Rightarrow>
          (case resolve_instruments env (close_pair_intent now account_id ibkr trade_id pos) of
             Inl e \<Rightarrow> (Inl (CloseRaised e), st)
           | Inr intent \<Rightarrow>
               (case execute (om_coord env) intent (close_pair_pass now intent) ''MARKET'' None coord of
                  (Inl _, coord') \<Rightarrow> (Inr FAILED_RESPONSE, st\<lparr>fs_coord := Some coord'\<rparr>)
                | (Inr r, coord') \<Rightarrow>
                    (case book_pair_close now account_id trade_id why (bx_orders r) (fs_ledger st) of
                       (resp, rows) \<Rightarrow> (Inr resp, st\<lparr>fs_coord := Some coord', fs_ledger := rows\<rparr>)))))"

definition do_close_pair ::
  "om_env \<Rightarrow> datetime \<Rightarrow> (int \<rightharpoonup> string) \<Rightarrow> int \<Rightarrow> string \<Rightarrow> string option \<Rightarrow> flatten_state \<Rightarrow>
   (close_error + close_response) \<times> flatten_state" where
  "do_close_pair env now accounts account_id trade_id why st =
     (case accounts account_id of
        None \<Rightarrow> (Inl AccountUnknown, st)
      | Some ibkr \<Rightarrow>
          (case get_open_by_trade_id trade_id (Some account_id) (fs_ledger st) of
             Inl e \<Rightarrow> (Inl (CloseRaised e), st)
           | Inr None \<Rightarrow>
               (case get_by_trade_id trade_id (Some account_id) (fs_ledger st) of
                  Inl e \<Rightarrow> (Inl (CloseRaised e), st)
                | Inr (Some _) \<Rightarrow> (Inl AlreadyClosed, st)
                | Inr None \<Rightarrow> (Inl PositionUnknown, st))
           | Inr (Some pos) \<Rightarrow>
               if flatten_legs pos = [] then (Inr CLOSED_RESPONSE, st)
               else (let key = ledger_key account_id trade_id in
                     case flatten_try_acquire key (fs_inflight st) of
                       (False, _) \<Rightarrow> (Inl FlattenInProgress, st)
                     | (True, keys) \<Rightarrow>
                         (case submit_pair_close env now account_id ibkr trade_id pos why (st\<lparr>fs_inflight := keys\<rparr>) of
                            (res, st1) \<Rightarrow> (res, st1\<lparr>fs_inflight := flatten_release key (fs_inflight st1)\<rparr>)))))"

text \<open>\<open>running\<close> holds the answers of the closes under way, which a second request waits for.\<close>

definition close_pair ::
  "(int \<times> string \<rightharpoonup> close_error + close_response) \<Rightarrow> om_env \<Rightarrow> datetime \<Rightarrow> (int \<rightharpoonup> string) \<Rightarrow> int \<Rightarrow> string \<Rightarrow>
   string option \<Rightarrow> flatten_state \<Rightarrow> (close_error + close_response) \<times> flatten_state" where
  "close_pair running env now accounts account_id trade_id why st =
     (case running (account_id, trade_id) of
        Some answer \<Rightarrow> (answer, st)
      | None \<Rightarrow> do_close_pair env now accounts account_id trade_id why st)"

section \<open>State of the monitor\<close>

record risk_settings =
  rk_enabled :: bool
  rk_shadow :: bool
  rk_max_retries :: nat
  rk_max_staleness :: decimal

record pnl_snapshot =
  ps_pnl :: decimal
  ps_updated_mono :: decimal
  ps_all_legs_marked :: bool

record risk_account =
  ra_id :: int
  ra_ibkr :: string
  ra_risk_enabled :: bool
  ra_terms :: account_risk_params

record risk_env =
  rv_om :: om_env
  rv_up :: bool
  rv_now :: datetime
  rv_mono :: decimal
  rv_mono_after :: "int \<times> string \<Rightarrow> decimal"
  rv_clock :: session_world
  rv_utc :: "datetime \<Rightarrow> datetime"
  rv_live :: "nat \<Rightarrow> int \<Rightarrow> string \<Rightarrow> pnl_snapshot option"
  rv_accounts :: "risk_account list"
  rv_paused :: "int set"
  rv_running :: "int \<times> string \<rightharpoonup> close_error + close_response"

text \<open>What the monitor asks for: a square-off of an account, the start of its flatten, the close of a pair with
  its success.\<close>

datatype risk_action = SquareOff int exit_reason | StartFlatten nat | ClosePair int string exit_reason bool

record risk_monitor =
  mo_ks :: ks_state
  mo_keys :: "flatten_key set"
  mo_coord :: "coordinator option"
  mo_failures :: "int \<times> string \<rightharpoonup> nat \<times> decimal"
  mo_exhausted :: "(int \<times> string) set"
  mo_shadow_pairs :: "(int \<times> string \<times> exit_reason) set"
  mo_shadow_accounts :: "(int \<times> day) set"
  mo_log :: "risk_action list"

definition reason_text :: "exit_reason \<Rightarrow> string" where
  "reason_text r = (case r of
     PAIR_TARGET \<Rightarrow> ''PAIR_TARGET'' | PAIR_STOP \<Rightarrow> ''PAIR_STOP'' | PAIR_TIME_LIMIT \<Rightarrow> ''PAIR_TIME_LIMIT''
   | ACCOUNT_TARGET \<Rightarrow> ''ACCOUNT_TARGET'' | ACCOUNT_STOP \<Rightarrow> ''ACCOUNT_STOP'')"

definition account_names :: "risk_account list \<Rightarrow> (int \<rightharpoonup> string)" where
  "account_names accounts a = map_option ra_ibkr (find (\<lambda>x. ra_id x = a) accounts)"

section \<open>A tick\<close>

definition in_rth :: "session_world \<Rightarrow> datetime \<Rightarrow> (bool \<times> datetime option) result" where
  "in_rth w now =
     (let now_et = to_et w now in
      res_bind (rth_open_for w (date_of now_et)) (\<lambda>o_dt.
        res_bind (rth_close_for w (date_of now_et)) (\<lambda>c_dt.
          Inr (case (o_dt, c_dt) of
                 (Some a, Some b) \<Rightarrow> (a \<le> now_et \<and> now_et < b, Some a)
               | _ \<Rightarrow> (False, None)))))"

definition snapshot_fresh :: "risk_settings \<Rightarrow> decimal \<Rightarrow> pnl_snapshot option \<Rightarrow> bool" where
  "snapshot_fresh cfg now_mono snapshot =
     (case snapshot of
        None \<Rightarrow> False
      | Some s \<Rightarrow> ps_all_legs_marked s \<and> \<not> ps_updated_mono s \<le> 0 \<and> now_mono - ps_updated_mono s \<le> rk_max_staleness cfg)"

definition pair_ready :: "int \<times> string \<Rightarrow> decimal \<Rightarrow> risk_monitor \<Rightarrow> bool" where
  "pair_ready key now_mono m \<longleftrightarrow>
     key \<notin> mo_exhausted m \<and> (case mo_failures m key of None \<Rightarrow> True | Some (_, until) \<Rightarrow> \<not> now_mono < until)"

definition session_pnl :: "risk_settings \<Rightarrow> risk_env \<Rightarrow> int \<Rightarrow> position list \<Rightarrow> decimal" where
  "session_pnl cfg env account_id positions =
     sum_list (map (\<lambda>pos.
        let s = rv_live env 0 account_id (p_trade_id pos) in
        case s of
          Some x \<Rightarrow> if snapshot_fresh cfg (rv_mono env) s then ps_pnl x else p_live_pnl pos
        | None \<Rightarrow> p_live_pnl pos) positions)"

definition account_result :: "risk_settings \<Rightarrow> risk_env \<Rightarrow> datetime \<Rightarrow> position list \<Rightarrow> ledger \<Rightarrow> int \<Rightarrow> decimal" where
  "account_result cfg env session_open rows ledger a =
     session_pnl cfg env a (filter (\<lambda>r. p_account_id r = a) rows) + sum_realised_closed_since a (rv_utc env session_open) ledger"

definition handle_account_breach ::
  "risk_settings \<Rightarrow> risk_env \<Rightarrow> datetime \<Rightarrow> int \<Rightarrow> exit_decision \<Rightarrow> risk_monitor \<Rightarrow> risk_monitor" where
  "handle_account_breach cfg env session_open account_id d m =
     (if rk_shadow cfg then m\<lparr>mo_shadow_accounts := insert (account_id, date_of session_open) (mo_shadow_accounts m)\<rparr>
      else (let ks1 = (mo_ks m)\<lparr>ks_ledger := snd (set_exit_reason account_id (reason_text (exit_reason d)) None (ks_ledger (mo_ks m)))\<rparr>
            in case initiate_square_off (rv_now env) (account_names (rv_accounts env)) account_id ''auto_risk'' ks1 of
                 (res, ks2) \<Rightarrow>
                   m\<lparr>mo_ks := ks2,
                     mo_log := mo_log m @ [SquareOff account_id (exit_reason d)] @
                       (case res of Inr (x, True) \<Rightarrow> [StartFlatten (ks_id x)] | _ \<Rightarrow> [])\<rparr>))"

definition check_account ::
  "risk_settings \<Rightarrow> risk_env \<Rightarrow> datetime \<Rightarrow> position list \<Rightarrow> risk_account \<Rightarrow> int set \<times> risk_monitor \<Rightarrow> int set \<times> risk_monitor" where
  "check_account cfg env session_open rows account acc =
     (case acc of (breached, m) \<Rightarrow>
        if is_account_kill_switch_active (ra_id account) (mo_ks m) \<or> ra_id account \<in> rv_paused env \<or> \<not> ra_risk_enabled account
        then (breached, m)
        else (case evaluate_account_risk (ra_terms account)
                     (account_result cfg env session_open rows (ks_ledger (mo_ks m)) (ra_id account)) of
                None \<Rightarrow> (breached, m)
              | Some d \<Rightarrow> (insert (ra_id account) breached, handle_account_breach cfg env session_open (ra_id account) d m)))"

definition utc_stamp :: "datetime \<Rightarrow> Risk_Exit.stamp" where
  "utc_stamp t = \<lparr>wall = t, tz_offset = Some 0\<rparr>"

definition pair_params :: "position \<Rightarrow> pair_exit_params" where
  "pair_params row =
     \<lparr>pair_target = p_target row, pair_stop = p_stop row, time_limit = p_time_limit row,
      target_unit = unit_or_absolute (p_target_unit row), stop_unit = unit_or_absolute (p_stop_unit row),
      opened_at = utc_stamp (p_opened_at row),
      entry_gross_notional = pair_entry_gross_notional (p_leg_a_signed_qty row) (p_leg_a_entry_mark row)
        (p_leg_b_signed_qty row) (p_leg_b_entry_mark row)\<rparr>"

definition pair_decision :: "risk_settings \<Rightarrow> risk_env \<Rightarrow> position \<Rightarrow> exit_decision option" where
  "pair_decision cfg env row =
     (let snapshot = rv_live env 1 (p_account_id row) (p_trade_id row);
          fresh = snapshot_fresh cfg (rv_mono env) snapshot;
          pnl = (case snapshot of Some s \<Rightarrow> if fresh then ps_pnl s else 0 | None \<Rightarrow> 0);
          d = evaluate_pair_exit (pair_params row) pnl (utc_stamp (rv_now env))
      in if fresh then d
         else (case d of Some x \<Rightarrow> if exit_reason x \<noteq> PAIR_TIME_LIMIT then None else d | None \<Rightarrow> None))"

definition record_pair_failure :: "risk_settings \<Rightarrow> risk_env \<Rightarrow> int \<times> string \<Rightarrow> risk_monitor \<Rightarrow> risk_monitor" where
  "record_pair_failure cfg env key m =
     (let attempts = (case mo_failures m key of None \<Rightarrow> 0 | Some (n, _) \<Rightarrow> n) + 1 in
      if attempts \<ge> rk_max_retries cfg
      then m\<lparr>mo_exhausted := insert key (mo_exhausted m), mo_failures := (mo_failures m)(key := None)\<rparr>
      else m\<lparr>mo_failures := (mo_failures m)(key \<mapsto> (attempts, rv_mono_after env key + of_nat (min (2 ^ attempts) 60)))\<rparr>)"

definition handle_pair_exit ::
  "risk_settings \<Rightarrow> risk_env \<Rightarrow> int \<Rightarrow> string \<Rightarrow> exit_decision \<Rightarrow> risk_monitor \<Rightarrow> risk_monitor" where
  "handle_pair_exit cfg env account_id trade_id d m =
     (if rk_shadow cfg then m\<lparr>mo_shadow_pairs := insert (account_id, trade_id, exit_reason d) (mo_shadow_pairs m)\<rparr>
      else (case close_pair (rv_running env) (rv_om env) (rv_now env) (account_names (rv_accounts env)) account_id trade_id
                   (Some (reason_text (exit_reason d)))
                   \<lparr>fs_inflight = mo_keys m, fs_coord = mo_coord m, fs_ledger = ks_ledger (mo_ks m)\<rparr> of
              (res, st) \<Rightarrow>
                (let ok = (case res of Inr r \<Rightarrow> cp_success r | Inl _ \<Rightarrow> False);
                     m1 = m\<lparr>mo_ks := (mo_ks m)\<lparr>ks_ledger := fs_ledger st\<rparr>, mo_keys := fs_inflight st, mo_coord := fs_coord st,
                            mo_log := mo_log m @ [ClosePair account_id trade_id (exit_reason d) ok]\<rparr>
                 in if ok
                    then m1\<lparr>mo_failures := (mo_failures m1)((account_id, trade_id) := None),
                            mo_exhausted := mo_exhausted m1 - {(account_id, trade_id)}\<rparr>
                    else record_pair_failure cfg env (account_id, trade_id) m1)))"

definition check_pair :: "risk_settings \<Rightarrow> risk_env \<Rightarrow> int set \<Rightarrow> position \<Rightarrow> risk_monitor \<Rightarrow> risk_monitor" where
  "check_pair cfg env breached row m =
     (if p_account_id row \<in> breached \<or> is_account_kill_switch_active (p_account_id row) (mo_ks m) \<or>
         \<not> p_exit_automation_enabled row \<or> \<not> pair_ready (p_account_id row, p_trade_id row) (rv_mono env) m
      then m
      else (case pair_decision cfg env row of
              None \<Rightarrow> m
            | Some d \<Rightarrow> handle_pair_exit cfg env (p_account_id row) (p_trade_id row) d m))"

definition evaluate_tick :: "risk_settings \<Rightarrow> risk_env \<Rightarrow> datetime \<Rightarrow> risk_monitor \<Rightarrow> risk_monitor" where
  "evaluate_tick cfg env session_open m =
     (let rows = list_open (ks_ledger (mo_ks m)) in
      case fold (check_account cfg env session_open rows) (sort_key ra_id (rv_accounts env)) ({}, m) of
        (breached, m1) \<Rightarrow> fold (check_pair cfg env breached) rows m1)"

definition risk_run_once :: "risk_settings \<Rightarrow> risk_env \<Rightarrow> risk_monitor \<Rightarrow> risk_monitor" where
  "risk_run_once cfg env m =
     (if \<not> rk_enabled cfg \<or> \<not> rv_up env then m
      else (case in_rth (rv_clock env) (rv_now env) of
              Inr (True, Some session_open) \<Rightarrow> evaluate_tick cfg env session_open m
            | _ \<Rightarrow> m))"

section \<open>Realised losses\<close>

record loss_state =
  ls_is_below :: bool
  ls_last_threshold :: "decimal option"

record loss_account =
  la_id :: int
  la_enabled :: bool
  la_threshold :: "decimal option"

definition sum_realised :: "int \<Rightarrow> ledger \<Rightarrow> decimal" where
  "sum_realised account_id rows = sum_list (map p_realised_pnl (filter (\<lambda>r. p_account_id r = account_id) rows))"

text \<open>The alert is the realised result and the threshold.\<close>

definition evaluate_account ::
  "loss_account list \<Rightarrow> ledger \<Rightarrow> int \<Rightarrow> (int \<rightharpoonup> loss_state) \<Rightarrow> (decimal \<times> decimal) option \<times> (int \<rightharpoonup> loss_state)" where
  "evaluate_account accounts rows account_id states =
     (let s = (case states account_id of None \<Rightarrow> \<lparr>ls_is_below = False, ls_last_threshold = None\<rparr> | Some x \<Rightarrow> x);
          states1 = states(account_id \<mapsto> s)
      in case find (\<lambda>x. la_id x = account_id) accounts of
           None \<Rightarrow> (None, states1)
         | Some account \<Rightarrow>
             (case la_threshold account of
                None \<Rightarrow>
                  (None, if ls_is_below s then states(account_id \<mapsto> \<lparr>ls_is_below = False, ls_last_threshold = None\<rparr>) else states1)
              | Some t \<Rightarrow>
                  (let realised = sum_realised account_id rows; breached = (realised \<le> t) in
                   if breached \<and> \<not> ls_is_below s
                   then (Some (realised, t), states(account_id \<mapsto> \<lparr>ls_is_below = True, ls_last_threshold = Some t\<rparr>))
                   else if \<not> breached \<and> ls_is_below s
                   then (None, states(account_id \<mapsto> \<lparr>ls_is_below = False, ls_last_threshold = Some t\<rparr>))
                   else if breached \<and> ls_is_below s then (None, states(account_id \<mapsto> s\<lparr>ls_last_threshold := Some t\<rparr>))
                   else (None, states1))))"

definition evaluate_once ::
  "loss_account list \<Rightarrow> ledger \<Rightarrow> (int \<rightharpoonup> loss_state) \<Rightarrow> (int \<times> decimal \<times> decimal) list \<times> (int \<rightharpoonup> loss_state)" where
  "evaluate_once accounts rows states =
     fold (\<lambda>account (out, st).
        case evaluate_account accounts rows (la_id account) st of
          (None, st1) \<Rightarrow> (out, st1) | (Some d, st1) \<Rightarrow> (out @ [(la_id account, d)], st1))
       (filter la_enabled accounts) ([], states)"

end
