(* ===== verification/Risk_Monitor_Properties.thy ===== *)
theory Risk_Monitor_Properties
  imports Risk_Monitor
begin

text \<open>
  What a tick of the risk exit monitor asks for, how often it tries to close a pair, and when an alert on
  realised losses is raised.
\<close>

section \<open>What a tick asks for\<close>

definition squares :: "risk_action list \<Rightarrow> (int \<times> exit_reason) set" where
  "squares xs = {(a, r). SquareOff a r \<in> set xs}"

definition pair_closes :: "risk_action list \<Rightarrow> (int \<times> string \<times> exit_reason) set" where
  "pair_closes xs = {(a, t, r). \<exists>ok. ClosePair a t r ok \<in> set xs}"

definition account_due ::
  "risk_settings \<Rightarrow> risk_env \<Rightarrow> datetime \<Rightarrow> position list \<Rightarrow> ks_state \<Rightarrow> risk_account \<Rightarrow> exit_reason \<Rightarrow> bool" where
  "account_due cfg env session_open rows ks x r \<longleftrightarrow>
     ra_id x \<notin> ks_active ks \<and> ra_id x \<notin> rv_paused env \<and> ra_risk_enabled x \<and>
     map_option exit_reason (evaluate_account_risk (ra_terms x)
       (account_result cfg env session_open rows (ks_ledger ks) (ra_id x))) = Some r"

definition pair_due :: "risk_settings \<Rightarrow> risk_env \<Rightarrow> int set \<Rightarrow> risk_monitor \<Rightarrow> position \<Rightarrow> exit_reason \<Rightarrow> bool" where
  "pair_due cfg env breached m row r \<longleftrightarrow>
     p_account_id row \<notin> breached \<and> p_account_id row \<notin> ks_active (mo_ks m) \<and> p_exit_automation_enabled row \<and>
     pair_ready (p_account_id row, p_trade_id row) (rv_mono env) m \<and> map_option exit_reason (pair_decision cfg env row) = Some r"

lemma squares_simps [simp]:
  "squares [] = {}" "squares (xs @ ys) = squares xs \<union> squares ys" "squares [SquareOff a r] = {(a, r)}"
  "squares [ClosePair a t r ok] = {}" "squares [StartFlatten n] = {}"
  by (auto simp: squares_def)

lemma pair_closes_simps [simp]:
  "pair_closes [] = {}" "pair_closes (xs @ ys) = pair_closes xs \<union> pair_closes ys" "pair_closes [SquareOff a r] = {}"
  "pair_closes [ClosePair a t r ok] = {(a, t, r)}" "pair_closes [StartFlatten n] = {}"
  by (auto simp: pair_closes_def)

lemma exit_reason_keeps_result: "sum_realised_closed_since b since (snd (set_exit_reason a why None rows)) = sum_realised_closed_since b since rows"
  by (induction rows) (auto simp: sum_realised_closed_since_def set_exit_reason_def Let_def)

lemma initiate_effect:
  assumes "initiate_square_off now accounts a by st = (res, st')"
  shows "ks_ledger st' = ks_ledger st \<and> ks_active st \<subseteq> ks_active st' \<and> ks_active st' \<subseteq> insert a (ks_active st)"
  using assms by (auto simp: initiate_square_off_def arm_kill_switch_cache_def add_operation_def Let_def split: option.splits)

text \<open>A breach touches the monitor's log, the exit reasons and the gate of its account, and nothing else.\<close>

definition only_square :: "int \<Rightarrow> exit_reason \<Rightarrow> risk_monitor \<Rightarrow> risk_monitor \<Rightarrow> bool" where
  "only_square a r m m' \<longleftrightarrow>
     (\<exists>new. mo_log m' = mo_log m @ new \<and> squares new = {(a, r)} \<and> pair_closes new = {}) \<and>
     mo_failures m' = mo_failures m \<and> mo_exhausted m' = mo_exhausted m \<and>
     (\<forall>b. b \<noteq> a \<longrightarrow> (b \<in> ks_active (mo_ks m') \<longleftrightarrow> b \<in> ks_active (mo_ks m))) \<and>
     (\<forall>b since. sum_realised_closed_since b since (ks_ledger (mo_ks m')) = sum_realised_closed_since b since (ks_ledger (mo_ks m)))"

lemma breach_only_square:
  assumes "\<not> rk_shadow cfg"
  shows "only_square a (exit_reason d) m (handle_account_breach cfg env so a d m)"
proof -
  let ?ks = "(mo_ks m)\<lparr>ks_ledger := snd (set_exit_reason a (reason_text (exit_reason d)) None (ks_ledger (mo_ks m)))\<rparr>"
  obtain res ks2 where i: "initiate_square_off (rv_now env) (account_names (rv_accounts env)) a ''auto_risk'' ?ks = (res, ks2)"
    by (metis surj_pair)
  define started where "started = (case res of Inr (x, True) \<Rightarrow> [StartFlatten (ks_id x)] | _ \<Rightarrow> [])"
  have s: "squares started = {}" "pair_closes started = {}"
    by (auto simp: started_def split: sum.splits prod.splits bool.splits)
  have m': "handle_account_breach cfg env so a d m =
      m\<lparr>mo_ks := ks2, mo_log := mo_log m @ [SquareOff a (exit_reason d)] @ started\<rparr>"
    using assms i by (simp add: handle_account_breach_def started_def)
  have act: "b \<in> ks_active ks2 \<longleftrightarrow> b \<in> ks_active (mo_ks m)" if "b \<noteq> a" for b
    using initiate_effect [OF i] that by auto
  have sums: "sum_realised_closed_since b since (ks_ledger ks2) = sum_realised_closed_since b since (ks_ledger (mo_ks m))" for b since
    using initiate_effect [OF i] by (simp add: exit_reason_keeps_result)
  have "\<exists>new. mo_log (handle_account_breach cfg env so a d m) = mo_log m @ new \<and> squares new = {(a, exit_reason d)} \<and> pair_closes new = {}"
    unfolding m' by (rule exI [of _ "[SquareOff a (exit_reason d)] @ started"]) (simp add: s del: append_Cons append_Nil)
  then show ?thesis unfolding only_square_def using act sums by (auto simp: m')
qed

lemma account_due_other:
  assumes "only_square a r' m m'" "ra_id x \<noteq> a"
  shows "account_due cfg env so rows (mo_ks m') x r = account_due cfg env so rows (mo_ks m) x r"
  using assms by (auto simp: only_square_def account_due_def account_result_def)

lemma check_account_cases:
  assumes "\<not> rk_shadow cfg"
  shows "check_account cfg env so rows x (br, m) = (br, m) \<and> (\<forall>r. \<not> account_due cfg env so rows (mo_ks m) x r) \<or>
    (\<exists>r m'. check_account cfg env so rows x (br, m) = (insert (ra_id x) br, m') \<and> only_square (ra_id x) r m m' \<and>
       (\<forall>r'. account_due cfg env so rows (mo_ks m) x r' \<longleftrightarrow> r' = r))"
proof (cases "evaluate_account_risk (ra_terms x) (account_result cfg env so rows (ks_ledger (mo_ks m)) (ra_id x))")
  case None
  then show ?thesis by (simp add: check_account_def account_due_def)
next
  case (Some d)
  then show ?thesis using breach_only_square [OF assms, of "ra_id x" d m env so]
    by (auto simp: check_account_def account_due_def is_account_kill_switch_active_def)
qed

lemma account_phase:
  assumes "\<not> rk_shadow cfg" "distinct (map ra_id xs)"
    and "fold (check_account cfg env so rows) xs (br, m) = (br', m')"
  shows "\<exists>new. mo_log m' = mo_log m @ new \<and> squares new = {(ra_id x, r) |x r. x \<in> set xs \<and> account_due cfg env so rows (mo_ks m) x r} \<and>
    pair_closes new = {} \<and> br' = br \<union> fst ` squares new \<and> mo_failures m' = mo_failures m \<and> mo_exhausted m' = mo_exhausted m \<and>
    (\<forall>b. b \<notin> br' \<longrightarrow> (b \<in> ks_active (mo_ks m') \<longleftrightarrow> b \<in> ks_active (mo_ks m)))"
  using assms(2,3)
proof (induction xs arbitrary: br m)
  case Nil
  then show ?case by (intro exI [of _ "[]"]) auto
next
  case (Cons x xs)
  from check_account_cases [OF assms(1), of env so rows x br m] show ?case
  proof (elim disjE exE conjE)
    assume c: "check_account cfg env so rows x (br, m) = (br, m)" "\<forall>r. \<not> account_due cfg env so rows (mo_ks m) x r"
    have "{(ra_id y, r) |y r. y \<in> set (x # xs) \<and> account_due cfg env so rows (mo_ks m) y r} =
        {(ra_id y, r) |y r. y \<in> set xs \<and> account_due cfg env so rows (mo_ks m) y r}" using c(2) by auto
    then show ?thesis using Cons.IH [of br m] Cons.prems c(1) by simp
  next
    fix r m1
    assume c: "check_account cfg env so rows x (br, m) = (insert (ra_id x) br, m1)" and sq: "only_square (ra_id x) r m m1"
      and due: "\<forall>r'. account_due cfg env so rows (mo_ks m) x r' \<longleftrightarrow> r' = r"
    have rest: "fold (check_account cfg env so rows) xs (insert (ra_id x) br, m1) = (br', m')" using Cons.prems(2) c by simp
    from Cons.IH [OF _ rest] Cons.prems(1) obtain new2 where n2: "mo_log m' = mo_log m1 @ new2"
      "squares new2 = {(ra_id y, r) |y r. y \<in> set xs \<and> account_due cfg env so rows (mo_ks m1) y r}" "pair_closes new2 = {}"
      "br' = insert (ra_id x) br \<union> fst ` squares new2" "mo_failures m' = mo_failures m1" "mo_exhausted m' = mo_exhausted m1"
      "\<forall>b. b \<notin> br' \<longrightarrow> (b \<in> ks_active (mo_ks m') \<longleftrightarrow> b \<in> ks_active (mo_ks m1))" by auto
    from sq obtain new1 where n1: "mo_log m1 = mo_log m @ new1" "squares new1 = {(ra_id x, r)}" "pair_closes new1 = {}"
      "mo_failures m1 = mo_failures m" "mo_exhausted m1 = mo_exhausted m"
      "\<forall>b. b \<noteq> ra_id x \<longrightarrow> (b \<in> ks_active (mo_ks m1) \<longleftrightarrow> b \<in> ks_active (mo_ks m))"
      by (auto simp: only_square_def)
    have "account_due cfg env so rows (mo_ks m1) y r' = account_due cfg env so rows (mo_ks m) y r'" if "y \<in> set xs" for y r'
    proof (rule account_due_other [OF sq])
      show "ra_id y \<noteq> ra_id x" using that Cons.prems(1) by (metis distinct.simps(2) image_eqI list.map(2) list.set_map)
    qed
    then have "squares new2 = {(ra_id y, r) |y r. y \<in> set xs \<and> account_due cfg env so rows (mo_ks m) y r}"
      unfolding n2(2) by (intro Collect_cong) blast
    moreover have "{(ra_id y, r) |y r. y \<in> set (x # xs) \<and> account_due cfg env so rows (mo_ks m) y r} =
        insert (ra_id x, r) {(ra_id y, r) |y r. y \<in> set xs \<and> account_due cfg env so rows (mo_ks m) y r}"
      using due by (simp only: set_simps insert_iff) blast
    ultimately have all: "squares (new1 @ new2) = {(ra_id y, r) |y r. y \<in> set (x # xs) \<and> account_due cfg env so rows (mo_ks m) y r}"
      using n1(2) by simp
    have br: "br' = br \<union> fst ` squares (new1 @ new2)" using n1(2) n2(4) by simp
    show ?thesis
      unfolding all [symmetric]
    proof (intro exI [of _ "new1 @ new2"] conjI)
      show "\<forall>b. b \<notin> br' \<longrightarrow> (b \<in> ks_active (mo_ks m') \<longleftrightarrow> b \<in> ks_active (mo_ks m))"
        using n1(6) n2(7) n2(4) by blast
    qed (use n1 n2 br in simp_all)
  qed
qed

text \<open>An exit touches the log, the books and the retry state of its own pair.\<close>

definition only_close :: "int \<Rightarrow> string \<Rightarrow> exit_reason \<Rightarrow> risk_monitor \<Rightarrow> risk_monitor \<Rightarrow> bool" where
  "only_close a t r m m' \<longleftrightarrow>
     (\<exists>ok. mo_log m' = mo_log m @ [ClosePair a t r ok]) \<and> ks_active (mo_ks m') = ks_active (mo_ks m) \<and>
     (\<forall>key. key \<noteq> (a, t) \<longrightarrow> mo_failures m' key = mo_failures m key \<and> (key \<in> mo_exhausted m' \<longleftrightarrow> key \<in> mo_exhausted m))"

lemma pair_exit_only_close:
  assumes "\<not> rk_shadow cfg"
  shows "only_close a t (exit_reason d) m (handle_pair_exit cfg env a t d m)"
  using assms by (auto simp: handle_pair_exit_def only_close_def record_pair_failure_def Let_def split: prod.splits)

lemma pair_due_other:
  assumes "only_close a t r' m m'" "(p_account_id row, p_trade_id row) \<noteq> (a, t)"
  shows "pair_due cfg env br m' row r = pair_due cfg env br m row r"
  using assms by (auto simp: only_close_def pair_due_def pair_ready_def)

lemma check_pair_cases:
  assumes "\<not> rk_shadow cfg"
  shows "check_pair cfg env br row m = m \<and> (\<forall>r. \<not> pair_due cfg env br m row r) \<or>
    (\<exists>r. only_close (p_account_id row) (p_trade_id row) r m (check_pair cfg env br row m) \<and>
       (\<forall>r'. pair_due cfg env br m row r' \<longleftrightarrow> r' = r))"
proof (cases "pair_decision cfg env row")
  case None
  then show ?thesis by (simp add: check_pair_def pair_due_def)
next
  case (Some d)
  then show ?thesis using pair_exit_only_close [OF assms, of "p_account_id row" "p_trade_id row" d m env]
    by (auto simp: check_pair_def pair_due_def is_account_kill_switch_active_def)
qed

lemma pair_phase:
  assumes "\<not> rk_shadow cfg" "distinct (map (\<lambda>r. (p_account_id r, p_trade_id r)) xs)"
  shows "\<exists>new. mo_log (fold (check_pair cfg env br) xs m) = mo_log m @ new \<and> squares new = {} \<and>
    pair_closes new = {(p_account_id row, p_trade_id row, r) |row r. row \<in> set xs \<and> pair_due cfg env br m row r}"
  using assms(2)
proof (induction xs arbitrary: m)
  case Nil
  then show ?case by (intro exI [of _ "[]"]) auto
next
  case (Cons x xs)
  let ?closes = "\<lambda>m xs. {(p_account_id row, p_trade_id row, r) |row r. row \<in> set xs \<and> pair_due cfg env br m row r}"
  from Cons.IH [of "check_pair cfg env br x m"] Cons.prems obtain new2 where
    n2: "mo_log (fold (check_pair cfg env br) (x # xs) m) = mo_log (check_pair cfg env br x m) @ new2" "squares new2 = {}"
      "pair_closes new2 = ?closes (check_pair cfg env br x m) xs" by auto
  from check_pair_cases [OF assms(1), of env br x m] show ?case
  proof (elim disjE exE conjE)
    assume c: "check_pair cfg env br x m = m" "\<forall>r. \<not> pair_due cfg env br m x r"
    then have "?closes m (x # xs) = ?closes m xs" by auto
    then show ?thesis using n2 c(1) by auto
  next
    fix r
    assume o: "only_close (p_account_id x) (p_trade_id x) r m (check_pair cfg env br x m)"
      and due: "\<forall>r'. pair_due cfg env br m x r' \<longleftrightarrow> r' = r"
    have "pair_due cfg env br (check_pair cfg env br x m) row r' = pair_due cfg env br m row r'" if "row \<in> set xs" for row r'
    proof (rule pair_due_other [OF o])
      show "(p_account_id row, p_trade_id row) \<noteq> (p_account_id x, p_trade_id x)"
        using that Cons.prems by (metis (mono_tags, lifting) distinct.simps(2) image_eqI list.map(2) list.set_map)
    qed
    then have "pair_closes new2 = ?closes m xs" unfolding n2(3) by (intro Collect_cong) blast
    moreover have "?closes m (x # xs) = insert (p_account_id x, p_trade_id x, r) (?closes m xs)"
      using due by (simp only: set_simps insert_iff) blast
    moreover obtain ok where "mo_log (check_pair cfg env br x m) = mo_log m @ [ClosePair (p_account_id x) (p_trade_id x) r ok]"
      using o by (auto simp: only_close_def)
    ultimately show ?thesis using n2
      by (intro exI [of _ "[ClosePair (p_account_id x) (p_trade_id x) r ok] @ new2"]) (simp only: squares_simps pair_closes_simps, simp)
  qed
qed

lemma list_open_keys: "ledger_ok rows \<Longrightarrow> distinct (map (\<lambda>r. (p_account_id r, p_trade_id r)) (list_open rows))"
  by (simp add: ledger_ok_def list_open_def distinct_map_filter)

text \<open>Nothing is asked for in shadow mode.\<close>

lemma shadow_keeps:
  assumes "rk_shadow cfg"
  shows "mo_log (evaluate_tick cfg env so m) = mo_log m \<and> mo_ks (evaluate_tick cfg env so m) = mo_ks m"
proof -
  have a: "mo_log (snd (fold (check_account cfg env so rows) xs acc)) = mo_log (snd acc) \<and>
      mo_ks (snd (fold (check_account cfg env so rows) xs acc)) = mo_ks (snd acc)" for rows xs acc
    by (induction xs arbitrary: acc)
      (auto simp: check_account_def handle_account_breach_def assms split: prod.splits option.splits)
  have b: "mo_log (fold (check_pair cfg env br) xs m) = mo_log m \<and> mo_ks (fold (check_pair cfg env br) xs m) = mo_ks m" for br xs m
    by (induction xs arbitrary: m) (auto simp: check_pair_def handle_pair_exit_def assms split: option.splits)
  show ?thesis
    using a [of "list_open (ks_ledger (mo_ks m))" "sort_key ra_id (rv_accounts env)" "({}, m)"]
    by (auto simp: evaluate_tick_def Let_def b split: prod.splits)
qed

definition acting :: "risk_settings \<Rightarrow> risk_env \<Rightarrow> datetime option" where
  "acting cfg env =
     (if rk_enabled cfg \<and> \<not> rk_shadow cfg \<and> rv_up env
      then (case in_rth (rv_clock env) (rv_now env) of Inr (True, so) \<Rightarrow> so | _ \<Rightarrow> None) else None)"


section \<open>Attempts to close a pair\<close>

definition attempts_of :: "int \<times> string \<Rightarrow> risk_action list \<Rightarrow> nat" where
  "attempts_of key xs = length (filter (\<lambda>x. case x of ClosePair a t _ _ \<Rightarrow> (a, t) = key | _ \<Rightarrow> False) xs)"

definition closed_of :: "int \<times> string \<Rightarrow> risk_action list \<Rightarrow> nat" where
  "closed_of key xs = length (filter (\<lambda>x. case x of ClosePair a t _ ok \<Rightarrow> (a, t) = key \<and> ok | _ \<Rightarrow> False) xs)"

definition failures_of :: "int \<times> string \<Rightarrow> risk_monitor \<Rightarrow> nat" where
  "failures_of key m = (case mo_failures m key of None \<Rightarrow> 0 | Some (n, _) \<Rightarrow> n)"

definition retries_kept :: "risk_settings \<Rightarrow> int \<times> string \<Rightarrow> risk_monitor \<Rightarrow> bool" where
  "retries_kept cfg key m \<longleftrightarrow>
     (if key \<in> mo_exhausted m then attempts_of key (mo_log m) \<le> rk_max_retries cfg * (closed_of key (mo_log m) + 1)
      else failures_of key m < rk_max_retries cfg \<and>
           attempts_of key (mo_log m) \<le> rk_max_retries cfg * closed_of key (mo_log m) + failures_of key m)"

lemma attempts_simps [simp]:
  "attempts_of key (xs @ ys) = attempts_of key xs + attempts_of key ys" "closed_of key (xs @ ys) = closed_of key xs + closed_of key ys"
  "attempts_of key [ClosePair a t r ok] = (if (a, t) = key then 1 else 0)"
  "closed_of key [ClosePair a t r ok] = (if (a, t) = key \<and> ok then 1 else 0)"
  "attempts_of key [] = 0" "closed_of key [] = 0"
  by (auto simp: attempts_of_def closed_of_def)

text \<open>Only the log, the failures and the given-up pairs matter.\<close>

lemma retries_kept_cong:
  assumes "attempts_of key (mo_log m') = attempts_of key (mo_log m)" "closed_of key (mo_log m') = closed_of key (mo_log m)"
    "mo_failures m' key = mo_failures m key" "key \<in> mo_exhausted m' \<longleftrightarrow> key \<in> mo_exhausted m"
  shows "retries_kept cfg key m' = retries_kept cfg key m"
  using assms by (simp add: retries_kept_def failures_of_def)

lemma check_account_retries:
  "retries_kept cfg key m \<Longrightarrow> retries_kept cfg key (snd (check_account cfg env so rows x (br, m)))"
proof -
  assume k: "retries_kept cfg key m"
  have "retries_kept cfg key (handle_account_breach cfg env so a d m)" for a d
  proof (cases "rk_shadow cfg")
    case True
    then show ?thesis using k by (subst retries_kept_cong [of _ _ m]) (simp_all add: handle_account_breach_def)
  next
    case False
    then show ?thesis using k
      by (subst retries_kept_cong [of _ _ m])
        (auto simp: handle_account_breach_def attempts_of_def closed_of_def Let_def split: prod.splits sum.splits bool.splits)
  qed
  then show ?thesis using k by (auto simp: check_account_def split: option.splits)
qed

lemma handle_pair_exit_retries:
  assumes k: "retries_kept cfg key m" and free: "(a, t) \<notin> mo_exhausted m"
  shows "retries_kept cfg key (handle_pair_exit cfg env a t d m)"
proof (cases "rk_shadow cfg \<or> key \<noteq> (a, t)")
  case True
  then show ?thesis
  proof (cases "rk_shadow cfg")
    case True
    then show ?thesis using k by (subst retries_kept_cong [of _ _ m]) (simp_all add: handle_pair_exit_def)
  next
    case False
    then show ?thesis using k pair_exit_only_close [of cfg a t d m env] True
      by (subst retries_kept_cong [of _ _ m]) (cases key; auto simp: only_close_def)+
  qed
next
  case False
  then have f: "failures_of key m < rk_max_retries cfg"
    "attempts_of key (mo_log m) \<le> rk_max_retries cfg * closed_of key (mo_log m) + failures_of key m"
    using k free by (auto simp: retries_kept_def)
  obtain res st where c: "close_pair (rv_running env) (rv_om env) (rv_now env) (account_names (rv_accounts env)) a t
      (Some (reason_text (exit_reason d))) \<lparr>fs_inflight = mo_keys m, fs_coord = mo_coord m, fs_ledger = ks_ledger (mo_ks m)\<rparr> = (res, st)"
    by (metis surj_pair)
  define ok where "ok = (case res of Inr r \<Rightarrow> cp_success r | Inl _ \<Rightarrow> False)"
  define m1 where "m1 = m\<lparr>mo_ks := (mo_ks m)\<lparr>ks_ledger := fs_ledger st\<rparr>, mo_keys := fs_inflight st, mo_coord := fs_coord st,
      mo_log := mo_log m @ [ClosePair a t (exit_reason d) ok]\<rparr>"
  have h: "handle_pair_exit cfg env a t d m =
      (if ok then m1\<lparr>mo_failures := (mo_failures m1)((a, t) := None), mo_exhausted := mo_exhausted m1 - {(a, t)}\<rparr>
       else record_pair_failure cfg env (a, t) m1)"
    using False c by (simp add: handle_pair_exit_def ok_def m1_def Let_def)
  have log: "mo_log m1 = mo_log m @ [ClosePair a t (exit_reason d) ok]" "mo_failures m1 = mo_failures m" "mo_exhausted m1 = mo_exhausted m"
    by (simp_all add: m1_def)
  show ?thesis
  proof (cases ok)
    case True
    then show ?thesis unfolding h using False f log by (simp add: retries_kept_def failures_of_def)
  next
    case False
    with \<open>\<not> (rk_shadow cfg \<or> key \<noteq> (a, t))\<close> show ?thesis
      unfolding h using f log by (auto simp: record_pair_failure_def retries_kept_def failures_of_def Let_def split: option.splits)
  qed
qed

lemma check_pair_retries: "retries_kept cfg key m \<Longrightarrow> retries_kept cfg key (check_pair cfg env br row m)"
  using handle_pair_exit_retries by (auto simp: check_pair_def pair_ready_def split: option.splits)

lemma run_once_retries:
  assumes "retries_kept cfg key m"
  shows "retries_kept cfg key (risk_run_once cfg env m)"
proof -
  have a: "retries_kept cfg key (snd acc) \<Longrightarrow> retries_kept cfg key (snd (fold (check_account cfg env so rows) xs acc))" for so rows xs acc
  proof (induction xs arbitrary: acc)
    case (Cons x xs)
    then show ?case using check_account_retries [of cfg key "snd acc" env so rows x "fst acc"] by simp
  qed simp
  have b: "retries_kept cfg key m \<Longrightarrow> retries_kept cfg key (fold (check_pair cfg env br) xs m)" for br xs m
    by (induction xs arbitrary: m) (auto intro: check_pair_retries)
  have "retries_kept cfg key (evaluate_tick cfg env so m)" for so
    using a [of "({}, m)" so "list_open (ks_ledger (mo_ks m))" "sort_key ra_id (rv_accounts env)"] assms
    by (auto simp: evaluate_tick_def Let_def intro!: b split: prod.splits)
  then show ?thesis using assms by (auto simp: risk_run_once_def split: sum.splits prod.splits bool.splits option.splits)
qed

text \<open>A run of the monitor: before each tick other requests may have left the books, the flatten keys and the
  coordinator in any state.\<close>

definition risk_run :: "risk_settings \<Rightarrow> (risk_env \<times> ks_state \<times> flatten_key set \<times> coordinator option) list \<Rightarrow> risk_monitor \<Rightarrow> risk_monitor" where
  "risk_run cfg ticks m =
     fold (\<lambda>(env, ks, keys, coord) m. risk_run_once cfg env (m\<lparr>mo_ks := ks, mo_keys := keys, mo_coord := coord\<rparr>)) ticks m"


section \<open>Closing one pair\<close>

text \<open>The close sends what cancels the open row, the key is always given back, and the row is closed exactly when
  the answer is a success after orders were sent.\<close>

lemma book_pair_close_cases:
  assumes "book_pair_close now a t why orders rows = (resp, rows')"
  shows "resp = CLOSED_RESPONSE \<and> (\<exists>row row'. get_open_by_trade_id t (Some a) rows = Inr (Some row) \<and>
      close_fills_match_open row (filter (\<lambda>x. \<not> o_is_compensation x) orders) \<and>
      close_row now (Some (exit_marks_from_orders (filter (\<lambda>x. \<not> o_is_compensation x) orders)))
        (commission_from_orders (filter (\<lambda>x. \<not> o_is_compensation x) orders)) why row = Inr row' \<and> rows' = put_row row' rows) \<or>
    \<not> cp_success resp \<and> rows' = rows"
proof (cases "get_open_by_trade_id t (Some a) rows")
  case (Inl e)
  then show ?thesis using assms by (auto simp: book_pair_close_def FAILED_RESPONSE_def)
next
  case (Inr found)
  define fills where "fills = filter (\<lambda>x. \<not> o_is_compensation x) orders"
  show ?thesis
  proof (cases "\<exists>row. found = Some row \<and> close_fills_match_open row fills")
    case False
    then have "resp = (if list_ex (\<lambda>x. filled_qty_by_symbol fills (o_symbol x) \<noteq> None) fills
        then \<lparr>cp_status = ''PARTIAL'', cp_success = False\<rparr> else FAILED_RESPONSE) \<and> rows' = rows"
      using assms Inr by (auto simp: book_pair_close_def fills_def Let_def split: option.splits)
    then show ?thesis by (simp add: FAILED_RESPONSE_def)
  next
    case True
    then obtain row where row: "found = Some row" "close_fills_match_open row fills" by blast
    let ?c = "close_row now (Some (exit_marks_from_orders fills)) (commission_from_orders fills) why row"
    have b: "book_pair_close now a t why orders rows =
        (case close_trade now t (Some a) (Some (exit_marks_from_orders fills)) (commission_from_orders fills) why rows of
           Inl _ \<Rightarrow> (FAILED_RESPONSE, rows) | Inr (_, rows') \<Rightarrow> (CLOSED_RESPONSE, rows'))"
      using Inr row by (simp add: book_pair_close_def fills_def Let_def)
    show ?thesis
    proof (cases ?c)
      case (Inl e)
      then have "close_trade now t (Some a) (Some (exit_marks_from_orders fills)) (commission_from_orders fills) why rows = Inl e"
        using Inr row by (simp add: close_trade_def row_to_close_def res_bind_def)
      then show ?thesis using assms b by (auto simp: FAILED_RESPONSE_def)
    next
      case (Inr row')
      with close_trade_open [of t "Some a" rows row] \<open>get_open_by_trade_id t (Some a) rows = Inr found\<close> row
      have "close_trade now t (Some a) (Some (exit_marks_from_orders fills)) (commission_from_orders fills) why rows = Inr (row', put_row row' rows)"
        by simp
      then show ?thesis using assms b Inr row \<open>get_open_by_trade_id t (Some a) rows = Inr found\<close> by (auto simp: fills_def)
    qed
  qed
qed

definition pair_closed_on_fills :: "datetime \<Rightarrow> int \<Rightarrow> string \<Rightarrow> string option \<Rightarrow> ledger \<Rightarrow> ledger \<Rightarrow> bool" where
  "pair_closed_on_fills now a t why rows rows' \<longleftrightarrow>
     (\<exists>row row' fills. get_open_by_trade_id t (Some a) rows = Inr (Some row) \<and> close_fills_match_open row fills \<and>
        close_row now (Some (exit_marks_from_orders fills)) (commission_from_orders fills) why row = Inr row' \<and>
        rows' = put_row row' rows)"

lemma submit_pair_close_cases:
  assumes "submit_pair_close env now a ibkr t pos why st = (res, st')"
  shows "fs_inflight st' = fs_inflight st \<and>
    (if \<exists>r. res = Inr r \<and> cp_success r then pair_closed_on_fills now a t why (fs_ledger st) (fs_ledger st')
     else fs_ledger st' = fs_ledger st)"
proof -
  have book: "(if cp_success resp then pair_closed_on_fills now a t why rows rows' else rows' = rows)"
    if "book_pair_close now a t why orders rows = (resp, rows')" for orders rows resp rows'
    using book_pair_close_cases [OF that] unfolding pair_closed_on_fills_def by (auto simp: CLOSED_RESPONSE_def)
  show ?thesis using assms
    by (auto simp: submit_pair_close_def FAILED_RESPONSE_def dest!: book split: option.splits sum.splits prod.splits)
qed

text \<open>Closing one pair on request. The legs sent cancel the open row symbol by symbol; while another task flattens
  the pair nothing is sent; the flatten key is given back in every case; and the ledger changes exactly when the
  answer is a success with something to close: then the open row of the pair is closed on fills that cover both
  legs, with their prices, their commission and the given reason. Any other answer leaves the ledger as it was.\<close>

theorem pair_close_outcome:
  assumes "do_close_pair env now accounts a t why st = (res, st')"
  shows "fs_inflight st' = fs_inflight st \<and>
    (ledger_key a t \<in> fs_inflight st \<longrightarrow> st' = st) \<and>
    (\<forall>ibkr pos s. leg_flow (oi_legs (close_pair_intent now a ibkr t pos)) s + held_in pos s = 0) \<and>
    (if \<exists>r. res = Inr r \<and> cp_success r
     then fs_ledger st' = fs_ledger st \<and> (\<exists>pos. get_open_by_trade_id t (Some a) (fs_ledger st) = Inr (Some pos) \<and> flatten_legs pos = []) \<or>
          pair_closed_on_fills now a t why (fs_ledger st) (fs_ledger st')
     else fs_ledger st' = fs_ledger st)"
proof (cases "\<exists>ibkr pos. accounts a = Some ibkr \<and> get_open_by_trade_id t (Some a) (fs_ledger st) = Inr (Some pos) \<and>
    flatten_legs pos \<noteq> [] \<and> ledger_key a t \<notin> fs_inflight st")
  case False
  then show ?thesis using assms flatten_legs_cancel
    by (auto simp: do_close_pair_def close_pair_intent_def flatten_try_acquire_def CLOSED_RESPONSE_def Let_def
      split: option.splits sum.splits if_splits)
next
  case True
  then obtain ibkr pos where f: "accounts a = Some ibkr" "get_open_by_trade_id t (Some a) (fs_ledger st) = Inr (Some pos)"
    "flatten_legs pos \<noteq> []" "ledger_key a t \<notin> fs_inflight st" by blast
  let ?st = "st\<lparr>fs_inflight := insert (ledger_key a t) (fs_inflight st)\<rparr>"
  obtain res1 st1 where run: "submit_pair_close env now a ibkr t pos why ?st = (res1, st1)" by (metis surj_pair)
  have d: "res = res1" "st' = st1\<lparr>fs_inflight := fs_inflight st1 - {ledger_key a t}\<rparr>"
    using assms f run by (auto simp: do_close_pair_def flatten_try_acquire_def flatten_release_def Let_def)
  show ?thesis using submit_pair_close_cases [OF run] d f flatten_legs_cancel by (auto simp: close_pair_intent_def)
qed

section \<open>Realised losses\<close>

text \<open>An account with a loss is alerted about once per crossing: an evaluation alerts exactly when the account is at or
  below its threshold and was not at the evaluation before it.\<close>

definition below :: "loss_account \<times> ledger \<Rightarrow> bool" where
  "below x = (case la_threshold (fst x) of None \<Rightarrow> False | Some t \<Rightarrow> sum_realised (la_id (fst x)) (snd x) \<le> t)"

fun loss_alerts :: "(loss_account \<times> ledger) list \<Rightarrow> (int \<rightharpoonup> loss_state) \<Rightarrow> bool list" where
  "loss_alerts [] states = []"
| "loss_alerts ((acc, rows) # xs) states =
     (case evaluate_account [acc] rows (la_id acc) states of (d, states1) \<Rightarrow> (d \<noteq> None) # loss_alerts xs states1)"

fun crossings :: "bool \<Rightarrow> bool list \<Rightarrow> bool list" where
  "crossings prev [] = []"
| "crossings prev (b # bs) = (b \<and> \<not> prev) # crossings b bs"

definition marked_below :: "int \<Rightarrow> (int \<rightharpoonup> loss_state) \<Rightarrow> bool" where
  "marked_below a states = (case states a of None \<Rightarrow> False | Some s \<Rightarrow> ls_is_below s)"

lemma evaluate_account_step:
  assumes "evaluate_account [acc] rows (la_id acc) states = (d, states1)"
  shows "(d \<noteq> None \<longleftrightarrow> below (acc, rows) \<and> \<not> marked_below (la_id acc) states) \<and> marked_below (la_id acc) states1 = below (acc, rows)"
  using assms
  by (cases "la_threshold acc"; cases "states (la_id acc)")
    (auto simp: evaluate_account_def below_def marked_below_def Let_def split: if_splits)

theorem loss_alerts_on_crossings:
  assumes "\<forall>x \<in> set xs. la_id (fst x) = a"
  shows "loss_alerts xs states = crossings (marked_below a states) (map below xs)"
  using assms
proof (induction xs arbitrary: states)
  case (Cons x xs)
  obtain acc rows where x: "x = (acc, rows)" by (cases x)
  obtain d states1 where e: "evaluate_account [acc] rows (la_id acc) states = (d, states1)" by (metis surj_pair)
  show ?case using Cons evaluate_account_step [OF e] e x by simp
qed simp

section \<open>Samples\<close>

text \<open>A Monday at ten, account 7 with a daily stop of 100 and one open pair that has lost 150.\<close>

definition risk_sample_clock :: session_world where
  "risk_sample_clock = \<lparr>cal = None, csv = (Map.empty, Some (0, 20)), fallback_holidays = {}, fallback_half = {}, to_et = (\<lambda>t. t)\<rparr>"

definition risk_sample_cfg :: risk_settings where
  "risk_sample_cfg = \<lparr>rk_enabled = True, rk_shadow = False, rk_max_retries = 3, rk_max_staleness = 15\<rparr>"

definition risk_sample_account :: risk_account where
  "risk_sample_account = \<lparr>ra_id = 7, ra_ibkr = ''DU7'', ra_risk_enabled = True,
     ra_terms = \<lparr>daily_target = None, daily_stop = Some (- 100), daily_target_unit = ''ABSOLUTE'', daily_stop_unit = ''ABSOLUTE'', total_margin = 1000\<rparr>\<rparr>"

definition risk_sample_env :: "om_env \<Rightarrow> risk_env" where
  "risk_sample_env om = \<lparr>rv_om = om, rv_up = True, rv_now = combine 7 10 0, rv_mono = 50, rv_mono_after = (\<lambda>_. 51), rv_clock = risk_sample_clock,
     rv_utc = (\<lambda>t. t), rv_live = (\<lambda>n a t. None), rv_accounts = [risk_sample_account], rv_paused = {}, rv_running = Map.empty\<rparr>"

definition risk_sample_monitor :: risk_monitor where
  "risk_sample_monitor =
     \<lparr>mo_ks = \<lparr>ks_ops = [], ks_snapshots = [], ks_active = {}, ks_manual_active = {}, ks_ledger = [(Kill_Switch_Properties.sample_pair 7)\<lparr>p_live_pnl := - 150\<rparr>],
        ks_manual = sample_books\<rparr>,
      mo_keys = {}, mo_coord = None, mo_failures = Map.empty, mo_exhausted = {}, mo_shadow_pairs = {}, mo_shadow_accounts = {}, mo_log = []\<rparr>"

lemma risk_sample_acting: "acting risk_sample_cfg (risk_sample_env om) = Some (combine 7 9 30)"
proof -
  have "in_rth risk_sample_clock (combine 7 10 0) = Inr (True, Some (combine 7 9 30))" by code_simp
  then show ?thesis by (simp add: acting_def risk_sample_cfg_def risk_sample_env_def)
qed

lemma risk_sample_due:
  "account_due risk_sample_cfg (risk_sample_env om) so (list_open (ks_ledger (mo_ks risk_sample_monitor))) (mo_ks risk_sample_monitor)
     risk_sample_account r \<longleftrightarrow> r = ACCOUNT_STOP"
proof -
  have "evaluate_account_risk (ra_terms risk_sample_account) (- 150) = Some \<lparr>exit_reason = ACCOUNT_STOP, threshold = - 100, exit_pnl = - 150\<rparr>"
    by code_simp
  moreover have "account_result risk_sample_cfg (risk_sample_env om) so (list_open (ks_ledger (mo_ks risk_sample_monitor)))
      (ks_ledger (mo_ks risk_sample_monitor)) 7 = - 150"
    by (simp add: account_result_def session_pnl_def sum_realised_closed_since_def list_open_def risk_sample_monitor_def risk_sample_env_def Kill_Switch_Properties.sample_pair_def)
  ultimately show ?thesis
    by (auto simp: account_due_def risk_sample_account_def risk_sample_monitor_def risk_sample_env_def)
qed



theorem pair_close_outcome_witness:
  "\<forall>env. let st = \<lparr>fs_inflight = {}, fs_coord = None, fs_ledger = [Kill_Switch_Properties.sample_pair 7]\<rparr> in
     fs_inflight (snd (do_close_pair env 5 [7 \<mapsto> ''DU7''] 7 ''T1'' None st)) = {} \<and>
     leg_flow (oi_legs (close_pair_intent 5 7 ''DU7'' ''T1'' (Kill_Switch_Properties.sample_pair 7))) ''SPY'' = - 10"
proof
  fix env
  have "held_in (Kill_Switch_Properties.sample_pair 7) ''SPY'' = 10" by (simp add: held_in_def Kill_Switch_Properties.sample_pair_def)
  with pair_close_outcome [of env 5 "[7 \<mapsto> ''DU7'']" 7 "''T1''" None "\<lparr>fs_inflight = {}, fs_coord = None, fs_ledger = [Kill_Switch_Properties.sample_pair 7]\<rparr>",
      OF prod.collapse [symmetric]]
  show "let st = \<lparr>fs_inflight = {}, fs_coord = None, fs_ledger = [Kill_Switch_Properties.sample_pair 7]\<rparr> in
     fs_inflight (snd (do_close_pair env 5 [7 \<mapsto> ''DU7''] 7 ''T1'' None st)) = {} \<and>
     leg_flow (oi_legs (close_pair_intent 5 7 ''DU7'' ''T1'' (Kill_Switch_Properties.sample_pair 7))) ''SPY'' = - 10"
    unfolding Let_def by (metis add_eq_0_iff2 flatten_state.select_convs(1))
qed

section \<open>Where the monitor goes wrong\<close>

text \<open>With stale marks the rules are evaluated at a result of zero, and the stop and the target are looked at before the
  time limit: a pair whose stop is zero is never closed by its time limit while its marks are stale.\<close>

lemma stale_marks_hide_time_limit:
  "pair_decision risk_sample_cfg (risk_sample_env om)
     ((Kill_Switch_Properties.sample_pair 7)\<lparr>p_stop := 0, p_time_limit := 60, p_opened_at := 0, p_stop_unit := ''ABSOLUTE''\<rparr>) = None"
proof -
  have "map_option exit_reason (evaluate_pair_exit (pair_params ((Kill_Switch_Properties.sample_pair 7)\<lparr>p_stop := 0, p_time_limit := 60, p_opened_at := 0,
      p_stop_unit := ''ABSOLUTE''\<rparr>)) 0 (utc_stamp (combine 7 10 0))) = Some PAIR_STOP" by code_simp
  then show ?thesis by (auto simp: pair_decision_def risk_sample_env_def snapshot_fresh_def Let_def split: option.splits)
qed

text \<open>A position without quantities is reported as closed and stays open in the ledger, so that the monitor asks again
  at every tick.\<close>

lemma empty_pair_reported_closed:
  assumes "get_open_by_trade_id t (Some a) (fs_ledger st) = Inr (Some pos)" "flatten_legs pos = []" "accounts a = Some ibkr"
  shows "do_close_pair env now accounts a t why st = (Inr CLOSED_RESPONSE, st)"
  using assms by (simp add: do_close_pair_def)

end
