(* ===== verification/Worker_Pool.thy ===== *)
theory Worker_Pool
  imports Signal_Job_Properties Oms_Models
begin

text \<open>
  \<open>services/worker_pool.py\<close>: what a worker does with a job it has claimed, and the sweeps of the reclaimer over
  baskets and orders (\<open>reap_stale_executing\<close> of \<open>db/repositories/basket_repository.py\<close>, \<open>reap_stale_orders\<close> of
  \<open>db/repositories/order_repository.py\<close>).

  Every write of a worker is its own transaction. What others do to the queue before the \<open>n\<close>-th write is
  \<open>we_other n\<close>; the writes of a run are returned as pairs of the table before and after. The answer of the order
  manager, the tables read after an exception and the readings of the session clock are inputs.
\<close>

section \<open>A claimed job\<close>

text \<open>The answer of \<open>process_signal_execution\<close>: nothing, the outcomes of a fan-out with its two flags, or an exception.\<close>

datatype worker_execution =
    ExecutionNone
  | Execution "account_execution_outcome list" bool bool
  | ExecutionRaised string

record worker_env =
  we_now :: "nat \<Rightarrow> datetime"
  we_lease :: timedelta
  we_other :: "nat \<Rightarrow> queue_db \<Rightarrow> queue_db"
  we_lost_waiting :: bool
  we_lost :: bool
  we_parse_error :: "string option"
  we_emergency :: bool
  we_gate :: "bool result"
  we_close :: "nat \<Rightarrow> datetime option result"
  we_buffer :: int
  we_ref_price :: "decimal option"
  we_execution :: worker_execution
  we_reject_text :: string
  we_tables :: "((string \<times> string) list \<times> claim_table) option"

type_synonym queue_writes = "(queue_db \<times> queue_db) list"

definition write_status ::
  "worker_env \<Rightarrow> string \<Rightarrow> signal_job \<Rightarrow> nat \<Rightarrow> job_status \<Rightarrow> string option \<Rightarrow> queue_db \<Rightarrow> bool \<times> queue_writes \<times> queue_db" where
  "write_status env worker job n status error db =
     (let d = we_other env n db in
      case update_status (we_now env n) (j_id job) status error (Some worker) True (we_lease env) d of
        Inl _ \<Rightarrow> (False, [], d)
      | Inr (rows, d') \<Rightarrow> (rows \<noteq> 0, [(d, d')], d'))"

definition write_parked :: "worker_env \<Rightarrow> string \<Rightarrow> signal_job \<Rightarrow> nat \<Rightarrow> datetime option \<Rightarrow> queue_db \<Rightarrow> queue_writes \<times> queue_db" where
  "write_parked env worker job n close db =
     (let d = we_other env n db;
          d' = snd (park_red_zone (we_now env n) (j_id job) worker ''RED_ZONE_DEFERRED'' (we_ref_price env) close
                      (we_buffer env) 0 d)
      in ([(d, d')], d'))"

text \<open>The gate before the order manager is asked: \<open>None\<close> when the job goes on, also when the clock raises.\<close>

definition worker_gate :: "worker_env \<Rightarrow> datetime option option" where
  "worker_gate env =
     (if we_emergency env then None
      else (case we_gate env of
              Inr True \<Rightarrow> (case we_close env 1 of Inr close \<Rightarrow> Some close | Inl _ \<Rightarrow> None)
            | _ \<Rightarrow> None))"

definition execution_incomplete :: string where "execution_incomplete = ''Execution incomplete''"

definition fanout_error :: string where
  "fanout_error = ''Unexpected error during multi-account fan-out; reconciliation required.''"

definition settled_status :: "worker_env \<Rightarrow> account_execution_outcome list \<Rightarrow> bool \<Rightarrow> job_status \<times> string option" where
  "settled_status env outs unexpected =
     (if unexpected then (JOB_RECOVERY_REQUIRED, Some fanout_error)
      else if fanout_all_rejected outs then (JOB_REJECTED, Some (we_reject_text env))
      else if \<not> fanout_success outs
      then (JOB_FAILED, Some (case fanout_error_message outs of Some (c # cs) \<Rightarrow> c # cs | _ \<Rightarrow> execution_incomplete))
      else (JOB_COMPLETED, None))"

definition raised_status :: "worker_env \<Rightarrow> signal_job \<Rightarrow> string \<Rightarrow> job_status \<times> string" where
  "raised_status env job exc =
     (case we_tables env of
        None \<Rightarrow> (JOB_FAILED, exc)
      | Some (orders, t) \<Rightarrow>
          if possibly_submitted orders t job
          then (JOB_RECOVERY_REQUIRED, exc @ '' - '' @ nat_digits (count_orders_emitted orders (j_strategy_id job) (j_signal_id job)) @
                '' order(s) already emitted; reconciliation required.'')
          else (JOB_FAILED, exc))"

text \<open>The answer of the order manager.\<close>

definition finish_job :: "worker_env \<Rightarrow> string \<Rightarrow> signal_job \<Rightarrow> queue_db \<Rightarrow> queue_writes \<times> queue_db" where
  "finish_job env worker job db =
     (case we_execution env of
        Execution outs unexpected deferred \<Rightarrow>
          if deferred
          then (case we_close env 2 of
                  Inl _ \<Rightarrow> ([], db)
                | Inr close \<Rightarrow>
                    (case get_job (j_id job) (we_other env 2 db) of
                       None \<Rightarrow> ([], db)
                     | Some existing \<Rightarrow>
                         if j_status existing \<noteq> JOB_DEFERRED_RED_ZONE then write_parked env worker job 2 close db else ([], db)))
          else if we_lost env then ([], db)
          else (case settled_status env outs unexpected of
                  (st, err) \<Rightarrow> snd (write_status env worker job 2 st err db))
      | ExecutionNone \<Rightarrow> if we_lost env then ([], db) else snd (write_status env worker job 2 JOB_COMPLETED None db)
      | ExecutionRaised exc \<Rightarrow>
          (case (py_contains exc ''RED_ZONE_DEFERRED'', we_close env 2) of
             (True, Inr close) \<Rightarrow> write_parked env worker job 2 close db
           | _ \<Rightarrow> (case raised_status env job exc of
                     (st, err) \<Rightarrow> snd (write_status env worker job 2 st (Some err) db))))"

definition execute_job :: "worker_env \<Rightarrow> string \<Rightarrow> signal_job \<Rightarrow> queue_db \<Rightarrow> queue_writes \<times> queue_db" where
  "execute_job env worker job db =
     (case write_status env worker job 0 JOB_PROCESSING None db of
        (False, w0, db0) \<Rightarrow> (w0, db0)
      | (True, w0, db0) \<Rightarrow>
          (case (case we_parse_error env of
                   Some err \<Rightarrow> snd (write_status env worker job 1 JOB_REJECTED (Some err) db0)
                 | None \<Rightarrow> (case worker_gate env of
                              Some close \<Rightarrow> write_parked env worker job 1 close db0
                            | None \<Rightarrow> finish_job env worker job db0)) of
             (w1, db1) \<Rightarrow> (w0 @ w1, db1)))"

definition process_claimed_job :: "worker_env \<Rightarrow> string \<Rightarrow> signal_job \<Rightarrow> queue_db \<Rightarrow> queue_writes \<times> queue_db" where
  "process_claimed_job env worker job db =
     (if we_lost_waiting env then ([], db) else execute_job env worker job db)"

section \<open>The key of an alert\<close>

text \<open>\<open>compute_idempotency_key\<close> on the text fields of an alert, with the digest and a fresh identifier as arguments.\<close>

record alert_fields =
  al_strategy :: "string option"
  al_strategy_id :: "string option"
  al_trade_id :: "string option"
  al_signal_id :: "string option"
  al_action :: "string option"

definition first_text :: "string option \<Rightarrow> string option \<Rightarrow> string option" where
  "first_text a b = (case a of Some (c # cs) \<Rightarrow> Some (c # cs) | _ \<Rightarrow> b)"

definition ends_with_close :: "string \<Rightarrow> bool" where
  "ends_with_close s \<longleftrightarrow> length s \<ge> 6 \<and> drop (length s - 6) s = '':CLOSE''"

definition compute_idempotency_key ::
  "(string \<Rightarrow> string) \<Rightarrow> string \<Rightarrow> alert_fields \<Rightarrow> string \<times> string \<times> string option \<times> string" where
  "compute_idempotency_key digest fresh p =
     (let strategy_id = normalize_strategy_id (first_text (al_strategy p) (al_strategy_id p));
          trade_id = normalize_trade_id (first_text (al_trade_id p) (al_signal_id p));
          action = py_upper (py_strip (case al_action p of Some x \<Rightarrow> x | None \<Rightarrow> []));
          signal_id = (if action = ''CLOSE'' \<and> trade_id \<noteq> [] \<and> \<not> ends_with_close trade_id then close_id trade_id else trade_id);
          signal_id = (if signal_id = [] then ''SIG-'' @ fresh else signal_id)
      in (strategy_id, signal_id, if trade_id = [] then None else Some trade_id,
          digest (strategy_id @ '':'' @ signal_id @ '':'' @ action)))"

section \<open>Sweeps over baskets and orders\<close>

record reap_basket =
  rb_id :: int
  rb_state :: basket_state
  rb_recovery_status :: "string option"
  rb_updated_at :: datetime

record reap_order =
  ro_basket_id :: "int option"
  ro_status :: string
  ro_fill_qty :: "decimal option"
  ro_updated_at :: datetime

definition fill_or_0 :: "reap_order \<Rightarrow> decimal" where
  "fill_or_0 x = (case ro_fill_qty x of None \<Rightarrow> 0 | Some q \<Rightarrow> q)"

definition reap_stale_executing :: "datetime \<Rightarrow> timedelta \<Rightarrow> reap_order list \<Rightarrow> reap_basket list \<Rightarrow> nat \<times> reap_basket list" where
  "reap_stale_executing now age orders baskets =
     (let stale = (\<lambda>b. rb_state b = B_EXECUTING \<and> rb_updated_at b < now - age \<and>
                       \<not> sum_list (map fill_or_0 (filter (\<lambda>x. ro_basket_id x = Some (rb_id b)) orders)) > 0)
      in (length (filter stale baskets),
          map (\<lambda>b. if stale b then b\<lparr>rb_state := B_CRITICAL, rb_recovery_status := Some ''REAPED'', rb_updated_at := now\<rparr> else b) baskets))"

definition stale_order :: "datetime \<Rightarrow> timedelta \<Rightarrow> reap_order \<Rightarrow> bool" where
  "stale_order now age x \<longleftrightarrow>
     ro_status x \<in> set [''PENDING'', ''SUBMITTED'', ''PARTIALLY_FILLED''] \<and> ro_updated_at x < now - age \<and> fill_or_0 x = 0"

definition reap_order_step :: "datetime \<Rightarrow> reap_order \<Rightarrow> nat \<times> reap_basket list \<Rightarrow> nat \<times> reap_basket list" where
  "reap_order_step now x acc =
     (case acc of (n, baskets) \<Rightarrow>
        (n + 1, map (\<lambda>b. if ro_basket_id x = Some (rb_id b) \<and> rb_state b \<noteq> B_EXECUTING
                         then b\<lparr>rb_state := B_CRITICAL, rb_recovery_status := Some ''ORDER_REAPED'', rb_updated_at := now\<rparr> else b) baskets))"

definition reap_stale_orders :: "datetime \<Rightarrow> timedelta \<Rightarrow> reap_order list \<Rightarrow> reap_basket list \<Rightarrow> nat \<times> reap_basket list" where
  "reap_stale_orders now age orders baskets = fold (reap_order_step now) (filter (stale_order now age) orders) (0, baskets)"

section \<open>Writes are fenced\<close>

definition leased_to :: "string \<Rightarrow> nat \<Rightarrow> signal_job \<Rightarrow> bool" where
  "leased_to worker i j \<longleftrightarrow> j_id j = i \<and> j_worker_id j = Some worker \<and> active j"

text \<open>A write that changes at most the row of the job, and only while the worker holds its lease.\<close>

definition fenced :: "string \<Rightarrow> nat \<Rightarrow> queue_db \<times> queue_db \<Rightarrow> bool" where
  "fenced worker i dd \<longleftrightarrow>
     list_all2 (\<lambda>j j'. j' = j \<or> leased_to worker i j \<and> same_job j' j) (jobs (fst dd)) (jobs (snd dd))"

lemma fenced_map:
  assumes "\<And>j. j \<in> set (jobs d) \<Longrightarrow> f j = j \<or> leased_to worker i j \<and> same_job (f j) j" "jobs d' = map f (jobs d)"
  shows "fenced worker i (d, d')"
  using assms by (simp add: fenced_def list_all2_map2 list_all2_same)

lemma fenced_update:
  assumes "\<And>j. j \<in> set (jobs d) \<Longrightarrow> sel j \<Longrightarrow> leased_to worker i j \<and> same_job (upd j) j"
  shows "fenced worker i (d, snd (update_jobs sel upd d))"
  using assms by (intro fenced_map [of _ "\<lambda>j. if sel j then upd j else j"]) (auto simp: update_jobs_def)

lemma write_status_fenced: "list_all (fenced worker (j_id job)) (fst (snd (write_status env worker job n st err db)))"
proof -
  let ?d = "we_other env n db"
  have "fenced worker (j_id job) (?d, snd (update_jobs (\<lambda>j. j_id j = j_id job \<and> j_worker_id j = Some worker \<and> active j)
      (status_values (we_now env n) st err (Some worker) (we_lease env)) ?d))"
    by (rule fenced_update) (simp add: leased_to_def)
  then show ?thesis by (auto simp: write_status_def update_status_def Let_def split: prod.splits)
qed

lemma park_fenced:
  assumes "ids_ok d"
  shows "fenced worker i (d, snd (park_red_zone now i worker why price close buffer n d))"
proof (cases "\<exists>job. get_job i d = Some job \<and> j_worker_id job = Some worker \<and> active job")
  case False
  then have "snd (park_red_zone now i worker why price close buffer n d) = d"
    by (auto simp: park_red_zone_def split: option.splits)
  then show ?thesis by (simp add: fenced_def list_all2_same)
next
  case True
  then obtain job where job: "get_job i d = Some job" "j_worker_id job = Some worker" "active job" by blast
  have "leased_to worker i j" if "j \<in> set (jobs d)" "j_id j = i" for j
    using ids_ok_inj [OF assms that(1), of job] get_job_Some [OF job(1)] job that by (auto simp: leased_to_def)
  then have "fenced worker i (d, snd (update_jobs (\<lambda>j. j_id j = i) (\<lambda>j. j\<lparr>j_status := JOB_DEFERRED_RED_ZONE, j_deferred_at := Some now,
      j_deferral_reason := Some why, j_reference_price := price, j_resolved_session_close := close, j_applied_buffer_seconds := Some buffer,
      j_deferred_session_count := n, j_worker_id := None, j_lease_expires_at := None, j_last_error := Some why\<rparr>) d))"
    by (intro fenced_update) (simp add: same_job_def)
  then show ?thesis using job by (simp add: park_red_zone_def update_signal_def fenced_def)
qed

definition keeps_ids :: "worker_env \<Rightarrow> bool" where
  "keeps_ids env \<longleftrightarrow> (\<forall>n d. ids_ok d \<longrightarrow> ids_ok (we_other env n d))"

lemma fenced_ids:
  assumes "fenced worker i (d, d')" "ids_ok d"
  shows "ids_ok d'"
proof -
  have "list_all2 (\<lambda>j j'. j_id j = j_id j') (jobs d) (jobs d')"
    using assms(1) unfolding fenced_def by (auto simp: same_job_def elim!: list_all2_mono)
  then have "map j_id (jobs d) = map j_id (jobs d')" by (simp add: list_all2_conv_all_nth list_eq_iff_nth_eq)
  then show ?thesis using assms(2) by (simp add: ids_ok_def)
qed

lemma write_status_ids:
  assumes "ids_ok db" "keeps_ids env"
  shows "ids_ok (snd (snd (write_status env worker job n st err db)))"
proof -
  have "ids_ok (we_other env n db)" using assms by (simp add: keeps_ids_def)
  then show ?thesis
    using write_status_fenced [of worker job env n st err db] fenced_ids
    by (auto simp: write_status_def Let_def split: sum.splits prod.splits)
qed

lemma write_parked_fenced:
  assumes "ids_ok db" "keeps_ids env"
  shows "list_all (fenced worker (j_id job)) (fst (write_parked env worker job n close db))"
  using assms park_fenced [of "we_other env n db"] by (simp add: write_parked_def keeps_ids_def Let_def)

lemma finish_job_fenced:
  assumes "ids_ok db" "keeps_ids env"
  shows "list_all (fenced worker (j_id job)) (fst (finish_job env worker job db))"
  using write_parked_fenced [OF assms] write_status_fenced
  by (auto simp: finish_job_def split: worker_execution.splits sum.splits option.splits prod.splits bool.splits)

section \<open>What becomes of a leased job\<close>

definition keeps_leased :: "worker_env \<Rightarrow> string \<Rightarrow> nat \<Rightarrow> bool" where
  "keeps_leased env worker i \<longleftrightarrow>
     (\<forall>n d j. get_job i d = Some j \<and> leased_to worker i j \<longrightarrow> get_job i (we_other env n d) = Some j)"

lemma get_job_after_update:
  assumes "get_job i d = Some j" "sel j" "\<And>k. j_id (upd k) = j_id k"
  shows "get_job i (snd (update_jobs sel upd d)) = Some (upd j)"
proof -
  have "j_id (if sel k then upd k else k) = j_id k" for k using assms(3) by simp
  from find_map_same [of "\<lambda>k. j_id k = i" "\<lambda>k. if sel k then upd k else k"] this
  have "find (\<lambda>k. j_id k = i) (map (\<lambda>k. if sel k then upd k else k) (jobs d)) =
      map_option (\<lambda>k. if sel k then upd k else k) (find (\<lambda>k. j_id k = i) (jobs d))" by simp
  then show ?thesis using assms(1,2) by (simp add: get_job_def update_jobs_def)
qed

lemma write_status_get:
  assumes "get_job (j_id job) db = Some j" "leased_to worker (j_id job) j" "keeps_leased env worker (j_id job)"
  shows "\<exists>d d'. write_status env worker job n st err db = (True, [(d, d')], d') \<and>
    get_job (j_id job) d' = Some (status_values (we_now env n) st err (Some worker) (we_lease env) j)"
proof -
  let ?sel = "\<lambda>k. j_id k = j_id job \<and> j_worker_id k = Some worker \<and> active k" and ?d = "we_other env n db"
  have g: "get_job (j_id job) ?d = Some j" using assms by (simp add: keeps_leased_def)
  have sel: "?sel j" using assms(2) by (simp add: leased_to_def)
  have "j \<in> set (filter ?sel (jobs ?d))" using get_job_Some [OF g] sel by auto
  then have "length (filter ?sel (jobs ?d)) \<noteq> 0" by (metis length_0_conv list.set(1) empty_iff)
  moreover have "get_job (j_id job) (snd (update_jobs ?sel (status_values (we_now env n) st err (Some worker) (we_lease env)) ?d)) =
      Some (status_values (we_now env n) st err (Some worker) (we_lease env) j)"
    by (rule get_job_after_update [where sel = ?sel, OF g sel]) (metis same_job_def status_values_fields(2))
  ultimately show ?thesis by (simp add: write_status_def update_status_def update_jobs_def Let_def)
qed

lemma write_parked_get:
  assumes "get_job (j_id job) db = Some j" "leased_to worker (j_id job) j" "keeps_leased env worker (j_id job)"
  shows "\<exists>j'. get_job (j_id job) (snd (write_parked env worker job n close db)) = Some j' \<and> j_status j' = JOB_DEFERRED_RED_ZONE"
proof -
  let ?d = "we_other env n db"
  have g: "get_job (j_id job) ?d = Some j" using assms by (simp add: keeps_leased_def)
  have get_signal: "get_job i (update_signal key f d) = get_job i d" for i key f d by (simp add: get_job_def update_signal_def)
  have "\<not> (j_worker_id j \<noteq> Some worker \<or> \<not> active j)" using assms(2) by (simp add: leased_to_def)
  then show ?thesis using g get_job_Some [OF g]
    by (simp add: write_parked_def park_red_zone_def Let_def get_signal get_job_after_update [OF g])
qed

lemma processing_leased:
  "leased_to worker i j \<Longrightarrow> leased_to worker i (status_values now JOB_PROCESSING err (Some worker) lease j)"
  by (auto simp: leased_to_def active_def ACTIVE_LEASE_STATUSES_def status_values_def Let_def split: option.splits)

text \<open>C25. A worker writes only while it holds the lease. Whatever other workers and the reclaimer do between its
  transactions, each of its at most two writes changes no row but that of its job, and that only if at this moment
  the row is leased to it; when the first write is refused nothing else is written.\<close>

theorem worker_writes_fenced:
  assumes "ids_ok db" "keeps_ids env" "process_claimed_job env worker job db = (writes, db')"
  shows "list_all (fenced worker (j_id job)) writes \<and> length writes \<le> 2 \<and>
    (list_all (\<lambda>j. \<not> leased_to worker (j_id job) j) (jobs (we_other env 0 db)) \<longrightarrow>
       length writes \<le> 1 \<and> list_all (\<lambda>dd. jobs (snd dd) = jobs (fst dd)) writes)"
proof (cases "we_lost_waiting env")
  case True
  then show ?thesis using assms(3) by (simp add: process_claimed_job_def)
next
  case False
  obtain ok w0 db0 where s: "write_status env worker job 0 JOB_PROCESSING None db = (ok, w0, db0)" by (metis prod_cases3)
  have w0: "list_all (fenced worker (j_id job)) w0" "ids_ok db0"
    using write_status_fenced [of worker job env 0 JOB_PROCESSING None db] write_status_ids [OF assms(1,2), of worker job 0 JOB_PROCESSING None] s
    by simp_all
  have one: "length (fst (snd (write_status env worker job n st err d))) \<le> 1" "length (fst (write_parked env worker job n close d)) \<le> 1" for n st err d close
    by (auto simp: write_status_def write_parked_def Let_def split: sum.splits prod.splits)
  have f: "list_all (fenced worker (j_id job)) (fst (finish_job env worker job db0))" "length (fst (finish_job env worker job db0)) \<le> 1"
    using finish_job_fenced [OF w0(2) assms(2)] one
    by (auto simp: finish_job_def split: worker_execution.splits sum.splits option.splits prod.splits bool.splits)
  define rest where "rest = (case we_parse_error env of
      Some err \<Rightarrow> snd (write_status env worker job 1 JOB_REJECTED (Some err) db0)
    | None \<Rightarrow> (case worker_gate env of
                 Some close \<Rightarrow> write_parked env worker job 1 close db0 | None \<Rightarrow> finish_job env worker job db0))"
  have r: "list_all (fenced worker (j_id job)) (fst rest)" "length (fst rest) \<le> 1"
    using f one write_status_fenced [of worker job env 1] write_parked_fenced [OF w0(2) assms(2)]
    by (auto simp: rest_def split: option.splits)
  have run: "(writes, db') = (if ok then (w0 @ fst rest, snd rest) else (w0, db0))"
    using assms(3) False s by (auto simp: process_claimed_job_def execute_job_def rest_def split: prod.splits)
  have len: "length w0 \<le> 1" using one(1) [of 0 JOB_PROCESSING None db] s by simp
  have refused: "\<not> ok \<and> list_all (\<lambda>dd. jobs (snd dd) = jobs (fst dd)) w0"
    if free: "list_all (\<lambda>j. \<not> leased_to worker (j_id job) j) (jobs (we_other env 0 db))"
  proof -
    have none: "\<not> (j_id j = j_id job \<and> j_worker_id j = Some worker \<and> active j)" if "j \<in> set (jobs (we_other env 0 db))" for j
      using free that by (auto simp: list_all_iff leased_to_def)
    then have "filter (\<lambda>j. j_id j = j_id job \<and> j_worker_id j = Some worker \<and> active j) (jobs (we_other env 0 db)) = []"
      by (simp add: filter_empty_conv)
    moreover have "map (\<lambda>j. if j_id j = j_id job \<and> j_worker_id j = Some worker \<and> active j
        then status_values (we_now env 0) JOB_PROCESSING None (Some worker) (we_lease env) j else j) (jobs (we_other env 0 db)) =
        jobs (we_other env 0 db)"
      using none by (intro map_idI) auto
    ultimately show ?thesis using s by (auto simp: write_status_def update_status_def update_jobs_def Let_def)
  qed
  show ?thesis using run w0 r len refused by (auto split: if_splits)
qed

definition settled_well :: "worker_env \<Rightarrow> signal_job \<Rightarrow> signal_job \<Rightarrow> bool" where
  "settled_well env job j' \<longleftrightarrow>
     (active j' \<longrightarrow> (\<exists>outs u e. we_execution env = Execution outs u True \<and> we_close env 2 = Inl e)) \<and>
     (j_status j' = JOB_COMPLETED \<longrightarrow>
        we_execution env = ExecutionNone \<or> (\<exists>outs. we_execution env = Execution outs False False \<and> fanout_success outs)) \<and>
     (\<forall>exc orders t. we_parse_error env = None \<and> worker_gate env = None \<and> we_execution env = ExecutionRaised exc \<and>
        \<not> py_contains exc ''RED_ZONE_DEFERRED'' \<and> we_tables env = Some (orders, t) \<and> possibly_submitted orders t job \<longrightarrow>
        j_status j' = JOB_RECOVERY_REQUIRED)"

lemma not_active: "j_status x \<in> {JOB_REJECTED, JOB_DEFERRED_RED_ZONE, JOB_FAILED, JOB_RECOVERY_REQUIRED, JOB_COMPLETED} \<Longrightarrow> \<not> active x"
  by (auto simp: active_def ACTIVE_LEASE_STATUSES_def)

lemma write_status_leased:
  assumes "get_job (j_id job) db = Some j" "leased_to worker (j_id job) j" "keeps_leased env worker (j_id job)"
  obtains j' where "get_job (j_id job) (snd (snd (write_status env worker job n st err db))) = Some j'" "j_status j' = st"
  using write_status_get [OF assms, of n st err] by fastforce

lemma finish_raised_settles:
  assumes "get_job (j_id job) db = Some j" "leased_to worker (j_id job) j" "keeps_leased env worker (j_id job)"
    and exc: "we_execution env = ExecutionRaised exc"
  shows "\<exists>j'. get_job (j_id job) (snd (finish_job env worker job db)) = Some j' \<and> settled_well env job j'"
proof (cases "py_contains exc ''RED_ZONE_DEFERRED'' \<and> (\<exists>close. we_close env 2 = Inr close)")
  case True
  then show ?thesis using exc write_parked_get [OF assms(1-3), of 2] not_active by (force simp: finish_job_def settled_well_def)
next
  case False
  obtain st err where se: "raised_status env job exc = (st, err)" by (metis surj_pair)
  have fin: "finish_job env worker job db = snd (write_status env worker job 2 st (Some err) db)"
    using exc False se by (auto simp: finish_job_def split: bool.splits sum.splits)
  have st: "st \<in> {JOB_FAILED, JOB_RECOVERY_REQUIRED}"
    "\<And>orders t. we_tables env = Some (orders, t) \<Longrightarrow> possibly_submitted orders t job \<Longrightarrow> st = JOB_RECOVERY_REQUIRED"
    using se by (auto simp: raised_status_def split: option.splits if_splits)
  obtain j' where "get_job (j_id job) (snd (finish_job env worker job db)) = Some j'" "j_status j' = st"
    unfolding fin by (rule write_status_leased [OF assms(1-3)])
  then show ?thesis using st not_active [of j'] exc by (auto simp: settled_well_def)
qed

lemma finish_job_settles:
  assumes leased: "get_job (j_id job) db = Some j" "leased_to worker (j_id job) j" "keeps_leased env worker (j_id job)"
    and "j_status j = JOB_PROCESSING" "\<not> we_lost env"
  shows "\<exists>j'. get_job (j_id job) (snd (finish_job env worker job db)) = Some j' \<and> settled_well env job j'"
proof (cases "we_execution env")
  case ExecutionNone
  obtain j' where "get_job (j_id job) (snd (snd (write_status env worker job 2 JOB_COMPLETED None db))) = Some j'" "j_status j' = JOB_COMPLETED"
    by (rule write_status_leased [OF leased])
  then show ?thesis using ExecutionNone assms(5) not_active [of j'] by (auto simp: finish_job_def settled_well_def)
next
  case (Execution outs u deferred)
  show ?thesis
  proof (cases deferred)
    case False
    obtain st err where se: "settled_status env outs u = (st, err)" by (metis surj_pair)
    then have st: "st \<in> {JOB_REJECTED, JOB_FAILED, JOB_RECOVERY_REQUIRED, JOB_COMPLETED}"
      "st = JOB_COMPLETED \<Longrightarrow> \<not> u \<and> fanout_success outs"
      by (auto simp: settled_status_def split: if_splits)
    obtain j' where "get_job (j_id job) (snd (snd (write_status env worker job 2 st err db))) = Some j'" "j_status j' = st"
      by (rule write_status_leased [OF leased])
    then show ?thesis using st se Execution False assms(5) not_active [of j'] by (auto simp: finish_job_def settled_well_def)
  next
    case True
    have "get_job (j_id job) (we_other env 2 db) = Some j" using leased by (simp add: keeps_leased_def)
    then show ?thesis using Execution True leased assms(4) write_parked_get [OF leased, of 2] not_active
      by (cases "we_close env 2") (force simp: finish_job_def settled_well_def)+
  qed
qed (rule finish_raised_settles [OF leased])


section \<open>Samples\<close>

definition worker_sample_db :: queue_db where
  "worker_sample_db = \<lparr>jobs = [claim_row ''worker-1'' 5 (seconds 30) (sample_job 1 ''T1''), sample_job 2 ''T2''], signals = Map.empty\<rparr>"

definition worker_sample_env :: worker_env where
  "worker_sample_env =
     \<lparr>we_now = (\<lambda>n. 6 + int n), we_lease = seconds 30, we_other = (\<lambda>n d. d), we_lost_waiting = False, we_lost = False, we_parse_error = None,
      we_emergency = False, we_gate = Inr False, we_close = (\<lambda>n. Inr None), we_buffer = 300, we_ref_price = None,
      we_execution = ExecutionRaised ''broker went away'', we_reject_text = ''rejected'',
      we_tables = Some ([(''model_blue'', ''T1'')], [])\<rparr>"

lemma worker_sample_quiet: "keeps_ids worker_sample_env" "keeps_leased worker_sample_env w i"
  by (simp_all add: keeps_ids_def keeps_leased_def worker_sample_env_def)

theorem worker_writes_fenced_witness:
  "list_all (fenced ''worker-1'' 1) (fst (process_claimed_job worker_sample_env ''worker-1'' (sample_job 1 ''T1'') worker_sample_db)) \<and>
   length (fst (process_claimed_job worker_sample_env ''worker-1'' (sample_job 1 ''T1'') worker_sample_db)) = 2"
proof -
  have ids: "ids_ok worker_sample_db" by (simp add: ids_ok_def worker_sample_db_def claim_row_def sample_job_def)
  have "length (fst (process_claimed_job worker_sample_env ''worker-1'' (sample_job 1 ''T1'') worker_sample_db)) = 2" by code_simp
  moreover have "j_id (sample_job 1 ''T1'') = 1" by (simp add: sample_job_def)
  ultimately show ?thesis
    using worker_writes_fenced [OF ids worker_sample_quiet(1) prod.collapse [symmetric], of "''worker-1''" "sample_job 1 ''T1''"] by simp
qed


section \<open>Where the sweeps go wrong\<close>

text \<open>An order that was never updated keeps its basket critical: a basket that a recovery has released is made critical
  again by the next sweep.\<close>

lemma reaper_undoes_recovery:
  assumes "stale_order now age x" "ro_basket_id x = Some (rb_id b)" "rb_state b = B_RECOVERED"
  shows "map rb_state (snd (reap_stale_orders now age [x] [b])) = [B_CRITICAL]"
  using assms by (simp add: reap_stale_orders_def reap_order_step_def)

text \<open>When the tables cannot be read after an exception the job is failed, whatever was emitted.\<close>

lemma unread_tables_fail: "we_tables env = None \<Longrightarrow> fst (raised_status env job exc) = JOB_FAILED"
  by (simp add: raised_status_def)

end
