(* ===== verification/Spec2Isabelle.thy ===== *)
theory Spec2Isabelle
  imports
    Rms_Properties Rate_Limiter_Properties
    Notification_Properties Watchdog_Properties Safety_Gates
    Risk_Exit Flatten Instance_Credit
    Coordinator_Properties Persist_Coalescer Basket_Recovery
    Red_Zone_Release Model_Blue_Properties Order_Manager_Properties Trading_Pause
    Manual_Trading Manual_Callbacks Kill_Switch_Gate Kill_Switch_Properties Position_Reconciler_Properties
    Critical_Recovery Risk_Monitor_Properties Worker_Pool
begin

text \<open>
  Verification of the IBKR paper trading system.

  \<^bold>\<open>The program.\<close> A backend in Python (\<open>src/backend/app\<close>) receives alerts of trading strategies, checks them against the
  limits of every account they are routed to, and trades pairs of instruments through the Interactive Brokers
  gateway. A signal becomes a row of a durable job queue; a worker leases it; the order manager routes it to
  accounts, builds the intent, runs the risk checks, raises the execution barrier and hands the basket to the
  coordinator; the coordinator sends one order per leg, waits for fills, retries what is missing and unwinds what
  stays incomplete; fills are booked on the pair ledger and on the books the risk checks read. Beside this path
  are manual trading with its own ledger, the kill switch and the pause of an account, the rules that close
  positions on profit or loss, the reconciliation of the ledgers with the broker, the recovery of failed baskets,
  the limiter of messages to the gateway, and a watchdog process that supervises the services.

  \<^bold>\<open>Conventions.\<close> A class or a table row is a record, an enumeration a datatype, a table the list of its rows. Amounts
  (\<open>Decimal\<close> and \<open>float\<close>) are exact rationals, Python's integers are \<open>int\<close>, text is \<open>string\<close>, a moment is the number of
  microseconds and a date its year, month and day. A raised exception is the left side of a sum type, with the
  message where a caller looks at it. A database transaction is one step: where the code has several, the model
  has several functions and other requests may run in between. What the program reads from outside (clock, broker,
  HTTP answers, files) is an argument: a record of answers, or a function of the number of the reading when there
  are many. Code outside the repository (exchange calendars, time zone conversion, the gateway) is a parameter;
  what is assumed of it is a named hypothesis of the theorem that needs it (\<open>honest_broker\<close>). Log lines, event rows
  and texts for the operator are left out unless a decision depends on them.

  \<^bold>\<open>Theories.\<close> Paths are relative to \<open>src/backend/app\<close>.

  \<^item> \<open>Prelude\<close>: numbers, text functions of the standard library, calendar, results, shared lemmas.
    \<open>Identifiers\<close>: \<open>core/identifiers.py\<close>; normalisation is idempotent and ignores case and surrounding space.
  \<^item> Risk management, \<open>rms/\<close>. \<open>Rms_Models\<close>, \<open>Margin_Estimate\<close>, \<open>Rms_Checks\<close> and \<open>Rms_Engine\<close> are the data, the margin
    arithmetic, the seven checks and the loop of the engine. \<open>Rms_Contracts\<close> states what a check promises as the
    locales \<open>rms_check\<close> and \<open>rms_open_check\<close>, with an interpretation per check; the engine is their client in
    \<open>rms_pipeline\<close> and \<open>rms_open_pipeline\<close>, interpreted on the default list. \<open>Rms_Properties\<close>: an OPEN is accepted
    exactly under the seven declarative conditions, a CLOSE is never refused.
  \<^item> Strategy. \<open>Model_Blue\<close> (routing of \<open>accounts/\<close>, sizer and intents of \<open>services/model_blue/\<close>), \<open>Instruments\<close>
    (\<open>instruments/\<close>: catalogue and resolution), \<open>Position_Ledger\<close> (\<open>db/repositories/position_repository.py\<close> and
    \<open>services/model_blue/persistence.py\<close>), \<open>Trade_Book\<close> (the protocol as locale \<open>trade_book\<close>, interpreted on the
    dictionary and on the ledger), \<open>Runtime_Books\<close> (the risk context kept by the order manager),
    \<open>Model_Blue_Properties\<close>: bounds of the sizes, a close reverses its open, the result that is booked.
  \<^item> Orders. \<open>Oms_Models\<close>, \<open>Oms_Service\<close>, \<open>Coordinator\<close>, \<open>Basket_Recovery\<close>, \<open>Persist_Coalescer\<close> are \<open>oms/\<close>.
    \<open>Coordinator_Properties\<close>: the outcomes of a basket, retries never overfill a leg, a compensated basket leaves no
    exposure. \<open>Persist_Coalescer\<close>: merged writes lose no execution.
  \<^item> Durable work. \<open>Execution_Claims\<close> (\<open>db/repositories/execution_claim_repository.py\<close>) refines the abstract barrier of
    locale \<open>once_barrier\<close>. \<open>Signal_Jobs\<close> and \<open>Signal_Job_Properties\<close> (\<open>db/repositories/signal_repository.py\<close>,
    \<open>services/recovery.py\<close>): one lease per trade under concurrent claims, submitted work is never queued again.
    \<open>Worker_Pool\<close> (\<open>services/worker_pool.py\<close>): the writes of a worker are fenced by its lease, and what becomes of a job.
    \<open>Session_Clock\<close> and \<open>Red_Zone_Release\<close>: trading days, the red zone before the close, release of deferred jobs.
  \<^item> \<open>Order_Manager\<close> and \<open>Order_Manager_Properties\<close> (\<open>services/order_manager.py\<close>) compose the above: nothing reaches the
    broker before every gate has passed and the barrier is up, at most once per trade and account, the risk
    books follow the ledger, and one account of a fan-out cannot stop another.
  \<^item> Closing. \<open>Risk_Exit\<close> (\<open>services/risk_exit_rules.py\<close>, locale \<open>pnl_guard\<close> for pair and account thresholds), \<open>Flatten\<close>
    (\<open>services/flatten_inflight.py\<close>, \<open>services/broker_flatten_service.py\<close>, locale \<open>exclusion\<close> interpreted on the registry).
    \<open>Risk_Monitor\<close> and \<open>Risk_Monitor_Properties\<close> (\<open>services/position_close_service.py\<close>, \<open>services/risk_exit_monitor.py\<close>,
    \<open>services/loss_threshold_monitor.py\<close>): what a tick requests, how often a close is tried, what a close books.
  \<^item> Gates of an account. \<open>Gate_Cache\<close> is the contract \<open>armed_gate\<close> of a gate read from memory and recorded in the
    database; \<open>Trading_Pause\<close> and \<open>Kill_Switch_Gate\<close> interpret it. \<open>Kill_Switch\<close>, \<open>Kill_Switch_Flatten\<close> and
    \<open>Kill_Switch_Manual\<close> are \<open>services/kill_switch.py\<close>; \<open>Kill_Switch_Gate\<close> runs all of it as events over time: an armed
    account stays shut until it is cleared. \<open>Kill_Switch_Properties\<close>: what COMPLETE says about the ledgers, how an
    account flatten is allocated, what the flatten of a position sends, and that a manual flatten is sent once.
  \<^item> Manual trading. \<open>Manual_Ledger\<close> (\<open>db/repositories/manual_repository.py\<close>) keeps a double-entry balance;
    \<open>Manual_Trading\<close> (\<open>services/manual_trading.py\<close>, \<open>services/manual_recovery.py\<close>) sends a key at most once;
    \<open>Manual_Callbacks\<close> (\<open>services/manual_callbacks.py\<close>): statuses only move forward and fills are booked once, in
    any order of arrival.
  \<^item> Agreement with the broker. \<open>Position_Reconciler\<close> and \<open>Position_Reconciler_Properties\<close>
    (\<open>services/position_reconciler.py\<close>): a sweep without a mismatch means that the books agree; an alert is raised
    and withdrawn by a description of the history. \<open>Critical_Recovery\<close> (\<open>services/critical_recovery.py\<close>): the latch on
    opening is released only on evidence; contracts read back from their text.
  \<^item> Gateway and supervision. \<open>Rate_Limiter\<close> and \<open>Rate_Limiter_Properties\<close> (\<open>broker/ibkr/gateway_rate_limiter.py\<close>, locale
    \<open>token_bucket\<close>): the rate bound, the emergency reserve, and that every waiting call ends. \<open>Watchdog_State\<close>,
    \<open>Notification_Queue\<close>, \<open>Recovery_Store\<close>, \<open>Watchdog_Daemon\<close>, \<open>Safety_Gates\<close> with \<open>Watchdog_Properties\<close> and
    \<open>Notification_Properties\<close> (\<open>services/watchdog/\<close>, locale \<open>flow_store\<close>): recovery budget and accounting of messages.
    \<open>Instance_Credit\<close>: \<open>services/instance_credit/calculation.py\<close>.

  \<^bold>\<open>Loops and bounds.\<close> Loops over data are structural recursion. The retries of a basket recurse on the attempts left,
  which start at \<open>max_retries\<close>, so no attempt the code makes is cut off. Claiming jobs recurses on the limit plus the number of
  rows, which is proved to be enough. The recovery of a basket makes \<open>MAX_RECOVERY_ATTEMPTS\<close> attempts, as the code
  does. A waiting call of the limiter runs round by round with a deadline, and its end is a theorem. Searches for
  trading days are bounded as in the code. Concurrency is explicit: interleaved steps for the flatten registry,
  the pause, the coalescer and the queue; other transactions between two statements are arguments for the barrier
  and for manual submission; the concurrent flattens of one kill-switch operation are taken one after the other.

  \<^bold>\<open>Not modelled.\<close> Socket and callback plumbing of the gateway (\<open>broker/ibkr/tws_client.py\<close>, \<open>oms/ibkr_adapter.py\<close>, market
  data, \<open>services/pnl.py\<close>): their answers are the inputs above. Routes and schemas of the HTTP interface, database
  sessions and migrations: they parse, call the services and serialise. The margin scanner, the parsers of alert texts, broker alignment, the health probes and messages
  of the watchdog, the frontend, the streaming demo, the prototype and the scripts for operators. Rounding of
  floating-point numbers and the precision of \<open>Decimal\<close> are not modelled; comparisons with a tolerance are exact.
\<close>

end
